(* ===== verification/Prelude.thy ===== *)
theory Prelude
  imports Complex_Main "HOL-Library.Word" "HOL-Library.Signed_Division" "HOL-Library.List_Lexorder"
    "HOL-Library.Char_ord" "HOL-Library.Option_ord"
begin

text \<open>
  Shared vocabulary of the development: fallible results, Go errors and their
  wrapping, 64-bit integers, Go times and the SQLite text columns that hold
  them, and SQL tables as lists of rows with a key.  The generic lemmas on
  tables are what the store theories use for every \<open>UPDATE ... WHERE id = ?\<close>.
\<close>

section \<open>Collections of rewrite rules\<close>

named_theorems sql_simps \<open>what SQL statements do to a table\<close>
named_theorems time_simps \<open>conversions between Go times and text columns\<close>
named_theorems err_simps \<open>errors and the results that carry them\<close>

section \<open>Results\<close>

type_synonym ('e, 'a) result = "'e + 'a"

abbreviation Err :: "'e \<Rightarrow> ('e, 'a) result" where "Err \<equiv> Inl"
abbreviation Ok :: "'a \<Rightarrow> ('e, 'a) result" where "Ok \<equiv> Inr"

fun is_ok :: "('e, 'a) result \<Rightarrow> bool" where
  "is_ok (Inr _) = True"
| "is_ok (Inl _) = False"

lemma is_ok_iff: "is_ok r \<longleftrightarrow> (\<exists>v. r = Inr v)"
  by (cases r) auto

section \<open>Signed 64-bit integers\<close>

text \<open>Go's \<open>int\<close> and \<open>int64\<close> wrap around; \<open>wrap64\<close> is the value the
  machine keeps of a mathematical integer.  Go's division truncates toward
  zero, which is \<open>sdiv\<close>.\<close>

definition wrap64 :: "int \<Rightarrow> int" where
  "wrap64 x = sint (word_of_int x :: 64 word)"

definition int64_range :: "int \<Rightarrow> bool" where
  "int64_range x \<longleftrightarrow> - (2 ^ 63) \<le> x \<and> x < 2 ^ 63"

lemma wrap64_alt: "wrap64 x = signed_take_bit 63 x"
  by (simp add: wrap64_def sint_sbintrunc')

lemma wrap64_id: "int64_range x \<Longrightarrow> wrap64 x = x"
  unfolding wrap64_alt int64_range_def
  by (rule signed_take_bit_int_eq_self) simp_all

lemma wrap64_range: "int64_range (wrap64 x)"
  unfolding wrap64_alt int64_range_def
  using signed_take_bit_int_greater_eq_minus_exp [of 63 x] signed_take_bit_int_less_exp [of 63 x]
  by simp

lemma wrap64_idem [simp]: "wrap64 (wrap64 x) = wrap64 x"
  by (simp add: wrap64_alt)

lemma wrap64_small: "\<bar>x\<bar> < 2 ^ 62 \<Longrightarrow> wrap64 x = x"
  by (rule wrap64_id) (auto simp: int64_range_def)

definition wrap32 :: "int \<Rightarrow> int" where
  "wrap32 x = sint (word_of_int x :: 32 word)"

section \<open>Errors\<close>

text \<open>The sentinel errors of \<open>internal/domain/errors.go\<close>, with the two of
  package \<open>context\<close> and the two of \<open>core/upstream\<close> that the code tests for.  An error
  value is a sentinel, an error wrapped by \<open>fmt.Errorf("...: %w")\<close> or
  \<open>fmt.Errorf("%w: ...")\<close>, a failure of the network
  (\<open>net.Error\<close>), a system call's error number, or any other text.\<close>

datatype sentinel =
    ErrAccountNotFound | ErrNoEligibleAccount | ErrAccountBusy | ErrAccountInsufficient
  | ErrGroupNotFound | ErrGroupQuotaExhausted | ErrGroupConcurrencyMax
  | ErrModelNotFound | ErrModelStarterOnly | ErrModelUltraOnly
  | ErrModelNotAllowed | ErrModelBlocked
  | ErrAPIKeyNotFound | ErrAPIKeyRevoked | ErrAPIKeyPaused | ErrAPIKeyQuotaExceed
  | ErrJobNotFound | ErrUsageEventDuplicate | ErrSettingNotFound | ErrModelOverrideNotFound
  | ErrRegistrarDisabled | ErrRegistrationNotFound
  | ErrUpstreamTimeout | ErrUpstreamRateLimit | ErrUpstreamUnauthorized
  | ErrUpstreamForbidden | ErrUpstreamBadBody | ErrUpstreamServerError
  | DeadlineExceeded | Canceled
  | ErrGiftAlreadyClaimed | ErrGiftActiveSubscription

datatype gerror =
    Sent sentinel
  | Wrap string gerror
  | Noted gerror string
  | NetErr string
  | Errno string
  | Plain string

fun errorsIs :: "gerror \<Rightarrow> sentinel \<Rightarrow> bool" where
  "errorsIs (Sent s) t = (s = t)"
| "errorsIs (Wrap _ e) t = errorsIs e t"
| "errorsIs (Noted e _) t = errorsIs e t"
| "errorsIs (NetErr _) t = False"
| "errorsIs (Errno _) t = False"
| "errorsIs (Plain _) t = False"

section \<open>Times\<close>

text \<open>A \<open>time.Time\<close> is \<open>None\<close> when it is the zero time, and otherwise the
  nanoseconds since the epoch.  A text column holds NULL, the empty string, or
  an RFC 3339 time in UTC with one-second resolution; for the years 0 to 9999,
  which RFC 3339 is limited to, the order of the texts is the order of the
  instants, and the empty text precedes them all.\<close>

type_synonym gotime = "int option"

datatype sqltime = SqlNull | SqlEmpty | SqlAt int

definition nanos :: int where "nanos = 1000000000"

definition fmtTime :: "gotime \<Rightarrow> sqltime" where
  "fmtTime t = (case t of None \<Rightarrow> SqlEmpty | Some ns \<Rightarrow> SqlAt (ns div nanos))"

definition nullableTime :: "gotime \<Rightarrow> sqltime" where
  "nullableTime t = (case t of None \<Rightarrow> SqlNull | Some ns \<Rightarrow> SqlAt (ns div nanos))"

definition parseTime :: "sqltime \<Rightarrow> gotime" where
  "parseTime s = (case s of SqlAt sec \<Rightarrow> Some (sec * nanos) | _ \<Rightarrow> None)"

text \<open>What survives a write and a read: the time cut to whole seconds.\<close>

definition toSecond :: "gotime \<Rightarrow> gotime" where
  "toSecond t = map_option (\<lambda>ns. ns div nanos * nanos) t"

lemma parse_fmtTime [time_simps]: "parseTime (fmtTime t) = toSecond t"
  by (simp add: parseTime_def fmtTime_def toSecond_def split: option.split)

lemma parse_nullableTime [time_simps]: "parseTime (nullableTime t) = toSecond t"
  by (simp add: parseTime_def nullableTime_def toSecond_def split: option.split)

lemma toSecond_idem [simp, time_simps]: "toSecond (toSecond t) = toSecond t"
  by (cases t) (simp_all add: toSecond_def nanos_def)

lemma fmtTime_toSecond [simp, time_simps]: "fmtTime (toSecond t) = fmtTime t"
  by (cases t) (simp_all add: toSecond_def fmtTime_def nanos_def)

text \<open>Comparisons of SQL: false (that is, not true) as soon as a side is NULL.\<close>

fun time_code :: "sqltime \<Rightarrow> int list" where
  "time_code SqlNull = [0, 0]"
| "time_code SqlEmpty = [1, 0]"
| "time_code (SqlAt s) = [2, s]"

fun sql_le :: "sqltime \<Rightarrow> sqltime \<Rightarrow> bool" where
  "sql_le SqlNull _ = False"
| "sql_le _ SqlNull = False"
| "sql_le SqlEmpty _ = True"
| "sql_le (SqlAt _) SqlEmpty = False"
| "sql_le (SqlAt a) (SqlAt b) = (a \<le> b)"

fun sql_lt :: "sqltime \<Rightarrow> sqltime \<Rightarrow> bool" where
  "sql_lt SqlNull _ = False"
| "sql_lt _ SqlNull = False"
| "sql_lt SqlEmpty SqlEmpty = False"
| "sql_lt SqlEmpty (SqlAt _) = True"
| "sql_lt (SqlAt _) SqlEmpty = False"
| "sql_lt (SqlAt a) (SqlAt b) = (a < b)"

text \<open>\<open>ORDER BY\<close> puts NULL first, then the texts in their order.\<close>

instantiation sqltime :: linorder
begin

fun less_eq_sqltime :: "sqltime \<Rightarrow> sqltime \<Rightarrow> bool" where
  "less_eq_sqltime SqlNull _ = True"
| "less_eq_sqltime SqlEmpty SqlNull = False"
| "less_eq_sqltime SqlEmpty _ = True"
| "less_eq_sqltime (SqlAt _) SqlNull = False"
| "less_eq_sqltime (SqlAt _) SqlEmpty = False"
| "less_eq_sqltime (SqlAt a) (SqlAt b) = (a \<le> b)"

definition less_sqltime :: "sqltime \<Rightarrow> sqltime \<Rightarrow> bool" where
  "less_sqltime s t \<longleftrightarrow> s \<le> t \<and> \<not> t \<le> s"

instance
proof
  fix x y z :: sqltime
  show "x < y \<longleftrightarrow> x \<le> y \<and> \<not> y \<le> x" by (rule less_sqltime_def)
  show "x \<le> x" by (cases x) auto
  show "x \<le> y \<Longrightarrow> y \<le> z \<Longrightarrow> x \<le> z"
    by (cases x; cases y; cases z) auto
  show "x \<le> y \<Longrightarrow> y \<le> x \<Longrightarrow> x = y"
    by (cases x; cases y) auto
  show "x \<le> y \<or> y \<le> x"
    by (cases x; cases y) auto
qed

end

lemma sql_le_iff: "sql_le s t \<longleftrightarrow> s \<noteq> SqlNull \<and> t \<noteq> SqlNull \<and> s \<le> t"
  by (cases s; cases t) auto

lemma sql_lt_iff: "sql_lt s t \<longleftrightarrow> s \<noteq> SqlNull \<and> t \<noteq> SqlNull \<and> s < t"
  by (cases s; cases t) (auto simp: less_sqltime_def)

section \<open>Tables\<close>

text \<open>A table is the list of its rows in the order SQLite scans them.\<close>

definition sql_update :: "('r \<Rightarrow> bool) \<Rightarrow> ('r \<Rightarrow> 'r) \<Rightarrow> 'r list \<Rightarrow> 'r list" where
  "sql_update P f rows = map (\<lambda>r. if P r then f r else r) rows"

definition sql_delete :: "('r \<Rightarrow> bool) \<Rightarrow> 'r list \<Rightarrow> 'r list" where
  "sql_delete P rows = filter (\<lambda>r. \<not> P r) rows"

definition rows_affected :: "('r \<Rightarrow> bool) \<Rightarrow> 'r list \<Rightarrow> nat" where
  "rows_affected P rows = length (filter P rows)"

definition find_row :: "('r \<Rightarrow> 'k) \<Rightarrow> 'k \<Rightarrow> 'r list \<Rightarrow> 'r option" where
  "find_row key k rows = find (\<lambda>r. key r = k) rows"

definition keys_of :: "('r \<Rightarrow> 'k) \<Rightarrow> 'r list \<Rightarrow> 'k set" where
  "keys_of key rows = key ` set rows"

lemma find_row_Nil [sql_simps]: "find_row key k [] = None"
  by (simp add: find_row_def)

lemma find_row_Cons [sql_simps]:
  "find_row key k (r # rows) = (if key r = k then Some r else find_row key k rows)"
  by (simp add: find_row_def)

lemma find_row_SomeD: "find_row key k rows = Some r \<Longrightarrow> r \<in> set rows \<and> key r = k"
  by (induction rows) (auto simp: find_row_def split: if_splits)

lemma find_row_None_iff: "find_row key k rows = None \<longleftrightarrow> k \<notin> keys_of key rows"
  by (induction rows) (auto simp: find_row_def keys_of_def)

lemma find_row_NoneD: "find_row key k rows = None \<Longrightarrow> r \<in> set rows \<Longrightarrow> key r \<noteq> k"
  by (auto simp: find_row_None_iff keys_of_def)

lemma distinct_keyD:
  "distinct (map key (a # rows)) \<Longrightarrow> r \<in> set rows \<Longrightarrow> key r \<noteq> key a"
  by (metis distinct.simps(2) image_eqI list.set_map list.simps(9))

lemma distinct_key_none:
  "distinct (map key (a # rows)) \<Longrightarrow> key a = k \<Longrightarrow> r \<in> set rows \<Longrightarrow> key r \<noteq> k"
  using distinct_keyD by metis

lemma find_row_distinct:
  assumes "distinct (map key rows)" "r \<in> set rows"
  shows "find_row key (key r) rows = Some r"
  using assms
proof (induction rows)
  case Nil
  then show ?case by simp
next
  case (Cons a rows)
  show ?case
  proof (cases "r = a")
    case True
    then show ?thesis by (simp add: find_row_Cons)
  next
    case False
    then have "r \<in> set rows" using Cons.prems(2) by simp
    moreover from this have "key a \<noteq> key r"
      using Cons.prems(1) by (metis distinct.simps(2) image_eqI list.set_map list.simps(9))
    ultimately show ?thesis using Cons by (simp add: find_row_Cons)
  qed
qed

lemma rows_affected_0_iff [sql_simps]:
  "rows_affected P rows = 0 \<longleftrightarrow> (\<forall>r \<in> set rows. \<not> P r)"
  by (simp add: rows_affected_def filter_empty_conv)

lemma rows_affected_key_0:
  "rows_affected (\<lambda>r. key r = k) rows = 0 \<longleftrightarrow> find_row key k rows = None"
  by (auto simp: rows_affected_0_iff find_row_None_iff keys_of_def)

lemma rows_affected_Nil [sql_simps]: "rows_affected P [] = 0"
  by (simp add: rows_affected_def)

lemma rows_affected_Cons [sql_simps]:
  "rows_affected P (r # rows) = (if P r then 1 else 0) + rows_affected P rows"
  by (simp add: rows_affected_def)

lemma rows_affected_keyed:
  assumes "distinct (map key rows)"
  shows "rows_affected (\<lambda>r. key r = k \<and> P r) rows =
    (case find_row key k rows of None \<Rightarrow> 0 | Some r \<Rightarrow> (if P r then 1 else 0))"
  using assms
proof (induction rows)
  case Nil
  show ?case by (simp add: sql_simps)
next
  case (Cons a rows)
  show ?case
  proof (cases "key a = k")
    case True
    have "\<forall>r \<in> set rows. key r \<noteq> k" by (intro ballI distinct_key_none [OF Cons.prems True])
    then have "rows_affected (\<lambda>r. key r = k \<and> P r) rows = 0"
      by (simp add: rows_affected_0_iff)
    then show ?thesis using True by (simp add: rows_affected_Cons find_row_Cons)
  next
    case False
    have "distinct (map key rows)" using Cons.prems by simp
    from Cons.IH [OF this] False show ?thesis by (simp add: rows_affected_Cons find_row_Cons)
  qed
qed

lemma rows_affected_le_1:
  assumes "distinct (map key rows)"
  shows "rows_affected (\<lambda>r. key r = k \<and> P r) rows \<le> 1"
  by (simp add: rows_affected_keyed [OF assms] split: option.split)

lemma length_sql_update [simp]: "length (sql_update P f rows) = length rows"
  by (simp add: sql_update_def)

lemma sql_update_Nil [sql_simps]: "sql_update P f [] = []"
  by (simp add: sql_update_def)

lemma sql_update_Cons [sql_simps]:
  "sql_update P f (r # rows) = (if P r then f r else r) # sql_update P f rows"
  by (simp add: sql_update_def)

lemma map_key_sql_update:
  assumes "\<And>r. g (f r) = g r"
  shows "map g (sql_update P f rows) = map g rows"
  by (simp add: sql_update_def assms)

lemma find_row_update_same:
  assumes "\<And>r. key (f r) = key r"
  shows "find_row key k (sql_update (\<lambda>r. key r = k) f rows) = map_option f (find_row key k rows)"
  by (induction rows) (auto simp: sql_simps assms)

lemma find_row_update_gen:
  assumes "\<And>r. key (f r) = key r"
  shows "find_row key k (sql_update P f rows) =
    map_option (\<lambda>r. if P r then f r else r) (find_row key k rows)"
  by (induction rows) (auto simp: sql_simps assms)

lemma sql_update_none: "(\<And>r. r \<in> set rows \<Longrightarrow> \<not> P r) \<Longrightarrow> sql_update P f rows = rows"
  by (induction rows) (auto simp: sql_simps)

lemma sum_list_update_key:
  assumes "distinct (map key rows)" "find_row key k rows = Some r"
  shows "sum_list (map g (sql_update (\<lambda>x. key x = k) f rows)) =
    sum_list (map g rows) + (g (f r) - g r :: int)"
  using assms
proof (induction rows)
  case Nil
  then show ?case by (simp add: find_row_def)
next
  case (Cons a rows)
  show ?case
  proof (cases "key a = k")
    case True
    have "sql_update (\<lambda>x. key x = k) f rows = rows"
      by (intro sql_update_none distinct_key_none [OF Cons.prems(1) True])
    then show ?thesis using Cons.prems(2) True by (simp add: sql_update_Cons find_row_Cons)
  next
    case False
    have d: "distinct (map key rows)" using Cons.prems(1) by simp
    have "find_row key k rows = Some r" using Cons.prems(2) False by (simp add: find_row_Cons)
    from Cons.IH [OF d this] False show ?thesis by (simp add: sql_update_Cons)
  qed
qed

lemma find_row_delete:
  "find_row key k (sql_delete (\<lambda>r. key r = k) rows) = None"
  by (auto simp: find_row_None_iff keys_of_def sql_delete_def)

lemma find_row_delete_other:
  "k \<noteq> k' \<Longrightarrow> find_row key k (sql_delete (\<lambda>r. key r = k') rows) = find_row key k rows"
  by (induction rows) (auto simp: sql_delete_def sql_simps)

lemma find_row_append:
  "find_row key k (xs @ ys) = (case find_row key k xs of Some r \<Rightarrow> Some r | None \<Rightarrow> find_row key k ys)"
  by (induction xs) (auto simp: sql_simps)

lemma distinct_keys_delete:
  "distinct (map key rows) \<Longrightarrow> distinct (map key (sql_delete P rows))"
  by (simp add: sql_delete_def distinct_map_filter)

section \<open>Numbers as text\<close>

definition digit_char :: "nat \<Rightarrow> char" where "digit_char n = ''0123456789'' ! (n mod 10)"

definition digit_val :: "char \<Rightarrow> nat option" where
  "digit_val c = (if c \<in> set ''0123456789'' then Some (of_char c - 48) else None)"

fun itoa_nat :: "nat \<Rightarrow> string" where
  "itoa_nat n = (if n < 10 then [digit_char n] else itoa_nat (n div 10) @ [digit_char (n mod 10)])"

declare itoa_nat.simps [simp del]

definition itoa :: "int \<Rightarrow> string" where
  "itoa i = (if i < 0 then CHR ''-'' # itoa_nat (nat (- i)) else itoa_nat (nat i))"

fun digits_val :: "nat \<Rightarrow> string \<Rightarrow> nat option" where
  "digits_val acc [] = Some acc"
| "digits_val acc (c # cs) = (case digit_val c of None \<Rightarrow> None | Some d \<Rightarrow> digits_val (acc * 10 + d) cs)"

text \<open>\<open>strconv.Atoi\<close>: an optional sign, at least one digit, a value that fits int64.\<close>

definition atoi :: "string \<Rightarrow> int option" where
  "atoi s =
     (let (neg, body) = (case s of
            c # cs \<Rightarrow> if c = CHR ''-'' then (True, cs) else if c = CHR ''+'' then (False, cs) else (False, s)
          | [] \<Rightarrow> (False, []))
      in if body = [] then None
         else case digits_val 0 body of
           None \<Rightarrow> None
         | Some n \<Rightarrow> (let v = (if neg then - int n else int n) in
              if int64_range v then Some v else None))"

lemma digit_cases: "n < 10 \<Longrightarrow> n \<in> {0, 1, 2, 3, 4, 5, 6, 7, 8, 9::nat}"
  by auto

lemma digit_val_char: "n < 10 \<Longrightarrow> digit_val (digit_char n) = Some n"
  using digit_cases [of n] by (auto simp: digit_val_def digit_char_def)

lemma digits_val_append:
  "digits_val acc (s @ t) = Option.bind (digits_val acc s) (\<lambda>a. digits_val a t)"
  by (induction s arbitrary: acc) (auto split: option.split)

lemma digits_val_itoa: "digits_val 0 (itoa_nat n) = Some n"
proof (induction n rule: itoa_nat.induct)
  case (1 n)
  show ?case
  proof (cases "n < 10")
    case True
    then show ?thesis by (simp add: itoa_nat.simps digit_val_char)
  next
    case False
    then show ?thesis using 1 itoa_nat.simps [of n]
      by (simp add: digits_val_append digit_val_char)
  qed
qed

lemma itoa_nat_head: "\<exists>c cs. itoa_nat n = c # cs \<and> c \<noteq> CHR ''-'' \<and> c \<noteq> CHR ''+''"
proof (induction n rule: itoa_nat.induct)
  case (1 n)
  have d: "digit_char n \<noteq> CHR ''-'' \<and> digit_char n \<noteq> CHR ''+''" if "n < 10" for n
    using digit_cases [OF that] by (auto simp: digit_char_def)
  show ?case
  proof (cases "n < 10")
    case True
    then show ?thesis using d by (simp add: itoa_nat.simps)
  next
    case False
    then show ?thesis using 1 itoa_nat.simps [of n] by auto
  qed
qed

lemma atoi_itoa: "int64_range i \<Longrightarrow> atoi (itoa i) = Some i"
proof -
  assume i: "int64_range i"
  obtain c cs where h: "itoa_nat (nat \<bar>i\<bar>) = c # cs" "c \<noteq> CHR ''-''" "c \<noteq> CHR ''+''"
    using itoa_nat_head by blast
  show ?thesis
  proof (cases "i < 0")
    case True
    then have "itoa i = CHR ''-'' # c # cs" using h(1) by (simp add: itoa_def abs_if)
    then show ?thesis using digits_val_itoa [of "nat \<bar>i\<bar>"] h i True by (simp add: atoi_def Let_def)
  next
    case False
    then have "itoa i = c # cs" using h(1) by (simp add: itoa_def abs_if)
    then show ?thesis using digits_val_itoa [of "nat \<bar>i\<bar>"] h i False by (simp add: atoi_def Let_def)
  qed
qed

section \<open>Text\<close>

definition has_prefix :: "string \<Rightarrow> string \<Rightarrow> bool" where
  "has_prefix s p \<longleftrightarrow> take (length p) s = p"

definition trimPrefix :: "string \<Rightarrow> string \<Rightarrow> string" where
  "trimPrefix s p = (if has_prefix s p then drop (length p) s else s)"

text \<open>\<open>strings.Contains\<close>, and \<open>strings.ToLower\<close> on ASCII.\<close>

fun contains :: "string \<Rightarrow> string \<Rightarrow> bool" where
  "contains [] n = (n = [])"
| "contains (c # cs) n = (has_prefix (c # cs) n \<or> contains cs n)"

definition lower_char :: "char \<Rightarrow> char" where
  "lower_char c = (if c \<in> set ''ABCDEFGHIJKLMNOPQRSTUVWXYZ'' then char_of (of_char c + 32 :: nat) else c)"

definition toLower :: "string \<Rightarrow> string" where
  "toLower s = map lower_char s"

text \<open>The text of an error.\<close>

fun sentinel_text :: "sentinel \<Rightarrow> string" where
  "sentinel_text ErrAccountNotFound = ''account not found''"
| "sentinel_text ErrNoEligibleAccount = ''no eligible account in pool''"
| "sentinel_text ErrAccountBusy = ''account concurrent limit reached''"
| "sentinel_text ErrAccountInsufficient = ''account has insufficient balance''"
| "sentinel_text ErrGroupNotFound = ''group not found''"
| "sentinel_text ErrGroupQuotaExhausted = ''group monthly budget exhausted''"
| "sentinel_text ErrGroupConcurrencyMax = ''group concurrent job limit reached''"
| "sentinel_text ErrModelNotFound = ''model not found''"
| "sentinel_text ErrModelStarterOnly = ''model requires a paid account tier''"
| "sentinel_text ErrModelUltraOnly = ''model requires ultra tier or higher''"
| "sentinel_text ErrModelNotAllowed = ''model not in group's allowed list''"
| "sentinel_text ErrModelBlocked = ''model blocked by group policy''"
| "sentinel_text ErrAPIKeyNotFound = ''api key not found''"
| "sentinel_text ErrAPIKeyRevoked = ''api key revoked''"
| "sentinel_text ErrAPIKeyPaused = ''api key paused''"
| "sentinel_text ErrAPIKeyQuotaExceed = ''api key monthly quota exhausted''"
| "sentinel_text ErrJobNotFound = ''job not found''"
| "sentinel_text ErrUsageEventDuplicate = ''usage event already recorded for this job''"
| "sentinel_text ErrSettingNotFound = ''setting not found''"
| "sentinel_text ErrModelOverrideNotFound = ''model override not found''"
| "sentinel_text ErrRegistrarDisabled = ''registrar disabled (build without 'register' tag)''"
| "sentinel_text ErrRegistrationNotFound = ''registration not found''"
| "sentinel_text ErrUpstreamTimeout = ''upstream did not reach terminal state within deadline''"
| "sentinel_text ErrUpstreamRateLimit = ''upstream rate limit reached''"
| "sentinel_text ErrUpstreamUnauthorized = ''upstream 401: JWT invalid or session expired''"
| "sentinel_text ErrUpstreamForbidden = ''upstream 403: plan gate''"
| "sentinel_text ErrUpstreamBadBody = ''upstream 422: body validation failed''"
| "sentinel_text ErrUpstreamServerError = ''upstream 5xx''"
| "sentinel_text DeadlineExceeded = ''context deadline exceeded''"
| "sentinel_text ErrGiftAlreadyClaimed = ''gift already claimed''"
| "sentinel_text ErrGiftActiveSubscription = ''gift claim blocked by active subscription''"
| "sentinel_text Canceled = ''context canceled''"

fun err_text :: "gerror \<Rightarrow> string" where
  "err_text (Sent s) = sentinel_text s"
| "err_text (Wrap s e) = s @ '': '' @ err_text e"
| "err_text (Noted e s) = err_text e @ '': '' @ s"
| "err_text (NetErr s) = s"
| "err_text (Errno s) = s"
| "err_text (Plain s) = s"

end
