(* ===== verification/Domain.thy ===== *)
theory Domain
  imports Prelude
begin

text \<open>
  Package \<open>internal/domain\<close>: the business types every other component shares.
  A Go string type with a list of constants is a datatype with one constructor
  per constant and a last constructor for any other text; that constructor is
  never used for a text that has one of its own.
\<close>

section \<open>Plans\<close>

datatype plan =
    PlanFree | PlanStarter | PlanBasic | PlanPro | PlanPlus | PlanUltimate
  | PlanTeam | PlanUltra | PlanScale | PlanCreator | PlanEnt | PlanOther string

abbreviation PlanEmpty :: plan where "PlanEmpty \<equiv> PlanOther ''''"

fun IsPaid :: "plan \<Rightarrow> bool" where
  "IsPaid PlanFree = False"
| "IsPaid PlanStarter = False"
| "IsPaid PlanBasic = False"
| "IsPaid _ = True"

fun TierRank :: "plan \<Rightarrow> int" where
  "TierRank PlanStarter = 1"
| "TierRank PlanBasic = 2"
| "TierRank PlanPro = 3"
| "TierRank PlanPlus = 4"
| "TierRank PlanUltra = 5"
| "TierRank PlanUltimate = 5"
| "TierRank PlanScale = 5"
| "TierRank PlanCreator = 5"
| "TierRank PlanTeam = 5"
| "TierRank PlanEnt = 5"
| "TierRank _ = 0"

definition MeetsMinimum :: "plan \<Rightarrow> plan \<Rightarrow> bool" where
  "MeetsMinimum p minp =
    (if minp = PlanEmpty \<or> minp = PlanFree then True
     else (let minRank = TierRank minp in
           if minRank = 0 then True else TierRank p \<ge> minRank))"

lemma TierRank_range: "0 \<le> TierRank p \<and> TierRank p \<le> 5"
  by (cases p) simp_all

lemma MeetsMinimum_rank: "MeetsMinimum p m \<longleftrightarrow> TierRank m \<le> TierRank p"
  using TierRank_range [of p] by (cases m) (simp_all add: MeetsMinimum_def)

lemma MeetsMinimum_refl: "MeetsMinimum p p"
  by (simp add: MeetsMinimum_rank)

lemma MeetsMinimum_trans: "MeetsMinimum p q \<Longrightarrow> MeetsMinimum q r \<Longrightarrow> MeetsMinimum p r"
  by (simp add: MeetsMinimum_rank)

section \<open>Account states\<close>

datatype account_status =
    StatusActive | StatusSuspended | StatusExpired | StatusBanned
  | StatusThrottled | StatusDisabled | StatusOther string

abbreviation NoAccountStatus :: account_status where "NoAccountStatus \<equiv> StatusOther ''''"

record free_quota =
  fq_FaceSwapCredits :: rat
  fq_SoulCredits :: rat
  fq_CharacterSwapCredits :: rat
  fq_QwenCameraControlCredits :: rat
  fq_Wan25VideoCredits :: rat
  fq_Text2KeyframesCredits :: rat
  fq_Veo3FastGenerationsCount :: rat

record account =
  a_ID :: string
  a_Email :: string
  a_Password :: string
  a_SessionID :: string
  a_CookiesJSON :: string
  a_UserAgent :: string
  a_DataDomeClientID :: string
  a_WorkspaceID :: string
  a_PlanType :: plan
  a_HasUnlim :: bool
  a_HasFlexUnlim :: bool
  a_IsProVeo3Available :: bool
  a_Cohort :: string
  a_SubscriptionBalance :: int
  a_CreditsBalance :: int
  a_TotalPlanCredits :: int
  a_PlanEndsAt :: gotime
  a_Status :: account_status
  a_InFlightJobs :: int
  a_LastBalanceAt :: gotime
  a_LastUsedAt :: gotime
  a_LastFailedAt :: gotime
  a_FailStreak :: int
  a_ThrottledUntil :: gotime
  a_StatusReason :: string
  a_GraceStatus :: string
  a_BlockedAt :: string
  a_SuspendedAt :: string
  a_IsPaused :: bool
  a_BoundProxyURL :: string
  a_Priority :: int
  a_MaxConcurrent :: int
  a_Note :: string
  a_Source :: string
  a_RegisteredAt :: gotime
  a_ImportedAt :: gotime
  a_FreeQuota :: free_quota

record unlim_activation =
  ua_ID :: string
  ua_BundleType :: string
  ua_JobSetType :: string
  ua_Resolutions :: "string list"
  ua_ExpiresAt :: gotime
  ua_ActivatedAt :: gotime
  ua_IsClaimed :: bool

definition AvailableSlots :: "account \<Rightarrow> int" where
  "AvailableSlots a =
    (let slots = wrap64 (6 - a_InFlightJobs a) in if slots < 0 then 0 else slots)"

definition CanAfford :: "account \<Rightarrow> int \<Rightarrow> bool" where
  "CanAfford a est \<longleftrightarrow> a_SubscriptionBalance a \<ge> wrap64 (wrap64 (est * 120) sdiv 100)"

section \<open>Jobs\<close>

datatype job_status =
    JobPending | JobQueued | JobRunning | JobCompleted | JobFailed | JobRefunded
  | JobTimeout | JobOther string

fun job_status_of_string :: "string \<Rightarrow> job_status" where
  "job_status_of_string s =
     (if s = ''pending'' then JobPending
      else if s = ''queued'' then JobQueued
      else if s = ''in_progress'' then JobRunning
      else if s = ''completed'' then JobCompleted
      else if s = ''failed'' then JobFailed
      else if s = ''refunded'' then JobRefunded
      else if s = ''timeout'' then JobTimeout
      else JobOther s)"

declare job_status_of_string.simps [simp del]

fun job_status_text :: "job_status \<Rightarrow> string" where
  "job_status_text JobPending = ''pending''"
| "job_status_text JobQueued = ''queued''"
| "job_status_text JobRunning = ''in_progress''"
| "job_status_text JobCompleted = ''completed''"
| "job_status_text JobFailed = ''failed''"
| "job_status_text JobRefunded = ''refunded''"
| "job_status_text JobTimeout = ''timeout''"
| "job_status_text (JobOther s) = s"

lemma job_status_text_of_string [simp]: "job_status_text (job_status_of_string s) = s"
  by (simp add: job_status_of_string.simps)

datatype error_type =
    ErrNone | ErrBody | ErrGate | ErrRateLimit | ErrUpstream | ErrTimeout
  | ErrNetwork | ErrIPCheck | ErrUnknown | ErrOther string

record job =
  j_ID :: string
  j_APIKeyID :: string
  j_CPAPartnerID :: string
  j_GroupID :: string
  j_AccountID :: string
  j_ModelAlias :: string
  j_JST :: string
  j_Endpoint :: string
  j_RequestBodyJSON :: string
  j_RequestTS :: gotime
  j_UpstreamJobID :: string
  j_UpstreamCost :: int
  j_ResultURL :: string
  j_Status :: job_status
  j_ErrorType :: error_type
  j_ErrorDetail :: string
  j_FinishedAt :: gotime
  j_LatencyMS :: int
  j_PollCount :: int
  j_ActualCreditsHundredths :: int
  j_ChargedCreditsHundredths :: int
  j_Refunded :: bool
  j_PreBalanceH :: int
  j_CallbackURL :: string

section \<open>Groups\<close>

datatype route_strategy =
    RouteNone | RouteRoundRobin | RouteLeastUsed | RouteCheapestFirst
  | RouteMostCreditsFirst | RoutePriority | RouteBestFit | RouteOther string

datatype owner_type = OwnerAPIKey | OwnerCPA | OwnerInternal | OwnerOther string

record group =
  g_ID :: string
  g_Name :: string
  g_Description :: string
  g_MaxConcurrentJobs :: int
  g_MaxConcurrentPerAccount :: int
  g_MonthlyCreditBudget :: int
  g_MonthlyCreditUsed :: int
  g_AllowedModelsRegex :: string
  g_BlockedModelsRegex :: string
  g_RouteStrategy :: route_strategy
  g_OwnerType :: owner_type
  g_OwnerID :: string
  g_Status :: string
  g_CreatedAt :: gotime

section \<open>API keys\<close>

datatype key_status = KeyActive | KeyPaused | KeyRevoked | KeyOther string

abbreviation KeyNoStatus :: key_status where "KeyNoStatus \<equiv> KeyOther ''''"

datatype key_kind = KindDefault | KindProject | KindOther string

abbreviation KindNone :: key_kind where "KindNone \<equiv> KindOther ''''"

datatype playground_scope = ScopeNone | ScopeCheap | ScopeFull | ScopeOther string

abbreviation ScopeEmpty :: playground_scope where "ScopeEmpty \<equiv> ScopeOther ''''"

definition PlaygroundCheapCapHundredths :: int where
  "PlaygroundCheapCapHundredths = 500"

fun AllowsModel :: "playground_scope \<Rightarrow> int \<Rightarrow> bool" where
  "AllowsModel ScopeFull est = True"
| "AllowsModel ScopeCheap est = (est \<le> PlaygroundCheapCapHundredths)"
| "AllowsModel _ est = False"

record apikey =
  k_ID :: string
  k_KeyHash :: string
  k_Name :: string
  k_CreatedBy :: string
  k_CPAPartnerID :: string
  k_GroupID :: string
  k_Status :: key_status
  k_MonthlyQuota :: int
  k_MonthlyUsed :: int
  k_MarkupPct :: rat
  k_CreatedAt :: gotime
  k_LastUsedAt :: gotime
  k_PlaygroundScope :: playground_scope
  k_Kind :: key_kind
  k_KeyLast4 :: string

definition HasBudget :: "apikey \<Rightarrow> int \<Rightarrow> bool" where
  "HasBudget k charged =
    (if k_MonthlyQuota k = 0 then True
     else wrap64 (k_MonthlyUsed k + charged) \<le> k_MonthlyQuota k)"

section \<open>Usage events\<close>

record usage_event =
  ue_ID :: string
  ue_TS :: gotime
  ue_APIKeyID :: string
  ue_CPAPartnerID :: string
  ue_CPAUserID :: string
  ue_GroupID :: string
  ue_AccountID :: string
  ue_ModelAlias :: string
  ue_JST :: string
  ue_MediaType :: string
  ue_UpstreamCost :: int
  ue_ActualCreditsHundredths :: int
  ue_ChargedCreditsHundredths :: int
  ue_MarkupPct :: rat
  ue_Status :: job_status
  ue_LatencyMS :: int
  ue_PollCount :: int
  ue_ErrorType :: error_type
  ue_HiggsgoJobID :: string
  ue_UpstreamJobID :: string
  ue_ResultURL :: string
  ue_BillingMonth :: string
  ue_BillingDay :: string

end
