(* ===== verification/AccountStore.thy ===== *)
theory AccountStore
  imports Domain
begin

text \<open>
  \<open>internal/adapters/storage/sqlite/account_store.go\<close>: the accounts table, its
  rows, and every statement on it except \<open>PickAndLock\<close> (theory \<open>PickLock\<close>).
  An operation takes first what the SQL driver answers (\<open>None\<close>: the statement
  runs; \<open>Some e\<close>: the driver fails with \<open>e\<close> and nothing is written), the current
  time \<open>now\<close> in nanoseconds where it reads the clock, and the table; it returns
  its Go result and the new table.
\<close>

section \<open>Rows\<close>

record account_row =
  ar_id :: string
  ar_email :: string
  ar_password_enc :: string
  ar_session_id :: string
  ar_cookies_json :: string
  ar_user_agent :: string
  ar_datadome_client_id :: "string option"
  ar_workspace_id :: "string option"
  ar_plan_type :: plan
  ar_has_unlim :: int
  ar_has_flex_unlim :: int
  ar_is_pro_veo3_available :: int
  ar_cohort :: "string option"
  ar_subscription_balance :: int
  ar_credits_balance :: int
  ar_total_plan_credits :: int
  ar_plan_ends_at :: sqltime
  ar_status :: account_status
  ar_in_flight_jobs :: int
  ar_last_balance_at :: sqltime
  ar_last_used_at :: sqltime
  ar_last_failed_at :: sqltime
  ar_fail_streak :: int
  ar_bound_proxy_url :: "string option"
  ar_priority :: int
  ar_throttled_until :: sqltime
  ar_status_reason :: string
  ar_max_concurrent :: int
  ar_note :: string
  ar_source :: string
  ar_registered_at :: sqltime
  ar_imported_at :: sqltime
  ar_free_quota :: free_quota
  ar_grace_status :: string
  ar_blocked_at :: string
  ar_suspended_at :: string
  ar_is_paused :: int

type_synonym accounts = "account_row list"

definition account_keys_ok :: "accounts \<Rightarrow> bool" where
  "account_keys_ok rows \<longleftrightarrow> distinct (map ar_id rows) \<and> distinct (map ar_email rows)"

definition boolToInt :: "bool \<Rightarrow> int" where
  "boolToInt b = (if b then 1 else 0)"

definition intToBool :: "int \<Rightarrow> bool" where
  "intToBool i = (i \<noteq> 0)"

lemma intToBool_boolToInt [simp]: "intToBool (boolToInt b) = b"
  by (simp add: intToBool_def boolToInt_def)

definition nullString :: "string option \<Rightarrow> string" where
  "nullString v = (case v of None \<Rightarrow> '''' | Some s \<Rightarrow> s)"

lemma nullString_simps [simp]: "nullString (Some s) = s" "nullString None = ''''"
  by (simp_all add: nullString_def)

definition account_of_row :: "account_row \<Rightarrow> account" where
  "account_of_row r = \<lparr>
       a_ID = ar_id r,
       a_Email = ar_email r,
       a_Password = ar_password_enc r,
       a_SessionID = ar_session_id r,
       a_CookiesJSON = ar_cookies_json r,
       a_UserAgent = ar_user_agent r,
       a_DataDomeClientID = nullString (ar_datadome_client_id r),
       a_WorkspaceID = nullString (ar_workspace_id r),
       a_PlanType = ar_plan_type r,
       a_HasUnlim = intToBool (ar_has_unlim r),
       a_HasFlexUnlim = intToBool (ar_has_flex_unlim r),
       a_IsProVeo3Available = intToBool (ar_is_pro_veo3_available r),
       a_Cohort = nullString (ar_cohort r),
       a_SubscriptionBalance = ar_subscription_balance r,
       a_CreditsBalance = ar_credits_balance r,
       a_TotalPlanCredits = ar_total_plan_credits r,
       a_PlanEndsAt = parseTime (ar_plan_ends_at r),
       a_Status = ar_status r,
       a_InFlightJobs = ar_in_flight_jobs r,
       a_LastBalanceAt = parseTime (ar_last_balance_at r),
       a_LastUsedAt = parseTime (ar_last_used_at r),
       a_LastFailedAt = parseTime (ar_last_failed_at r),
       a_FailStreak = ar_fail_streak r,
       a_ThrottledUntil = parseTime (ar_throttled_until r),
       a_StatusReason = ar_status_reason r,
       a_GraceStatus = ar_grace_status r,
       a_BlockedAt = ar_blocked_at r,
       a_SuspendedAt = ar_suspended_at r,
       a_IsPaused = intToBool (ar_is_paused r),
       a_BoundProxyURL = nullString (ar_bound_proxy_url r),
       a_Priority = ar_priority r,
       a_MaxConcurrent = ar_max_concurrent r,
       a_Note = ar_note r,
       a_Source = ar_source r,
       a_RegisteredAt = parseTime (ar_registered_at r),
       a_ImportedAt = parseTime (ar_imported_at r),
       a_FreeQuota = ar_free_quota r \<rparr>"

lemma account_of_row_sel [simp]:
  "a_ID (account_of_row r) = ar_id r"
  "a_PlanType (account_of_row r) = ar_plan_type r"
  "a_Status (account_of_row r) = ar_status r"
  "a_InFlightJobs (account_of_row r) = ar_in_flight_jobs r"
  "a_SubscriptionBalance (account_of_row r) = ar_subscription_balance r"
  "a_FailStreak (account_of_row r) = ar_fail_streak r"
  by (simp_all add: account_of_row_def)

definition scanAccount :: "account_row option \<Rightarrow> (gerror, account) result" where
  "scanAccount row = (case row of
     None \<Rightarrow> Err (Sent ErrAccountNotFound)
   | Some r \<Rightarrow> Ok (account_of_row r))"

definition zero_quota :: free_quota where
  "zero_quota = \<lparr> fq_FaceSwapCredits = 0, fq_SoulCredits = 0, fq_CharacterSwapCredits = 0,
     fq_QwenCameraControlCredits = 0, fq_Wan25VideoCredits = 0, fq_Text2KeyframesCredits = 0,
     fq_Veo3FastGenerationsCount = 0 \<rparr>"

section \<open>Insert or update a whole account\<close>

text \<open>The values of the INSERT; the columns it does not name get the defaults
  of migrations 020 and 021.\<close>

definition insert_account_row :: "account \<Rightarrow> account_row" where
  "insert_account_row a = \<lparr>
     ar_id = a_ID a,
     ar_email = a_Email a,
     ar_password_enc = a_Password a,
     ar_session_id = a_SessionID a,
     ar_cookies_json = a_CookiesJSON a,
     ar_user_agent = a_UserAgent a,
     ar_datadome_client_id = Some (a_DataDomeClientID a),
     ar_workspace_id = Some (a_WorkspaceID a),
     ar_plan_type = a_PlanType a,
     ar_has_unlim = boolToInt (a_HasUnlim a),
     ar_has_flex_unlim = boolToInt (a_HasFlexUnlim a),
     ar_is_pro_veo3_available = boolToInt (a_IsProVeo3Available a),
     ar_cohort = Some (a_Cohort a),
     ar_subscription_balance = a_SubscriptionBalance a,
     ar_credits_balance = a_CreditsBalance a,
     ar_total_plan_credits = a_TotalPlanCredits a,
     ar_plan_ends_at = fmtTime (a_PlanEndsAt a),
     ar_status = a_Status a,
     ar_in_flight_jobs = a_InFlightJobs a,
     ar_last_balance_at = fmtTime (a_LastBalanceAt a),
     ar_last_used_at = fmtTime (a_LastUsedAt a),
     ar_last_failed_at = fmtTime (a_LastFailedAt a),
     ar_fail_streak = a_FailStreak a,
     ar_bound_proxy_url = Some (a_BoundProxyURL a),
     ar_priority = a_Priority a,
     ar_throttled_until = nullableTime (a_ThrottledUntil a),
     ar_status_reason = a_StatusReason a,
     ar_max_concurrent = a_MaxConcurrent a,
     ar_note = a_Note a,
     ar_source = a_Source a,
     ar_registered_at = fmtTime (a_RegisteredAt a),
     ar_imported_at = fmtTime (a_ImportedAt a),
     ar_free_quota = zero_quota,
     ar_grace_status = '''',
     ar_blocked_at = '''',
     ar_suspended_at = '''',
     ar_is_paused = 0 \<rparr>"

text \<open>The DO UPDATE branch: the columns it sets, from the excluded row.\<close>

definition upsert_update :: "account \<Rightarrow> account_row \<Rightarrow> account_row" where
  "upsert_update a r = (let x = insert_account_row a in r\<lparr>
     ar_email := ar_email x,
     ar_password_enc := ar_password_enc x,
     ar_session_id := ar_session_id x,
     ar_cookies_json := ar_cookies_json x,
     ar_user_agent := ar_user_agent x,
     ar_datadome_client_id := ar_datadome_client_id x,
     ar_workspace_id := ar_workspace_id x,
     ar_plan_type := ar_plan_type x,
     ar_has_unlim := ar_has_unlim x,
     ar_has_flex_unlim := ar_has_flex_unlim x,
     ar_is_pro_veo3_available := ar_is_pro_veo3_available x,
     ar_cohort := ar_cohort x,
     ar_subscription_balance := ar_subscription_balance x,
     ar_credits_balance := ar_credits_balance x,
     ar_total_plan_credits := ar_total_plan_credits x,
     ar_plan_ends_at := ar_plan_ends_at x,
     ar_status := ar_status x,
     ar_bound_proxy_url := ar_bound_proxy_url x,
     ar_priority := ar_priority x,
     ar_max_concurrent := ar_max_concurrent x,
     ar_note := ar_note x,
     ar_source := ar_source x \<rparr>)"

definition UpsertAccount ::
  "gerror option \<Rightarrow> account \<Rightarrow> accounts \<Rightarrow> (gerror, unit) result \<times> accounts" where
  "UpsertAccount fail a rows = (case fail of
     Some e \<Rightarrow> (Err (Wrap (''upsert account '' @ a_ID a) e), rows)
   | None \<Rightarrow>
      if \<exists>r \<in> set rows. ar_email r = a_Email a \<and> ar_id r \<noteq> a_ID a
      then (Err (Wrap (''upsert account '' @ a_ID a)
                   (Plain ''UNIQUE constraint failed: accounts.email'')), rows)
      else if \<exists>r \<in> set rows. ar_id r = a_ID a
      then (Ok (), sql_update (\<lambda>r. ar_id r = a_ID a) (upsert_update a) rows)
      else (Ok (), rows @ [insert_account_row a]))"

section \<open>Reads\<close>

definition GetAccount :: "gerror option \<Rightarrow> string \<Rightarrow> accounts \<Rightarrow> (gerror, account) result" where
  "GetAccount fail acct rows = (case fail of
     Some e \<Rightarrow> Err e
   | None \<Rightarrow> scanAccount (find_row ar_id acct rows))"

record account_filter =
  af_Status :: account_status
  af_PlanType :: plan
  af_GroupID :: string
  af_MinBalance :: int
  af_HasUnlim :: "bool option"
  af_Since :: gotime

definition list_account_where :: "account_filter \<Rightarrow> account_row \<Rightarrow> bool" where
  "list_account_where f r \<longleftrightarrow>
     (af_Status f \<noteq> NoAccountStatus \<longrightarrow> ar_status r = af_Status f) \<and>
     (af_PlanType f \<noteq> PlanEmpty \<longrightarrow> ar_plan_type r = af_PlanType f) \<and>
     (af_MinBalance f > 0 \<longrightarrow> ar_subscription_balance r \<ge> af_MinBalance f) \<and>
     (case af_HasUnlim f of None \<Rightarrow> True | Some b \<Rightarrow> ar_has_unlim r = boolToInt b)"

text \<open>\<open>ORDER BY k DESC\<close>: a stable sort on the key, then reversed among distinct
  keys only, which is a stable sort by the opposite order.\<close>

fun insert_desc :: "('r \<Rightarrow> 'k::linorder) \<Rightarrow> 'r \<Rightarrow> 'r list \<Rightarrow> 'r list" where
  "insert_desc k x [] = [x]"
| "insert_desc k x (y # ys) = (if k y \<le> k x then x # y # ys else y # insert_desc k x ys)"

definition sort_desc :: "('r \<Rightarrow> 'k::linorder) \<Rightarrow> 'r list \<Rightarrow> 'r list" where
  "sort_desc k xs = foldr (insert_desc k) xs []"

definition ListAccounts ::
  "gerror option \<Rightarrow> account_filter \<Rightarrow> accounts \<Rightarrow> (gerror, account list) result" where
  "ListAccounts fail f rows = (case fail of
     Some e \<Rightarrow> Err (Wrap ''list accounts'' e)
   | None \<Rightarrow>
      Ok (map account_of_row (sort_desc ar_imported_at (filter (list_account_where f) rows))))"

section \<open>Single-column updates\<close>

text \<open>\<open>UPDATE accounts SET ... WHERE id = ?\<close>, with the check of RowsAffected that
  most operations make.\<close>

definition update_checked ::
  "gerror option \<Rightarrow> string \<Rightarrow> (account_row \<Rightarrow> account_row) \<Rightarrow> accounts
     \<Rightarrow> (gerror, unit) result \<times> accounts" where
  "update_checked fail acct f rows = (case fail of
     Some e \<Rightarrow> (Err e, rows)
   | None \<Rightarrow>
      (if rows_affected (\<lambda>r. ar_id r = acct) rows = 0
       then Err (Sent ErrAccountNotFound) else Ok (),
       sql_update (\<lambda>r. ar_id r = acct) f rows))"

definition UpdateBalance ::
  "gerror option \<Rightarrow> int \<Rightarrow> string \<Rightarrow> int \<Rightarrow> int \<Rightarrow> int \<Rightarrow> accounts
     \<Rightarrow> (gerror, unit) result \<times> accounts" where
  "UpdateBalance fail now acct sub credits pkg rows = (case fail of
     Some e \<Rightarrow> (Err e, rows)
   | None \<Rightarrow> (Ok (), sql_update (\<lambda>r. ar_id r = acct)
       (\<lambda>r. r\<lparr> ar_subscription_balance := sub, ar_credits_balance := credits,
               ar_total_plan_credits := pkg, ar_last_balance_at := fmtTime (Some now) \<rparr>) rows))"

record entitlement_update =
  eu_PlanType :: plan
  eu_HasUnlim :: bool
  eu_HasFlexUnlim :: bool
  eu_IsProVeo3Available :: bool
  eu_Cohort :: string
  eu_TotalPlanCredits :: int
  eu_PlanEndsAt :: gotime

definition UpdateEntitlements ::
  "gerror option \<Rightarrow> string \<Rightarrow> entitlement_update \<Rightarrow> accounts
     \<Rightarrow> (gerror, unit) result \<times> accounts" where
  "UpdateEntitlements fail acct e rows =
     update_checked (map_option (Wrap (''update entitlements '' @ acct)) fail) acct
       (\<lambda>r. r\<lparr> ar_plan_type := eu_PlanType e,
               ar_has_unlim := boolToInt (eu_HasUnlim e),
               ar_has_flex_unlim := boolToInt (eu_HasFlexUnlim e),
               ar_is_pro_veo3_available := boolToInt (eu_IsProVeo3Available e),
               ar_cohort := Some (eu_Cohort e),
               ar_total_plan_credits := eu_TotalPlanCredits e,
               ar_plan_ends_at := fmtTime (eu_PlanEndsAt e) \<rparr>) rows"

definition UpdateInFlight ::
  "gerror option \<Rightarrow> string \<Rightarrow> int \<Rightarrow> accounts \<Rightarrow> (gerror, unit) result \<times> accounts" where
  "UpdateInFlight fail acct delta rows =
     update_checked fail acct
       (\<lambda>r. r\<lparr> ar_in_flight_jobs := max 0 (ar_in_flight_jobs r + delta) \<rparr>) rows"

definition ResetAllInFlight ::
  "gerror option \<Rightarrow> accounts \<Rightarrow> (gerror, nat) result \<times> accounts" where
  "ResetAllInFlight fail rows = (case fail of
     Some e \<Rightarrow> (Err e, rows)
   | None \<Rightarrow> (Ok (rows_affected (\<lambda>r. ar_in_flight_jobs r > 0) rows),
       sql_update (\<lambda>r. ar_in_flight_jobs r > 0) (\<lambda>r. r\<lparr> ar_in_flight_jobs := 0 \<rparr>) rows))"

definition Unlock ::
  "gerror option \<Rightarrow> string \<Rightarrow> string \<Rightarrow> accounts \<Rightarrow> (gerror, unit) result \<times> accounts" where
  "Unlock fail acct lockToken rows =
     (if acct \<noteq> lockToken then (Err (Plain ''unlock: lock token mismatch''), rows)
      else UpdateInFlight fail acct (-1) rows)"

section \<open>Status transitions\<close>

definition MarkStatus ::
  "gerror option \<Rightarrow> int \<Rightarrow> string \<Rightarrow> account_status \<Rightarrow> string \<Rightarrow> accounts
     \<Rightarrow> (gerror, unit) result \<times> accounts" where
  "MarkStatus fail now acct st reason rows =
     update_checked fail acct
       (case st of
          StatusActive \<Rightarrow>
            (\<lambda>r. r\<lparr> ar_status := StatusActive, ar_status_reason := reason,
                    ar_throttled_until := SqlNull \<rparr>)
        | _ \<Rightarrow>
            (\<lambda>r. r\<lparr> ar_status := st, ar_status_reason := reason,
                    ar_fail_streak := ar_fail_streak r + 1,
                    ar_last_failed_at := fmtTime (Some now) \<rparr>)) rows"

definition MarkThrottled ::
  "gerror option \<Rightarrow> int \<Rightarrow> string \<Rightarrow> gotime \<Rightarrow> string \<Rightarrow> accounts
     \<Rightarrow> (gerror, unit) result \<times> accounts" where
  "MarkThrottled fail now acct til reason rows =
     update_checked fail acct
       (\<lambda>r. r\<lparr> ar_status := StatusThrottled, ar_status_reason := reason,
               ar_throttled_until := nullableTime til,
               ar_last_failed_at := fmtTime (Some now) \<rparr>) rows"

definition throttle_expired :: "int \<Rightarrow> account_row \<Rightarrow> bool" where
  "throttle_expired now r \<longleftrightarrow> ar_status r = StatusThrottled \<and>
     ar_throttled_until r \<noteq> SqlNull \<and> sql_le (ar_throttled_until r) (fmtTime (Some now))"

definition RecoverThrottled ::
  "gerror option \<Rightarrow> int \<Rightarrow> accounts \<Rightarrow> (gerror, nat) result \<times> accounts" where
  "RecoverThrottled fail now rows = (case fail of
     Some e \<Rightarrow> (Err e, rows)
   | None \<Rightarrow> (Ok (rows_affected (throttle_expired now) rows),
       sql_update (throttle_expired now)
         (\<lambda>r. r\<lparr> ar_status := StatusActive, ar_throttled_until := SqlNull,
                 ar_status_reason := '''' \<rparr>) rows))"

definition IncrFailStreak ::
  "gerror option \<Rightarrow> int \<Rightarrow> string \<Rightarrow> accounts \<Rightarrow> (gerror, int) result \<times> accounts" where
  "IncrFailStreak fail now acct rows = (case fail of
     Some e \<Rightarrow> (Err e, rows)
   | None \<Rightarrow>
      (let rows' = sql_update (\<lambda>r. ar_id r = acct)
             (\<lambda>r. r\<lparr> ar_fail_streak := ar_fail_streak r + 1,
                     ar_last_failed_at := fmtTime (Some now) \<rparr>) rows
       in (case find_row ar_id acct rows' of
             None \<Rightarrow> Err (Sent ErrAccountNotFound)
           | Some r \<Rightarrow> Ok (ar_fail_streak r), rows')))"

definition ResetFailStreak ::
  "gerror option \<Rightarrow> string \<Rightarrow> accounts \<Rightarrow> (gerror, unit) result \<times> accounts" where
  "ResetFailStreak fail acct rows =
     update_checked fail acct (\<lambda>r. r\<lparr> ar_fail_streak := 0 \<rparr>) rows"

section \<open>Columns refreshed from upstream\<close>

definition UpdateFreeQuota ::
  "gerror option \<Rightarrow> string \<Rightarrow> free_quota \<Rightarrow> accounts \<Rightarrow> (gerror, unit) result \<times> accounts" where
  "UpdateFreeQuota fail acct q rows =
     update_checked (map_option (Wrap (''update free quota '' @ acct)) fail) acct
       (\<lambda>r. r\<lparr> ar_free_quota := q \<rparr>) rows"

record upstream_status_update =
  us_BlockedAt :: string
  us_SuspendedAt :: string
  us_IsPaused :: bool

definition UpdateUpstreamStatus ::
  "gerror option \<Rightarrow> string \<Rightarrow> upstream_status_update \<Rightarrow> accounts
     \<Rightarrow> (gerror, unit) result \<times> accounts" where
  "UpdateUpstreamStatus fail acct u rows = (case fail of
     Some e \<Rightarrow> (Err (Wrap (''update upstream status '' @ acct) e), rows)
   | None \<Rightarrow> (Ok (), sql_update (\<lambda>r. ar_id r = acct)
       (\<lambda>r. r\<lparr> ar_blocked_at := us_BlockedAt u, ar_suspended_at := us_SuspendedAt u,
               ar_is_paused := boolToInt (us_IsPaused u) \<rparr>) rows))"

definition UpdateGraceStatus ::
  "gerror option \<Rightarrow> string \<Rightarrow> string \<Rightarrow> accounts \<Rightarrow> (gerror, unit) result \<times> accounts" where
  "UpdateGraceStatus fail acct grace rows = (case fail of
     Some e \<Rightarrow> (Err (Wrap (''update grace status '' @ acct) e), rows)
   | None \<Rightarrow> (Ok (), sql_update (\<lambda>r. ar_id r = acct)
       (\<lambda>r. r\<lparr> ar_grace_status := grace \<rparr>) rows))"

section \<open>Lemmas\<close>

lemma update_checked_ok:
  "update_checked None acct f rows =
     (if find_row ar_id acct rows = None then (Err (Sent ErrAccountNotFound), rows)
      else (Ok (), sql_update (\<lambda>r. ar_id r = acct) f rows))"
proof (cases "find_row ar_id acct rows = None")
  case True
  then have "sql_update (\<lambda>r. ar_id r = acct) f rows = rows"
    by (intro sql_update_none) (auto simp: find_row_None_iff keys_of_def)
  then show ?thesis using True by (simp add: update_checked_def rows_affected_key_0)
next
  case False
  then have "rows_affected (\<lambda>r. ar_id r = acct) rows \<noteq> 0" by (simp add: rows_affected_key_0)
  then show ?thesis using False by (simp add: update_checked_def)
qed

lemma update_checked_fail [simp]: "update_checked (Some e) acct f rows = (Err e, rows)"
  by (simp add: update_checked_def)

lemma update_checked_cases:
  "update_checked fail acct f rows = (res, rows') \<Longrightarrow>
   rows' = rows \<or> rows' = sql_update (\<lambda>r. ar_id r = acct) f rows"
  by (auto simp: update_checked_def split: option.splits)

text \<open>The operations that go through \<open>update_checked\<close>.\<close>

lemmas checked_defs = UpdateEntitlements_def UpdateInFlight_def MarkStatus_def
  MarkThrottled_def ResetFailStreak_def UpdateFreeQuota_def

lemma find_row_ar_same:
  assumes "\<And>r. ar_id (f r) = ar_id r"
  shows "find_row ar_id acct (sql_update (\<lambda>r. ar_id r = acct) f rows) =
           map_option f (find_row ar_id acct rows)"
  by (rule find_row_update_same [where key = ar_id and f = f, OF assms])

lemma find_row_ar_other:
  assumes "\<And>r. ar_id (f r) = ar_id r" "other \<noteq> acct"
  shows "find_row ar_id other (sql_update (\<lambda>r. ar_id r = acct) f rows) =
           find_row ar_id other rows"
  using assms(2)
  by (subst find_row_update_gen [where key = ar_id and f = f, OF assms(1)])
     (cases "find_row ar_id other rows"; auto dest: find_row_SomeD)

text \<open>In-flight counters: the invariant that none is negative.\<close>

definition slots_ok :: "accounts \<Rightarrow> bool" where
  "slots_ok rows \<longleftrightarrow> (\<forall>r \<in> set rows. 0 \<le> ar_in_flight_jobs r)"

lemma slots_ok_update:
  assumes "slots_ok rows" "\<And>r. 0 \<le> ar_in_flight_jobs r \<Longrightarrow> 0 \<le> ar_in_flight_jobs (f r)"
  shows "slots_ok (sql_update P f rows)"
  using assms by (auto simp: slots_ok_def sql_update_def)

definition in_flight :: "string \<Rightarrow> accounts \<Rightarrow> int" where
  "in_flight acct rows =
     (case find_row ar_id acct rows of None \<Rightarrow> 0 | Some r \<Rightarrow> ar_in_flight_jobs r)"

lemma in_flight_UpdateInFlight:
  "in_flight acct (snd (UpdateInFlight None acct delta rows)) =
     (if find_row ar_id acct rows = None then 0 else max 0 (in_flight acct rows + delta))"
  by (auto simp: UpdateInFlight_def update_checked_ok in_flight_def find_row_ar_same)

lemma in_flight_UpdateInFlight_other:
  "other \<noteq> acct \<Longrightarrow>
   in_flight other (snd (UpdateInFlight fail acct delta rows)) = in_flight other rows"
  by (cases fail) (simp_all add: UpdateInFlight_def update_checked_ok in_flight_def find_row_ar_other)

lemma UpdateInFlight_ids:
  "map ar_id (snd (UpdateInFlight fail acct delta rows)) = map ar_id rows"
  by (cases fail) (simp_all add: UpdateInFlight_def update_checked_ok map_key_sql_update)

lemma UpdateInFlight_slots_ok:
  "slots_ok rows \<Longrightarrow> slots_ok (snd (UpdateInFlight fail acct delta rows))"
  by (cases fail)
     (auto simp: UpdateInFlight_def update_checked_ok intro!: slots_ok_update)

section \<open>Properties\<close>

text \<open>What a new account looks like once stored and read back: times cut to the
  second, and the columns the INSERT does not carry at their defaults.\<close>

definition stored_new :: "account \<Rightarrow> account" where
  "stored_new a = a\<lparr> a_PlanEndsAt := toSecond (a_PlanEndsAt a),
     a_LastBalanceAt := toSecond (a_LastBalanceAt a), a_LastUsedAt := toSecond (a_LastUsedAt a),
     a_LastFailedAt := toSecond (a_LastFailedAt a),
     a_ThrottledUntil := toSecond (a_ThrottledUntil a),
     a_RegisteredAt := toSecond (a_RegisteredAt a), a_ImportedAt := toSecond (a_ImportedAt a),
     a_FreeQuota := zero_quota, a_GraceStatus := '''', a_BlockedAt := '''',
     a_SuspendedAt := '''', a_IsPaused := False \<rparr>"

text \<open>And over an existing account: what the failover controller, the slot counter
  and the refresher own keeps its stored value.\<close>

definition stored_over :: "account \<Rightarrow> account \<Rightarrow> account" where
  "stored_over old a = a\<lparr> a_PlanEndsAt := toSecond (a_PlanEndsAt a),
     a_InFlightJobs := a_InFlightJobs old, a_LastBalanceAt := a_LastBalanceAt old,
     a_LastUsedAt := a_LastUsedAt old, a_LastFailedAt := a_LastFailedAt old,
     a_FailStreak := a_FailStreak old, a_ThrottledUntil := a_ThrottledUntil old,
     a_StatusReason := a_StatusReason old, a_RegisteredAt := a_RegisteredAt old,
     a_ImportedAt := a_ImportedAt old, a_FreeQuota := a_FreeQuota old,
     a_GraceStatus := a_GraceStatus old, a_BlockedAt := a_BlockedAt old,
     a_SuspendedAt := a_SuspendedAt old, a_IsPaused := a_IsPaused old \<rparr>"

lemma scan_insert: "account_of_row (insert_account_row a) = stored_new a"
  by (simp add: account_of_row_def insert_account_row_def stored_new_def time_simps)
     (simp add: intToBool_def)

lemma scan_upsert: "ar_id r = a_ID a \<Longrightarrow>
  account_of_row (upsert_update a r) = stored_over (account_of_row r) a"
  by (simp add: account_of_row_def upsert_update_def insert_account_row_def stored_over_def
        Let_def time_simps)


text \<open>A database of two accounts for the witnesses.\<close>

definition demo_account :: "string \<Rightarrow> account" where
  "demo_account i = \<lparr> a_ID = i, a_Email = i @ ''@x'', a_Password = '''', a_SessionID = '''',
     a_CookiesJSON = '''', a_UserAgent = '''', a_DataDomeClientID = '''', a_WorkspaceID = '''',
     a_PlanType = PlanPro, a_HasUnlim = False, a_HasFlexUnlim = False,
     a_IsProVeo3Available = False, a_Cohort = '''', a_SubscriptionBalance = 1000,
     a_CreditsBalance = 0, a_TotalPlanCredits = 2000, a_PlanEndsAt = None,
     a_Status = StatusActive, a_InFlightJobs = 0, a_LastBalanceAt = None, a_LastUsedAt = None,
     a_LastFailedAt = None, a_FailStreak = 0, a_ThrottledUntil = None, a_StatusReason = '''',
     a_GraceStatus = '''', a_BlockedAt = '''', a_SuspendedAt = '''', a_IsPaused = False,
     a_BoundProxyURL = '''', a_Priority = 0, a_MaxConcurrent = 0, a_Note = '''',
     a_Source = ''manual'', a_RegisteredAt = Some 5, a_ImportedAt = Some 1500000000,
     a_FreeQuota = zero_quota \<rparr>"

definition demo_row :: "string \<Rightarrow> account_row" where
  "demo_row i = insert_account_row (demo_account i)"

lemma demo_row_sel [simp]:
  "ar_id (demo_row i) = i" "ar_email (demo_row i) = i @ ''@x''"
  "ar_in_flight_jobs (demo_row i) = 0" "ar_status (demo_row i) = StatusActive"
  "ar_plan_type (demo_row i) = PlanPro" "ar_subscription_balance (demo_row i) = 1000"
  "ar_max_concurrent (demo_row i) = 0" "ar_fail_streak (demo_row i) = 0"
  "ar_last_used_at (demo_row i) = SqlEmpty" "ar_throttled_until (demo_row i) = SqlNull"
  "ar_has_unlim (demo_row i) = 0" "ar_total_plan_credits (demo_row i) = 2000"
  "ar_priority (demo_row i) = 0" "ar_free_quota (demo_row i) = zero_quota"
  by (simp_all add: demo_row_def insert_account_row_def demo_account_def boolToInt_def
       fmtTime_def nullableTime_def)

text \<open>Round trip of an account: what \<open>Get\<close> returns after a successful
  \<open>Upsert\<close> is the given account with its times cut to the second.  A new row
  takes the defaults of the columns the INSERT does not name; an existing row
  keeps its in-flight count, fail streak, cooldown, status reason, usage times,
  free quota and upstream flags.\<close>

theorem Upsert_then_Get:
  assumes "UpsertAccount fail a rows = (Ok (), rows')"
  shows "GetAccount None (a_ID a) rows' =
    Ok (case find_row ar_id (a_ID a) rows of
          None \<Rightarrow> stored_new a
        | Some r \<Rightarrow> stored_over (account_of_row r) a)"
proof -
  have f: "fail = None" using assms by (cases fail) (auto simp: UpsertAccount_def)
  show ?thesis
  proof (cases "find_row ar_id (a_ID a) rows")
    case None
    then have "\<not> (\<exists>r \<in> set rows. ar_id r = a_ID a)"
      using find_row_NoneD by fast
    then have "rows' = rows @ [insert_account_row a]"
      using assms f by (auto simp: UpsertAccount_def split: if_splits)
    then show ?thesis using None
      by (simp add: GetAccount_def find_row_append sql_simps scanAccount_def scan_insert)
         (simp add: insert_account_row_def)
  next
    case (Some r)
    then have r: "r \<in> set rows" "ar_id r = a_ID a" by (auto dest: find_row_SomeD)
    then have "rows' = sql_update (\<lambda>r. ar_id r = a_ID a) (upsert_update a) rows"
      using assms f by (auto simp: UpsertAccount_def split: if_splits)
    moreover have "\<And>r. ar_id (upsert_update a r) = ar_id r"
      by (simp add: upsert_update_def Let_def)
    ultimately show ?thesis using Some r
      by (simp add: GetAccount_def find_row_ar_same scanAccount_def scan_upsert)
  qed
qed

theorem Upsert_then_Get_witness:
  "GetAccount None ''u1'' [demo_row ''u1''] = Ok (stored_new (demo_account ''u1''))"
proof -
  have "UpsertAccount None (demo_account ''u1'') [] = (Ok (), [demo_row ''u1''])"
    by (simp add: UpsertAccount_def demo_row_def)
  from Upsert_then_Get [OF this] show ?thesis
    by (simp add: find_row_Nil) (simp add: demo_account_def)
qed

end
