(* ===== verification/Interfaces.thy ===== *)
theory Interfaces
  imports Domain
begin

text \<open>
  The contracts between components, each a locale: the operations a client
  calls and the laws it relies on, with what follows from them for the client.
  Each is interpreted in the theory of the component that provides it.
\<close>

section \<open>Counters of held slots\<close>

text \<open>The proxy takes a slot of an account (\<open>PickAndLock\<close>) and somebody gives it
  back (\<open>Unlock\<close>, \<open>UpdateInFlight -1\<close>).  Releasing saturates at zero.\<close>

datatype 'i slot_op = Acquire 'i | Release 'i

fun held :: "'i \<Rightarrow> 'i slot_op list \<Rightarrow> int" where
  "held i [] = 0"
| "held i (Acquire j # ops) = (if i = j then 1 else 0) + held i ops"
| "held i (Release j # ops) = (if i = j then -1 else 0) + held i ops"

text \<open>No release without a slot to give back, starting from \<open>n\<close> slots in use.\<close>

fun covered :: "'i \<Rightarrow> int \<Rightarrow> 'i slot_op list \<Rightarrow> bool" where
  "covered i n [] = True"
| "covered i n (Acquire j # ops) = covered i (if i = j then n + 1 else n) ops"
| "covered i n (Release j # ops) = ((i = j \<longrightarrow> n \<ge> 1) \<and> covered i (if i = j then n - 1 else n) ops)"

locale slot_counter =
  fixes acquire :: "'i \<Rightarrow> 's \<Rightarrow> 's"
    and release :: "'i \<Rightarrow> 's \<Rightarrow> 's"
    and count :: "'i \<Rightarrow> 's \<Rightarrow> int"
    and known :: "'s \<Rightarrow> 'i set"
  assumes known_acquire: "known (acquire j s) = known s"
    and known_release: "known (release j s) = known s"
    and acquire_same: "i \<in> known s \<Longrightarrow> count i (acquire i s) = count i s + 1"
    and acquire_other: "i \<noteq> j \<Longrightarrow> count i (acquire j s) = count i s"
    and release_same: "i \<in> known s \<Longrightarrow> count i (release i s) = max 0 (count i s - 1)"
    and release_other: "i \<noteq> j \<Longrightarrow> count i (release j s) = count i s"
begin

fun run :: "'i slot_op list \<Rightarrow> 's \<Rightarrow> 's" where
  "run [] s = s"
| "run (Acquire j # ops) s = run ops (acquire j s)"
| "run (Release j # ops) s = run ops (release j s)"

lemma known_run: "known (run ops s) = known s"
  by (induction ops s rule: run.induct) (simp_all add: known_acquire known_release)

lemma count_run:
  assumes "i \<in> known s" "covered i (count i s) ops"
  shows "count i (run ops s) = count i s + held i ops"
  using assms
proof (induction ops s rule: run.induct)
  case (2 j ops s)
  then show ?case
    by (cases "i = j") (simp_all add: known_acquire acquire_same acquire_other)
next
  case (3 j ops s)
  then show ?case
    by (cases "i = j") (simp_all add: known_release release_same release_other)
qed simp

text \<open>A release too many is lost when the counter is at zero and takes somebody
  else's slot otherwise: the counter is below the number of slots in use.\<close>

lemma count_run_lower:
  assumes "i \<in> known s" "0 \<le> count i s"
  shows "count i s + held i ops \<le> count i (run ops s) \<and> 0 \<le> count i (run ops s)"
  using assms
proof (induction ops s rule: run.induct)
  case (2 j ops s)
  then show ?case
    by (cases "i = j") (force simp: known_acquire acquire_same acquire_other)+
next
  case (3 j ops s)
  then show ?case
    by (cases "i = j") (force simp: known_release release_same release_other)+
qed simp

lemma acquire_release:
  assumes "i \<in> known s" "0 \<le> count i s"
  shows "count k (release i (acquire i s)) = count k s"
  using assms by (cases "k = i") (simp_all add: known_acquire acquire_same release_same
      acquire_other release_other)

end

section \<open>Compare-and-swap on a terminal state\<close>

text \<open>Several observers race to finish a job; the store lets one of them win.  A
  request \<open>x\<close> to finish carries the state it aims at, \<open>target x\<close>; the write tells
  whether it performed the transition.\<close>

locale cas_store =
  fixes finish :: "'i \<Rightarrow> 'x \<Rightarrow> 's \<Rightarrow> bool \<times> 's"
    and target :: "'x \<Rightarrow> 'st"
    and status :: "'i \<Rightarrow> 's \<Rightarrow> 'st option"
    and live :: "'st \<Rightarrow> bool"
    and final :: "'st \<Rightarrow> bool"
    and valid :: "'s \<Rightarrow> bool"
  assumes live_not_final: "live st \<Longrightarrow> \<not> final st"
    and valid_finish: "valid s \<Longrightarrow> valid (snd (finish i x s))"
    and win_iff: "valid s \<Longrightarrow> final (target x) \<Longrightarrow>
          fst (finish i x s) \<longleftrightarrow> (\<exists>st. status i s = Some st \<and> live st)"
    and win_status: "valid s \<Longrightarrow> final (target x) \<Longrightarrow> fst (finish i x s) \<Longrightarrow>
          status i (snd (finish i x s)) = Some (target x)"
    and lose_same: "valid s \<Longrightarrow> final (target x) \<Longrightarrow> \<not> fst (finish i x s) \<Longrightarrow>
          snd (finish i x s) = s"
    and other_same: "valid s \<Longrightarrow> i \<noteq> j \<Longrightarrow> status j (snd (finish i x s)) = status j s"
begin

text \<open>How many of a sequence of requests win entry \<open>i\<close>, and the state they leave.\<close>

fun wins :: "'i \<Rightarrow> ('i \<times> 'x) list \<Rightarrow> 's \<Rightarrow> nat" where
  "wins i [] s = 0"
| "wins i ((j, x) # ops) s =
     (if i = j \<and> fst (finish j x s) then 1 else 0) + wins i ops (snd (finish j x s))"

fun finish_all :: "('i \<times> 'x) list \<Rightarrow> 's \<Rightarrow> 's" where
  "finish_all [] s = s"
| "finish_all ((j, x) # ops) s = finish_all ops (snd (finish j x s))"

lemma settled_stays:
  assumes "valid s" "\<forall>(j, x) \<in> set ops. final (target x)" "\<nexists>st. status i s = Some st \<and> live st"
  shows "wins i ops s = 0 \<and> status i (finish_all ops s) = status i s"
  using assms
proof (induction i ops s rule: wins.induct)
  case (2 i j x ops s)
  have fin: "final (target x)" using "2.prems"(2) by simp
  have v: "valid (snd (finish j x s))" using "2.prems"(1) by (rule valid_finish)
  have lost: "\<not> (i = j \<and> fst (finish j x s))" using win_iff "2.prems" fin by blast
  have st: "status i (snd (finish j x s)) = status i s"
  proof (cases "i = j")
    case True
    then show ?thesis using lose_same "2.prems"(1) fin lost by simp
  next
    case False
    then show ?thesis using other_same "2.prems"(1) by simp
  qed
  then show ?case using "2.IH" v "2.prems" lost by simp
qed simp

lemma at_most_one_win:
  assumes "valid s" "\<forall>(j, x) \<in> set ops. final (target x)"
  shows "wins i ops s \<le> 1"
  using assms
proof (induction i ops s rule: wins.induct)
  case (2 i j x ops s)
  have v: "valid (snd (finish j x s))" using "2.prems"(1) by (rule valid_finish)
  show ?case
  proof (cases "i = j \<and> fst (finish j x s)")
    case True
    then have st: "status i (snd (finish j x s)) = Some (target x)" "final (target x)"
      using win_status "2.prems" by auto
    have "wins i ops (snd (finish j x s)) = 0"
      using settled_stays [OF v, of ops i] st "2.prems"(2) live_not_final by auto
    then show ?thesis by simp
  next
    case False
    have "wins i ((j, x) # ops) s = wins i ops (snd (finish j x s))" using False by simp
    also have "... \<le> 1" using "2.IH" v "2.prems"(2) by simp
    finally show ?thesis .
  qed
qed simp

text \<open>The first request for an entry is the one that wins, and the state it aims at
  is the one that stays, whatever requests follow.\<close>

lemma first_wins:
  assumes "valid s" "\<forall>(j, y) \<in> set ops. final (target y)"
    "status i s = Some st" "live st" "find (\<lambda>(j, y). j = i) ops = Some (i, x)"
  shows "wins i ops s = 1 \<and> status i (finish_all ops s) = Some (target x)"
  using assms
proof (induction i ops s rule: wins.induct)
  case (2 i j y ops s)
  have v: "valid (snd (finish j y s))" using "2.prems"(1) by (rule valid_finish)
  have fin: "final (target y)" using "2.prems"(2) by simp
  show ?case
  proof (cases "i = j")
    case True
    then have x: "y = x" using "2.prems"(5) by simp
    have w: "fst (finish j y s)" using win_iff [OF "2.prems"(1) fin] "2.prems"(3,4) True by blast
    have st: "status i (snd (finish j y s)) = Some (target x)"
      using win_status [OF "2.prems"(1) fin w] True x by simp
    then have "\<nexists>st. status i (snd (finish j y s)) = Some st \<and> live st"
      using fin x live_not_final by auto
    from settled_stays [OF v _ this, of ops] show ?thesis
      using "2.prems"(2) st w True by simp
  next
    case False
    have "status i (snd (finish j y s)) = Some st" using other_same False "2.prems" by simp
    then show ?thesis using "2.IH" v "2.prems" False by simp
  qed
qed simp

end

section \<open>Settings\<close>

text \<open>A key-value store of strings whose reads see the last write.\<close>

locale settings_store =
  fixes get :: "string \<Rightarrow> 's \<Rightarrow> string option"
    and put :: "string \<Rightarrow> string \<Rightarrow> 's \<Rightarrow> 's"
  assumes get_put_same: "get k (put k v s) = Some v"
    and get_put_other: "k \<noteq> k' \<Longrightarrow> get k (put k' v s) = get k s"
begin

definition put_all :: "(string \<times> string) list \<Rightarrow> 's \<Rightarrow> 's" where
  "put_all kvs s = fold (\<lambda>(k, v). put k v) kvs s"

lemma get_put_all_other: "k \<notin> fst ` set kvs \<Longrightarrow> get k (put_all kvs s) = get k s"
  unfolding put_all_def
  by (induction kvs arbitrary: s) (auto simp: get_put_other)

lemma get_put_all:
  "distinct (map fst kvs) \<Longrightarrow> (k, v) \<in> set kvs \<Longrightarrow> get k (put_all kvs s) = Some v"
proof (induction kvs arbitrary: s)
  case (Cons kv kvs)
  obtain k0 v0 where kv: "kv = (k0, v0)" by (cases kv)
  show ?case
  proof (cases "(k, v) = kv")
    case True
    then have "k \<notin> fst ` set kvs" using Cons.prems kv by simp
    from get_put_all_other [OF this, of "put k v s"] show ?thesis
      using True [symmetric] by (simp add: put_all_def get_put_same)
  next
    case False
    then have "(k, v) \<in> set kvs" using Cons.prems by simp
    moreover have "distinct (map fst kvs)" using Cons.prems by simp
    ultimately show ?thesis using Cons.IH [of "put k0 v0 s"] kv by (simp add: put_all_def)
  qed
qed simp

end

section \<open>Acceptance of bearer tokens\<close>

text \<open>What the admin middleware asks of its token source.  An empty token is never
  accepted, and at most one token besides the current one is.\<close>

locale bearer_accepter =
  fixes accepts :: "'m \<Rightarrow> string \<Rightarrow> bool"
    and current :: "'m \<Rightarrow> string"
  assumes empty_rejected: "\<not> accepts m ''''"
    and current_accepted: "current m \<noteq> '''' \<Longrightarrow> accepts m (current m)"
    and few_accepted: "\<exists>b. \<forall>t. accepts m t \<longrightarrow> t = current m \<or> t = b"
begin

lemma unset_accepts_at_most_one:
  assumes "current m = ''''" "accepts m t" "accepts m u"
  shows "t = u"
  using few_accepted [of m] assms empty_rejected by metis

end

end
