(* ===== verification/PickLock.thy ===== *)
theory PickLock
  imports AccountStore Interfaces
begin

text \<open>
  \<open>AccountStore.PickAndLock\<close> (\<open>account_store.go\<close>), its parameters
  (\<open>ports/storage.go\<close>), and the unlim activations its ordering and the proxy's
  routing read.  The WHERE clause is \<open>eligible\<close>; the ORDER BY clause of a strategy
  is the integer list \<open>order_key\<close>, compared lexicographically (a DESC term is
  negated, a time is its code).  \<open>RANDOM()\<close> is a parameter that gives a number
  to each row.  Rows whose keys are equal, which the code leaves to SQLite, are
  taken in scan order.
\<close>

section \<open>Parameters\<close>

record lb_opts =
  lb_Populated :: bool
  lb_TierAware :: bool
  lb_PreferUnlim :: bool
  lb_PreferFreeQuota :: bool
  lb_PreferRicher :: bool
  lb_BalanceHeadroomPct :: int
  lb_Jitter :: bool

record pick_params =
  pp_JST :: string
  pp_EstCostHundredths :: int
  pp_MinPlan :: plan
  pp_RequiresPaid :: bool
  pp_RequiresUltra :: bool
  pp_RequiresUnlim :: bool
  pp_GroupID :: string
  pp_RouteStrategy :: route_strategy
  pp_MaxGroupInFlight :: int
  pp_MaxConcurrentPerAccount :: int
  pp_LoadBalance :: lb_opts
  pp_UnlimJobSetType :: string
  pp_FreeQuotaField :: string

section \<open>Group members and unlim activations\<close>

record member_row =
  mr_account_id :: string
  mr_group_id :: string
  mr_priority :: int
  mr_added_at :: sqltime

type_synonym members = "member_row list"

record unlim_row =
  ur_account_id :: string
  ur_bundle_type :: string
  ur_job_set_type :: string
  ur_resolutions :: string
  ur_expires_at :: sqltime
  ur_activated_at :: sqltime
  ur_synced_at :: sqltime

type_synonym unlims = "unlim_row list"

text \<open>The activation is live, as \<open>PickAndLock\<close> tests it and as the lookups do.\<close>

definition unlim_live_pick :: "int \<Rightarrow> unlim_row \<Rightarrow> bool" where
  "unlim_live_pick now u \<longleftrightarrow>
     ur_expires_at u = SqlNull \<or> sql_lt (fmtTime (Some now)) (ur_expires_at u)"

definition unlim_live :: "int \<Rightarrow> unlim_row \<Rightarrow> bool" where
  "unlim_live now u \<longleftrightarrow>
     ur_expires_at u = SqlNull \<or> ur_expires_at u = SqlEmpty \<or>
     sql_lt (fmtTime (Some now)) (ur_expires_at u)"

definition HasActiveUnlimFor ::
  "gerror option \<Rightarrow> int \<Rightarrow> string \<Rightarrow> string \<Rightarrow> unlims \<Rightarrow> (gerror, bool) result" where
  "HasActiveUnlimFor fail now acct jst us =
     (if acct = '''' \<or> jst = '''' then Ok False
      else case fail of
        Some e \<Rightarrow> Err (Wrap (''has active unlim '' @ acct @ ''/'' @ jst) e)
      | None \<Rightarrow> Ok (\<exists>u \<in> set us. ur_account_id u = acct \<and> ur_job_set_type u = jst \<and>
                                 unlim_live now u))"

definition CountActiveUnlimByJST ::
  "gerror option \<Rightarrow> int \<Rightarrow> unlims \<Rightarrow> accounts \<Rightarrow> (gerror, string \<Rightarrow> nat option) result" where
  "CountActiveUnlimByJST fail now us rows = (case fail of
     Some e \<Rightarrow> Err (Wrap ''count active unlim by jst'' e)
   | None \<Rightarrow>
      (let live = filter (\<lambda>u. unlim_live now u \<and>
                    (\<exists>r \<in> set rows. ar_id r = ur_account_id u \<and> ar_status r = StatusActive)) us
       in Ok (\<lambda>jst. let accts = remdups (map ur_account_id
                                    (filter (\<lambda>u. ur_job_set_type u = jst) live))
                   in if accts = [] then None else Some (length accts))))"

text \<open>The resolutions column: \<open>strings.Join\<close> and \<open>strings.Split\<close> on a comma.\<close>

fun joinComma :: "string list \<Rightarrow> string" where
  "joinComma [] = ''''"
| "joinComma [s] = s"
| "joinComma (s # t # ss) = s @ '','' @ joinComma (t # ss)"

fun splitComma :: "string \<Rightarrow> string list" where
  "splitComma [] = ['''']"
| "splitComma (c # cs) =
     (if c = CHR '','' then '''' # splitComma cs
      else (case splitComma cs of [] \<Rightarrow> [[c]] | s # ss \<Rightarrow> (c # s) # ss))"

definition joinResolutions :: "string list \<Rightarrow> string" where
  "joinResolutions rs = (if length rs = 0 then '''' else joinComma rs)"

definition splitResolutions :: "string \<Rightarrow> string list" where
  "splitResolutions csv = (if csv = '''' then [] else splitComma csv)"

lemma splitComma_nonempty: "splitComma s \<noteq> []"
  by (induction s) (auto split: list.split)

lemma splitComma_plain: "CHR '','' \<notin> set s \<Longrightarrow> splitComma s = [s]"
  by (induction s) auto

lemma splitComma_append:
  "CHR '','' \<notin> set s \<Longrightarrow> splitComma (s @ '','' @ t) = s # splitComma t"
  by (induction s) auto

lemma splitComma_joinComma:
  assumes "rs \<noteq> []" "\<forall>s \<in> set rs. CHR '','' \<notin> set s"
  shows "splitComma (joinComma rs) = rs"
  using assms
proof (induction rs rule: joinComma.induct)
  case (3 s t ss)
  then show ?case using splitComma_append [of s "joinComma (t # ss)"] by simp
qed (simp_all add: splitComma_plain)

lemma joinComma_splitComma: "joinComma (splitComma s) = s"
proof (induction s)
  case (Cons c cs)
  obtain x xs where x: "splitComma cs = x # xs" by (metis splitComma_nonempty list.exhaust)
  show ?case
  proof (cases "c = CHR '',''")
    case True
    then show ?thesis using Cons x by simp
  next
    case False
    then show ?thesis using Cons x by (cases xs) auto
  qed
qed simp

definition unlim_of_row :: "unlim_row \<Rightarrow> unlim_activation" where
  "unlim_of_row u = \<lparr> ua_ID = '''', ua_BundleType = ur_bundle_type u,
     ua_JobSetType = ur_job_set_type u, ua_Resolutions = splitResolutions (ur_resolutions u),
     ua_ExpiresAt = parseTime (ur_expires_at u), ua_ActivatedAt = parseTime (ur_activated_at u),
     ua_IsClaimed = False \<rparr>"

definition ListUnlimActivations ::
  "gerror option \<Rightarrow> string \<Rightarrow> unlims \<Rightarrow> (gerror, unlim_activation list) result" where
  "ListUnlimActivations fail acct us = (case fail of
     Some e \<Rightarrow> Err (Wrap (''list unlim activations '' @ acct) e)
   | None \<Rightarrow> Ok (map unlim_of_row
       (sort_key ur_bundle_type (filter (\<lambda>u. ur_account_id u = acct) us))))"

text \<open>The transaction deletes the account's rows and inserts the new ones; the
  insert fails on a repeated bundle or an unknown account (primary and foreign
  key), and then nothing is written.\<close>

datatype replace_step = RsBegin | RsDelete | RsInsert | RsCommit

definition unlim_row_of :: "int \<Rightarrow> string \<Rightarrow> unlim_activation \<Rightarrow> unlim_row" where
  "unlim_row_of now acct a = \<lparr> ur_account_id = acct, ur_bundle_type = ua_BundleType a,
     ur_job_set_type = ua_JobSetType a, ur_resolutions = joinResolutions (ua_Resolutions a),
     ur_expires_at = nullableTime (ua_ExpiresAt a), ur_activated_at = fmtTime (ua_ActivatedAt a),
     ur_synced_at = fmtTime (Some now) \<rparr>"

fun insert_activations ::
  "gerror option \<Rightarrow> int \<Rightarrow> string \<Rightarrow> accounts \<Rightarrow> unlim_activation list \<Rightarrow> unlims
     \<Rightarrow> (gerror, unlims) result" where
  "insert_activations fail now acct rows [] us = Ok us"
| "insert_activations fail now acct rows (a # as) us =
     (let wrap = Wrap (''replace unlim: insert '' @ acct @ ''/'' @ ua_BundleType a) in
      case fail of
        Some e \<Rightarrow> Err (wrap e)
      | None \<Rightarrow>
          if \<not> (\<exists>r \<in> set rows. ar_id r = acct)
          then Err (wrap (Plain ''FOREIGN KEY constraint failed''))
          else if \<exists>u \<in> set us. ur_account_id u = acct \<and> ur_bundle_type u = ua_BundleType a
          then Err (wrap (Plain ''UNIQUE constraint failed''))
          else insert_activations fail now acct rows as (us @ [unlim_row_of now acct a]))"

definition ReplaceUnlimActivations ::
  "(replace_step \<Rightarrow> gerror option) \<Rightarrow> int \<Rightarrow> string \<Rightarrow> unlim_activation list \<Rightarrow> accounts
     \<Rightarrow> unlims \<Rightarrow> (gerror, unit) result \<times> unlims" where
  "ReplaceUnlimActivations flt now acct acts rows us = (case flt RsBegin of
     Some e \<Rightarrow> (Err e, us)
   | None \<Rightarrow> (case flt RsDelete of
       Some e \<Rightarrow> (Err (Wrap ''replace unlim: delete'' e), us)
     | None \<Rightarrow>
        (case insert_activations (flt RsInsert) now acct rows acts
                (sql_delete (\<lambda>u. ur_account_id u = acct) us) of
           Inl e \<Rightarrow> (Err e, us)
         | Inr us' \<Rightarrow> (case flt RsCommit of
              Some e \<Rightarrow> (Err e, us)
            | None \<Rightarrow> (Ok (), us')))))"

section \<open>Eligibility: the WHERE clause\<close>

definition perAccountCap :: "pick_params \<Rightarrow> int" where
  "perAccountCap p =
     (if pp_MaxConcurrentPerAccount p \<le> 0 then 5 else pp_MaxConcurrentPerAccount p)"

definition headroom_pct :: "lb_opts \<Rightarrow> int" where
  "headroom_pct lb = (let pct = lb_BalanceHeadroomPct lb in
     if pct < 100 then 120 else if pct > 500 then 500 else pct)"

definition minBalance :: "pick_params \<Rightarrow> int" where
  "minBalance p =
     (if lb_Populated (pp_LoadBalance p)
      then wrap64 (wrap64 (pp_EstCostHundredths p * headroom_pct (pp_LoadBalance p)) + 99) sdiv 100
      else wrap64 (pp_EstCostHundredths p + pp_EstCostHundredths p sdiv 5))"

text \<open>The CASE expression that both the MinPlan gate and the tier-aware order use.\<close>

fun plan_rank_case :: "plan \<Rightarrow> int" where
  "plan_rank_case PlanStarter = 1"
| "plan_rank_case PlanBasic = 2"
| "plan_rank_case PlanPro = 3"
| "plan_rank_case PlanPlus = 4"
| "plan_rank_case PlanUltra = 5"
| "plan_rank_case PlanUltimate = 5"
| "plan_rank_case PlanScale = 5"
| "plan_rank_case PlanCreator = 5"
| "plan_rank_case PlanTeam = 5"
| "plan_rank_case PlanEnt = 5"
| "plan_rank_case _ = 0"

definition plan_gates :: "pick_params \<Rightarrow> account_row \<Rightarrow> bool" where
  "plan_gates p r \<longleftrightarrow>
     (pp_RequiresPaid p \<longrightarrow> ar_plan_type r \<notin> {PlanFree, PlanStarter, PlanBasic}) \<and>
     (pp_RequiresUltra p \<longrightarrow>
        ar_plan_type r \<in> {PlanUltra, PlanUltimate, PlanScale, PlanCreator, PlanTeam, PlanEnt}) \<and>
     (TierRank (pp_MinPlan p) > 0 \<longrightarrow> plan_rank_case (ar_plan_type r) \<ge> TierRank (pp_MinPlan p)) \<and>
     (pp_RequiresUnlim p \<longrightarrow> ar_has_unlim r = 1)"

definition eligible :: "int \<Rightarrow> pick_params \<Rightarrow> members \<Rightarrow> account_row \<Rightarrow> bool" where
  "eligible now p ms r \<longleftrightarrow>
     (ar_status r = StatusActive \<or>
      ar_status r = StatusThrottled \<and> ar_throttled_until r \<noteq> SqlNull \<and>
        sql_le (ar_throttled_until r) (fmtTime (Some now))) \<and>
     ar_in_flight_jobs r < perAccountCap p \<and>
     (ar_max_concurrent r = 0 \<or> ar_in_flight_jobs r < ar_max_concurrent r) \<and>
     ar_subscription_balance r \<ge> minBalance p \<and>
     plan_gates p r \<and>
     (pp_GroupID p \<noteq> '''' \<longrightarrow>
        (\<exists>m \<in> set ms. mr_group_id m = pp_GroupID p \<and> mr_account_id m = ar_id r))"

section \<open>Ordering: the ORDER BY clause\<close>

fun cheapest_case :: "plan \<Rightarrow> int" where
  "cheapest_case PlanFree = 1"
| "cheapest_case PlanStarter = 2"
| "cheapest_case PlanBasic = 3"
| "cheapest_case PlanPro = 4"
| "cheapest_case PlanPlus = 5"
| "cheapest_case PlanCreator = 6"
| "cheapest_case PlanTeam = 7"
| "cheapest_case PlanScale = 8"
| "cheapest_case PlanUltimate = 9"
| "cheapest_case PlanUltra = 10"
| "cheapest_case PlanEnt = 11"
| "cheapest_case (PlanOther _) = 99"

definition lru_key :: "account_row \<Rightarrow> int list" where
  "lru_key r = (case ar_last_used_at r of SqlNull \<Rightarrow> time_code (SqlAt 0) | t \<Rightarrow> time_code t)"

definition freeQuotaOrderClause :: "string \<Rightarrow> (free_quota \<Rightarrow> rat) option" where
  "freeQuotaOrderClause field =
     (if field = ''face_swap_credits'' then Some fq_FaceSwapCredits
      else if field = ''soul_credits'' then Some fq_SoulCredits
      else if field = ''character_swap_credits'' then Some fq_CharacterSwapCredits
      else if field = ''qwen_camera_control_credits'' then Some fq_QwenCameraControlCredits
      else if field = ''wan2_5_video_credits'' then Some fq_Wan25VideoCredits
      else if field = ''text2keyframes_credits'' then Some fq_Text2KeyframesCredits
      else if field = ''veo3_fast_generations_count'' then Some fq_Veo3FastGenerationsCount
      else None)"

definition group_priority :: "string \<Rightarrow> members \<Rightarrow> account_row \<Rightarrow> int" where
  "group_priority gid ms r =
     (case find (\<lambda>m. mr_account_id m = ar_id r \<and> mr_group_id m = gid) ms of
        None \<Rightarrow> 0 | Some m \<Rightarrow> mr_priority m)"

definition round_robin_key ::
  "(string \<Rightarrow> int) \<Rightarrow> int \<Rightarrow> pick_params \<Rightarrow> unlims \<Rightarrow> account_row \<Rightarrow> int list" where
  "round_robin_key random now p us r =
     (let opts = pp_LoadBalance p;
          tierAware = (if lb_Populated opts then lb_TierAware opts else True);
          preferRicher = (if lb_Populated opts then lb_PreferRicher opts else False);
          useJitter = (if lb_Populated opts then lb_Jitter opts else True)
      in (if lb_Populated opts \<and> lb_PreferUnlim opts \<and> pp_UnlimJobSetType p \<noteq> ''''
          then [if \<exists>u \<in> set us. ur_account_id u = ar_id r \<and>
                     ur_job_set_type u = pp_UnlimJobSetType p \<and> unlim_live_pick now u
                then 0 else 1]
          else []) @
         (if lb_Populated opts \<and> lb_PreferFreeQuota opts \<and> pp_FreeQuotaField p \<noteq> ''''
          then (case freeQuotaOrderClause (pp_FreeQuotaField p) of
                  None \<Rightarrow> [] | Some col \<Rightarrow> [if col (ar_free_quota r) > 0 then 0 else 1])
          else []) @
         (if tierAware then [plan_rank_case (ar_plan_type r)] else []) @
         (if preferRicher then [- ar_subscription_balance r] else []) @
         lru_key r @ [ar_in_flight_jobs r] @
         (if useJitter then [random (ar_id r)] else []))"

definition order_key ::
  "(string \<Rightarrow> int) \<Rightarrow> int \<Rightarrow> pick_params \<Rightarrow> members \<Rightarrow> unlims \<Rightarrow> account_row \<Rightarrow> int list" where
  "order_key random now p ms us r =
     (let tail = lru_key r @ [ar_in_flight_jobs r, random (ar_id r)] in
      case pp_RouteStrategy p of
        RouteLeastUsed \<Rightarrow> (ar_total_plan_credits r - ar_subscription_balance r) # tail
      | RouteCheapestFirst \<Rightarrow> cheapest_case (ar_plan_type r) # tail
      | RouteMostCreditsFirst \<Rightarrow> - (ar_subscription_balance r + ar_credits_balance r) # tail
      | RoutePriority \<Rightarrow>
          (if pp_GroupID p \<noteq> '''' then - group_priority (pp_GroupID p) ms r
           else - ar_priority r) # tail
      | _ \<Rightarrow> round_robin_key random now p us r)"

section \<open>The transaction\<close>

definition group_in_flight :: "string \<Rightarrow> members \<Rightarrow> accounts \<Rightarrow> int" where
  "group_in_flight gid ms rows =
     sum_list (map (\<lambda>(r, m). ar_in_flight_jobs r)
       (filter (\<lambda>(r, m). mr_account_id m = ar_id r \<and> mr_group_id m = gid)
         (List.product rows ms)))"

definition group_cap_reached :: "pick_params \<Rightarrow> members \<Rightarrow> accounts \<Rightarrow> bool" where
  "group_cap_reached p ms rows \<longleftrightarrow> pp_GroupID p \<noteq> '''' \<and> pp_MaxGroupInFlight p > 0 \<and>
     group_in_flight (pp_GroupID p) ms rows \<ge> pp_MaxGroupInFlight p"

definition select_candidate ::
  "(string \<Rightarrow> int) \<Rightarrow> int \<Rightarrow> pick_params \<Rightarrow> members \<Rightarrow> unlims \<Rightarrow> accounts \<Rightarrow> account_row option" where
  "select_candidate random now p ms us rows =
     (case filter (eligible now p ms) rows of
        [] \<Rightarrow> None
      | r # rs \<Rightarrow> Some (arg_min_list (order_key random now p ms us) (r # rs)))"

definition lock_row :: "int \<Rightarrow> account_row \<Rightarrow> account_row" where
  "lock_row now r = r\<lparr> ar_in_flight_jobs := ar_in_flight_jobs r + 1,
                       ar_last_used_at := fmtTime (Some now) \<rparr>"

datatype pick_step = PsBegin | PsSum | PsSelect | PsUpdate | PsCommit

definition PickAndLock ::
  "(pick_step \<Rightarrow> gerror option) \<Rightarrow> (string \<Rightarrow> int) \<Rightarrow> int \<Rightarrow> pick_params
     \<Rightarrow> members \<Rightarrow> unlims \<Rightarrow> accounts \<Rightarrow> (gerror, account \<times> string) result \<times> accounts" where
  "PickAndLock flt random now p ms us rows =
     (case flt PsBegin of Some e \<Rightarrow> (Err e, rows) | None \<Rightarrow>
      let capped = pp_GroupID p \<noteq> '''' \<and> pp_MaxGroupInFlight p > 0 in
      (case (if capped then flt PsSum else None) of Some e \<Rightarrow> (Err e, rows) | None \<Rightarrow>
       if group_cap_reached p ms rows then (Err (Sent ErrGroupConcurrencyMax), rows)
       else
      (case flt PsSelect of Some e \<Rightarrow> (Err e, rows) | None \<Rightarrow>
      (case select_candidate random now p ms us rows of
         None \<Rightarrow> (Err (Sent ErrNoEligibleAccount), rows)
       | Some r \<Rightarrow>
      (case flt PsUpdate of Some e \<Rightarrow> (Err e, rows) | None \<Rightarrow>
      (case flt PsCommit of Some e \<Rightarrow> (Err e, rows) | None \<Rightarrow>
         (let acc = account_of_row r in
          (Ok (acc\<lparr> a_InFlightJobs := wrap32 (a_InFlightJobs acc + 1),
                    a_LastUsedAt := Some now \<rparr>, ar_id r),
           sql_update (\<lambda>x. ar_id x = ar_id r) (lock_row now) rows))))))))"

section \<open>Lemmas\<close>

lemma plan_rank_case_eq: "plan_rank_case p = TierRank p"
  by (cases p) simp_all

lemma min_plan_gate:
  "(TierRank m > 0 \<longrightarrow> plan_rank_case p \<ge> TierRank m) \<longleftrightarrow> MeetsMinimum p m"
  using TierRank_range [of p] TierRank_range [of m]
  by (auto simp: plan_rank_case_eq MeetsMinimum_rank)

lemma select_candidate_None:
  "select_candidate random now p ms us rows = None \<longleftrightarrow>
     (\<forall>r \<in> set rows. \<not> eligible now p ms r)"
  by (auto simp: select_candidate_def filter_empty_conv split: list.split
      dest: filter_eq_ConsD)

lemma select_candidate_Some:
  assumes "select_candidate random now p ms us rows = Some r"
  shows "r \<in> set rows" "eligible now p ms r"
    "\<And>x. x \<in> set rows \<Longrightarrow> eligible now p ms x \<Longrightarrow>
       order_key random now p ms us r \<le> order_key random now p ms us x"
proof -
  let ?k = "order_key random now p ms us" and ?es = "filter (eligible now p ms) rows"
  have ne: "?es \<noteq> []" and r: "r = arg_min_list ?k ?es"
    using assms by (auto simp: select_candidate_def split: list.splits)
  have in_es: "r \<in> set ?es" unfolding r using ne by (rule arg_min_list_in)
  then show "r \<in> set rows" "eligible now p ms r" by auto
  fix x
  assume "x \<in> set rows" "eligible now p ms x"
  then have "?k x \<in> ?k ` set ?es" by auto
  moreover have "?k r = Min (?k ` set ?es)" unfolding r using ne by (rule f_arg_min_list_f)
  ultimately show "?k r \<le> ?k x" by simp
qed

text \<open>The four ways a pick ends.\<close>

lemma PickAndLock_ok_iff:
  "PickAndLock flt random now p ms us rows = (Inr acct, rows') \<longleftrightarrow>
     flt PsBegin = None \<and> (pp_GroupID p \<noteq> '''' \<and> pp_MaxGroupInFlight p > 0 \<longrightarrow> flt PsSum = None) \<and>
     \<not> group_cap_reached p ms rows \<and> flt PsSelect = None \<and> flt PsUpdate = None \<and>
     flt PsCommit = None \<and>
     (\<exists>r. select_candidate random now p ms us rows = Some r \<and>
        acct = ((account_of_row r)\<lparr> a_InFlightJobs := wrap32 (ar_in_flight_jobs r + 1),
                a_LastUsedAt := Some now \<rparr>, ar_id r) \<and>
        rows' = sql_update (\<lambda>x. ar_id x = ar_id r) (lock_row now) rows)"
  by (auto simp: PickAndLock_def Let_def account_of_row_def split: option.splits if_splits)

lemma PickAndLock_err_rows:
  "PickAndLock flt random now p ms us rows = (Inl e, rows') \<Longrightarrow> rows' = rows"
  by (auto simp: PickAndLock_def Let_def split: option.splits if_splits)

lemma PickAndLock_no_fault:
  "PickAndLock (\<lambda>_. None) random now p ms us rows =
     (if group_cap_reached p ms rows then (Err (Sent ErrGroupConcurrencyMax), rows)
      else case select_candidate random now p ms us rows of
        None \<Rightarrow> (Err (Sent ErrNoEligibleAccount), rows)
      | Some r \<Rightarrow>
         (Ok ((account_of_row r)\<lparr> a_InFlightJobs := wrap32 (ar_in_flight_jobs r + 1),
                a_LastUsedAt := Some now \<rparr>, ar_id r),
          sql_update (\<lambda>x. ar_id x = ar_id r) (lock_row now) rows))"
  by (simp add: PickAndLock_def Let_def account_of_row_def split: option.splits)

lemma lock_row_sel [simp]:
  "ar_id (lock_row now r) = ar_id r" "ar_email (lock_row now r) = ar_email r"
  "ar_in_flight_jobs (lock_row now r) = ar_in_flight_jobs r + 1"
  "ar_status (lock_row now r) = ar_status r" "ar_max_concurrent (lock_row now r) = ar_max_concurrent r"
  by (simp_all add: lock_row_def)

text \<open>The group's aggregate counts each member row once.\<close>

definition member_of :: "string \<Rightarrow> members \<Rightarrow> string \<Rightarrow> bool" where
  "member_of gid ms acct \<longleftrightarrow> (\<exists>m \<in> set ms. mr_group_id m = gid \<and> mr_account_id m = acct)"

definition member_keys_ok :: "members \<Rightarrow> bool" where
  "member_keys_ok ms \<longleftrightarrow> distinct (map (\<lambda>m. (mr_account_id m, mr_group_id m)) ms)"

lemma member_rows_length:
  assumes "member_keys_ok ms"
  shows "length (filter (\<lambda>m. mr_account_id m = acct \<and> mr_group_id m = gid) ms) =
    (if member_of gid ms acct then 1 else 0)"
  using assms
proof (induction ms)
  case Nil
  then show ?case by (simp add: member_of_def)
next
  case (Cons m ms)
  have IH: "length (filter (\<lambda>m. mr_account_id m = acct \<and> mr_group_id m = gid) ms) =
      (if member_of gid ms acct then 1 else 0)"
    using Cons by (simp add: member_keys_ok_def)
  show ?case
  proof (cases "mr_account_id m = acct \<and> mr_group_id m = gid")
    case True
    then have "\<not> member_of gid ms acct"
      using Cons.prems by (force simp: member_keys_ok_def member_of_def image_iff)
    then show ?thesis using IH True by (simp add: member_of_def)
  next
    case False
    then have "member_of gid (m # ms) acct = member_of gid ms acct" by (auto simp: member_of_def)
    moreover have "filter (\<lambda>m. mr_account_id m = acct \<and> mr_group_id m = gid) (m # ms) =
        filter (\<lambda>m. mr_account_id m = acct \<and> mr_group_id m = gid) ms" using False by auto
    ultimately show ?thesis using IH by presburger
  qed
qed

lemma group_in_flight_sum:
  assumes "member_keys_ok ms"
  shows "group_in_flight gid ms rows =
    sum_list (map (\<lambda>r. if member_of gid ms (ar_id r) then ar_in_flight_jobs r else 0) rows)"
proof (induction rows)
  case Nil
  then show ?case by (simp add: group_in_flight_def)
next
  case (Cons r rows)
  let ?P = "\<lambda>m. mr_account_id m = ar_id r \<and> mr_group_id m = gid"
  have "filter (\<lambda>(r, m). mr_account_id m = ar_id r \<and> mr_group_id m = gid) (map (Pair r) ms)
      = map (Pair r) (filter ?P ms)"
    by (simp add: filter_map comp_def)
  then have "group_in_flight gid ms (r # rows) =
      sum_list (map (\<lambda>m. ar_in_flight_jobs r) (filter ?P ms)) + group_in_flight gid ms rows"
    by (simp add: group_in_flight_def comp_def)
  also have "sum_list (map (\<lambda>m. ar_in_flight_jobs r) (filter ?P ms)) =
      int (length (filter ?P ms)) * ar_in_flight_jobs r"
    by (simp add: sum_list_triv)
  finally show ?case using Cons by (simp add: member_rows_length [OF assms])
qed

lemma group_in_flight_lock:
  assumes "member_keys_ok ms" "distinct (map ar_id rows)" "r \<in> set rows"
  shows "group_in_flight gid ms (sql_update (\<lambda>x. ar_id x = ar_id r) (lock_row now) rows) =
    group_in_flight gid ms rows + (if member_of gid ms (ar_id r) then 1 else 0)"
  unfolding group_in_flight_sum [OF assms(1)]
  by (subst sum_list_update_key [OF assms(2), of "ar_id r" r])
     (simp_all add: find_row_distinct [OF assms(2,3)])

section \<open>Properties\<close>

definition demo_params :: pick_params where
  "demo_params = \<lparr> pp_JST = ''nano'', pp_EstCostHundredths = 100, pp_MinPlan = PlanBasic,
     pp_RequiresPaid = True, pp_RequiresUltra = False, pp_RequiresUnlim = False,
     pp_GroupID = ''g'', pp_RouteStrategy = RouteRoundRobin, pp_MaxGroupInFlight = 2,
     pp_MaxConcurrentPerAccount = 0,
     pp_LoadBalance = \<lparr> lb_Populated = False, lb_TierAware = False, lb_PreferUnlim = False,
        lb_PreferFreeQuota = False, lb_PreferRicher = False, lb_BalanceHeadroomPct = 0,
        lb_Jitter = False \<rparr>,
     pp_UnlimJobSetType = '''', pp_FreeQuotaField = '''' \<rparr>"

definition demo_members :: members where
  "demo_members = [\<lparr> mr_account_id = ''a'', mr_group_id = ''g'', mr_priority = 100,
     mr_added_at = SqlAt 0 \<rparr>]"

definition demo_pool :: accounts where
  "demo_pool = [demo_row ''b'', demo_row ''a'']"

lemma demo_eligible_a: "eligible 0 demo_params demo_members (demo_row ''a'')"
  by (simp add: eligible_def demo_params_def demo_members_def perAccountCap_def minBalance_def
      plan_gates_def wrap64_small)

lemma demo_not_eligible_b: "\<not> eligible 0 demo_params demo_members (demo_row ''b'')"
  by (simp add: eligible_def demo_params_def demo_members_def)

lemma demo_select:
  "select_candidate random 0 demo_params demo_members us demo_pool = Some (demo_row ''a'')"
  by (simp add: select_candidate_def demo_pool_def demo_eligible_a demo_not_eligible_b)

lemma demo_cap: "\<not> group_cap_reached demo_params demo_members demo_pool"
  by (simp add: group_cap_reached_def demo_params_def demo_members_def demo_pool_def
      group_in_flight_def)

lemma demo_pick:
  "PickAndLock (\<lambda>_. None) random 0 demo_params demo_members us demo_pool =
     (Ok ((account_of_row (demo_row ''a''))\<lparr> a_InFlightJobs := 1, a_LastUsedAt := Some 0 \<rparr>, ''a''),
      sql_update (\<lambda>x. ar_id x = ''a'') (lock_row 0) demo_pool)"
  by (simp add: PickAndLock_no_fault demo_cap demo_select wrap32_def)

text \<open>C1. Soundness of a pick: the account returned is that of a row of the table
  that is active, or throttled with its cooldown over, and satisfies every other condition
  of the WHERE clause (caps, balance, plan gates, membership), that no eligible row precedes in the order of the
  route strategy, and the group cap is not reached; the new table differs from
  the old one in that row alone, whose counter is one higher.\<close>

theorem PickAndLock_sound:
  assumes "PickAndLock flt random now p ms us rows = (Ok (acc, token), rows')"
  shows "\<exists>r \<in> set rows. a_ID acc = ar_id r \<and> token = ar_id r \<and> eligible now p ms r \<and>
      (ar_status r = StatusActive \<or>
       ar_status r = StatusThrottled \<and> ar_throttled_until r \<noteq> SqlNull \<and>
         sql_le (ar_throttled_until r) (fmtTime (Some now))) \<and>
      MeetsMinimum (ar_plan_type r) (pp_MinPlan p) \<and>
      (\<forall>x \<in> set rows. eligible now p ms x \<longrightarrow>
         order_key random now p ms us r \<le> order_key random now p ms us x) \<and>
      \<not> group_cap_reached p ms rows \<and>
      rows' = map (\<lambda>x. if ar_id x = ar_id r
                       then x\<lparr> ar_in_flight_jobs := ar_in_flight_jobs x + 1,
                               ar_last_used_at := fmtTime (Some now) \<rparr> else x) rows"
proof -
  from assms obtain r where sel: "select_candidate random now p ms us rows = Some r"
    and acc: "a_ID acc = ar_id r" "token = ar_id r"
    and upd: "rows' = sql_update (\<lambda>x. ar_id x = ar_id r) (lock_row now) rows"
    and cap: "\<not> group_cap_reached p ms rows"
    by (auto simp: PickAndLock_ok_iff account_of_row_sel)
  note s = select_candidate_Some [OF sel]
  have "MeetsMinimum (ar_plan_type r) (pp_MinPlan p)"
    using s(2) by (auto simp: eligible_def plan_gates_def min_plan_gate)
  moreover have "ar_status r = StatusActive \<or>
      ar_status r = StatusThrottled \<and> ar_throttled_until r \<noteq> SqlNull \<and>
        sql_le (ar_throttled_until r) (fmtTime (Some now))" using s(2) by (simp add: eligible_def)
  ultimately show ?thesis
    using s acc upd cap
    by (intro bexI [of _ r]) (auto simp: sql_update_def lock_row_def)
qed

theorem PickAndLock_sound_witness:
  "\<exists>r \<in> set demo_pool. a_ID (account_of_row (demo_row ''a'')) = ar_id r \<and>
     eligible 0 demo_params demo_members r"
  using PickAndLock_sound [OF demo_pick [of "\<lambda>_. 0" "[]"]] by (auto simp: account_of_row_def)

text \<open>C2. Completeness of a pick: when the database answers, a pick fails with the
  no-eligible-account error exactly when the group cap is not reached and no
  row is eligible, with the group-concurrency error exactly when the cap is
  reached, and it succeeds otherwise; a failed pick, whatever the reason,
  writes nothing.\<close>

theorem PickAndLock_complete:
  "(fst (PickAndLock (\<lambda>_. None) random now p ms us rows) = Err (Sent ErrNoEligibleAccount) \<longleftrightarrow>
      \<not> group_cap_reached p ms rows \<and> (\<forall>r \<in> set rows. \<not> eligible now p ms r)) \<and>
   (fst (PickAndLock (\<lambda>_. None) random now p ms us rows) = Err (Sent ErrGroupConcurrencyMax) \<longleftrightarrow>
      group_cap_reached p ms rows) \<and>
   (is_ok (fst (PickAndLock (\<lambda>_. None) random now p ms us rows)) \<longleftrightarrow>
      \<not> group_cap_reached p ms rows \<and> (\<exists>r \<in> set rows. eligible now p ms r)) \<and>
   (is_ok (fst (PickAndLock flt random now p ms us rows)) \<or>
      snd (PickAndLock flt random now p ms us rows) = rows)"
proof -
  have rows: "is_ok (fst (PickAndLock flt random now p ms us rows)) \<or>
      snd (PickAndLock flt random now p ms us rows) = rows"
    by (cases "PickAndLock flt random now p ms us rows"; cases "fst (PickAndLock flt random now p ms us rows)")
       (auto dest: PickAndLock_err_rows)
  show ?thesis
  proof (cases "select_candidate random now p ms us rows")
    case None
    moreover have "\<forall>r \<in> set rows. \<not> eligible now p ms r"
      using None by (simp only: select_candidate_None)
    ultimately show ?thesis using rows by (simp add: PickAndLock_no_fault)
  next
    case (Some r)
    then have "\<exists>r \<in> set rows. eligible now p ms r"
      using select_candidate_Some by blast
    then show ?thesis using rows Some by (simp add: PickAndLock_no_fault)
  qed
qed

theorem PickAndLock_complete_witness:
  "is_ok (fst (PickAndLock (\<lambda>_. None) (\<lambda>_. 0) 0 demo_params demo_members [] demo_pool))"
proof -
  have "\<exists>r \<in> set demo_pool. eligible 0 demo_params demo_members r"
    using demo_eligible_a by (auto simp: demo_pool_def)
  with PickAndLock_complete [of "\<lambda>_. 0" 0 demo_params demo_members "[]" demo_pool "\<lambda>_. None"]
  show ?thesis using demo_cap by blast
qed

text \<open>C3. Concurrency caps: after a successful pick the picked account runs at
  most as many jobs as the per-account cap of the call and as its own
  max_concurrent column allow, and, in a pool with keys intact, a capped
  group runs one job more than before and at most its maximum.\<close>

theorem PickAndLock_caps:
  assumes "PickAndLock flt random now p ms us rows = (Ok (acc, token), rows')"
    and "distinct (map ar_id rows)" "member_keys_ok ms"
  shows "in_flight token rows' = in_flight token rows + 1 \<and>
    in_flight token rows' \<le> perAccountCap p \<and>
    (\<exists>r. find_row ar_id token rows' = Some r \<and>
       (ar_max_concurrent r = 0 \<or> ar_in_flight_jobs r \<le> ar_max_concurrent r)) \<and>
    (pp_GroupID p \<noteq> '''' \<longrightarrow> group_in_flight (pp_GroupID p) ms rows' =
       group_in_flight (pp_GroupID p) ms rows + 1) \<and>
    (pp_GroupID p \<noteq> '''' \<and> pp_MaxGroupInFlight p > 0 \<longrightarrow>
       group_in_flight (pp_GroupID p) ms rows' \<le> pp_MaxGroupInFlight p)"
proof -
  from assms(1) obtain r where sel: "select_candidate random now p ms us rows = Some r"
    and tok: "token = ar_id r" and cap: "\<not> group_cap_reached p ms rows"
    and upd: "rows' = sql_update (\<lambda>x. ar_id x = ar_id r) (lock_row now) rows"
    by (auto simp: PickAndLock_ok_iff)
  note s = select_candidate_Some [OF sel]
  have old: "find_row ar_id token rows = Some r"
    using find_row_distinct [OF assms(2) s(1)] tok by simp
  have new: "find_row ar_id token rows' = Some (lock_row now r)"
    using old unfolding upd tok by (simp add: find_row_ar_same)
  have mem: "member_of (pp_GroupID p) ms (ar_id r)" if "pp_GroupID p \<noteq> ''''"
    using s(2) that by (auto simp: eligible_def member_of_def)
  have grp: "pp_GroupID p \<noteq> '''' \<longrightarrow> group_in_flight (pp_GroupID p) ms rows' =
      group_in_flight (pp_GroupID p) ms rows + 1"
    using mem unfolding upd by (simp add: group_in_flight_lock [OF assms(3,2) s(1)])
  show ?thesis
  proof (intro conjI)
    show "in_flight token rows' = in_flight token rows + 1"
      using old new by (simp add: in_flight_def)
    show "in_flight token rows' \<le> perAccountCap p"
      using s(2) new by (simp add: in_flight_def eligible_def)
    show "\<exists>r. find_row ar_id token rows' = Some r \<and>
        (ar_max_concurrent r = 0 \<or> ar_in_flight_jobs r \<le> ar_max_concurrent r)"
      using s(2) new by (auto simp: eligible_def)
    show "pp_GroupID p \<noteq> '''' \<and> pp_MaxGroupInFlight p > 0 \<longrightarrow>
        group_in_flight (pp_GroupID p) ms rows' \<le> pp_MaxGroupInFlight p"
      using grp cap by (auto simp: group_cap_reached_def)
  qed (rule grp)
qed

theorem PickAndLock_caps_witness:
  "in_flight ''a'' (sql_update (\<lambda>x. ar_id x = ''a'') (lock_row 0) demo_pool) \<le> perAccountCap demo_params"
proof -
  have "distinct (map ar_id demo_pool)" "member_keys_ok demo_members"
    by (simp_all add: demo_pool_def member_keys_ok_def demo_members_def)
  from PickAndLock_caps [OF demo_pick [of "\<lambda>_. 0" "[]"] this] show ?thesis by simp
qed

lemma ceil_100:
  "((x + 99) div 100 - 1) * 100 < (x::int) \<and> x \<le> (x + 99) div 100 * 100"
proof -
  have *: "(q - 1) * 100 < x \<and> x \<le> q * 100" if "x + 99 = q * 100 + m" "0 \<le> m" "m < 100" for q m
    using that by (simp add: left_diff_distrib)
  show ?thesis by (rule * [of _ "(x + 99) mod 100"]) simp_all
qed

lemma plus_fifth: "(e::int) * 120 div 100 = e + e div 5"
  by linarith

text \<open>The budget test: for an estimated cost below 2^54 the default balance bar of
  a pick is the one \<open>CanAfford\<close> tests (cost plus a fifth), and with operator
  settings the bar is the cost times the clamped percentage, rounded up, so it
  never lies below the cost itself.\<close>

theorem minBalance_spec:
  assumes "0 \<le> pp_EstCostHundredths p" "pp_EstCostHundredths p < 2 ^ 54"
  shows "(\<not> lb_Populated (pp_LoadBalance p) \<longrightarrow>
           (a_SubscriptionBalance a \<ge> minBalance p \<longleftrightarrow> CanAfford a (pp_EstCostHundredths p))) \<and>
         (lb_Populated (pp_LoadBalance p) \<longrightarrow>
           (minBalance p - 1) * 100 < pp_EstCostHundredths p * headroom_pct (pp_LoadBalance p) \<and>
           pp_EstCostHundredths p * headroom_pct (pp_LoadBalance p) \<le> minBalance p * 100) \<and>
         pp_EstCostHundredths p \<le> minBalance p"
proof -
  let ?e = "pp_EstCostHundredths p" and ?h = "headroom_pct (pp_LoadBalance p)"
  have h: "100 \<le> ?h" "?h \<le> 500" by (simp_all add: headroom_pct_def Let_def)
  have eh: "0 \<le> ?e * ?h" "?e * ?h \<le> ?e * 500"
    using assms h by (auto intro: mult_left_mono)
  have w1: "wrap64 (?e * ?h) = ?e * ?h" using eh assms by (intro wrap64_id) (simp add: int64_range_def)
  have w2: "wrap64 (?e * ?h + 99) = ?e * ?h + 99"
    using eh assms by (intro wrap64_id) (simp add: int64_range_def)
  have d5: "?e sdiv 5 = ?e div 5" using assms by (simp add: signed_divide_int_def sgn_if)
  have d5n: "0 \<le> ?e div 5 \<and> ?e div 5 \<le> ?e" using assms(1) by linarith
  have w3: "wrap64 (?e + ?e sdiv 5) = ?e + ?e div 5"
    using assms d5n by (subst d5, intro wrap64_id) (simp add: int64_range_def)
  have w4: "wrap64 (?e * 120) = ?e * 120" using assms by (intro wrap64_id) (simp add: int64_range_def)
  have d100: "(?e * 120) sdiv 100 = ?e * 120 div 100"
    using assms by (simp add: signed_divide_int_def sgn_if)
  have e6: "?e * 120 div 100 = ?e + ?e div 5" by (rule plus_fifth)
  have w5: "wrap64 (?e * 120 div 100) = ?e * 120 div 100"
    unfolding e6 using assms d5n by (intro wrap64_id) (simp add: int64_range_def)
  have def1: "minBalance p = ?e + ?e div 5" if "\<not> lb_Populated (pp_LoadBalance p)"
    using that by (simp add: minBalance_def w3)
  have def2: "minBalance p = (?e * ?h + 99) div 100" if "lb_Populated (pp_LoadBalance p)"
    using that eh by (simp add: minBalance_def w1 w2 signed_divide_int_def sgn_if)
  have afford: "CanAfford a ?e \<longleftrightarrow> a_SubscriptionBalance a \<ge> ?e * 120 div 100"
    by (simp only: CanAfford_def w4 d100 w5)
  have "?e * 100 \<le> ?e * ?h" using h assms(1) by (intro mult_left_mono)
  then have le: "?e \<le> (?e * ?h + 99) div 100" by linarith
  show ?thesis
  proof (cases "lb_Populated (pp_LoadBalance p)")
    case True
    then show ?thesis using def2 le ceil_100 [of "?e * ?h"] by simp
  next
    case False
    then show ?thesis using def1 afford d5n e6 by simp
  qed
qed

theorem minBalance_spec_witness:
  "(1000 \<ge> minBalance demo_params) = CanAfford (demo_account ''a'') 100"
  using minBalance_spec [of demo_params "demo_account ''a''"]
  by (simp add: demo_params_def demo_account_def)

section \<open>Slots\<close>

definition acquire_slot :: "int \<Rightarrow> string \<Rightarrow> accounts \<Rightarrow> accounts" where
  "acquire_slot now acct rows = sql_update (\<lambda>x. ar_id x = acct) (lock_row now) rows"

definition release_slot :: "string \<Rightarrow> accounts \<Rightarrow> accounts" where
  "release_slot acct rows = snd (Unlock None acct acct rows)"

lemma PickAndLock_acquires:
  "PickAndLock flt random now p ms us rows = (Ok (acc, token), rows') \<Longrightarrow>
   rows' = acquire_slot now token rows"
  by (auto simp: PickAndLock_ok_iff acquire_slot_def)

lemma PickAndLock_row:
  assumes "PickAndLock flt random now p ms us rows = (Ok (acc, token), rows')"
  obtains r where "r \<in> set rows" "a_ID acc = ar_id r" "token = ar_id r" "eligible now p ms r"
proof -
  from assms obtain r where r: "select_candidate random now p ms us rows = Some r"
    "a_ID acc = ar_id r" "token = ar_id r" by (auto simp: PickAndLock_ok_iff account_of_row_sel)
  then show thesis using that select_candidate_Some(1,2) [OF r(1)] by simp
qed

lemma in_flight_None: "acct \<notin> keys_of ar_id rows \<Longrightarrow> in_flight acct rows = 0"
  by (simp add: in_flight_def find_row_None_iff [THEN iffD2])

lemma keys_of_sql_update:
  "(\<And>r. ar_id (f r) = ar_id r) \<Longrightarrow> keys_of ar_id (sql_update P f rows) = keys_of ar_id rows"
  unfolding keys_of_def sql_update_def set_map image_image by (rule image_cong) simp_all

interpretation acct_slots: slot_counter "acquire_slot now" release_slot in_flight "keys_of ar_id"
proof
  show "keys_of ar_id (acquire_slot now j s) = keys_of ar_id s" for j s
    by (simp add: acquire_slot_def keys_of_sql_update)
  show "keys_of ar_id (release_slot j s) = keys_of ar_id s" for j s
    unfolding release_slot_def Unlock_def UpdateInFlight_def
    by (simp add: update_checked_ok keys_of_sql_update)
  show "i \<in> keys_of ar_id s \<Longrightarrow> in_flight i (acquire_slot now i s) = in_flight i s + 1" for i s
    by (cases "find_row ar_id i s")
       (simp_all add: acquire_slot_def in_flight_def find_row_ar_same find_row_None_iff)
  show "i \<noteq> j \<Longrightarrow> in_flight i (acquire_slot now j s) = in_flight i s" for i j s
    by (simp add: acquire_slot_def in_flight_def find_row_ar_other)
  show "i \<in> keys_of ar_id s \<Longrightarrow> in_flight i (release_slot i s) = max 0 (in_flight i s - 1)" for i s
    by (simp add: release_slot_def Unlock_def in_flight_UpdateInFlight find_row_None_iff)
  show "i \<noteq> j \<Longrightarrow> in_flight i (release_slot j s) = in_flight i s" for i j s
    by (simp add: release_slot_def Unlock_def in_flight_UpdateInFlight_other)
qed

text \<open>A slot is given back exactly: releasing with the token a successful pick
  returned restores the in-flight count of every account.\<close>

theorem pick_unlock_roundtrip:
  assumes "PickAndLock flt random now p ms us rows = (Ok (acc, token), rows')" "slots_ok rows"
  shows "fst (Unlock None (a_ID acc) token rows') = Ok () \<and>
    in_flight acct (snd (Unlock None (a_ID acc) token rows')) = in_flight acct rows"
proof -
  from PickAndLock_row [OF assms(1)] obtain r where r: "r \<in> set rows" "a_ID acc = ar_id r"
    "token = ar_id r" by auto
  have upd: "rows' = acquire_slot now token rows" by (rule PickAndLock_acquires [OF assms(1)])
  have known: "token \<in> keys_of ar_id rows" using r by (auto simp: keys_of_def)
  have "0 \<le> in_flight token rows"
    using assms(2) by (auto simp: in_flight_def slots_ok_def split: option.split dest: find_row_SomeD)
  from acct_slots.acquire_release [OF known this]
  have "in_flight acct (release_slot token rows') = in_flight acct rows" unfolding upd .
  moreover have "find_row ar_id token rows' \<noteq> None"
    using known acct_slots.known_acquire [of now token rows] unfolding upd
    by (simp add: find_row_None_iff)
  ultimately show ?thesis using r
    by (simp add: release_slot_def Unlock_def UpdateInFlight_def update_checked_ok)
qed

theorem pick_unlock_roundtrip_witness:
  "in_flight ''a'' (snd (Unlock None ''a'' ''a''
     (sql_update (\<lambda>x. ar_id x = ''a'') (lock_row 0) demo_pool))) = 0"
proof -
  have "slots_ok demo_pool" by (simp add: slots_ok_def demo_pool_def)
  from pick_unlock_roundtrip [OF demo_pick [of "\<lambda>_. 0" "[]"] this, of "''a''"] show ?thesis
    by (simp add: account_of_row_def in_flight_def demo_pool_def find_row_Cons)
qed

end
