(* ===== verification/JobStore.thy ===== *)
theory JobStore
  imports AccountStore Interfaces
begin

text \<open>
  \<open>internal/adapters/storage/sqlite/job_store.go\<close>: the jobs table.  A job is
  finished by \<open>TryMarkTerminal\<close>, a compare-and-swap on its status that tells
  its caller whether it won; \<open>UpdateStatus\<close> writes without a guard.  The
  first argument of an operation is the answer of the SQL driver, as in
  \<open>AccountStore\<close>.
\<close>

section \<open>Rows\<close>

record job_row =
  jr_id :: string
  jr_api_key_id :: "string option"
  jr_cpa_partner_id :: "string option"
  jr_group_id :: "string option"
  jr_account_id :: string
  jr_model_alias :: string
  jr_jst :: string
  jr_endpoint :: string
  jr_request_body_json :: string
  jr_request_ts :: sqltime
  jr_upstream_job_id :: "string option"
  jr_upstream_cost :: "int option"
  jr_result_url :: "string option"
  jr_status :: job_status
  jr_error_type :: error_type
  jr_error_detail :: "string option"
  jr_finished_at :: sqltime
  jr_last_poll_at :: sqltime
  jr_latency_ms :: "int option"
  jr_poll_count :: "int option"
  jr_actual_credits_h :: "int option"
  jr_charged_credits_h :: "int option"
  jr_refunded :: int
  jr_callback_url :: string
  jr_pre_balance_h :: int

text \<open>The error_type column is NULL or a text; NULL is read back as \<open>ErrNone\<close>, the
  only value stored as NULL, so the column is an \<open>error_type\<close>.\<close>

type_synonym jobs = "job_row list"

record job_meta =
  jm_UpstreamJobID :: string
  jm_ResultURL :: string
  jm_ErrorType :: error_type
  jm_ErrorDetail :: string
  jm_LatencyMS :: int
  jm_PollCount :: int
  jm_ActualCreditsHundredths :: int
  jm_ChargedCreditsHundredths :: int
  jm_Refunded :: bool

definition empty_meta :: job_meta where
  "empty_meta = \<lparr> jm_UpstreamJobID = '''', jm_ResultURL = '''', jm_ErrorType = ErrNone,
     jm_ErrorDetail = '''', jm_LatencyMS = 0, jm_PollCount = 0, jm_ActualCreditsHundredths = 0,
     jm_ChargedCreditsHundredths = 0, jm_Refunded = False \<rparr>"

definition nullStr :: "string \<Rightarrow> string option" where
  "nullStr s = (if s = '''' then None else Some s)"

definition nullInt :: "int \<Rightarrow> int option" where
  "nullInt v = (if v = 0 then None else Some v)"

definition nullInt64 :: "int option \<Rightarrow> int" where
  "nullInt64 v = (case v of None \<Rightarrow> 0 | Some i \<Rightarrow> i)"

lemma nullString_nullStr [simp]: "nullString (nullStr s) = s"
  by (simp add: nullStr_def)

lemma nullInt64_nullInt [simp]: "nullInt64 (nullInt v) = v" "nullInt64 (Some v) = v"
  by (simp_all add: nullInt_def nullInt64_def)

definition isTerminal :: "job_status \<Rightarrow> bool" where
  "isTerminal st = (case st of
     JobCompleted \<Rightarrow> True | JobFailed \<Rightarrow> True | JobRefunded \<Rightarrow> True | JobTimeout \<Rightarrow> True
   | _ \<Rightarrow> False)"

lemma isTerminal_simps [simp]:
  "isTerminal JobCompleted" "isTerminal JobFailed" "isTerminal JobRefunded" "isTerminal JobTimeout"
  "\<not> isTerminal JobPending" "\<not> isTerminal JobQueued" "\<not> isTerminal JobRunning"
  "\<not> isTerminal (JobOther s)"
  by (simp_all add: isTerminal_def)

definition pending_statuses :: "job_status list" where
  "pending_statuses = [JobPending, JobQueued, JobRunning]"

lemma pending_not_terminal: "st \<in> set pending_statuses \<Longrightarrow> \<not> isTerminal st"
  by (auto simp: pending_statuses_def)

section \<open>Reading a row\<close>

definition job_of_row :: "job_row \<Rightarrow> job" where
  "job_of_row r = \<lparr>
     j_ID = jr_id r,
     j_APIKeyID = nullString (jr_api_key_id r),
     j_CPAPartnerID = nullString (jr_cpa_partner_id r),
     j_GroupID = nullString (jr_group_id r),
     j_AccountID = jr_account_id r,
     j_ModelAlias = jr_model_alias r,
     j_JST = jr_jst r,
     j_Endpoint = jr_endpoint r,
     j_RequestBodyJSON = jr_request_body_json r,
     j_RequestTS = parseTime (jr_request_ts r),
     j_UpstreamJobID = nullString (jr_upstream_job_id r),
     j_UpstreamCost = nullInt64 (jr_upstream_cost r),
     j_ResultURL = nullString (jr_result_url r),
     j_Status = jr_status r,
     j_ErrorType = jr_error_type r,
     j_ErrorDetail = nullString (jr_error_detail r),
     j_FinishedAt = parseTime (jr_finished_at r),
     j_LatencyMS = nullInt64 (jr_latency_ms r),
     j_PollCount = nullInt64 (jr_poll_count r),
     j_ActualCreditsHundredths = nullInt64 (jr_actual_credits_h r),
     j_ChargedCreditsHundredths = nullInt64 (jr_charged_credits_h r),
     j_Refunded = intToBool (jr_refunded r),
     j_PreBalanceH = jr_pre_balance_h r,
     j_CallbackURL = jr_callback_url r \<rparr>"

definition scanJob :: "job_row option \<Rightarrow> (gerror, job) result" where
  "scanJob row = (case row of None \<Rightarrow> Err (Sent ErrJobNotFound) | Some r \<Rightarrow> Ok (job_of_row r))"

definition GetJob :: "gerror option \<Rightarrow> string \<Rightarrow> jobs \<Rightarrow> (gerror, job) result" where
  "GetJob fail jid rows = (case fail of
     Some e \<Rightarrow> Err e
   | None \<Rightarrow> scanJob (find_row jr_id jid rows))"

section \<open>Writes\<close>

definition insert_job_row :: "job \<Rightarrow> job_row" where
  "insert_job_row j = \<lparr>
     jr_id = j_ID j,
     jr_api_key_id = nullStr (j_APIKeyID j),
     jr_cpa_partner_id = nullStr (j_CPAPartnerID j),
     jr_group_id = nullStr (j_GroupID j),
     jr_account_id = j_AccountID j,
     jr_model_alias = j_ModelAlias j,
     jr_jst = j_JST j,
     jr_endpoint = j_Endpoint j,
     jr_request_body_json = j_RequestBodyJSON j,
     jr_request_ts = fmtTime (j_RequestTS j),
     jr_upstream_job_id = nullStr (j_UpstreamJobID j),
     jr_upstream_cost = nullInt (j_UpstreamCost j),
     jr_result_url = nullStr (j_ResultURL j),
     jr_status = j_Status j,
     jr_error_type = j_ErrorType j,
     jr_error_detail = nullStr (j_ErrorDetail j),
     jr_finished_at = SqlNull,
     jr_last_poll_at = SqlNull,
     jr_latency_ms = Some (j_LatencyMS j),
     jr_poll_count = Some (j_PollCount j),
     jr_actual_credits_h = nullInt (j_ActualCreditsHundredths j),
     jr_charged_credits_h = nullInt (j_ChargedCreditsHundredths j),
     jr_refunded = boolToInt (j_Refunded j),
     jr_callback_url = j_CallbackURL j,
     jr_pre_balance_h = j_PreBalanceH j \<rparr>"

text \<open>The insert fails on a repeated id (primary key) and on an account that is
  not in the accounts table (foreign key).\<close>

definition CreateJob ::
  "gerror option \<Rightarrow> accounts \<Rightarrow> job \<Rightarrow> jobs \<Rightarrow> (gerror, unit) result \<times> jobs" where
  "CreateJob fail accts j rows =
     (let wrap = Wrap (''insert job '' @ j_ID j) in
      case fail of
        Some e \<Rightarrow> (Err (wrap e), rows)
      | None \<Rightarrow>
          if \<exists>r \<in> set rows. jr_id r = j_ID j
          then (Err (wrap (Plain ''UNIQUE constraint failed: jobs.id'')), rows)
          else if \<not> (\<exists>r \<in> set accts. ar_id r = j_AccountID j)
          then (Err (wrap (Plain ''FOREIGN KEY constraint failed'')), rows)
          else (Ok (), rows @ [insert_job_row j]))"

text \<open>The SET clause both writers build: a field of the meta is written when it is
  not zero.\<close>

definition apply_meta :: "job_meta \<Rightarrow> job_row \<Rightarrow> job_row" where
  "apply_meta m r = r\<lparr>
     jr_upstream_job_id :=
       (if jm_UpstreamJobID m \<noteq> '''' then Some (jm_UpstreamJobID m) else jr_upstream_job_id r),
     jr_result_url := (if jm_ResultURL m \<noteq> '''' then Some (jm_ResultURL m) else jr_result_url r),
     jr_error_type := (if jm_ErrorType m \<noteq> ErrNone then jm_ErrorType m else jr_error_type r),
     jr_error_detail :=
       (if jm_ErrorDetail m \<noteq> '''' then Some (jm_ErrorDetail m) else jr_error_detail r),
     jr_latency_ms := (if jm_LatencyMS m > 0 then Some (jm_LatencyMS m) else jr_latency_ms r),
     jr_poll_count := (if jm_PollCount m > 0 then Some (jm_PollCount m) else jr_poll_count r),
     jr_actual_credits_h :=
       (if jm_ActualCreditsHundredths m \<noteq> 0 then Some (jm_ActualCreditsHundredths m)
        else jr_actual_credits_h r),
     jr_charged_credits_h :=
       (if jm_ChargedCreditsHundredths m \<noteq> 0 then Some (jm_ChargedCreditsHundredths m)
        else jr_charged_credits_h r),
     jr_refunded := (if jm_Refunded m then 1 else jr_refunded r) \<rparr>"

definition terminal_row :: "int \<Rightarrow> job_status \<Rightarrow> job_meta \<Rightarrow> job_row \<Rightarrow> job_row" where
  "terminal_row now to m r = apply_meta m (r\<lparr> jr_status := to,
     jr_last_poll_at := fmtTime (Some now), jr_finished_at := fmtTime (Some now) \<rparr>)"

definition TryMarkTerminal ::
  "gerror option \<Rightarrow> int \<Rightarrow> string \<Rightarrow> job_status list \<Rightarrow> job_status \<Rightarrow> job_meta \<Rightarrow> jobs
     \<Rightarrow> (gerror, bool) result \<times> jobs" where
  "TryMarkTerminal fail now jid from to m rows =
     (if length from = 0
      then (Err (Plain (''try mark terminal '' @ jid @ '': from statuses required'')), rows)
      else if \<not> isTerminal to
      then (Err (Plain (''try mark terminal '' @ jid @ '': not a terminal status'')), rows)
      else case fail of
        Some e \<Rightarrow> (Err (Wrap (''try mark terminal '' @ jid) e), rows)
      | None \<Rightarrow>
         (let P = (\<lambda>r. jr_id r = jid \<and> jr_status r \<in> set from) in
          (Ok (rows_affected P rows = 1), sql_update P (terminal_row now to m) rows)))"

definition progress_row :: "int \<Rightarrow> job_status \<Rightarrow> job_meta \<Rightarrow> job_row \<Rightarrow> job_row" where
  "progress_row now st m r = apply_meta m (r\<lparr> jr_status := st,
     jr_last_poll_at := fmtTime (Some now),
     jr_finished_at := (if isTerminal st then fmtTime (Some now) else jr_finished_at r) \<rparr>)"

definition UpdateStatus ::
  "gerror option \<Rightarrow> int \<Rightarrow> string \<Rightarrow> job_status \<Rightarrow> job_meta \<Rightarrow> jobs
     \<Rightarrow> (gerror, unit) result \<times> jobs" where
  "UpdateStatus fail now jid st m rows = (case fail of
     Some e \<Rightarrow> (Err (Wrap (''update job '' @ jid) e), rows)
   | None \<Rightarrow>
      (if rows_affected (\<lambda>r. jr_id r = jid) rows = 0 then Err (Sent ErrJobNotFound) else Ok (),
       sql_update (\<lambda>r. jr_id r = jid) (progress_row now st m) rows))"

section \<open>Lists\<close>

record job_filter =
  jf_Status :: job_status
  jf_Since :: gotime
  jf_Until :: gotime
  jf_AccountID :: string
  jf_APIKeyID :: string
  jf_GroupID :: string
  jf_ModelAlias :: string
  jf_Limit :: int
  jf_Offset :: int

definition defaultJobListLimit :: int where "defaultJobListLimit = 100"
definition maxJobListLimit :: int where "maxJobListLimit = 500"

definition list_limit :: "int \<Rightarrow> int" where
  "list_limit l = (let l1 = (if l \<le> 0 then defaultJobListLimit else l) in
     if l1 > maxJobListLimit then maxJobListLimit else l1)"

definition list_offset :: "int \<Rightarrow> int" where
  "list_offset k = (if k < 0 then 0 else k)"

definition page :: "int \<Rightarrow> int \<Rightarrow> 'r list \<Rightarrow> 'r list" where
  "page n off rows = take (nat n) (drop (nat off) rows)"

definition window_where :: "job_filter \<Rightarrow> job_row \<Rightarrow> bool" where
  "window_where f r \<longleftrightarrow>
     (jf_Status f \<noteq> JobOther '''' \<longrightarrow> jr_status r = jf_Status f) \<and>
     (jf_Since f \<noteq> None \<longrightarrow> sql_le (fmtTime (jf_Since f)) (jr_request_ts r)) \<and>
     (jf_Until f \<noteq> None \<longrightarrow> sql_lt (jr_request_ts r) (fmtTime (jf_Until f)))"

definition ListByAPIKey ::
  "gerror option \<Rightarrow> string \<Rightarrow> job_filter \<Rightarrow> jobs \<Rightarrow> (gerror, job list) result" where
  "ListByAPIKey fail kid f rows =
     (if kid = '''' then Ok []
      else case fail of
        Some e \<Rightarrow> Err (Wrap (''list jobs by api key '' @ kid) e)
      | None \<Rightarrow> Ok (map job_of_row (page (list_limit (jf_Limit f)) (list_offset (jf_Offset f))
          (sort_desc jr_request_ts
            (filter (\<lambda>r. jr_api_key_id r = Some kid \<and> window_where f r) rows)))))"

definition all_where :: "job_filter \<Rightarrow> job_row \<Rightarrow> bool" where
  "all_where f r \<longleftrightarrow> window_where f r \<and>
     (jf_AccountID f \<noteq> '''' \<longrightarrow> jr_account_id r = jf_AccountID f) \<and>
     (jf_APIKeyID f \<noteq> '''' \<longrightarrow> jr_api_key_id r = Some (jf_APIKeyID f)) \<and>
     (jf_GroupID f \<noteq> '''' \<longrightarrow> jr_group_id r = Some (jf_GroupID f)) \<and>
     (jf_ModelAlias f \<noteq> '''' \<longrightarrow> jr_model_alias r = jf_ModelAlias f)"

definition ListAll :: "gerror option \<Rightarrow> job_filter \<Rightarrow> jobs \<Rightarrow> (gerror, job list) result" where
  "ListAll fail f rows = (case fail of
     Some e \<Rightarrow> Err (Wrap ''list all jobs'' e)
   | None \<Rightarrow> Ok (map job_of_row (page (list_limit (jf_Limit f)) (list_offset (jf_Offset f))
       (sort_desc jr_request_ts (filter (all_where f) rows)))))"

definition purge_where :: "gotime \<Rightarrow> job_status list \<Rightarrow> job_row \<Rightarrow> bool" where
  "purge_where olderThan sts r \<longleftrightarrow> jr_status r \<in> set sts \<and> jr_finished_at r \<noteq> SqlNull \<and>
     sql_lt (jr_finished_at r) (fmtTime olderThan)"

datatype purge_step = PgBegin | PgExec | PgCommit

definition Purge ::
  "(purge_step \<Rightarrow> gerror option) \<Rightarrow> gotime \<Rightarrow> job_status list \<Rightarrow> jobs
     \<Rightarrow> (gerror, nat) result \<times> jobs" where
  "Purge flt olderThan sts rows =
     (if length sts = 0 then (Ok 0, rows)
      else case flt PgBegin of Some e \<Rightarrow> (Err (Wrap ''purge begin'' e), rows)
      | None \<Rightarrow> (case flt PgExec of Some e \<Rightarrow> (Err (Wrap ''purge exec'' e), rows)
      | None \<Rightarrow> (case flt PgCommit of Some e \<Rightarrow> (Err (Wrap ''purge commit'' e), rows)
      | None \<Rightarrow> (Ok (rows_affected (purge_where olderThan sts) rows),
                 sql_delete (purge_where olderThan sts) rows))))"

definition ListPending :: "gerror option \<Rightarrow> jobs \<Rightarrow> (gerror, job list) result" where
  "ListPending fail rows = (case fail of
     Some e \<Rightarrow> Err e
   | None \<Rightarrow> Ok (map job_of_row (sort_key jr_request_ts
       (filter (\<lambda>r. jr_status r \<in> set pending_statuses) rows))))"

section \<open>Lemmas\<close>

lemma apply_meta_sel [simp]:
  "jr_id (apply_meta m r) = jr_id r" "jr_status (apply_meta m r) = jr_status r"
  "jr_account_id (apply_meta m r) = jr_account_id r"
  "jr_finished_at (apply_meta m r) = jr_finished_at r"
  "jr_request_ts (apply_meta m r) = jr_request_ts r"
  "jr_api_key_id (apply_meta m r) = jr_api_key_id r"
  by (simp_all add: apply_meta_def)

lemma terminal_row_sel [simp]:
  "jr_id (terminal_row now to m r) = jr_id r" "jr_status (terminal_row now to m r) = to"
  "jr_account_id (terminal_row now to m r) = jr_account_id r"
  "jr_finished_at (terminal_row now to m r) = fmtTime (Some now)"
  by (simp_all add: terminal_row_def)

lemma progress_row_sel [simp]:
  "jr_id (progress_row now st m r) = jr_id r" "jr_status (progress_row now st m r) = st"
  "jr_account_id (progress_row now st m r) = jr_account_id r"
  by (simp_all add: progress_row_def)

definition job_ids_ok :: "jobs \<Rightarrow> bool" where
  "job_ids_ok rows \<longleftrightarrow> distinct (map jr_id rows)"

definition job_status_of :: "string \<Rightarrow> jobs \<Rightarrow> job_status option" where
  "job_status_of jid rows = map_option jr_status (find_row jr_id jid rows)"

definition tryMark ::
  "string \<Rightarrow> int \<times> job_status \<times> job_meta \<Rightarrow> jobs \<Rightarrow> bool \<times> jobs" where
  "tryMark jid x rows = (case x of (now, to, m) \<Rightarrow>
     (case TryMarkTerminal None now jid pending_statuses to m rows of
        (Inr won, rows') \<Rightarrow> (won, rows') | (Inl e, rows') \<Rightarrow> (False, rows')))"

definition mark_target :: "int \<times> job_status \<times> job_meta \<Rightarrow> job_status" where
  "mark_target x = (case x of (now, to, m) \<Rightarrow> to)"

lemma TryMarkTerminal_pending:
  assumes "job_ids_ok rows" "isTerminal to"
  shows "TryMarkTerminal None now jid pending_statuses to m rows =
    (case find_row jr_id jid rows of
       Some r \<Rightarrow>
         if jr_status r \<in> set pending_statuses
         then (Ok True, sql_update (\<lambda>r. jr_id r = jid) (terminal_row now to m) rows)
         else (Ok False, rows)
     | None \<Rightarrow> (Ok False, rows))"
proof -
  let ?P = "\<lambda>r. jr_id r = jid \<and> jr_status r \<in> set pending_statuses"
  have unfold: "TryMarkTerminal None now jid pending_statuses to m rows =
      (Ok (rows_affected ?P rows = 1), sql_update ?P (terminal_row now to m) rows)"
    using assms(2) by (simp add: TryMarkTerminal_def pending_statuses_def Let_def)
  have n: "rows_affected ?P rows = (case find_row jr_id jid rows of None \<Rightarrow> 0
      | Some r \<Rightarrow> (if jr_status r \<in> set pending_statuses then 1 else 0))"
    using assms(1) unfolding job_ids_ok_def by (rule rows_affected_keyed)
  show ?thesis
  proof (cases "find_row jr_id jid rows")
    case None
    then have "sql_update ?P (terminal_row now to m) rows = rows"
      by (intro sql_update_none) (auto dest: find_row_NoneD)
    then show ?thesis using unfold n None by simp
  next
    case (Some r)
    then have r: "r \<in> set rows" "jr_id r = jid" by (auto dest: find_row_SomeD)
    have only: "x = r" if "x \<in> set rows" "jr_id x = jid" for x
      using find_row_distinct [OF assms(1) [unfolded job_ids_ok_def] that(1)] that(2) Some by simp
    have "sql_update ?P (terminal_row now to m) rows =
        (if jr_status r \<in> set pending_statuses
         then sql_update (\<lambda>r. jr_id r = jid) (terminal_row now to m) rows else rows)"
    proof (cases "jr_status r \<in> set pending_statuses")
      case True
      then show ?thesis using only by (auto simp: sql_update_def)
    next
      case False
      then have "sql_update ?P (terminal_row now to m) rows = rows"
        using only by (intro sql_update_none) auto
      then show ?thesis using False by simp
    qed
    then show ?thesis using unfold n Some by simp
  qed
qed

lemma find_row_jr_same:
  assumes "\<And>r. jr_id (f r) = jr_id r"
  shows "find_row jr_id jid (sql_update (\<lambda>r. jr_id r = jid) f rows) =
    map_option f (find_row jr_id jid rows)"
  by (rule find_row_update_same [where key = jr_id and f = f, OF assms])

lemma find_row_jr_other:
  assumes "\<And>r. jr_id (f r) = jr_id r" "other \<noteq> jid"
  shows "find_row jr_id other (sql_update (\<lambda>r. jr_id r = jid) f rows) = find_row jr_id other rows"
  using assms(2)
  by (subst find_row_update_gen [where key = jr_id and f = f, OF assms(1)])
     (cases "find_row jr_id other rows"; auto dest: find_row_SomeD)

lemma tryMark_eq:
  "job_ids_ok rows \<Longrightarrow> isTerminal (mark_target x) \<Longrightarrow>
   tryMark jid x rows =
     (case job_status_of jid rows of
        Some st \<Rightarrow> if st \<in> set pending_statuses
          then (True, sql_update (\<lambda>r. jr_id r = jid) (terminal_row (fst x) (mark_target x) (snd (snd x))) rows)
          else (False, rows)
      | None \<Rightarrow> (False, rows))"
  by (cases x) (auto simp: tryMark_def mark_target_def TryMarkTerminal_pending job_status_of_def
      split: option.split)

lemma tryMark_ids: "job_ids_ok rows \<Longrightarrow> job_ids_ok (snd (tryMark jid x rows))"
  by (cases x) (auto simp: tryMark_def TryMarkTerminal_def job_ids_ok_def Let_def
      map_key_sql_update)

lemma tryMark_not_terminal: "\<not> isTerminal (mark_target x) \<Longrightarrow> tryMark jid x rows = (False, rows)"
  by (cases x) (auto simp: tryMark_def mark_target_def TryMarkTerminal_def)

interpretation job_cas: cas_store tryMark mark_target job_status_of
  "\<lambda>st. st \<in> set pending_statuses" isTerminal job_ids_ok
proof
  show "st \<in> set pending_statuses \<Longrightarrow> \<not> isTerminal st" for st by (rule pending_not_terminal)
  show "job_ids_ok s \<Longrightarrow> job_ids_ok (snd (tryMark i x s))" for i x s by (rule tryMark_ids)
  show "job_ids_ok s \<Longrightarrow> isTerminal (mark_target x) \<Longrightarrow>
      fst (tryMark i x s) \<longleftrightarrow> (\<exists>st. job_status_of i s = Some st \<and> st \<in> set pending_statuses)" for i x s
    by (simp add: tryMark_eq split: option.split)
  show "job_ids_ok s \<Longrightarrow> isTerminal (mark_target x) \<Longrightarrow> fst (tryMark i x s) \<Longrightarrow>
      job_status_of i (snd (tryMark i x s)) = Some (mark_target x)" for i x s
    by (auto simp: tryMark_eq find_row_jr_same job_status_of_def split: option.splits if_splits)
  show "job_ids_ok s \<Longrightarrow> isTerminal (mark_target x) \<Longrightarrow> \<not> fst (tryMark i x s) \<Longrightarrow>
      snd (tryMark i x s) = s" for i x s
    by (auto simp: tryMark_eq split: option.splits if_splits)
  show "job_ids_ok s \<Longrightarrow> i \<noteq> j \<Longrightarrow> job_status_of j (snd (tryMark i x s)) = job_status_of j s" for i j x s
    by (cases "isTerminal (mark_target x)")
       (auto simp: tryMark_eq tryMark_not_terminal job_status_of_def find_row_jr_other
         split: option.split)
qed

section \<open>Properties\<close>

definition demo_job :: "string \<Rightarrow> string \<Rightarrow> job" where
  "demo_job i acct = \<lparr> j_ID = i, j_APIKeyID = ''k'', j_CPAPartnerID = '''', j_GroupID = '''',
     j_AccountID = acct, j_ModelAlias = ''m'', j_JST = ''nano'', j_Endpoint = ''/jobs'',
     j_RequestBodyJSON = '''', j_RequestTS = Some 1500000000, j_UpstreamJobID = ''up'',
     j_UpstreamCost = 100, j_ResultURL = '''', j_Status = JobPending, j_ErrorType = ErrNone,
     j_ErrorDetail = '''', j_FinishedAt = None, j_LatencyMS = 0, j_PollCount = 0,
     j_ActualCreditsHundredths = 0, j_ChargedCreditsHundredths = 0, j_Refunded = False,
     j_PreBalanceH = 1000, j_CallbackURL = '''' \<rparr>"

definition demo_jobs :: jobs where
  "demo_jobs = [insert_job_row (demo_job ''j'' ''a'')]"

lemma demo_jobs_facts:
  "job_ids_ok demo_jobs" "job_status_of ''j'' demo_jobs = Some JobPending"
  by (simp_all add: demo_jobs_def job_ids_ok_def job_status_of_def find_row_Cons
      insert_job_row_def demo_job_def)

text \<open>C4. Single winner: of any sequence of terminal marks on a pending job (by the
  synchronous path, the poll worker, or any other observer, in any order, with
  marks on other jobs in between) exactly one wins, it is the first one for that
  job, and the status it wrote is the status of the job at the end.\<close>

theorem TryMarkTerminal_single_winner:
  assumes "job_ids_ok rows" "\<forall>(j, x) \<in> set ops. isTerminal (mark_target x)"
    and "job_status_of jid rows = Some st" "st \<in> set pending_statuses"
    and "find (\<lambda>(j, x). j = jid) ops = Some (jid, x)"
  shows "job_cas.wins jid ops rows = 1 \<and>
    job_status_of jid (job_cas.finish_all ops rows) = Some (mark_target x)"
  by (rule job_cas.first_wins [OF assms])

theorem TryMarkTerminal_single_winner_witness:
  "job_cas.wins ''j'' [(''j'', 5, JobCompleted, empty_meta), (''j'', 6, JobFailed, empty_meta)]
     demo_jobs = 1"
  using TryMarkTerminal_single_winner [OF demo_jobs_facts(1), of
      "[(''j'', 5, JobCompleted, empty_meta), (''j'', 6, JobFailed, empty_meta)]" "''j''" JobPending
      "(5, JobCompleted, empty_meta)"] demo_jobs_facts(2)
  by (simp add: mark_target_def pending_statuses_def)

text \<open>What a read returns after a terminal mark that won.\<close>

definition settled_job :: "int \<Rightarrow> job_status \<Rightarrow> job_meta \<Rightarrow> job \<Rightarrow> job" where
  "settled_job now to m j = j\<lparr> j_Status := to, j_FinishedAt := toSecond (Some now),
     j_UpstreamJobID := (if jm_UpstreamJobID m = '''' then j_UpstreamJobID j else jm_UpstreamJobID m),
     j_ResultURL := (if jm_ResultURL m = '''' then j_ResultURL j else jm_ResultURL m),
     j_ErrorType := (if jm_ErrorType m = ErrNone then j_ErrorType j else jm_ErrorType m),
     j_ErrorDetail := (if jm_ErrorDetail m = '''' then j_ErrorDetail j else jm_ErrorDetail m),
     j_LatencyMS := (if jm_LatencyMS m > 0 then jm_LatencyMS m else j_LatencyMS j),
     j_PollCount := (if jm_PollCount m > 0 then jm_PollCount m else j_PollCount j),
     j_ActualCreditsHundredths := (if jm_ActualCreditsHundredths m = 0
        then j_ActualCreditsHundredths j else jm_ActualCreditsHundredths m),
     j_ChargedCreditsHundredths := (if jm_ChargedCreditsHundredths m = 0
        then j_ChargedCreditsHundredths j else jm_ChargedCreditsHundredths m),
     j_Refunded := (jm_Refunded m \<or> j_Refunded j) \<rparr>"

lemma job_of_terminal_row:
  "job_of_row (terminal_row now to m r) = settled_job now to m (job_of_row r)"
  by (simp add: job_of_row_def terminal_row_def apply_meta_def settled_job_def time_simps
      intToBool_def)

text \<open>A terminal mark, by its outcome: it is refused when the from-list is empty
  or the target is not terminal; otherwise it wins exactly when the job exists
  with a status of the from-list, and then the job reads back with the new
  status, the finish time and the non-zero fields of the meta; in every other
  case the table is unchanged, and no other job ever is.\<close>

theorem TryMarkTerminal_spec:
  assumes "job_ids_ok rows"
  shows "(is_ok (fst (TryMarkTerminal None now jid from to m rows)) \<longleftrightarrow> from \<noteq> [] \<and> isTerminal to) \<and>
    (fst (TryMarkTerminal None now jid from to m rows) = Ok True \<longleftrightarrow>
       from \<noteq> [] \<and> isTerminal to \<and> (\<exists>st \<in> set from. job_status_of jid rows = Some st)) \<and>
    (fst (TryMarkTerminal None now jid from to m rows) = Ok True \<longrightarrow>
       GetJob None jid (snd (TryMarkTerminal None now jid from to m rows)) =
         map_sum id (settled_job now to m) (GetJob None jid rows)) \<and>
    (fst (TryMarkTerminal None now jid from to m rows) \<noteq> Ok True \<longrightarrow>
       snd (TryMarkTerminal None now jid from to m rows) = rows) \<and>
    (\<forall>k. k \<noteq> jid \<longrightarrow> GetJob None k (snd (TryMarkTerminal None now jid from to m rows)) =
       GetJob None k rows)"
proof (cases "from \<noteq> [] \<and> isTerminal to")
  case False
  then show ?thesis by (auto simp: TryMarkTerminal_def)
next
  case True
  let ?P = "\<lambda>r. jr_id r = jid \<and> jr_status r \<in> set from"
  have unfold: "TryMarkTerminal None now jid from to m rows =
      (Ok (rows_affected ?P rows = 1), sql_update ?P (terminal_row now to m) rows)"
    using True by (simp add: TryMarkTerminal_def Let_def)
  have n: "rows_affected ?P rows = (case find_row jr_id jid rows of None \<Rightarrow> 0
      | Some r \<Rightarrow> (if jr_status r \<in> set from then 1 else 0))"
    using assms unfolding job_ids_ok_def by (rule rows_affected_keyed)
  have get: "find_row jr_id k (sql_update ?P (terminal_row now to m) rows) =
      map_option (\<lambda>r. if ?P r then terminal_row now to m r else r) (find_row jr_id k rows)" for k
    by (rule find_row_update_gen) simp
  have other: "find_row jr_id k (sql_update ?P (terminal_row now to m) rows) = find_row jr_id k rows"
    if "k \<noteq> jid" for k
    using that by (cases "find_row jr_id k rows") (auto simp: get dest: find_row_SomeD)
  have lost: "sql_update ?P (terminal_row now to m) rows = rows" if "rows_affected ?P rows \<noteq> 1"
    using that n by (intro sql_update_none)
      (auto simp: rows_affected_0_iff split: option.splits if_splits
        dest: find_row_NoneD find_row_distinct [OF assms [unfolded job_ids_ok_def]])
  show ?thesis
    unfolding unfold using True n lost other
    by (auto simp: GetJob_def get job_status_of_def scanJob_def job_of_terminal_row
        split: option.splits dest: find_row_SomeD)
qed

theorem TryMarkTerminal_spec_witness:
  "fst (TryMarkTerminal None 5 ''j'' pending_statuses JobCompleted empty_meta demo_jobs) = Ok True"
  using TryMarkTerminal_spec [OF demo_jobs_facts(1), of 5 "''j''" pending_statuses JobCompleted empty_meta]
    demo_jobs_facts(2)
  by (simp add: pending_statuses_def)


lemma job_of_insert:
  "job_of_row (insert_job_row j) = j\<lparr> j_RequestTS := toSecond (j_RequestTS j), j_FinishedAt := None \<rparr>"
  by (simp add: job_of_row_def insert_job_row_def time_simps) (simp add: parseTime_def)

text \<open>Round trip of a job: a create succeeds exactly when the id is new and the
  account exists, and then the job reads back as it was given, with its request
  time cut to the second and no finish time; a refused create writes nothing.\<close>

theorem CreateJob_then_Get:
  "(is_ok (fst (CreateJob None accts j rows)) \<longleftrightarrow>
      j_ID j \<notin> keys_of jr_id rows \<and> j_AccountID j \<in> keys_of ar_id accts) \<and>
   (if is_ok (fst (CreateJob None accts j rows))
    then GetJob None (j_ID j) (snd (CreateJob None accts j rows)) =
           Ok (j\<lparr> j_RequestTS := toSecond (j_RequestTS j), j_FinishedAt := None \<rparr>)
    else snd (CreateJob None accts j rows) = rows)"
proof -
  have k1: "(\<exists>r \<in> set rows. jr_id r = j_ID j) \<longleftrightarrow> j_ID j \<in> keys_of jr_id rows"
    by (force simp: keys_of_def)
  have k2: "(\<exists>r \<in> set accts. ar_id r = j_AccountID j) \<longleftrightarrow> j_AccountID j \<in> keys_of ar_id accts"
    by (force simp: keys_of_def)
  have id: "jr_id (insert_job_row j) = j_ID j" by (simp add: insert_job_row_def)
  show ?thesis
    unfolding CreateJob_def Let_def option.case k1 k2
    by (simp add: GetJob_def find_row_append find_row_Cons find_row_Nil id scanJob_def job_of_insert
        find_row_None_iff [THEN iffD2])
qed

lemma set_insert_desc: "set (insert_desc k x xs) = insert x (set xs)"
  by (induction xs) auto

lemma set_sort_desc [simp]: "set (sort_desc k xs) = set xs"
  by (induction xs) (simp_all add: sort_desc_def set_insert_desc)

lemma insert_desc_sorted:
  "sorted_wrt (\<lambda>a b. k b \<le> k a) xs \<Longrightarrow> sorted_wrt (\<lambda>a b. k b \<le> k a) (insert_desc k x xs)"
  by (induction xs) (auto simp: set_insert_desc)

lemma sort_desc_sorted: "sorted_wrt (\<lambda>a b. k b \<le> k a) (sort_desc k xs)"
  by (induction xs) (simp_all add: sort_desc_def insert_desc_sorted)

lemma sorted_wrt_page: "sorted_wrt P xs \<Longrightarrow> sorted_wrt P (page n off xs)"
  by (simp add: page_def sorted_wrt_take sorted_wrt_drop)

lemma set_page: "set (page n off xs) \<subseteq> set xs"
  unfolding page_def by (meson set_drop_subset set_take_subset subset_trans)

lemma list_limit_range: "1 \<le> list_limit l \<and> list_limit l \<le> 500"
  by (simp add: list_limit_def Let_def defaultJobListLimit_def maxJobListLimit_def)

lemma job_of_row_sel [simp]:
  "j_ID (job_of_row r) = jr_id r" "j_Status (job_of_row r) = jr_status r"
  "j_AccountID (job_of_row r) = jr_account_id r"
  "j_APIKeyID (job_of_row r) = nullString (jr_api_key_id r)"
  by (simp_all add: job_of_row_def)

text \<open>The public list of jobs: whatever the filter, every job returned belongs to
  the calling key and meets the filter, at most 500 are returned, newest first;
  a call without a key returns none.\<close>

theorem ListByAPIKey_isolated:
  "(\<forall>js. ListByAPIKey None kid f rows = Ok js \<longrightarrow>
      length js \<le> 500 \<and> (kid = '''' \<longrightarrow> js = []) \<and>
      (\<exists>rs. js = map job_of_row rs \<and> sorted_wrt (\<lambda>a b. jr_request_ts b \<le> jr_request_ts a) rs \<and>
         (\<forall>r \<in> set rs. r \<in> set rows \<and> j_APIKeyID (job_of_row r) = kid \<and> window_where f r)))"
proof (intro allI impI)
  fix js
  assume js: "ListByAPIKey None kid f rows = Ok js"
  show "length js \<le> 500 \<and> (kid = '''' \<longrightarrow> js = []) \<and>
      (\<exists>rs. js = map job_of_row rs \<and> sorted_wrt (\<lambda>a b. jr_request_ts b \<le> jr_request_ts a) rs \<and>
         (\<forall>r \<in> set rs. r \<in> set rows \<and> j_APIKeyID (job_of_row r) = kid \<and> window_where f r))"
  proof (cases "kid = ''''")
    case True
    then show ?thesis using js by (simp add: ListByAPIKey_def)
  next
    case False
    define rs where "rs = page (list_limit (jf_Limit f)) (list_offset (jf_Offset f))
      (sort_desc jr_request_ts (filter (\<lambda>r. jr_api_key_id r = Some kid \<and> window_where f r) rows))"
    have "js = map job_of_row rs" using js False by (simp add: ListByAPIKey_def rs_def)
    moreover have "sorted_wrt (\<lambda>a b. jr_request_ts b \<le> jr_request_ts a) rs"
      unfolding rs_def by (intro sorted_wrt_page sort_desc_sorted)
    moreover have "\<forall>r \<in> set rs. r \<in> set rows \<and> j_APIKeyID (job_of_row r) = kid \<and> window_where f r"
      using set_page unfolding rs_def by fastforce
    moreover have "length rs \<le> 500"
    proof -
      have "nat (list_limit (jf_Limit f)) \<le> 500" using list_limit_range [of "jf_Limit f"] by (simp add: nat_le_iff)
      then show ?thesis by (simp add: rs_def page_def min.coboundedI2)
    qed
    ultimately show ?thesis using False by auto
  qed
qed

definition no_filter :: job_filter where
  "no_filter = \<lparr> jf_Status = JobOther '''', jf_Since = None, jf_Until = None, jf_AccountID = '''',
     jf_APIKeyID = '''', jf_GroupID = '''', jf_ModelAlias = '''', jf_Limit = 0, jf_Offset = 0 \<rparr>"

theorem ListByAPIKey_isolated_witness:
  "length [job_of_row (insert_job_row (demo_job ''j'' ''a''))] \<le> 500 \<and>
   ListByAPIKey None ''k'' no_filter demo_jobs = Ok [job_of_row (insert_job_row (demo_job ''j'' ''a''))]"
proof -
  have l: "ListByAPIKey None ''k'' no_filter demo_jobs = Ok [job_of_row (insert_job_row (demo_job ''j'' ''a''))]"
    by (simp add: ListByAPIKey_def demo_jobs_def no_filter_def window_where_def insert_job_row_def
        demo_job_def nullStr_def page_def list_limit_def list_offset_def defaultJobListLimit_def
        maxJobListLimit_def sort_desc_def)
  with ListByAPIKey_isolated [of "''k''" no_filter demo_jobs] show ?thesis by simp
qed

text \<open>Housekeeping is safe: a purge restricted to terminal statuses never
  removes a job the poll worker still polls, removes every finished job of those
  statuses that finished before the deadline, and reports how many rows went.\<close>

theorem Purge_safe:
  assumes "\<forall>st \<in> set sts. isTerminal st" "Purge flt olderThan sts rows = (Ok n, rows')"
  shows "ListPending None rows' = ListPending None rows \<and> length rows' + n = length rows \<and>
    (sts \<noteq> [] \<longrightarrow> set rows' = {r \<in> set rows. \<not> purge_where olderThan sts r})"
proof (cases "sts = []")
  case True
  then show ?thesis using assms(2) by (simp add: Purge_def)
next
  case False
  then have r: "rows' = sql_delete (purge_where olderThan sts) rows"
    "n = rows_affected (purge_where olderThan sts) rows"
    using assms(2) by (auto simp: Purge_def split: option.splits)
  have "purge_where olderThan sts x \<Longrightarrow> jr_status x \<notin> set pending_statuses" for x
    using assms(1) pending_not_terminal by (auto simp: purge_where_def)
  then have "filter (\<lambda>r. jr_status r \<in> set pending_statuses) rows' =
      filter (\<lambda>r. jr_status r \<in> set pending_statuses) rows"
    unfolding r sql_delete_def by (auto intro!: filter_cong simp: filter_filter)
  moreover have "length rows' + n = length rows"
    using sum_length_filter_compl [of "purge_where olderThan sts" rows]
    by (simp add: r sql_delete_def rows_affected_def)
  ultimately show ?thesis using r by (auto simp: ListPending_def sql_delete_def)
qed

theorem Purge_safe_witness:
  "ListPending None [] =
     ListPending None [terminal_row 0 JobCompleted empty_meta (insert_job_row (demo_job ''j'' ''a''))]"
proof -
  let ?r = "terminal_row 0 JobCompleted empty_meta (insert_job_row (demo_job ''j'' ''a''))"
  have "purge_where (Some 2000000000) [JobCompleted] ?r"
    by (simp add: purge_where_def fmtTime_def nanos_def)
  then have "Purge (\<lambda>_. None) (Some 2000000000) [JobCompleted] [?r] = (Ok 1, [])"
    by (simp add: Purge_def sql_delete_def rows_affected_def)
  from Purge_safe [OF _ this] show ?thesis by simp
qed

end
