(* ===== verification/KeyStore.thy ===== *)
theory KeyStore
  imports JobStore
begin

text \<open>
  API keys: package \<open>core/apikey\<close> (the format of a key, with the random bytes and
  SHA-256 as parameters) and the table of \<open>apikey_store.go\<close>, whose status column
  is a small state machine: active and paused alternate, revoked is final.
\<close>

section \<open>Package apikey\<close>

definition ProjectPrefix :: string where "ProjectPrefix = ''sk-hg-''"
definition AdminPrefix :: string where "AdminPrefix = ''sk-adm-''"

definition hex_digits :: string where "hex_digits = ''0123456789abcdef''"

definition hex_digit :: "nat \<Rightarrow> char" where "hex_digit n = hex_digits ! (n mod 16)"

fun hexEncode :: "nat list \<Rightarrow> string" where
  "hexEncode [] = ''''"
| "hexEncode (b # bs) = hex_digit (b div 16) # hex_digit (b mod 16) # hexEncode bs"

definition is_hex :: "char \<Rightarrow> bool" where
  "is_hex c \<longleftrightarrow> c \<in> set hex_digits \<or> c \<in> set ''ABCDEF''"

text \<open>\<open>hex.DecodeString\<close> succeeds on an even number of hex digits.\<close>

definition hexDecodes :: "string \<Rightarrow> bool" where
  "hexDecodes s \<longleftrightarrow> even (length s) \<and> list_all is_hex s"

definition ErrInvalidKey :: gerror where "ErrInvalidKey = Plain ''api key: invalid format''"

definition GenerateKey ::
  "(string \<Rightarrow> string) \<Rightarrow> (gerror, nat list) result \<Rightarrow> key_kind \<Rightarrow> (gerror, string \<times> string) result" where
  "GenerateKey Hash rand kind = (case rand of
     Inl e \<Rightarrow> Err e
   | Inr buf \<Rightarrow>
      (let prefix = (if kind = KindDefault then AdminPrefix else ProjectPrefix);
           plaintext = prefix @ hexEncode buf
       in Ok (plaintext, Hash plaintext)))"

definition ParseKey :: "(string \<Rightarrow> string) \<Rightarrow> string \<Rightarrow> (gerror, string) result" where
  "ParseKey Hash plaintext =
     (let check = (\<lambda>body. if length body \<noteq> 40 then Err ErrInvalidKey
                          else if \<not> hexDecodes body then Err ErrInvalidKey
                          else Ok (Hash plaintext))
      in if has_prefix plaintext ProjectPrefix then check (drop (length ProjectPrefix) plaintext)
         else if has_prefix plaintext AdminPrefix then check (drop (length AdminPrefix) plaintext)
         else Err ErrInvalidKey)"

definition Last4 :: "string \<Rightarrow> string" where
  "Last4 plaintext = (if length plaintext < 4 then '''' else drop (length plaintext - 4) plaintext)"

lemma hex_digit_is_hex: "is_hex (hex_digit n)"
proof -
  have "n mod 16 < length hex_digits" by (simp add: hex_digits_def)
  then show ?thesis unfolding is_hex_def hex_digit_def by (intro disjI1 nth_mem)
qed

lemma hexEncode_length [simp]: "length (hexEncode bs) = 2 * length bs"
  by (induction bs) simp_all

lemma hexEncode_decodes: "hexDecodes (hexEncode bs)"
proof -
  have "list_all is_hex (hexEncode bs)" by (induction bs) (simp_all add: hex_digit_is_hex)
  then show ?thesis by (simp add: hexDecodes_def)
qed

section \<open>Rows\<close>

record key_row =
  kr_id :: string
  kr_key_hash :: string
  kr_name :: string
  kr_created_by :: "string option"
  kr_cpa_partner_id :: string
  kr_group_id :: string
  kr_status :: key_status
  kr_monthly_quota :: int
  kr_monthly_used :: int
  kr_markup_pct :: rat
  kr_created_at :: sqltime
  kr_last_used_at :: sqltime
  kr_playground_scope :: playground_scope
  kr_kind :: key_kind
  kr_key_last4 :: string
  kr_updated_at :: sqltime

type_synonym keys = "key_row list"

fun defaultKind :: "key_kind \<Rightarrow> key_kind" where
  "defaultKind KindDefault = KindDefault"
| "defaultKind KindProject = KindProject"
| "defaultKind _ = KindProject"

definition defaultStatus :: "key_status \<Rightarrow> key_status" where
  "defaultStatus s = (if s = KeyNoStatus then KeyActive else s)"

definition defaultMarkup :: "rat \<Rightarrow> rat" where
  "defaultMarkup m = (if m = 0 then 1 else m)"

definition defaultTime :: "int \<Rightarrow> gotime \<Rightarrow> gotime" where
  "defaultTime now t = (if t = None then Some now else t)"

fun defaultPlaygroundScope :: "playground_scope \<Rightarrow> playground_scope" where
  "defaultPlaygroundScope ScopeCheap = ScopeCheap"
| "defaultPlaygroundScope ScopeFull = ScopeFull"
| "defaultPlaygroundScope _ = ScopeNone"

definition key_of_row :: "key_row \<Rightarrow> apikey" where
  "key_of_row r = \<lparr>
     k_ID = kr_id r,
     k_KeyHash = kr_key_hash r,
     k_Name = kr_name r,
     k_CreatedBy = nullString (kr_created_by r),
     k_CPAPartnerID = kr_cpa_partner_id r,
     k_GroupID = kr_group_id r,
     k_Status = kr_status r,
     k_MonthlyQuota = kr_monthly_quota r,
     k_MonthlyUsed = kr_monthly_used r,
     k_MarkupPct = kr_markup_pct r,
     k_CreatedAt = parseTime (kr_created_at r),
     k_LastUsedAt = parseTime (kr_last_used_at r),
     k_PlaygroundScope = defaultPlaygroundScope (kr_playground_scope r),
     k_Kind = defaultKind (kr_kind r),
     k_KeyLast4 = kr_key_last4 r \<rparr>"

definition scanAPIKey :: "key_row option \<Rightarrow> (gerror, apikey) result" where
  "scanAPIKey row = (case row of
     None \<Rightarrow> Err (Sent ErrAPIKeyNotFound) | Some r \<Rightarrow> Ok (key_of_row r))"

definition GetKey :: "gerror option \<Rightarrow> string \<Rightarrow> keys \<Rightarrow> (gerror, apikey) result" where
  "GetKey fail kid rows = (case fail of
     Some e \<Rightarrow> Err e | None \<Rightarrow> scanAPIKey (find_row kr_id kid rows))"

definition GetByHash :: "gerror option \<Rightarrow> string \<Rightarrow> keys \<Rightarrow> (gerror, apikey) result" where
  "GetByHash fail h rows = (case fail of
     Some e \<Rightarrow> Err e | None \<Rightarrow> scanAPIKey (find_row kr_key_hash h rows))"

section \<open>Operations\<close>

definition insert_key_row :: "int \<Rightarrow> apikey \<Rightarrow> key_row" where
  "insert_key_row now k = \<lparr>
     kr_id = k_ID k,
     kr_key_hash = k_KeyHash k,
     kr_name = k_Name k,
     kr_created_by = nullStr (k_CreatedBy k),
     kr_cpa_partner_id = k_CPAPartnerID k,
     kr_group_id = k_GroupID k,
     kr_status = defaultStatus (k_Status k),
     kr_monthly_quota = k_MonthlyQuota k,
     kr_monthly_used = k_MonthlyUsed k,
     kr_markup_pct = defaultMarkup (k_MarkupPct k),
     kr_created_at = fmtTime (defaultTime now (k_CreatedAt k)),
     kr_last_used_at = fmtTime (k_LastUsedAt k),
     kr_playground_scope = defaultPlaygroundScope (k_PlaygroundScope k),
     kr_kind = defaultKind (k_Kind k),
     kr_key_last4 = k_KeyLast4 k,
     kr_updated_at = SqlEmpty \<rparr>"

definition CreateKey ::
  "gerror option \<Rightarrow> int \<Rightarrow> apikey \<Rightarrow> keys \<Rightarrow> (gerror, unit) result \<times> keys" where
  "CreateKey fail now k rows =
     (let wrap = Wrap (''insert api key '' @ k_ID k) in
      case fail of
        Some e \<Rightarrow> (Err (wrap e), rows)
      | None \<Rightarrow>
          if \<exists>r \<in> set rows. kr_id r = k_ID k \<or> kr_key_hash r = k_KeyHash k
          then (Err (wrap (Plain ''UNIQUE constraint failed: api_keys'')), rows)
          else (Ok (), rows @ [insert_key_row now k]))"

definition key_update_checked ::
  "gerror option \<Rightarrow> string \<Rightarrow> (key_row \<Rightarrow> key_row) \<Rightarrow> keys \<Rightarrow> (gerror, unit) result \<times> keys" where
  "key_update_checked fail kid f rows = (case fail of
     Some e \<Rightarrow> (Err e, rows)
   | None \<Rightarrow>
      (if rows_affected (\<lambda>r. kr_id r = kid) rows = 0
       then Err (Sent ErrAPIKeyNotFound) else Ok (),
       sql_update (\<lambda>r. kr_id r = kid) f rows))"

definition RevokeKey :: "gerror option \<Rightarrow> string \<Rightarrow> keys \<Rightarrow> (gerror, unit) result \<times> keys" where
  "RevokeKey fail kid rows = key_update_checked fail kid (\<lambda>r. r\<lparr> kr_status := KeyRevoked \<rparr>) rows"

definition IncrementUsage ::
  "gerror option \<Rightarrow> int \<Rightarrow> string \<Rightarrow> int \<Rightarrow> keys \<Rightarrow> (gerror, unit) result \<times> keys" where
  "IncrementUsage fail now kid charged rows = key_update_checked fail kid
     (\<lambda>r. r\<lparr> kr_monthly_used := kr_monthly_used r + charged,
             kr_last_used_at := fmtTime (Some now) \<rparr>) rows"

definition ResetMonthlyUsage ::
  "gerror option \<Rightarrow> int \<Rightarrow> string \<Rightarrow> keys \<Rightarrow> (gerror, unit) result \<times> keys" where
  "ResetMonthlyUsage fail now kid rows = key_update_checked fail kid
     (\<lambda>r. r\<lparr> kr_monthly_used := 0, kr_updated_at := fmtTime (Some now) \<rparr>) rows"

definition UpdatePlaygroundScope ::
  "gerror option \<Rightarrow> int \<Rightarrow> string \<Rightarrow> playground_scope \<Rightarrow> keys \<Rightarrow> (gerror, unit) result \<times> keys" where
  "UpdatePlaygroundScope fail now kid scope rows =
     key_update_checked (map_option (Wrap (''update playground scope '' @ kid)) fail) kid
     (\<lambda>r. r\<lparr> kr_playground_scope := defaultPlaygroundScope scope,
             kr_updated_at := fmtTime (Some now) \<rparr>) rows"

record key_patch =
  kp_Name :: "string option"
  kp_MonthlyQuota :: "int option"
  kp_MarkupPct :: "rat option"

definition UpdateMeta ::
  "gerror option \<Rightarrow> int \<Rightarrow> string \<Rightarrow> key_patch \<Rightarrow> keys \<Rightarrow> (gerror, unit) result \<times> keys" where
  "UpdateMeta fail now kid p rows =
     (if kp_Name p = None \<and> kp_MonthlyQuota p = None \<and> kp_MarkupPct p = None then (Ok (), rows)
      else key_update_checked (map_option (Wrap (''update api key meta '' @ kid)) fail) kid
        (\<lambda>r. r\<lparr> kr_name := (case kp_Name p of None \<Rightarrow> kr_name r | Some v \<Rightarrow> v),
                kr_monthly_quota := (case kp_MonthlyQuota p of None \<Rightarrow> kr_monthly_quota r | Some v \<Rightarrow> v),
                kr_markup_pct := (case kp_MarkupPct p of None \<Rightarrow> kr_markup_pct r | Some v \<Rightarrow> v),
                kr_updated_at := fmtTime (Some now) \<rparr>) rows)"

text \<open>\<open>Rotate\<close> reads the key, mints a secret of the same kind and swaps the hash; the
  new hash must not be in use (UNIQUE).\<close>

definition RotateKey ::
  "gerror option \<Rightarrow> gerror option \<Rightarrow> (string \<Rightarrow> string) \<Rightarrow> (gerror, nat list) result \<Rightarrow> int \<Rightarrow> string
     \<Rightarrow> keys \<Rightarrow> (gerror, string) result \<times> keys" where
  "RotateKey failGet failExec Hash rand now kid rows = (case GetKey failGet kid rows of
     Inl e \<Rightarrow> (Err e, rows)
   | Inr existing \<Rightarrow> (case GenerateKey Hash rand (k_Kind existing) of
       Inl e \<Rightarrow> (Err (Wrap (''rotate api key '' @ kid @ '': mint'') e), rows)
     | Inr (plaintext, h) \<Rightarrow> (case failExec of
         Some e \<Rightarrow> (Err (Wrap (''rotate api key '' @ kid) e), rows)
       | None \<Rightarrow>
          if \<exists>r \<in> set rows. kr_key_hash r = h \<and> kr_id r \<noteq> kid
          then (Err (Wrap (''rotate api key '' @ kid) (Plain ''UNIQUE constraint failed: api_keys'')), rows)
          else if rows_affected (\<lambda>r. kr_id r = kid) rows = 0 then (Err (Sent ErrAPIKeyNotFound), rows)
          else (Ok plaintext, sql_update (\<lambda>r. kr_id r = kid)
                 (\<lambda>r. r\<lparr> kr_key_hash := h, kr_key_last4 := Last4 plaintext,
                         kr_updated_at := fmtTime (Some now) \<rparr>) rows))))"

definition explainInactiveTransition ::
  "gerror option \<Rightarrow> string \<Rightarrow> key_status \<Rightarrow> keys \<Rightarrow> (gerror, unit) result" where
  "explainInactiveTransition fail kid target rows = (case GetKey fail kid rows of
     Inl e \<Rightarrow> Err e
   | Inr k \<Rightarrow> if k_Status k = KeyRevoked then Err (Sent ErrAPIKeyRevoked)
             else if k_Status k = target then Ok ()
             else Err (Plain (''api key '' @ kid @ '': cannot transition status'')))"

definition key_transition ::
  "gerror option \<Rightarrow> gerror option \<Rightarrow> int \<Rightarrow> key_status \<Rightarrow> key_status \<Rightarrow> string \<Rightarrow> keys
     \<Rightarrow> (gerror, unit) result \<times> keys" where
  "key_transition failExec failGet now from to kid rows = (case failExec of
     Some e \<Rightarrow> (Err e, rows)
   | None \<Rightarrow>
      (let P = (\<lambda>r. kr_id r = kid \<and> kr_status r = from) in
       if rows_affected P rows > 0
       then (Ok (), sql_update P (\<lambda>r. r\<lparr> kr_status := to, kr_updated_at := fmtTime (Some now) \<rparr>) rows)
       else (explainInactiveTransition failGet kid to rows, rows)))"

definition PauseKey ::
  "gerror option \<Rightarrow> gerror option \<Rightarrow> int \<Rightarrow> string \<Rightarrow> keys \<Rightarrow> (gerror, unit) result \<times> keys" where
  "PauseKey failExec failGet now kid rows =
     key_transition failExec failGet now KeyActive KeyPaused kid rows"

definition ResumeKey ::
  "gerror option \<Rightarrow> gerror option \<Rightarrow> int \<Rightarrow> string \<Rightarrow> keys \<Rightarrow> (gerror, unit) result \<times> keys" where
  "ResumeKey failExec failGet now kid rows =
     key_transition failExec failGet now KeyPaused KeyActive kid rows"

definition ListKeys :: "gerror option \<Rightarrow> keys \<Rightarrow> (gerror, apikey list) result" where
  "ListKeys fail rows = (case fail of
     Some e \<Rightarrow> Err e | None \<Rightarrow> Ok (map key_of_row (sort_desc kr_created_at rows)))"

definition ListByCPAPartner ::
  "gerror option \<Rightarrow> string \<Rightarrow> keys \<Rightarrow> (gerror, apikey list) result" where
  "ListByCPAPartner fail partner rows =
     (if partner = '''' then Ok []
      else case fail of
        Some e \<Rightarrow> Err e
      | None \<Rightarrow> Ok (map key_of_row (sort_desc kr_created_at
          (filter (\<lambda>r. kr_cpa_partner_id r = partner) rows))))"

section \<open>The life of a key\<close>

text \<open>One statement of the store on the table, whatever its arguments and outcome.\<close>

inductive key_step :: "keys \<Rightarrow> keys \<Rightarrow> bool" where
  ks_create: "key_step rows (snd (CreateKey f now k rows))"
| ks_revoke: "key_step rows (snd (RevokeKey f kid rows))"
| ks_increment: "key_step rows (snd (IncrementUsage f now kid n rows))"
| ks_reset: "key_step rows (snd (ResetMonthlyUsage f now kid rows))"
| ks_scope: "key_step rows (snd (UpdatePlaygroundScope f now kid sc rows))"
| ks_meta: "key_step rows (snd (UpdateMeta f now kid p rows))"
| ks_rotate: "key_step rows (snd (RotateKey f g Hash rand now kid rows))"
| ks_pause: "key_step rows (snd (PauseKey f g now kid rows))"
| ks_resume: "key_step rows (snd (ResumeKey f g now kid rows))"

inductive_cases key_stepE: "key_step rows rows'"

definition revoked_in :: "string \<Rightarrow> keys \<Rightarrow> bool" where
  "revoked_in kid rows \<longleftrightarrow> (\<exists>r. find_row kr_id kid rows = Some r \<and> kr_status r = KeyRevoked)"

lemma revoked_in_update:
  assumes "revoked_in kid rows" "\<And>r. kr_id (f r) = kr_id r"
    "\<And>r. P r \<Longrightarrow> kr_status r = KeyRevoked \<Longrightarrow> kr_status (f r) = KeyRevoked"
  shows "revoked_in kid (sql_update P f rows)"
proof -
  obtain r where r: "find_row kr_id kid rows = Some r" "kr_status r = KeyRevoked"
    using assms(1) by (auto simp: revoked_in_def)
  then show ?thesis using assms(3) [of r]
    by (simp add: revoked_in_def find_row_update_gen [where key = kr_id and f = f, OF assms(2)])
qed

lemma key_update_checked_snd:
  "snd (key_update_checked fail kid f rows) =
     (if fail = None then sql_update (\<lambda>r. kr_id r = kid) f rows else rows)"
  by (auto simp: key_update_checked_def split: option.split)

lemmas key_op_defs = CreateKey_def RevokeKey_def IncrementUsage_def ResetMonthlyUsage_def
  UpdatePlaygroundScope_def UpdateMeta_def RotateKey_def PauseKey_def ResumeKey_def
  key_transition_def key_update_checked_snd

lemma revoked_step:
  "key_step rows rows' \<Longrightarrow> revoked_in kid rows \<Longrightarrow> revoked_in kid rows'"
  by (elim key_stepE)
     (auto simp: key_op_defs Let_def find_row_append split: option.split sum.split prod.split
       intro!: revoked_in_update, auto simp: revoked_in_def find_row_append)

section \<open>Properties\<close>

text \<open>Revocation is final: no sequence of operations of the key store, whatever
  their arguments and failures, brings a revoked key to any other status.\<close>

theorem revoked_is_final:
  assumes "revoked_in kid rows" "key_step\<^sup>*\<^sup>* rows rows'"
  shows "revoked_in kid rows'"
  using assms(2,1) by (induction rule: rtranclp_induct) (auto intro: revoked_step)

definition demo_key :: "string \<Rightarrow> apikey" where
  "demo_key i = \<lparr> k_ID = i, k_KeyHash = i, k_Name = '''', k_CreatedBy = '''', k_CPAPartnerID = '''',
     k_GroupID = '''', k_Status = KeyNoStatus, k_MonthlyQuota = 0, k_MonthlyUsed = 0,
     k_MarkupPct = 0, k_CreatedAt = None, k_LastUsedAt = None, k_PlaygroundScope = ScopeEmpty,
     k_Kind = KindNone, k_KeyLast4 = '''' \<rparr>"

definition demo_keys :: keys where
  "demo_keys = snd (RevokeKey None ''k'' [insert_key_row 0 (demo_key ''k'')])"

theorem revoked_is_final_witness:
  "revoked_in ''k'' (snd (ResumeKey None None 7 ''k'' demo_keys))"
proof (rule revoked_is_final)
  show "revoked_in ''k'' demo_keys"
    by (simp add: demo_keys_def RevokeKey_def key_update_checked_def sql_update_def
        revoked_in_def find_row_Cons insert_key_row_def demo_key_def)
  show "key_step\<^sup>*\<^sup>* demo_keys (snd (ResumeKey None None 7 ''k'' demo_keys))"
    by (intro r_into_rtranclp ks_resume)
qed

text \<open>Pausing and resuming, on every branch: with the database answering, a pause
  pauses an active key, is a no-op on a paused one and refuses a revoked one
  (and symmetrically for a resume); an unknown key is reported as such; the
  usage counter is never touched.\<close>

theorem pause_resume_spec:
  assumes "distinct (map kr_id rows)"
  shows "fst (PauseKey None None now kid rows) = (case find_row kr_id kid rows of
      None \<Rightarrow> Err (Sent ErrAPIKeyNotFound)
    | Some r \<Rightarrow> (case kr_status r of
        KeyActive \<Rightarrow> Ok () | KeyPaused \<Rightarrow> Ok () | KeyRevoked \<Rightarrow> Err (Sent ErrAPIKeyRevoked)
      | KeyOther s \<Rightarrow> Err (Plain (''api key '' @ kid @ '': cannot transition status'')))) \<and>
    fst (ResumeKey None None now kid rows) = fst (PauseKey None None now kid rows) \<and>
    map_option kr_status (find_row kr_id kid (snd (PauseKey None None now kid rows))) =
      map_option (\<lambda>r. if kr_status r = KeyActive then KeyPaused else kr_status r) (find_row kr_id kid rows) \<and>
    map_option kr_status (find_row kr_id kid (snd (ResumeKey None None now kid rows))) =
      map_option (\<lambda>r. if kr_status r = KeyPaused then KeyActive else kr_status r) (find_row kr_id kid rows) \<and>
    map kr_monthly_used (snd (PauseKey None None now kid rows)) = map kr_monthly_used rows \<and>
    map kr_monthly_used (snd (ResumeKey None None now kid rows)) = map kr_monthly_used rows"
proof -
  have n: "rows_affected (\<lambda>r. kr_id r = kid \<and> kr_status r = st) rows =
      (case find_row kr_id kid rows of None \<Rightarrow> 0 | Some r \<Rightarrow> (if kr_status r = st then 1 else 0))" for st
    by (rule rows_affected_keyed [OF assms])
  have upd: "find_row kr_id kid (sql_update P (\<lambda>r. r\<lparr> kr_status := st, kr_updated_at := t \<rparr>) rows) =
      map_option (\<lambda>r. if P r then r\<lparr> kr_status := st, kr_updated_at := t \<rparr> else r) (find_row kr_id kid rows)"
    for P st t by (rule find_row_update_gen) simp
  have used: "map kr_monthly_used (sql_update P (\<lambda>r. r\<lparr> kr_status := st, kr_updated_at := t \<rparr>) rows) =
      map kr_monthly_used rows" for P st t by (rule map_key_sql_update) simp
  show ?thesis
  proof (cases "find_row kr_id kid rows")
    case None
    then show ?thesis
      by (simp add: PauseKey_def ResumeKey_def key_transition_def Let_def n
          explainInactiveTransition_def GetKey_def scanAPIKey_def)
  next
    case (Some r)
    then have "kr_id r = kid" by (auto dest: find_row_SomeD)
    then show ?thesis using Some
      by (cases "kr_status r")
         (simp_all add: PauseKey_def ResumeKey_def key_transition_def Let_def n upd used
           explainInactiveTransition_def GetKey_def scanAPIKey_def key_of_row_def)
  qed
qed

theorem pause_resume_spec_witness:
  "fst (ResumeKey None None 7 ''k'' demo_keys) = Err (Sent ErrAPIKeyRevoked)"
proof -
  have "distinct (map kr_id demo_keys)"
    by (simp add: demo_keys_def RevokeKey_def key_update_checked_def sql_update_def)
  from pause_resume_spec [OF this, of 7 "''k''"] show ?thesis
    by (simp add: demo_keys_def RevokeKey_def key_update_checked_def sql_update_def
        find_row_Cons insert_key_row_def demo_key_def)
qed

text \<open>A minted key is one the authentication accepts: whatever 20 bytes the
  generator reads and whatever the hash function, parsing the plaintext gives
  back exactly the hash that was stored, for both kinds of key.\<close>

theorem Generate_then_Parse:
  assumes "length buf = 20"
  shows "\<exists>plaintext h. GenerateKey Hash (Ok buf) kind = Ok (plaintext, h) \<and>
    ParseKey Hash plaintext = Ok h \<and> length (Last4 plaintext) = 4 \<and>
    has_prefix plaintext (if kind = KindDefault then AdminPrefix else ProjectPrefix)"
proof -
  let ?p = "(if kind = KindDefault then AdminPrefix else ProjectPrefix) @ hexEncode buf"
  have "GenerateKey Hash (Ok buf) kind = Ok (?p, Hash ?p)"
    by (simp add: GenerateKey_def Let_def)
  moreover have "ParseKey Hash ?p = Ok (Hash ?p)"
    using assms hexEncode_decodes [of buf]
    by (simp add: ParseKey_def has_prefix_def AdminPrefix_def ProjectPrefix_def Let_def)
  moreover have "length (Last4 ?p) = 4" using assms by (simp add: Last4_def)
  moreover have "has_prefix ?p (if kind = KindDefault then AdminPrefix else ProjectPrefix)"
    by (simp add: has_prefix_def)
  ultimately show ?thesis by blast
qed

theorem Generate_then_Parse_witness:
  "\<exists>plaintext h. GenerateKey id (Ok (replicate 20 171)) KindDefault = Ok (plaintext, h) \<and>
    ParseKey id plaintext = Ok h"
  using Generate_then_Parse [of "replicate 20 171" id KindDefault] by auto
end
