(* ===== verification/Settings.thy ===== *)
theory Settings
  imports PickLock KeyStore
begin

text \<open>
  The settings table (\<open>settings_store.go\<close>) and the load-balance settings kept in
  it (\<open>core/loadbalance/settings.go\<close>, with the PUT handler of
  \<open>api/admin/load_balance_settings.go\<close>), which reach the pool's picker as
  \<open>lb_opts\<close>.
\<close>

section \<open>The settings table\<close>

record setting_row =
  sr_key :: string
  sr_value :: string
  sr_updated_at :: sqltime

type_synonym settings = "setting_row list"

definition GetSetting :: "gerror option \<Rightarrow> string \<Rightarrow> settings \<Rightarrow> (gerror, string) result" where
  "GetSetting fail key rows = (case fail of
     Some e \<Rightarrow> Err (Wrap (''select system_settings '' @ key) e)
   | None \<Rightarrow> (case find_row sr_key key rows of
       None \<Rightarrow> Err (Sent ErrSettingNotFound) | Some r \<Rightarrow> Ok (sr_value r)))"

definition SetSetting ::
  "gerror option \<Rightarrow> int \<Rightarrow> string \<Rightarrow> string \<Rightarrow> settings \<Rightarrow> (gerror, unit) result \<times> settings" where
  "SetSetting fail now key v rows = (case fail of
     Some e \<Rightarrow> (Err (Wrap (''upsert system_settings '' @ key) e), rows)
   | None \<Rightarrow>
      (Ok (),
       if \<exists>r \<in> set rows. sr_key r = key
       then sql_update (\<lambda>r. sr_key r = key)
              (\<lambda>r. r\<lparr> sr_value := v, sr_updated_at := fmtTime (Some now) \<rparr>) rows
       else rows @ [\<lparr> sr_key = key, sr_value = v, sr_updated_at = fmtTime (Some now) \<rparr>]))"

definition UpdatedAt :: "gerror option \<Rightarrow> string \<Rightarrow> settings \<Rightarrow> (gerror, gotime) result" where
  "UpdatedAt fail key rows = (case fail of
     Some e \<Rightarrow> Err (Wrap (''select updated_at '' @ key) e)
   | None \<Rightarrow> (case find_row sr_key key rows of
       None \<Rightarrow> Err (Sent ErrSettingNotFound) | Some r \<Rightarrow> Ok (parseTime (sr_updated_at r))))"

definition lookup_setting :: "string \<Rightarrow> settings \<Rightarrow> string option" where
  "lookup_setting key rows = map_option sr_value (find_row sr_key key rows)"

definition store_setting :: "int \<Rightarrow> string \<Rightarrow> string \<Rightarrow> settings \<Rightarrow> settings" where
  "store_setting now key v rows = snd (SetSetting None now key v rows)"

lemma GetSetting_lookup:
  "GetSetting None key rows = (case lookup_setting key rows of
     None \<Rightarrow> Err (Sent ErrSettingNotFound) | Some v \<Rightarrow> Ok v)"
  by (simp add: GetSetting_def lookup_setting_def split: option.split)

lemma find_row_store:
  "find_row sr_key k (store_setting now key v rows) =
     (if k = key
      then Some (case find_row sr_key key rows of
             None \<Rightarrow> \<lparr> sr_key = key, sr_value = v, sr_updated_at = fmtTime (Some now) \<rparr>
           | Some r \<Rightarrow> r\<lparr> sr_value := v, sr_updated_at := fmtTime (Some now) \<rparr>)
      else find_row sr_key k rows)"
proof (cases "find_row sr_key key rows")
  case None
  then have "\<not> (\<exists>r \<in> set rows. sr_key r = key)" using find_row_NoneD by fast
  then show ?thesis using None
    by (auto simp: store_setting_def SetSetting_def find_row_append sql_simps split: option.split)
next
  case (Some r)
  let ?f = "\<lambda>r. r\<lparr> sr_value := v, sr_updated_at := fmtTime (Some now) \<rparr>"
  have "\<exists>r \<in> set rows. sr_key r = key" using find_row_SomeD [OF Some] by blast
  then have u: "store_setting now key v rows = sql_update (\<lambda>r. sr_key r = key) ?f rows"
    by (simp add: store_setting_def SetSetting_def)
  have "find_row sr_key k (sql_update (\<lambda>r. sr_key r = key) ?f rows) =
      map_option (\<lambda>r. if sr_key r = key then ?f r else r) (find_row sr_key k rows)"
    by (rule find_row_update_gen) simp
  then show ?thesis unfolding u using Some
    by (cases "find_row sr_key k rows") (auto dest: find_row_SomeD)
qed

interpretation db_settings: settings_store lookup_setting "store_setting now"
  by unfold_locales (simp_all add: lookup_setting_def find_row_store split: option.split)

section \<open>Load-balance settings\<close>

definition KeyTierAware :: string where "KeyTierAware = ''load_balance.tier_aware''"
definition KeyPreferUnlim :: string where "KeyPreferUnlim = ''load_balance.prefer_unlim''"
definition KeyPreferFreeQuota :: string where "KeyPreferFreeQuota = ''load_balance.prefer_free_quota''"
definition KeyPreferRicher :: string where "KeyPreferRicher = ''load_balance.prefer_richer''"
definition KeyBalanceHeadroomPct :: string where
  "KeyBalanceHeadroomPct = ''load_balance.balance_headroom_pct''"
definition KeyJitter :: string where "KeyJitter = ''load_balance.jitter''"

definition HeadroomMin :: int where "HeadroomMin = 100"
definition HeadroomMax :: int where "HeadroomMax = 500"

record lb_settings =
  ls_TierAware :: bool
  ls_PreferUnlim :: bool
  ls_PreferFreeQuota :: bool
  ls_PreferRicher :: bool
  ls_BalanceHeadroomPct :: int
  ls_Jitter :: bool

definition Defaults :: lb_settings where
  "Defaults = \<lparr> ls_TierAware = True, ls_PreferUnlim = False, ls_PreferFreeQuota = False,
     ls_PreferRicher = False, ls_BalanceHeadroomPct = 120, ls_Jitter = True \<rparr>"

definition ParseBool :: "string \<Rightarrow> bool \<times> bool" where
  "ParseBool v = (if v = ''true'' \<or> v = ''1'' then (True, True)
     else if v = ''false'' \<or> v = ''0'' then (False, True) else (False, False))"

definition FormatBool :: "bool \<Rightarrow> string" where
  "FormatBool b = (if b then ''true'' else ''false'')"

definition readBool :: "(string \<Rightarrow> (gerror, string) result) \<Rightarrow> string \<Rightarrow> bool \<Rightarrow> bool" where
  "readBool get key fallback = (case get key of
     Inl e \<Rightarrow> fallback
   | Inr v \<Rightarrow> (case ParseBool v of (b, ok) \<Rightarrow> if ok then b else fallback))"

text \<open>\<open>Resolve\<close> over a store, given by its \<open>Get\<close> (\<open>None\<close>: a nil store).\<close>

definition ResolveLB :: "(string \<Rightarrow> (gerror, string) result) option \<Rightarrow> lb_settings" where
  "ResolveLB store = (case store of
     None \<Rightarrow> Defaults
   | Some get \<Rightarrow> \<lparr>
       ls_TierAware = readBool get KeyTierAware (ls_TierAware Defaults),
       ls_PreferUnlim = readBool get KeyPreferUnlim (ls_PreferUnlim Defaults),
       ls_PreferFreeQuota = readBool get KeyPreferFreeQuota (ls_PreferFreeQuota Defaults),
       ls_PreferRicher = readBool get KeyPreferRicher (ls_PreferRicher Defaults),
       ls_BalanceHeadroomPct =
         (case get KeyBalanceHeadroomPct of
            Inl e \<Rightarrow> ls_BalanceHeadroomPct Defaults
          | Inr v \<Rightarrow> (case atoi v of
              None \<Rightarrow> ls_BalanceHeadroomPct Defaults
            | Some n \<Rightarrow> if n \<ge> HeadroomMin \<and> n \<le> HeadroomMax then n
                        else ls_BalanceHeadroomPct Defaults)),
       ls_Jitter = readBool get KeyJitter (ls_Jitter Defaults) \<rparr>)"

definition ToOpts :: "lb_settings \<Rightarrow> lb_opts" where
  "ToOpts s = \<lparr> lb_Populated = True, lb_TierAware = ls_TierAware s,
     lb_PreferUnlim = ls_PreferUnlim s, lb_PreferFreeQuota = ls_PreferFreeQuota s,
     lb_PreferRicher = ls_PreferRicher s, lb_BalanceHeadroomPct = ls_BalanceHeadroomPct s,
     lb_Jitter = ls_Jitter s \<rparr>"

text \<open>The PUT handler after the body is decoded: the validation, then one write per
  key; a failing write ends it with the earlier ones in place.  The fault
  parameter answers each write by its key.\<close>

datatype put_outcome = PutBadHeadroom | PutInternal gerror | PutOk lb_settings

definition lb_writes :: "lb_settings \<Rightarrow> (string \<times> string) list" where
  "lb_writes req = [(KeyTierAware, FormatBool (ls_TierAware req)),
     (KeyPreferUnlim, FormatBool (ls_PreferUnlim req)),
     (KeyPreferFreeQuota, FormatBool (ls_PreferFreeQuota req)),
     (KeyPreferRicher, FormatBool (ls_PreferRicher req)),
     (KeyBalanceHeadroomPct, itoa (ls_BalanceHeadroomPct req)),
     (KeyJitter, FormatBool (ls_Jitter req))]"

fun write_settings ::
  "(string \<Rightarrow> gerror option) \<Rightarrow> int \<Rightarrow> (string \<times> string) list \<Rightarrow> settings
     \<Rightarrow> (gerror, unit) result \<times> settings" where
  "write_settings flt now [] rows = (Ok (), rows)"
| "write_settings flt now ((k, v) # kvs) rows =
     (case SetSetting (flt k) now k v rows of
        (Inl e, rows') \<Rightarrow> (Err e, rows')
      | (Inr _, rows') \<Rightarrow> write_settings flt now kvs rows')"

definition PutLoadBalance ::
  "(string \<Rightarrow> gerror option) \<Rightarrow> int \<Rightarrow> lb_settings \<Rightarrow> settings \<Rightarrow> put_outcome \<times> settings" where
  "PutLoadBalance flt now req rows =
     (if ls_BalanceHeadroomPct req < HeadroomMin \<or> ls_BalanceHeadroomPct req > HeadroomMax
      then (PutBadHeadroom, rows)
      else case write_settings flt now (lb_writes req) rows of
        (Inl e, rows') \<Rightarrow> (PutInternal e, rows')
      | (Inr _, rows') \<Rightarrow> (PutOk req, rows'))"

section \<open>Properties\<close>

lemma write_settings_put_all:
  "write_settings (\<lambda>_. None) now kvs rows = (Ok (), db_settings.put_all now kvs rows)"
  by (induction kvs arbitrary: rows)
     (auto simp: db_settings.put_all_def store_setting_def SetSetting_def)

lemmas lb_keys = KeyTierAware_def KeyPreferUnlim_def KeyPreferFreeQuota_def KeyPreferRicher_def
  KeyBalanceHeadroomPct_def KeyJitter_def

lemma lb_writes_distinct: "distinct (map fst (lb_writes req))"
  by (simp add: lb_writes_def lb_keys)

lemma ParseBool_FormatBool: "ParseBool (FormatBool b) = (b, True)"
  by (simp add: ParseBool_def FormatBool_def)

text \<open>Round trip of the operator's settings: a PUT whose headroom is in range,
  with the database answering, is what every later resolution returns, whatever
  the table held; an out-of-range headroom is refused and writes nothing.\<close>

theorem PutLoadBalance_then_Resolve:
  "(if HeadroomMin \<le> ls_BalanceHeadroomPct req \<and> ls_BalanceHeadroomPct req \<le> HeadroomMax
    then fst (PutLoadBalance (\<lambda>_. None) now req rows) = PutOk req \<and>
      ResolveLB (Some (\<lambda>k. GetSetting None k (snd (PutLoadBalance (\<lambda>_. None) now req rows)))) = req
    else PutLoadBalance flt now req rows = (PutBadHeadroom, rows))"
proof (cases "HeadroomMin \<le> ls_BalanceHeadroomPct req \<and> ls_BalanceHeadroomPct req \<le> HeadroomMax")
  case False
  then show ?thesis by (auto simp: PutLoadBalance_def)
next
  case True
  let ?t = "db_settings.put_all now (lb_writes req) rows"
  have put: "PutLoadBalance (\<lambda>_. None) now req rows = (PutOk req, ?t)"
    using True by (simp add: PutLoadBalance_def write_settings_put_all)
  have get: "GetSetting None k ?t = Ok v" if "(k, v) \<in> set (lb_writes req)" for k v
    using db_settings.get_put_all [OF lb_writes_distinct that, of now rows]
    by (simp add: GetSetting_lookup)
  have stored: "GetSetting None KeyTierAware ?t = Ok (FormatBool (ls_TierAware req))"
    "GetSetting None KeyPreferUnlim ?t = Ok (FormatBool (ls_PreferUnlim req))"
    "GetSetting None KeyPreferFreeQuota ?t = Ok (FormatBool (ls_PreferFreeQuota req))"
    "GetSetting None KeyPreferRicher ?t = Ok (FormatBool (ls_PreferRicher req))"
    "GetSetting None KeyBalanceHeadroomPct ?t = Ok (itoa (ls_BalanceHeadroomPct req))"
    "GetSetting None KeyJitter ?t = Ok (FormatBool (ls_Jitter req))"
    by (rule get; simp add: lb_writes_def)+
  have "int64_range (ls_BalanceHeadroomPct req)"
    using True by (simp add: int64_range_def HeadroomMin_def HeadroomMax_def)
  then have "ResolveLB (Some (\<lambda>k. GetSetting None k ?t)) = req"
    using True by (simp add: ResolveLB_def readBool_def stored ParseBool_FormatBool atoi_itoa)
  then show ?thesis using True put by simp
qed

text \<open>What the picker gets is always usable: whatever the settings table holds
  (nothing, malformed text, numbers out of range, a failing database), the
  resolved headroom lies between 100 and 500, the options are populated, and the
  picker uses that percentage unchanged.\<close>

theorem Resolve_bounds:
  "100 \<le> ls_BalanceHeadroomPct (ResolveLB store) \<and> ls_BalanceHeadroomPct (ResolveLB store) \<le> 500 \<and>
   lb_Populated (ToOpts (ResolveLB store)) \<and>
   headroom_pct (ToOpts (ResolveLB store)) = ls_BalanceHeadroomPct (ResolveLB store)"
proof -
  have "100 \<le> ls_BalanceHeadroomPct (ResolveLB store) \<and> ls_BalanceHeadroomPct (ResolveLB store) \<le> 500"
    by (auto simp: ResolveLB_def Defaults_def HeadroomMin_def HeadroomMax_def
        split: option.split sum.split)
  then show ?thesis by (simp add: ToOpts_def headroom_pct_def Let_def)
qed

end
