(* ===== verification/Bearer.thy ===== *)
theory Bearer
  imports Settings
begin

text \<open>
  The admin bearer: \<open>core/bearer/manager.go\<close> (rotation with a grace window, kept in
  the settings table) and the middleware \<open>BearerAuth\<close> with \<open>StaticBearer\<close>
  (\<open>api/middleware/auth.go\<close>).  The atomics of the manager are its fields; an
  operation is one step.
\<close>

section \<open>The manager\<close>

definition SettingKey :: string where "SettingKey = ''admin_bearer''"
definition GraceWindow :: int where "GraceWindow = 30 * nanos"
definition MinBearerLength :: nat where "MinBearerLength = 16"

datatype bearer_source = SourceTOML | SourceDB

record manager =
  mg_tomlBearer :: string
  mg_hasStore :: bool
  mg_current :: "string option"
  mg_previous :: "string option"
  mg_prevExpiry :: int
  mg_source :: "bearer_source option"

definition NewManager :: "string \<Rightarrow> bool \<Rightarrow> manager" where
  "NewManager toml hasStore = \<lparr> mg_tomlBearer = toml, mg_hasStore = hasStore, mg_current = None,
     mg_previous = None, mg_prevExpiry = 0, mg_source = None \<rparr>"

definition setCurrent :: "string \<Rightarrow> bearer_source \<Rightarrow> manager \<Rightarrow> manager" where
  "setCurrent v src m = m\<lparr> mg_current := Some v, mg_source := Some src \<rparr>"

definition Load :: "gerror option \<Rightarrow> settings \<Rightarrow> manager \<Rightarrow> (gerror, unit) result \<times> manager" where
  "Load fail db m =
     (let fallback = (if mg_tomlBearer m = ''''
            then (Ok (), m\<lparr> mg_current := Some '''', mg_source := Some SourceTOML \<rparr>)
            else (Ok (), setCurrent (mg_tomlBearer m) SourceTOML m)) in
      if mg_hasStore m
      then (case GetSetting fail SettingKey db of
              Inr v \<Rightarrow> if v \<noteq> '''' then (Ok (), setCurrent v SourceDB m) else fallback
            | Inl e \<Rightarrow> if \<not> errorsIs e ErrSettingNotFound
                       then (Err (Wrap ''load admin bearer'' e), m) else fallback)
      else fallback)"

definition Current :: "manager \<Rightarrow> string" where
  "Current m = (case mg_current m of None \<Rightarrow> '''' | Some p \<Rightarrow> p)"

definition CurrentSource :: "manager \<Rightarrow> bearer_source" where
  "CurrentSource m = (case mg_source m of None \<Rightarrow> SourceTOML | Some s \<Rightarrow> s)"

definition previousIfActive :: "int \<Rightarrow> manager \<Rightarrow> string" where
  "previousIfActive now m =
     (if mg_prevExpiry m = 0 \<or> now \<ge> mg_prevExpiry m then ''''
      else case mg_previous m of None \<Rightarrow> '''' | Some p \<Rightarrow> p)"

definition Accepts :: "int \<Rightarrow> manager \<Rightarrow> string \<Rightarrow> bool" where
  "Accepts now m candidate =
     (if candidate = '''' then False
      else if Current m \<noteq> '''' \<and> candidate = Current m then True
      else previousIfActive now m \<noteq> '''' \<and> candidate = previousIfActive now m)"

definition ErrEmptyBearer :: gerror where "ErrEmptyBearer = Plain ''bearer cannot be empty''"
definition ErrBearerTooShort :: gerror where
  "ErrBearerTooShort = Plain ''bearer must be at least 16 characters''"
definition ErrBearerWhitespace :: gerror where
  "ErrBearerWhitespace = Plain ''bearer must not contain whitespace''"

definition ValidateBearer :: "string \<Rightarrow> (gerror, unit) result" where
  "ValidateBearer s =
     (if s = '''' then Err ErrEmptyBearer
      else if length s < MinBearerLength then Err ErrBearerTooShort
      else if list_ex (\<lambda>r. r = CHR '' '' \<or> r = CHR 0x09 \<or> r = CHR 0x0A \<or> r = CHR 0x0D) s
      then Err ErrBearerWhitespace
      else Ok ())"

definition Rotate ::
  "gerror option \<Rightarrow> int \<Rightarrow> string \<Rightarrow> settings \<Rightarrow> manager
     \<Rightarrow> (gerror, unit) result \<times> settings \<times> manager" where
  "Rotate fail now newBearer db m = (case ValidateBearer newBearer of
     Inl e \<Rightarrow> (Err e, db, m)
   | Inr _ \<Rightarrow>
      (case (if mg_hasStore m then SetSetting fail now SettingKey newBearer db else (Ok (), db)) of
         (Inl e, db') \<Rightarrow> (Err (Wrap ''persist admin bearer'' e), db', m)
       | (Inr _, db') \<Rightarrow>
          (let old = Current m;
               m1 = (if old \<noteq> '''' \<and> old \<noteq> newBearer
                     then m\<lparr> mg_previous := Some old, mg_prevExpiry := now + GraceWindow \<rparr>
                     else m\<lparr> mg_previous := None, mg_prevExpiry := 0 \<rparr>)
           in (Ok (), db', setCurrent newBearer SourceDB m1))))"

definition GenerateBearer :: "(gerror, nat list) result \<Rightarrow> (gerror, string) result" where
  "GenerateBearer rand = (case rand of
     Inl e \<Rightarrow> Err (Wrap ''generate admin bearer'' e) | Inr buf \<Rightarrow> Ok (hexEncode buf))"

definition BearerLast4 :: "string \<Rightarrow> string" where
  "BearerLast4 s = (if length s \<le> 4 then s else drop (length s - 4) s)"

section \<open>The middleware\<close>

definition StaticAccepts :: "string \<Rightarrow> string \<Rightarrow> bool" where
  "StaticAccepts s candidate = (if s = '''' \<or> candidate = '''' then False else candidate = s)"

datatype auth_outcome = Auth500 | Auth401 | AuthPass

definition BearerAuth :: "(string \<Rightarrow> bool) option \<Rightarrow> string \<Rightarrow> auth_outcome" where
  "BearerAuth accepter h = (case accepter of
     None \<Rightarrow> Auth500
   | Some acc \<Rightarrow>
      (let token = trimPrefix h ''Bearer '' in
       if token = h \<or> \<not> acc token then Auth401 else AuthPass))"

context bearer_accepter begin

lemma BearerAuth_pass_iff:
  "BearerAuth (Some (accepts m)) h = AuthPass \<longleftrightarrow>
     (\<exists>t. h = ''Bearer '' @ t \<and> t \<noteq> '''' \<and> accepts m t)"
proof
  assume p: "BearerAuth (Some (accepts m)) h = AuthPass"
  have pre: "take (length ''Bearer '') h = ''Bearer ''"
    using p by (auto simp: BearerAuth_def trimPrefix_def has_prefix_def Let_def split: if_splits)
  have t: "h = ''Bearer '' @ drop (length ''Bearer '') h"
    using append_take_drop_id [of "length ''Bearer ''" h] unfolding pre by simp
  have "accepts m (drop (length ''Bearer '') h)"
    using p pre by (simp add: BearerAuth_def trimPrefix_def has_prefix_def Let_def split: if_splits)
  then show "\<exists>t. h = ''Bearer '' @ t \<and> t \<noteq> '''' \<and> accepts m t"
    using t empty_rejected by metis
next
  assume "\<exists>t. h = ''Bearer '' @ t \<and> t \<noteq> '''' \<and> accepts m t"
  then obtain t where t: "h = ''Bearer '' @ t" "accepts m t" by blast
  have "trimPrefix h ''Bearer '' = t" by (simp add: t trimPrefix_def has_prefix_def)
  moreover have "t \<noteq> h" using t by simp
  ultimately show "BearerAuth (Some (accepts m)) h = AuthPass"
    using t by (simp add: BearerAuth_def Let_def)
qed

lemma BearerAuth_never_empty: "BearerAuth (Some (accepts m)) ''Bearer '' \<noteq> AuthPass"
  using empty_rejected by (simp add: BearerAuth_def trimPrefix_def has_prefix_def Let_def)

end

interpretation manager_accepter: bearer_accepter "Accepts now" Current
proof
  show "\<not> Accepts now m ''''" for m by (simp add: Accepts_def)
  show "Current m \<noteq> '''' \<Longrightarrow> Accepts now m (Current m)" for m by (simp add: Accepts_def)
  show "\<exists>b. \<forall>t. Accepts now m t \<longrightarrow> t = Current m \<or> t = b" for m
    by (rule exI [of _ "previousIfActive now m"]) (simp add: Accepts_def)
qed

interpretation static_accepter: bearer_accepter StaticAccepts id
  by unfold_locales (auto simp: StaticAccepts_def)

section \<open>Properties\<close>

text \<open>The admin surface opens to nobody else: a request passes exactly when its
  header is the word Bearer, a blank, and a non-empty token that is the current
  bearer or the previous one within its grace window; with a fixed secret, only
  that secret passes, and an empty secret lets nobody in.\<close>

theorem BearerAuth_spec:
  "(BearerAuth (Some (Accepts now m)) h = AuthPass \<longleftrightarrow>
     (\<exists>t. h = ''Bearer '' @ t \<and> t \<noteq> '''' \<and> (t = Current m \<or> t = previousIfActive now m))) \<and>
   (BearerAuth (Some (StaticAccepts s)) h = AuthPass \<longleftrightarrow> s \<noteq> '''' \<and> h = ''Bearer '' @ s) \<and>
   BearerAuth None h = Auth500"
  using manager_accepter.BearerAuth_pass_iff [of now m h] static_accepter.BearerAuth_pass_iff [of s h]
  by (auto simp: Accepts_def StaticAccepts_def BearerAuth_def)

text \<open>A rotation: after a successful rotation the new bearer is accepted from then
  on, the replaced one exactly until its 30 seconds are over, every other token
  is refused (an older one still in grace included), and a process started later
  on the same database loads the new bearer whatever its configuration file
  says, and accepts nothing else.\<close>

theorem Rotate_spec:
  assumes "Rotate fail now b db m = (Ok (), db', m')" "0 < now" "now \<le> later"
  shows "(Accepts later m' t \<longleftrightarrow>
      t = b \<or> (t = Current m \<and> t \<noteq> '''' \<and> later < now + GraceWindow) \<and> t \<noteq> b) \<and>
    (mg_hasStore m \<longrightarrow> (\<exists>m2. Load None db' (NewManager toml True) = (Ok (), m2) \<and>
      CurrentSource m2 = SourceDB \<and> (\<forall>n u. Accepts n m2 u \<longleftrightarrow> u = b)))"
proof -
  have valid: "ValidateBearer b = Ok ()"
    using assms(1) by (cases "ValidateBearer b") (auto simp: Rotate_def)
  then have ne: "b \<noteq> ''''" by (auto simp: ValidateBearer_def)
  let ?m1 = "if Current m \<noteq> '''' \<and> Current m \<noteq> b
     then m\<lparr> mg_previous := Some (Current m), mg_prevExpiry := now + GraceWindow \<rparr>
     else m\<lparr> mg_previous := None, mg_prevExpiry := 0 \<rparr>"
  have m': "m' = setCurrent b SourceDB ?m1"
    using assms(1) valid by (auto simp: Rotate_def Let_def split: if_splits prod.splits sum.splits)
  have cur: "Current m' = b" by (simp add: m' setCurrent_def Current_def)
  have "now + GraceWindow \<noteq> 0" using assms(2) by (simp add: GraceWindow_def nanos_def)
  then have prev: "previousIfActive later m' =
      (if Current m \<noteq> '''' \<and> Current m \<noteq> b \<and> later < now + GraceWindow then Current m else '''')"
    by (auto simp: m' setCurrent_def previousIfActive_def)
  have "Accepts later m' t \<longleftrightarrow>
      t = b \<or> (t = Current m \<and> t \<noteq> '''' \<and> later < now + GraceWindow) \<and> t \<noteq> b"
    using ne by (auto simp: Accepts_def cur prev)
  moreover have "mg_hasStore m \<longrightarrow> (\<exists>m2. Load None db' (NewManager toml True) = (Ok (), m2) \<and>
      CurrentSource m2 = SourceDB \<and> (\<forall>n u. Accepts n m2 u \<longleftrightarrow> u = b))"
  proof
    assume store: "mg_hasStore m"
    then have "fail = None"
      using assms(1) valid by (cases fail) (auto simp: Rotate_def SetSetting_def)
    then have "db' = store_setting now SettingKey b db"
      using assms(1) valid store
      by (auto simp: Rotate_def Let_def store_setting_def split: prod.splits sum.splits)
    then have "GetSetting None SettingKey db' = Ok b"
      by (simp add: GetSetting_lookup db_settings.get_put_same)
    then have "Load None db' (NewManager toml True) = (Ok (), setCurrent b SourceDB (NewManager toml True))"
      using ne by (simp add: Load_def NewManager_def Let_def)
    then show "\<exists>m2. Load None db' (NewManager toml True) = (Ok (), m2) \<and>
        CurrentSource m2 = SourceDB \<and> (\<forall>n u. Accepts n m2 u \<longleftrightarrow> u = b)"
      using ne by (auto simp: CurrentSource_def setCurrent_def Accepts_def Current_def
          previousIfActive_def NewManager_def)
  qed
  ultimately show ?thesis by blast
qed

definition demo_manager :: manager where
  "demo_manager = setCurrent ''0123456789abcdef'' SourceTOML (NewManager ''0123456789abcdef'' True)"

theorem Rotate_spec_witness:
  "Accepts 5 (snd (snd (Rotate None 5 ''fedcba9876543210'' [] demo_manager))) ''0123456789abcdef''"
proof -
  have v: "ValidateBearer ''fedcba9876543210'' = Ok ()"
    by (simp add: ValidateBearer_def MinBearerLength_def)
  obtain db m where r: "Rotate None 5 ''fedcba9876543210'' [] demo_manager = (Ok (), db, m)"
    using v by (cases "Rotate None 5 ''fedcba9876543210'' [] demo_manager")
       (auto simp: Rotate_def SetSetting_def demo_manager_def setCurrent_def NewManager_def Let_def)
  have "Current demo_manager = ''0123456789abcdef''"
    by (simp add: demo_manager_def setCurrent_def Current_def)
  with Rotate_spec [OF r, of 5 "''0123456789abcdef''"] r show ?thesis
    by (simp add: GraceWindow_def nanos_def)
qed

end
