(* ===== verification/Float64.thy ===== *)
theory Float64
  imports Prelude "HOL-Library.Log_Nat"
begin

text \<open>
  The part of \<open>float64\<close> the billing uses, on non-negative rationals: a value is
  rounded to the nearest number of 53 significant bits, ties to even, and
  truncated to \<open>int64\<close>.  A product out of the range of \<open>int64\<close> converts to the
  least \<open>int64\<close>, as the amd64 instruction does.  Exponents stay far from the ends
  of the format, so subnormals and infinities do not appear.
\<close>

text \<open>The binary exponent of a positive rational: \<open>2 powi e \<le> x < 2 powi (e + 1)\<close>.\<close>

definition exponent2 :: "rat \<Rightarrow> int" where
  "exponent2 x = (case quotient_of x of (n, d) \<Rightarrow>
     let k = int (floorlog 2 (nat n)) - int (floorlog 2 (nat d))
     in if 2 powi k \<le> x then k else k - 1)"

definition round_half_even :: "rat \<Rightarrow> int" where
  "round_half_even y =
     (let q = \<lfloor>y\<rfloor>; r = y - of_int q
      in if r < 1 / 2 then q else if 1 / 2 < r then q + 1
         else if even q then q else q + 1)"

definition f64 :: "rat \<Rightarrow> rat" where
  "f64 x = (if x \<le> 0 then 0
            else let u = 2 powi (exponent2 x - 52) in of_int (round_half_even (x / u)) * u)"

definition f64_to_int64 :: "rat \<Rightarrow> int" where
  "f64_to_int64 x = (if x < 9223372036854775808 then \<lfloor>x\<rfloor> else - 9223372036854775808)"

definition int64_to_f64 :: "int \<Rightarrow> rat" where
  "int64_to_f64 i = f64 (of_int i)"

lemma exponent2_bounds:
  assumes "0 < x"
  shows "2 powi (exponent2 x) \<le> x" "x < 2 powi (exponent2 x + 1)"
proof -
  obtain n d where q: "quotient_of x = (n, d)" by (cases "quotient_of x")
  have d: "0 < d" using quotient_of_denom_pos [OF q] .
  have x: "x = of_int n / of_int d" using quotient_of_div [OF q] .
  have n: "0 < n" using assms x d by (simp add: zero_less_divide_iff)
  define a where "a = floorlog 2 (nat n)"
  define b where "b = floorlog 2 (nat d)"
  have an: "(2::nat) ^ (a - 1) \<le> nat n" "nat n < 2 ^ a" "0 < a"
    using floorlog_bounds [of "nat n" 2] n unfolding a_def by (auto simp: floorlog_def)
  have bn: "(2::nat) ^ (b - 1) \<le> nat d" "nat d < 2 ^ b" "0 < b"
    using floorlog_bounds [of "nat d" 2] d unfolding b_def by (auto simp: floorlog_def)
  have an': "(2::rat) powi (int a - 1) \<le> of_int n" "of_int n < (2::rat) powi (int a)"
  proof -
    have "of_nat (2 ^ (a - 1)) \<le> (of_nat (nat n) :: rat)" using an(1) of_nat_le_iff by blast
    then show "(2::rat) powi (int a - 1) \<le> of_int n"
      using an(3) n by (simp add: power_int_def nat_diff_distrib)
    have "(of_nat (nat n) :: rat) < of_nat (2 ^ a)" using an(2) of_nat_less_iff by blast
    then show "of_int n < (2::rat) powi (int a)" using n by simp
  qed
  have bn': "(2::rat) powi (int b - 1) \<le> of_int d" "of_int d < (2::rat) powi (int b)"
  proof -
    have "of_nat (2 ^ (b - 1)) \<le> (of_nat (nat d) :: rat)" using bn(1) of_nat_le_iff by blast
    then show "(2::rat) powi (int b - 1) \<le> of_int d"
      using bn(3) d by (simp add: power_int_def nat_diff_distrib)
    have "(of_nat (nat d) :: rat) < of_nat (2 ^ b)" using bn(2) of_nat_less_iff by blast
    then show "of_int d < (2::rat) powi (int b)" using d by simp
  qed
  let ?k = "int a - int b"
  have up: "x < 2 powi (?k + 1)"
  proof -
    have "x < 2 powi (int a) / of_int d" using an'(2) d by (simp add: x divide_strict_right_mono)
    also have "... \<le> 2 powi (int a) / 2 powi (int b - 1)" using bn'(1) by (intro divide_left_mono) (auto simp: d)
    also have "... = 2 powi (int a - (int b - 1))" by (rule power_int_diff [symmetric]) simp
    also have "... = 2 powi (?k + 1)" by (simp add: algebra_simps)
    finally show ?thesis .
  qed
  have low: "2 powi (?k - 1) \<le> x"
  proof -
    have "2 powi (int a - 1 - int b) = (2::rat) powi (int a - 1) / 2 powi (int b)"
      by (rule power_int_diff) simp
    then have "2 powi (?k - 1) = (2::rat) powi (int a - 1) / 2 powi (int b)"
      by (simp add: algebra_simps)
    also have "... \<le> 2 powi (int a - 1) / of_int d" using bn'(2) d by (intro divide_left_mono) auto
    also have "... \<le> x" using an'(1) d by (simp add: x divide_right_mono)
    finally show ?thesis .
  qed
  have e: "exponent2 x = (if 2 powi ?k \<le> x then ?k else ?k - 1)"
    by (simp add: exponent2_def q a_def b_def Let_def)
  show "2 powi (exponent2 x) \<le> x" "x < 2 powi (exponent2 x + 1)"
    using up low by (auto simp: e)
qed

lemma round_half_even_ge:
  assumes "of_int m \<le> y" shows "m \<le> round_half_even y"
proof -
  have "m \<le> \<lfloor>y\<rfloor>" using assms by (simp add: le_floor_iff)
  then show ?thesis by (simp add: round_half_even_def Let_def)
qed

lemma round_half_even_le:
  assumes "y \<le> of_int m" shows "round_half_even y \<le> m"
proof (cases "y = of_int m")
  case True
  then show ?thesis by (simp add: round_half_even_def)
next
  case False
  then have "\<lfloor>y\<rfloor> < m" using assms by (simp add: floor_less_iff)
  then show ?thesis by (simp add: round_half_even_def Let_def)
qed

text \<open>An integer of at most 53 bits is a multiple of the unit of every value below \<open>2^53\<close>.\<close>

lemma grid:
  assumes "0 < x" "x < 2 ^ 53"
  shows "\<exists>m. (of_int n :: rat) / 2 powi (exponent2 x - 52) = of_int m"
proof -
  have "2 powi (exponent2 x) < (2::rat) powi 53"
    using exponent2_bounds(1) [OF assms(1)] assms(2) by simp
  then have "exponent2 x < 53"
    using power_int_increasing [of 53 "exponent2 x" "2::rat"] by fastforce
  then have "(2::rat) powi (exponent2 x - 52) = inverse (2 ^ nat (52 - exponent2 x))"
    by (simp add: power_int_def power_one_over inverse_eq_divide)
  then have "(of_int n :: rat) / 2 powi (exponent2 x - 52) = of_int (n * 2 ^ nat (52 - exponent2 x))"
    by (simp only: divide_inverse inverse_inverse_eq of_int_mult of_int_power of_int_numeral)
  then show ?thesis by blast
qed

lemma f64_ge_int:
  assumes "of_int n \<le> x" "0 \<le> n" "n < 2 ^ 53"
  shows "of_int n \<le> f64 x"
proof (cases "x \<le> 0")
  case True
  then show ?thesis using assms by (simp add: f64_def)
next
  case False
  let ?u = "2 powi (exponent2 x - 52) :: rat"
  show ?thesis
  proof (cases "x < 2 ^ 53")
    case True
    then obtain m where m: "of_int n / ?u = of_int m" using grid False by fastforce
    have "of_int m \<le> x / ?u" using assms(1) by (simp add: m [symmetric] divide_right_mono)
    then have "m \<le> round_half_even (x / ?u)" by (rule round_half_even_ge)
    then have "of_int m * ?u \<le> of_int (round_half_even (x / ?u)) * ?u" by simp
    then show ?thesis using False by (simp add: f64_def Let_def m [symmetric])
  next
    case big: False
    have "2 powi (exponent2 x) = of_int (2 ^ 52) * ?u"
      by (simp add: power_int_diff)
    then have "of_int (2 ^ 52) \<le> x / ?u"
      using exponent2_bounds(1) [of x] False by (simp add: le_divide_eq)
    then have r: "2 ^ 52 \<le> round_half_even (x / ?u)" by (rule round_half_even_ge)
    have "(2::rat) ^ 53 < 2 powi (exponent2 x + 1)"
      using big exponent2_bounds(2) [of x] False by simp
    then have "53 < exponent2 x + 1"
      using power_int_increasing [of "exponent2 x + 1" 53 "2::rat"] by fastforce
    then have "2 \<le> ?u" using power_int_increasing [of 1 "exponent2 x - 52" "2::rat"] by simp
    moreover have "(of_int (2 ^ 52) :: rat) \<le> of_int (round_half_even (x / ?u))" using r of_int_le_iff by blast
    ultimately have "(of_int (2 ^ 52) :: rat) * 2 \<le> of_int (round_half_even (x / ?u)) * ?u"
      by (intro mult_mono) auto
    moreover have "(of_int n :: rat) < of_int (2 ^ 53)" using assms(3) of_int_less_iff by blast
    ultimately show ?thesis using False by (simp add: f64_def Let_def)
  qed
qed

lemma f64_le_int:
  assumes "x \<le> of_int n" "0 \<le> n" "n < 2 ^ 53"
  shows "f64 x \<le> of_int n"
proof (cases "x \<le> 0")
  case True
  then show ?thesis using assms by (simp add: f64_def)
next
  case False
  let ?u = "2 powi (exponent2 x - 52) :: rat"
  have "(of_int n :: rat) < of_int (2 ^ 53)" using assms(3) of_int_less_iff by blast
  then have "x < 2 ^ 53" using assms(1) by simp
  then obtain m where m: "of_int n / ?u = of_int m" using grid False by fastforce
  have "x / ?u \<le> of_int m" using assms(1) by (simp add: m [symmetric] divide_right_mono)
  then have "round_half_even (x / ?u) \<le> m" by (rule round_half_even_le)
  then have "of_int (round_half_even (x / ?u)) * ?u \<le> of_int m * ?u" by simp
  then show ?thesis using False by (simp add: f64_def Let_def m [symmetric])
qed

lemma int64_to_f64_exact: "0 \<le> n \<Longrightarrow> n < 2 ^ 53 \<Longrightarrow> int64_to_f64 n = of_int n"
  unfolding int64_to_f64_def using f64_ge_int [of n "of_int n"] f64_le_int [of "of_int n" n] by simp

lemma f64_nonneg: "0 \<le> f64 x"
  using f64_ge_int [of 0 x] by (cases "x \<le> 0") (simp_all add: f64_def)

section \<open>Monotonicity\<close>

lemma round_half_even_mono:
  assumes "y \<le> z" shows "round_half_even y \<le> round_half_even z"
proof (cases "\<lfloor>y\<rfloor> = \<lfloor>z\<rfloor>")
  case True
  then show ?thesis using assms by (auto simp: round_half_even_def Let_def)
next
  case False
  have "round_half_even y \<le> \<lfloor>y\<rfloor> + 1" by (simp add: round_half_even_def Let_def)
  also have "\<dots> \<le> \<lfloor>z\<rfloor>" using False floor_mono [OF assms] by linarith
  also have "\<dots> \<le> round_half_even z" by (simp add: round_half_even_def Let_def)
  finally show ?thesis .
qed

lemma exponent2_mono: "0 < x \<Longrightarrow> x \<le> y \<Longrightarrow> exponent2 x \<le> exponent2 y"
  using exponent2_bounds [of x] exponent2_bounds [of y]
    power_int_increasing [of "exponent2 y + 1" "exponent2 x" "2::rat"] by fastforce

lemma f64_between:
  assumes "0 < x" shows "2 powi (exponent2 x) \<le> f64 x" "f64 x \<le> 2 powi (exponent2 x + 1)"
proof -
  let ?u = "2 powi (exponent2 x - 52) :: rat"
  have lo: "2 powi (exponent2 x) = of_int (2 ^ 52) * ?u" by (simp add: power_int_diff)
  have hi: "2 powi (exponent2 x + 1) = of_int (2 ^ 53) * ?u" by (simp add: power_int_diff power_int_add)
  have f: "f64 x = of_int (round_half_even (x / ?u)) * ?u" using assms by (simp add: f64_def Let_def)
  have "of_int (2 ^ 52) \<le> x / ?u" using exponent2_bounds(1) [OF assms] unfolding lo by (simp add: le_divide_eq)
  then have a: "2 ^ 52 \<le> round_half_even (x / ?u)" by (rule round_half_even_ge)
  have "x / ?u \<le> of_int (2 ^ 53)" using exponent2_bounds(2) [OF assms] unfolding hi by (simp add: divide_le_eq)
  then have b: "round_half_even (x / ?u) \<le> 2 ^ 53" by (rule round_half_even_le)
  show "2 powi (exponent2 x) \<le> f64 x" unfolding f lo using a by (intro mult_right_mono) (simp_all only: of_int_le_iff zero_le_power_int zero_le_numeral)
  show "f64 x \<le> 2 powi (exponent2 x + 1)" unfolding f hi using b by (intro mult_right_mono) (simp_all only: of_int_le_iff zero_le_power_int zero_le_numeral)
qed

lemma f64_mono:
  assumes "x \<le> y" shows "f64 x \<le> f64 y"
proof (cases "x \<le> 0")
  case True
  then show ?thesis using f64_nonneg [of y] by (simp add: f64_def)
next
  case False
  then have pos: "0 < x" "0 < y" using assms by auto
  show ?thesis
  proof (cases "exponent2 x = exponent2 y")
    case True
    have "x / 2 powi (exponent2 y - 52) \<le> y / 2 powi (exponent2 y - 52)"
      using assms by (simp add: divide_right_mono)
    then have "round_half_even (x / 2 powi (exponent2 y - 52)) \<le> round_half_even (y / 2 powi (exponent2 y - 52))"
      by (rule round_half_even_mono)
    then show ?thesis using pos True by (simp add: f64_def Let_def)
  next
    case False
    then have "exponent2 x + 1 \<le> exponent2 y" using exponent2_mono [OF pos(1) assms] by simp
    then have "(2::rat) powi (exponent2 x + 1) \<le> 2 powi (exponent2 y)" by (intro power_int_increasing) simp_all
    then show ?thesis using f64_between(2) [OF pos(1)] f64_between(1) [OF pos(2)] by linarith
  qed
qed

section \<open>Evaluation\<close>

text \<open>Digit counts by recursion on \<open>int\<close>, whose numerals evaluate.\<close>

function bit_length :: "int \<Rightarrow> int" where
  "bit_length n = (if n \<le> 0 then 0 else bit_length (n div 2) + 1)"
  by pat_completeness auto
termination by (relation "measure nat") auto

declare bit_length.simps [simp del]

lemma bit_length_floorlog: "bit_length n = int (floorlog 2 (nat n))"
proof (induction n rule: bit_length.induct)
  case (1 n)
  show ?case
  proof (cases "n \<le> 0")
    case False
    have "nat n div 2 = nat (n div 2)" by (simp add: nat_div_distrib)
    then show ?thesis using 1 False compute_floorlog [of 2 "nat n"] by (simp add: bit_length.simps [of n])
  qed (simp add: bit_length.simps [of n] floorlog_def)
qed

lemma exponent2_code [code]:
  "exponent2 x = (case quotient_of x of (n, d) \<Rightarrow>
     let k = bit_length n - bit_length d in if 2 powi k \<le> x then k else k - 1)"
  by (simp add: exponent2_def bit_length_floorlog)

end
