(* ===== verification/Json.thy ===== *)
theory Json
  imports Prelude Float64 "HOL-Library.Monad_Syntax"
begin

text \<open>
  What the program uses of \<open>encoding/json\<close>: the syntax of a document (\<open>parse_json\<close>),
  the decoding of a parsed value into Go variables, struct fields and slices
  (\<open>dec_*\<close>) and the encoding of strings and of \<open>map[string]any\<close> values
  (\<open>marshal\<close>).  A string is its bytes.  A number keeps its literal, which the
  decoders convert to \<open>int64\<close> or \<open>float64\<close>.  When an object repeats a key the later
  value is decoded over the earlier one; the element-wise merge of a slice or a
  nested struct that is given twice is not modelled.
\<close>

datatype json =
    JNull | JBool bool | JNum string | JStr string | JArr "json list" | JObj "(string \<times> json) list"

type_synonym object = "(string \<times> json) list"

definition obj_put :: "string \<Rightarrow> 'v \<Rightarrow> (string \<times> 'v) list \<Rightarrow> (string \<times> 'v) list" where
  "obj_put k v m = (k, v) # filter (\<lambda>p. fst p \<noteq> k) m"

definition obj_get :: "(string \<times> 'v) list \<Rightarrow> string \<Rightarrow> 'v option" where "obj_get m k = map_of m k"

lemma obj_get_put [simp]: "obj_get (obj_put k v m) k' = (if k' = k then Some v else obj_get m k')"
proof (cases "k' = k")
  case False
  have "map_of (filter (\<lambda>p. fst p \<noteq> k) m) k' = map_of m k'" using False by (induction m) auto
  then show ?thesis using False by (simp add: obj_get_def obj_put_def)
qed (simp add: obj_get_def obj_put_def)

text \<open>A map built by assigning the entries in turn.\<close>

definition map_from :: "(string \<times> 'v) list \<Rightarrow> (string \<times> 'v) list" where
  "map_from entries = fold (\<lambda>(k, v). obj_put k v) entries []"

section \<open>UTF-8\<close>

definition byte :: "char \<Rightarrow> nat" where "byte c = of_char c"

definition is_cont :: "char \<Rightarrow> bool" where "is_cont c \<longleftrightarrow> 128 \<le> byte c \<and> byte c \<le> 191"

text \<open>The width of the rune a string starts with, 0 for an invalid sequence
  (\<open>utf8.DecodeRune\<close>).\<close>

definition rune_width :: "string \<Rightarrow> nat" where
  "rune_width s = (case s of [] \<Rightarrow> 0 | c # r \<Rightarrow>
     let b = byte c; w2 = (case r of x # _ \<Rightarrow> is_cont x | [] \<Rightarrow> False);
         w3 = (\<lambda>lo hi. case r of x # y # _ \<Rightarrow> lo \<le> byte x \<and> byte x \<le> hi \<and> is_cont y | _ \<Rightarrow> False);
         w4 = (\<lambda>lo hi. case r of x # y # z # _ \<Rightarrow>
                 lo \<le> byte x \<and> byte x \<le> hi \<and> is_cont y \<and> is_cont z | _ \<Rightarrow> False)
     in if b < 128 then 1
        else if 194 \<le> b \<and> b \<le> 223 then (if w2 then 2 else 0)
        else if b = 224 then (if w3 160 191 then 3 else 0)
        else if b = 237 then (if w3 128 159 then 3 else 0)
        else if 225 \<le> b \<and> b \<le> 239 then (if w3 128 191 then 3 else 0)
        else if b = 240 then (if w4 144 191 then 4 else 0)
        else if 241 \<le> b \<and> b \<le> 243 then (if w4 128 191 then 4 else 0)
        else if b = 244 then (if w4 128 143 then 4 else 0)
        else 0)"

definition replacement :: string where "replacement = [char_of (239::nat), char_of (191::nat), char_of (189::nat)]"

text \<open>Every byte that is not part of a valid sequence becomes U+FFFD; \<open>k\<close> counts the
  bytes of the current rune still to copy.\<close>

fun sanitize :: "nat \<Rightarrow> string \<Rightarrow> string" where
  "sanitize k [] = []"
| "sanitize (Suc k) (c # r) = c # sanitize k r"
| "sanitize 0 (c # r) = (case rune_width (c # r) of
     0 \<Rightarrow> replacement @ sanitize 0 r | Suc w \<Rightarrow> c # sanitize w r)"

definition utf8_encode :: "nat \<Rightarrow> string" where
  "utf8_encode n =
     (if n < 128 then [char_of n]
      else if n < 2048 then [char_of (192 + n div 64), char_of (128 + n mod 64)]
      else if n < 65536 then
        [char_of (224 + n div 4096), char_of (128 + n div 64 mod 64), char_of (128 + n mod 64)]
      else [char_of (240 + n div 262144), char_of (128 + n div 4096 mod 64),
            char_of (128 + n div 64 mod 64), char_of (128 + n mod 64)])"

section \<open>Scanning\<close>

definition is_ws :: "char \<Rightarrow> bool" where
  "is_ws c \<longleftrightarrow> c \<in> set [CHR '' '', CHR 0x09, CHR 0x0A, CHR 0x0D]"

definition skip_ws :: "string \<Rightarrow> string" where "skip_ws s = dropWhile is_ws s"

text \<open>White space and then the given character.\<close>

definition expect :: "char \<Rightarrow> string \<Rightarrow> string option" where
  "expect c s = (case skip_ws s of [] \<Rightarrow> None | x # r \<Rightarrow> if x = c then Some r else None)"

definition is_digit :: "char \<Rightarrow> bool" where "is_digit c \<longleftrightarrow> 48 \<le> byte c \<and> byte c \<le> 57"

definition hex_digit :: "char \<Rightarrow> nat option" where
  "hex_digit c = (let b = byte c in
     if 48 \<le> b \<and> b \<le> 57 then Some (b - 48)
     else if 97 \<le> b \<and> b \<le> 102 then Some (b - 87)
     else if 65 \<le> b \<and> b \<le> 70 then Some (b - 55) else None)"

text \<open>\<open>getu4\<close>: the four hexadecimal digits of a \<open>\u\<close> escape whose backslash comes first.\<close>

definition getu4 :: "string \<Rightarrow> nat option" where
  "getu4 s = (case s of b # u # h1 # h2 # h3 # h4 # _ \<Rightarrow>
     if b = CHR 0x5C \<and> u = CHR ''u'' then
       do { d1 \<leftarrow> hex_digit h1; d2 \<leftarrow> hex_digit h2; d3 \<leftarrow> hex_digit h3; d4 \<leftarrow> hex_digit h4;
            Some (4096 * d1 + 256 * d2 + 16 * d3 + d4) }
     else None
   | _ \<Rightarrow> None)"

definition simple_escape :: "char \<Rightarrow> char option" where
  "simple_escape c = map_of [(CHR 0x22, CHR 0x22), (CHR 0x5C, CHR 0x5C), (CHR ''/'', CHR ''/''),
     (CHR ''b'', CHR 0x08), (CHR ''f'', CHR 0x0C), (CHR ''n'', CHR 0x0A), (CHR ''r'', CHR 0x0D),
     (CHR ''t'', CHR 0x09)] c"

text \<open>The text between two quotes: no control character, escapes well formed.  The
  result is the raw text and what follows the closing quote.\<close>

fun scan_string :: "string \<Rightarrow> (string \<times> string) option" where
  "scan_string [] = None"
| "scan_string (c # r) =
     (if c = CHR 0x22 then Some ([], r)
      else if byte c < 32 then None
      else if c = CHR 0x5C then
        (case r of [] \<Rightarrow> None
         | e # r1 \<Rightarrow> map_option (\<lambda>(raw, r2). (c # e # raw, r2)) (scan_string r1))
      else map_option (\<lambda>(raw, r2). (c # raw, r2)) (scan_string r))"

fun unescape :: "string \<Rightarrow> string option" where
  "unescape [] = Some []"
| "unescape (c # r) =
     (if c \<noteq> CHR 0x5C then map_option (Cons c) (unescape r)
      else case r of [] \<Rightarrow> None
      | e # r1 \<Rightarrow>
         (if e = CHR ''u'' then
            (case getu4 (c # r) of None \<Rightarrow> None
             | Some u \<Rightarrow>
                (if 55296 \<le> u \<and> u < 57344 then
                   (case getu4 (drop 5 r) of
                      Some v \<Rightarrow>
                        (if u < 56320 \<and> 56320 \<le> v \<and> v < 57344
                         then map_option (append (utf8_encode (65536 + (u - 55296) * 1024 + (v - 56320))))
                                (unescape (drop 11 r))
                         else map_option (append replacement) (unescape (drop 5 r)))
                    | None \<Rightarrow> map_option (append replacement) (unescape (drop 5 r)))
                 else map_option (append (utf8_encode u)) (unescape (drop 5 r))))
          else case simple_escape e of None \<Rightarrow> None
               | Some x \<Rightarrow> map_option (Cons x) (unescape (drop 1 r))))"

definition parse_string :: "string \<Rightarrow> (string \<times> string) option" where
  "parse_string s = do { (raw, r) \<leftarrow> scan_string s; v \<leftarrow> unescape (sanitize 0 raw); Some (v, r) }"

text \<open>The literal of a number, and what follows it.\<close>

definition scan_digits :: "string \<Rightarrow> (string \<times> string) option" where
  "scan_digits s = (case takeWhile is_digit s of [] \<Rightarrow> None | ds \<Rightarrow> Some (ds, dropWhile is_digit s))"

definition scan_integer :: "string \<Rightarrow> (string \<times> string) option" where
  "scan_integer s = (case scan_digits s of None \<Rightarrow> None
     | Some (ds, r) \<Rightarrow> if hd ds = CHR ''0'' then Some ([hd ds], tl ds @ r) else Some (ds, r))"

definition scan_fraction :: "string \<Rightarrow> (string \<times> string) option" where
  "scan_fraction s = (case s of [] \<Rightarrow> Some ([], [])
     | c # r \<Rightarrow> if c = CHR ''.'' then map_option (\<lambda>(ds, t). (c # ds, t)) (scan_digits r) else Some ([], s))"

definition scan_exponent :: "string \<Rightarrow> (string \<times> string) option" where
  "scan_exponent s = (case s of [] \<Rightarrow> Some ([], [])
     | c # r \<Rightarrow> if c \<noteq> CHR ''e'' \<and> c \<noteq> CHR ''E'' then Some ([], s)
         else (case r of [] \<Rightarrow> None
          | x # t \<Rightarrow> if x = CHR ''+'' \<or> x = CHR ''-''
              then map_option (\<lambda>(ds, u). (c # x # ds, u)) (scan_digits t)
              else map_option (\<lambda>(ds, u). (c # ds, u)) (scan_digits r)))"

definition scan_number :: "string \<Rightarrow> (string \<times> string) option" where
  "scan_number s = (let (sg, s0) = (case s of c # r \<Rightarrow> if c = CHR ''-'' then ([c], r) else ([], s) | [] \<Rightarrow> ([], [])) in
     do { (ip, s1) \<leftarrow> scan_integer s0; (fp, s2) \<leftarrow> scan_fraction s1; (xp, s3) \<leftarrow> scan_exponent s2;
          Some (sg @ ip @ fp @ xp, s3) })"

definition strip :: "string \<Rightarrow> string \<Rightarrow> string option" where
  "strip p s = (if take (length p) s = p then Some (drop (length p) s) else None)"

section \<open>Documents\<close>

text \<open>The nesting limit of \<open>encoding/json\<close> is 10000 containers.  The first argument is
  fuel; \<open>parse_fuel\<close> below shows that \<open>2 * length s + 1\<close> is enough.\<close>

definition value_step ::
  "nat \<Rightarrow> (string \<Rightarrow> (object \<times> string) option) \<Rightarrow> (string \<Rightarrow> (json list \<times> string) option)
     \<Rightarrow> string \<Rightarrow> (json \<times> string) option" where
  "value_step d members elems s = (case skip_ws s of [] \<Rightarrow> None
   | c # r \<Rightarrow>
      if c = CHR ''{'' then
        (if 10000 \<le> d then None else case expect (CHR ''}'') r of
           Some r1 \<Rightarrow> Some (JObj [], r1)
         | None \<Rightarrow> map_option (\<lambda>(ms, r1). (JObj ms, r1)) (members r))
      else if c = CHR ''['' then
        (if 10000 \<le> d then None else case expect (CHR '']'') r of
           Some r1 \<Rightarrow> Some (JArr [], r1)
         | None \<Rightarrow> map_option (\<lambda>(vs, r1). (JArr vs, r1)) (elems r))
      else if c = CHR 0x22 then map_option (\<lambda>(t, r1). (JStr t, r1)) (parse_string r)
      else if c = CHR ''n'' then map_option (Pair JNull) (strip ''ull'' r)
      else if c = CHR ''t'' then map_option (Pair (JBool True)) (strip ''rue'' r)
      else if c = CHR ''f'' then map_option (Pair (JBool False)) (strip ''alse'' r)
      else map_option (\<lambda>(t, r1). (JNum t, r1)) (scan_number (c # r)))"

fun parse_value :: "nat \<Rightarrow> nat \<Rightarrow> string \<Rightarrow> (json \<times> string) option"
and parse_elems :: "nat \<Rightarrow> nat \<Rightarrow> string \<Rightarrow> (json list \<times> string) option"
and parse_members :: "nat \<Rightarrow> nat \<Rightarrow> string \<Rightarrow> (object \<times> string) option" where
  "parse_value 0 d s = None"
| "parse_value (Suc n) d s = value_step d (parse_members n (Suc d)) (parse_elems n (Suc d)) s"
| "parse_elems 0 d s = None"
| "parse_elems (Suc n) d s = (case parse_value n d s of None \<Rightarrow> None
   | Some (v, r1) \<Rightarrow> (case expect (CHR '','') r1 of
       Some r2 \<Rightarrow> map_option (\<lambda>(vs, r3). (v # vs, r3)) (parse_elems n d r2)
     | None \<Rightarrow> map_option (\<lambda>r2. ([v], r2)) (expect (CHR '']'') r1)))"
| "parse_members 0 d s = None"
| "parse_members (Suc n) d s =
     (case Option.bind (expect (CHR 0x22) s) parse_string of None \<Rightarrow> None
   | Some (k, r1) \<Rightarrow> (case expect (CHR '':'') r1 of None \<Rightarrow> None
   | Some r2 \<Rightarrow> (case parse_value n d r2 of None \<Rightarrow> None
   | Some (v, r3) \<Rightarrow> (case expect (CHR '','') r3 of
       Some r4 \<Rightarrow> map_option (\<lambda>(ms, r5). ((k, v) # ms, r5)) (parse_members n d r4)
     | None \<Rightarrow> map_option (\<lambda>r4. ([(k, v)], r4)) (expect (CHR ''}'') r3)))))"

definition parse_json :: "string \<Rightarrow> json option" where
  "parse_json s = (case parse_value (2 * length s + 1) 0 s of
     Some (v, r) \<Rightarrow> if skip_ws r = [] then Some v else None | None \<Rightarrow> None)"


section \<open>The fuel is enough\<close>

lemma skip_ws_length: "length (skip_ws s) \<le> length s"
  by (simp add: skip_ws_def length_dropWhile_le)

lemma skip_ws_Cons: "skip_ws s = c # r \<Longrightarrow> length r < length s"
  using skip_ws_length [of s] by simp

lemma expect_length: "expect c s = Some r \<Longrightarrow> length r < length s"
  by (auto simp: expect_def dest: skip_ws_Cons split: list.splits if_splits)

lemma scan_string_length: "scan_string s = Some (raw, r) \<Longrightarrow> length r < length s"
  by (induction s arbitrary: raw r rule: scan_string.induct)
     (fastforce split: if_splits list.splits)+

lemma parse_string_length: "parse_string s = Some (k, r) \<Longrightarrow> length r < length s"
  by (auto simp: parse_string_def Option.bind_eq_Some_conv dest: scan_string_length)

lemma scan_digits_length: "scan_digits s = Some (ds, r) \<Longrightarrow> length ds + length r = length s \<and> ds \<noteq> []"
  by (auto simp: scan_digits_def length_append [symmetric] simp del: length_append split: list.splits)

lemma scan_integer_length: "scan_integer s = Some (ip, r) \<Longrightarrow> length r < length s"
  by (auto simp: scan_integer_def neq_Nil_conv dest!: scan_digits_length split: option.splits if_splits)

lemma scan_fraction_length: "scan_fraction s = Some (ip, r) \<Longrightarrow> length r \<le> length s"
  by (auto simp: scan_fraction_def dest!: scan_digits_length split: list.splits if_splits)

lemma scan_exponent_length: "scan_exponent s = Some (ip, r) \<Longrightarrow> length r \<le> length s"
  by (auto simp: scan_exponent_def dest!: scan_digits_length split: list.splits if_splits)

lemma scan_number_length: "scan_number s = Some (t, r) \<Longrightarrow> length r < length s"
  by (auto simp: scan_number_def Let_def Option.bind_eq_Some_conv split: list.splits if_splits prod.splits
      dest!: scan_integer_length scan_fraction_length scan_exponent_length)

lemma strip_length: "strip p s = Some r \<Longrightarrow> length r \<le> length s"
  by (auto simp: strip_def split: if_splits)

lemmas scan_lengths = skip_ws_Cons expect_length parse_string_length scan_number_length strip_length

lemma value_step_length:
  assumes "value_step d f g s = Some (v, r)"
    and f: "\<And>t ms u. f t = Some (ms, u) \<Longrightarrow> length u < length t"
    and g: "\<And>t vs u. g t = Some (vs, u) \<Longrightarrow> length u < length t"
  shows "length r < length s"
proof (cases "skip_ws s")
  case (Cons c t)
  have l: "length t < length s" using Cons by (rule skip_ws_Cons)
  have num: "scan_number (c # t) = Some (x, u) \<Longrightarrow> length u < length s" for x u
    using scan_number_length l by fastforce
  have e: "expect x t = Some u \<Longrightarrow> length u < length s" for x u
    using expect_length l less_trans by blast
  have st: "parse_string t = Some (k, u) \<Longrightarrow> length u < length s" for k u
    using parse_string_length l less_trans by blast
  have w: "strip x t = Some u \<Longrightarrow> length u < length s" for x u
    using strip_length l le_less_trans by blast
  have m: "f t = Some (ms, u) \<Longrightarrow> length u < length s" "g t = Some (vs, u) \<Longrightarrow> length u < length s" for ms vs u
    using f g l less_trans by blast+
  show ?thesis using assms(1)
    by (auto simp: value_step_def Cons dest: num e st w m split: if_split_asm option.split_asm)
qed (use assms(1) in \<open>simp add: value_step_def\<close>)

lemma value_step_cong:
  assumes "\<And>t. length t < length s \<Longrightarrow> f t = f' t" "\<And>t. length t < length s \<Longrightarrow> g t = g' t"
  shows "value_step d f g s = value_step d f' g' s"
proof (cases "skip_ws s")
  case (Cons c t)
  then have "f t = f' t" "g t = g' t" using assms skip_ws_Cons by blast+
  then show ?thesis by (simp add: value_step_def Cons cong: option.case_cong)
qed (simp add: value_step_def)

lemma parse_length:
  "parse_value n d s = Some (v, r) \<Longrightarrow> length r < length s"
  "parse_elems n d s = Some (vs, r) \<Longrightarrow> length r < length s"
  "parse_members n d s = Some (ms, r) \<Longrightarrow> length r < length s"
proof (induction n d s and n d s and n d s arbitrary: v r and vs r and ms r
    rule: parse_value_parse_elems_parse_members.induct)
  case (2 n d s)
  then show ?case using value_step_length [of d "parse_members n (Suc d)" "parse_elems n (Suc d)" s v r]
    by (metis parse_value.simps(2))
next
  case (4 n d s)
  obtain w r1 where v: "parse_value n d s = Some (w, r1)" using "4.prems" by (auto split: option.split_asm)
  have l: "length r1 < length s" using "4.IH"(1) v .
  show ?case
  proof (cases "expect (CHR '','') r1")
    case None
    then show ?thesis using "4.prems" v l by (auto dest: expect_length)
  next
    case (Some r2)
    then obtain vs' where "parse_elems n d r2 = Some (vs', r)" using "4.prems" v by auto
    then show ?thesis using "4.IH"(2) [OF v refl Some] expect_length [OF Some] l by fastforce
  qed
next
  case (6 n d s)
  obtain key r1 where k: "Option.bind (expect (CHR 0x22) s) parse_string = Some (key, r1)"
    using "6.prems" by (auto split: option.split_asm)
  obtain r2 where c: "expect (CHR '':'') r1 = Some r2" using "6.prems" k by (auto split: option.split_asm)
  obtain w r3 where v: "parse_value n d r2 = Some (w, r3)" using "6.prems" k c by (auto split: option.split_asm)
  have l1: "length r1 < length s" using k by (auto simp: Option.bind_eq_Some_conv dest!: expect_length parse_string_length)
  have l: "length r3 < length s" using "6.IH"(1) [OF k refl c v] expect_length [OF c] l1 by simp
  show ?case
  proof (cases "expect (CHR '','') r3")
    case None
    then show ?thesis using "6.prems" k c v l by (auto dest: expect_length)
  next
    case (Some r4)
    then obtain ms' where "parse_members n d r4 = Some (ms', r)" using "6.prems" k c v by auto
    then show ?thesis using "6.IH"(2) [OF k refl c v refl Some] expect_length [OF Some] l by fastforce
  qed
qed simp_all

lemma parse_fuel:
  "2 * length s < n \<Longrightarrow> 2 * length s < m \<Longrightarrow> parse_value n d s = parse_value m d s"
  "2 * length s + 1 < n \<Longrightarrow> 2 * length s + 1 < m \<Longrightarrow> parse_elems n d s = parse_elems m d s"
  "2 * length s + 1 < n \<Longrightarrow> 2 * length s + 1 < m \<Longrightarrow> parse_members n d s = parse_members m d s"
proof (induction n d s and n d s and n d s arbitrary: m and m and m
    rule: parse_value_parse_elems_parse_members.induct)
  case (2 n d s)
  obtain m' where m: "m = Suc m'" using "2.prems"(2) by (cases m) auto
  have "parse_members n (Suc d) t = parse_members m' (Suc d) t"
    "parse_elems n (Suc d) t = parse_elems m' (Suc d) t" if "length t < length s" for t
    using "2.prems" m that by (intro "2.IH"; linarith)+
  then show ?case unfolding m parse_value.simps by (intro value_step_cong)
next
  case (4 n d s)
  obtain m' where m: "m = Suc m'" using "4.prems"(2) by (cases m) auto
  have v: "parse_value n d s = parse_value m' d s" using "4.prems" m by (intro "4.IH"(1)) auto
  show ?case
  proof (cases "parse_value n d s")
    case (Some a)
    obtain w r1 where a: "a = (w, r1)" by (cases a)
    have l1: "length r1 < length s" using parse_length(1) Some a by blast
    show ?thesis
    proof (cases "expect (CHR '','') r1")
      case e: (Some r2)
      have "length r2 < length r1" using e by (rule expect_length)
      then have "parse_elems n d r2 = parse_elems m' d r2"
        using "4.prems" m l1 by (intro "4.IH"(2) [OF Some a [symmetric] e]) auto
      then show ?thesis using Some v a e by (simp add: m)
    qed (use Some v a in \<open>simp add: m\<close>)
  qed (use v in \<open>simp add: m\<close>)
next
  case (6 n d s)
  obtain m' where m: "m = Suc m'" using "6.prems"(2) by (cases m) auto
  show ?case
  proof (cases "Option.bind (expect (CHR 0x22) s) parse_string")
    case k: (Some a)
    obtain key r1 where a: "a = (key, r1)" by (cases a)
    have l1: "length r1 < length s" using k a by (auto simp: Option.bind_eq_Some_conv dest!: scan_lengths)
    show ?thesis
    proof (cases "expect (CHR '':'') r1")
      case c: (Some r2)
      have l2: "length r2 < length r1" using c by (rule expect_length)
      have v: "parse_value n d r2 = parse_value m' d r2"
        using "6.prems" m l1 l2 by (intro "6.IH"(1) [OF k a [symmetric] c]) auto
      show ?thesis
      proof (cases "parse_value n d r2")
        case (Some b)
        obtain w r3 where b: "b = (w, r3)" by (cases b)
        have l3: "length r3 < length r2" using parse_length(1) Some b by blast
        show ?thesis
        proof (cases "expect (CHR '','') r3")
          case e: (Some r4)
          have "length r4 < length r3" using e by (rule expect_length)
          then have "parse_members n d r4 = parse_members m' d r4"
            using "6.prems" m l1 l2 l3 by (intro "6.IH"(2) [OF k a [symmetric] c Some b [symmetric] e]) auto
          then show ?thesis using k a c Some v b e by (simp add: m)
        qed (use k a c Some v b in \<open>simp add: m\<close>)
      qed (use k a c v in \<open>simp add: m\<close>)
    qed (use k a in \<open>simp add: m\<close>)
  qed (simp add: m)
qed simp_all

lemma parse_json_fuel:
  assumes "2 * length s < n"
  shows "parse_json s = (case parse_value n 0 s of
     Some (v, r) \<Rightarrow> if skip_ws r = [] then Some v else None | None \<Rightarrow> None)"
  unfolding parse_json_def using parse_fuel(1) [OF _ assms, of "2 * length s + 1"] by simp


section \<open>Numbers\<close>

definition f64s :: "rat \<Rightarrow> rat" where "f64s x = (if x < 0 then - f64 (- x) else f64 x)"

definition digits_int :: "string \<Rightarrow> int" where
  "digits_int ds = fold (\<lambda>c acc. acc * 10 + int (byte c - 48)) ds 0"

function int_digits :: "int \<Rightarrow> string" where
  "int_digits n = (if n < 10 then [digit_char (nat n)] else int_digits (n div 10) @ [digit_char (nat (n mod 10))])"
  by pat_completeness auto
termination by (relation "measure nat") auto

declare int_digits.simps [simp del]

text \<open>The rational a number literal denotes: sign, integer and fraction digits, exponent.\<close>

definition lit_val :: "string \<Rightarrow> rat" where
  "lit_val s =
     (let neg = (take 1 s = ''-'');
          body = (if neg then drop 1 s else s);
          mant = takeWhile (\<lambda>c. c \<noteq> CHR ''e'' \<and> c \<noteq> CHR ''E'') body;
          ex = drop (Suc (length mant)) body;
          ip = takeWhile is_digit mant;
          fp = drop (Suc (length ip)) mant;
          e = (if take 1 ex = ''-'' then - digits_int (drop 1 ex)
               else if take 1 ex = ''+'' then digits_int (drop 1 ex) else digits_int ex);
          v = (of_int (digits_int (ip @ fp)) :: rat) * 10 powi (e - int (length fp))
      in if neg then - v else v)"

text \<open>\<open>strconv.ParseFloat\<close> on a JSON literal; out of range is an error.\<close>

definition lit_f64 :: "string \<Rightarrow> rat option" where
  "lit_f64 s = (let v = f64s (lit_val s) in if \<bar>v\<bar> < 2 ^ 1024 then Some v else None)"

text \<open>\<open>strconv.ParseInt\<close> on a JSON literal: a fraction or an exponent is an error.\<close>

definition lit_int :: "string \<Rightarrow> int option" where
  "lit_int s =
     (let neg = (take 1 s = ''-''); ds = (if neg then drop 1 s else s);
          v = (if neg then - digits_int ds else digits_int ds)
      in if ds \<noteq> [] \<and> list_all is_digit ds \<and> int64_range v then Some v else None)"

section \<open>Decoding\<close>

type_synonym 'a decoder = "json \<Rightarrow> 'a \<Rightarrow> 'a option"

text \<open>A decoder gets the value and what the variable holds; \<open>null\<close> leaves it.\<close>

definition dec_string :: "string decoder" where
  "dec_string j old = (case j of JNull \<Rightarrow> Some old | JStr s \<Rightarrow> Some s | _ \<Rightarrow> None)"

definition dec_bool :: "bool decoder" where
  "dec_bool j old = (case j of JNull \<Rightarrow> Some old | JBool b \<Rightarrow> Some b | _ \<Rightarrow> None)"

definition dec_int :: "int decoder" where
  "dec_int j old = (case j of JNull \<Rightarrow> Some old | JNum s \<Rightarrow> lit_int s | _ \<Rightarrow> None)"

definition dec_f64 :: "rat decoder" where
  "dec_f64 j old = (case j of JNull \<Rightarrow> Some old | JNum s \<Rightarrow> lit_f64 s | _ \<Rightarrow> None)"

text \<open>\<open>json.Number\<close>: the literal; a quoted one must be a number too.\<close>

definition dec_number :: "string decoder" where
  "dec_number j old = (case j of JNull \<Rightarrow> Some old | JNum s \<Rightarrow> Some s
     | JStr s \<Rightarrow> (case scan_number s of Some (t, r) \<Rightarrow> if r = [] then Some s else None | None \<Rightarrow> None)
     | _ \<Rightarrow> None)"

text \<open>A pointer: \<open>null\<close> clears it.\<close>

definition dec_ptr :: "'a decoder \<Rightarrow> 'a \<Rightarrow> 'a option decoder" where
  "dec_ptr dec zero j old = (case j of JNull \<Rightarrow> Some None | _ \<Rightarrow> map_option Some (dec j zero))"

definition dec_list :: "(json \<Rightarrow> 'a option) \<Rightarrow> 'a list decoder" where
  "dec_list dec j old = (case j of JNull \<Rightarrow> Some [] | JArr js \<Rightarrow> those (map dec js) | _ \<Rightarrow> None)"

definition dec_map :: "'a decoder \<Rightarrow> 'a \<Rightarrow> (string \<times> 'a) list decoder" where
  "dec_map dec zero j old = (case j of JNull \<Rightarrow> Some []
     | JObj o1 \<Rightarrow> map_option map_from (those (map (\<lambda>(k, v). map_option (Pair k) (dec v zero)) o1))
     | _ \<Rightarrow> None)"

text \<open>A value decoded into \<open>any\<close>: objects become maps and numbers \<open>float64\<close>, so a number
  out of range is an error.\<close>

fun numbers_ok :: "json \<Rightarrow> bool" where
  "numbers_ok (JNum s) = (lit_f64 s \<noteq> None)"
| "numbers_ok (JArr js) = list_all numbers_ok js"
| "numbers_ok (JObj o1) = list_all (\<lambda>(k, v). numbers_ok v) o1"
| "numbers_ok _ = True"

fun as_any :: "json \<Rightarrow> json" where
  "as_any (JArr js) = JArr (map as_any js)"
| "as_any (JObj o1) = JObj (map_from (map (\<lambda>(k, v). (k, as_any v)) o1))"
| "as_any j = j"

definition dec_any :: "json decoder" where
  "dec_any j old = (if numbers_ok j then Some (as_any j) else None)"

text \<open>Field names match up to ASCII case; U+017F and U+212A fold to the letters S and K.\<close>

definition upper_char :: "char \<Rightarrow> char" where
  "upper_char c = (let b = byte c in if 97 \<le> b \<and> b \<le> 122 then char_of (b - 32) else c)"

fun fold_name :: "string \<Rightarrow> string" where
  "fold_name [] = []"
| "fold_name (c # r) =
     (if byte c = 197 \<and> map byte (take 1 r) = [191] then CHR ''S'' # fold_name (drop 1 r)
      else if byte c = 226 \<and> map byte (take 2 r) = [132, 170] then CHR ''K'' # fold_name (drop 2 r)
      else upper_char c # fold_name r)"

definition dec_field :: "string \<Rightarrow> 'a decoder \<Rightarrow> 'a \<Rightarrow> object \<Rightarrow> 'a option" where
  "dec_field name dec zero o1 =
     fold (\<lambda>(k, v) acc. if fold_name k = fold_name name then Option.bind acc (dec v) else acc) o1 (Some zero)"

definition dec_struct :: "(object \<Rightarrow> 'a option) \<Rightarrow> 'a \<Rightarrow> 'a decoder" where
  "dec_struct fields zero j old = (case j of JNull \<Rightarrow> Some old | JObj o1 \<Rightarrow> fields o1 | _ \<Rightarrow> None)"

text \<open>\<open>json.Unmarshal(body, &v)\<close> with \<open>v\<close> at its zero value.  The error texts of the
  package are not modelled.\<close>

definition json_error :: gerror where "json_error = Plain ''json''"

definition unmarshal :: "'a decoder \<Rightarrow> 'a \<Rightarrow> string \<Rightarrow> (gerror, 'a) result" where
  "unmarshal dec zero body = (case Option.bind (parse_json body) (\<lambda>j. dec j zero) of
     None \<Rightarrow> Err json_error | Some v \<Rightarrow> Ok v)"

section \<open>Encoding\<close>

definition hex_char :: "nat \<Rightarrow> char" where "hex_char n = ''0123456789abcdef'' ! (n mod 16)"

definition escape_char :: "char \<Rightarrow> string" where
  "escape_char c = (let b = byte c in
     if c = CHR 0x22 then [CHR 0x5C, CHR 0x22]
     else if c = CHR 0x5C then [CHR 0x5C, CHR 0x5C]
     else if b = 8 then CHR 0x5C # ''b'' else if b = 12 then CHR 0x5C # ''f''
     else if b = 10 then CHR 0x5C # ''n'' else if b = 13 then CHR 0x5C # ''r''
     else if b = 9 then CHR 0x5C # ''t''
     else if b < 32 \<or> b = 38 \<or> b = 60 \<or> b = 62
       then CHR 0x5C # ''u00'' @ [hex_char (b div 16), hex_char b]
     else [c])"

text \<open>Escapes of \<open>json.Marshal\<close>: HTML characters, U+2028 and U+2029, and invalid UTF-8.\<close>

fun escape :: "nat \<Rightarrow> string \<Rightarrow> string" where
  "escape k [] = []"
| "escape (Suc k) (c # r) = c # escape k r"
| "escape 0 (c # r) = (case rune_width (c # r) of
     0 \<Rightarrow> CHR 0x5C # ''ufffd'' @ escape 0 r
   | Suc w \<Rightarrow>
      if w = 0 then escape_char c @ escape 0 r
      else if byte c = 226 \<and> map byte (take 2 r) = [128, 168] then CHR 0x5C # ''u2028'' @ escape 0 (drop 2 r)
      else if byte c = 226 \<and> map byte (take 2 r) = [128, 169] then CHR 0x5C # ''u2029'' @ escape 0 (drop 2 r)
      else c # escape w r)"

definition quote :: "string \<Rightarrow> string" where
  "quote s = CHR 0x22 # escape 0 s @ [CHR 0x22]"

text \<open>The shortest decimal that reads back as the same \<open>float64\<close>, the nearest one of that
  length; 17 digits are always enough.\<close>

definition exponent10 :: "rat \<Rightarrow> int" where
  "exponent10 x = (case quotient_of x of (n, d) \<Rightarrow>
     let k = int (length (int_digits n)) - int (length (int_digits d))
     in if 10 powi k \<le> x then k else k - 1)"

definition shortest_at :: "rat \<Rightarrow> nat \<Rightarrow> (int \<times> int) option" where
  "shortest_at x n =
     (let e = exponent10 x - int n + 1; u = 10 powi e; lo = \<lfloor>x / u\<rfloor>;
          good = (\<lambda>c. f64 (of_int c * u) = x)
      in if good lo \<and> (x - of_int lo * u \<le> of_int (lo + 1) * u - x \<or> \<not> good (lo + 1)) then Some (lo, e)
         else if good (lo + 1) then Some (lo + 1, e) else None)"

definition shortest :: "rat \<Rightarrow> int \<times> int" where
  "shortest x = (case List.map_filter (shortest_at x) [1 ..< 18] of c # _ \<Rightarrow> c | [] \<Rightarrow> (0, 0))"

definition strip_zeros :: "string \<Rightarrow> string" where
  "strip_zeros s = rev (dropWhile (\<lambda>c. c = CHR ''0'') (rev s))"

text \<open>A \<open>float64\<close> as \<open>encoding/json\<close> writes it: positional, or with an exponent below
  \<open>1e-6\<close> and from \<open>1e21\<close>.\<close>

definition fmt_pos_f64 :: "rat \<Rightarrow> string" where
  "fmt_pos_f64 x =
     (case shortest x of (c, e) \<Rightarrow>
       let all = int_digits c; ds = strip_zeros all; p = int (length all) + e
       in if x < f64 (1 / 10 ^ 6) \<or> 10 ^ 21 \<le> x then
            take 1 ds @ (if length ds = 1 then [] else CHR ''.'' # drop 1 ds) @ ''e'' @
              (if p - 1 < 0 then CHR ''-'' # int_digits (1 - p) else CHR ''+'' # int_digits (p - 1))
          else if p \<le> 0 then ''0.'' @ replicate (nat (- p)) (CHR ''0'') @ ds
          else if int (length ds) \<le> p then ds @ replicate (nat p - length ds) (CHR ''0'')
          else take (nat p) ds @ ''.'' @ drop (nat p) ds)"

definition fmt_f64 :: "rat \<Rightarrow> string" where
  "fmt_f64 x = (if x = 0 then ''0'' else if x < 0 then CHR ''-'' # fmt_pos_f64 (- x) else fmt_pos_f64 x)"

fun commas :: "string list \<Rightarrow> string" where
  "commas [] = []"
| "commas [x] = x"
| "commas (x # y # r) = x @ '','' @ commas (y # r)"

text \<open>\<open>json.Marshal\<close> of what \<open>json.Unmarshal\<close> made of a value: numbers are \<open>float64\<close>, keys are
  sorted, the last of equal keys wins.\<close>

fun marshal :: "json \<Rightarrow> string" where
  "marshal JNull = ''null''"
| "marshal (JBool b) = (if b then ''true'' else ''false'')"
| "marshal (JNum s) = fmt_f64 (f64s (lit_val s))"
| "marshal (JStr s) = quote s"
| "marshal (JArr js) = ''['' @ commas (map marshal js) @ '']''"
| "marshal (JObj o1) =
     ''{'' @ commas (map (\<lambda>(k, t). quote k @ '':'' @ t)
        (sort_key fst (map_from (map (\<lambda>(k, v). (k, marshal v)) o1)))) @ ''}''"

end
