(* ===== verification/RequestBody.thy ===== *)
theory RequestBody
  imports Json Domain
begin

text \<open>
  The request the proxy sends upstream: the model specification it starts from
  (\<open>domain/model_spec.go\<close>, the fields the pipeline reads) and \<open>buildBody\<close> of
  \<open>core/proxy/service.go\<close> with its helpers.  A \<open>map[string]any\<close> is an association list
  with one entry per key.
\<close>

record model_spec =
  sp_Alias :: string
  sp_JST :: string
  sp_Endpoint :: string
  sp_Version :: string
  sp_Output :: string
  sp_RequiresPaid :: bool
  sp_RequiresUltra :: bool
  sp_RequiresUnlim :: bool
  sp_EstCostHundredths :: int
  sp_MediaRole :: string
  sp_ExampleBodyJSON :: string
  sp_ApplicationSlug :: string
  sp_MinPlan :: plan
  sp_UnlimJobSetType :: string
  sp_FreeQuotaField :: string

record media_input =
  mi_PreUploadedID :: string
  mi_Type :: string
  mi_URL :: string

definition mediaTypeFor :: "string \<Rightarrow> string" where
  "mediaTypeFor kind =
     (if kind = ''video'' then ''video_input'' else if kind = ''audio'' then ''audio_input''
      else ''media_input'')"

definition objectForOutput :: "string \<Rightarrow> string" where
  "objectForOutput output =
     (if output = ''video'' then ''video'' else if output = ''audio'' then ''audio'' else ''image'')"

definition mediaRoleFor :: "model_spec \<Rightarrow> object \<Rightarrow> string" where
  "mediaRoleFor spec params =
     (if sp_MediaRole spec \<noteq> '''' then sp_MediaRole spec
      else case find (\<lambda>role. obj_get params role \<noteq> None) [''input_images'', ''medias'', ''input_image''] of
        Some role \<Rightarrow> role
      | None \<Rightarrow> if sp_Version spec = ''v2'' then ''input_images'' else ''input_image'')"

text \<open>Decoding the template into \<open>map[string]any\<close>: \<open>None\<close> is the nil map a JSON
  \<open>null\<close> gives, and any other value that is not an object is an error, after which
  the code starts from an empty map.\<close>

definition template_map :: "model_spec \<Rightarrow> object option" where
  "template_map spec =
     (if sp_ExampleBodyJSON spec = '''' then Some []
      else case Option.bind (parse_json (sp_ExampleBodyJSON spec)) (\<lambda>j. dec_any j JNull) of
        Some (JObj m) \<Rightarrow> Some m | Some JNull \<Rightarrow> None | _ \<Rightarrow> Some [])"

definition inject_media :: "model_spec \<Rightarrow> media_input option \<Rightarrow> object \<Rightarrow> object" where
  "inject_media spec media params = (case media of
     None \<Rightarrow> params
   | Some m \<Rightarrow>
      (if mi_PreUploadedID m = '''' \<and> mi_URL m = '''' then params
       else let obj = JObj [(''id'', JStr (mi_PreUploadedID m)), (''type'', JStr (mediaTypeFor (mi_Type m))),
                            (''url'', JStr (mi_URL m))];
                role = mediaRoleFor spec params
            in if role = ''medias'' then obj_put ''medias''
                 (JArr [JObj [(''role'', JStr ''start_image''), (''data'', obj)]]) params
               else if role = ''input_images'' then obj_put ''input_images'' (JArr [obj]) params
               else obj_put ''input_image'' obj params))"

text \<open>Storing into the nil map panics, and so does the whole call then.\<close>

definition buildBody ::
  "model_spec \<Rightarrow> object \<Rightarrow> media_input option \<Rightarrow> bool \<Rightarrow> (gerror, object) result" where
  "buildBody spec user media useUnlim = (case template_map spec of
     None \<Rightarrow> Err (Plain ''panic: assignment to entry in nil map'')
   | Some tmpl \<Rightarrow>
      (let params = (case obj_get tmpl ''params'' of Some (JObj m) \<Rightarrow> m | _ \<Rightarrow> []);
           params1 = foldr (\<lambda>(k, v). obj_put k v) user params;
           params2 = inject_media spec media params1;
           top1 = obj_put ''use_seedream_bonus'' (JBool False) (obj_put ''use_unlim'' (JBool useUnlim)
                    (obj_put ''params'' (JObj params2) tmpl))
       in Ok (if sp_ApplicationSlug spec \<noteq> ''''
              then obj_put ''application_slug'' (JStr (sp_ApplicationSlug spec)) top1 else top1)))"

section \<open>Properties\<close>

lemma obj_get_merge:
  "distinct (map fst user) \<Longrightarrow>
   obj_get (foldr (\<lambda>(k, v). obj_put k v) user m) k = (case obj_get user k of Some v \<Rightarrow> Some v | None \<Rightarrow> obj_get m k)"
  by (induction user) (auto simp: obj_get_def [of "[]"] obj_get_def [of "(_, _) # _"] simp flip: obj_get_def)

text \<open>What the caller and the template say of a key, and where the media of the call belongs:
  the slot the model names, else the first of the three already in use, else the version's.\<close>

definition said :: "object \<Rightarrow> object \<Rightarrow> string \<Rightarrow> json option" where
  "said user tmpl k = (case obj_get user k of
     Some v \<Rightarrow> Some v
   | None \<Rightarrow> (case obj_get tmpl ''params'' of Some (JObj m) \<Rightarrow> obj_get m k | _ \<Rightarrow> None))"

definition media_slot :: "model_spec \<Rightarrow> (string \<Rightarrow> json option) \<Rightarrow> string" where
  "media_slot spec params =
     (if sp_MediaRole spec \<noteq> ''''
      then (if sp_MediaRole spec \<in> {''medias'', ''input_images''} then sp_MediaRole spec else ''input_image'')
      else if params ''input_images'' \<noteq> None then ''input_images''
      else if params ''medias'' \<noteq> None then ''medias''
      else if params ''input_image'' \<noteq> None then ''input_image''
      else if sp_Version spec = ''v2'' then ''input_images'' else ''input_image'')"

definition media_value :: "string \<Rightarrow> media_input \<Rightarrow> json" where
  "media_value slot m =
     (let ref = JObj [(''id'', JStr (mi_PreUploadedID m)), (''type'', JStr (mediaTypeFor (mi_Type m))), (''url'', JStr (mi_URL m))]
      in if slot = ''medias'' then JArr [JObj [(''role'', JStr ''start_image''), (''data'', ref)]]
         else if slot = ''input_images'' then JArr [ref] else ref)"

definition has_media :: "media_input option \<Rightarrow> bool" where
  "has_media media \<longleftrightarrow> (case media of None \<Rightarrow> False | Some m \<Rightarrow> mi_PreUploadedID m \<noteq> '''' \<or> mi_URL m \<noteq> '''')"

lemma inject_media_at:
  "obj_get (inject_media spec media params) k =
     (if has_media media \<and> k = media_slot spec (obj_get params) then Some (media_value k (the media)) else obj_get params k)"
  by (auto simp: inject_media_def has_media_def media_slot_def media_value_def mediaRoleFor_def Let_def
      split: option.split)

text \<open>C24. The body the upstream receives.  Whatever the template and the caller say,
  \<open>use_unlim\<close> is the routing decision and \<open>use_seedream_bonus\<close> is off, and the
  model's application slug, when it has one, is the top-level one; every other
  top-level entry but \<open>params\<close> is the template's.  In \<open>params\<close> the media of a call that
  has any is in its slot, in the slot's shape; every other key, and every key of a call without
  media, is the caller's, or else the template's.\<close>

theorem buildBody_layers:
  assumes "buildBody spec user media useUnlim = Ok body" "distinct (map fst user)"
    "template_map spec = Some tmpl"
  shows "obj_get body ''use_unlim'' = Some (JBool useUnlim) \<and>
    obj_get body ''use_seedream_bonus'' = Some (JBool False) \<and>
    (sp_ApplicationSlug spec \<noteq> '''' \<longrightarrow>
       obj_get body ''application_slug'' = Some (JStr (sp_ApplicationSlug spec))) \<and>
    (\<forall>k. k \<notin> {''params'', ''use_unlim'', ''use_seedream_bonus'', ''application_slug''} \<longrightarrow>
       obj_get body k = obj_get tmpl k) \<and>
    (\<exists>params. obj_get body ''params'' = Some (JObj params) \<and>
       (\<forall>k. obj_get params k =
          (if has_media media \<and> k = media_slot spec (said user tmpl) then Some (media_value k (the media))
           else said user tmpl k)))"
proof -
  let ?base = "case obj_get tmpl ''params'' of Some (JObj m) \<Rightarrow> m | _ \<Rightarrow> []"
  let ?merged = "foldr (\<lambda>(k, v). obj_put k v) user ?base"
  let ?params = "inject_media spec media ?merged"
  have base: "obj_get ?base k = (case obj_get tmpl ''params'' of Some (JObj m) \<Rightarrow> obj_get m k | _ \<Rightarrow> None)" for k
    by (simp add: obj_get_def split: option.split json.split)
  have merged: "obj_get ?merged = said user tmpl"
    by (rule ext) (simp add: said_def base obj_get_merge [OF assms(2)] split: option.split)
  have params: "obj_get ?params k = (if has_media media \<and> k = media_slot spec (said user tmpl)
      then Some (media_value k (the media)) else said user tmpl k)" for k
    unfolding inject_media_at merged ..
  have body: "body = (let top1 = obj_put ''use_seedream_bonus'' (JBool False)
      (obj_put ''use_unlim'' (JBool useUnlim) (obj_put ''params'' (JObj ?params) tmpl))
      in if sp_ApplicationSlug spec \<noteq> '''' then obj_put ''application_slug'' (JStr (sp_ApplicationSlug spec)) top1
         else top1)"
    using assms(1) by (simp add: buildBody_def assms(3) Let_def)
  have "obj_get body ''params'' = Some (JObj ?params)" by (simp add: body Let_def)
  moreover have "obj_get body k = obj_get tmpl k"
    if "k \<notin> {''params'', ''use_unlim'', ''use_seedream_bonus'', ''application_slug''}" for k
    using that by (simp add: body Let_def)
  moreover have "obj_get body ''use_unlim'' = Some (JBool useUnlim)"
    "obj_get body ''use_seedream_bonus'' = Some (JBool False)"
    "sp_ApplicationSlug spec \<noteq> '''' \<Longrightarrow> obj_get body ''application_slug'' = Some (JStr (sp_ApplicationSlug spec))"
    by (simp_all add: body Let_def)
  ultimately show ?thesis using params by blast
qed

text \<open>A template with a default mode.\<close>

definition demo_template :: string where
  "demo_template = ''{'' @ quote ''params'' @ '':{'' @ quote ''mode'' @ '':'' @ quote ''std'' @ '','' @ quote ''hd'' @ '':false}}''"

lemma demo_template: "Option.bind (parse_json demo_template) (\<lambda>j. dec_any j JNull) =
    Some (JObj [(''params'', JObj [(''hd'', JBool False), (''mode'', JStr ''std'')])])"
  by code_simp

definition demo_spec :: model_spec where
  "demo_spec = \<lparr> sp_Alias = ''seedance'', sp_JST = ''seedance_pro'', sp_Endpoint = ''/jobs/v2/seedance_pro'',
     sp_Version = ''v2'', sp_Output = ''video'', sp_RequiresPaid = False, sp_RequiresUltra = False,
     sp_RequiresUnlim = False, sp_EstCostHundredths = 100, sp_MediaRole = '''', sp_ExampleBodyJSON = demo_template,
     sp_ApplicationSlug = '''', sp_MinPlan = PlanFree, sp_UnlimJobSetType = '''', sp_FreeQuotaField = '''' \<rparr>"

lemma demo_spec_template:
  "template_map demo_spec = Some [(''params'', JObj [(''hd'', JBool False), (''mode'', JStr ''std'')])]"
proof -
  have "sp_ExampleBodyJSON demo_spec = demo_template" "demo_template \<noteq> ''''"
    by (simp_all add: demo_spec_def demo_template_def)
  then show ?thesis by (simp add: template_map_def demo_template)
qed

definition demo_media :: media_input where
  "demo_media = \<lparr> mi_PreUploadedID = ''m1'', mi_Type = ''image'', mi_URL = '''' \<rparr>"

theorem buildBody_layers_witness:
  "\<exists>body params. buildBody demo_spec [(''mode'', JStr ''pro'')] (Some demo_media) True = Ok body \<and>
      obj_get body ''use_unlim'' = Some (JBool True) \<and> obj_get body ''params'' = Some (JObj params) \<and>
      obj_get params ''mode'' = Some (JStr ''pro'') \<and>
      obj_get params (media_slot demo_spec (\<lambda>_. None)) = Some (media_value (media_slot demo_spec (\<lambda>_. None)) demo_media)"
proof -
  let ?user = "[(''mode'', JStr ''pro'')]"
  obtain body where b: "buildBody demo_spec ?user (Some demo_media) True = Ok body"
    by (simp add: buildBody_def Let_def demo_spec_template)
  have d: "distinct (map fst ?user)" by simp
  let ?tmpl = "[(''params'', JObj [(''hd'', JBool False), (''mode'', JStr ''std'')])]"
  have said: "said ?user ?tmpl ''mode'' = Some (JStr ''pro'')" by (simp add: said_def obj_get_def)
  have slot: "media_slot demo_spec (said ?user ?tmpl) = media_slot demo_spec (\<lambda>_. None)"
    by (simp add: media_slot_def said_def obj_get_def)
  have "media_slot demo_spec (\<lambda>_. None) \<noteq> ''mode''" by (simp add: media_slot_def)
  then show ?thesis using buildBody_layers [OF b d demo_spec_template] b said slot
    by (fastforce simp: has_media_def demo_media_def)
qed

end
