(* ===== verification/GroupStore.thy ===== *)
theory GroupStore
  imports PickLock KeyStore
begin

text \<open>
  \<open>group_store.go\<close>: the pool groups with their members and the API keys bound to
  them.  The foreign keys of the schema are part of the model: a member row needs
  its account and its group, and deleting a group deletes its members and
  bindings.
\<close>

section \<open>Rows\<close>

record group_row =
  gr_id :: string
  gr_name :: string
  gr_description :: "string option"
  gr_max_concurrent_jobs :: "int option"
  gr_max_concurrent_per_account :: "int option"
  gr_monthly_credit_budget :: "int option"
  gr_monthly_credit_used :: int
  gr_allowed_models_regex :: "string option"
  gr_blocked_models_regex :: "string option"
  gr_route_strategy :: route_strategy
  gr_owner_type :: owner_type
  gr_owner_id :: "string option"
  gr_status :: string
  gr_created_at :: sqltime

type_synonym groups = "group_row list"

record binding_row =
  br_api_key_id :: string
  br_group_id :: string

type_synonym bindings = "binding_row list"

text \<open>\<open>strings.TrimSpace\<close> on the stored strategy; the stored constants have no blanks
  around them, so only another text can change.\<close>

definition is_blank :: "char \<Rightarrow> bool" where
  "is_blank c \<longleftrightarrow> c \<in> {CHR '' '', CHR 0x09, CHR 0x0A, CHR 0x0B, CHR 0x0C, CHR 0x0D}"

definition trimSpace :: "string \<Rightarrow> string" where
  "trimSpace s = rev (dropWhile is_blank (rev (dropWhile is_blank s)))"

definition route_of_string :: "string \<Rightarrow> route_strategy" where
  "route_of_string s =
     (if s = '''' then RouteNone
      else if s = ''round_robin'' then RouteRoundRobin
      else if s = ''least_used'' then RouteLeastUsed
      else if s = ''cheapest_first'' then RouteCheapestFirst
      else if s = ''most_credits_first'' then RouteMostCreditsFirst
      else if s = ''priority'' then RoutePriority
      else if s = ''best_fit'' then RouteBestFit
      else RouteOther s)"

fun trim_route :: "route_strategy \<Rightarrow> route_strategy" where
  "trim_route (RouteOther s) = route_of_string (trimSpace s)"
| "trim_route r = r"

definition group_of_row :: "group_row \<Rightarrow> group" where
  "group_of_row r = \<lparr>
     g_ID = gr_id r,
     g_Name = gr_name r,
     g_Description = nullString (gr_description r),
     g_MaxConcurrentJobs = nullInt64 (gr_max_concurrent_jobs r),
     g_MaxConcurrentPerAccount = nullInt64 (gr_max_concurrent_per_account r),
     g_MonthlyCreditBudget = nullInt64 (gr_monthly_credit_budget r),
     g_MonthlyCreditUsed = gr_monthly_credit_used r,
     g_AllowedModelsRegex = nullString (gr_allowed_models_regex r),
     g_BlockedModelsRegex = nullString (gr_blocked_models_regex r),
     g_RouteStrategy = trim_route (gr_route_strategy r),
     g_OwnerType = gr_owner_type r,
     g_OwnerID = nullString (gr_owner_id r),
     g_Status = gr_status r,
     g_CreatedAt = parseTime (gr_created_at r) \<rparr>"

definition scanGroup :: "group_row option \<Rightarrow> (gerror, group) result" where
  "scanGroup row = (case row of
     None \<Rightarrow> Err (Sent ErrGroupNotFound) | Some r \<Rightarrow> Ok (group_of_row r))"

definition GetGroup :: "gerror option \<Rightarrow> string \<Rightarrow> groups \<Rightarrow> (gerror, group) result" where
  "GetGroup fail gid rows = (case fail of
     Some e \<Rightarrow> Err e | None \<Rightarrow> scanGroup (find_row gr_id gid rows))"

definition GetGroupByName :: "gerror option \<Rightarrow> string \<Rightarrow> groups \<Rightarrow> (gerror, group) result" where
  "GetGroupByName fail name rows = (case fail of
     Some e \<Rightarrow> Err e | None \<Rightarrow> scanGroup (find_row gr_name name rows))"

section \<open>Groups\<close>

definition default_route :: "route_strategy \<Rightarrow> route_strategy" where
  "default_route r = (if r = RouteNone then RouteRoundRobin else r)"

definition default_group_status :: "string \<Rightarrow> string" where
  "default_group_status s = (if s = '''' then ''active'' else s)"

definition insert_group_row :: "int \<Rightarrow> group \<Rightarrow> group_row" where
  "insert_group_row now g = \<lparr>
     gr_id = g_ID g,
     gr_name = g_Name g,
     gr_description = nullStr (g_Description g),
     gr_max_concurrent_jobs = nullInt (g_MaxConcurrentJobs g),
     gr_max_concurrent_per_account = nullInt (g_MaxConcurrentPerAccount g),
     gr_monthly_credit_budget = nullInt (g_MonthlyCreditBudget g),
     gr_monthly_credit_used = g_MonthlyCreditUsed g,
     gr_allowed_models_regex = nullStr (g_AllowedModelsRegex g),
     gr_blocked_models_regex = nullStr (g_BlockedModelsRegex g),
     gr_route_strategy = default_route (g_RouteStrategy g),
     gr_owner_type = g_OwnerType g,
     gr_owner_id = nullStr (g_OwnerID g),
     gr_status = default_group_status (g_Status g),
     gr_created_at = fmtTime (defaultTime now (g_CreatedAt g)) \<rparr>"

definition CreateGroup ::
  "gerror option \<Rightarrow> int \<Rightarrow> group option \<Rightarrow> groups \<Rightarrow> (gerror, unit) result \<times> groups" where
  "CreateGroup fail now gopt rows = (case gopt of
     None \<Rightarrow> (Err (Plain ''create group: nil group''), rows)
   | Some g \<Rightarrow> (case fail of
       Some e \<Rightarrow> (Err (Wrap (''insert group '' @ g_ID g) e), rows)
     | None \<Rightarrow>
        if \<exists>r \<in> set rows. gr_id r = g_ID g \<or> gr_name r = g_Name g
        then (Err (Wrap (''insert group '' @ g_ID g) (Plain ''UNIQUE constraint failed: account_groups'')), rows)
        else (Ok (), rows @ [insert_group_row now g])))"

definition group_update_row :: "group \<Rightarrow> group_row \<Rightarrow> group_row" where
  "group_update_row g r = r\<lparr>
     gr_name := g_Name g,
     gr_description := nullStr (g_Description g),
     gr_max_concurrent_jobs := nullInt (g_MaxConcurrentJobs g),
     gr_max_concurrent_per_account := nullInt (g_MaxConcurrentPerAccount g),
     gr_monthly_credit_budget := nullInt (g_MonthlyCreditBudget g),
     gr_allowed_models_regex := nullStr (g_AllowedModelsRegex g),
     gr_blocked_models_regex := nullStr (g_BlockedModelsRegex g),
     gr_route_strategy := default_route (g_RouteStrategy g),
     gr_owner_type := g_OwnerType g,
     gr_owner_id := nullStr (g_OwnerID g),
     gr_status := default_group_status (g_Status g) \<rparr>"

definition UpdateGroup ::
  "gerror option \<Rightarrow> group option \<Rightarrow> groups \<Rightarrow> (gerror, unit) result \<times> groups" where
  "UpdateGroup fail gopt rows = (case gopt of
     None \<Rightarrow> (Err (Plain ''update group: nil group''), rows)
   | Some g \<Rightarrow> (case fail of
       Some e \<Rightarrow> (Err (Wrap (''update group '' @ g_ID g) e), rows)
     | None \<Rightarrow>
        if rows_affected (\<lambda>r. gr_id r = g_ID g) rows = 0 then (Err (Sent ErrGroupNotFound), rows)
        else if \<exists>r \<in> set rows. gr_name r = g_Name g \<and> gr_id r \<noteq> g_ID g
        then (Err (Wrap (''update group '' @ g_ID g) (Plain ''UNIQUE constraint failed: account_groups.name'')), rows)
        else (Ok (), sql_update (\<lambda>r. gr_id r = g_ID g) (group_update_row g) rows)))"

definition DeleteGroup ::
  "gerror option \<Rightarrow> string \<Rightarrow> groups \<times> members \<times> bindings
     \<Rightarrow> (gerror, unit) result \<times> groups \<times> members \<times> bindings" where
  "DeleteGroup fail gid st = (case st of (rows, ms, bs) \<Rightarrow> (case fail of
     Some e \<Rightarrow> (Err (Wrap (''delete group '' @ gid) e), st)
   | None \<Rightarrow>
      if rows_affected (\<lambda>r. gr_id r = gid) rows = 0 then (Err (Sent ErrGroupNotFound), st)
      else (Ok (), sql_delete (\<lambda>r. gr_id r = gid) rows, sql_delete (\<lambda>m. mr_group_id m = gid) ms,
              sql_delete (\<lambda>b. br_group_id b = gid) bs)))"

definition ListGroups :: "gerror option \<Rightarrow> groups \<Rightarrow> (gerror, group list) result" where
  "ListGroups fail rows = (case fail of
     Some e \<Rightarrow> Err (Wrap ''list groups'' e) | None \<Rightarrow> Ok (map group_of_row (sort_key gr_name rows)))"

definition IncrementUsed ::
  "gerror option \<Rightarrow> string \<Rightarrow> int \<Rightarrow> groups \<Rightarrow> (gerror, unit) result \<times> groups" where
  "IncrementUsed fail gid delta rows = (case fail of
     Some e \<Rightarrow> (Err (Wrap (''increment used group='' @ gid) e), rows)
   | None \<Rightarrow>
      (if rows_affected (\<lambda>r. gr_id r = gid) rows = 0 then Err (Sent ErrGroupNotFound) else Ok (),
       sql_update (\<lambda>r. gr_id r = gid)
         (\<lambda>r. r\<lparr> gr_monthly_credit_used := gr_monthly_credit_used r + delta \<rparr>) rows))"

section \<open>Members\<close>

definition AddMember ::
  "gerror option \<Rightarrow> int \<Rightarrow> string \<Rightarrow> string \<Rightarrow> int \<Rightarrow> accounts \<Rightarrow> groups \<Rightarrow> members
     \<Rightarrow> (gerror, unit) result \<times> members" where
  "AddMember fail now gid acct prio0 accts rows ms =
     (let prio = (if prio0 = 0 then 100 else prio0);
          wrap = Wrap (''add member group='' @ gid @ '' account='' @ acct);
          P = (\<lambda>m. mr_account_id m = acct \<and> mr_group_id m = gid) in
      case fail of
        Some e \<Rightarrow> (Err (wrap e), ms)
      | None \<Rightarrow>
          if list_ex P ms then (Ok (), sql_update P (\<lambda>m. m\<lparr> mr_priority := prio \<rparr>) ms)
          else if \<not> ((\<exists>r \<in> set accts. ar_id r = acct) \<and> (\<exists>r \<in> set rows. gr_id r = gid))
          then (Err (wrap (Plain ''FOREIGN KEY constraint failed'')), ms)
          else (Ok (), ms @ [\<lparr> mr_account_id = acct, mr_group_id = gid, mr_priority = prio,
                              mr_added_at = fmtTime (Some now) \<rparr>]))"

definition RemoveMember ::
  "gerror option \<Rightarrow> string \<Rightarrow> string \<Rightarrow> members \<Rightarrow> (gerror, unit) result \<times> members" where
  "RemoveMember fail gid acct ms = (case fail of
     Some e \<Rightarrow> (Err (Wrap (''remove member group='' @ gid @ '' account='' @ acct) e), ms)
   | None \<Rightarrow> (Ok (), sql_delete (\<lambda>m. mr_group_id m = gid \<and> mr_account_id m = acct) ms))"

definition members_in_order :: "string \<Rightarrow> members \<Rightarrow> members" where
  "members_in_order gid ms =
     sort_key (\<lambda>m. - mr_priority m)
       (sort_key mr_account_id (filter (\<lambda>m. mr_group_id m = gid) ms))"

definition ListMembers :: "gerror option \<Rightarrow> string \<Rightarrow> members \<Rightarrow> (gerror, string list) result" where
  "ListMembers fail gid ms = (case fail of
     Some e \<Rightarrow> Err (Wrap (''list members group='' @ gid) e)
   | None \<Rightarrow> Ok (map mr_account_id (members_in_order gid ms)))"

definition ListMembersWithPriority ::
  "gerror option \<Rightarrow> string \<Rightarrow> members \<Rightarrow> (gerror, (string \<times> int) list) result" where
  "ListMembersWithPriority fail gid ms = (case fail of
     Some e \<Rightarrow> Err (Wrap (''list members with priority group='' @ gid) e)
   | None \<Rightarrow> Ok (map (\<lambda>m. (mr_account_id m, mr_priority m)) (members_in_order gid ms)))"

definition CurrentInFlight ::
  "gerror option \<Rightarrow> string \<Rightarrow> members \<Rightarrow> accounts \<Rightarrow> (gerror, int) result" where
  "CurrentInFlight fail gid ms accts = (case fail of
     Some e \<Rightarrow> Err (Wrap (''current in-flight group='' @ gid) e)
   | None \<Rightarrow> Ok (group_in_flight gid ms accts))"

section \<open>Bindings of API keys\<close>

definition BindAPIKey ::
  "gerror option \<Rightarrow> string \<Rightarrow> string \<Rightarrow> keys \<Rightarrow> groups \<Rightarrow> bindings
     \<Rightarrow> (gerror, unit) result \<times> bindings" where
  "BindAPIKey fail kid gid ks rows bs =
     (let wrap = Wrap (''bind apikey='' @ kid @ '' group='' @ gid) in
      case fail of
        Some e \<Rightarrow> (Err (wrap e), bs)
      | None \<Rightarrow>
          if \<exists>b \<in> set bs. br_api_key_id b = kid \<and> br_group_id b = gid then (Ok (), bs)
          else if \<not> ((\<exists>k \<in> set ks. kr_id k = kid) \<and> (\<exists>r \<in> set rows. gr_id r = gid))
          then (Err (wrap (Plain ''FOREIGN KEY constraint failed'')), bs)
          else (Ok (), bs @ [\<lparr> br_api_key_id = kid, br_group_id = gid \<rparr>]))"

definition UnbindAPIKey ::
  "gerror option \<Rightarrow> string \<Rightarrow> string \<Rightarrow> bindings \<Rightarrow> (gerror, unit) result \<times> bindings" where
  "UnbindAPIKey fail kid gid bs = (case fail of
     Some e \<Rightarrow> (Err (Wrap (''unbind apikey='' @ kid @ '' group='' @ gid) e), bs)
   | None \<Rightarrow> (Ok (), sql_delete (\<lambda>b. br_api_key_id b = kid \<and> br_group_id b = gid) bs))"

definition ListAPIKeys :: "gerror option \<Rightarrow> string \<Rightarrow> bindings \<Rightarrow> (gerror, string list) result" where
  "ListAPIKeys fail gid bs = (case fail of
     Some e \<Rightarrow> Err (Wrap (''list apikeys group='' @ gid) e)
   | None \<Rightarrow> Ok (sort (map br_api_key_id (filter (\<lambda>b. br_group_id b = gid) bs))))"

definition ListGroupsForAPIKey ::
  "gerror option \<Rightarrow> string \<Rightarrow> groups \<Rightarrow> bindings \<Rightarrow> (gerror, group list) result" where
  "ListGroupsForAPIKey fail kid rows bs = (case fail of
     Some e \<Rightarrow> Err (Wrap (''list groups for apikey='' @ kid) e)
   | None \<Rightarrow> Ok (map group_of_row (sort_key gr_name
       (concat (map (\<lambda>r. map (\<lambda>b. r)
          (filter (\<lambda>b. br_group_id b = gr_id r \<and> br_api_key_id b = kid) bs)) rows)))))"

section \<open>Properties\<close>

definition referential :: "accounts \<Rightarrow> groups \<times> members \<times> bindings \<Rightarrow> bool" where
  "referential accts st = (case st of (rows, ms, bs) \<Rightarrow>
     member_keys_ok ms \<and>
     (\<forall>m \<in> set ms. mr_account_id m \<in> keys_of ar_id accts \<and> mr_group_id m \<in> keys_of gr_id rows) \<and>
     (\<forall>b \<in> set bs. br_group_id b \<in> keys_of gr_id rows))"

text \<open>Groups and members stay consistent: adding a member (again or for the first
  time, with or without a priority), removing one, and deleting a group keep
  every member on an existing account and group with at most one row per pair,
  and every binding on an existing group.\<close>

theorem group_members_consistent:
  assumes "referential accts (rows, ms, bs)"
  shows "referential accts (rows, snd (AddMember fail now gid acct prio accts rows ms), bs) \<and>
    referential accts (rows, snd (RemoveMember fail gid acct ms), bs) \<and>
    referential accts (snd (DeleteGroup fail gid (rows, ms, bs)))"
proof -
  let ?P = "\<lambda>m. mr_account_id m = acct \<and> mr_group_id m = gid"
  have upd: "map (\<lambda>m. (mr_account_id m, mr_group_id m)) (sql_update ?P (\<lambda>m. m\<lparr> mr_priority := p \<rparr>) ms) =
      map (\<lambda>m. (mr_account_id m, mr_group_id m)) ms" for p
    by (rule map_key_sql_update) simp
  have keys: "member_keys_ok ms" using assms by (simp add: referential_def)
  have "referential accts (rows, sql_update ?P (\<lambda>m. m\<lparr> mr_priority := p \<rparr>) ms, bs)" for p
  proof -
    have "member_keys_ok (sql_update ?P (\<lambda>m. m\<lparr> mr_priority := p \<rparr>) ms)"
      using keys unfolding member_keys_ok_def upd .
    then show ?thesis using assms by (auto simp: referential_def sql_update_def)
  qed
  moreover have "referential accts (rows, ms @ [\<lparr> mr_account_id = acct, mr_group_id = gid,
      mr_priority = p, mr_added_at = t \<rparr>], bs)"
    if "\<not> list_ex ?P ms" "\<exists>r \<in> set accts. ar_id r = acct" "\<exists>r \<in> set rows. gr_id r = gid" for p t
    using assms that by (auto simp: referential_def member_keys_ok_def keys_of_def list_ex_iff)
  ultimately have add: "referential accts (rows, snd (AddMember fail now gid acct prio accts rows ms), bs)"
    using assms by (auto simp: AddMember_def Let_def split: option.split)
  have rem: "referential accts (rows, snd (RemoveMember fail gid acct ms), bs)"
    using assms
    by (auto simp: RemoveMember_def referential_def member_keys_ok_def sql_delete_def
        distinct_map_filter split: option.split)
  have "referential accts (sql_delete (\<lambda>r. gr_id r = gid) rows, sql_delete (\<lambda>m. mr_group_id m = gid) ms,
      sql_delete (\<lambda>b. br_group_id b = gid) bs)"
    using assms
    by (auto simp: referential_def member_keys_ok_def sql_delete_def distinct_map_filter keys_of_def)
  then have del: "referential accts (snd (DeleteGroup fail gid (rows, ms, bs)))"
    using assms by (simp add: DeleteGroup_def split: option.split)
  show ?thesis using add rem del by blast
qed

definition demo_group :: group where
  "demo_group = \<lparr> g_ID = ''g'', g_Name = ''main'', g_Description = '''', g_MaxConcurrentJobs = 2,
     g_MaxConcurrentPerAccount = 0, g_MonthlyCreditBudget = 1000, g_MonthlyCreditUsed = 0,
     g_AllowedModelsRegex = '''', g_BlockedModelsRegex = '''', g_RouteStrategy = RouteNone,
     g_OwnerType = OwnerInternal, g_OwnerID = '''', g_Status = '''', g_CreatedAt = None \<rparr>"

definition demo_groups :: groups where
  "demo_groups = [insert_group_row 0 demo_group]"

theorem group_members_consistent_witness:
  "referential demo_pool (snd (DeleteGroup None ''g'' (demo_groups, demo_members, [])))"
proof -
  have "referential demo_pool (demo_groups, demo_members, [])"
    by (simp add: referential_def demo_members_def demo_groups_def demo_pool_def member_keys_ok_def
        keys_of_def insert_group_row_def demo_group_def)
  from group_members_consistent [OF this, of None 0 "''g''" "''a''" 0] show ?thesis by blast
qed

text \<open>A created group reads back as given, with its strategy and status defaulted and
  its creation time cut to the second.\<close>

lemma CreateGroup_then_Get:
  assumes "CreateGroup None now (Some g) rows = (Ok (), rows')" "\<forall>s. g_RouteStrategy g \<noteq> RouteOther s"
  shows "GetGroup None (g_ID g) rows' = Ok (g\<lparr> g_RouteStrategy := default_route (g_RouteStrategy g),
      g_Status := default_group_status (g_Status g),
      g_CreatedAt := toSecond (defaultTime now (g_CreatedAt g)) \<rparr>)"
proof -
  have new: "rows' = rows @ [insert_group_row now g]" "g_ID g \<notin> keys_of gr_id rows"
    using assms(1) by (auto simp: CreateGroup_def keys_of_def split: if_splits)
  have route: "trim_route (default_route (g_RouteStrategy g)) = default_route (g_RouteStrategy g)"
    using assms(2) by (cases "g_RouteStrategy g") (auto simp: default_route_def)
  have "gr_id (insert_group_row now g) = g_ID g" by (simp add: insert_group_row_def)
  moreover have "group_of_row (insert_group_row now g) =
      g\<lparr> g_RouteStrategy := default_route (g_RouteStrategy g),
        g_Status := default_group_status (g_Status g),
        g_CreatedAt := toSecond (defaultTime now (g_CreatedAt g)) \<rparr>"
    by (simp add: group_of_row_def insert_group_row_def route time_simps)
  ultimately show ?thesis using new
    by (simp add: GetGroup_def find_row_append find_row_Cons scanGroup_def
        find_row_None_iff [THEN iffD2])
qed

end
