(* ===== verification/Calendar.thy ===== *)
theory Calendar
  imports Prelude
begin

text \<open>
  What the code uses of the standard library's calendar: the UTC date of an
  instant and the layouts \<open>2006-01\<close> and \<open>2006-01-02\<close>.  Days are counted from
  1970-01-01; the era arithmetic is that of the proleptic Gregorian calendar,
  with years starting in March.
\<close>

definition day_ns :: int where "day_ns = 86400 * nanos"

definition day_of :: "int \<Rightarrow> int" where "day_of t = t div day_ns"

definition civil :: "int \<Rightarrow> int \<times> int \<times> int" where
  "civil d =
     (let z = d + 719468;
          era = z div 146097;
          doe = z - era * 146097;
          yoe = (doe - doe div 1460 + doe div 36524 - doe div 146096) div 365;
          doy = doe - (365 * yoe + yoe div 4 - yoe div 100);
          mp = (5 * doy + 2) div 153;
          day = doy - (153 * mp + 2) div 5 + 1;
          month = (if mp < 10 then mp + 3 else mp - 9);
          year = yoe + era * 400 + (if month \<le> 2 then 1 else 0)
      in (year, month, day))"

text \<open>The inverse, for the first instant of a month.\<close>

definition days_from_civil :: "int \<Rightarrow> int \<Rightarrow> int \<Rightarrow> int" where
  "days_from_civil y m d =
     (let y1 = (if m \<le> 2 then y - 1 else y);
          era = y1 div 400;
          yoe = y1 - era * 400;
          mp = (if m > 2 then m - 3 else m + 9);
          doy = (153 * mp + 2) div 5 + d - 1;
          doe = yoe * 365 + yoe div 4 - yoe div 100 + doy
      in era * 146097 + doe - 719468)"

definition pad :: "nat \<Rightarrow> int \<Rightarrow> string" where
  "pad n i = (let s = itoa i in replicate (n - length s) CHR ''0'' @ s)"

definition format_month :: "int \<Rightarrow> string" where
  "format_month t = (case civil (day_of t) of (y, m, d) \<Rightarrow> pad 4 y @ ''-'' @ pad 2 m)"

definition format_day :: "int \<Rightarrow> string" where
  "format_day t = (case civil (day_of t) of (y, m, d) \<Rightarrow> pad 4 y @ ''-'' @ pad 2 m @ ''-'' @ pad 2 d)"

definition format_hour :: "int \<Rightarrow> string" where
  "format_hour t = format_day t @ ''T'' @ pad 2 (t mod day_ns div (3600 * nanos)) @ '':00:00Z''"

lemma civil_examples:
  "civil 0 = (1970, 1, 1)" "civil 11016 = (2000, 2, 29)" "civil 20656 = (2026, 7, 22)"
  "days_from_civil 2026 7 22 = 20656"
  by code_simp+

end
