(* ===== verification/UsageStore.thy ===== *)
theory UsageStore
  imports JobStore Calendar
begin

text \<open>
  \<open>usage_store.go\<close>: the accounting rows behind the metering, one per job at most
  (the unique index of migration 018), with their query, aggregation and the sum
  the reconciler reads.
\<close>

record usage_row =
  uw_id :: string
  uw_ts :: sqltime
  uw_api_key_id :: "string option"
  uw_cpa_partner_id :: "string option"
  uw_cpa_user_id :: "string option"
  uw_group_id :: string
  uw_account :: string
  uw_model_alias :: string
  uw_jst :: string
  uw_media_type :: string
  uw_upstream_cost :: "int option"
  uw_actual_credits_h :: int
  uw_charged_credits_h :: int
  uw_markup_pct :: rat
  uw_status :: job_status
  uw_latency_ms :: "int option"
  uw_poll_count :: "int option"
  uw_error_type :: error_type
  uw_higgsgo_job_id :: string
  uw_upstream_job_id :: "string option"
  uw_result_url :: "string option"
  uw_billing_month :: string
  uw_billing_day :: string

type_synonym usages = "usage_row list"

definition insert_usage_row :: "usage_event \<Rightarrow> usage_row" where
  "insert_usage_row e = \<lparr>
     uw_id = ue_ID e,
     uw_ts = fmtTime (ue_TS e),
     uw_api_key_id = nullStr (ue_APIKeyID e),
     uw_cpa_partner_id = nullStr (ue_CPAPartnerID e),
     uw_cpa_user_id = nullStr (ue_CPAUserID e),
     uw_group_id = ue_GroupID e,
     uw_account = ue_AccountID e,
     uw_model_alias = ue_ModelAlias e,
     uw_jst = ue_JST e,
     uw_media_type = ue_MediaType e,
     uw_upstream_cost = nullInt (ue_UpstreamCost e),
     uw_actual_credits_h = ue_ActualCreditsHundredths e,
     uw_charged_credits_h = ue_ChargedCreditsHundredths e,
     uw_markup_pct = ue_MarkupPct e,
     uw_status = ue_Status e,
     uw_latency_ms = nullInt (ue_LatencyMS e),
     uw_poll_count = nullInt (ue_PollCount e),
     uw_error_type = ue_ErrorType e,
     uw_higgsgo_job_id = ue_HiggsgoJobID e,
     uw_upstream_job_id = nullStr (ue_UpstreamJobID e),
     uw_result_url = nullStr (ue_ResultURL e),
     uw_billing_month = ue_BillingMonth e,
     uw_billing_day = ue_BillingDay e \<rparr>"

definition isUniqueUsageEventJobID :: "gerror option \<Rightarrow> bool" where
  "isUniqueUsageEventJobID eopt = (case eopt of None \<Rightarrow> False | Some e \<Rightarrow>
     contains (err_text e) ''UNIQUE constraint failed'' \<and>
     contains (err_text e) ''usage_events.higgsgo_job_id'')"

text \<open>What SQLite answers to the insert: the unique constraints of the table, in the
  words of the driver.\<close>

definition usage_constraint :: "usage_event \<Rightarrow> usages \<Rightarrow> gerror option" where
  "usage_constraint e rows =
     (if \<exists>r \<in> set rows. uw_id r = ue_ID e
      then Some (Plain ''constraint failed: UNIQUE constraint failed: usage_events.id (1555)'')
      else if \<exists>r \<in> set rows. uw_higgsgo_job_id r = ue_HiggsgoJobID e
      then Some (Plain ''constraint failed: UNIQUE constraint failed: usage_events.higgsgo_job_id (2067)'')
      else None)"

definition InsertUsage ::
  "gerror option \<Rightarrow> usage_event option \<Rightarrow> usages \<Rightarrow> (gerror, unit) result \<times> usages" where
  "InsertUsage fail eopt rows = (case eopt of
     None \<Rightarrow> (Err (Plain ''insert usage event: nil event''), rows)
   | Some e \<Rightarrow>
      (case (case fail of Some x \<Rightarrow> Some x | None \<Rightarrow> usage_constraint e rows) of
         Some x \<Rightarrow>
           (if isUniqueUsageEventJobID (Some x) then Err (Sent ErrUsageEventDuplicate)
            else Err (Wrap (''insert usage event '' @ ue_ID e) x), rows)
       | None \<Rightarrow> (Ok (), rows @ [insert_usage_row e])))"

definition scanUsageEvent :: "usage_row \<Rightarrow> usage_event" where
  "scanUsageEvent r = \<lparr>
     ue_ID = uw_id r,
     ue_TS = parseTime (uw_ts r),
     ue_APIKeyID = nullString (uw_api_key_id r),
     ue_CPAPartnerID = nullString (uw_cpa_partner_id r),
     ue_CPAUserID = nullString (uw_cpa_user_id r),
     ue_GroupID = uw_group_id r,
     ue_AccountID = uw_account r,
     ue_ModelAlias = uw_model_alias r,
     ue_JST = uw_jst r,
     ue_MediaType = uw_media_type r,
     ue_UpstreamCost = nullInt64 (uw_upstream_cost r),
     ue_ActualCreditsHundredths = uw_actual_credits_h r,
     ue_ChargedCreditsHundredths = uw_charged_credits_h r,
     ue_MarkupPct = uw_markup_pct r,
     ue_Status = uw_status r,
     ue_LatencyMS = nullInt64 (uw_latency_ms r),
     ue_PollCount = nullInt64 (uw_poll_count r),
     ue_ErrorType = uw_error_type r,
     ue_HiggsgoJobID = uw_higgsgo_job_id r,
     ue_UpstreamJobID = nullString (uw_upstream_job_id r),
     ue_ResultURL = nullString (uw_result_url r),
     ue_BillingMonth = uw_billing_month r,
     ue_BillingDay = uw_billing_day r \<rparr>"

lemma scan_insert_usage: "scanUsageEvent (insert_usage_row e) = e\<lparr> ue_TS := toSecond (ue_TS e) \<rparr>"
  by (simp add: scanUsageEvent_def insert_usage_row_def time_simps)

section \<open>Queries\<close>

record usage_query =
  uq_Since :: gotime
  uq_Until :: gotime
  uq_APIKeyID :: string
  uq_CPAPartnerID :: string
  uq_AccountID :: string
  uq_GroupID :: string
  uq_ModelAlias :: string
  uq_Status :: job_status
  uq_Limit :: int
  uq_Offset :: int

definition usage_where :: "usage_query \<Rightarrow> usage_row \<Rightarrow> bool" where
  "usage_where q r \<longleftrightarrow>
     (uq_Since q \<noteq> None \<longrightarrow> sql_le (fmtTime (uq_Since q)) (uw_ts r)) \<and>
     (uq_Until q \<noteq> None \<longrightarrow> sql_lt (uw_ts r) (fmtTime (uq_Until q))) \<and>
     (uq_APIKeyID q \<noteq> '''' \<longrightarrow> uw_api_key_id r = Some (uq_APIKeyID q)) \<and>
     (uq_CPAPartnerID q \<noteq> '''' \<longrightarrow> uw_cpa_partner_id r = Some (uq_CPAPartnerID q)) \<and>
     (uq_AccountID q \<noteq> '''' \<longrightarrow> uw_account r = uq_AccountID q) \<and>
     (uq_GroupID q \<noteq> '''' \<longrightarrow> uw_group_id r = uq_GroupID q) \<and>
     (uq_ModelAlias q \<noteq> '''' \<longrightarrow> uw_model_alias r = uq_ModelAlias q) \<and>
     (uq_Status q \<noteq> JobOther '''' \<longrightarrow> uw_status r = uq_Status q)"

definition QueryUsage :: "gerror option \<Rightarrow> usage_query \<Rightarrow> usages \<Rightarrow> (gerror, usage_event list) result" where
  "QueryUsage fail q rows = (case fail of
     Some e \<Rightarrow> Err (Wrap ''query usage events'' e)
   | None \<Rightarrow>
      (let hits = sort_desc uw_ts (filter (usage_where q) rows)
       in Ok (map scanUsageEvent
            (if uq_Limit q > 0
             then page (uq_Limit q) (if uq_Offset q > 0 then uq_Offset q else 0) hits
             else hits))))"

section \<open>Aggregation\<close>

definition allowedGroupByCols :: "string list" where
  "allowedGroupByCols = [''api_key_id'', ''cpa_partner_id'', ''account_id'', ''group_id'',
     ''model_alias'', ''billing_hour'', ''billing_day'', ''billing_month'']"

text \<open>The value of a group-by expression on a row; NULL is \<open>None\<close>.\<close>

definition groupByExpression :: "string \<Rightarrow> usage_row \<Rightarrow> string option" where
  "groupByExpression col r =
     (if col = ''billing_hour'' then
        (case uw_ts r of SqlAt s \<Rightarrow> Some (format_hour (s * nanos)) | _ \<Rightarrow> None)
      else if col = ''api_key_id'' then uw_api_key_id r
      else if col = ''cpa_partner_id'' then uw_cpa_partner_id r
      else if col = ''account_id'' then Some (uw_account r)
      else if col = ''group_id'' then Some (uw_group_id r)
      else if col = ''model_alias'' then Some (uw_model_alias r)
      else if col = ''billing_day'' then Some (uw_billing_day r)
      else if col = ''billing_month'' then Some (uw_billing_month r)
      else None)"

record usage_agg_query =
  ua_Since :: gotime
  ua_Until :: gotime
  ua_GroupBy :: "string list"
  ua_Filters :: usage_query

record usage_agg_row =
  ag_Keys :: "(string \<times> string) list"
  ag_RequestCount :: int
  ag_CompletedCount :: int
  ag_FailedCount :: int
  ag_RefundedCount :: int
  ag_TotalCreditsHundredths :: int
  ag_ChargedCreditsHundredths :: int
  ag_AvgLatencyMS :: int

definition agg_filters :: "usage_agg_query \<Rightarrow> usage_query" where
  "agg_filters q = (let f = ua_Filters q in f\<lparr>
     uq_Since := (if ua_Since q \<noteq> None then ua_Since q else uq_Since f),
     uq_Until := (if ua_Until q \<noteq> None then ua_Until q else uq_Until f) \<rparr>)"

definition count_status :: "job_status \<Rightarrow> usages \<Rightarrow> int" where
  "count_status st rows = int (length (filter (\<lambda>r. uw_status r = st) rows))"

definition avg_latency :: "usages \<Rightarrow> int" where
  "avg_latency rows = (let ls = List.map_filter uw_latency_ms rows in
     if ls = [] then 0 else sum_list ls sdiv int (length ls))"

definition agg_row :: "string list \<Rightarrow> string option list \<Rightarrow> usages \<Rightarrow> usage_agg_row" where
  "agg_row cols vals rows = \<lparr>
     ag_Keys = zip cols (map nullString vals),
     ag_RequestCount = int (length rows),
     ag_CompletedCount = count_status JobCompleted rows,
     ag_FailedCount = count_status JobFailed rows,
     ag_RefundedCount = count_status JobRefunded rows,
     ag_TotalCreditsHundredths = sum_list (map uw_actual_credits_h rows),
     ag_ChargedCreditsHundredths = sum_list (map uw_charged_credits_h rows),
     ag_AvgLatencyMS = avg_latency rows \<rparr>"

definition Aggregate ::
  "gerror option \<Rightarrow> usage_agg_query \<Rightarrow> usages \<Rightarrow> (gerror, usage_agg_row list) result" where
  "Aggregate fail q rows =
     (let cols = filter (\<lambda>c. c \<in> set allowedGroupByCols) (ua_GroupBy q);
          hits = filter (usage_where (agg_filters q)) rows;
          key = (\<lambda>r. map (\<lambda>c. groupByExpression c r) cols)
      in case fail of
        Some e \<Rightarrow> Err (Wrap ''aggregate usage events'' e)
      | None \<Rightarrow>
          Ok (if cols = [] then [agg_row [] [] hits]
              else map (\<lambda>k. agg_row cols k (filter (\<lambda>r. key r = k) hits))
                     (sort (remdups (map key hits)))))"

definition SumChargedCreditsHForAccount ::
  "gerror option \<Rightarrow> string \<Rightarrow> gotime \<Rightarrow> gotime \<Rightarrow> usages \<Rightarrow> (gerror, int) result" where
  "SumChargedCreditsHForAccount fail acct from to rows = (case fail of
     Some e \<Rightarrow> Err (Wrap (''sum charged_credits_h for '' @ acct) e)
   | None \<Rightarrow> Ok (sum_list (map uw_charged_credits_h
       (filter (\<lambda>r. uw_account r = acct \<and> sql_le (fmtTime from) (uw_ts r) \<and>
          sql_lt (uw_ts r) (fmtTime to)) rows))))"

section \<open>Properties\<close>

lemma sum_by_key:
  fixes g :: "'r \<Rightarrow> int"
  assumes "distinct ks" "key ` set rows \<subseteq> set ks"
  shows "sum_list (map (\<lambda>k. sum_list (map g (filter (\<lambda>r. key r = k) rows))) ks) = sum_list (map g rows)"
  using assms(2)
proof (induction rows)
  case Nil
  then show ?case by (simp add: sum_list_0)
next
  case (Cons a rows)
  have "sum_list (map (\<lambda>k. sum_list (map g (filter (\<lambda>r. key r = k) (a # rows)))) ks) =
      sum_list (map (\<lambda>k. (if k = key a then g a else 0) + sum_list (map g (filter (\<lambda>r. key r = k) rows))) ks)"
    by (intro arg_cong [where f = sum_list] map_cong) auto
  also have "... = sum_list (map (\<lambda>k. if k = key a then g a else 0) ks) + sum_list (map g rows)"
    using Cons by (simp add: sum_list_addf)
  also have "sum_list (map (\<lambda>k. if k = key a then g a else 0) ks) = g a"
    using assms(1) Cons.prems by (simp add: sum_list_distinct_conv_sum_set)
  finally show ?case by simp
qed

lemma length_as_sum: "sum_list (map (\<lambda>_. 1) xs) = int (length xs)"
  by (induction xs) simp_all

lemma agg_row_fields:
  "ag_RequestCount (agg_row cols k rows) = sum_list (map (\<lambda>_. 1) rows)"
  "ag_TotalCreditsHundredths (agg_row cols k rows) = sum_list (map uw_actual_credits_h rows)"
  "ag_ChargedCreditsHundredths (agg_row cols k rows) = sum_list (map uw_charged_credits_h rows)"
  by (simp_all add: agg_row_def length_as_sum)

text \<open>An aggregation loses nothing: whatever the grouping asked for (unknown
  columns are dropped), the request counts, actual credits and charged credits
  of the groups add up to those of the events that match the filter, and no
  group is empty unless no grouping was asked for.\<close>

theorem Aggregate_conserves:
  assumes "Aggregate None q rows = Ok groups"
  defines "hits \<equiv> filter (usage_where (agg_filters q)) rows"
  shows "sum_list (map ag_RequestCount groups) = int (length hits) \<and>
    sum_list (map ag_TotalCreditsHundredths groups) = sum_list (map uw_actual_credits_h hits) \<and>
    sum_list (map ag_ChargedCreditsHundredths groups) = sum_list (map uw_charged_credits_h hits) \<and>
    (\<forall>g \<in> set groups. ag_RequestCount g = 0 \<longrightarrow> ag_Keys g = [] \<and> hits = [])"
proof -
  let ?cols = "filter (\<lambda>c. c \<in> set allowedGroupByCols) (ua_GroupBy q)"
  let ?key = "\<lambda>r. map (\<lambda>c. groupByExpression c r) ?cols"
  show ?thesis
  proof (cases "?cols = []")
    case True
    then have "groups = [agg_row [] [] hits]"
      using assms(1) by (simp add: Aggregate_def Let_def hits_def)
    then show ?thesis by (simp add: agg_row_def)
  next
    case False
    let ?ks = "sort (remdups (map ?key hits))"
    have gs: "groups = map (\<lambda>k. agg_row ?cols k (filter (\<lambda>r. ?key r = k) hits)) ?ks"
      using assms(1) False unfolding Aggregate_def Let_def hits_def by simp
    have ks: "distinct ?ks" "?key ` set hits \<subseteq> set ?ks" by auto
    have nonempty: "filter (\<lambda>r. ?key r = k) hits \<noteq> []" if "k \<in> set ?ks" for k
      using that by (auto simp: filter_empty_conv)
    have maps: "map ag_RequestCount groups =
        map (\<lambda>k. sum_list (map (\<lambda>_. 1) (filter (\<lambda>r. ?key r = k) hits))) ?ks"
      "map ag_TotalCreditsHundredths groups =
        map (\<lambda>k. sum_list (map uw_actual_credits_h (filter (\<lambda>r. ?key r = k) hits))) ?ks"
      "map ag_ChargedCreditsHundredths groups =
        map (\<lambda>k. sum_list (map uw_charged_credits_h (filter (\<lambda>r. ?key r = k) hits))) ?ks"
      unfolding gs map_map comp_def by (simp_all only: agg_row_fields)
    have full: "ag_RequestCount g \<noteq> 0" if "g \<in> set groups" for g
    proof -
      have "g \<in> (\<lambda>k. agg_row ?cols k (filter (\<lambda>r. ?key r = k) hits)) ` set ?ks"
        using that unfolding gs set_map .
      then obtain k where "g = agg_row ?cols k (filter (\<lambda>r. ?key r = k) hits)" "k \<in> set ?ks"
        by (rule imageE)
      then show ?thesis using nonempty [of k] by (simp only: agg_row_def usage_agg_row.simps of_nat_eq_0_iff length_0_conv not_False_eq_True)
    qed
    show ?thesis
      unfolding maps sum_by_key [OF ks] length_as_sum [symmetric] using full by blast
  qed
qed


definition demo_event :: "string \<Rightarrow> int \<Rightarrow> usage_row" where
  "demo_event jid charged = insert_usage_row \<lparr>
     ue_ID = ''ue_'' @ jid, ue_TS = Some 0, ue_APIKeyID = ''k1'', ue_CPAPartnerID = '''',
     ue_CPAUserID = '''', ue_GroupID = ''g1'', ue_AccountID = ''a1'', ue_ModelAlias = ''m'',
     ue_JST = ''seedance'', ue_MediaType = ''video'', ue_UpstreamCost = charged,
     ue_ActualCreditsHundredths = charged, ue_ChargedCreditsHundredths = charged, ue_MarkupPct = 1,
     ue_Status = JobCompleted, ue_LatencyMS = 0, ue_PollCount = 0, ue_ErrorType = ErrNone,
     ue_HiggsgoJobID = jid, ue_UpstreamJobID = '''', ue_ResultURL = '''',
     ue_BillingMonth = ''2026-07'', ue_BillingDay = ''2026-07-22'' \<rparr>"

definition demo_agg_query :: usage_agg_query where
  "demo_agg_query = \<lparr> ua_Since = None, ua_Until = None, ua_GroupBy = [''api_key_id'', ''password''],
     ua_Filters = \<lparr> uq_Since = None, uq_Until = None, uq_APIKeyID = '''', uq_CPAPartnerID = '''',
       uq_AccountID = '''', uq_GroupID = '''', uq_ModelAlias = '''', uq_Status = JobOther '''',
       uq_Limit = 0, uq_Offset = 0 \<rparr> \<rparr>"

theorem Aggregate_conserves_witness:
  "sum_list (map ag_ChargedCreditsHundredths
     [agg_row [''api_key_id''] [Some ''k1''] [demo_event ''j1'' 500, demo_event ''j2'' 300]]) = 800"
proof -
  have "Aggregate None demo_agg_query [demo_event ''j1'' 500, demo_event ''j2'' 300] =
      Ok [agg_row [''api_key_id''] [Some ''k1''] [demo_event ''j1'' 500, demo_event ''j2'' 300]]"
    by (simp add: Aggregate_def demo_agg_query_def allowedGroupByCols_def agg_filters_def usage_where_def
        demo_event_def insert_usage_row_def groupByExpression_def nullStr_def)
  from Aggregate_conserves [OF this] show ?thesis
    by (simp add: demo_event_def insert_usage_row_def agg_filters_def usage_where_def demo_agg_query_def)
qed

end
