(* ===== verification/FailoverStore.thy ===== *)
theory FailoverStore
  imports JobStore
begin

text \<open>
  \<open>failover_store.go\<close>: the audit trail of the failover controller, whose counts
  over a sliding window drive its decisions, and the per-account overrides of its
  tunables.
\<close>

datatype event_kind = EventFailure | EventThrottle | EventBlacklist | EventOther string

record event_row =
  er_id :: nat
  er_account_id :: string
  er_kind :: event_kind
  er_reason :: string
  er_http_status :: int
  er_created_at :: sqltime

type_synonym events = "event_row list"

text \<open>The id is the AUTOINCREMENT key: one more than the number of rows ever inserted,
  which is the length of the table until rows are deleted; nothing reads it back
  but the event list.\<close>

definition InsertEvent ::
  "gerror option \<Rightarrow> int \<Rightarrow> accounts \<Rightarrow> string \<Rightarrow> event_kind \<Rightarrow> string \<Rightarrow> int \<Rightarrow> events
     \<Rightarrow> (gerror, unit) result \<times> events" where
  "InsertEvent fail now accts acct kind reason status evs =
     (let wrap = Wrap (''failover events: insert '' @ acct) in
      case fail of
        Some e \<Rightarrow> (Err (wrap e), evs)
      | None \<Rightarrow>
          if \<not> (\<exists>r \<in> set accts. ar_id r = acct)
          then (Err (wrap (Plain ''FOREIGN KEY constraint failed'')), evs)
          else (Ok (), evs @ [\<lparr> er_id = Suc (length evs), er_account_id = acct, er_kind = kind,
                 er_reason = reason, er_http_status = status,
                 er_created_at = fmtTime (Some now) \<rparr>]))"

definition window_start :: "int \<Rightarrow> int \<Rightarrow> sqltime" where
  "window_start now windowSec = fmtTime (Some (now - wrap64 (windowSec * nanos)))"

definition CountEvents ::
  "gerror option \<Rightarrow> int \<Rightarrow> string \<Rightarrow> event_kind \<Rightarrow> int \<Rightarrow> events \<Rightarrow> (gerror, int) result" where
  "CountEvents fail now acct kind windowSec evs =
     (if windowSec \<le> 0 then Ok 0
      else case fail of
        Some e \<Rightarrow> Err e
      | None \<Rightarrow> Ok (int (rows_affected (\<lambda>e. er_account_id e = acct \<and> er_kind e = kind \<and>
                  sql_le (window_start now windowSec) (er_created_at e)) evs)))"

definition recent_disables :: "int \<Rightarrow> int \<Rightarrow> events \<Rightarrow> string list" where
  "recent_disables now windowSec evs = remdups (map er_account_id
     (filter (\<lambda>e. (er_reason e = ''consec_fail'' \<or> er_reason e = ''evict'') \<and>
        sql_le (window_start now windowSec) (er_created_at e)) evs))"

definition CountRecentDisables :: "gerror option \<Rightarrow> int \<Rightarrow> int \<Rightarrow> events \<Rightarrow> (gerror, int) result" where
  "CountRecentDisables fail now windowSec evs =
     (if windowSec \<le> 0 then Ok 0
      else case fail of
        Some e \<Rightarrow> Err e
      | None \<Rightarrow> Ok (int (length (recent_disables now windowSec evs))))"

definition ListEvents :: "gerror option \<Rightarrow> string \<Rightarrow> int \<Rightarrow> events \<Rightarrow> (gerror, events) result" where
  "ListEvents fail acct limit0 evs =
     (let lim = (if limit0 \<le> 0 \<or> limit0 > 500 then 50 else limit0) in
      case fail of
        Some e \<Rightarrow> Err e
      | None \<Rightarrow> Ok (take (nat lim) (sort_desc er_created_at (filter (\<lambda>e. er_account_id e = acct) evs))))"

definition DeleteForAccount :: "gerror option \<Rightarrow> string \<Rightarrow> events \<Rightarrow> (gerror, unit) result \<times> events" where
  "DeleteForAccount fail acct evs = (case fail of
     Some e \<Rightarrow> (Err e, evs) | None \<Rightarrow> (Ok (), sql_delete (\<lambda>e. er_account_id e = acct) evs))"

section \<open>Overrides\<close>

record override_row =
  or_account_id :: string
  or_enabled :: "int option"
  or_fail_limit :: "int option"
  or_judge_window_sec :: "int option"
  or_judge_count :: "int option"
  or_cooldown_sec :: "int option"
  or_evict_window_sec :: "int option"
  or_evict_count :: "int option"
  or_updated_at :: sqltime

type_synonym overrides = "override_row list"

record override =
  fo_AccountID :: string
  fo_Enabled :: "bool option"
  fo_FailLimit :: "int option"
  fo_JudgeWindowSec :: "int option"
  fo_JudgeCount :: "int option"
  fo_CooldownSec :: "int option"
  fo_EvictWindowSec :: "int option"
  fo_EvictCount :: "int option"
  fo_UpdatedAt :: gotime

definition override_of_row :: "override_row \<Rightarrow> override" where
  "override_of_row r = \<lparr>
     fo_AccountID = or_account_id r,
     fo_Enabled = map_option (\<lambda>i. i \<noteq> 0) (or_enabled r),
     fo_FailLimit = or_fail_limit r,
     fo_JudgeWindowSec = or_judge_window_sec r,
     fo_JudgeCount = or_judge_count r,
     fo_CooldownSec = or_cooldown_sec r,
     fo_EvictWindowSec = or_evict_window_sec r,
     fo_EvictCount = or_evict_count r,
     fo_UpdatedAt = parseTime (or_updated_at r) \<rparr>"

definition GetOverride ::
  "gerror option \<Rightarrow> string \<Rightarrow> overrides \<Rightarrow> (gerror, override option) result" where
  "GetOverride fail acct rows = (case fail of
     Some e \<Rightarrow> Err e
   | None \<Rightarrow> Ok (map_option override_of_row (find_row or_account_id acct rows)))"

definition override_row_of :: "int \<Rightarrow> override \<Rightarrow> override_row" where
  "override_row_of now o1 = \<lparr>
     or_account_id = fo_AccountID o1,
     or_enabled = map_option (\<lambda>b. if b then 1 else 0) (fo_Enabled o1),
     or_fail_limit = fo_FailLimit o1,
     or_judge_window_sec = fo_JudgeWindowSec o1,
     or_judge_count = fo_JudgeCount o1,
     or_cooldown_sec = fo_CooldownSec o1,
     or_evict_window_sec = fo_EvictWindowSec o1,
     or_evict_count = fo_EvictCount o1,
     or_updated_at = fmtTime (Some now) \<rparr>"

definition UpsertOverride ::
  "gerror option \<Rightarrow> int \<Rightarrow> accounts \<Rightarrow> override option \<Rightarrow> overrides
     \<Rightarrow> (gerror, unit) result \<times> overrides" where
  "UpsertOverride fail now accts oopt rows =
     (let bad = (Err (Plain ''failover overrides: account_id required''), rows) in
      case oopt of None \<Rightarrow> bad | Some o1 \<Rightarrow>
      if fo_AccountID o1 = '''' then bad
      else case fail of
        Some e \<Rightarrow> (Err e, rows)
      | None \<Rightarrow>
          if \<exists>r \<in> set rows. or_account_id r = fo_AccountID o1
          then (Ok (), sql_update (\<lambda>r. or_account_id r = fo_AccountID o1) (\<lambda>_. override_row_of now o1) rows)
          else if \<not> (\<exists>r \<in> set accts. ar_id r = fo_AccountID o1)
          then (Err (Plain ''FOREIGN KEY constraint failed''), rows)
          else (Ok (), rows @ [override_row_of now o1]))"

definition DeleteOverride :: "gerror option \<Rightarrow> string \<Rightarrow> overrides \<Rightarrow> (gerror, unit) result \<times> overrides" where
  "DeleteOverride fail acct rows = (case fail of
     Some e \<Rightarrow> (Err e, rows) | None \<Rightarrow> (Ok (), sql_delete (\<lambda>r. or_account_id r = acct) rows))"

text \<open>An override reads back as written (with the write's time).\<close>

lemma override_roundtrip:
  "override_of_row (override_row_of now o1) = o1\<lparr> fo_UpdatedAt := toSecond (Some now) \<rparr>"
  by (simp add: override_of_row_def override_row_of_def time_simps option.map_comp comp_def
      cong: option.map_cong)
     (cases "fo_Enabled o1"; simp)

end
