(* ===== verification/Failover.thy ===== *)
theory Failover
  imports FailoverStore
begin

text \<open>
  \<open>core/failover\<close>: the controller that takes failing accounts out of rotation
  (a consecutive-failure streak disables, a burst of throttle events cools down
  and finally evicts, a pool-level outage guard holds disabling back), the
  Recoverer that brings cooled-down accounts back, and the operator's recovery
  endpoint of \<open>api/admin/failover.go\<close>.  Log lines are left out.
\<close>

section \<open>Classification of errors\<close>

datatype classification = ClassIgnore | ClassThrottle | ClassAccountAttributable

text \<open>\<open>errors.As(err, *net.Error)\<close>: an error number of a system call implements the
  interface, as does the deadline error of package context.\<close>

fun is_net_error :: "gerror \<Rightarrow> bool" where
  "is_net_error (Sent s) = (s = DeadlineExceeded)"
| "is_net_error (Wrap _ e) = is_net_error e"
| "is_net_error (Noted e _) = is_net_error e"
| "is_net_error (NetErr _) = True"
| "is_net_error (Errno _) = True"
| "is_net_error (Plain _) = False"

fun is_errno :: "gerror \<Rightarrow> string \<Rightarrow> bool" where
  "is_errno (Wrap _ e) n = is_errno e n"
| "is_errno (Noted e _) n = is_errno e n"
| "is_errno (Errno m) n = (m = n)"
| "is_errno _ n = False"

definition bot_marker :: "string \<Rightarrow> bool" where
  "bot_marker s = (let lower = toLower s in contains lower ''datadome'' \<or> contains lower ''captcha'')"

definition Classify :: "gerror option \<Rightarrow> classification" where
  "Classify eopt = (case eopt of None \<Rightarrow> ClassIgnore | Some e \<Rightarrow>
     if errorsIs e ErrUpstreamRateLimit then ClassThrottle
     else if errorsIs e ErrUpstreamUnauthorized then ClassAccountAttributable
     else if errorsIs e ErrUpstreamForbidden \<or> errorsIs e ErrUpstreamBadBody \<or>
             errorsIs e ErrUpstreamServerError \<or> errorsIs e ErrUpstreamTimeout \<or>
             errorsIs e DeadlineExceeded \<or> errorsIs e Canceled then ClassIgnore
     else if is_net_error e then ClassAccountAttributable
     else if is_errno e ''ECONNRESET'' \<or> is_errno e ''EPIPE'' \<or> is_errno e ''ETIMEDOUT''
     then ClassAccountAttributable
     else if err_text e \<noteq> '''' \<and> bot_marker (err_text e) then ClassAccountAttributable
     else ClassIgnore)"

definition ClassifyStatus :: "int \<Rightarrow> string \<Rightarrow> classification" where
  "ClassifyStatus status body =
     (if status = 401 then ClassAccountAttributable
      else if status = 429 then ClassThrottle
      else if status = 403 \<or> status = 422 then ClassIgnore
      else if status \<ge> 500 then ClassIgnore
      else if body \<noteq> '''' \<and> bot_marker body then ClassAccountAttributable
      else ClassIgnore)"

definition statusFromErr :: "gerror option \<Rightarrow> int" where
  "statusFromErr eopt = (case eopt of None \<Rightarrow> 0 | Some e \<Rightarrow>
     if errorsIs e ErrUpstreamUnauthorized then 401
     else if errorsIs e ErrUpstreamRateLimit then 429
     else if errorsIs e ErrUpstreamForbidden then 403
     else if errorsIs e ErrUpstreamBadBody then 422
     else if errorsIs e ErrUpstreamServerError then 500
     else 0)"

section \<open>Configuration\<close>

record failover_config =
  cf_Enabled :: bool
  cf_ConsecEnabled :: bool
  cf_FailLimit :: int
  cf_ThrottleEnabled :: bool
  cf_JudgeWindowSec :: int
  cf_JudgeCount :: int
  cf_CooldownSec :: int
  cf_EvictWindowSec :: int
  cf_EvictCount :: int
  cf_RiskMarkers :: "string list"
  cf_OutageWindowSec :: int
  cf_DisableCountLimit :: int

text \<open>The controller: which of its optional collaborators are wired.  A nil
  controller is \<open>None\<close> where a controller is expected.\<close>

record controller =
  fc_Accounts :: bool
  fc_Events :: bool
  fc_Overrides :: bool
  fc_Notifier :: bool
  fc_Cfg :: "failover_config option"
  fc_FallbackFailLimit :: int

definition NewController ::
  "failover_config option \<Rightarrow> bool \<Rightarrow> bool \<Rightarrow> bool \<Rightarrow> bool \<Rightarrow> controller option" where
  "NewController cfg accounts events overrides notifier = (case cfg of
     None \<Rightarrow> None
   | Some c \<Rightarrow> if \<not> cf_Enabled c then None
       else Some \<lparr> fc_Accounts = accounts, fc_Events = events, fc_Overrides = overrides,
              fc_Notifier = notifier, fc_Cfg = Some c, fc_FallbackFailLimit = 0 \<rparr>)"

record resolved_config =
  rc_Enabled :: bool
  rc_ConsecEnabled :: bool
  rc_ConsecFailLimit :: int
  rc_ThrottleEnabled :: bool
  rc_JudgeWindowSec :: int
  rc_JudgeCount :: int
  rc_CooldownSec :: int
  rc_EvictWindowSec :: int
  rc_EvictCount :: int
  rc_OutageWindowSec :: int
  rc_OutageCountLimit :: int

definition positive_or :: "int \<Rightarrow> int \<Rightarrow> int" where
  "positive_or v d = (if v \<le> 0 then d else v)"

definition base_config :: "controller option \<Rightarrow> resolved_config" where
  "base_config c =
     (let cfg = (case c of None \<Rightarrow> None | Some k \<Rightarrow> fc_Cfg k);
          get = (\<lambda>f. case cfg of None \<Rightarrow> 0 | Some g \<Rightarrow> f g);
          fallback = (case c of None \<Rightarrow> 0 | Some k \<Rightarrow> fc_FallbackFailLimit k)
      in \<lparr> rc_Enabled = (case cfg of None \<Rightarrow> True | Some g \<Rightarrow> cf_Enabled g),
           rc_ConsecEnabled = (case cfg of None \<Rightarrow> False | Some g \<Rightarrow> cf_ConsecEnabled g),
           rc_ConsecFailLimit = positive_or (positive_or (get cf_FailLimit) fallback) 3,
           rc_ThrottleEnabled = (case cfg of None \<Rightarrow> False | Some g \<Rightarrow> cf_ThrottleEnabled g),
           rc_JudgeWindowSec = positive_or (get cf_JudgeWindowSec) 60,
           rc_JudgeCount = positive_or (get cf_JudgeCount) 5,
           rc_CooldownSec = positive_or (get cf_CooldownSec) 600,
           rc_EvictWindowSec = positive_or (get cf_EvictWindowSec) 3600,
           rc_EvictCount = positive_or (get cf_EvictCount) 3,
           rc_OutageWindowSec = positive_or (get cf_OutageWindowSec) 30,
           rc_OutageCountLimit = positive_or (get cf_DisableCountLimit) 3 \<rparr>)"

definition override_pos :: "int option \<Rightarrow> int \<Rightarrow> int" where
  "override_pos o1 base = (case o1 of None \<Rightarrow> base | Some v \<Rightarrow> if v > 0 then v else base)"

definition resolve_config ::
  "gerror option \<Rightarrow> controller option \<Rightarrow> string \<Rightarrow> overrides \<Rightarrow> resolved_config" where
  "resolve_config fail c acct ovs =
     (let base = base_config c in
      case c of None \<Rightarrow> base | Some k \<Rightarrow>
      if \<not> fc_Overrides k \<or> acct = '''' then base
      else case GetOverride fail acct ovs of
        Inl e \<Rightarrow> base
      | Inr None \<Rightarrow> base
      | Inr (Some o1) \<Rightarrow> base\<lparr>
          rc_Enabled := (case fo_Enabled o1 of None \<Rightarrow> rc_Enabled base | Some b \<Rightarrow> b),
          rc_ConsecFailLimit := override_pos (fo_FailLimit o1) (rc_ConsecFailLimit base),
          rc_JudgeWindowSec := override_pos (fo_JudgeWindowSec o1) (rc_JudgeWindowSec base),
          rc_JudgeCount := override_pos (fo_JudgeCount o1) (rc_JudgeCount base),
          rc_CooldownSec := override_pos (fo_CooldownSec o1) (rc_CooldownSec base),
          rc_EvictWindowSec := override_pos (fo_EvictWindowSec o1) (rc_EvictWindowSec base),
          rc_EvictCount := override_pos (fo_EvictCount o1) (rc_EvictCount base) \<rparr>)"

definition isRiskMarker :: "controller option \<Rightarrow> string \<Rightarrow> bool" where
  "isRiskMarker c body = (case c of None \<Rightarrow> False | Some k \<Rightarrow>
     (case fc_Cfg k of None \<Rightarrow> False | Some g \<Rightarrow>
        body \<noteq> '''' \<and>
        list_ex (\<lambda>m. m \<noteq> '''' \<and> contains (toLower body) (toLower m)) (cf_RiskMarkers g)))"

section \<open>The controller's state and decisions\<close>

datatype level = LevelInfo | LevelWarn | LevelError

record notification =
  no_Level :: level
  no_Title :: string
  no_Body :: string
  no_Tags :: "(string \<times> string) list"

record fstate =
  fs_accounts :: accounts
  fs_events :: events
  fs_overrides :: overrides
  fs_notified :: "notification list"

text \<open>The store calls of one decision, for the faults of the driver.\<close>

datatype failover_call =
    FoOverride | FoInsert | FoIncr | FoJudge | FoBlacklist | FoMarkThrottled | FoEvict
  | FoGuard | FoDisableInsert | FoMarkStatus | FoResetStreak

type_synonym failover_faults = "failover_call \<Rightarrow> gerror option"

definition ReasonConsecFail :: string where "ReasonConsecFail = ''consec_fail''"
definition ReasonEvict :: string where "ReasonEvict = ''evict''"
definition ReasonThrottle :: string where "ReasonThrottle = ''throttle''"
definition ReasonRiskMarker :: string where "ReasonRiskMarker = ''risk_marker''"
definition ReasonAuthFailed :: string where "ReasonAuthFailed = ''auth_failed''"
definition ReasonNetwork :: string where "ReasonNetwork = ''network''"
definition ReasonManualRecover :: string where "ReasonManualRecover = ''manual_recover''"

definition add_event ::
  "gerror option \<Rightarrow> controller \<Rightarrow> int \<Rightarrow> string \<Rightarrow> event_kind \<Rightarrow> string \<Rightarrow> int \<Rightarrow> fstate \<Rightarrow> fstate" where
  "add_event fail c now acct kind reason status st =
     (if fc_Events c
      then st\<lparr> fs_events := snd (InsertEvent fail now (fs_accounts st) acct kind reason status (fs_events st)) \<rparr>
      else st)"

definition notify :: "controller \<Rightarrow> notification \<Rightarrow> fstate \<Rightarrow> fstate" where
  "notify c n st = (if fc_Notifier c then st\<lparr> fs_notified := fs_notified st @ [n] \<rparr> else st)"

definition RecordSuccess ::
  "failover_faults \<Rightarrow> controller option \<Rightarrow> string \<Rightarrow> fstate \<Rightarrow> fstate" where
  "RecordSuccess flt copt acct st = (case copt of None \<Rightarrow> st | Some c \<Rightarrow>
     if acct = '''' \<or> \<not> fc_Accounts c then st
     else st\<lparr> fs_accounts := snd (ResetFailStreak (flt FoResetStreak) acct (fs_accounts st)) \<rparr>)"

definition countEvents ::
  "gerror option \<Rightarrow> controller \<Rightarrow> int \<Rightarrow> string \<Rightarrow> event_kind \<Rightarrow> int \<Rightarrow> fstate \<Rightarrow> (gerror, int) result" where
  "countEvents fail c now acct kind windowSec st =
     (if \<not> fc_Events c then Ok 0 else CountEvents fail now acct kind windowSec (fs_events st))"

definition outageGuardTripped ::
  "gerror option \<Rightarrow> controller \<Rightarrow> resolved_config \<Rightarrow> int \<Rightarrow> fstate \<Rightarrow> bool" where
  "outageGuardTripped fail c cfg now st =
     (if \<not> fc_Events c then False
      else case CountRecentDisables fail now (rc_OutageWindowSec cfg) (fs_events st) of
        Inl e \<Rightarrow> False
      | Inr n \<Rightarrow> n \<ge> rc_OutageCountLimit cfg)"

definition disable_account ::
  "failover_faults \<Rightarrow> controller \<Rightarrow> int \<Rightarrow> string \<Rightarrow> string \<Rightarrow> fstate \<Rightarrow> fstate" where
  "disable_account flt c now acct reason st =
     (if \<not> fc_Accounts c then st
      else let st1 = add_event (flt FoDisableInsert) c now acct EventFailure reason 0 st in
      case MarkStatus (flt FoMarkStatus) now acct StatusDisabled reason (fs_accounts st1) of
        (Inl e, _) \<Rightarrow> st1
      | (Inr _, rows) \<Rightarrow>
          notify c \<lparr> no_Level = LevelError, no_Title = ''higgsgo failover: account disabled'',
              no_Body = ''The failover controller pulled an account out of rotation.'',
              no_Tags = [(''account_id'', acct), (''reason'', reason)] \<rparr>
            (st1\<lparr> fs_accounts := rows \<rparr>))"

definition RecordFailure ::
  "failover_faults \<Rightarrow> controller option \<Rightarrow> int \<Rightarrow> string \<Rightarrow> int \<Rightarrow> fstate \<Rightarrow> fstate" where
  "RecordFailure flt copt now acct httpStatus st = (case copt of None \<Rightarrow> st | Some c \<Rightarrow>
     if acct = '''' \<or> \<not> fc_Accounts c then st
     else let cfg = resolve_config (flt FoOverride) copt acct (fs_overrides st) in
     if \<not> rc_Enabled cfg \<or> \<not> rc_ConsecEnabled cfg then st
     else let reason = (if httpStatus = 401 then ReasonAuthFailed
                        else if httpStatus = 0 then ReasonNetwork else ReasonConsecFail);
              st1 = add_event (flt FoInsert) c now acct EventFailure reason httpStatus st in
     case IncrFailStreak (flt FoIncr) now acct (fs_accounts st1) of
       (Inl e, _) \<Rightarrow> st1
     | (Inr streak, rows) \<Rightarrow>
        (let st2 = st1\<lparr> fs_accounts := rows \<rparr> in
         if streak < rc_ConsecFailLimit cfg then st2
         else if outageGuardTripped (flt FoGuard) c cfg now st2
         then notify c \<lparr> no_Level = LevelWarn,
                no_Title = ''higgsgo failover suppressed by outage guard'',
                no_Body = ''consecutive-fail limit reached but the pool-level outage guard is tripped; the account was NOT disabled.'',
                no_Tags = [(''account_id'', acct), (''streak'', itoa streak), (''guard'', ''outage'')] \<rparr> st2
         else disable_account flt c now acct ReasonConsecFail st2))"

definition RecordThrottle ::
  "failover_faults \<Rightarrow> controller option \<Rightarrow> int \<Rightarrow> string \<Rightarrow> string \<Rightarrow> fstate \<Rightarrow> fstate" where
  "RecordThrottle flt copt now acct body st = (case copt of None \<Rightarrow> st | Some c \<Rightarrow>
     if acct = '''' \<or> \<not> fc_Accounts c then st
     else let cfg = resolve_config (flt FoOverride) copt acct (fs_overrides st) in
     if \<not> rc_Enabled cfg \<or> \<not> rc_ThrottleEnabled cfg then st
     else let reason = (if isRiskMarker copt body then ReasonRiskMarker else ReasonThrottle);
              st1 = add_event (flt FoInsert) c now acct EventThrottle reason 429 st in
     case countEvents (flt FoJudge) c now acct EventThrottle (rc_JudgeWindowSec cfg) st1 of
       Inl e \<Rightarrow> st1
     | Inr throttleCount \<Rightarrow>
     if throttleCount < rc_JudgeCount cfg then st1
     else let st2 = add_event (flt FoBlacklist) c now acct EventBlacklist ReasonThrottle 429 st1;
              til = now + wrap64 (rc_CooldownSec cfg * nanos) in
     case MarkThrottled (flt FoMarkThrottled) now acct (Some til) ReasonThrottle (fs_accounts st2) of
       (Inl e, _) \<Rightarrow> st2
     | (Inr _, rows) \<Rightarrow>
        (let st3 = st2\<lparr> fs_accounts := rows \<rparr> in
         if \<not> fc_Events c then st3
         else case countEvents (flt FoEvict) c now acct EventBlacklist (rc_EvictWindowSec cfg) st3 of
           Inl e \<Rightarrow> st3
         | Inr blCount \<Rightarrow>
            if blCount < rc_EvictCount cfg then st3
            else if outageGuardTripped (flt FoGuard) c cfg now st3 then st3
            else disable_account flt c now acct ReasonEvict st3))"

definition RecordError ::
  "failover_faults \<Rightarrow> controller option \<Rightarrow> int \<Rightarrow> string \<Rightarrow> gerror option \<Rightarrow> string \<Rightarrow> fstate \<Rightarrow> fstate" where
  "RecordError flt copt now acct eopt bodyForRisk st =
     (if copt = None \<or> acct = '''' \<or> eopt = None then st
      else case Classify eopt of
        ClassIgnore \<Rightarrow> st
      | ClassAccountAttributable \<Rightarrow> RecordFailure flt copt now acct (statusFromErr eopt) st
      | ClassThrottle \<Rightarrow> RecordThrottle flt copt now acct bodyForRisk st)"

section \<open>Recovery\<close>

text \<open>One pass of the Recoverer; \<open>Run\<close> makes one at its start and one per tick.\<close>

definition recover_once :: "gerror option \<Rightarrow> int \<Rightarrow> fstate \<Rightarrow> fstate" where
  "recover_once fail now st = st\<lparr> fs_accounts := snd (RecoverThrottled fail now (fs_accounts st)) \<rparr>"

fun recoverer_run :: "(gerror option \<times> int) list \<Rightarrow> fstate \<Rightarrow> fstate" where
  "recoverer_run [] st = st"
| "recoverer_run ((fail, now) # ticks) st = recoverer_run ticks (recover_once fail now st)"

datatype recover_outcome =
  RecUnavailable | RecNotFound | RecInternal gerror | RecConflict | RecOk

datatype recover_call = RecGet | RecMark | RecReset | RecDelete

definition RecoverAccount ::
  "(recover_call \<Rightarrow> gerror option) \<Rightarrow> bool \<Rightarrow> bool \<Rightarrow> int \<Rightarrow> string \<Rightarrow> fstate
     \<Rightarrow> recover_outcome \<times> fstate" where
  "RecoverAccount flt hasAccounts hasEvents now acct st =
     (if \<not> hasAccounts then (RecUnavailable, st)
      else case GetAccount (flt RecGet) acct (fs_accounts st) of
        Inl e \<Rightarrow> (if errorsIs e ErrAccountNotFound then RecNotFound else RecInternal e, st)
      | Inr acc \<Rightarrow>
         if a_Status acc \<noteq> StatusDisabled \<and> a_Status acc \<noteq> StatusThrottled then (RecConflict, st)
         else (case MarkStatus (flt RecMark) now acct StatusActive ReasonManualRecover (fs_accounts st) of
             (Inl e, _) \<Rightarrow> (RecInternal e, st)
           | (Inr _, rows) \<Rightarrow>
              (let rows' = snd (ResetFailStreak (flt RecReset) acct rows);
                   evs = (if hasEvents then snd (DeleteForAccount (flt RecDelete) acct (fs_events st))
                          else fs_events st)
               in (RecOk, st\<lparr> fs_accounts := rows', fs_events := evs \<rparr>))))"

section \<open>Lemmas\<close>

lemma recent_disables_append:
  "reason \<noteq> ''consec_fail'' \<Longrightarrow> reason \<noteq> ''evict'' \<Longrightarrow>
   recent_disables now w (evs @ [\<lparr> er_id = i, er_account_id = a, er_kind = k, er_reason = reason,
      er_http_status = s, er_created_at = t \<rparr>]) = recent_disables now w evs"
  by (simp add: recent_disables_def)

lemma add_event_accounts [simp]: "fs_accounts (add_event f c now acct k reason s st) = fs_accounts st"
  by (simp add: add_event_def)

lemma add_event_overrides [simp]: "fs_overrides (add_event f c now acct k reason s st) = fs_overrides st"
  by (simp add: add_event_def)

lemma notify_fields [simp]:
  "fs_accounts (notify c n st) = fs_accounts st" "fs_events (notify c n st) = fs_events st"
  "fs_overrides (notify c n st) = fs_overrides st"
  by (simp_all add: notify_def)

lemma guard_accounts: "outageGuardTripped g c cfg now (st\<lparr> fs_accounts := rows \<rparr>) = outageGuardTripped g c cfg now st"
  by (simp add: outageGuardTripped_def)

lemma recent_disables_InsertEvent:
  "reason \<noteq> ''consec_fail'' \<Longrightarrow> reason \<noteq> ''evict'' \<Longrightarrow>
   recent_disables now w (snd (InsertEvent f now' accts acct k reason s evs)) = recent_disables now w evs"
  by (auto simp: recent_disables_append InsertEvent_def Let_def split: option.split)

lemma guard_fs_add_event:
  assumes "reason \<noteq> ''consec_fail''" "reason \<noteq> ''evict''"
  shows "outageGuardTripped g c cfg now (add_event f c now' acct k reason s st) =
    outageGuardTripped g c cfg now st"
  by (cases g)
     (simp_all add: outageGuardTripped_def add_event_def CountRecentDisables_def
       recent_disables_InsertEvent [OF assms])

lemma guard_add_event:
  assumes "reason \<noteq> ''consec_fail''" "reason \<noteq> ''evict''"
  shows "outageGuardTripped g c cfg now ((add_event f c now' acct k reason s st)\<lparr> fs_accounts := rows \<rparr>) =
    outageGuardTripped g c cfg now st"
  unfolding guard_accounts by (rule guard_fs_add_event [OF assms])

lemma reason_neq:
  "ReasonAuthFailed \<noteq> ''consec_fail''" "ReasonAuthFailed \<noteq> ''evict''"
  "ReasonNetwork \<noteq> ''consec_fail''" "ReasonNetwork \<noteq> ''evict''"
  "ReasonThrottle \<noteq> ''consec_fail''" "ReasonThrottle \<noteq> ''evict''"
  "ReasonRiskMarker \<noteq> ''consec_fail''" "ReasonRiskMarker \<noteq> ''evict''"
  by (simp_all add: ReasonAuthFailed_def ReasonNetwork_def ReasonThrottle_def ReasonRiskMarker_def)

text \<open>The row of an account, and what an update of another account leaves of it.\<close>

abbreviation row_of :: "string \<Rightarrow> fstate \<Rightarrow> account_row option" where
  "row_of acct st \<equiv> find_row ar_id acct (fs_accounts st)"

lemma MarkStatus_disabled:
  "MarkStatus None now acct StatusDisabled reason rows =
     (if find_row ar_id acct rows = None then (Err (Sent ErrAccountNotFound), rows)
      else (Ok (), sql_update (\<lambda>r. ar_id r = acct)
        (\<lambda>r. r\<lparr> ar_status := StatusDisabled, ar_status_reason := reason,
                ar_fail_streak := ar_fail_streak r + 1,
                ar_last_failed_at := fmtTime (Some now) \<rparr>) rows))"
  by (simp add: MarkStatus_def update_checked_ok)

lemma MarkThrottled_ok:
  "MarkThrottled None now acct til reason rows =
     (if find_row ar_id acct rows = None then (Err (Sent ErrAccountNotFound), rows)
      else (Ok (), sql_update (\<lambda>r. ar_id r = acct)
        (\<lambda>r. r\<lparr> ar_status := StatusThrottled, ar_status_reason := reason,
                ar_throttled_until := nullableTime til,
                ar_last_failed_at := fmtTime (Some now) \<rparr>) rows))"
  by (simp add: MarkThrottled_def update_checked_ok)

lemma IncrFailStreak_ok:
  "find_row ar_id acct rows = Some r \<Longrightarrow>
   IncrFailStreak None now acct rows = (Ok (ar_fail_streak r + 1),
     sql_update (\<lambda>r. ar_id r = acct)
       (\<lambda>r. r\<lparr> ar_fail_streak := ar_fail_streak r + 1, ar_last_failed_at := fmtTime (Some now) \<rparr>) rows)"
  by (simp add: IncrFailStreak_def find_row_ar_same Let_def)

definition disabled_row :: "int \<Rightarrow> string \<Rightarrow> account_row \<Rightarrow> account_row" where
  "disabled_row now reason r = r\<lparr> ar_status := StatusDisabled, ar_status_reason := reason,
     ar_fail_streak := ar_fail_streak r + 1, ar_last_failed_at := fmtTime (Some now) \<rparr>"

lemma row_of_disable_account:
  assumes "fc_Accounts c" "row_of acct st = Some r"
  shows "row_of acct (disable_account (\<lambda>_. None) c now acct reason st) = Some (disabled_row now reason r)"
  using assms by (simp add: disable_account_def MarkStatus_disabled find_row_ar_same disabled_row_def)

section \<open>Properties\<close>

definition demo_config :: failover_config where
  "demo_config = \<lparr> cf_Enabled = True, cf_ConsecEnabled = True, cf_FailLimit = 1,
     cf_ThrottleEnabled = True, cf_JudgeWindowSec = 60, cf_JudgeCount = 1, cf_CooldownSec = 600,
     cf_EvictWindowSec = 3600, cf_EvictCount = 3, cf_RiskMarkers = [], cf_OutageWindowSec = 30,
     cf_DisableCountLimit = 3 \<rparr>"

definition demo_controller :: controller where
  "demo_controller = \<lparr> fc_Accounts = True, fc_Events = True, fc_Overrides = True, fc_Notifier = True,
     fc_Cfg = Some demo_config, fc_FallbackFailLimit = 0 \<rparr>"

lemma demo_controller_sel [simp]:
  "fc_Accounts demo_controller" "fc_Events demo_controller" "fc_Overrides demo_controller"
  "fc_Notifier demo_controller"
  by (simp_all add: demo_controller_def)

definition demo_fstate :: fstate where
  "demo_fstate = \<lparr> fs_accounts = [demo_row ''a''], fs_events = [], fs_overrides = [], fs_notified = [] \<rparr>"

lemma demo_resolve:
  "resolve_config f (Some demo_controller) acct [] = \<lparr> rc_Enabled = True, rc_ConsecEnabled = True,
     rc_ConsecFailLimit = 1, rc_ThrottleEnabled = True, rc_JudgeWindowSec = 60, rc_JudgeCount = 1,
     rc_CooldownSec = 600, rc_EvictWindowSec = 3600, rc_EvictCount = 3, rc_OutageWindowSec = 30,
     rc_OutageCountLimit = 3 \<rparr>"
  by (cases f) (simp_all add: resolve_config_def base_config_def demo_controller_def demo_config_def
      GetOverride_def find_row_Nil positive_or_def Let_def)

text \<open>Errors that are not the account's fault change nothing: when no layer of the
  error is a rate limit or an authentication failure, and some layer says that
  the plan forbids the call, the body is bad, the upstream failed or timed out,
  or the caller gave up, the controller's whole state is left as it was.\<close>

theorem RecordError_not_attributable:
  assumes "\<not> errorsIs e ErrUpstreamRateLimit" "\<not> errorsIs e ErrUpstreamUnauthorized"
    and "\<exists>s \<in> {ErrUpstreamForbidden, ErrUpstreamBadBody, ErrUpstreamServerError, ErrUpstreamTimeout,
           DeadlineExceeded, Canceled}. errorsIs e s"
  shows "RecordError flt copt now acct (Some e) body st = st"
  using assms by (auto simp: RecordError_def Classify_def)

theorem RecordError_not_attributable_witness:
  "RecordError (\<lambda>_. None) (Some demo_controller) 0 ''a''
     (Some (Wrap ''create'' (Sent ErrUpstreamServerError))) '''' demo_fstate = demo_fstate"
  by (rule RecordError_not_attributable) simp_all

text \<open>C25. The consecutive-failure mechanism: with the database answering, a failure of
  an account (an authentication failure or a network error) raises its streak by
  one; the account is disabled, with the reason recorded, exactly when the
  streak reaches the limit in force for it and the outage guard is not tripped;
  otherwise its status is untouched.\<close>

theorem RecordFailure_spec:
  assumes "fc_Accounts c" "acct \<noteq> ''''" "row_of acct st = Some r" "httpStatus \<in> {0, 401}"
    and "cfg = resolve_config None (Some c) acct (fs_overrides st)"
    and "rc_Enabled cfg" "rc_ConsecEnabled cfg"
  shows "row_of acct (RecordFailure (\<lambda>_. None) (Some c) now acct httpStatus st) =
    Some (let r1 = r\<lparr> ar_fail_streak := ar_fail_streak r + 1,
                      ar_last_failed_at := fmtTime (Some now) \<rparr> in
      if rc_ConsecFailLimit cfg \<le> ar_fail_streak r + 1 \<and>
         \<not> outageGuardTripped None c cfg now st
      then disabled_row now ReasonConsecFail r1 else r1)"
proof -
  let ?reason = "if httpStatus = 401 then ReasonAuthFailed else if httpStatus = 0 then ReasonNetwork
    else ReasonConsecFail"
  let ?f = "\<lambda>r. r\<lparr> ar_fail_streak := ar_fail_streak r + 1, ar_last_failed_at := fmtTime (Some now) \<rparr>"
  let ?st1 = "add_event None c now acct EventFailure ?reason httpStatus st"
  let ?st2 = "?st1\<lparr> fs_accounts := sql_update (\<lambda>r. ar_id r = acct) ?f (fs_accounts st) \<rparr>"
  have guard: "outageGuardTripped None c cfg now ?st2 = outageGuardTripped None c cfg now st"
    using assms(4) by (intro guard_add_event) (auto simp: reason_neq)
  have row: "row_of acct ?st2 = Some (?f r)" using assms(3) by (simp add: find_row_ar_same)
  have "RecordFailure (\<lambda>_. None) (Some c) now acct httpStatus st =
      (if ar_fail_streak r + 1 < rc_ConsecFailLimit cfg then ?st2
       else if outageGuardTripped None c cfg now st
       then notify c \<lparr> no_Level = LevelWarn,
              no_Title = ''higgsgo failover suppressed by outage guard'',
              no_Body = ''consecutive-fail limit reached but the pool-level outage guard is tripped; the account was NOT disabled.'',
              no_Tags = [(''account_id'', acct), (''streak'', itoa (ar_fail_streak r + 1)),
                         (''guard'', ''outage'')] \<rparr> ?st2
       else disable_account (\<lambda>_. None) c now acct ReasonConsecFail ?st2)"
    using assms(1,2,3,5-7) guard by (simp add: RecordFailure_def Let_def IncrFailStreak_ok)
  then show ?thesis
    using row row_of_disable_account [OF assms(1) row] by (simp add: Let_def)
qed

theorem RecordFailure_spec_witness:
  "map_option ar_status (row_of ''a'' (RecordFailure (\<lambda>_. None) (Some demo_controller) 0 ''a'' 401
     demo_fstate)) = Some StatusDisabled"
proof -
  have "row_of ''a'' (RecordFailure (\<lambda>_. None) (Some demo_controller) 0 ''a'' 401 demo_fstate) =
    Some (let r1 = (demo_row ''a'')\<lparr> ar_fail_streak := ar_fail_streak (demo_row ''a'') + 1,
                      ar_last_failed_at := fmtTime (Some 0) \<rparr> in
      if rc_ConsecFailLimit (resolve_config None (Some demo_controller) ''a'' (fs_overrides demo_fstate))
           \<le> ar_fail_streak (demo_row ''a'') + 1 \<and>
         \<not> outageGuardTripped None demo_controller
             (resolve_config None (Some demo_controller) ''a'' (fs_overrides demo_fstate)) 0 demo_fstate
      then disabled_row 0 ReasonConsecFail r1 else r1)"
    by (rule RecordFailure_spec [where cfg = "resolve_config None (Some demo_controller) ''a'' (fs_overrides demo_fstate)"])
       (simp_all add: demo_fstate_def find_row_Cons demo_resolve)
  then show ?thesis
    by (simp add: demo_fstate_def demo_resolve outageGuardTripped_def CountRecentDisables_def
        recent_disables_def disabled_row_def)
qed



lemma nanos_small [simp]: "wrap64 (600 * nanos) = 600000000000" "wrap64 (60 * nanos) = 60000000000"
  "wrap64 (3600 * nanos) = 3600000000000"
  by (simp_all add: nanos_def wrap64_small)

lemma demo_windows:
  "window_start 0 60 = SqlAt (-60)" "window_start 0 3600 = SqlAt (-3600)"
  "fmtTime (Some 0) = SqlAt 0"
  by (simp_all add: window_start_def fmtTime_def) (simp_all add: nanos_def)



definition recovered_row :: "account_row \<Rightarrow> account_row" where
  "recovered_row r = r\<lparr> ar_status := StatusActive, ar_throttled_until := SqlNull, ar_status_reason := '''' \<rparr>"

lemma RecoverThrottled_rows:
  "snd (RecoverThrottled None now rows) =
     map (\<lambda>r. if throttle_expired now r then recovered_row r else r) rows"
  by (simp add: RecoverThrottled_def sql_update_def recovered_row_def cong: map_cong)

lemma recovered_not_expired: "\<not> throttle_expired now (recovered_row r)"
  by (simp add: throttle_expired_def recovered_row_def)

text \<open>Several passes in a row: each row is the old one or the recovered one, and it is
  recovered exactly when a working pass comes at or after its deadline.\<close>

lemma recoverer_run_rows:
  "fs_accounts (recoverer_run ticks st) =
     map (\<lambda>r. if \<exists>(f, now) \<in> set ticks. f = None \<and> throttle_expired now r then recovered_row r else r)
       (fs_accounts st)"
proof (induction ticks st rule: recoverer_run.induct)
  case (1 st)
  then show ?case by simp
next
  case (2 fail now ticks st)
  show ?case
  proof (cases fail)
    case None
    then show ?thesis
      using "2.IH" by (auto simp: recover_once_def RecoverThrottled_rows recovered_not_expired)
  next
    case (Some e)
    then show ?thesis using "2.IH" by (auto simp: recover_once_def RecoverThrottled_def)
  qed
qed

text \<open>Cooldowns end: over any series of recovery passes, some of them failing, an
  account becomes active again exactly when it was cooling down and a working
  pass came at or after its deadline; no other account changes, a disabled,
  banned or suspended one in particular; and nothing else of the state does.\<close>

theorem recoverer_exact:
  "fs_accounts (recoverer_run ticks st) =
     map (\<lambda>r. if ar_status r = StatusThrottled \<and>
                (\<exists>(f, now) \<in> set ticks. f = None \<and> ar_throttled_until r \<noteq> SqlNull \<and>
                   sql_le (ar_throttled_until r) (fmtTime (Some now)))
              then r\<lparr> ar_status := StatusActive, ar_throttled_until := SqlNull, ar_status_reason := '''' \<rparr>
              else r) (fs_accounts st) \<and>
   fs_events (recoverer_run ticks st) = fs_events st \<and>
   fs_notified (recoverer_run ticks st) = fs_notified st"
proof -
  have "fs_events (recoverer_run ticks st) = fs_events st \<and> fs_notified (recoverer_run ticks st) = fs_notified st"
    by (induction ticks st rule: recoverer_run.induct) (simp_all add: recover_once_def)
  then show ?thesis
    unfolding recoverer_run_rows
    by (auto simp: throttle_expired_def recovered_row_def intro!: map_cong)
qed

theorem recoverer_exact_witness:
  "map ar_status (fs_accounts (recoverer_run [(Some (Plain ''busy''), 9000000000), (None, 9000000000)]
     (demo_fstate\<lparr> fs_accounts := [(demo_row ''a'')\<lparr> ar_status := StatusThrottled,
        ar_throttled_until := SqlAt 8 \<rparr>] \<rparr>))) = [StatusActive]"
  using recoverer_exact [of "[(Some (Plain ''busy''), 9000000000), (None, 9000000000)]"
      "demo_fstate\<lparr> fs_accounts := [(demo_row ''a'')\<lparr> ar_status := StatusThrottled,
        ar_throttled_until := SqlAt 8 \<rparr>] \<rparr>"]
  by (simp add: fmtTime_def nanos_def)

text \<open>The operator's recovery: with the database answering, it is refused for an
  unknown account and for one that is neither disabled nor cooling down, and
  then writes nothing; otherwise the account is active with streak zero and no
  cooldown, its events are gone, and those of the other accounts are kept.\<close>

theorem RecoverAccount_spec:
  "(case row_of acct st of
      None \<Rightarrow> RecoverAccount (\<lambda>_. None) True True now acct st = (RecNotFound, st)
    | Some r \<Rightarrow>
        if ar_status r \<noteq> StatusDisabled \<and> ar_status r \<noteq> StatusThrottled
        then RecoverAccount (\<lambda>_. None) True True now acct st = (RecConflict, st)
        else fst (RecoverAccount (\<lambda>_. None) True True now acct st) = RecOk \<and>
          row_of acct (snd (RecoverAccount (\<lambda>_. None) True True now acct st)) =
            Some (r\<lparr> ar_status := StatusActive, ar_status_reason := ReasonManualRecover,
                    ar_throttled_until := SqlNull, ar_fail_streak := 0 \<rparr>) \<and>
          fs_events (snd (RecoverAccount (\<lambda>_. None) True True now acct st)) =
            filter (\<lambda>e. er_account_id e \<noteq> acct) (fs_events st))"
proof (cases "row_of acct st")
  case None
  then show ?thesis by (simp add: RecoverAccount_def GetAccount_def scanAccount_def)
next
  case (Some r)
  then show ?thesis
    by (simp add: RecoverAccount_def GetAccount_def scanAccount_def MarkStatus_def update_checked_ok
        ResetFailStreak_def DeleteForAccount_def sql_delete_def find_row_ar_same Let_def)
qed

text \<open>Disabled is not final: a disabled account, whose jobs in flight still report
  a throttled response, is put into the cooling-down state,
  and the next recovery pass after the cooldown makes it active again, with no
  operator involved.\<close>

theorem disabled_reactivated_by_throttle:
  "\<exists>c st acct t. map_option ar_status (row_of acct st) = Some StatusDisabled \<and>
     map_option ar_status (row_of acct (recoverer_run [(None, t)]
       (RecordThrottle (\<lambda>_. None) (Some c) 0 acct '''' st))) = Some StatusActive"
proof (intro exI conjI)
  let ?r = "(demo_row ''a'')\<lparr> ar_status := StatusDisabled \<rparr>"
  let ?st = "demo_fstate\<lparr> fs_accounts := [?r] \<rparr>"
  show "map_option ar_status (row_of ''a'' ?st) = Some StatusDisabled"
    by (simp add: find_row_Cons)
  have resolve: "resolve_config None (Some demo_controller) ''a'' (fs_overrides ?st) =
      resolve_config None (Some demo_controller) ''a'' []" by (simp add: demo_fstate_def)
  have step: "fs_accounts (RecordThrottle (\<lambda>_. None) (Some demo_controller) 0 ''a'' '''' ?st) =
      [?r\<lparr> ar_status := StatusThrottled, ar_status_reason := ReasonThrottle,
           ar_throttled_until := nullableTime (Some (wrap64 (600 * nanos))),
           ar_last_failed_at := fmtTime (Some 0) \<rparr>]"
    unfolding RecordThrottle_def option.case resolve
    by (simp add: demo_resolve Let_def countEvents_def CountEvents_def add_event_def InsertEvent_def
        demo_fstate_def MarkThrottled_ok find_row_Cons rows_affected_def demo_windows sql_update_def)
  show "map_option ar_status (row_of ''a'' (recoverer_run [(None, 600 * nanos)]
      (RecordThrottle (\<lambda>_. None) (Some demo_controller) 0 ''a'' '''' ?st))) = Some StatusActive"
    unfolding recoverer_run_rows step
    by (simp add: throttle_expired_def nullableTime_def fmtTime_def recovered_row_def find_row_Cons)
       (simp add: nanos_def)
qed

end
