(* ===== verification/World.thy ===== *)
theory World
  imports GroupStore UsageStore Settings Failover Float64
begin

text \<open>
  What the pipelines work on: the tables, in one record, and beside them what
  leaves the process (operator notifications, the webhooks handed to the
  dispatcher, the calls of the observer hook).
\<close>

record db =
  db_accounts :: accounts
  db_unlims :: unlims
  db_members :: members
  db_groups :: groups
  db_bindings :: bindings
  db_keys :: keys
  db_jobs :: jobs
  db_usages :: usages
  db_settings :: settings
  db_events :: events
  db_overrides :: overrides
  db_notified :: "notification list"
  db_fired :: "(string \<times> job) list"
  db_observed :: "job list"

definition empty_db :: db where
  "empty_db = \<lparr> db_accounts = [], db_unlims = [], db_members = [], db_groups = [], db_bindings = [],
     db_keys = [], db_jobs = [], db_usages = [], db_settings = [], db_events = [], db_overrides = [],
     db_notified = [], db_fired = [], db_observed = [] \<rparr>"

text \<open>A step of the failover controller on the whole.\<close>

definition fstate_of :: "db \<Rightarrow> fstate" where
  "fstate_of d = \<lparr> fs_accounts = db_accounts d, fs_events = db_events d,
     fs_overrides = db_overrides d, fs_notified = db_notified d \<rparr>"

definition on_failover :: "(fstate \<Rightarrow> fstate) \<Rightarrow> db \<Rightarrow> db" where
  "on_failover f d = (let st = f (fstate_of d) in d\<lparr> db_accounts := fs_accounts st,
     db_events := fs_events st, db_overrides := fs_overrides st, db_notified := fs_notified st \<rparr>)"

lemma on_failover_frame [simp]:
  "db_jobs (on_failover f d) = db_jobs d" "db_keys (on_failover f d) = db_keys d"
  "db_groups (on_failover f d) = db_groups d" "db_usages (on_failover f d) = db_usages d"
  "db_fired (on_failover f d) = db_fired d" "db_unlims (on_failover f d) = db_unlims d"
  "db_members (on_failover f d) = db_members d" "db_settings (on_failover f d) = db_settings d"
  "db_accounts (on_failover f d) = fs_accounts (f (fstate_of d))"
  by (simp_all add: on_failover_def Let_def)

lemma fstate_of_accounts [simp]: "fs_accounts (fstate_of d) = db_accounts d"
  by (simp add: fstate_of_def)

end
