(* ===== verification/Metering.thy ===== *)
theory Metering
  imports World
begin

text \<open>
  \<open>core/metering/metering.go\<close>: the one place a terminal job is turned into money.
  The charge of a job, the usage row, the back-fill of the job row and the two
  counters a charge moves (the monthly use of the key and of the group).
\<close>

definition containsAny :: "string \<Rightarrow> string list \<Rightarrow> bool" where
  "containsAny s needles = list_ex (contains s) needles"

definition mediaTypeForJST :: "string \<Rightarrow> string" where
  "mediaTypeForJST jst =
     (if containsAny jst [''video'', ''seedance'', ''kling'', ''veo3'', ''wan'', ''sora'', ''cinema'',
          ''marketing'', ''grok_video'', ''hailuo'', ''happy_horse'', ''gemini_omni'',
          ''infinite_talk'', ''hf_fnf''] then ''video''
      else if containsAny jst [''speech'', ''audio'', ''sonilo'', ''mirelo'', ''text2speech'',
          ''clip_transcriber''] then ''audio''
      else ''image'')"

text \<open>The recorder: which of the optional stores are wired.  A nil recorder, or one
  without an event store, is \<open>None\<close>.\<close>

record recorder =
  rcd_APIKeys :: bool
  rcd_Groups :: bool
  rcd_Jobs :: bool

text \<open>Errors of the four store calls, for the runs where they fail.\<close>

record metering_faults =
  mf_insert :: "gerror option"
  mf_backfill :: "gerror option"
  mf_key :: "gerror option"
  mf_group :: "gerror option"

definition no_faults :: metering_faults where
  "no_faults = \<lparr> mf_insert = None, mf_backfill = None, mf_key = None, mf_group = None \<rparr>"

definition actual_credits :: "job \<Rightarrow> account option \<Rightarrow> int \<Rightarrow> int" where
  "actual_credits j acct pre =
     (let a0 = (case acct of None \<Rightarrow> 0
                | Some a \<Rightarrow>
                    (if pre > 0
                     then (let delta = wrap64 (pre - a_SubscriptionBalance a)
                           in if delta > 0 then delta else 0)
                     else 0));
          a1 = (if a0 = 0 then j_UpstreamCost j else a0)
      in if a1 < 0 then 0 else a1)"

definition effective_markup :: "rat \<Rightarrow> rat" where
  "effective_markup m = (if m \<le> 0 then 1 else m)"

definition charged_credits :: "int \<Rightarrow> rat \<Rightarrow> int" where
  "charged_credits act markup = f64_to_int64 (f64 (int64_to_f64 act * effective_markup markup))"

definition usage_of_job ::
  "int \<Rightarrow> string \<Rightarrow> job \<Rightarrow> account option \<Rightarrow> int \<Rightarrow> rat \<Rightarrow> usage_event" where
  "usage_of_job now uid j acct pre markup =
     (let act = actual_credits j acct pre;
          aid = (case acct of None \<Rightarrow> '''' | Some a \<Rightarrow> a_ID a) in \<lparr>
        ue_ID = uid,
        ue_TS = Some now,
        ue_APIKeyID = j_APIKeyID j,
        ue_CPAPartnerID = j_CPAPartnerID j,
        ue_CPAUserID = '''',
        ue_GroupID = j_GroupID j,
        ue_AccountID = (if aid = '''' then j_AccountID j else aid),
        ue_ModelAlias = j_ModelAlias j,
        ue_JST = j_JST j,
        ue_MediaType = mediaTypeForJST (j_JST j),
        ue_UpstreamCost = j_UpstreamCost j,
        ue_ActualCreditsHundredths = act,
        ue_ChargedCreditsHundredths = charged_credits act markup,
        ue_MarkupPct = effective_markup markup,
        ue_Status = j_Status j,
        ue_LatencyMS = j_LatencyMS j,
        ue_PollCount = j_PollCount j,
        ue_ErrorType = j_ErrorType j,
        ue_HiggsgoJobID = j_ID j,
        ue_UpstreamJobID = j_UpstreamJobID j,
        ue_ResultURL = j_ResultURL j,
        ue_BillingMonth = format_month now,
        ue_BillingDay = format_day now \<rparr>)"

text \<open>The side effects behind a successful insert, each best effort: its error is
  logged and dropped.\<close>

definition backfill_job :: "recorder \<Rightarrow> metering_faults \<Rightarrow> int \<Rightarrow> job \<Rightarrow> int \<Rightarrow> int \<Rightarrow> db \<Rightarrow> db" where
  "backfill_job r mf now j act charged d =
     (if rcd_Jobs r
      then d\<lparr> db_jobs := snd (UpdateStatus (mf_backfill mf) now (j_ID j) (j_Status j)
             (empty_meta\<lparr> jm_ActualCreditsHundredths := act, jm_ChargedCreditsHundredths := charged \<rparr>)
             (db_jobs d)) \<rparr>
      else d)"

definition bill_key :: "recorder \<Rightarrow> metering_faults \<Rightarrow> int \<Rightarrow> job \<Rightarrow> int \<Rightarrow> db \<Rightarrow> db" where
  "bill_key r mf now j charged d =
     (if j_APIKeyID j \<noteq> '''' \<and> rcd_APIKeys r \<and> charged > 0
      then d\<lparr> db_keys := snd (IncrementUsage (mf_key mf) now (j_APIKeyID j) charged (db_keys d)) \<rparr>
      else d)"

definition bill_group :: "recorder \<Rightarrow> metering_faults \<Rightarrow> job \<Rightarrow> int \<Rightarrow> db \<Rightarrow> db" where
  "bill_group r mf j charged d =
     (if j_GroupID j \<noteq> '''' \<and> rcd_Groups r \<and> charged > 0
      then d\<lparr> db_groups := snd (IncrementUsed (mf_group mf) (j_GroupID j) charged (db_groups d)) \<rparr>
      else d)"

definition OnJobTerminal ::
  "recorder option \<Rightarrow> metering_faults \<Rightarrow> int \<Rightarrow> string \<Rightarrow> job option \<Rightarrow> account option \<Rightarrow> int
     \<Rightarrow> rat \<Rightarrow> db \<Rightarrow> (gerror, unit) result \<times> db" where
  "OnJobTerminal ropt mf now uid jopt acct pre markup d = (case ropt of
     None \<Rightarrow> (Ok (), d)
   | Some r \<Rightarrow>
      (case jopt of
         None \<Rightarrow> (Err (Plain ''metering: nil job''), d)
       | Some j \<Rightarrow>
          (let ev = usage_of_job now uid j acct pre markup;
               act = ue_ActualCreditsHundredths ev;
               charged = ue_ChargedCreditsHundredths ev
           in case InsertUsage (mf_insert mf) (Some ev) (db_usages d) of
                (Err e, us) \<Rightarrow> (Err e, d\<lparr> db_usages := us \<rparr>)
              | (Ok _, us) \<Rightarrow>
                  (Ok (), bill_group r mf j charged
                            (bill_key r mf now j charged
                              (backfill_job r mf now j act charged (d\<lparr> db_usages := us \<rparr>)))))))"

section \<open>The charge\<close>

lemma actual_credits_nonneg: "0 \<le> actual_credits j acct pre"
  by (simp add: actual_credits_def Let_def)

lemma f64_to_int64_floor: "x < 9223372036854775808 \<Longrightarrow> f64_to_int64 x = \<lfloor>x\<rfloor>"
  by (simp add: f64_to_int64_def)

text \<open>C20. The charge of a job.  Without a markup (or with one of exactly 1) it is the
  actual cost; a markup above 1 never charges less than the cost, one below 1
  never more; no charge is negative.  The costs are those \<open>float64\<close> holds exactly
  and the product those \<open>int64\<close> holds, and the rounding of the product is the
  hardware's.\<close>

theorem charged_credits_bounds:
  assumes "0 \<le> act" "act < 2 ^ 53"
    "f64 (of_int act * effective_markup markup) < 9223372036854775808"
  shows "(markup \<le> 0 \<or> markup = 1 \<longrightarrow> charged_credits act markup = act) \<and>
    (1 \<le> markup \<longrightarrow> act \<le> charged_credits act markup) \<and>
    (0 < markup \<and> markup \<le> 1 \<longrightarrow> charged_credits act markup \<le> act) \<and>
    0 \<le> charged_credits act markup"
proof -
  let ?p = "of_int act * effective_markup markup"
  have c: "charged_credits act markup = \<lfloor>f64 ?p\<rfloor>"
    using assms by (simp add: charged_credits_def int64_to_f64_exact f64_to_int64_floor)
  have ge: "act \<le> charged_credits act markup" if "1 \<le> effective_markup markup"
  proof -
    have "of_int act \<le> ?p" using mult_left_mono [OF that, of "of_int act"] assms(1) by simp
    then show ?thesis using f64_ge_int [OF _ assms(1,2)] by (simp add: c le_floor_iff)
  qed
  have le: "charged_credits act markup \<le> act" if "effective_markup markup \<le> 1"
  proof -
    have "?p \<le> of_int act" using mult_left_mono [OF that, of "of_int act"] assms(1) by simp
    from f64_le_int [OF this assms(1,2)] show ?thesis by (simp add: c floor_le_iff)
  qed
  have "0 \<le> charged_credits act markup" by (simp add: c f64_nonneg)
  then show ?thesis using ge le by (auto simp: effective_markup_def)
qed

theorem charged_credits_bounds_witness:
  "(1000::int) \<le> charged_credits 1000 (5 / 4) \<and> 0 \<le> charged_credits 1000 (5 / 4)"
proof -
  have "f64 (of_int 1000 * effective_markup (5 / 4)) < 9223372036854775808" by code_simp
  from charged_credits_bounds [OF _ _ this] show ?thesis by simp
qed

section \<open>One row per job, and nothing billed twice\<close>

definition metered :: "string \<Rightarrow> db \<Rightarrow> bool" where
  "metered jid d \<longleftrightarrow> (\<exists>r \<in> set (db_usages d). uw_higgsgo_job_id r = jid)"

lemma duplicate_error [err_simps]:
  "isUniqueUsageEventJobID (Some (Plain ''constraint failed: UNIQUE constraint failed: usage_events.higgsgo_job_id (2067)''))"
  by code_simp

lemma id_clash_not_duplicate [err_simps]:
  "\<not> isUniqueUsageEventJobID (Some (Plain ''constraint failed: UNIQUE constraint failed: usage_events.id (1555)''))"
  by code_simp

lemma InsertUsage_Ok_iff:
  "InsertUsage None (Some ev) us = (Ok (), us') \<longleftrightarrow>
     usage_constraint ev us = None \<and> us' = us @ [insert_usage_row ev]"
  by (auto simp: InsertUsage_def split: option.splits if_splits)

lemma usage_of_job_id [simp]:
  "ue_HiggsgoJobID (usage_of_job now uid j acct pre m) = j_ID j"
  "ue_ActualCreditsHundredths (usage_of_job now uid j acct pre m) = actual_credits j acct pre"
  "ue_ChargedCreditsHundredths (usage_of_job now uid j acct pre m) =
     charged_credits (actual_credits j acct pre) m"
  "ue_APIKeyID (usage_of_job now uid j acct pre m) = j_APIKeyID j"
  "ue_GroupID (usage_of_job now uid j acct pre m) = j_GroupID j"
  by (simp_all add: usage_of_job_def Let_def)

lemma billing_frame [simp]:
  "db_usages (bill_group r mf j c d) = db_usages d" "db_usages (bill_key r mf now j c d) = db_usages d"
  "db_usages (backfill_job r mf now j a c d) = db_usages d"
  "db_keys (bill_group r mf j c d) = db_keys d" "db_keys (backfill_job r mf now j a c d) = db_keys d"
  "db_groups (bill_key r mf now j c d) = db_groups d"
  "db_groups (backfill_job r mf now j a c d) = db_groups d"
  "db_accounts (bill_group r mf j c d) = db_accounts d" "db_accounts (bill_key r mf now j c d) = db_accounts d"
  "db_accounts (backfill_job r mf now j a c d) = db_accounts d"
  by (simp_all add: bill_group_def bill_key_def backfill_job_def)

text \<open>The three ways a call on a job ends.\<close>

lemma OnJobTerminal_cases:
  assumes "OnJobTerminal (Some r) mf now uid (Some j) acct pre m d = (res, d')"
  obtains (failed) e where "res = Err e" "d' = d"
  | (recorded) act charged row where "res = Ok ()" "\<not> metered (j_ID j) d"
      "act = actual_credits j acct pre" "charged = charged_credits act m"
      "row = insert_usage_row (usage_of_job now uid j acct pre m)"
      "d' = bill_group r mf j charged (bill_key r mf now j charged
             (backfill_job r mf now j act charged (d\<lparr> db_usages := db_usages d @ [row] \<rparr>)))"
proof -
  let ?ev = "usage_of_job now uid j acct pre m"
  have same: "d\<lparr> db_usages := db_usages d \<rparr> = d" by simp
  show ?thesis
  proof (cases "mf_insert mf")
    case (Some e)
    then have "\<exists>e'. InsertUsage (mf_insert mf) (Some ?ev) (db_usages d) = (Err e', db_usages d)"
      by (simp add: InsertUsage_def)
    then show ?thesis using assms failed by (auto simp: OnJobTerminal_def Let_def)
  next
    case None
    show ?thesis
    proof (cases "usage_constraint ?ev (db_usages d)")
      case (Some e)
      then have "\<exists>e'. InsertUsage (mf_insert mf) (Some ?ev) (db_usages d) = (Err e', db_usages d)"
        using None by (simp add: InsertUsage_def)
      then show ?thesis using assms failed by (auto simp: OnJobTerminal_def Let_def)
    next
      case fresh: None
      then have "InsertUsage (mf_insert mf) (Some ?ev) (db_usages d) =
          (Ok (), db_usages d @ [insert_usage_row ?ev])"
        using None by (simp add: InsertUsage_def)
      moreover have "\<not> metered (j_ID j) d"
        using fresh by (auto simp: usage_constraint_def metered_def split: if_splits)
      ultimately show ?thesis using assms recorded by (simp add: OnJobTerminal_def Let_def)
    qed
  qed
qed

text \<open>C7. A job is billed at most once.  A call that returns no error appends exactly
  one usage row, for a job that had none; one that returns an error (the
  duplicate sentinel included) leaves every table as it was; and a call on a job
  that has its row already is such a call, with the duplicate sentinel as its
  error when the row's identifier is new and the store works.\<close>

theorem OnJobTerminal_once:
  assumes "OnJobTerminal (Some r) mf now uid (Some j) acct pre m d = (res, d')"
  shows "(case res of
            Inr _ \<Rightarrow> \<not> metered (j_ID j) d \<and> metered (j_ID j) d' \<and>
              db_usages d' = db_usages d @ [insert_usage_row (usage_of_job now uid j acct pre m)]
          | Inl e \<Rightarrow> d' = d) \<and>
    (metered (j_ID j) d \<longrightarrow> d' = d) \<and>
    (metered (j_ID j) d \<and> mf_insert mf = None \<and> (\<forall>u \<in> set (db_usages d). uw_id u \<noteq> uid)
       \<longrightarrow> res = Err (Sent ErrUsageEventDuplicate))"
proof -
  have dup: "res = Err (Sent ErrUsageEventDuplicate)"
    if "metered (j_ID j) d" "mf_insert mf = None" "\<forall>u \<in> set (db_usages d). uw_id u \<noteq> uid"
  proof -
    let ?ev = "usage_of_job now uid j acct pre m"
    have "ue_ID ?ev = uid" by (simp add: usage_of_job_def Let_def)
    then have "InsertUsage (mf_insert mf) (Some ?ev) (db_usages d) =
        (Err (Sent ErrUsageEventDuplicate), db_usages d)"
      using that by (auto simp: InsertUsage_def usage_constraint_def metered_def err_simps)
    then show ?thesis using assms by (simp add: OnJobTerminal_def Let_def)
  qed
  from assms show ?thesis
  proof (cases rule: OnJobTerminal_cases)
    case (failed e)
    then show ?thesis using dup by simp
  next
    case (recorded act charged row)
    then have "db_usages d' = db_usages d @ [row]" by simp
    moreover have "metered (j_ID j) d'" using recorded by (simp add: metered_def insert_usage_row_def)
    ultimately show ?thesis using recorded dup by simp
  qed
qed

section \<open>The ledger\<close>

definition key_charges :: "string \<Rightarrow> usages \<Rightarrow> int" where
  "key_charges kid us = sum_list (map uw_charged_credits_h (filter (\<lambda>u. uw_api_key_id u = Some kid) us))"

definition group_charges :: "string \<Rightarrow> usages \<Rightarrow> int" where
  "group_charges gid us = sum_list (map uw_charged_credits_h (filter (\<lambda>u. uw_group_id u = gid) us))"

text \<open>Every counter equals (or, when increments may fail, is at most) the charges
  recorded for its key or group.\<close>

definition ledger_exact :: "db \<Rightarrow> bool" where
  "ledger_exact d \<longleftrightarrow>
     (\<forall>k \<in> set (db_keys d). kr_monthly_used k = key_charges (kr_id k) (db_usages d)) \<and>
     (\<forall>g \<in> set (db_groups d). gr_monthly_credit_used g = group_charges (gr_id g) (db_usages d))"

definition ledger_bound :: "db \<Rightarrow> bool" where
  "ledger_bound d \<longleftrightarrow>
     (\<forall>k \<in> set (db_keys d). kr_monthly_used k \<le> key_charges (kr_id k) (db_usages d)) \<and>
     (\<forall>g \<in> set (db_groups d). gr_monthly_credit_used g \<le> group_charges (gr_id g) (db_usages d))"

definition ids_ok :: "db \<Rightarrow> bool" where
  "ids_ok d \<longleftrightarrow> (\<forall>k \<in> set (db_keys d). kr_id k \<noteq> '''') \<and> (\<forall>g \<in> set (db_groups d). gr_id g \<noteq> '''')"

lemma ids_okD: "ids_ok d \<Longrightarrow> k \<in> set (db_keys d) \<Longrightarrow> kr_id k \<noteq> ''''"
  "ids_ok d \<Longrightarrow> g \<in> set (db_groups d) \<Longrightarrow> gr_id g \<noteq> ''''"
  by (auto simp: ids_ok_def)

lemma row_fields [simp]:
  "uw_charged_credits_h (insert_usage_row e) = ue_ChargedCreditsHundredths e"
  "uw_api_key_id (insert_usage_row e) = nullStr (ue_APIKeyID e)"
  "uw_group_id (insert_usage_row e) = ue_GroupID e"
  "uw_higgsgo_job_id (insert_usage_row e) = ue_HiggsgoJobID e"
  by (simp_all add: insert_usage_row_def)

lemma charges_snoc:
  "key_charges kid (us @ [u]) = key_charges kid us +
     (if uw_api_key_id u = Some kid then uw_charged_credits_h u else 0)"
  "group_charges gid (us @ [u]) = group_charges gid us +
     (if uw_group_id u = gid then uw_charged_credits_h u else 0)"
  by (simp_all add: key_charges_def group_charges_def)

text \<open>What an increment does to a row of each table.\<close>

lemma bill_key_rows:
  "k \<in> set (db_keys (bill_key r mf now j c d)) \<Longrightarrow>
     \<exists>k0 \<in> set (db_keys d). kr_id k = kr_id k0 \<and>
       kr_monthly_used k = kr_monthly_used k0 +
         (if kr_id k0 = j_APIKeyID j \<and> j_APIKeyID j \<noteq> '''' \<and> rcd_APIKeys r \<and> c > 0 \<and> mf_key mf = None
          then c else 0)"
  by (cases "mf_key mf")
    (auto simp: bill_key_def IncrementUsage_def key_update_checked_def sql_update_def split: if_splits)

lemma bill_group_rows:
  "g \<in> set (db_groups (bill_group r mf j c d)) \<Longrightarrow>
     \<exists>g0 \<in> set (db_groups d). gr_id g = gr_id g0 \<and>
       gr_monthly_credit_used g = gr_monthly_credit_used g0 +
         (if gr_id g0 = j_GroupID j \<and> j_GroupID j \<noteq> '''' \<and> rcd_Groups r \<and> c > 0 \<and> mf_group mf = None
          then c else 0)"
  by (cases "mf_group mf")
    (auto simp: bill_group_def IncrementUsed_def sql_update_def split: if_splits)


lemma nullStr_eq_Some [simp]: "nullStr s = Some k \<longleftrightarrow> s = k \<and> s \<noteq> ''''"
  by (simp add: nullStr_def)

text \<open>C8. The counters and the usage rows tell the same story.  A call whose charge is
  not negative keeps every counter at or below the charges recorded for its key
  or group whatever store calls fail; and when all stores are wired and the two
  increments succeed, it keeps every counter equal to them.\<close>

theorem OnJobTerminal_ledger:
  assumes run: "OnJobTerminal (Some r) mf now uid (Some j) acct pre m d = (res, d')"
    and ids: "ids_ok d"
    and pos: "0 \<le> charged_credits (actual_credits j acct pre) m"
  shows "(ledger_bound d \<longrightarrow> ledger_bound d') \<and>
    (ledger_exact d \<and> rcd_APIKeys r \<and> rcd_Groups r \<and> mf_key mf = None \<and> mf_group mf = None
       \<longrightarrow> ledger_exact d')"
  using run
proof (cases rule: OnJobTerminal_cases)
  case (failed e)
  then show ?thesis by simp
next
  case (recorded act charged row)
  have us: "db_usages d' = db_usages d @ [row]" using recorded by simp
  have row: "uw_api_key_id row = nullStr (j_APIKeyID j)" "uw_group_id row = j_GroupID j"
      "uw_charged_credits_h row = charged" using recorded by simp_all
  have c: "0 \<le> charged" using pos recorded by simp
  have keys: "\<exists>k0 \<in> set (db_keys d). kr_id k = kr_id k0 \<and> kr_monthly_used k = kr_monthly_used k0 +
        (if kr_id k0 = j_APIKeyID j \<and> j_APIKeyID j \<noteq> '''' \<and> rcd_APIKeys r \<and> charged > 0 \<and> mf_key mf = None
         then charged else 0)" if "k \<in> set (db_keys d')" for k
    using that recorded(6) bill_key_rows [of k r mf now j charged] by fastforce
  have groups: "\<exists>g0 \<in> set (db_groups d). gr_id g = gr_id g0 \<and>
        gr_monthly_credit_used g = gr_monthly_credit_used g0 +
        (if gr_id g0 = j_GroupID j \<and> j_GroupID j \<noteq> '''' \<and> rcd_Groups r \<and> charged > 0 \<and> mf_group mf = None
         then charged else 0)" if "g \<in> set (db_groups d')" for g
    using that recorded(6) bill_group_rows [of g r mf j charged] by fastforce
  have "ledger_bound d'" if "ledger_bound d"
    unfolding ledger_bound_def us charges_snoc row
  proof (intro conjI ballI)
    fix k assume "k \<in> set (db_keys d')"
    with keys obtain k0 where k0: "k0 \<in> set (db_keys d)" "kr_id k = kr_id k0"
      "kr_monthly_used k = kr_monthly_used k0 +
        (if kr_id k0 = j_APIKeyID j \<and> j_APIKeyID j \<noteq> '''' \<and> rcd_APIKeys r \<and> charged > 0 \<and> mf_key mf = None
         then charged else 0)" by blast
    have "kr_monthly_used k0 \<le> key_charges (kr_id k0) (db_usages d)"
      using that k0(1) by (simp add: ledger_bound_def)
    then show "kr_monthly_used k \<le> key_charges (kr_id k) (db_usages d) +
        (if nullStr (j_APIKeyID j) = Some (kr_id k) then charged else 0)"
      using c by (auto simp: k0(2,3))
  next
    fix g assume "g \<in> set (db_groups d')"
    with groups obtain g0 where g0: "g0 \<in> set (db_groups d)" "gr_id g = gr_id g0"
      "gr_monthly_credit_used g = gr_monthly_credit_used g0 +
        (if gr_id g0 = j_GroupID j \<and> j_GroupID j \<noteq> '''' \<and> rcd_Groups r \<and> charged > 0 \<and> mf_group mf = None
         then charged else 0)" by blast
    have "gr_monthly_credit_used g0 \<le> group_charges (gr_id g0) (db_usages d)"
      using that g0(1) by (simp add: ledger_bound_def)
    then show "gr_monthly_credit_used g \<le> group_charges (gr_id g) (db_usages d) +
        (if j_GroupID j = gr_id g then charged else 0)"
      using c by (auto simp: g0(2,3))
  qed
  moreover have "ledger_exact d'"
    if ex: "ledger_exact d" and w: "rcd_APIKeys r" "rcd_Groups r" "mf_key mf = None" "mf_group mf = None"
    unfolding ledger_exact_def us charges_snoc row
  proof (intro conjI ballI)
    fix k assume "k \<in> set (db_keys d')"
    with keys obtain k0 where k0: "k0 \<in> set (db_keys d)" "kr_id k = kr_id k0"
      "kr_monthly_used k = kr_monthly_used k0 +
        (if kr_id k0 = j_APIKeyID j \<and> j_APIKeyID j \<noteq> '''' \<and> rcd_APIKeys r \<and> charged > 0 \<and> mf_key mf = None
         then charged else 0)" by blast
    have "kr_monthly_used k0 = key_charges (kr_id k0) (db_usages d)"
      using ex k0(1) by (simp add: ledger_exact_def)
    moreover have "kr_id k0 \<noteq> ''''" using ids k0(1) by (rule ids_okD)
    ultimately show "kr_monthly_used k = key_charges (kr_id k) (db_usages d) +
        (if nullStr (j_APIKeyID j) = Some (kr_id k) then charged else 0)"
      using c w by (auto simp: k0(2,3))
  next
    fix g assume "g \<in> set (db_groups d')"
    with groups obtain g0 where g0: "g0 \<in> set (db_groups d)" "gr_id g = gr_id g0"
      "gr_monthly_credit_used g = gr_monthly_credit_used g0 +
        (if gr_id g0 = j_GroupID j \<and> j_GroupID j \<noteq> '''' \<and> rcd_Groups r \<and> charged > 0 \<and> mf_group mf = None
         then charged else 0)" by blast
    have "gr_monthly_credit_used g0 = group_charges (gr_id g0) (db_usages d)"
      using ex g0(1) by (simp add: ledger_exact_def)
    moreover have "gr_id g0 \<noteq> ''''" using ids g0(1) by (rule ids_okD)
    ultimately show "gr_monthly_credit_used g = group_charges (gr_id g) (db_usages d) +
        (if j_GroupID j = gr_id g then charged else 0)"
      using c w by (auto simp: g0(2,3))
  qed
  ultimately show ?thesis by blast
qed

definition metered_job :: job where
  "metered_job = \<lparr> j_ID = ''j1'', j_APIKeyID = ''k1'', j_CPAPartnerID = '''', j_GroupID = ''g1'',
     j_AccountID = ''a1'', j_ModelAlias = ''seedance'', j_JST = ''seedance_pro'', j_Endpoint = '''',
     j_RequestBodyJSON = '''', j_RequestTS = Some 0, j_UpstreamJobID = ''u1'', j_UpstreamCost = 500,
     j_ResultURL = '''', j_Status = JobCompleted, j_ErrorType = ErrNone, j_ErrorDetail = '''',
     j_FinishedAt = None, j_LatencyMS = 0, j_PollCount = 0, j_ActualCreditsHundredths = 0,
     j_ChargedCreditsHundredths = 0, j_Refunded = False, j_PreBalanceH = 0, j_CallbackURL = '''' \<rparr>"

definition full_recorder :: recorder where
  "full_recorder = \<lparr> rcd_APIKeys = True, rcd_Groups = True, rcd_Jobs = True \<rparr>"

theorem OnJobTerminal_once_witness:
  "\<exists>d'. db_usages d' = [insert_usage_row (usage_of_job 0 ''ue1'' metered_job None 0 1)] \<and> metered ''j1'' d'"
proof -
  obtain res d' where run: "OnJobTerminal (Some full_recorder) no_faults 0 ''ue1'' (Some metered_job) None 0 1
      empty_db = (res, d')" by (cases "OnJobTerminal (Some full_recorder) no_faults 0 ''ue1''
        (Some metered_job) None 0 1 empty_db")
  have "is_ok res"
  proof -
    have "InsertUsage None (Some e) [] = (Ok (), [insert_usage_row e])" for e
      by (simp add: InsertUsage_def usage_constraint_def)
    then show ?thesis using run by (auto simp: OnJobTerminal_def no_faults_def empty_db_def Let_def)
  qed
  then have "res = Ok ()" by (cases res) auto
  with OnJobTerminal_once [OF run] show ?thesis by (auto simp: empty_db_def metered_job_def)
qed

theorem OnJobTerminal_ledger_witness:
  "ledger_exact (snd (OnJobTerminal (Some full_recorder) no_faults 0 ''ue1'' (Some metered_job) None 0 1 empty_db))"
proof -
  have run: "OnJobTerminal (Some full_recorder) no_faults 0 ''ue1'' (Some metered_job) None 0 1 empty_db =
      (fst (OnJobTerminal (Some full_recorder) no_faults 0 ''ue1'' (Some metered_job) None 0 1 empty_db),
       snd (OnJobTerminal (Some full_recorder) no_faults 0 ''ue1'' (Some metered_job) None 0 1 empty_db))"
    by simp
  have ids: "ids_ok empty_db" by (simp add: ids_ok_def empty_db_def)
  have "actual_credits metered_job None 0 = 500" by (simp add: actual_credits_def metered_job_def)
  moreover have "charged_credits 500 1 = 500" by code_simp
  ultimately have pos: "0 \<le> charged_credits (actual_credits metered_job None 0) 1" by simp
  from OnJobTerminal_ledger [OF run ids pos] show ?thesis
    by (simp add: ledger_exact_def empty_db_def full_recorder_def no_faults_def)
qed

section \<open>The balance delta\<close>

text \<open>The actual cost is the drop of the account's balance between the job's
  creation and its end, so it is the job's own cost only when no other job of the
  account was paid in between: with two jobs created at the same balance and
  recorded after both were paid, each is charged the sum of the two costs, and
  the pair pays twice what the account did.\<close>

theorem overlapping_jobs_overcharged:
  assumes "0 < c1" "0 < c2" "c1 + c2 < pre" "pre < 2 ^ 53"
    "a_SubscriptionBalance acct = pre - c1 - c2"
  shows "charged_credits (actual_credits j1 (Some acct) pre) 1 = c1 + c2 \<and>
    charged_credits (actual_credits j2 (Some acct) pre) 1 = c1 + c2"
proof -
  have delta: "wrap64 (pre - a_SubscriptionBalance acct) = c1 + c2"
    using assms by (simp add: wrap64_small)
  have act: "actual_credits j (Some acct) pre = c1 + c2" for j
    using assms delta by (simp add: actual_credits_def Let_def)
  have b: "0 \<le> c1 + c2" "c1 + c2 < 2 ^ 53" using assms by simp_all
  have e: "f64 (of_int (c1 + c2)) = of_int (c1 + c2)"
    using int64_to_f64_exact [OF b] by (simp add: int64_to_f64_def)
  have "charged_credits (c1 + c2) 1 = f64_to_int64 (of_int (c1 + c2))"
    using int64_to_f64_exact [OF b] e by (simp only: charged_credits_def effective_markup_def) simp
  also have "... = c1 + c2"
  proof -
    have "(of_int (c1 + c2) :: rat) < of_int (2 ^ 53)" using b(2) of_int_less_iff by blast
    then show ?thesis by (subst f64_to_int64_floor) simp_all
  qed
  finally show ?thesis by (simp add: act)
qed

definition demo_post :: account where
  "demo_post = (demo_account '''')\<lparr> a_SubscriptionBalance := 9200 \<rparr>"

theorem overlapping_jobs_overcharged_witness:
  "charged_credits (actual_credits metered_job (Some demo_post) 10000) 1 = 800"
proof -
  have "a_SubscriptionBalance demo_post = 10000 - 500 - 300" by (simp add: demo_post_def)
  from overlapping_jobs_overcharged [OF _ _ _ _ this, of metered_job] show ?thesis by simp
qed

end
