(* ===== verification/PollWorker.thy ===== *)
theory PollWorker
  imports Metering
begin

text \<open>
  \<open>core/pollworker/worker.go\<close>: the poller that brings asynchronous jobs to their end.
  One \<open>pollOne\<close> is a step on the tables, given what the upstream answers to its two
  requests; a \<open>tick\<close> runs it over the pending jobs it listed.  Inside one \<open>pollOne\<close>
  the clock reads the tick's \<open>now\<close>.
\<close>

record poll_config =
  pw_TickInterval :: int
  pw_PerJobMinInterval :: int
  pw_JobDeadline :: int
  pw_APIKeys :: bool
  pw_OnTerminal :: bool
  pw_Meter :: "recorder option"
  pw_Webhooks :: bool
  pw_Failover :: "controller option"

definition worker_defaults :: poll_config where
  "worker_defaults = \<lparr> pw_TickInterval = 8 * nanos, pw_PerJobMinInterval = 5 * nanos,
     pw_JobDeadline = 3600 * nanos, pw_APIKeys = False, pw_OnTerminal = False, pw_Meter = None,
     pw_Webhooks = False, pw_Failover = None \<rparr>"

text \<open>What \<open>Run\<close> fills in before the first tick.\<close>

definition run_config :: "poll_config \<Rightarrow> poll_config" where
  "run_config c = c\<lparr>
     pw_TickInterval := (if pw_TickInterval c = 0 then 8 * nanos else pw_TickInterval c),
     pw_PerJobMinInterval := (if pw_PerJobMinInterval c = 0 then 5 * nanos else pw_PerJobMinInterval c),
     pw_JobDeadline := (if pw_JobDeadline c = 0 then 3600 * nanos else pw_JobDeadline c) \<rparr>"

record fetched_job =
  fj_Status :: string
  fj_ResultURL :: string
  fj_Refunded :: bool

text \<open>The upstream's answers during one \<open>pollOne\<close>, and the store calls that fail.\<close>

record poll_answers =
  an_status :: "(gerror, string) result"
  an_fetch :: "(gerror, fetched_job) result"

datatype poll_call = PwGet | PwProgress | PwCas | PwRelease | PwFresh | PwKey

record poll_faults =
  pf_call :: "poll_call \<Rightarrow> gerror option"
  pf_meter :: metering_faults
  pf_failover :: failover_faults

definition no_poll_faults :: poll_faults where
  "no_poll_faults = \<lparr> pf_call = (\<lambda>_. None), pf_meter = no_faults, pf_failover = (\<lambda>_. None) \<rparr>"

definition upstream_terminal :: "string \<Rightarrow> bool" where
  "upstream_terminal s \<longleftrightarrow> s = ''completed'' \<or> s = ''failed'' \<or> s = ''nsfw'' \<or> s = ''terminated''"

definition domainStatus :: "string \<Rightarrow> bool \<Rightarrow> job_status" where
  "domainStatus s refunded =
     (if s = ''completed'' then JobCompleted
      else if s = ''failed'' \<or> s = ''terminated'' \<or> s = ''nsfw''
      then (if refunded then JobRefunded else JobFailed)
      else job_status_of_string s)"

text \<open>\<open>time.Sub\<close> saturates; milliseconds are truncated.\<close>

definition dur_sub :: "int \<Rightarrow> int \<Rightarrow> int" where
  "dur_sub a b = max (- (2 ^ 63)) (min (2 ^ 63 - 1) (a - b))"

definition millis :: "int \<Rightarrow> int" where "millis d = d sdiv 1000000"

definition latency_ms :: "int \<Rightarrow> gotime \<Rightarrow> int" where
  "latency_ms now t = (case t of None \<Rightarrow> 0 | Some s \<Rightarrow> millis (dur_sub now s))"

definition releaseInFlight :: "gerror option \<Rightarrow> string \<Rightarrow> db \<Rightarrow> db" where
  "releaseInFlight fail acct d =
     (if acct = '''' then d
      else d\<lparr> db_accounts := snd (UpdateInFlight fail acct (- 1) (db_accounts d)) \<rparr>)"

definition worker_resolveMarkup :: "bool \<Rightarrow> gerror option \<Rightarrow> string \<Rightarrow> keys \<Rightarrow> rat" where
  "worker_resolveMarkup hasKeys fail kid ks =
     (if \<not> hasKeys \<or> kid = '''' then 0
      else case GetKey fail kid ks of Inl e \<Rightarrow> 0 | Inr k \<Rightarrow> k_MarkupPct k)"

definition fire_webhook :: "bool \<Rightarrow> job \<Rightarrow> db \<Rightarrow> db" where
  "fire_webhook wired j d =
     (if wired \<and> j_CallbackURL j \<noteq> '''' then d\<lparr> db_fired := db_fired d @ [(j_CallbackURL j, j)] \<rparr>
      else d)"

definition observe :: "bool \<Rightarrow> job \<Rightarrow> db \<Rightarrow> db" where
  "observe wired j d = (if wired then d\<lparr> db_observed := db_observed d @ [j] \<rparr> else d)"

text \<open>The metering of a terminal job.  \<open>fallback\<close> is the account to use when a fresh
  read fails; without one (the timeout path) nothing is metered then.\<close>

definition meter_terminal ::
  "poll_config \<Rightarrow> poll_faults \<Rightarrow> int \<Rightarrow> string \<Rightarrow> account option \<Rightarrow> job \<Rightarrow> db \<Rightarrow> db" where
  "meter_terminal c f now uid fallback j d = (case pw_Meter c of
     None \<Rightarrow> d
   | Some rcd \<Rightarrow>
      (let acct = (case GetAccount (pf_call f PwFresh) (j_AccountID j) (db_accounts d) of
                     Inl e \<Rightarrow> fallback | Inr a \<Rightarrow> Some a)
       in case acct of
            None \<Rightarrow> d
          | Some a \<Rightarrow> snd (OnJobTerminal (Some rcd) (pf_meter f) now uid (Some j) (Some a) (j_PreBalanceH j)
              (worker_resolveMarkup (pw_APIKeys c) (pf_call f PwKey) (j_APIKeyID j) (db_keys d)) d)))"

definition markTimeout ::
  "poll_config \<Rightarrow> poll_faults \<Rightarrow> int \<Rightarrow> string \<Rightarrow> job \<Rightarrow> db \<Rightarrow> db" where
  "markTimeout c f now uid j d =
     (let latency = latency_ms now (j_RequestTS j);
          m = empty_meta\<lparr> jm_ErrorType := ErrTimeout,
                jm_ErrorDetail := ''job did not reach terminal state within deadline'',
                jm_LatencyMS := latency \<rparr>
      in case TryMarkTerminal (pf_call f PwCas) now (j_ID j) [JobQueued, JobPending, JobRunning]
                JobTimeout m (db_jobs d) of
           (Inl e, js) \<Rightarrow> d\<lparr> db_jobs := js \<rparr>
         | (Inr won, js) \<Rightarrow>
            (let d1 = d\<lparr> db_jobs := js \<rparr> in
             if \<not> won then d1
             else let j1 = j\<lparr> j_Status := JobTimeout, j_LatencyMS := latency \<rparr>
                  in observe (pw_OnTerminal c) j1
                      (fire_webhook (pw_Webhooks c) j1
                        (meter_terminal c f now uid None j1
                          (releaseInFlight (pf_call f PwRelease) (j_AccountID j) d1)))))"

definition terminal_meta :: "string \<Rightarrow> fetched_job \<Rightarrow> int \<Rightarrow> job \<Rightarrow> job_meta" where
  "terminal_meta status fetched latency j =
     (let m = empty_meta\<lparr> jm_ResultURL := fj_ResultURL fetched, jm_LatencyMS := latency,
                jm_PollCount := wrap64 (j_PollCount j + 1), jm_Refunded := fj_Refunded fetched \<rparr>
      in if status = ''failed''
         then m\<lparr> jm_ErrorType := ErrUpstream, jm_ErrorDetail := ''upstream reported failed status'' \<rparr>
         else m)"

text \<open>From the upstream's terminal status on: the compare-and-swap, and what its winner
  does.\<close>

definition finish_polled ::
  "poll_config \<Rightarrow> poll_faults \<Rightarrow> int \<Rightarrow> string \<Rightarrow> account \<Rightarrow> string \<Rightarrow> fetched_job \<Rightarrow> job \<Rightarrow> db \<Rightarrow> db" where
  "finish_polled c f now uid acc status fetched j d =
     (let latency = latency_ms now (j_RequestTS j);
          final = domainStatus status (fj_Refunded fetched)
      in case TryMarkTerminal (pf_call f PwCas) now (j_ID j) [JobQueued, JobPending, JobRunning]
                final (terminal_meta status fetched latency j) (db_jobs d) of
           (Inl e, js) \<Rightarrow> d\<lparr> db_jobs := js \<rparr>
         | (Inr won, js) \<Rightarrow>
            (let d1 = d\<lparr> db_jobs := js \<rparr> in
             if \<not> won then d1
             else let d2 = releaseInFlight (pf_call f PwRelease) (j_AccountID j) d1;
                      d3 = (if status = ''completed''
                            then on_failover (RecordSuccess (pf_failover f) (pw_Failover c) (j_AccountID j)) d2
                            else d2);
                      j1 = j\<lparr> j_Status := final, j_ResultURL := fj_ResultURL fetched,
                             j_Refunded := fj_Refunded fetched, j_FinishedAt := Some now,
                             j_LatencyMS := latency \<rparr>
                  in observe (pw_OnTerminal c) j1
                      (fire_webhook (pw_Webhooks c) j1
                        (meter_terminal c f now uid (Some acc) j1 d3))))"

definition write_progress :: "poll_faults \<Rightarrow> int \<Rightarrow> job_status \<Rightarrow> job \<Rightarrow> db \<Rightarrow> db" where
  "write_progress f now st j d =
     d\<lparr> db_jobs := snd (UpdateStatus (pf_call f PwProgress) now (j_ID j) st
          (empty_meta\<lparr> jm_PollCount := wrap64 (j_PollCount j + 1) \<rparr>) (db_jobs d)) \<rparr>"

type_synonym poll_clock = "string \<Rightarrow> int option"

definition pollOne ::
  "poll_config \<Rightarrow> poll_answers \<Rightarrow> poll_faults \<Rightarrow> string \<Rightarrow> job \<Rightarrow> int \<Rightarrow> poll_clock \<times> db \<Rightarrow> poll_clock \<times> db" where
  "pollOne c an f uid j now w = (case w of (lastPolled, d) \<Rightarrow>
     if (case j_RequestTS j of None \<Rightarrow> False | Some t \<Rightarrow> dur_sub now t > pw_JobDeadline c)
     then (lastPolled, markTimeout c f now uid j d)
     else if j_UpstreamJobID j = '''' then w
     else if (case lastPolled (j_UpstreamJobID j) of None \<Rightarrow> False
              | Some t \<Rightarrow> dur_sub now t < pw_PerJobMinInterval c) then w
     else case GetAccount (pf_call f PwGet) (j_AccountID j) (db_accounts d) of
       Inl e \<Rightarrow> w
     | Inr acc \<Rightarrow>
        (let lp = lastPolled(j_UpstreamJobID j \<mapsto> now) in
         case an_status an of
           Inl e \<Rightarrow>
             (lp, write_progress f now (j_Status j) j
                    (on_failover (RecordError (pf_failover f) (pw_Failover c) now (j_AccountID j)
                       (Some e) (err_text e)) d))
         | Inr status \<Rightarrow>
             if \<not> upstream_terminal status
             then (lp, if j_Status j \<noteq> job_status_of_string status
                       then write_progress f now (job_status_of_string status) j d else d)
             else case an_fetch an of
               Inl e \<Rightarrow> (lp, d)
             | Inr fetched \<Rightarrow> (lp, finish_polled c f now uid acc status fetched j d)))"

text \<open>A tick: the pending jobs are read once, then polled in turn, each with its own
  answers.\<close>

fun poll_all ::
  "poll_config \<Rightarrow> (job \<Rightarrow> poll_answers) \<Rightarrow> (job \<Rightarrow> poll_faults) \<Rightarrow> (job \<Rightarrow> string) \<Rightarrow> int
     \<Rightarrow> job list \<Rightarrow> poll_clock \<times> db \<Rightarrow> poll_clock \<times> db" where
  "poll_all c an f uid now [] w = w"
| "poll_all c an f uid now (j # js) w = poll_all c an f uid now js (pollOne c (an j) (f j) (uid j) j now w)"

definition tick ::
  "poll_config \<Rightarrow> gerror option \<Rightarrow> (job \<Rightarrow> poll_answers) \<Rightarrow> (job \<Rightarrow> poll_faults) \<Rightarrow> (job \<Rightarrow> string) \<Rightarrow> int
     \<Rightarrow> poll_clock \<times> db \<Rightarrow> poll_clock \<times> db" where
  "tick c fail an f uid now w = (case ListPending fail (db_jobs (snd w)) of
     Inl e \<Rightarrow> w
   | Inr live \<Rightarrow> poll_all c an f uid now live w)"


section \<open>Lemmas\<close>

lemma TryMarkTerminal_worker_statuses:
  "TryMarkTerminal fail now jid [JobQueued, JobPending, JobRunning] to m rows =
   TryMarkTerminal fail now jid pending_statuses to m rows"
proof -
  have "set [JobQueued, JobPending, JobRunning] = set pending_statuses"
    by (auto simp: pending_statuses_def)
  moreover have "length [JobQueued, JobPending, JobRunning] \<noteq> 0" "length pending_statuses \<noteq> 0"
    by (simp_all add: pending_statuses_def)
  ultimately show ?thesis unfolding TryMarkTerminal_def by (simp only: if_False)
qed

text \<open>The four ways a compare-and-swap to a terminal status ends.\<close>

lemma cas_cases:
  assumes "job_ids_ok rows" "isTerminal to"
  obtains (fault) e where "TryMarkTerminal fail now jid [JobQueued, JobPending, JobRunning] to m rows = (Err e, rows)"
      "fail \<noteq> None"
  | (lost) "TryMarkTerminal fail now jid [JobQueued, JobPending, JobRunning] to m rows = (Ok False, rows)"
      "fail = None" "\<forall>r. find_row jr_id jid rows = Some r \<longrightarrow> jr_status r \<notin> set pending_statuses"
  | (won) r where "fail = None"
      "TryMarkTerminal fail now jid [JobQueued, JobPending, JobRunning] to m rows =
         (Ok True, sql_update (\<lambda>r. jr_id r = jid) (terminal_row now to m) rows)"
      "find_row jr_id jid rows = Some r" "jr_status r \<in> set pending_statuses"
proof (cases fail)
  case (Some e)
  then show ?thesis using assms(2) fault by (simp add: TryMarkTerminal_def)
next
  case None
  note cas = TryMarkTerminal_pending [OF assms, of now jid m]
  show ?thesis
  proof (cases "\<exists>r. find_row jr_id jid rows = Some r \<and> jr_status r \<in> set pending_statuses")
    case True
    then obtain r where r: "find_row jr_id jid rows = Some r" "jr_status r \<in> set pending_statuses" by blast
    show ?thesis
      by (rule won [OF None _ r]) (simp only: TryMarkTerminal_worker_statuses None cas r option.case if_True)
  next
    case False
    have "TryMarkTerminal None now jid pending_statuses to m rows = (Ok False, rows)"
      unfolding cas using False by (auto split: option.split)
    then show ?thesis using lost None False by (auto simp: TryMarkTerminal_worker_statuses)
  qed
qed

lemma domainStatus_terminal: "upstream_terminal s \<Longrightarrow> isTerminal (domainStatus s refunded)"
  by (auto simp: upstream_terminal_def domainStatus_def)

text \<open>Metering touches a job row only through the back-fill, and leaves the accounts alone.\<close>

lemma find_row_UpdateStatus:
  "find_row jr_id x (snd (UpdateStatus fail now jid st m rows)) =
     (if fail = None \<and> x = jid then map_option (progress_row now st m) (find_row jr_id x rows)
      else find_row jr_id x rows)"
  by (cases fail) (simp_all add: UpdateStatus_def find_row_jr_same find_row_jr_other)

lemma map_jr_id_UpdateStatus: "map jr_id (snd (UpdateStatus fail now jid st m rows)) = map jr_id rows"
  by (cases fail) (simp_all add: UpdateStatus_def map_key_sql_update)

lemma job_ids_ok_UpdateStatus:
  "job_ids_ok rows \<Longrightarrow> job_ids_ok (snd (UpdateStatus fail now jid st m rows))"
  by (simp add: job_ids_ok_def map_jr_id_UpdateStatus)

lemma job_status_UpdateStatus:
  "job_status_of x (snd (UpdateStatus fail now jid st m rows)) =
     (if fail = None \<and> x = jid then map_option (\<lambda>_. st) (job_status_of x rows) else job_status_of x rows)"
  by (auto simp: job_status_of_def find_row_UpdateStatus option.map_comp comp_def)

lemma billing_jobs [simp]:
  "db_jobs (bill_group r mf j c d) = db_jobs d" "db_jobs (bill_key r mf now j c d) = db_jobs d"
  by (simp_all add: bill_group_def bill_key_def)

lemma metering_frame:
  assumes "OnJobTerminal ropt mf now uid (Some j) acct pre m d = (res, d')"
  shows "db_accounts d' = db_accounts d" "db_fired d' = db_fired d"
    "db_jobs d' = db_jobs d \<or> (\<exists>mt. db_jobs d' = snd (UpdateStatus (mf_backfill mf) now (j_ID j) (j_Status j) mt (db_jobs d)))"
proof -
  have fired: "db_fired (bill_group r mf j c e) = db_fired e" "db_fired (bill_key r mf now j c e) = db_fired e"
    "db_fired (backfill_job r mf now j a c e) = db_fired e" for r c a e
    by (simp_all add: bill_group_def bill_key_def backfill_job_def)
  have "db_accounts d' = db_accounts d \<and> db_fired d' = db_fired d \<and> (db_jobs d' = db_jobs d \<or>
      (\<exists>mt. db_jobs d' = snd (UpdateStatus (mf_backfill mf) now (j_ID j) (j_Status j) mt (db_jobs d))))"
  proof (cases ropt)
    case None
    then show ?thesis using assms by (simp add: OnJobTerminal_def)
  next
    case (Some r)
    show ?thesis
      using assms unfolding Some
    proof (cases rule: OnJobTerminal_cases)
      case (failed e)
      then show ?thesis by simp
    next
      case (recorded act charged row)
      then show ?thesis by (auto simp: fired backfill_job_def)
    qed
  qed
  then show "db_accounts d' = db_accounts d" "db_fired d' = db_fired d"
    "db_jobs d' = db_jobs d \<or> (\<exists>mt. db_jobs d' = snd (UpdateStatus (mf_backfill mf) now (j_ID j) (j_Status j) mt (db_jobs d)))"
    by blast+
qed

lemma meter_terminal_frame:
  "db_accounts (meter_terminal c f now uid fb j d) = db_accounts d"
  "db_fired (meter_terminal c f now uid fb j d) = db_fired d"
  "db_jobs (meter_terminal c f now uid fb j d) = db_jobs d \<or>
   (\<exists>mt. db_jobs (meter_terminal c f now uid fb j d) =
      snd (UpdateStatus (mf_backfill (pf_meter f)) now (j_ID j) (j_Status j) mt (db_jobs d)))"
proof -
  consider "meter_terminal c f now uid fb j d = d"
    | r a m where "meter_terminal c f now uid fb j d =
        snd (OnJobTerminal (Some r) (pf_meter f) now uid (Some j) (Some a) (j_PreBalanceH j) m d)"
  proof (cases "pw_Meter c")
    case None
    then show ?thesis using that(1) by (simp add: meter_terminal_def)
  next
    case rcd: (Some r)
    let ?acct = "case GetAccount (pf_call f PwFresh) (j_AccountID j) (db_accounts d) of
                     Inl e \<Rightarrow> fb | Inr a \<Rightarrow> Some a"
    show ?thesis
    proof (cases ?acct)
      case None
      show ?thesis by (rule that(1)) (simp only: meter_terminal_def rcd option.case Let_def None)
    next
      case (Some a)
      show ?thesis by (rule that(2)) (simp only: meter_terminal_def rcd option.case Let_def Some)
    qed
  qed
  then have "db_accounts (meter_terminal c f now uid fb j d) = db_accounts d \<and>
      db_fired (meter_terminal c f now uid fb j d) = db_fired d \<and>
      (db_jobs (meter_terminal c f now uid fb j d) = db_jobs d \<or>
      (\<exists>mt. db_jobs (meter_terminal c f now uid fb j d) =
        snd (UpdateStatus (mf_backfill (pf_meter f)) now (j_ID j) (j_Status j) mt (db_jobs d))))"
  proof cases
    case (2 r a m)
    obtain res d' where run: "OnJobTerminal (Some r) (pf_meter f) now uid (Some j) (Some a) (j_PreBalanceH j) m d
        = (res, d')" by (cases "OnJobTerminal (Some r) (pf_meter f) now uid (Some j) (Some a) (j_PreBalanceH j) m d")
    show ?thesis unfolding 2 run snd_conv using metering_frame [OF run] by blast
  qed simp
  then show "db_accounts (meter_terminal c f now uid fb j d) = db_accounts d"
    "db_fired (meter_terminal c f now uid fb j d) = db_fired d"
    "db_jobs (meter_terminal c f now uid fb j d) = db_jobs d \<or>
     (\<exists>mt. db_jobs (meter_terminal c f now uid fb j d) =
        snd (UpdateStatus (mf_backfill (pf_meter f)) now (j_ID j) (j_Status j) mt (db_jobs d)))"
    by blast+
qed

lemma outbox_frame [simp]:
  "db_accounts (observe b j d) = db_accounts d" "db_accounts (fire_webhook b j d) = db_accounts d"
  "db_jobs (observe b j d) = db_jobs d" "db_jobs (fire_webhook b j d) = db_jobs d"
  "db_usages (observe b j d) = db_usages d" "db_usages (fire_webhook b j d) = db_usages d"
  "db_fired (observe b j d) = db_fired d"
  by (simp_all add: observe_def fire_webhook_def)

lemma release_frame [simp]:
  "db_jobs (releaseInFlight fail acct d) = db_jobs d" "db_fired (releaseInFlight fail acct d) = db_fired d"
  "db_usages (releaseInFlight fail acct d) = db_usages d"
  by (simp_all add: releaseInFlight_def)

lemma in_flight_RecordSuccess:
  "in_flight x (fs_accounts (RecordSuccess flt copt acct st)) = in_flight x (fs_accounts st)"
proof -
  have "in_flight x (snd (ResetFailStreak fail acct rows)) = in_flight x rows" for fail rows
    by (cases fail; cases "x = acct")
      (simp_all add: ResetFailStreak_def update_checked_ok in_flight_def find_row_ar_same
        find_row_ar_other split: option.split)
  then show ?thesis by (simp add: RecordSuccess_def split: option.split)
qed


lemma job_status_terminal_row:
  assumes "find_row jr_id jid rows = Some r"
  shows "job_status_of jid (sql_update (\<lambda>r. jr_id r = jid) (terminal_row now to m) rows) = Some to"
  by (simp add: job_status_of_def find_row_jr_same assms)

lemma job_status_meter_terminal:
  assumes "job_status_of (j_ID j) (db_jobs d) = Some (j_Status j)"
  shows "job_status_of (j_ID j) (db_jobs (meter_terminal c f now uid fb j d)) = Some (j_Status j)"
  using meter_terminal_frame(3) [of c f now uid fb j d]
proof (elim disjE exE)
  fix mt
  assume "db_jobs (meter_terminal c f now uid fb j d) =
      snd (UpdateStatus (mf_backfill (pf_meter f)) now (j_ID j) (j_Status j) mt (db_jobs d))"
  then show ?thesis by (simp add: job_status_UpdateStatus assms)
qed (simp add: assms)

lemma in_flight_release:
  "acct \<noteq> '''' \<Longrightarrow> find_row ar_id acct (db_accounts d) \<noteq> None \<Longrightarrow>
   in_flight acct (db_accounts (releaseInFlight None acct d)) = max 0 (in_flight acct (db_accounts d) - 1)"
  by (auto simp: releaseInFlight_def in_flight_UpdateInFlight)

section \<open>Properties\<close>

lemma finish_polled_effects:
  fixes c :: poll_config and now :: int and uid :: string and acc :: account and fetched :: fetched_job
  assumes ids: "job_ids_ok (db_jobs d)" and st: "upstream_terminal status"
    and nf: "pf_call f = (\<lambda>_. None)" and acct: "j_AccountID j \<noteq> ''''"
    and row: "find_row ar_id (j_AccountID j) (db_accounts d) \<noteq> None"
  defines "d' \<equiv> finish_polled c f now uid acc status fetched j d"
    and "final \<equiv> domainStatus status (fj_Refunded fetched)"
  shows "if \<exists>s. job_status_of (j_ID j) (db_jobs d) = Some s \<and> s \<in> set pending_statuses
    then job_status_of (j_ID j) (db_jobs d') = Some final \<and>
      in_flight (j_AccountID j) (db_accounts d') = max 0 (in_flight (j_AccountID j) (db_accounts d) - 1) \<and>
      (\<exists>j1. j_Status j1 = final \<and> j_ID j1 = j_ID j \<and>
        db_fired d' = db_fired d @
          (if pw_Webhooks c \<and> j_CallbackURL j \<noteq> '''' then [(j_CallbackURL j, j1)] else []))
    else d' = d"
  using ids domainStatus_terminal [where refunded = "fj_Refunded fetched", OF st]
proof (cases rule: cas_cases [where fail = "pf_call f PwCas" and now = now and jid = "j_ID j"
      and m = "terminal_meta status fetched (latency_ms now (j_RequestTS j)) j"])
  case (fault e)
  then show ?thesis by (simp add: nf)
next
  case lost
  then have "d' = d" by (simp add: d'_def finish_polled_def Let_def)
  moreover have "\<nexists>s. job_status_of (j_ID j) (db_jobs d) = Some s \<and> s \<in> set pending_statuses"
    using lost(3) by (auto simp: job_status_of_def)
  ultimately show ?thesis by (simp only: if_False)
next
  case (won r)
  define js where "js = sql_update (\<lambda>r. jr_id r = j_ID j) (terminal_row now final
      (terminal_meta status fetched (latency_ms now (j_RequestTS j)) j)) (db_jobs d)"
  define d2 where "d2 = releaseInFlight None (j_AccountID j) (d\<lparr> db_jobs := js \<rparr>)"
  define d3 where "d3 = (if status = ''completed''
      then on_failover (RecordSuccess (pf_failover f) (pw_Failover c) (j_AccountID j)) d2 else d2)"
  define j1 where "j1 = j\<lparr> j_Status := final, j_ResultURL := fj_ResultURL fetched,
      j_Refunded := fj_Refunded fetched, j_FinishedAt := Some now,
      j_LatencyMS := latency_ms now (j_RequestTS j) \<rparr>"
  have d': "d' = observe (pw_OnTerminal c) j1 (fire_webhook (pw_Webhooks c) j1
      (meter_terminal c f now uid (Some acc) j1 d3))"
    using won(2) by (simp add: d'_def finish_polled_def Let_def d3_def d2_def js_def j1_def final_def nf)
  have j1: "j_ID j1 = j_ID j" "j_Status j1 = final" "j_CallbackURL j1 = j_CallbackURL j"
    by (simp_all add: j1_def)
  have "job_status_of (j_ID j1) (db_jobs d3) = Some (j_Status j1)"
    using won(3) by (simp add: d3_def d2_def js_def j1 job_status_terminal_row)
  then have status: "job_status_of (j_ID j) (db_jobs d') = Some final"
    using job_status_meter_terminal [of j1 d3] by (simp add: d' j1)
  have "in_flight (j_AccountID j) (db_accounts d3) = in_flight (j_AccountID j) (db_accounts d2)"
    by (simp add: d3_def in_flight_RecordSuccess)
  then have slot: "in_flight (j_AccountID j) (db_accounts d') = max 0 (in_flight (j_AccountID j) (db_accounts d) - 1)"
    using in_flight_release [of "j_AccountID j" "d\<lparr> db_jobs := js \<rparr>"] acct row
    by (simp add: d' meter_terminal_frame(1) d2_def)
  have "db_fired d3 = db_fired d" by (simp add: d3_def d2_def)
  then have fired: "db_fired d' = db_fired d @
      (if pw_Webhooks c \<and> j_CallbackURL j \<noteq> '''' then [(j_CallbackURL j, j1)] else [])"
    by (simp add: d' fire_webhook_def j1 meter_terminal_frame(2))
  have "\<exists>s. job_status_of (j_ID j) (db_jobs d) = Some s \<and> s \<in> set pending_statuses"
    using won(3,4) by (simp add: job_status_of_def)
  then show ?thesis using status slot fired j1(1,2) by auto
qed

text \<open>C5. The end of a polled job belongs to the one observer whose compare-and-swap
  finds the row pending.  That one leaves the row in the final status of the
  upstream's answer, gives the account's slot back once, and hands the webhook
  to the dispatcher once, with the final status in it, whatever becomes of the
  metering; a poller that comes late changes nothing at all.\<close>

theorem finish_polled_spec:
  fixes c :: poll_config and now :: int and uid :: string and acc :: account and fetched :: fetched_job
  assumes ids: "job_ids_ok (db_jobs d)" and st: "upstream_terminal status"
    and nf: "pf_call f = (\<lambda>_. None)" and acct: "j_AccountID j \<noteq> ''''"
    and row: "find_row ar_id (j_AccountID j) (db_accounts d) \<noteq> None"
  defines "d' \<equiv> finish_polled c f now uid acc status fetched j d"
    and "final \<equiv> domainStatus status (fj_Refunded fetched)"
  shows "if \<exists>s. job_status_of (j_ID j) (db_jobs d) = Some s \<and> s \<in> set pending_statuses
    then job_status_of (j_ID j) (db_jobs d') = Some final \<and>
      in_flight (j_AccountID j) (db_accounts d') = max 0 (in_flight (j_AccountID j) (db_accounts d) - 1) \<and>
      (\<exists>j1. j_Status j1 = final \<and> j_ID j1 = j_ID j \<and>
        db_fired d' = db_fired d @
          (if pw_Webhooks c \<and> j_CallbackURL j \<noteq> '''' then [(j_CallbackURL j, j1)] else []))
    else d' = d"
  unfolding d'_def final_def by (rule finish_polled_effects [OF ids st nf acct row])

section \<open>The deadline\<close>

text \<open>A poll of one job leaves the rows of the others as they are.\<close>

lemma find_row_TryMark_other:
  assumes "x \<noteq> jid"
  shows "find_row jr_id x (snd (TryMarkTerminal fail now jid sts to m rows)) = find_row jr_id x rows"
proof -
  have "find_row jr_id x (sql_update (\<lambda>r. jr_id r = jid \<and> P r) (terminal_row now to m) rows) =
      find_row jr_id x rows" for P
    using find_row_SomeD [of jr_id x rows] assms
    by (subst find_row_update_gen [where key = jr_id]) (auto split: option.split simp: option.map_id0
        intro!: option.map_ident_strong)
  then show ?thesis by (simp add: TryMarkTerminal_def Let_def split: option.split)
qed

lemma map_jr_id_TryMark: "map jr_id (snd (TryMarkTerminal fail now jid sts to m rows)) = map jr_id rows"
  by (simp add: TryMarkTerminal_def Let_def map_key_sql_update split: option.split)

lemma meter_terminal_other:
  assumes "x \<noteq> j_ID j"
  shows "find_row jr_id x (db_jobs (meter_terminal c f now uid fb j d)) = find_row jr_id x (db_jobs d)"
  using meter_terminal_frame(3) [of c f now uid fb j d] assms by (auto simp: find_row_UpdateStatus)

lemma map_jr_id_meter:
  "map jr_id (db_jobs (meter_terminal c f now uid fb j d)) = map jr_id (db_jobs d)"
  using meter_terminal_frame(3) [of c f now uid fb j d] by (auto simp: map_jr_id_UpdateStatus)

lemma markTimeout_other:
  assumes "x \<noteq> j_ID j"
  shows "find_row jr_id x (db_jobs (markTimeout c f now uid j d)) = find_row jr_id x (db_jobs d)"
proof -
  obtain res js where cas: "TryMarkTerminal (pf_call f PwCas) now (j_ID j) [JobQueued, JobPending, JobRunning]
      JobTimeout (empty_meta\<lparr> jm_ErrorType := ErrTimeout,
        jm_ErrorDetail := ''job did not reach terminal state within deadline'',
        jm_LatencyMS := latency_ms now (j_RequestTS j) \<rparr>) (db_jobs d) = (res, js)"
    by (cases "TryMarkTerminal (pf_call f PwCas) now (j_ID j) [JobQueued, JobPending, JobRunning]
      JobTimeout (empty_meta\<lparr> jm_ErrorType := ErrTimeout,
        jm_ErrorDetail := ''job did not reach terminal state within deadline'',
        jm_LatencyMS := latency_ms now (j_RequestTS j) \<rparr>) (db_jobs d)")
  have "find_row jr_id x js = find_row jr_id x (db_jobs d)"
    using find_row_TryMark_other [OF assms] cas by (metis snd_conv)
  then show ?thesis
    using assms by (cases res) (simp_all add: markTimeout_def Let_def cas meter_terminal_other)
qed

lemma finish_polled_other:
  assumes "x \<noteq> j_ID j"
  shows "find_row jr_id x (db_jobs (finish_polled c f now uid acc status fetched j d)) =
    find_row jr_id x (db_jobs d)"
proof -
  obtain res js where cas: "TryMarkTerminal (pf_call f PwCas) now (j_ID j) [JobQueued, JobPending, JobRunning]
      (domainStatus status (fj_Refunded fetched))
      (terminal_meta status fetched (latency_ms now (j_RequestTS j)) j) (db_jobs d) = (res, js)"
    by (cases "TryMarkTerminal (pf_call f PwCas) now (j_ID j) [JobQueued, JobPending, JobRunning]
      (domainStatus status (fj_Refunded fetched))
      (terminal_meta status fetched (latency_ms now (j_RequestTS j)) j) (db_jobs d)")
  have "find_row jr_id x js = find_row jr_id x (db_jobs d)"
    using find_row_TryMark_other [OF assms] cas by (metis snd_conv)
  then show ?thesis
    using assms by (cases res) (simp_all add: finish_polled_def Let_def cas meter_terminal_other)
qed

lemma pollOne_other:
  assumes "x \<noteq> j_ID j"
  shows "find_row jr_id x (db_jobs (snd (pollOne c an f uid j now (lp, d)))) = find_row jr_id x (db_jobs d)"
  using assms
  by (simp add: pollOne_def markTimeout_other finish_polled_other write_progress_def find_row_UpdateStatus
      Let_def split: sum.split)


lemma pollOne_ids:
  "map jr_id (db_jobs (snd (pollOne c an f uid j now (lp, d)))) = map jr_id (db_jobs d)"
proof -
  have cas: "map jr_id js = map jr_id (db_jobs d)"
    if "TryMarkTerminal fail t jid sts new m (db_jobs d) = (res, js)" for fail t jid sts new m res js
    using map_jr_id_TryMark [of fail t jid sts new m "db_jobs d"] that by simp
  have t: "map jr_id (db_jobs (markTimeout c f now uid j d)) = map jr_id (db_jobs d)"
    by (auto simp: markTimeout_def Let_def map_jr_id_meter dest: cas split: prod.split sum.split)
  have p: "map jr_id (db_jobs (finish_polled c f now uid acc status fetched j d)) = map jr_id (db_jobs d)"
    for acc status fetched
    by (auto simp: finish_polled_def Let_def map_jr_id_meter dest: cas split: prod.split sum.split)
  show ?thesis
    by (simp add: pollOne_def t p write_progress_def map_jr_id_UpdateStatus Let_def split: sum.split)
qed

definition expired :: "poll_config \<Rightarrow> int \<Rightarrow> gotime \<Rightarrow> bool" where
  "expired c now t = (case t of None \<Rightarrow> False | Some s \<Rightarrow> dur_sub now s > pw_JobDeadline c)"

definition settled :: "string \<Rightarrow> db \<Rightarrow> bool" where
  "settled jid d \<longleftrightarrow> (\<forall>s. job_status_of jid (db_jobs d) = Some s \<longrightarrow> s \<notin> set pending_statuses)"

lemma settled_cong: "find_row jr_id x (db_jobs d') = find_row jr_id x (db_jobs d) \<Longrightarrow> settled x d' = settled x d"
  by (simp add: settled_def job_status_of_def)

text \<open>A poll of a job past its deadline leaves it settled, unless the store fails.\<close>

lemma markTimeout_settles:
  assumes "job_ids_ok (db_jobs d)" "pf_call f PwCas = None"
  shows "settled (j_ID j) (markTimeout c f now uid j d)"
proof -
  have "isTerminal JobTimeout" by simp
  with assms(1) show ?thesis
  proof (cases rule: cas_cases [where fail = "pf_call f PwCas" and now = now and jid = "j_ID j"
        and m = "empty_meta\<lparr> jm_ErrorType := ErrTimeout,
          jm_ErrorDetail := ''job did not reach terminal state within deadline'',
          jm_LatencyMS := latency_ms now (j_RequestTS j) \<rparr>"])
    case (fault e)
    then show ?thesis by (simp add: assms(2))
  next
    case lost
    then have "markTimeout c f now uid j d = d" by (simp add: markTimeout_def Let_def)
    then show ?thesis using lost(3) by (auto simp: settled_def job_status_of_def)
  next
    case (won r)
    let ?js = "sql_update (\<lambda>r. jr_id r = j_ID j) (terminal_row now JobTimeout
      (empty_meta\<lparr> jm_ErrorType := ErrTimeout,
          jm_ErrorDetail := ''job did not reach terminal state within deadline'',
          jm_LatencyMS := latency_ms now (j_RequestTS j) \<rparr>)) (db_jobs d)"
    let ?j = "j\<lparr> j_Status := JobTimeout, j_LatencyMS := latency_ms now (j_RequestTS j) \<rparr>"
    have eq: "db_jobs (markTimeout c f now uid j d) = db_jobs (meter_terminal c f now uid None ?j
        (releaseInFlight (pf_call f PwRelease) (j_AccountID j) (d\<lparr> db_jobs := ?js \<rparr>)))"
      using won(2) by (simp add: markTimeout_def Let_def)
    have "job_status_of (j_ID j) (db_jobs (markTimeout c f now uid j d)) = Some JobTimeout"
      unfolding eq using job_status_meter_terminal [of ?j] won(3)
      by (simp add: job_status_terminal_row)
    then show ?thesis by (simp add: settled_def pending_statuses_def)
  qed
qed

lemma pollOne_settles:
  assumes "job_ids_ok (db_jobs d)" "pf_call f PwCas = None" "expired c now (j_RequestTS j)"
  shows "settled (j_ID j) (snd (pollOne c an f uid j now (lp, d)))"
  using assms(3) markTimeout_settles [OF assms(1,2)] by (simp add: pollOne_def expired_def)

lemma poll_all_ids: "map jr_id (db_jobs (snd (poll_all c an f uid now js w))) = map jr_id (db_jobs (snd w))"
  by (induction js arbitrary: w) (auto simp: pollOne_ids prod.split_sel)

lemma poll_all_other:
  "x \<notin> j_ID ` set js \<Longrightarrow>
   find_row jr_id x (db_jobs (snd (poll_all c an f uid now js w))) = find_row jr_id x (db_jobs (snd w))"
proof (induction js arbitrary: w)
  case (Cons j js)
  then show ?case using pollOne_other [of x j c "an j" "f j" "uid j" now "fst w" "snd w"] by simp
qed simp

lemma poll_all_settles:
  assumes "job_ids_ok (db_jobs (snd w))" "distinct (map j_ID js)" "\<And>j. pf_call (f j) PwCas = None"
    "j \<in> set js" "expired c now (j_RequestTS j)"
  shows "settled (j_ID j) (snd (poll_all c an f uid now js w))"
  using assms
proof (induction js arbitrary: w)
  case (Cons a js)
  let ?w = "pollOne c (an a) (f a) (uid a) a now w"
  have ids: "job_ids_ok (db_jobs (snd ?w))"
    using Cons.prems(1) pollOne_ids [of c "an a" "f a" "uid a" a now "fst w" "snd w"]
    by (simp add: job_ids_ok_def)
  show ?case
  proof (cases "j = a")
    case True
    have "settled (j_ID a) (snd ?w)"
      using pollOne_settles [of "snd w" "f a" c now a "an a" "uid a" "fst w"] Cons.prems True by simp
    moreover have "j_ID a \<notin> j_ID ` set js" using Cons.prems(2) by simp
    ultimately show ?thesis using True settled_cong [OF poll_all_other] by simp
  next
    case False
    then show ?thesis using Cons.IH [OF ids] Cons.prems by simp
  qed
qed simp

lemma job_of_row_request_ts: "j_RequestTS (job_of_row r) = parseTime (jr_request_ts r)"
  by (simp add: job_of_row_def)

text \<open>C6. No pending job outlives its deadline by more than a tick: when a tick can
  list the pending jobs and its compare-and-swaps reach the store, every row that
  was pending and older than the deadline is settled after it, whatever the
  upstream answers and whatever else fails.\<close>

theorem tick_expires:
  assumes "job_ids_ok (db_jobs d)" "\<And>j. pf_call (f j) PwCas = None"
    and row: "r \<in> set (db_jobs d)" and old: "expired c now (parseTime (jr_request_ts r))"
  shows "settled (jr_id r) (snd (tick c None an f uid now (lp, d)))"
proof (cases "jr_status r \<in> set pending_statuses")
  case True
  let ?live = "map job_of_row (sort_key jr_request_ts
       (filter (\<lambda>r. jr_status r \<in> set pending_statuses) (db_jobs d)))"
  have t: "tick c None an f uid now (lp, d) = poll_all c an f uid now ?live (lp, d)"
    by (simp add: tick_def ListPending_def)
  have "job_of_row r \<in> set ?live" using row True by simp
  moreover have "distinct (map j_ID ?live)"
    using assms(1) unfolding job_ids_ok_def
    by (auto simp: comp_def distinct_map intro: inj_on_subset)
  ultimately have "settled (j_ID (job_of_row r)) (snd (poll_all c an f uid now ?live (lp, d)))"
    using poll_all_settles [of "(lp, d)" ?live f "job_of_row r" c now an uid] assms(1,2) old
    by (simp add: job_of_row_request_ts)
  then show ?thesis by (simp add: t)
next
  case False
  let ?live = "map job_of_row (sort_key jr_request_ts
       (filter (\<lambda>r. jr_status r \<in> set pending_statuses) (db_jobs d)))"
  have t: "tick c None an f uid now (lp, d) = poll_all c an f uid now ?live (lp, d)"
    by (simp add: tick_def ListPending_def)
  have found: "find_row jr_id (jr_id r) (db_jobs d) = Some r"
    using find_row_distinct [of jr_id] assms(1) row by (simp add: job_ids_ok_def)
  have "jr_id r \<notin> j_ID ` set ?live"
  proof
    assume "jr_id r \<in> j_ID ` set ?live"
    then obtain q where q: "q \<in> set (db_jobs d)" "jr_status q \<in> set pending_statuses" "jr_id q = jr_id r"
      by auto
    then have "q = r" using find_row_distinct [of jr_id "db_jobs d" q] found assms(1)
      by (simp add: job_ids_ok_def)
    then show False using False q(2) by simp
  qed
  then have "find_row jr_id (jr_id r) (db_jobs (snd (poll_all c an f uid now ?live (lp, d)))) =
      find_row jr_id (jr_id r) (db_jobs d)"
    using poll_all_other [of "jr_id r" ?live c an f uid now "(lp, d)"] by simp
  then show ?thesis using False found by (simp add: t settled_def job_status_of_def)
qed


definition demo_jobs_db :: "job_status \<Rightarrow> db" where
  "demo_jobs_db st = empty_db\<lparr> db_jobs := [insert_job_row (metered_job\<lparr> j_Status := st \<rparr>)],
     db_accounts := [demo_row ''a1''] \<rparr>"

lemma demo_jobs_db_sel:
  "job_ids_ok (db_jobs (demo_jobs_db st))"
  "job_status_of ''j1'' (db_jobs (demo_jobs_db st)) = Some st"
  "db_accounts (demo_jobs_db st) = [demo_row ''a1'']"
  "find_row ar_id ''a1'' [demo_row ''a1''] = Some (demo_row ''a1'')"
  by (simp_all add: demo_jobs_db_def job_ids_ok_def job_status_of_def sql_simps insert_job_row_def metered_job_def)

theorem finish_polled_spec_witness:
  "job_status_of ''j1'' (db_jobs (finish_polled worker_defaults no_poll_faults 5 ''u'' (demo_account ''a1'')
     ''nsfw'' \<lparr> fj_Status = ''nsfw'', fj_ResultURL = '''', fj_Refunded = True \<rparr> metered_job
     (demo_jobs_db JobQueued))) = Some JobRefunded"
proof -
  have id: "j_ID metered_job = ''j1''" "j_AccountID metered_job = ''a1''" by (simp_all add: metered_job_def)
  have "upstream_terminal ''nsfw''" by (simp add: upstream_terminal_def)
  moreover have "pf_call no_poll_faults = (\<lambda>_. None)" by (simp add: no_poll_faults_def)
  moreover have "j_AccountID metered_job \<noteq> ''''" by (simp add: metered_job_def)
  moreover have "find_row ar_id (j_AccountID metered_job) (db_accounts (demo_jobs_db JobQueued)) \<noteq> None"
    by (simp add: id demo_jobs_db_sel)
  ultimately show ?thesis
    using finish_polled_spec [OF demo_jobs_db_sel(1) [of JobQueued], of "''nsfw''" no_poll_faults metered_job
        worker_defaults 5 "''u''" "demo_account ''a1''"
        "\<lparr> fj_Status = ''nsfw'', fj_ResultURL = '''', fj_Refunded = True \<rparr>"]
    by (simp add: id demo_jobs_db_sel domainStatus_def pending_statuses_def)
qed

theorem tick_expires_witness:
  "settled ''j1'' (snd (tick worker_defaults None (\<lambda>_. \<lparr> an_status = Ok ''queued'', an_fetch = Err (NetErr ''x'') \<rparr>)
     (\<lambda>_. no_poll_faults) (\<lambda>_. ''u'') (3601 * nanos) (\<lambda>_. None, demo_jobs_db JobQueued)))"
proof -
  let ?r = "insert_job_row (metered_job\<lparr> j_Status := JobQueued \<rparr>)"
  have r: "?r \<in> set (db_jobs (demo_jobs_db JobQueued))" "jr_id ?r = ''j1''"
    by (simp_all add: demo_jobs_db_def insert_job_row_def metered_job_def)
  have "parseTime (jr_request_ts ?r) = Some 0"
    by (simp add: insert_job_row_def metered_job_def time_simps toSecond_def)
  then have "expired worker_defaults (3601 * nanos) (parseTime (jr_request_ts ?r))"
    by (simp add: expired_def worker_defaults_def dur_sub_def nanos_def)
  with tick_expires [OF demo_jobs_db_sel(1), of "\<lambda>_. no_poll_faults" ?r JobQueued worker_defaults] r
  show ?thesis by (simp add: no_poll_faults_def)
qed

text \<open>C38. The progress writes are not part of the compare-and-swap.  A poller that read
  a job as queued and whose status request is answered with a live status writes
  that status whatever the row holds by then: a job the synchronous path has
  completed meanwhile is pending again, and its end can be won a second time.\<close>

theorem stale_poll_reopens_job:
  assumes ids: "job_ids_ok (db_jobs d)"
    and row: "find_row jr_id (j_ID j) (db_jobs d) = Some r" "jr_status r = JobCompleted"
    and live: "\<not> expired c now (j_RequestTS j)" "j_UpstreamJobID j \<noteq> ''''" "lp (j_UpstreamJobID j) = None"
      "find_row ar_id (j_AccountID j) (db_accounts d) \<noteq> None"
    and ans: "an_status an = Ok ''in_progress''" "j_Status j = JobQueued" and nf: "pf_call f = (\<lambda>_. None)"
  shows "\<exists>d'. snd (pollOne c an f uid j now (lp, d)) = d' \<and>
    job_status_of (j_ID j) (db_jobs d') = Some JobRunning \<and>
    fst (tryMark (j_ID j) (now, JobCompleted, m) (db_jobs d'))"
proof -
  let ?d = "write_progress f now JobRunning j d"
  obtain a where a: "GetAccount None (j_AccountID j) (db_accounts d) = Ok a"
    using live(4) by (auto simp: GetAccount_def scanAccount_def)
  have "\<not> upstream_terminal ''in_progress''" by (simp add: upstream_terminal_def)
  moreover have "job_status_of_string ''in_progress'' = JobRunning" by (simp add: job_status_of_string.simps)
  ultimately have d: "snd (pollOne c an f uid j now (lp, d)) = ?d"
    using live ans a by (simp add: pollOne_def expired_def nf Let_def)
  have st: "job_status_of (j_ID j) (db_jobs ?d) = Some JobRunning"
    using row job_status_UpdateStatus [of "j_ID j" None now "j_ID j" JobRunning _ "db_jobs d"]
    by (simp add: write_progress_def nf) (simp add: job_status_of_def)
  have "job_ids_ok (db_jobs ?d)" using ids by (simp add: write_progress_def job_ids_ok_UpdateStatus)
  moreover have "JobRunning \<in> set pending_statuses" by (simp add: pending_statuses_def)
  ultimately have "fst (tryMark (j_ID j) (now, JobCompleted, m) (db_jobs ?d))"
    using job_cas.win_iff [of "db_jobs ?d" "(now, JobCompleted, m)" "j_ID j"] st
    by (simp add: mark_target_def)
  then show ?thesis using d st by blast
qed

theorem stale_poll_reopens_job_witness:
  "\<exists>d'. snd (pollOne worker_defaults \<lparr> an_status = Ok ''in_progress'', an_fetch = Err (NetErr ''x'') \<rparr> no_poll_faults
     ''u'' (metered_job\<lparr> j_Status := JobQueued \<rparr>) 5 (\<lambda>_. None, demo_jobs_db JobCompleted)) = d' \<and>
    job_status_of ''j1'' (db_jobs d') = Some JobRunning"
proof -
  let ?j = "metered_job\<lparr> j_Status := JobQueued \<rparr>"
  let ?r = "insert_job_row (metered_job\<lparr> j_Status := JobCompleted \<rparr>)"
  have r: "find_row jr_id (j_ID ?j) (db_jobs (demo_jobs_db JobCompleted)) = Some ?r" "jr_status ?r = JobCompleted"
    by (simp_all add: demo_jobs_db_def sql_simps insert_job_row_def metered_job_def)
  have l: "\<not> expired worker_defaults 5 (j_RequestTS ?j)" "j_UpstreamJobID ?j \<noteq> ''''"
    by (simp_all add: metered_job_def expired_def worker_defaults_def dur_sub_def nanos_def)
  have a: "find_row ar_id (j_AccountID ?j) (db_accounts (demo_jobs_db JobCompleted)) \<noteq> None"
    by (simp add: metered_job_def demo_jobs_db_sel)
  show ?thesis
    using stale_poll_reopens_job [OF demo_jobs_db_sel(1) r l, of "\<lambda>_. None"
        "\<lparr> an_status = Ok ''in_progress'', an_fetch = Err (NetErr ''x'') \<rparr>" no_poll_faults "''u''" empty_meta] a
    by (auto simp: metered_job_def no_poll_faults_def)
qed

end
