(* ===== verification/Proxy.thy ===== *)
theory Proxy
  imports RequestBody PollWorker
begin

text \<open>
  \<open>core/proxy/service.go\<close>: the generation pipeline.  \<open>Generate\<close> runs in three parts:
  the gates and the pick over the candidate groups, the creation of the upstream
  job and of its row, and, for a synchronous request, the end of the job.  The
  upstream's answers are inputs.  While a synchronous request waits for its job the
  rest of the process goes on, so what the tables become meanwhile is a parameter
  of the whole.
\<close>

section \<open>Wiring, requests, responses\<close>

record service =
  sv_Resolve :: "string \<Rightarrow> (gerror, model_spec) result"
  sv_StarterLocked :: "string \<Rightarrow> bool"
  sv_Regex :: "string \<Rightarrow> (string \<Rightarrow> bool) option"
  sv_Jobs :: bool
  sv_Groups :: bool
  sv_APIKeys :: bool
  sv_Settings :: bool
  sv_Meter :: "recorder option"
  sv_Webhooks :: bool
  sv_Failover :: "controller option"
  sv_AsyncByDefault :: bool
  sv_MaxInFlightPerAccountDefault :: int

record gen_request =
  rq_Model :: string
  rq_UserParams :: object
  rq_Media :: "media_input option"
  rq_Async :: bool
  rq_SyncRequested :: bool
  rq_GroupID :: string
  rq_GroupCandidates :: "string list"
  rq_APIKeyID :: string
  rq_CPAPartnerID :: string
  rq_APIKeyMonthlyQuota :: int
  rq_APIKeyMonthlyUsed :: int
  rq_CallbackURL :: string

record gen_response =
  resp_ID :: string
  resp_Object :: string
  resp_Model :: string
  resp_Status :: string
  resp_CreatedAt :: int
  resp_ResultURL :: string
  resp_UpstreamID :: string
  resp_Cost :: int
  resp_Data :: "string list"
  resp_PollURL :: string
  resp_ErrorType :: "string option"

text \<open>The store calls that can fail, per request.\<close>

datatype proxy_call = PxUnlim | PxCreateRow | PxCas | PxUnlock | PxFresh | PxKey

record proxy_faults =
  xf_call :: "proxy_call \<Rightarrow> gerror option"
  xf_group :: "string \<Rightarrow> gerror option"
  xf_pick :: "string \<Rightarrow> pick_step \<Rightarrow> gerror option"
  xf_setting :: "string \<Rightarrow> gerror option"
  xf_meter :: metering_faults
  xf_failover :: failover_faults

definition no_proxy_faults :: proxy_faults where
  "no_proxy_faults = \<lparr> xf_call = (\<lambda>_. None), xf_group = (\<lambda>_. None), xf_pick = (\<lambda>_ _. None),
     xf_setting = (\<lambda>_. None), xf_meter = no_faults, xf_failover = (\<lambda>_. None) \<rparr>"

section \<open>Gates\<close>

record group_policy =
  gp_RouteStrategy :: route_strategy
  gp_MaxGroupInFlight :: int
  gp_MaxConcurrentPerAccount :: int
  gp_AllowedModels :: "(string \<Rightarrow> bool) option"
  gp_BlockedModels :: "(string \<Rightarrow> bool) option"
  gp_MonthlyCreditBudget :: int
  gp_MonthlyCreditUsed :: int

definition open_policy :: group_policy where
  "open_policy = \<lparr> gp_RouteStrategy = RouteRoundRobin, gp_MaxGroupInFlight = 0,
     gp_MaxConcurrentPerAccount = 0, gp_AllowedModels = None, gp_BlockedModels = None,
     gp_MonthlyCreditBudget = 0, gp_MonthlyCreditUsed = 0 \<rparr>"

definition compileGroupRegex :: "service \<Rightarrow> string \<Rightarrow> (string \<Rightarrow> bool) option" where
  "compileGroupRegex s pattern = (if pattern = '''' then None else sv_Regex s pattern)"

definition resolveGroupPolicy :: "service \<Rightarrow> gerror option \<Rightarrow> string \<Rightarrow> groups \<Rightarrow> group_policy" where
  "resolveGroupPolicy s fail gid gs =
     (if \<not> sv_Groups s \<or> gid = '''' then open_policy
      else case GetGroup fail gid gs of
        Inl e \<Rightarrow> open_policy
      | Inr g \<Rightarrow> \<lparr>
          gp_RouteStrategy = (if g_RouteStrategy g = RouteNone then RouteRoundRobin else g_RouteStrategy g),
          gp_MaxGroupInFlight = g_MaxConcurrentJobs g,
          gp_MaxConcurrentPerAccount = g_MaxConcurrentPerAccount g,
          gp_AllowedModels = compileGroupRegex s (g_AllowedModelsRegex g),
          gp_BlockedModels = compileGroupRegex s (g_BlockedModelsRegex g),
          gp_MonthlyCreditBudget = g_MonthlyCreditBudget g,
          gp_MonthlyCreditUsed = g_MonthlyCreditUsed g \<rparr>)"

definition enforceGroupGates :: "group_policy \<Rightarrow> string \<Rightarrow> int \<Rightarrow> gerror option" where
  "enforceGroupGates p alias est =
     (if (case gp_BlockedModels p of Some re \<Rightarrow> re alias | None \<Rightarrow> False) then Some (Sent ErrModelBlocked)
      else if (case gp_AllowedModels p of Some re \<Rightarrow> \<not> re alias | None \<Rightarrow> False)
      then Some (Sent ErrModelNotAllowed)
      else if gp_MonthlyCreditBudget p > 0 \<and>
              wrap64 (gp_MonthlyCreditUsed p + est) > gp_MonthlyCreditBudget p
      then Some (Sent ErrGroupQuotaExhausted)
      else None)"

definition enforceKeyGates :: "gen_request \<Rightarrow> int \<Rightarrow> gerror option" where
  "enforceKeyGates req est =
     (if rq_APIKeyMonthlyQuota req \<le> 0 then None
      else if wrap64 (rq_APIKeyMonthlyUsed req + est) > rq_APIKeyMonthlyQuota req
      then Some (Sent ErrAPIKeyQuotaExceed) else None)"

definition isSpilloverEligible :: "gerror \<Rightarrow> bool" where
  "isSpilloverEligible e \<longleftrightarrow> errorsIs e ErrGroupConcurrencyMax \<or> errorsIs e ErrGroupQuotaExhausted \<or>
     errorsIs e ErrNoEligibleAccount \<or> errorsIs e ErrModelBlocked \<or> errorsIs e ErrModelNotAllowed"

definition classifyCreateErr :: "gerror \<Rightarrow> error_type" where
  "classifyCreateErr e =
     (if errorsIs e ErrUpstreamUnauthorized then ErrUpstream
      else if errorsIs e ErrUpstreamRateLimit then ErrRateLimit
      else if errorsIs e ErrUpstreamBadBody then ErrBody
      else if errorsIs e ErrUpstreamForbidden then ErrGate
      else if errorsIs e ErrUpstreamServerError then ErrUpstream
      else if errorsIs e ErrUpstreamTimeout then ErrTimeout
      else ErrUnknown)"

section \<open>The pick over the candidate groups\<close>

definition zero_lb_opts :: lb_opts where
  "zero_lb_opts = \<lparr> lb_Populated = False, lb_TierAware = False, lb_PreferUnlim = False,
     lb_PreferFreeQuota = False, lb_PreferRicher = False, lb_BalanceHeadroomPct = 0, lb_Jitter = False \<rparr>"

definition resolveLoadBalanceOpts :: "service \<Rightarrow> (string \<Rightarrow> gerror option) \<Rightarrow> settings \<Rightarrow> lb_opts" where
  "resolveLoadBalanceOpts s fail rows =
     (if \<not> sv_Settings s then zero_lb_opts
      else ToOpts (ResolveLB (Some (\<lambda>k. GetSetting (fail k) k rows))))"

definition pick_params_for ::
  "service \<Rightarrow> model_spec \<Rightarrow> group_policy \<Rightarrow> string \<Rightarrow> lb_opts \<Rightarrow> pick_params" where
  "pick_params_for s spec p gid lb = \<lparr>
     pp_JST = sp_JST spec,
     pp_EstCostHundredths = sp_EstCostHundredths spec,
     pp_MinPlan = sp_MinPlan spec,
     pp_RequiresPaid = sv_StarterLocked s (sp_JST spec) \<or> sp_RequiresPaid spec,
     pp_RequiresUltra = sp_RequiresUltra spec,
     pp_RequiresUnlim = sp_RequiresUnlim spec,
     pp_GroupID = gid,
     pp_RouteStrategy = gp_RouteStrategy p,
     pp_MaxGroupInFlight = gp_MaxGroupInFlight p,
     pp_MaxConcurrentPerAccount =
       (if gp_MaxConcurrentPerAccount p = 0 then sv_MaxInFlightPerAccountDefault s
        else gp_MaxConcurrentPerAccount p),
     pp_LoadBalance = lb,
     pp_UnlimJobSetType = sp_UnlimJobSetType spec,
     pp_FreeQuotaField = sp_FreeQuotaField spec \<rparr>"

definition try_group ::
  "service \<Rightarrow> proxy_faults \<Rightarrow> (string \<Rightarrow> int) \<Rightarrow> int \<Rightarrow> model_spec \<Rightarrow> string \<Rightarrow> db
     \<Rightarrow> (gerror, account \<times> string) result \<times> db" where
  "try_group s f random now spec gid d =
     (let p = resolveGroupPolicy s (xf_group f gid) gid (db_groups d) in
      case enforceGroupGates p (sp_Alias spec) (sp_EstCostHundredths spec) of
        Some e \<Rightarrow> (Err e, d)
      | None \<Rightarrow>
          (case PickAndLock (xf_pick f gid) random now
                  (pick_params_for s spec p gid (resolveLoadBalanceOpts s (xf_setting f) (db_settings d)))
                  (db_members d) (db_unlims d) (db_accounts d) of
             (res, rows) \<Rightarrow> (res, d\<lparr> db_accounts := rows \<rparr>)))"

fun pick_loop ::
  "service \<Rightarrow> proxy_faults \<Rightarrow> (string \<Rightarrow> int) \<Rightarrow> int \<Rightarrow> model_spec \<Rightarrow> string list \<Rightarrow> db
     \<Rightarrow> (gerror, account \<times> string \<times> string) result \<times> db" where
  "pick_loop s f random now spec [] d = (Err (Sent ErrNoEligibleAccount), d)"
| "pick_loop s f random now spec (gid # rest) d =
     (case try_group s f random now spec gid d of
        (Inl e, d1) \<Rightarrow>
          (if rest \<noteq> [] \<and> isSpilloverEligible e then pick_loop s f random now spec rest d1
           else (Err e, d1))
      | (Inr (acc, token), d1) \<Rightarrow> (Ok (acc, token, gid), d1))"

definition candidates_of :: "gen_request \<Rightarrow> string list" where
  "candidates_of req = (if rq_GroupCandidates req = [] then [rq_GroupID req] else rq_GroupCandidates req)"


section \<open>From the pick to the upstream job\<close>

text \<open>A body is built of strings, booleans and decoded JSON, so its encoding never fails.\<close>

definition EnsureBodyJSON :: "object \<Rightarrow> string" where "EnsureBodyJSON body = marshal (JObj body)"

record created_job =
  cr_JobID :: string
  cr_Cost :: int

text \<open>What a request carries from the pick on.\<close>

record gen_ctx =
  gx_Spec :: model_spec
  gx_Req :: gen_request
  gx_Acc :: account
  gx_Token :: string
  gx_Endpoint :: string
  gx_Created :: created_job
  gx_RequestTS :: int
  gx_Persisted :: bool

text \<open>The once-wrapped release; the flow below reaches it at most once.\<close>

definition unlock :: "proxy_faults \<Rightarrow> account \<Rightarrow> string \<Rightarrow> db \<Rightarrow> db" where
  "unlock f acc token d =
     d\<lparr> db_accounts := snd (Unlock (xf_call f PxUnlock) (a_ID acc) token (db_accounts d)) \<rparr>"

definition resolveMarkup :: "service \<Rightarrow> proxy_faults \<Rightarrow> string \<Rightarrow> keys \<Rightarrow> rat" where
  "resolveMarkup s f kid ks =
     (if \<not> sv_APIKeys s \<or> kid = '''' then 0
      else case GetKey (xf_call f PxKey) kid ks of Inl e \<Rightarrow> 0 | Inr k \<Rightarrow> k_MarkupPct k)"

definition unlim_route ::
  "proxy_faults \<Rightarrow> int \<Rightarrow> model_spec \<Rightarrow> account \<Rightarrow> unlims \<Rightarrow> string \<times> bool" where
  "unlim_route f now spec acc us =
     (if sp_UnlimJobSetType spec = '''' then (sp_Endpoint spec, False)
      else case HasActiveUnlimFor (xf_call f PxUnlim) now (a_ID acc) (sp_UnlimJobSetType spec) us of
        Inl e \<Rightarrow> (sp_Endpoint spec, False)
      | Inr has \<Rightarrow> (if has then (''/jobs/v2/'' @ sp_UnlimJobSetType spec, True)
                    else (sp_Endpoint spec, False)))"

definition empty_job :: job where
  "empty_job = \<lparr> j_ID = '''', j_APIKeyID = '''', j_CPAPartnerID = '''', j_GroupID = '''', j_AccountID = '''',
     j_ModelAlias = '''', j_JST = '''', j_Endpoint = '''', j_RequestBodyJSON = '''', j_RequestTS = None,
     j_UpstreamJobID = '''', j_UpstreamCost = 0, j_ResultURL = '''', j_Status = JobOther '''',
     j_ErrorType = ErrNone, j_ErrorDetail = '''', j_FinishedAt = None, j_LatencyMS = 0, j_PollCount = 0,
     j_ActualCreditsHundredths = 0, j_ChargedCreditsHundredths = 0, j_Refunded = False,
     j_PreBalanceH = 0, j_CallbackURL = '''' \<rparr>"

text \<open>The fields the three snapshots of a request share.\<close>

definition request_job :: "gen_request \<Rightarrow> model_spec \<Rightarrow> account \<Rightarrow> string \<Rightarrow> string \<Rightarrow> int \<Rightarrow> job" where
  "request_job req spec acc endpoint jid ts = empty_job\<lparr>
     j_ID := jid, j_APIKeyID := rq_APIKeyID req, j_CPAPartnerID := rq_CPAPartnerID req,
     j_GroupID := rq_GroupID req, j_AccountID := a_ID acc, j_ModelAlias := sp_Alias spec,
     j_JST := sp_JST spec, j_Endpoint := endpoint, j_RequestTS := Some ts \<rparr>"

definition create_failed_job :: "gen_request \<Rightarrow> model_spec \<Rightarrow> account \<Rightarrow> string \<Rightarrow> string \<Rightarrow> int \<Rightarrow> gerror \<Rightarrow> job" where
  "create_failed_job req spec acc endpoint cfid ts e =
     (request_job req spec acc endpoint cfid ts)\<lparr> j_Status := JobFailed,
        j_ErrorType := classifyCreateErr e, j_FinishedAt := Some ts \<rparr>"

definition queued_job :: "gen_request \<Rightarrow> model_spec \<Rightarrow> account \<Rightarrow> string \<Rightarrow> string \<Rightarrow> created_job \<Rightarrow> int \<Rightarrow> job" where
  "queued_job req spec acc endpoint body cr ts =
     (request_job req spec acc endpoint (cr_JobID cr) ts)\<lparr> j_RequestBodyJSON := body,
        j_UpstreamJobID := cr_JobID cr, j_UpstreamCost := cr_Cost cr, j_Status := JobQueued,
        j_PreBalanceH := a_SubscriptionBalance acc, j_CallbackURL := rq_CallbackURL req \<rparr>"

definition queued_response :: "model_spec \<Rightarrow> created_job \<Rightarrow> int \<Rightarrow> gen_response" where
  "queued_response spec cr ts = \<lparr> resp_ID = cr_JobID cr, resp_Object = objectForOutput (sp_Output spec),
     resp_Model = sp_Alias spec, resp_Status = ''queued'', resp_CreatedAt = ts div nanos, resp_ResultURL = '''',
     resp_UpstreamID = cr_JobID cr, resp_Cost = cr_Cost cr, resp_Data = [],
     resp_PollURL = ''/v1/jobs/'' @ cr_JobID cr, resp_ErrorType = None \<rparr>"

text \<open>The upstream refused the job: failover feedback, a usage row under a local
  identifier, and the release.\<close>

definition create_failed ::
  "service \<Rightarrow> proxy_faults \<Rightarrow> int \<Rightarrow> string \<Rightarrow> string \<Rightarrow> gen_request \<Rightarrow> model_spec \<Rightarrow> account \<Rightarrow> string
     \<Rightarrow> string \<Rightarrow> gerror \<Rightarrow> db \<Rightarrow> db" where
  "create_failed s f ts uid cfid req spec acc token endpoint e d =
     (let d1 = on_failover (RecordError (xf_failover f) (sv_Failover s) ts (a_ID acc) (Some e) (err_text e)) d;
          d2 = (case sv_Meter s of None \<Rightarrow> d1
                | Some r \<Rightarrow> snd (OnJobTerminal (Some r) (xf_meter f) ts uid
                    (Some (create_failed_job req spec acc endpoint cfid ts e)) (Some acc) 0
                    (resolveMarkup s f (rq_APIKeyID req) (db_keys d1)) d1))
      in unlock f acc token d2)"

definition persist_job :: "service \<Rightarrow> proxy_faults \<Rightarrow> job \<Rightarrow> db \<Rightarrow> bool \<times> db" where
  "persist_job s f j d =
     (if \<not> sv_Jobs s then (False, d)
      else case CreateJob (xf_call f PxCreateRow) (db_accounts d) j (db_jobs d) of
        (res, js) \<Rightarrow> (is_ok res, d\<lparr> db_jobs := js \<rparr>))"

text \<open>A request after its pick: either it is over, or it goes on to wait for its job.\<close>

definition gen_create ::
  "service \<Rightarrow> proxy_faults \<Rightarrow> int \<Rightarrow> string \<Rightarrow> string \<Rightarrow> gen_request \<Rightarrow> model_spec \<Rightarrow> bool \<Rightarrow> account \<Rightarrow> string
     \<Rightarrow> (gerror, created_job) result \<Rightarrow> db \<Rightarrow> ((gerror, gen_response) result + gen_ctx) \<times> db" where
  "gen_create s f ts uid cfid req spec async acc token ans d =
     (case unlim_route f ts spec acc (db_unlims d) of (endpoint, useUnlim) \<Rightarrow>
      case buildBody spec (rq_UserParams req) (rq_Media req) useUnlim of
        Inl e \<Rightarrow> (Inl (Err e), unlock f acc token d)
      | Inr body \<Rightarrow>
         (case ans of
            Inl e \<Rightarrow> (Inl (Err e), create_failed s f ts uid cfid req spec acc token endpoint e d)
          | Inr cr \<Rightarrow>
             (case persist_job s f (queued_job req spec acc endpoint (EnsureBodyJSON body) cr ts) d of
                (persisted, d1) \<Rightarrow>
                  (if async \<and> persisted then (Inl (Ok (queued_response spec cr ts)), d1)
                   else (Inr \<lparr> gx_Spec = spec, gx_Req = req, gx_Acc = acc, gx_Token = token,
                           gx_Endpoint = endpoint, gx_Created = cr, gx_RequestTS = ts,
                           gx_Persisted = persisted \<rparr>, d1)))))"

definition is_async :: "service \<Rightarrow> gen_request \<Rightarrow> model_spec \<Rightarrow> bool" where
  "is_async s req spec \<longleftrightarrow> rq_Async req \<or>
     (\<not> rq_SyncRequested req \<and> sv_AsyncByDefault s \<and> (sp_Output spec = ''video'' \<or> sp_Output spec = ''audio''))"

definition gen_begin ::
  "service \<Rightarrow> proxy_faults \<Rightarrow> (string \<Rightarrow> int) \<Rightarrow> int \<Rightarrow> string \<Rightarrow> string \<Rightarrow> gen_request
     \<Rightarrow> (gerror, created_job) result \<Rightarrow> db \<Rightarrow> ((gerror, gen_response) result + gen_ctx) \<times> db" where
  "gen_begin s f random now uid cfid req ans d =
     (case sv_Resolve s (rq_Model req) of
        Inl e \<Rightarrow> (Inl (Err (Wrap ''resolve model'' e)), d)
      | Inr spec \<Rightarrow>
         (case enforceKeyGates req (sp_EstCostHundredths spec) of
            Some e \<Rightarrow> (Inl (Err e), d)
          | None \<Rightarrow>
             (case pick_loop s f random now spec (candidates_of req) d of
                (Inl e, d1) \<Rightarrow> (Inl (Err e), d1)
              | (Inr (acc, token, gid), d1) \<Rightarrow>
                  gen_create s f now uid cfid (req\<lparr> rq_GroupID := gid \<rparr>) spec (is_async s req spec)
                    acc token ans d1)))"

section \<open>The end of a synchronous request\<close>

definition sync_status :: "string \<Rightarrow> bool \<Rightarrow> job_status" where
  "sync_status status refunded =
     (if status = ''failed'' \<and> refunded then JobRefunded else job_status_of_string status)"

definition sync_job :: "gen_ctx \<Rightarrow> int \<Rightarrow> fetched_job \<Rightarrow> job" where
  "sync_job x t2 fin =
     (request_job (gx_Req x) (gx_Spec x) (gx_Acc x) (sp_Endpoint (gx_Spec x)) (cr_JobID (gx_Created x))
        (gx_RequestTS x))\<lparr> j_UpstreamJobID := cr_JobID (gx_Created x), j_UpstreamCost := cr_Cost (gx_Created x),
        j_ResultURL := fj_ResultURL fin, j_Status := sync_status (fj_Status fin) (fj_Refunded fin),
        j_LatencyMS := latency_ms t2 (Some (gx_RequestTS x)), j_Refunded := fj_Refunded fin,
        j_FinishedAt := Some t2 \<rparr>"

text \<open>Who runs the side effects: the winner of the compare-and-swap, or the request
  itself when there is no row to swap or the swap failed.\<close>

definition sync_cas :: "service \<Rightarrow> proxy_faults \<Rightarrow> gen_ctx \<Rightarrow> int \<Rightarrow> fetched_job \<Rightarrow> db \<Rightarrow> bool \<times> db" where
  "sync_cas s f x t2 fin d =
     (if gx_Persisted x \<and> sv_Jobs s
      then (case TryMarkTerminal (xf_call f PxCas) t2 (cr_JobID (gx_Created x)) [JobQueued, JobPending, JobRunning]
                   (sync_status (fj_Status fin) (fj_Refunded fin))
                   (empty_meta\<lparr> jm_ResultURL := fj_ResultURL fin,
                      jm_LatencyMS := latency_ms t2 (Some (gx_RequestTS x)),
                      jm_Refunded := fj_Refunded fin \<rparr>) (db_jobs d) of
              (Inl e, js) \<Rightarrow> (True, d\<lparr> db_jobs := js \<rparr>)
            | (Inr won, js) \<Rightarrow> (won, d\<lparr> db_jobs := js \<rparr>))
      else (True, d))"

definition sync_effects :: "service \<Rightarrow> proxy_faults \<Rightarrow> gen_ctx \<Rightarrow> int \<Rightarrow> string \<Rightarrow> fetched_job \<Rightarrow> db \<Rightarrow> db" where
  "sync_effects s f x t2 uid fin d =
     (let mj = sync_job x t2 fin;
          d1 = unlock f (gx_Acc x) (gx_Token x) d;
          fresh = (case GetAccount (xf_call f PxFresh) (a_ID (gx_Acc x)) (db_accounts d1) of
                     Inl e \<Rightarrow> gx_Acc x | Inr a \<Rightarrow> a);
          d2 = (case sv_Meter s of None \<Rightarrow> d1
                | Some r \<Rightarrow> snd (OnJobTerminal (Some r) (xf_meter f) t2 uid (Some mj) (Some fresh)
                    (a_SubscriptionBalance (gx_Acc x))
                    (resolveMarkup s f (rq_APIKeyID (gx_Req x)) (db_keys d1)) d1))
      in if sv_Webhooks s \<and> rq_CallbackURL (gx_Req x) \<noteq> ''''
         then d2\<lparr> db_fired := db_fired d2 @ [(rq_CallbackURL (gx_Req x), mj)] \<rparr> else d2)"

definition final_response :: "gen_ctx \<Rightarrow> fetched_job \<Rightarrow> gen_response" where
  "final_response x fin = \<lparr> resp_ID = cr_JobID (gx_Created x),
     resp_Object = objectForOutput (sp_Output (gx_Spec x)), resp_Model = sp_Alias (gx_Spec x),
     resp_Status = fj_Status fin, resp_CreatedAt = gx_RequestTS x div nanos, resp_ResultURL = fj_ResultURL fin,
     resp_UpstreamID = cr_JobID (gx_Created x), resp_Cost = cr_Cost (gx_Created x),
     resp_Data = (if fj_ResultURL fin \<noteq> '''' then [fj_ResultURL fin] else []), resp_PollURL = '''',
     resp_ErrorType = (if fj_Status fin = ''failed'' then Some ''upstream_fail'' else None) \<rparr>"

definition gen_finish ::
  "service \<Rightarrow> proxy_faults \<Rightarrow> int \<Rightarrow> string \<Rightarrow> gen_ctx \<Rightarrow> (gerror, fetched_job) result \<Rightarrow> db
     \<Rightarrow> (gerror, gen_response) result \<times> db" where
  "gen_finish s f t2 uid x ans d = (case ans of
     Inl e \<Rightarrow>
       (let d1 = unlock f (gx_Acc x) (gx_Token x) d in
        if errorsIs e ErrUpstreamTimeout
        then (Ok (queued_response (gx_Spec x) (gx_Created x) (gx_RequestTS x)), d1)
        else (Err e, on_failover (RecordError (xf_failover f) (sv_Failover s) t2 (a_ID (gx_Acc x))
                       (Some e) (err_text e)) d1))
   | Inr fin \<Rightarrow>
       (let d1 = (if fj_Status fin = ''completed''
                  then on_failover (RecordSuccess (xf_failover f) (sv_Failover s) (a_ID (gx_Acc x))) d
                  else d) in
        case sync_cas s f x t2 fin d1 of
          (won, d2) \<Rightarrow> (Ok (final_response x fin), if won then sync_effects s f x t2 uid fin d2 else d2)))"

text \<open>The whole request; \<open>meanwhile\<close> is what the rest of the process does to the
  tables while a synchronous request waits.\<close>

definition Generate ::
  "service \<Rightarrow> proxy_faults \<Rightarrow> (string \<Rightarrow> int) \<Rightarrow> int \<Rightarrow> int \<Rightarrow> string \<Rightarrow> string \<Rightarrow> gen_request
     \<Rightarrow> (gerror, created_job) result \<Rightarrow> (gerror, fetched_job) result \<Rightarrow> (db \<Rightarrow> db) \<Rightarrow> db
     \<Rightarrow> (gerror, gen_response) result \<times> db" where
  "Generate s f random now t2 uid cfid req ans fin meanwhile d =
     (case gen_begin s f random now uid cfid req ans d of
        (Inl out, d1) \<Rightarrow> (out, d1)
      | (Inr x, d1) \<Rightarrow> gen_finish s f t2 uid x fin (meanwhile d1))"

end
