(* ===== verification/Slots.thy ===== *)
theory Slots
  imports Failover
begin

text \<open>
  The slots of the accounts, seen apart from everything else a row holds.  Failover
  moves statuses, streaks and cooldowns and never a slot; the lemmas collected here
  let the proofs about slots skip every failover call.
\<close>

section \<open>What touches the slots\<close>

definition slot_view :: "accounts \<Rightarrow> (string \<times> int) list" where
  "slot_view rows = map (\<lambda>r. (ar_id r, ar_in_flight_jobs r)) rows"

lemma in_flight_slot_view: "in_flight x rows = (case map_of (slot_view rows) x of None \<Rightarrow> 0 | Some n \<Rightarrow> n)"
  by (induction rows) (auto simp: in_flight_def slot_view_def sql_simps)

lemma keys_slot_view: "keys_of ar_id rows = fst ` set (slot_view rows)"
  by (force simp: keys_of_def slot_view_def)

lemma slot_view_update:
  "(\<And>r. ar_id (f r) = ar_id r) \<Longrightarrow> (\<And>r. ar_in_flight_jobs (f r) = ar_in_flight_jobs r) \<Longrightarrow>
   slot_view (sql_update P f rows) = slot_view rows"
  unfolding slot_view_def by (rule map_key_sql_update) simp

lemma slot_view_checked:
  assumes "\<And>r. ar_id (f r) = ar_id r" "\<And>r. ar_in_flight_jobs (f r) = ar_in_flight_jobs r"
  shows "slot_view (snd (update_checked fail acct f rows)) = slot_view rows"
proof -
  have "snd (update_checked fail acct f rows) = rows \<or>
      snd (update_checked fail acct f rows) = sql_update (\<lambda>r. ar_id r = acct) f rows"
    using update_checked_cases [of fail acct f rows "fst (update_checked fail acct f rows)"
        "snd (update_checked fail acct f rows)"] by simp
  then show ?thesis using slot_view_update [of f, OF assms] by auto
qed

named_theorems slot_frame

lemma slot_view_status [slot_frame]:
  "slot_view (snd (MarkStatus fail now acct st reason rows)) = slot_view rows"
  "slot_view (snd (MarkThrottled fail now acct til reason rows)) = slot_view rows"
  "slot_view (snd (ResetFailStreak fail acct rows)) = slot_view rows"
  by (cases st; simp add: MarkStatus_def MarkThrottled_def ResetFailStreak_def slot_view_checked)+

lemma slot_view_IncrFailStreak [slot_frame]:
  "slot_view (snd (IncrFailStreak fail now acct rows)) = slot_view rows"
  by (auto simp: IncrFailStreak_def Let_def intro!: slot_view_update split: option.split)

lemma slot_view_disable [slot_frame]:
  "slot_view (fs_accounts (disable_account flt c now acct reason st)) = slot_view (fs_accounts st)"
proof -
  let ?st = "add_event (flt FoDisableInsert) c now acct EventFailure reason 0 st"
  obtain res rows where m: "MarkStatus (flt FoMarkStatus) now acct StatusDisabled reason (fs_accounts ?st) = (res, rows)"
    by (cases "MarkStatus (flt FoMarkStatus) now acct StatusDisabled reason (fs_accounts ?st)")
  have "slot_view rows = slot_view (fs_accounts ?st)"
    using slot_view_status(1) [of "flt FoMarkStatus" now acct StatusDisabled reason "fs_accounts ?st"] m by simp
  then show ?thesis using m by (cases res) (simp_all add: disable_account_def Let_def)
qed

lemma slot_view_RecordFailure [slot_frame]:
  "slot_view (fs_accounts (RecordFailure flt copt now acct http st)) = slot_view (fs_accounts st)"
proof (cases copt)
  case None
  then show ?thesis by (simp add: RecordFailure_def)
next
  case (Some c)
  let ?reason = "if http = 401 then ReasonAuthFailed else if http = 0 then ReasonNetwork else ReasonConsecFail"
  let ?st1 = "add_event (flt FoInsert) c now acct EventFailure ?reason http st"
  obtain res rows where i: "IncrFailStreak (flt FoIncr) now acct (fs_accounts st) = (res, rows)"
    by (cases "IncrFailStreak (flt FoIncr) now acct (fs_accounts st)")
  have v: "slot_view rows = slot_view (fs_accounts st)"
    using slot_view_IncrFailStreak [of "flt FoIncr" now acct "fs_accounts st"] i by simp
  show ?thesis
    using i v by (cases res) (simp_all add: RecordFailure_def Some Let_def slot_frame)
qed

lemma slot_view_RecordThrottle [slot_frame]:
  "slot_view (fs_accounts (RecordThrottle flt copt now acct body st)) = slot_view (fs_accounts st)"
proof (cases copt)
  case None
  then show ?thesis by (simp add: RecordThrottle_def)
next
  case (Some c)
  let ?cfg = "resolve_config (flt FoOverride) copt acct (fs_overrides st)"
  let ?til = "Some (now + wrap64 (rc_CooldownSec ?cfg * nanos))"
  obtain res rows where i: "MarkThrottled (flt FoMarkThrottled) now acct ?til ReasonThrottle (fs_accounts st) = (res, rows)"
    by (cases "MarkThrottled (flt FoMarkThrottled) now acct ?til ReasonThrottle (fs_accounts st)")
  have v: "slot_view rows = slot_view (fs_accounts st)"
    using slot_view_status(2) [of "flt FoMarkThrottled" now acct ?til ReasonThrottle "fs_accounts st"] i by simp
  show ?thesis
    using i v unfolding Some
    by (cases res) (simp_all add: RecordThrottle_def Let_def slot_frame split: sum.split)
qed

lemma slot_view_failover [slot_frame]:
  "slot_view (fs_accounts (RecordError flt copt now acct eopt body st)) = slot_view (fs_accounts st)"
  "slot_view (fs_accounts (RecordSuccess flt copt acct st)) = slot_view (fs_accounts st)"
  by (simp_all add: RecordError_def RecordSuccess_def slot_frame split: classification.split option.split)

lemma in_flight_cong: "slot_view rows' = slot_view rows \<Longrightarrow> in_flight x rows' = in_flight x rows"
  by (simp add: in_flight_slot_view)

lemma keys_cong: "slot_view rows' = slot_view rows \<Longrightarrow> keys_of ar_id rows' = keys_of ar_id rows"
  by (simp add: keys_slot_view)

end
