(* ===== verification/ProxyProps.thy ===== *)
theory ProxyProps
  imports Proxy Slots
begin

text \<open>
  What holds of the generation pipeline: which account a request gets, that no path
  loses or keeps a slot it should not, and that the synchronous path and the poll
  worker end a job together only once.
\<close>

section \<open>The pick over the candidate groups\<close>

lemma try_group_Ok:
  assumes "try_group s f random now spec gid d = (Ok (acc, token), d1)"
  shows "enforceGroupGates (resolveGroupPolicy s (xf_group f gid) gid (db_groups d)) (sp_Alias spec)
      (sp_EstCostHundredths spec) = None"
    "\<exists>p rows. PickAndLock (xf_pick f gid) random now p (db_members d) (db_unlims d) (db_accounts d) =
       (Ok (acc, token), rows) \<and> d1 = d\<lparr> db_accounts := rows \<rparr> \<and> pp_GroupID p = gid \<and>
       pp_MinPlan p = sp_MinPlan spec \<and> pp_EstCostHundredths p = sp_EstCostHundredths spec"
proof -
  let ?gp = "resolveGroupPolicy s (xf_group f gid) gid (db_groups d)"
  let ?p = "pick_params_for s spec ?gp gid (resolveLoadBalanceOpts s (xf_setting f) (db_settings d))"
  show gates: "enforceGroupGates ?gp (sp_Alias spec) (sp_EstCostHundredths spec) = None"
    using assms by (simp add: try_group_def Let_def split: option.splits)
  obtain res rows where pick: "PickAndLock (xf_pick f gid) random now ?p (db_members d) (db_unlims d)
      (db_accounts d) = (res, rows)"
    by (cases "PickAndLock (xf_pick f gid) random now ?p (db_members d) (db_unlims d) (db_accounts d)")
  have "res = Ok (acc, token)" "d1 = d\<lparr> db_accounts := rows \<rparr>"
    using assms by (simp_all add: try_group_def Let_def gates pick)
  moreover have "pp_GroupID ?p = gid" "pp_MinPlan ?p = sp_MinPlan spec"
    "pp_EstCostHundredths ?p = sp_EstCostHundredths spec" by (simp_all add: pick_params_for_def)
  ultimately show "\<exists>p rows. PickAndLock (xf_pick f gid) random now p (db_members d) (db_unlims d)
       (db_accounts d) = (Ok (acc, token), rows) \<and> d1 = d\<lparr> db_accounts := rows \<rparr> \<and> pp_GroupID p = gid \<and>
       pp_MinPlan p = sp_MinPlan spec \<and> pp_EstCostHundredths p = sp_EstCostHundredths spec"
    using pick by blast
qed

lemma try_group_Err: "try_group s f random now spec gid d = (Err e, d1) \<Longrightarrow> d1 = d"
  by (auto simp: try_group_def Let_def split: option.splits prod.splits dest: PickAndLock_err_rows)

lemma pick_loop_Err:
  "pick_loop s f random now spec gids d = (Err e, d1) \<Longrightarrow> d1 = d"
  by (induction gids arbitrary: d)
    (auto split: prod.splits sum.splits if_splits dest: try_group_Err)

lemma pick_loop_Ok:
  assumes "pick_loop s f random now spec gids d = (Ok (acc, token, gid), d1)"
  shows "\<exists>pre post. gids = pre @ gid # post \<and> try_group s f random now spec gid d = (Ok (acc, token), d1) \<and>
    (\<forall>g \<in> set pre. \<exists>e. try_group s f random now spec g d = (Err e, d) \<and> isSpilloverEligible e)"
  using assms
proof (induction gids)
  case (Cons g rest)
  obtain res d' where t: "try_group s f random now spec g d = (res, d')"
    by (cases "try_group s f random now spec g d")
  show ?case
  proof (cases res)
    case (Inl e)
    with t have "d' = d" by (simp add: try_group_Err)
    with Cons.prems t Inl have e: "isSpilloverEligible e"
      and "pick_loop s f random now spec rest d = (Ok (acc, token, gid), d1)"
      by (auto split: if_splits)
    with Cons.IH obtain pre post where "rest = pre @ gid # post"
      "try_group s f random now spec gid d = (Ok (acc, token), d1)"
      "\<forall>g \<in> set pre. \<exists>e. try_group s f random now spec g d = (Err e, d) \<and> isSpilloverEligible e" by blast
    moreover have "try_group s f random now spec g d = (Err e, d)" using t Inl \<open>d' = d\<close> by simp
    ultimately show ?thesis using e by (intro exI [of _ "g # pre"] exI [of _ post]) auto
  next
    case (Inr at1)
    with Cons.prems t have "try_group s f random now spec g d = (Ok (acc, token), d1)" "g = gid"
      by (auto split: prod.splits)
    then show ?thesis by (intro exI [of _ "[]"] exI [of _ rest]) simp
  qed
qed simp

text \<open>The failures a sibling group may not share; a block by the model rules is one of them.\<close>

definition group_failures :: "sentinel set" where
  "group_failures = {ErrGroupConcurrencyMax, ErrGroupQuotaExhausted, ErrNoEligibleAccount, ErrModelBlocked, ErrModelNotAllowed}"

lemma spillover_failures: "isSpilloverEligible e \<longleftrightarrow> (\<exists>c \<in> group_failures. errorsIs e c)"
  by (auto simp: isSpilloverEligible_def group_failures_def)

lemma pick_loop_stops:
  assumes "pick_loop s f random now spec gids d = (Err e, d1)"
  shows "gids = [] \<and> e = Sent ErrNoEligibleAccount \<or>
    (\<exists>pre gid post. gids = pre @ gid # post \<and>
       (\<forall>g \<in> set pre. \<exists>e. try_group s f random now spec g d = (Err e, d) \<and> isSpilloverEligible e) \<and>
       try_group s f random now spec gid d = (Err e, d) \<and> (post = [] \<or> \<not> isSpilloverEligible e))"
  using assms
proof (induction gids)
  case (Cons g rest)
  obtain e1 where t: "try_group s f random now spec g d = (Err e1, d)"
    using Cons.prems try_group_Err [of s f random now spec g d]
    by (cases "try_group s f random now spec g d") (auto split: sum.splits)
  show ?case
  proof (cases "rest \<noteq> [] \<and> isSpilloverEligible e1")
    case True
    then have "pick_loop s f random now spec rest d = (Err e, d1)" using Cons.prems t by simp
    from Cons.IH [OF this] True obtain pre gid post where "rest = pre @ gid # post"
      "\<forall>g \<in> set pre. \<exists>e. try_group s f random now spec g d = (Err e, d) \<and> isSpilloverEligible e"
      "try_group s f random now spec gid d = (Err e, d)" "post = [] \<or> \<not> isSpilloverEligible e" by blast
    then show ?thesis using t True by (intro disjI2 exI [of _ "g # pre"] exI [of _ gid] exI [of _ post]) auto
  next
    case False
    then have "e1 = e" using Cons.prems t by auto
    then show ?thesis using t False by (intro disjI2 exI [of _ "[]"] exI [of _ g] exI [of _ rest]) auto
  qed
qed simp

text \<open>C21. The pick over a request's candidate groups.  The group that serves is the first
  whose gates pass and whose pool has an account: its model rules and its budget
  admit the request, the account is active (or its cooldown is over), a member of the
  group and on a sufficient plan, and each group tried before failed with one of the five
  failures of a group, a blocked model among them.  When no group serves, the error is that of
  the first group that failed otherwise, or else of the last, all groups before it having been
  tried and failed; no table has changed.\<close>

theorem pick_loop_spec:
  assumes "pick_loop s f random now spec gids d = (res, d1)"
  shows "case res of
     Inl e \<Rightarrow> d1 = d \<and> (gids = [] \<and> e = Sent ErrNoEligibleAccount \<or>
       (\<exists>pre gid post. gids = pre @ gid # post \<and>
          (\<forall>g \<in> set pre. \<exists>e. try_group s f random now spec g d = (Err e, d) \<and> (\<exists>c \<in> group_failures. errorsIs e c)) \<and>
          try_group s f random now spec gid d = (Err e, d) \<and> (post = [] \<or> \<not> (\<exists>c \<in> group_failures. errorsIs e c))))
   | Inr (acc, token, gid) \<Rightarrow>
       (\<exists>pre post. gids = pre @ gid # post \<and>
          (\<forall>g \<in> set pre. \<exists>e. try_group s f random now spec g d = (Err e, d) \<and> (\<exists>c \<in> group_failures. errorsIs e c))) \<and>
       enforceGroupGates (resolveGroupPolicy s (xf_group f gid) gid (db_groups d)) (sp_Alias spec)
         (sp_EstCostHundredths spec) = None \<and>
       (\<exists>r \<in> set (db_accounts d). a_ID acc = ar_id r \<and> token = ar_id r \<and> 
          (ar_status r = StatusActive \<or>
           ar_status r = StatusThrottled \<and> sql_le (ar_throttled_until r) (fmtTime (Some now))) \<and>
          (gid \<noteq> '''' \<longrightarrow> member_of gid (db_members d) (ar_id r)) \<and>
          MeetsMinimum (ar_plan_type r) (sp_MinPlan spec))"
proof (cases res)
  case (Inl e)
  then show ?thesis using assms pick_loop_Err pick_loop_stops [of s f random now spec gids d e d1]
    by (simp add: spillover_failures)
next
  case (Inr t)
  obtain acc token gid where t: "t = (acc, token, gid)" by (cases t)
  from pick_loop_Ok [of s f random now spec gids d acc token gid d1] assms Inr t
  obtain pre post where gids: "gids = pre @ gid # post"
    and tried: "try_group s f random now spec gid d = (Ok (acc, token), d1)"
    and before: "\<forall>g \<in> set pre. \<exists>e. try_group s f random now spec g d = (Err e, d) \<and> isSpilloverEligible e"
    by auto
  from try_group_Ok(2) [OF tried] obtain p rows where
    pick: "PickAndLock (xf_pick f gid) random now p (db_members d) (db_unlims d) (db_accounts d) =
       (Ok (acc, token), rows)" and p: "pp_GroupID p = gid" "pp_MinPlan p = sp_MinPlan spec" by blast
  from pick obtain r where r: "r \<in> set (db_accounts d)" "a_ID acc = ar_id r" "token = ar_id r"
    "eligible now p (db_members d) r" by (rule PickAndLock_row)
  note elig = r(4) [unfolded eligible_def p]
  have status: "ar_status r = StatusActive \<or>
      ar_status r = StatusThrottled \<and> sql_le (ar_throttled_until r) (fmtTime (Some now))" using elig by blast
  have member: "gid \<noteq> '''' \<longrightarrow> member_of gid (db_members d) (ar_id r)"
    using elig unfolding member_of_def by blast
  have "plan_gates p r" using elig by blast
  then have plan: "MeetsMinimum (ar_plan_type r) (sp_MinPlan spec)"
    by (auto simp: plan_gates_def min_plan_gate p)
  have "\<exists>r \<in> set (db_accounts d). a_ID acc = ar_id r \<and> token = ar_id r \<and>
      (ar_status r = StatusActive \<or>
       ar_status r = StatusThrottled \<and> sql_le (ar_throttled_until r) (fmtTime (Some now))) \<and>
      (gid \<noteq> '''' \<longrightarrow> member_of gid (db_members d) (ar_id r)) \<and>
      MeetsMinimum (ar_plan_type r) (sp_MinPlan spec)"
    using r(1-3) status member plan by blast
  then show ?thesis
    using Inr t gids before [unfolded spillover_failures] try_group_Ok(1) [OF tried] by simp blast
qed


section \<open>Slots up to the upstream job\<close>

abbreviation slots :: "string \<Rightarrow> db \<Rightarrow> int" where
  "slots acct d \<equiv> in_flight acct (db_accounts d)"

abbreviation known :: "string \<Rightarrow> db \<Rightarrow> bool" where
  "known acct d \<equiv> acct \<in> keys_of ar_id (db_accounts d)"

lemma unlock_release:
  assumes "xf_call f PxUnlock = None" "token = a_ID acc"
  shows "db_accounts (unlock f acc token d) = release_slot token (db_accounts d)"
  using assms by (simp add: unlock_def release_slot_def)

lemma unlock_frame [simp]:
  "db_jobs (unlock f acc token d) = db_jobs d" "db_fired (unlock f acc token d) = db_fired d"
  "db_usages (unlock f acc token d) = db_usages d" "db_keys (unlock f acc token d) = db_keys d"
  by (simp_all add: unlock_def)

lemma slots_unlock:
  assumes "xf_call f PxUnlock = None" "token = a_ID acc" "known token d"
  shows "slots x (unlock f acc token d) = (if x = token then max 0 (slots x d - 1) else slots x d)"
  using acct_slots.release_same [of token "db_accounts d"] acct_slots.release_other [of x token "db_accounts d"]
    unlock_release [OF assms(1,2)] assms(3) by auto

lemma create_failed_slots:
  assumes "xf_call f PxUnlock = None" "token = a_ID acc" "known token d"
  shows "slots x (create_failed s f ts uid cfid req spec acc token endpoint e d) =
    (if x = token then max 0 (slots x d - 1) else slots x d)"
proof -
  let ?d1 = "on_failover (RecordError (xf_failover f) (sv_Failover s) ts (a_ID acc) (Some e) (err_text e)) d"
  let ?j = "create_failed_job req spec acc endpoint cfid ts e"
  let ?mk = "resolveMarkup s f (rq_APIKeyID req) (db_keys ?d1)"
  have view: "slot_view (db_accounts ?d1) = slot_view (db_accounts d)" by (simp add: slot_frame)
  define d2 where "d2 = (case sv_Meter s of None \<Rightarrow> ?d1
      | Some r \<Rightarrow> snd (OnJobTerminal (Some r) (xf_meter f) ts uid (Some ?j) (Some acc) 0 ?mk ?d1))"
  have "db_accounts d2 = db_accounts ?d1"
  proof (cases "sv_Meter s")
    case None
    then show ?thesis by (simp add: d2_def)
  next
    case (Some r)
    obtain res d' where run: "OnJobTerminal (Some r) (xf_meter f) ts uid (Some ?j) (Some acc) 0 ?mk ?d1 = (res, d')"
      by (cases "OnJobTerminal (Some r) (xf_meter f) ts uid (Some ?j) (Some acc) 0 ?mk ?d1")
    then show ?thesis using metering_frame(1) [OF run] by (simp only: d2_def Some option.case snd_conv)
  qed
  then have v2: "slot_view (db_accounts d2) = slot_view (db_accounts d)" using view by simp
  have "create_failed s f ts uid cfid req spec acc token endpoint e d = unlock f acc token d2"
    by (simp only: create_failed_def Let_def d2_def)
  then show ?thesis
    using slots_unlock [OF assms(1,2), of d2 x] assms(3) in_flight_cong [OF v2] keys_cong [OF v2] by simp
qed

lemma persist_job_accounts [simp]: "db_accounts (snd (persist_job s f j d)) = db_accounts d"
  by (simp add: persist_job_def split: prod.split)

text \<open>What the three exits of the creation leave of the slots.\<close>

lemma gen_create_slots:
  assumes run: "gen_create s f ts uid cfid req spec async acc token ans d = (out, d')"
    and lock: "xf_call f PxUnlock = None" "token = a_ID acc" "known token d"
  shows "case out of
      Inl (Inl e) \<Rightarrow> slots x d' = (if x = token then max 0 (slots x d - 1) else slots x d)
    | Inl (Inr resp) \<Rightarrow> db_accounts d' = db_accounts d
    | Inr g \<Rightarrow> db_accounts d' = db_accounts d \<and> gx_Acc g = acc \<and> gx_Token g = token"
proof -
  obtain endpoint useUnlim where r: "unlim_route f ts spec acc (db_unlims d) = (endpoint, useUnlim)"
    by (cases "unlim_route f ts spec acc (db_unlims d)")
  show ?thesis
  proof (cases "buildBody spec (rq_UserParams req) (rq_Media req) useUnlim")
    case (Inl e)
    then have "out = Inl (Err e)" "d' = unlock f acc token d" using run r by (simp_all add: gen_create_def)
    then show ?thesis using slots_unlock [OF lock] by simp
  next
    case body: (Inr body)
    show ?thesis
    proof (cases ans)
      case (Inl e)
      then have "out = Inl (Err e)" "d' = create_failed s f ts uid cfid req spec acc token endpoint e d"
        using run r body by (simp_all add: gen_create_def)
      then show ?thesis using create_failed_slots [OF lock] by simp
    next
      case (Inr cr)
      let ?p = "persist_job s f (queued_job req spec acc endpoint (EnsureBodyJSON body) cr ts) d"
      have "db_accounts d' = db_accounts (snd ?p)"
        using run r body Inr by (cases ?p) (auto simp: gen_create_def split: if_splits)
      then have "db_accounts d' = db_accounts d" by simp
      moreover have "case out of Inl (Inl e) \<Rightarrow> False | Inl (Inr resp) \<Rightarrow> True
          | Inr g \<Rightarrow> gx_Acc g = acc \<and> gx_Token g = token"
        using run r body Inr by (auto simp: gen_create_def split: prod.splits if_splits)
      ultimately show ?thesis by (auto split: sum.splits)
    qed
  qed
qed

text \<open>C22. A request that fails keeps no slot, and one that goes on keeps one.  When
  \<open>gen_begin\<close> answers an error (an unknown model, a gate, an exhausted pool, a body that
  cannot be built, an upstream that refuses the job) every account has the slots it
  had; when it hands the job to the poll worker or goes on to wait for it, exactly
  the account it picked has one more.\<close>

theorem gen_begin_slots:
  assumes run: "gen_begin s f random now uid cfid req ans d = (out, d')"
    and ok: "slots_ok (db_accounts d)" and unlock: "xf_call f PxUnlock = None"
  shows "if (\<exists>e. out = Inl (Err e)) then (\<forall>x. slots x d' = slots x d)
    else (\<exists>acct. known acct d \<and> slots acct d' = slots acct d + 1 \<and>
            (\<forall>x. x \<noteq> acct \<longrightarrow> slots x d' = slots x d) \<and>
            (\<forall>g. out = Inr g \<longrightarrow> gx_Token g = acct \<and> a_ID (gx_Acc g) = acct))"
proof (cases "\<exists>spec acc token gid d1. sv_Resolve s (rq_Model req) = Ok spec \<and>
      enforceKeyGates req (sp_EstCostHundredths spec) = None \<and>
      pick_loop s f random now spec (candidates_of req) d = (Ok (acc, token, gid), d1)")
  case False
  have "d' = d \<and> (\<exists>e. out = Inl (Err e))"
    using run False
    by (auto simp: gen_begin_def split: sum.splits option.splits prod.splits dest: pick_loop_Err)
  then show ?thesis by auto
next
  case True
  then obtain spec acc token gid d1 where b: "sv_Resolve s (rq_Model req) = Ok spec"
    "enforceKeyGates req (sp_EstCostHundredths spec) = None"
    and p: "pick_loop s f random now spec (candidates_of req) d = (Ok (acc, token, gid), d1)" by blast
  from pick_loop_Ok [OF p] obtain "try_group s f random now spec gid d = (Ok (acc, token), d1)" by blast
  from try_group_Ok(2) [OF this] obtain q rows where
    pick: "PickAndLock (xf_pick f gid) random now q (db_members d) (db_unlims d) (db_accounts d) =
       (Ok (acc, token), rows)" and d1: "d1 = d\<lparr> db_accounts := rows \<rparr>" by blast
  obtain r where r: "r \<in> set (db_accounts d)" "a_ID acc = ar_id r" "token = ar_id r"
    using PickAndLock_row [OF pick] by blast
  have rows: "rows = acquire_slot now token (db_accounts d)" by (rule PickAndLock_acquires [OF pick])
  have known: "known token d" using r by (auto simp: keys_of_def)
  then have known1: "known token d1" unfolding d1 rows by (simp add: acct_slots.known_acquire)
  have up: "slots token d1 = slots token d + 1" "\<And>x. x \<noteq> token \<Longrightarrow> slots x d1 = slots x d"
    unfolding d1 rows using known by (simp_all add: acct_slots.acquire_same acct_slots.acquire_other)
  have nonneg: "0 \<le> slots token d"
    using ok by (auto simp: in_flight_def slots_ok_def split: option.split dest: find_row_SomeD)
  have create: "gen_create s f now uid cfid (req\<lparr> rq_GroupID := gid \<rparr>) spec (is_async s req spec) acc token ans d1
      = (out, d')" using run b p by (simp add: gen_begin_def)
  have tok: "token = a_ID acc" using r by simp
  note g = gen_create_slots [OF create unlock tok known1]
  show ?thesis
  proof (cases "\<exists>e. out = Inl (Err e)")
    case True
    then have "slots x d' = (if x = token then max 0 (slots x d1 - 1) else slots x d1)" for x using g by auto
    then show ?thesis using True up nonneg by auto
  next
    case False
    then have "db_accounts d' = db_accounts d1 \<and> (\<forall>c. out = Inr c \<longrightarrow> gx_Token c = token \<and> gx_Acc c = acc)"
      using g [of token] by (auto split: sum.splits)
    then show ?thesis using False up known tok by auto
  qed
qed


section \<open>The end of a synchronous request\<close>

definition pending_job :: "string \<Rightarrow> db \<Rightarrow> bool" where
  "pending_job jid d \<longleftrightarrow> (\<exists>s. job_status_of jid (db_jobs d) = Some s \<and> s \<in> set pending_statuses)"

lemma metered_run_frame:
  assumes "d' = (case m of None \<Rightarrow> d | Some r \<Rightarrow> snd (OnJobTerminal (Some r) mf now uid (Some j) acct pre mk d))"
  shows "db_accounts d' = db_accounts d" "db_fired d' = db_fired d"
    "job_status_of (j_ID j) (db_jobs d) = Some (j_Status j) \<Longrightarrow>
     job_status_of (j_ID j) (db_jobs d') = Some (j_Status j)"
proof -
  have "db_accounts d' = db_accounts d \<and> db_fired d' = db_fired d \<and>
      (job_status_of (j_ID j) (db_jobs d) = Some (j_Status j) \<longrightarrow>
       job_status_of (j_ID j) (db_jobs d') = Some (j_Status j))"
  proof (cases m)
    case None
    then show ?thesis using assms by simp
  next
    case (Some r)
    obtain res e where run: "OnJobTerminal (Some r) mf now uid (Some j) acct pre mk d = (res, e)"
      by (cases "OnJobTerminal (Some r) mf now uid (Some j) acct pre mk d")
    have e: "d' = e" using assms run by (simp only: Some option.case snd_conv)
    have "job_status_of (j_ID j) (db_jobs d) = Some (j_Status j) \<longrightarrow>
        job_status_of (j_ID j) (db_jobs e) = Some (j_Status j)"
      using metering_frame(3) [OF run] by (auto simp: job_status_UpdateStatus)
    then show ?thesis unfolding e using metering_frame(1,2) [OF run] by blast
  qed
  then show "db_accounts d' = db_accounts d" "db_fired d' = db_fired d"
    "job_status_of (j_ID j) (db_jobs d) = Some (j_Status j) \<Longrightarrow>
     job_status_of (j_ID j) (db_jobs d') = Some (j_Status j)" by blast+
qed

lemma sync_effects_spec:
  fixes s :: service and later :: int and uid :: string
  assumes "xf_call f = (\<lambda>_. None)" "gx_Token x = a_ID (gx_Acc x)" "known (gx_Token x) d"
    "job_status_of (cr_JobID (gx_Created x)) (db_jobs d) = Some (sync_status (fj_Status fin) (fj_Refunded fin))"
  defines "d' \<equiv> sync_effects s f x later uid fin d"
  shows "slots a d' = (if a = gx_Token x then max 0 (slots a d - 1) else slots a d)"
    "db_fired d' = db_fired d @ (if sv_Webhooks s \<and> rq_CallbackURL (gx_Req x) \<noteq> ''''
        then [(rq_CallbackURL (gx_Req x), sync_job x later fin)] else [])"
    "job_status_of (cr_JobID (gx_Created x)) (db_jobs d') =
      Some (sync_status (fj_Status fin) (fj_Refunded fin))"
proof -
  define d1 where "d1 = unlock f (gx_Acc x) (gx_Token x) d"
  let ?fresh = "case GetAccount (xf_call f PxFresh) (a_ID (gx_Acc x)) (db_accounts d1) of
                     Inl e \<Rightarrow> gx_Acc x | Inr a \<Rightarrow> a"
  define d2 where "d2 = (case sv_Meter s of None \<Rightarrow> d1
      | Some r \<Rightarrow> snd (OnJobTerminal (Some r) (xf_meter f) later uid (Some (sync_job x later fin)) (Some ?fresh)
          (a_SubscriptionBalance (gx_Acc x)) (resolveMarkup s f (rq_APIKeyID (gx_Req x)) (db_keys d1)) d1))"
  note m = metered_run_frame [OF d2_def]
  have d': "d' = (if sv_Webhooks s \<and> rq_CallbackURL (gx_Req x) \<noteq> ''''
      then d2\<lparr> db_fired := db_fired d2 @ [(rq_CallbackURL (gx_Req x), sync_job x later fin)] \<rparr> else d2)"
    by (simp only: d'_def sync_effects_def Let_def d1_def d2_def)
  have j: "j_ID (sync_job x later fin) = cr_JobID (gx_Created x)"
    "j_Status (sync_job x later fin) = sync_status (fj_Status fin) (fj_Refunded fin)"
    by (simp_all add: sync_job_def request_job_def)
  have un: "slots a d1 = (if a = gx_Token x then max 0 (slots a d - 1) else slots a d)"
    unfolding d1_def by (rule slots_unlock [OF _ assms(2,3)]) (simp add: assms(1))
  show "slots a d' = (if a = gx_Token x then max 0 (slots a d - 1) else slots a d)"
    unfolding un [symmetric] using m(1) by (simp add: d')
  show "db_fired d' = db_fired d @ (if sv_Webhooks s \<and> rq_CallbackURL (gx_Req x) \<noteq> ''''
        then [(rq_CallbackURL (gx_Req x), sync_job x later fin)] else [])"
    using m(2) by (simp add: d' d1_def)
  have "job_status_of (cr_JobID (gx_Created x)) (db_jobs d1) = Some (sync_status (fj_Status fin) (fj_Refunded fin))"
    using assms(4) by (simp add: d1_def)
  then show "job_status_of (cr_JobID (gx_Created x)) (db_jobs d') =
      Some (sync_status (fj_Status fin) (fj_Refunded fin))"
    using m(3) j by (simp add: d')
qed

definition sync_ready :: "service \<Rightarrow> proxy_faults \<Rightarrow> gen_ctx \<Rightarrow> db \<Rightarrow> bool" where
  "sync_ready s f x d \<longleftrightarrow> gx_Persisted x \<and> sv_Jobs s \<and> xf_call f = (\<lambda>_. None) \<and>
     gx_Token x = a_ID (gx_Acc x) \<and> known (gx_Token x) d \<and> job_ids_ok (db_jobs d)"

text \<open>The synchronous observer of a job's end, when the end is one the job table knows.\<close>

lemma gen_finish_effects:
  assumes ready: "sync_ready s f x d"
    and final: "isTerminal (sync_status (fj_Status fin) (fj_Refunded fin))"
    and run: "gen_finish s f later uid x (Ok fin) d = (res, d')"
    and jid: "cr_JobID (gx_Created x) = jid"
  shows "if pending_job jid d
    then job_status_of jid (db_jobs d') = Some (sync_status (fj_Status fin) (fj_Refunded fin)) \<and>
      (\<forall>a. slots a d' = (if a = gx_Token x then max 0 (slots a d - 1) else slots a d)) \<and>
      db_fired d' = db_fired d @ (if sv_Webhooks s \<and> rq_CallbackURL (gx_Req x) \<noteq> ''''
        then [(rq_CallbackURL (gx_Req x), sync_job x later fin)] else [])
    else db_jobs d' = db_jobs d \<and> db_usages d' = db_usages d \<and> db_fired d' = db_fired d \<and>
      slot_view (db_accounts d') = slot_view (db_accounts d)"
proof -
  define d1 where "d1 = (if fj_Status fin = ''completed''
      then on_failover (RecordSuccess (xf_failover f) (sv_Failover s) (a_ID (gx_Acc x))) d else d)"
  let ?m = "empty_meta\<lparr> jm_ResultURL := fj_ResultURL fin,
      jm_LatencyMS := latency_ms later (Some (gx_RequestTS x)), jm_Refunded := fj_Refunded fin \<rparr>"
  let ?st = "sync_status (fj_Status fin) (fj_Refunded fin)"
  have d1: "db_jobs d1 = db_jobs d" "db_usages d1 = db_usages d" "db_fired d1 = db_fired d"
    "slot_view (db_accounts d1) = slot_view (db_accounts d)"
    by (simp_all add: d1_def slot_frame)
  have nf: "xf_call f = (\<lambda>_. None)" and tok: "gx_Token x = a_ID (gx_Acc x)" using ready
    by (simp_all add: sync_ready_def)
  have known1: "known (gx_Token x) d1" using ready unfolding sync_ready_def keys_cong [OF d1(4)] by blast
  have ids: "job_ids_ok (db_jobs d1)" using ready by (simp add: sync_ready_def d1)
  have d': "d' = (case sync_cas s f x later fin d1 of (won, d2) \<Rightarrow>
      if won then sync_effects s f x later uid fin d2 else d2)"
    using run by (cases "sync_cas s f x later fin d1") (simp add: gen_finish_def Let_def d1_def)
  have cas: "sync_cas s f x later fin d1 = (case TryMarkTerminal None later jid
      [JobQueued, JobPending, JobRunning] ?st ?m (db_jobs d1) of
        (Inl e, js) \<Rightarrow> (True, d1\<lparr> db_jobs := js \<rparr>) | (Inr won, js) \<Rightarrow> (won, d1\<lparr> db_jobs := js \<rparr>))"
    using ready by (simp add: sync_cas_def sync_ready_def jid)
  show ?thesis
    using ids final
  proof (cases rule: cas_cases [where fail = None and now = later and jid = jid and m = ?m])
    case (fault e)
    then show ?thesis by simp
  next
    case lost
    then have "d' = d1" by (simp add: d' cas)
    moreover have "\<not> pending_job jid d" using lost(3) by (auto simp: pending_job_def job_status_of_def d1)
    ultimately show ?thesis using d1 by simp
  next
    case (won r)
    let ?d2 = "d1\<lparr> db_jobs := sql_update (\<lambda>r. jr_id r = jid) (terminal_row later ?st ?m) (db_jobs d1) \<rparr>"
    have e: "d' = sync_effects s f x later uid fin ?d2" using won(2) by (simp add: d' cas)
    have st: "job_status_of (cr_JobID (gx_Created x)) (db_jobs ?d2) = Some ?st"
      using job_status_terminal_row [OF won(3)] by (simp add: jid)
    have kn: "known (gx_Token x) ?d2" using known1 by simp
    have p: "pending_job jid d"
      using won(3,4) by (simp add: pending_job_def job_status_of_def d1)
    note eff = sync_effects_spec [where s = s and later = later and uid = uid, OF nf tok kn st, folded e]
    have "slots a d' = (if a = gx_Token x then max 0 (slots a d - 1) else slots a d)" for a
      using eff(1) [where a = a] in_flight_cong [OF d1(4)] by simp
    then show ?thesis using eff(2,3) p by (simp add: d1 jid)
  qed
qed


section \<open>Any number of observers\<close>

text \<open>A job's end can be seen by the request that waits for it, by polls that find the
  upstream done, and by polls that find the deadline passed; in any order, and the
  polls with rows they read earlier.\<close>

datatype observer =
    SyncEnd int string fetched_job
  | PollEnd int string account string fetched_job job
  | PollTimeout int string job

fun observe_end :: "service \<Rightarrow> proxy_faults \<Rightarrow> gen_ctx \<Rightarrow> poll_config \<Rightarrow> poll_faults \<Rightarrow> observer \<Rightarrow> db \<Rightarrow> db" where
  "observe_end s f x c pf (SyncEnd now uid fin) d = snd (gen_finish s f now uid x (Ok fin) d)"
| "observe_end s f x c pf (PollEnd now uid acc status fetched j) d =
     finish_polled c pf now uid acc status fetched j d"
| "observe_end s f x c pf (PollTimeout now uid j) d = markTimeout c pf now uid j d"

definition own_job :: "gen_ctx \<Rightarrow> job \<Rightarrow> bool" where
  "own_job x j \<longleftrightarrow> j_ID j = cr_JobID (gx_Created x) \<and> j_AccountID j = gx_Token x \<and>
     j_CallbackURL j = rq_CallbackURL (gx_Req x)"

fun sees_end :: "gen_ctx \<Rightarrow> observer \<Rightarrow> bool" where
  "sees_end x (SyncEnd now uid fin) = isTerminal (sync_status (fj_Status fin) (fj_Refunded fin))"
| "sees_end x (PollEnd now uid acc status fetched j) = (upstream_terminal status \<and> own_job x j)"
| "sees_end x (PollTimeout now uid j) = own_job x j"

definition observed :: "service \<Rightarrow> proxy_faults \<Rightarrow> gen_ctx \<Rightarrow> poll_config \<Rightarrow> poll_faults \<Rightarrow> db \<Rightarrow> bool" where
  "observed s f x c pf d \<longleftrightarrow> sync_ready s f x d \<and> pf_call pf = (\<lambda>_. None) \<and> gx_Token x \<noteq> '''' \<and>
     sv_Webhooks s \<and> pw_Webhooks c \<and> rq_CallbackURL (gx_Req x) \<noteq> ''''"

lemma observed_frame:
  assumes "observed s f x c pf d" "map jr_id (db_jobs d') = map jr_id (db_jobs d)"
    "keys_of ar_id (db_accounts d') = keys_of ar_id (db_accounts d)"
  shows "observed s f x c pf d'"
  using assms(1) unfolding observed_def sync_ready_def job_ids_ok_def assms(2,3) .

lemma finish_polled_frame:
  "map jr_id (db_jobs (finish_polled c pf now uid acc status fetched j d)) = map jr_id (db_jobs d)"
  "keys_of ar_id (db_accounts (finish_polled c pf now uid acc status fetched j d)) = keys_of ar_id (db_accounts d)"
  "map jr_id (db_jobs (markTimeout c pf now uid j d)) = map jr_id (db_jobs d)"
  "keys_of ar_id (db_accounts (markTimeout c pf now uid j d)) = keys_of ar_id (db_accounts d)"
proof -
  have cas: "map jr_id js = map jr_id (db_jobs d)"
    if "TryMarkTerminal fail t jid sts new m (db_jobs d) = (res, js)" for fail t jid sts new m res js
    using map_jr_id_TryMark [of fail t jid sts new m "db_jobs d"] that by simp
  have rel: "keys_of ar_id (db_accounts (releaseInFlight fail a e)) = keys_of ar_id (db_accounts e)" for fail a e
    using UpdateInFlight_ids [of fail a "- 1" "db_accounts e"]
    by (simp add: releaseInFlight_def keys_of_def) (metis image_set)
  have succ: "keys_of ar_id (fs_accounts (RecordSuccess g h a st)) = keys_of ar_id (fs_accounts st)" for g h a st
    by (rule keys_cong) (simp add: slot_frame)
  show "map jr_id (db_jobs (finish_polled c pf now uid acc status fetched j d)) = map jr_id (db_jobs d)"
    "map jr_id (db_jobs (markTimeout c pf now uid j d)) = map jr_id (db_jobs d)"
    by (auto simp: finish_polled_def markTimeout_def Let_def map_jr_id_meter dest: cas split: prod.split sum.split)
  show "keys_of ar_id (db_accounts (finish_polled c pf now uid acc status fetched j d)) = keys_of ar_id (db_accounts d)"
    "keys_of ar_id (db_accounts (markTimeout c pf now uid j d)) = keys_of ar_id (db_accounts d)"
    by (auto simp: finish_polled_def markTimeout_def Let_def meter_terminal_frame(1) rel succ
        split: prod.split sum.split)
qed

lemma meter_frame_ids:
  assumes "d' = (case m of None \<Rightarrow> d | Some r \<Rightarrow> snd (OnJobTerminal (Some r) mf now uid (Some j) acct pre mk d))"
  shows "map jr_id (db_jobs d') = map jr_id (db_jobs d)"
proof (cases m)
  case None
  then show ?thesis using assms by simp
next
  case (Some r)
  obtain res e where run: "OnJobTerminal (Some r) mf now uid (Some j) acct pre mk d = (res, e)"
    by (cases "OnJobTerminal (Some r) mf now uid (Some j) acct pre mk d")
  have e: "d' = e" using assms run by (simp only: Some option.case snd_conv)
  show ?thesis unfolding e using metering_frame(3) [OF run] by (auto simp: map_jr_id_UpdateStatus)
qed

lemma sync_effects_frame:
  "map jr_id (db_jobs (sync_effects s f x later uid fin d)) = map jr_id (db_jobs d)"
  "keys_of ar_id (db_accounts (sync_effects s f x later uid fin d)) = keys_of ar_id (db_accounts d)"
proof -
  define d1 where "d1 = unlock f (gx_Acc x) (gx_Token x) d"
  let ?fresh = "case GetAccount (xf_call f PxFresh) (a_ID (gx_Acc x)) (db_accounts d1) of
                     Inl e \<Rightarrow> gx_Acc x | Inr a \<Rightarrow> a"
  define d2 where "d2 = (case sv_Meter s of None \<Rightarrow> d1
      | Some r \<Rightarrow> snd (OnJobTerminal (Some r) (xf_meter f) later uid (Some (sync_job x later fin)) (Some ?fresh)
          (a_SubscriptionBalance (gx_Acc x)) (resolveMarkup s f (rq_APIKeyID (gx_Req x)) (db_keys d1)) d1))"
  have e: "sync_effects s f x later uid fin d = (if sv_Webhooks s \<and> rq_CallbackURL (gx_Req x) \<noteq> ''''
      then d2\<lparr> db_fired := db_fired d2 @ [(rq_CallbackURL (gx_Req x), sync_job x later fin)] \<rparr> else d2)"
    by (simp only: sync_effects_def Let_def d1_def d2_def)
  have "map ar_id (db_accounts d1) = map ar_id (db_accounts d)"
    by (simp add: d1_def unlock_def Unlock_def UpdateInFlight_ids)
  then have k: "keys_of ar_id (db_accounts d1) = keys_of ar_id (db_accounts d)"
    by (simp add: keys_of_def) (metis image_set)
  show "map jr_id (db_jobs (sync_effects s f x later uid fin d)) = map jr_id (db_jobs d)"
    using meter_frame_ids [OF d2_def] by (simp add: e d1_def)
  show "keys_of ar_id (db_accounts (sync_effects s f x later uid fin d)) = keys_of ar_id (db_accounts d)"
    using metered_run_frame(1) [OF d2_def] k by (simp add: e)
qed

lemma gen_finish_frame:
  "map jr_id (db_jobs (snd (gen_finish s f later uid x (Ok fin) d))) = map jr_id (db_jobs d)"
  "keys_of ar_id (db_accounts (snd (gen_finish s f later uid x (Ok fin) d))) = keys_of ar_id (db_accounts d)"
proof -
  define d1 where "d1 = (if fj_Status fin = ''completed''
      then on_failover (RecordSuccess (xf_failover f) (sv_Failover s) (a_ID (gx_Acc x))) d else d)"
  obtain won d2 where c: "sync_cas s f x later fin d1 = (won, d2)" by (cases "sync_cas s f x later fin d1")
  have e: "snd (gen_finish s f later uid x (Ok fin) d) = (if won then sync_effects s f x later uid fin d2 else d2)"
    by (simp add: gen_finish_def Let_def d1_def [symmetric] c)
  have "map jr_id js = map jr_id (db_jobs d1)"
    if "TryMarkTerminal fail t jid sts new m (db_jobs d1) = (res, js)" for fail t jid sts new m res js
    using map_jr_id_TryMark [of fail t jid sts new m "db_jobs d1"] that by simp
  then have "map jr_id (db_jobs d2) = map jr_id (db_jobs d1) \<and> db_accounts d2 = db_accounts d1"
    using c by (auto simp: sync_cas_def split: if_splits prod.splits sum.splits)
  moreover have "map jr_id (db_jobs d1) = map jr_id (db_jobs d)" by (simp add: d1_def)
  moreover have "keys_of ar_id (db_accounts d1) = keys_of ar_id (db_accounts d)"
    by (rule keys_cong) (simp add: d1_def slot_frame)
  ultimately show "map jr_id (db_jobs (snd (gen_finish s f later uid x (Ok fin) d))) = map jr_id (db_jobs d)"
    "keys_of ar_id (db_accounts (snd (gen_finish s f later uid x (Ok fin) d))) = keys_of ar_id (db_accounts d)"
    by (simp_all add: e sync_effects_frame)
qed


lemma markTimeout_effects:
  assumes ids: "job_ids_ok (db_jobs d)" and nf: "pf_call pf = (\<lambda>_. None)" and acct: "j_AccountID j \<noteq> ''''"
    and row: "known (j_AccountID j) d"
  shows "if pending_job (j_ID j) d
    then job_status_of (j_ID j) (db_jobs (markTimeout c pf now uid j d)) = Some JobTimeout \<and>
      slots (j_AccountID j) (markTimeout c pf now uid j d) = max 0 (slots (j_AccountID j) d - 1) \<and>
      length (db_fired (markTimeout c pf now uid j d)) = length (db_fired d) +
        (if pw_Webhooks c \<and> j_CallbackURL j \<noteq> '''' then 1 else 0)
    else markTimeout c pf now uid j d = d"
proof -
  let ?m = "empty_meta\<lparr> jm_ErrorType := ErrTimeout,
        jm_ErrorDetail := ''job did not reach terminal state within deadline'',
        jm_LatencyMS := latency_ms now (j_RequestTS j) \<rparr>"
  have "isTerminal JobTimeout" by simp
  with ids show ?thesis
  proof (cases rule: cas_cases [where fail = "pf_call pf PwCas" and now = now and jid = "j_ID j" and m = ?m])
    case (fault e)
    then show ?thesis by (simp add: nf)
  next
    case lost
    then have "markTimeout c pf now uid j d = d" by (simp add: markTimeout_def Let_def)
    moreover have "\<not> pending_job (j_ID j) d" using lost(3) by (auto simp: pending_job_def job_status_of_def)
    ultimately show ?thesis by simp
  next
    case (won r)
    let ?d1 = "d\<lparr> db_jobs := sql_update (\<lambda>r. jr_id r = j_ID j) (terminal_row now JobTimeout ?m) (db_jobs d) \<rparr>"
    let ?j = "j\<lparr> j_Status := JobTimeout, j_LatencyMS := latency_ms now (j_RequestTS j) \<rparr>"
    let ?d2 = "releaseInFlight None (j_AccountID j) ?d1"
    have e: "markTimeout c pf now uid j d = observe (pw_OnTerminal c) ?j (fire_webhook (pw_Webhooks c) ?j
        (meter_terminal c pf now uid None ?j ?d2))"
      using won(2) by (simp add: markTimeout_def Let_def nf)
    have "job_status_of (j_ID ?j) (db_jobs ?d2) = Some (j_Status ?j)"
      using job_status_terminal_row [OF won(3)] by simp
    then have "job_status_of (j_ID j) (db_jobs (markTimeout c pf now uid j d)) = Some JobTimeout"
      using job_status_meter_terminal [of ?j ?d2] by (simp add: e)
    moreover have "slots (j_AccountID j) (markTimeout c pf now uid j d) = max 0 (slots (j_AccountID j) d - 1)"
      using in_flight_release [of "j_AccountID j" ?d1] acct row
      by (simp add: e meter_terminal_frame(1) find_row_None_iff)
    moreover have "length (db_fired (markTimeout c pf now uid j d)) = length (db_fired d) +
        (if pw_Webhooks c \<and> j_CallbackURL j \<noteq> '''' then 1 else 0)"
      by (simp add: e fire_webhook_def meter_terminal_frame(2))
    moreover have "pending_job (j_ID j) d" using won(3,4) by (simp add: pending_job_def job_status_of_def)
    ultimately show ?thesis by simp
  qed
qed

text \<open>One observer: the first to find the job pending ends it, a later one does nothing.\<close>

lemma observe_end_step:
  assumes obs: "observed s f x c pf d" and sees: "sees_end x ob"
  defines "jid \<equiv> cr_JobID (gx_Created x)" and "d' \<equiv> observe_end s f x c pf ob d"
  shows "observed s f x c pf d' \<and> \<not> pending_job jid d' \<and>
    slots (gx_Token x) d' = (if pending_job jid d then max 0 (slots (gx_Token x) d - 1) else slots (gx_Token x) d) \<and>
    length (db_fired d') = length (db_fired d) + (if pending_job jid d then 1 else 0)"
proof -
  have settled: "\<not> pending_job jid d'" if "job_status_of jid (db_jobs d') = Some st" "isTerminal st" for st
    using that pending_not_terminal by (auto simp: pending_job_def)
  have ready: "sync_ready s f x d" "pf_call pf = (\<lambda>_. None)" "gx_Token x \<noteq> ''''" "sv_Webhooks s"
    "pw_Webhooks c" "rq_CallbackURL (gx_Req x) \<noteq> ''''" using obs by (simp_all add: observed_def)
  have ids: "job_ids_ok (db_jobs d)" and known: "known (gx_Token x) d"
    using ready(1) unfolding sync_ready_def by blast+
  show ?thesis
  proof (cases ob)
    case (SyncEnd now uid fin)
    obtain res e where run: "gen_finish s f now uid x (Ok fin) d = (res, e)"
      by (cases "gen_finish s f now uid x (Ok fin) d")
    have d': "d' = e" by (simp add: d'_def SyncEnd run)
    have trm: "isTerminal (sync_status (fj_Status fin) (fj_Refunded fin))" using sees SyncEnd by simp
    have o': "observed s f x c pf d'"
      using observed_frame [OF obs] gen_finish_frame [of s f now uid x fin d] by (simp add: d' run)
    note eff = gen_finish_effects [OF ready(1) trm run jid_def [THEN meta_eq_to_obj_eq, symmetric], folded d']
    show ?thesis
    proof (cases "pending_job jid d")
      case True
      note e = eff [unfolded if_P [OF True]]
      have "job_status_of jid (db_jobs d') = Some (sync_status (fj_Status fin) (fj_Refunded fin))"
        "slots (gx_Token x) d' = max 0 (slots (gx_Token x) d - 1)" using e by simp_all
      moreover have "length (db_fired d') = length (db_fired d) + 1" using e ready(4,6) by simp
      ultimately show ?thesis using True o' settled [OF _ trm] by simp
    next
      case False
      note e = eff [unfolded if_not_P [OF False]]
      have "\<not> pending_job jid d'" using False e by (simp add: pending_job_def)
      then show ?thesis using False o' e in_flight_cong [of "db_accounts d'" "db_accounts d"] by simp
    qed
  next
    case (PollEnd now uid acc status fetched j)
    have own: "upstream_terminal status" "j_ID j = jid" "j_AccountID j = gx_Token x"
      "j_CallbackURL j = rq_CallbackURL (gx_Req x)" using sees PollEnd by (simp_all add: own_job_def jid_def)
    have d': "d' = finish_polled c pf now uid acc status fetched j d" by (simp add: d'_def PollEnd)
    have trm: "isTerminal (domainStatus status (fj_Refunded fetched))"
      using own(1) by (rule domainStatus_terminal)
    have o': "observed s f x c pf d'"
      using observed_frame [OF obs] finish_polled_frame(1,2) [of c pf now uid acc status fetched j d] by (simp add: d')
    have row: "find_row ar_id (j_AccountID j) (db_accounts d) \<noteq> None"
      using known own(3) by (simp only: find_row_None_iff) simp
    have "j_AccountID j \<noteq> ''''" using own(3) ready(3) by simp
    note eff = finish_polled_effects [OF ids own(1) ready(2) this row, of c now uid acc fetched, folded d', unfolded own(2-4)]
    show ?thesis
    proof (cases "pending_job jid d")
      case True
      then have "job_status_of jid (db_jobs d') = Some (domainStatus status (fj_Refunded fetched))"
        "slots (gx_Token x) d' = max 0 (slots (gx_Token x) d - 1)" "length (db_fired d') = length (db_fired d) + 1"
        using eff ready by (auto simp: pending_job_def)
      then show ?thesis using True o' settled [OF _ trm] by simp
    next
      case False
      then have "d' = d" using eff by (auto simp: pending_job_def)
      then show ?thesis using False o' by simp
    qed
  next
    case (PollTimeout now uid j)
    have own: "j_ID j = jid" "j_AccountID j = gx_Token x" "j_CallbackURL j = rq_CallbackURL (gx_Req x)"
      using sees PollTimeout by (simp_all add: own_job_def jid_def)
    have d': "d' = markTimeout c pf now uid j d" by (simp add: d'_def PollTimeout)
    have o': "observed s f x c pf d'"
      using observed_frame [OF obs] finish_polled_frame(3,4) [of c pf now uid j d] by (simp add: d')
    have "j_AccountID j \<noteq> ''''" "known (j_AccountID j) d" using own(2) ready(3) known by simp_all
    note eff = markTimeout_effects [OF ids ready(2) this, of c now uid, folded d', unfolded own]
    show ?thesis
    proof (cases "pending_job jid d")
      case True
      then show ?thesis using o' settled [of JobTimeout] eff ready by simp
    next
      case False
      then have "d' = d" using eff by simp
      then show ?thesis using False o' by simp
    qed
  qed
qed

text \<open>C23. A job ends once, whoever sees it.  Let the waiting request and any number of
  polls, with rows read at any earlier time, observe the end of a pending job in any
  order (the observations are atomic, the store answers, and the statuses are ones
  the job table knows): when the first has run the job is no longer pending, and
  after all of them the account's slot has been given back once and the caller's
  webhook handed over once.\<close>

theorem observers_end_job_once:
  assumes "observed s f x c pf d" "pending_job (cr_JobID (gx_Created x)) d"
    "\<forall>ob \<in> set (ob0 # obs). sees_end x ob"
  shows "\<not> pending_job (cr_JobID (gx_Created x)) (fold (observe_end s f x c pf) (ob0 # obs) d) \<and>
    slots (gx_Token x) (fold (observe_end s f x c pf) (ob0 # obs) d) = max 0 (slots (gx_Token x) d - 1) \<and>
    length (db_fired (fold (observe_end s f x c pf) (ob0 # obs) d)) = length (db_fired d) + 1"
proof -
  have rest: "\<not> pending_job (cr_JobID (gx_Created x)) (fold (observe_end s f x c pf) os e) \<and>
      slots (gx_Token x) (fold (observe_end s f x c pf) os e) = slots (gx_Token x) e \<and>
      length (db_fired (fold (observe_end s f x c pf) os e)) = length (db_fired e)"
    if "observed s f x c pf e" "\<not> pending_job (cr_JobID (gx_Created x)) e" "\<forall>ob \<in> set os. sees_end x ob" for os e
    using that
  proof (induction os arbitrary: e)
    case (Cons ob os)
    then show ?case using observe_end_step [of s f x c pf e ob] by simp
  qed simp
  show ?thesis
    using rest [of "observe_end s f x c pf ob0 d" obs] observe_end_step [OF assms(1), of ob0] assms(2,3) by simp
qed


section \<open>Where the ends do not meet\<close>

text \<open>C39. A synchronous request that gives up waiting gives its slot back although the
  job it leaves to the poll worker still runs and still holds it; the poll worker
  gives it back again at the job's end.  With two or more jobs on the account, the
  second release is one that belongs to another job.\<close>

theorem sync_timeout_releases_twice:
  assumes ready: "sync_ready s f x d" and pend: "pending_job (cr_JobID (gx_Created x)) d"
    and pf: "pf_call pf = (\<lambda>_. None)" and own: "own_job x j" "upstream_terminal status" "gx_Token x \<noteq> ''''"
    and busy: "2 \<le> slots (gx_Token x) d"
  shows "\<exists>resp d1. gen_finish s f later uid x (Err (Sent ErrUpstreamTimeout)) d = (Ok resp, d1) \<and>
    resp_Status resp = ''queued'' \<and> pending_job (cr_JobID (gx_Created x)) d1 \<and>
    slots (gx_Token x) d1 = slots (gx_Token x) d - 1 \<and>
    slots (gx_Token x) (finish_polled c pf now uid' acc status fetched j d1) = slots (gx_Token x) d - 2"
proof -
  let ?d1 = "unlock f (gx_Acc x) (gx_Token x) d"
  have r: "xf_call f = (\<lambda>_. None)" "gx_Token x = a_ID (gx_Acc x)" "known (gx_Token x) d" "job_ids_ok (db_jobs d)"
    using ready unfolding sync_ready_def by blast+
  have run: "gen_finish s f later uid x (Err (Sent ErrUpstreamTimeout)) d =
      (Ok (queued_response (gx_Spec x) (gx_Created x) (gx_RequestTS x)), ?d1)"
    by (simp add: gen_finish_def Let_def)
  have up: "slots (gx_Token x) ?d1 = max 0 (slots (gx_Token x) d - 1)"
    using slots_unlock [OF _ r(2,3), of f "gx_Token x"] r(1) by simp
  have pend1: "pending_job (cr_JobID (gx_Created x)) ?d1" using pend by (simp add: pending_job_def)
  have own': "j_ID j = cr_JobID (gx_Created x)" "j_AccountID j = gx_Token x"
    using own(1) by (simp_all add: own_job_def)
  have "known (gx_Token x) ?d1"
    using acct_slots.known_release [of "gx_Token x" "db_accounts d"] r(1) r(3)
      unlock_release [OF _ r(2), of f d] by simp
  then have row: "find_row ar_id (j_AccountID j) (db_accounts ?d1) \<noteq> None"
    unfolding own'(2) find_row_None_iff by simp
  have ids: "job_ids_ok (db_jobs ?d1)" using r(4) by simp
  have a: "j_AccountID j \<noteq> ''''" using own(3) own'(2) by simp
  have "slots (gx_Token x) (finish_polled c pf now uid' acc status fetched j ?d1) = max 0 (slots (gx_Token x) ?d1 - 1)"
    using finish_polled_effects [OF ids own(2) pf a row, of c now uid' acc fetched] pend1
    unfolding own' pending_job_def [symmetric] by simp
  then show ?thesis using run up pend1 busy by (simp add: queued_response_def)
qed

lemma OnJobTerminal_fresh:
  fixes now pre :: int and acct :: "account option" and mk :: rat
  assumes "\<not> metered (j_ID j) d" "\<forall>u \<in> set (db_usages d). uw_id u \<noteq> uid" "mf_insert mf = None" "rcd_Jobs r"
  defines "ev \<equiv> usage_of_job now uid j acct pre mk" and "d1 \<equiv> snd (OnJobTerminal (Some r) mf now uid (Some j) acct pre mk d)"
  shows "\<exists>m. db_jobs d1 = snd (UpdateStatus (mf_backfill mf) now (j_ID j) (j_Status j) m (db_jobs d))"
    "db_usages d1 = db_usages d @ [insert_usage_row ev]"
    "db_keys d1 = db_keys (bill_key r mf now j (ue_ChargedCreditsHundredths ev) d)"
proof -
  have "ue_ID ev = uid" by (simp add: ev_def usage_of_job_def Let_def)
  then have "usage_constraint ev (db_usages d) = None"
    using assms(1,2) by (simp add: usage_constraint_def metered_def ev_def usage_of_job_def Let_def)
  then have i: "InsertUsage (mf_insert mf) (Some ev) (db_usages d) = (Ok (), db_usages d @ [insert_usage_row ev])"
    using assms(3) by (simp add: InsertUsage_def)
  have k: "db_keys a = db_keys b \<Longrightarrow> db_keys (bill_key r mf now j c a) = db_keys (bill_key r mf now j c b)" for a b c
    by (simp add: bill_key_def)
  show "\<exists>m. db_jobs d1 = snd (UpdateStatus (mf_backfill mf) now (j_ID j) (j_Status j) m (db_jobs d))"
    using assms(4) i unfolding ev_def d1_def by (auto simp: OnJobTerminal_def Let_def backfill_job_def)
  show "db_usages d1 = db_usages d @ [insert_usage_row ev]"
    using i unfolding ev_def d1_def by (simp add: OnJobTerminal_def Let_def)
  show "db_keys d1 = db_keys (bill_key r mf now j (ue_ChargedCreditsHundredths ev) d)"
    using i unfolding ev_def d1_def by (simp add: OnJobTerminal_def Let_def) (rule k, simp)
qed

text \<open>C40. An end the job table does not know.  The upstream's \<open>nsfw\<close> is an end for the waiting
  request but not a terminal status, so the compare-and-swap is refused; the request
  bills and notifies all the same: one usage row is written, with the charge of the job, the
  key's counter takes that charge, and the callback is fired.  The back-fill of the bill then
  writes \<open>nsfw\<close> into the job's row, which is left neither pending nor terminal and without
  an end time: no poll lists it again and no purge removes it.\<close>

theorem nsfw_leaves_row_stranded:
  assumes ready: "sync_ready s f x d" and nsfw: "fj_Status fin = ''nsfw''"
    and row: "find_row jr_id (cr_JobID (gx_Created x)) (db_jobs d) = Some r0"
    and meter: "sv_Meter s = Some r" "rcd_Jobs r" "mf_insert (xf_meter f) = None" "mf_backfill (xf_meter f) = None"
    and fresh: "\<not> metered (cr_JobID (gx_Created x)) d" "\<forall>u \<in> set (db_usages d). uw_id u \<noteq> uid"
  shows "let d1 = snd (gen_finish s f later uid x (Ok fin) d);
      j = sync_job x later fin;
      acct = (case GetAccount None (a_ID (gx_Acc x)) (db_accounts (unlock f (gx_Acc x) (gx_Token x) d)) of
                Inl e \<Rightarrow> gx_Acc x | Inr a \<Rightarrow> a);
      ev = usage_of_job later uid j (Some acct) (a_SubscriptionBalance (gx_Acc x))
             (resolveMarkup s f (rq_APIKeyID (gx_Req x)) (db_keys d))
    in db_usages d1 = db_usages d @ [insert_usage_row ev] \<and>
      db_keys d1 = db_keys (bill_key r (xf_meter f) later j (ue_ChargedCreditsHundredths ev) d) \<and>
      db_fired d1 = db_fired d @
        (if sv_Webhooks s \<and> rq_CallbackURL (gx_Req x) \<noteq> '''' then [(rq_CallbackURL (gx_Req x), j)] else []) \<and>
      (\<exists>r1. find_row jr_id (cr_JobID (gx_Created x)) (db_jobs d1) = Some r1 \<and>
        jr_status r1 = JobOther ''nsfw'' \<and> jr_finished_at r1 = jr_finished_at r0 \<and>
        jr_status r1 \<notin> set pending_statuses \<and> \<not> isTerminal (jr_status r1))"
proof -
  let ?jid = "cr_JobID (gx_Created x)"
  have st: "sync_status (fj_Status fin) (fj_Refunded fin) = JobOther ''nsfw''"
    by (simp add: sync_status_def nsfw job_status_of_string.simps)
  have r: "gx_Persisted x" "sv_Jobs s" "xf_call f = (\<lambda>_. None)" using ready unfolding sync_ready_def by blast+
  have cas: "sync_cas s f x later fin d = (True, d)"
    using r by (simp add: sync_cas_def st TryMarkTerminal_def)
  let ?d1 = "unlock f (gx_Acc x) (gx_Token x) d"
  let ?j = "sync_job x later fin"
  let ?acct = "case GetAccount None (a_ID (gx_Acc x)) (db_accounts ?d1) of Inl e \<Rightarrow> gx_Acc x | Inr a \<Rightarrow> a"
  let ?ev = "usage_of_job later uid ?j (Some ?acct) (a_SubscriptionBalance (gx_Acc x))
     (resolveMarkup s f (rq_APIKeyID (gx_Req x)) (db_keys d))"
  have j: "j_ID ?j = ?jid" "j_Status ?j = JobOther ''nsfw''" by (simp_all add: sync_job_def request_job_def st)
  have "\<not> metered (j_ID ?j) ?d1" "\<forall>u \<in> set (db_usages ?d1). uw_id u \<noteq> uid"
    using fresh by (simp_all add: j metered_def)
  note billed = OnJobTerminal_fresh [OF this meter(3,2), of later "Some ?acct" "a_SubscriptionBalance (gx_Acc x)"
      "resolveMarkup s f (rq_APIKeyID (gx_Req x)) (db_keys d)"]
  let ?d2 = "snd (OnJobTerminal (Some r) (xf_meter f) later uid (Some ?j) (Some ?acct) (a_SubscriptionBalance (gx_Acc x))
      (resolveMarkup s f (rq_APIKeyID (gx_Req x)) (db_keys d)) ?d1)"
  have fired: "db_fired ?d2 = db_fired d"
    by (auto simp: OnJobTerminal_def Let_def bill_group_def bill_key_def backfill_job_def split: sum.split prod.split)
  have keys: "db_keys (bill_key r (xf_meter f) later ?j c ?d1) = db_keys (bill_key r (xf_meter f) later ?j c d)" for c
    by (simp add: bill_key_def)
  have "snd (gen_finish s f later uid x (Ok fin) d) = sync_effects s f x later uid fin d"
    by (simp add: gen_finish_def nsfw cas)
  also have "\<dots> = (if sv_Webhooks s \<and> rq_CallbackURL (gx_Req x) \<noteq> ''''
      then ?d2\<lparr> db_fired := db_fired ?d2 @ [(rq_CallbackURL (gx_Req x), ?j)] \<rparr> else ?d2)"
    by (simp add: sync_effects_def Let_def meter(1) r(3))
  finally have fin: "snd (gen_finish s f later uid x (Ok fin) d) = (if sv_Webhooks s \<and> rq_CallbackURL (gx_Req x) \<noteq> ''''
      then ?d2\<lparr> db_fired := db_fired ?d2 @ [(rq_CallbackURL (gx_Req x), ?j)] \<rparr> else ?d2)" .
  obtain m where m: "db_jobs ?d2 = snd (UpdateStatus None later ?jid (JobOther ''nsfw'') m (db_jobs d))"
    using billed(1) meter(4) by (auto simp: j)
  have row1: "find_row jr_id ?jid (db_jobs ?d2) = Some (progress_row later (JobOther ''nsfw'') m r0)"
    using m row find_row_UpdateStatus [of ?jid None later ?jid] by simp
  have tables: "db_jobs (snd (gen_finish s f later uid x (Ok fin) d)) = db_jobs ?d2"
    "db_usages (snd (gen_finish s f later uid x (Ok fin) d)) = db_usages ?d2"
    "db_keys (snd (gen_finish s f later uid x (Ok fin) d)) = db_keys ?d2"
    "db_fired (snd (gen_finish s f later uid x (Ok fin) d)) = db_fired d @
        (if sv_Webhooks s \<and> rq_CallbackURL (gx_Req x) \<noteq> '''' then [(rq_CallbackURL (gx_Req x), ?j)] else [])"
    unfolding fin by (simp_all add: fired)
  have bill: "db_usages ?d2 = db_usages d @ [insert_usage_row ?ev]"
    "db_keys ?d2 = db_keys (bill_key r (xf_meter f) later ?j (ue_ChargedCreditsHundredths ?ev) d)"
    using billed(2,3) keys by simp_all
  show ?thesis
    unfolding Let_def tables bill row1 by (simp add: progress_row_def pending_statuses_def apply_meta_def)
qed


section \<open>Instances\<close>

definition demo_service :: service where
  "demo_service = \<lparr> sv_Resolve = (\<lambda>_. Ok demo_spec), sv_StarterLocked = (\<lambda>_. False), sv_Regex = (\<lambda>_. None),
     sv_Jobs = True, sv_Groups = False,
     sv_APIKeys = False, sv_Settings = False, sv_Meter = Some full_recorder, sv_Webhooks = True,
     sv_Failover = None, sv_AsyncByDefault = True, sv_MaxInFlightPerAccountDefault = 0 \<rparr>"

definition demo_request :: gen_request where
  "demo_request = \<lparr> rq_Model = ''seedance'', rq_UserParams = [], rq_Media = None, rq_Async = False,
     rq_SyncRequested = True, rq_GroupID = '''', rq_GroupCandidates = [], rq_APIKeyID = '''',
     rq_CPAPartnerID = '''', rq_APIKeyMonthlyQuota = 0, rq_APIKeyMonthlyUsed = 0,
     rq_CallbackURL = ''http://c'' \<rparr>"

definition demo_ctx :: gen_ctx where
  "demo_ctx = \<lparr> gx_Spec = demo_spec, gx_Req = demo_request, gx_Acc = demo_account ''a1'', gx_Token = ''a1'',
     gx_Endpoint = '''', gx_Created = \<lparr> cr_JobID = ''j1'', cr_Cost = 500 \<rparr>, gx_RequestTS = 0,
     gx_Persisted = True \<rparr>"

definition demo_poll_config :: poll_config where
  "demo_poll_config = worker_defaults\<lparr> pw_Webhooks := True \<rparr>"

definition own_demo_job :: job where
  "own_demo_job = metered_job\<lparr> j_CallbackURL := ''http://c'' \<rparr>"

definition busy_db :: db where
  "busy_db = (demo_jobs_db JobQueued)\<lparr> db_accounts := [(demo_row ''a1'')\<lparr> ar_in_flight_jobs := 2 \<rparr>] \<rparr>"

lemma demo_own: "own_job demo_ctx own_demo_job" "gx_Token demo_ctx \<noteq> ''''"
  "cr_JobID (gx_Created demo_ctx) = ''j1''" "gx_Token demo_ctx = ''a1''" "rq_CallbackURL (gx_Req demo_ctx) = ''http://c''"
  by (simp_all add: own_job_def demo_ctx_def own_demo_job_def metered_job_def demo_request_def)

lemma demo_ready: "sync_ready demo_service no_proxy_faults demo_ctx (demo_jobs_db JobQueued)"
  "sync_ready demo_service no_proxy_faults demo_ctx busy_db"
  using demo_jobs_db_sel(1) [of JobQueued]
  by (simp_all add: sync_ready_def demo_ctx_def demo_service_def no_proxy_faults_def busy_db_def
      demo_jobs_db_sel keys_of_def demo_account_def)

lemma demo_pending: "pending_job ''j1'' (demo_jobs_db JobQueued)" "pending_job ''j1'' busy_db"
  using demo_jobs_db_sel(2) [of JobQueued] by (simp_all add: pending_job_def busy_db_def pending_statuses_def)

lemma demo_try_group:
  "\<exists>acc d1. try_group demo_service no_proxy_faults (\<lambda>_. 0) 0 demo_spec '''' (demo_jobs_db JobQueued) =
     (Ok (acc, ''a1''), d1)"
proof -
  let ?p = "pick_params_for demo_service demo_spec open_policy '''' zero_lb_opts"
  have e: "eligible 0 ?p [] (demo_row ''a1'')"
    by (simp add: eligible_def pick_params_for_def demo_service_def demo_spec_def open_policy_def
        zero_lb_opts_def perAccountCap_def minBalance_def plan_gates_def wrap64_small)
  have "select_candidate (\<lambda>_. 0) 0 ?p [] [] [demo_row ''a1''] = Some (demo_row ''a1'')"
    by (simp add: select_candidate_def e)
  moreover have "\<not> group_cap_reached ?p [] [demo_row ''a1'']"
    by (simp add: group_cap_reached_def pick_params_for_def)
  moreover have "resolveGroupPolicy demo_service (xf_group no_proxy_faults '''') '''' gs = open_policy"
    "resolveLoadBalanceOpts demo_service (xf_setting no_proxy_faults) ss = zero_lb_opts" for gs ss
    by (simp_all add: resolveGroupPolicy_def resolveLoadBalanceOpts_def demo_service_def)
  moreover have "db_members (demo_jobs_db JobQueued) = []" "db_unlims (demo_jobs_db JobQueued) = []"
    "xf_pick no_proxy_faults '''' = (\<lambda>_. None)"
    by (simp_all add: demo_jobs_db_def empty_db_def no_proxy_faults_def)
  moreover have "enforceGroupGates open_policy a e = None" for a e
    by (simp add: enforceGroupGates_def open_policy_def)
  ultimately show ?thesis
    by (simp add: try_group_def Let_def PickAndLock_no_fault demo_jobs_db_sel(3))
qed

theorem pick_loop_spec_witness:
  "\<exists>acc d1. pick_loop demo_service no_proxy_faults (\<lambda>_. 0) 0 demo_spec [''''] (demo_jobs_db JobQueued) =
     (Ok (acc, ''a1'', ''''), d1) \<and> a_ID acc = ''a1''"
proof -
  obtain acc d1 where t: "try_group demo_service no_proxy_faults (\<lambda>_. 0) 0 demo_spec '''' (demo_jobs_db JobQueued) =
     (Ok (acc, ''a1''), d1)" using demo_try_group by blast
  have run: "pick_loop demo_service no_proxy_faults (\<lambda>_. 0) 0 demo_spec [''''] (demo_jobs_db JobQueued) =
     (Ok (acc, ''a1'', ''''), d1)" by (simp add: t)
  from pick_loop_spec [OF run] have "a_ID acc = ''a1''" by auto
  with run show ?thesis by blast
qed

theorem gen_begin_slots_witness:
  "slots ''a1'' (snd (gen_begin demo_service no_proxy_faults (\<lambda>_. 0) 0 ''ue'' ''cf'' demo_request
     (Err (Sent ErrUpstreamRateLimit)) (demo_jobs_db JobQueued))) = slots ''a1'' (demo_jobs_db JobQueued)"
proof -
  obtain acc d1 where t: "try_group demo_service no_proxy_faults (\<lambda>_. 0) 0 demo_spec '''' (demo_jobs_db JobQueued) =
     (Ok (acc, ''a1''), d1)" using demo_try_group by blast
  have "\<exists>b. buildBody demo_spec [] None False = Ok b"
    by (simp add: buildBody_def demo_spec_template Let_def)
  then obtain b where b: "buildBody demo_spec [] None False = Ok b" by blast
  have route: "unlim_route no_proxy_faults 0 demo_spec acc us = (sp_Endpoint demo_spec, False)" for us
    by (simp add: unlim_route_def demo_spec_def)
  have req: "rq_UserParams demo_request = []" "rq_Media demo_request = None"
    "candidates_of demo_request = ['''']" "enforceKeyGates demo_request e = None" for e
    by (simp_all add: demo_request_def candidates_of_def enforceKeyGates_def)
  have "sv_Resolve demo_service (rq_Model demo_request) = Ok demo_spec" by (simp add: demo_service_def)
  then have "\<exists>d'. gen_begin demo_service no_proxy_faults (\<lambda>_. 0) 0 ''ue'' ''cf'' demo_request
     (Err (Sent ErrUpstreamRateLimit)) (demo_jobs_db JobQueued) = (Inl (Err (Sent ErrUpstreamRateLimit)), d')"
    by (simp add: gen_begin_def req t gen_create_def route b)
  then obtain d' where run: "gen_begin demo_service no_proxy_faults (\<lambda>_. 0) 0 ''ue'' ''cf'' demo_request
     (Err (Sent ErrUpstreamRateLimit)) (demo_jobs_db JobQueued) = (Inl (Err (Sent ErrUpstreamRateLimit)), d')" by blast
  have "slots_ok (db_accounts (demo_jobs_db JobQueued))" by (simp add: demo_jobs_db_sel slots_ok_def)
  moreover have "xf_call no_proxy_faults PxUnlock = None" by (simp add: no_proxy_faults_def)
  ultimately show ?thesis using gen_begin_slots [OF run] by (simp add: run)
qed


lemma demo_observed: "observed demo_service no_proxy_faults demo_ctx demo_poll_config no_poll_faults (demo_jobs_db JobQueued)"
  by (simp add: observed_def demo_ready demo_own)
    (simp add: no_poll_faults_def demo_service_def demo_poll_config_def)

theorem observers_end_job_once_witness:
  "length (db_fired (fold (observe_end demo_service no_proxy_faults demo_ctx demo_poll_config no_poll_faults)
     [PollTimeout 5 ''u1'' own_demo_job,
      SyncEnd 6 ''u2'' \<lparr> fj_Status = ''completed'', fj_ResultURL = ''r'', fj_Refunded = False \<rparr>]
     (demo_jobs_db JobQueued))) = 1"
proof -
  have p: "pending_job (cr_JobID (gx_Created demo_ctx)) (demo_jobs_db JobQueued)"
    by (simp add: demo_own demo_pending)
  have "\<forall>ob \<in> set [PollTimeout 5 ''u1'' own_demo_job,
      SyncEnd 6 ''u2'' \<lparr> fj_Status = ''completed'', fj_ResultURL = ''r'', fj_Refunded = False \<rparr>].
      sees_end demo_ctx ob"
    by (simp add: demo_own sync_status_def job_status_of_string.simps)
  from observers_end_job_once [OF demo_observed p this] show ?thesis
    by (simp add: demo_jobs_db_def empty_db_def)
qed

theorem sync_timeout_releases_twice_witness:
  "\<exists>resp d1. gen_finish demo_service no_proxy_faults 7 ''u'' demo_ctx (Err (Sent ErrUpstreamTimeout)) busy_db =
     (Ok resp, d1) \<and> slots ''a1'' d1 = 1 \<and>
     slots ''a1'' (finish_polled demo_poll_config no_poll_faults 9 ''u'' (demo_account ''a1'') ''completed''
       \<lparr> fj_Status = ''completed'', fj_ResultURL = ''r'', fj_Refunded = False \<rparr> own_demo_job d1) = 0"
proof -
  have p: "pending_job (cr_JobID (gx_Created demo_ctx)) busy_db" by (simp add: demo_own demo_pending)
  have pf: "pf_call no_poll_faults = (\<lambda>_. None)" by (simp add: no_poll_faults_def)
  have u: "upstream_terminal ''completed''" by (simp add: upstream_terminal_def)
  have n: "slots (gx_Token demo_ctx) busy_db = 2"
    by (simp add: demo_own busy_db_def in_flight_def sql_simps)
  show ?thesis
    using sync_timeout_releases_twice [OF demo_ready(2) p pf demo_own(1) u demo_own(2),
        of 7 "''u''" demo_poll_config 9 "''u''" "demo_account ''a1''"
        "\<lparr> fj_Status = ''completed'', fj_ResultURL = ''r'', fj_Refunded = False \<rparr>"] n
    by (auto simp: demo_own(4))
qed

theorem nsfw_leaves_row_stranded_witness:
  "\<exists>r1. find_row jr_id ''j1'' (db_jobs (snd (gen_finish demo_service no_proxy_faults 7 ''u'' demo_ctx
     (Ok \<lparr> fj_Status = ''nsfw'', fj_ResultURL = '''', fj_Refunded = False \<rparr>) (demo_jobs_db JobQueued)))) = Some r1 \<and>
     jr_status r1 = JobOther ''nsfw'' \<and>
     length (db_usages (snd (gen_finish demo_service no_proxy_faults 7 ''u'' demo_ctx
       (Ok \<lparr> fj_Status = ''nsfw'', fj_ResultURL = '''', fj_Refunded = False \<rparr>) (demo_jobs_db JobQueued)))) =
       length (db_usages (demo_jobs_db JobQueued)) + 1"
proof -
  let ?fin = "\<lparr> fj_Status = ''nsfw'', fj_ResultURL = '''', fj_Refunded = False \<rparr>"
  have row: "find_row jr_id (cr_JobID (gx_Created demo_ctx)) (db_jobs (demo_jobs_db JobQueued)) =
      Some (insert_job_row (metered_job\<lparr> j_Status := JobQueued \<rparr>))"
    by (simp add: demo_own demo_jobs_db_def sql_simps insert_job_row_def metered_job_def)
  have m: "sv_Meter demo_service = Some full_recorder" "rcd_Jobs full_recorder"
    "mf_insert (xf_meter no_proxy_faults) = None" "mf_backfill (xf_meter no_proxy_faults) = None"
    by (simp_all add: demo_service_def full_recorder_def no_proxy_faults_def no_faults_def)
  have fr: "\<not> metered (cr_JobID (gx_Created demo_ctx)) (demo_jobs_db JobQueued)"
    "\<forall>u \<in> set (db_usages (demo_jobs_db JobQueued)). uw_id u \<noteq> ''u''"
    by (simp_all add: metered_def demo_jobs_db_def empty_db_def)
  have "fj_Status ?fin = ''nsfw''" by simp
  from nsfw_leaves_row_stranded [OF demo_ready(1) this row m fr, of 7] show ?thesis
    unfolding demo_own(3) Let_def by auto
qed

end
