(* ===== verification/Http.thy ===== *)
theory Http
  imports Json Domain
begin

text \<open>
  HTTP as the program meets it.  What has happened on the network so far is a
  history of requests and sleeps; the rest of the world is an environment that
  answers, from the history, the request just sent, the clock and the state of the
  caller's context.  Also the cookie header and the shortening of bodies in error
  texts, which \<open>core/jwt\<close> and \<open>core/upstream\<close> share.
\<close>

record http_request =
  hq_Method :: string
  hq_URL :: string
  hq_Headers :: "(string \<times> string) list"
  hq_Body :: string

record http_response =
  hr_Status :: int
  hr_Body :: string

text \<open>The HTTP client a request goes out through: the shared one, or the one of an
  account's own proxy.\<close>

datatype egress = Shared | Bound string

text \<open>A request is sent under a context whose deadline it carries.\<close>

datatype net_event = SendEv egress "int option" http_request | SleepEv int

type_synonym history = "net_event list"

record env =
  ev_Answer :: "history \<Rightarrow> (gerror, http_response) result"
  ev_Now :: "history \<Rightarrow> int"
  ev_Done :: "history \<Rightarrow> gerror option"
  ev_URLError :: "string \<Rightarrow> gerror option"
  ev_Order :: "(string \<times> string) list \<Rightarrow> (string \<times> string) list"

definition send ::
  "env \<Rightarrow> egress \<Rightarrow> int option \<Rightarrow> http_request \<Rightarrow> history \<Rightarrow> (gerror, http_response) result \<times> history" where
  "send v eg dl r h = (let h1 = h @ [SendEv eg dl r] in (ev_Answer v h1, h1))"

definition NewRequest :: "env \<Rightarrow> string \<Rightarrow> string \<Rightarrow> string \<Rightarrow> (gerror, http_request) result" where
  "NewRequest v meth url body = (case ev_URLError v url of
     Some e \<Rightarrow> Err e
   | None \<Rightarrow> Ok \<lparr> hq_Method = meth, hq_URL = url, hq_Headers = [], hq_Body = body \<rparr>)"

definition set_header :: "string \<Rightarrow> string \<Rightarrow> http_request \<Rightarrow> http_request" where
  "set_header k val r = r\<lparr> hq_Headers := obj_put k val (hq_Headers r) \<rparr>"

definition set_headers :: "(string \<times> string) list \<Rightarrow> http_request \<Rightarrow> http_request" where
  "set_headers kvs r = fold (\<lambda>(k, val). set_header k val) kvs r"

definition header :: "string \<Rightarrow> http_request \<Rightarrow> string option" where
  "header k r = map_of (hq_Headers r) k"

section \<open>Cookies and error texts\<close>

fun join_with :: "string \<Rightarrow> string list \<Rightarrow> string" where
  "join_with sep [] = []"
| "join_with sep [x] = x"
| "join_with sep (x # y # r) = x @ sep @ join_with sep (y # r)"

text \<open>The order a Go map is walked in is not fixed: \<open>order\<close> is the one of this call.\<close>

definition buildCookieHeader :: "env \<Rightarrow> string \<Rightarrow> (gerror, string) result" where
  "buildCookieHeader v cookiesJSON =
     (case unmarshal (dec_map dec_string '''') [] cookiesJSON of
        Inl e \<Rightarrow> Err e
      | Inr m \<Rightarrow> Ok (join_with ''; '' (map (\<lambda>(k, val). k @ ''='' @ val) (ev_Order v m))))"

definition snip :: "nat \<Rightarrow> string \<Rightarrow> string" where
  "snip n b = (if length b \<le> n then b else take n b @ ''...'')"

lemma snip_length: "length (snip n b) \<le> n + 3"
  by (simp add: snip_def)

lemma header_set_header [simp]: "header k (set_header k' val r) = (if k = k' then Some val else header k r)"
  using obj_get_put [of k' val "hq_Headers r" k] by (simp add: header_def set_header_def obj_get_def)

lemma header_set_headers_other: "k \<notin> fst ` set kvs \<Longrightarrow> header k (set_headers kvs r) = header k r"
  by (induction kvs arbitrary: r) (auto simp: set_headers_def)

end
