(* ===== verification/Jwt.thy ===== *)
theory Jwt
  imports Http
begin

text \<open>
  \<open>core/jwt/jwt.go\<close>: session tokens minted from an account's cookies and cached per
  account.  An entry's mutex makes a \<open>Get\<close> atomic, so the cache is a map from account
  identifiers to tokens, the zero token standing for none.
\<close>

record claims =
  cm_Sub :: string
  cm_Email :: string
  cm_Exp :: int
  cm_Iat :: int
  cm_WorkspaceID :: string

record token =
  tk_JWT :: string
  tk_Claims :: claims

record jwt_config =
  jc_SlackSeconds :: int
  jc_APIVersion :: string
  jc_JSVersion :: string

definition zero_claims :: claims where
  "zero_claims = \<lparr> cm_Sub = '''', cm_Email = '''', cm_Exp = 0, cm_Iat = 0, cm_WorkspaceID = '''' \<rparr>"

definition zero_token :: token where "zero_token = \<lparr> tk_JWT = '''', tk_Claims = zero_claims \<rparr>"

definition applyDefaults :: "jwt_config \<Rightarrow> jwt_config" where
  "applyDefaults c = \<lparr>
     jc_SlackSeconds = (if jc_SlackSeconds c = 0 then 15 else jc_SlackSeconds c),
     jc_APIVersion = (if jc_APIVersion c = '''' then ''2025-11-10'' else jc_APIVersion c),
     jc_JSVersion = (if jc_JSVersion c = '''' then ''5.127.0'' else jc_JSVersion c) \<rparr>"

type_synonym token_cache = "string \<Rightarrow> token"

text \<open>\<open>time.Unix(exp, 0)\<close> counts seconds from the year 1 in an \<open>int64\<close>.\<close>

definition Expiry :: "token \<Rightarrow> int" where
  "Expiry t = (wrap64 (cm_Exp (tk_Claims t) + 62135596800) - 62135596800) * nanos"

section \<open>Claims\<close>

definition b64_val :: "char \<Rightarrow> char \<Rightarrow> char \<Rightarrow> nat option" where
  "b64_val c62 c63 c = (let b = byte c in
     if 65 \<le> b \<and> b \<le> 90 then Some (b - 65) else if 97 \<le> b \<and> b \<le> 122 then Some (b - 71)
     else if 48 \<le> b \<and> b \<le> 57 then Some (b + 4) else if c = c62 then Some 62
     else if c = c63 then Some 63 else None)"

fun b64_groups :: "nat list \<Rightarrow> string option" where
  "b64_groups [] = Some []"
| "b64_groups [a] = None"
| "b64_groups [a, b] = Some [char_of (a * 4 + b div 16)]"
| "b64_groups [a, b, c] = Some [char_of (a * 4 + b div 16), char_of (b mod 16 * 16 + c div 4)]"
| "b64_groups (a # b # c # d # r) = map_option (append [char_of (a * 4 + b div 16),
     char_of (b mod 16 * 16 + c div 4), char_of (c mod 4 * 64 + d)]) (b64_groups r)"

definition strip_newlines :: "string \<Rightarrow> string" where
  "strip_newlines s = filter (\<lambda>c. c \<noteq> CHR 0x0A \<and> c \<noteq> CHR 0x0D) s"

definition RawURLDecode :: "string \<Rightarrow> string option" where
  "RawURLDecode s = Option.bind (those (map (b64_val (CHR ''-'') (CHR ''_'')) (strip_newlines s))) b64_groups"

definition StdDecode :: "string \<Rightarrow> string option" where
  "StdDecode s0 =
     (let s = strip_newlines s0;
          s1 = (if drop (length s - 2) s = ''=='' then take (length s - 2) s
                else if drop (length s - 1) s = ''='' then take (length s - 1) s else s)
      in if length s mod 4 \<noteq> 0 then None
         else Option.bind (those (map (b64_val (CHR ''+'') (CHR ''/'')) s1)) b64_groups)"

fun split_on :: "char \<Rightarrow> string \<Rightarrow> string list" where
  "split_on d [] = [[]]"
| "split_on d (c # r) =
     (if c = d then [] # split_on d r
      else case split_on d r of [] \<Rightarrow> [[c]] | x # xs \<Rightarrow> (c # x) # xs)"

definition dec_claims :: "claims decoder" where
  "dec_claims = dec_struct (\<lambda>obj. do {
     sub \<leftarrow> dec_field ''sub'' dec_string '''' obj;
     email \<leftarrow> dec_field ''email'' dec_string '''' obj;
     ex \<leftarrow> dec_field ''exp'' dec_int 0 obj;
     iat \<leftarrow> dec_field ''iat'' dec_int 0 obj;
     ws \<leftarrow> dec_field ''workspace_id'' dec_string '''' obj;
     Some \<lparr> cm_Sub = sub, cm_Email = email, cm_Exp = ex, cm_Iat = iat, cm_WorkspaceID = ws \<rparr> }) zero_claims"

definition decodeClaims :: "string \<Rightarrow> (gerror, claims) result" where
  "decodeClaims jwt = (case split_on (CHR ''.'') jwt of
     [_, payload, _] \<Rightarrow>
       (case RawURLDecode payload of
          Some raw \<Rightarrow> unmarshal dec_claims zero_claims raw
        | None \<Rightarrow> (case StdDecode payload of
            Some raw \<Rightarrow> unmarshal dec_claims zero_claims raw
          | None \<Rightarrow> Err (Plain ''illegal base64 data'')))
   | _ \<Rightarrow> Err (Plain ''jwt: expected 3 segments''))"

section \<open>Minting\<close>

definition mint_url :: "jwt_config \<Rightarrow> account \<Rightarrow> string" where
  "mint_url c acc = ''https://clerk.higgsfield.ai/v1/client/sessions/'' @ a_SessionID acc @
     ''/tokens?__clerk_api_version='' @ jc_APIVersion c @ ''&_clerk_js_version='' @ jc_JSVersion c"

definition mint_headers :: "account \<Rightarrow> (string \<times> string) list" where
  "mint_headers acc = [(''Content-Type'', ''application/x-www-form-urlencoded''),
     (''Origin'', ''https://higgsfield.ai''), (''Referer'', ''https://higgsfield.ai/'')] @
     (if a_UserAgent acc \<noteq> '''' then [(''User-Agent'', a_UserAgent acc)] else [])"

definition dec_jwt :: "string decoder" where
  "dec_jwt = dec_struct (dec_field ''jwt'' dec_string '''') ''''"

text \<open>What the answer to a mint request amounts to.\<close>

definition token_of_answer :: "http_response \<Rightarrow> (gerror, token) result" where
  "token_of_answer resp =
     (if hr_Status resp = 401 then Err (Noted (Sent ErrUpstreamUnauthorized) (snip 200 (hr_Body resp)))
      else if hr_Status resp \<ge> 400
      then Err (Plain (''mint jwt: HTTP '' @ itoa (hr_Status resp) @ '': '' @ snip 200 (hr_Body resp)))
      else case unmarshal dec_jwt '''' (hr_Body resp) of
        Inl e \<Rightarrow> Err (Wrap ''parse jwt response'' e)
      | Inr jwt \<Rightarrow>
         (if jwt = '''' then Err (Plain ''mint jwt: empty jwt in response'')
          else case decodeClaims jwt of
            Inl e \<Rightarrow> Err (Wrap ''decode jwt claims'' e)
          | Inr cl \<Rightarrow> Ok \<lparr> tk_JWT = jwt, tk_Claims = cl \<rparr>))"

definition mint_request :: "env \<Rightarrow> jwt_config \<Rightarrow> account \<Rightarrow> (gerror, http_request) result" where
  "mint_request v c acc =
     (if a_SessionID acc = '''' then Err (Plain (''jwt: account '' @ a_ID acc @ '' missing session_id''))
      else if a_CookiesJSON acc = '''' then Err (Plain (''jwt: account '' @ a_ID acc @ '' missing cookies''))
      else case NewRequest v ''POST'' (mint_url c acc) ''organization_id='' of
        Inl e \<Rightarrow> Err e
      | Inr r \<Rightarrow> (case buildCookieHeader v (a_CookiesJSON acc) of
          Inl e \<Rightarrow> Err (Wrap ''cookie header'' e)
        | Inr cookie \<Rightarrow> Ok (set_header ''Cookie'' cookie (set_headers (mint_headers acc) r))))"

definition mint ::
  "env \<Rightarrow> jwt_config \<Rightarrow> int option \<Rightarrow> account \<Rightarrow> history \<Rightarrow> (gerror, token) result \<times> history" where
  "mint v c dl acc h = (case mint_request v c acc of
     Inl e \<Rightarrow> (Err e, h)
   | Inr r \<Rightarrow> (case send v Shared dl r h of
       (Inl e, h1) \<Rightarrow> (Err (Wrap ''mint jwt'' e), h1)
     | (Inr resp, h1) \<Rightarrow> (token_of_answer resp, h1)))"

section \<open>The cache\<close>

text \<open>A cached token is used while more than the slack is left of it.\<close>

definition still_fresh :: "jwt_config \<Rightarrow> int \<Rightarrow> token \<Rightarrow> bool" where
  "still_fresh c now t \<longleftrightarrow> tk_JWT t \<noteq> '''' \<and> Expiry t - now > wrap64 (jc_SlackSeconds c * nanos)"

definition GetToken ::
  "env \<Rightarrow> jwt_config \<Rightarrow> int option \<Rightarrow> account option \<Rightarrow> token_cache \<times> history
     \<Rightarrow> (gerror, token) result \<times> token_cache \<times> history" where
  "GetToken v c dl accopt st = (case accopt of
     None \<Rightarrow> (Err (Plain ''jwt: nil account''), st)
   | Some acc \<Rightarrow>
      (case st of (cache, h) \<Rightarrow>
        if still_fresh c (ev_Now v h) (cache (a_ID acc)) then (Ok (cache (a_ID acc)), cache, h)
        else (case mint v c dl acc h of
           (Inl e, h1) \<Rightarrow> (Err e, cache, h1)
         | (Inr t, h1) \<Rightarrow> (Ok t, cache(a_ID acc := t), h1))))"

definition Invalidate :: "string \<Rightarrow> token_cache \<times> history \<Rightarrow> token_cache \<times> history" where
  "Invalidate acct st = (case st of (cache, h) \<Rightarrow> (cache(acct := zero_token), h))"

section \<open>Lemmas\<close>

lemma zero_not_fresh [simp]: "\<not> still_fresh c now zero_token"
  by (simp add: still_fresh_def zero_token_def)

lemma mint_history:
  "mint v c dl acc h = (res, h1) \<Longrightarrow> h1 = h \<or> (\<exists>r. mint_request v c acc = Ok r \<and> h1 = h @ [SendEv Shared dl r])"
  by (auto simp: mint_def send_def Let_def split: sum.splits prod.splits)

lemma mint_Ok:
  "mint v c dl acc h = (Ok t, h1) \<Longrightarrow>
   \<exists>r resp. mint_request v c acc = Ok r \<and> h1 = h @ [SendEv Shared dl r] \<and> ev_Answer v h1 = Ok resp \<and>
     token_of_answer resp = Ok t"
  by (auto simp: mint_def send_def Let_def split: sum.splits prod.splits)

lemma token_of_answer_Ok: "token_of_answer resp = Ok t \<Longrightarrow> tk_JWT t \<noteq> '''' \<and> hr_Status resp < 400 \<and>
    decodeClaims (tk_JWT t) = Ok (tk_Claims t)"
  by (auto simp: token_of_answer_def split: if_splits sum.splits)

end
