(* ===== verification/Client.thy ===== *)
theory Client
  imports Jwt
begin

text \<open>
  \<open>core/upstream/client.go\<close>: the authenticated call with its single retry
  (\<open>doWithRetry\<close>), the job calls the generation pipeline makes and the wait for a
  job's end.  A call works on the token cache, the network history and the list of
  the latencies observed (endpoint and final status).
\<close>

section \<open>Construction\<close>

record client =
  cl_BaseURL :: string
  cl_Timeouts :: "(string \<times> int) list"
  cl_JWT :: jwt_config
  cl_Resolver :: "(account \<Rightarrow> (gerror, bool) result) option"

record client_state =
  cs_Tokens :: token_cache
  cs_History :: history
  cs_Observed :: "(string \<times> string) list"

definition trim_right_slashes :: "string \<Rightarrow> string" where
  "trim_right_slashes s = rev (dropWhile (\<lambda>c. c = CHR ''/'') (rev s))"

definition New :: "jwt_config \<Rightarrow> string \<Rightarrow> (string \<times> int) list \<Rightarrow> client" where
  "New jc base timeouts = \<lparr>
     cl_BaseURL = trim_right_slashes (if base = '''' then ''https://fnf.higgsfield.ai'' else base),
     cl_Timeouts = filter (\<lambda>(k, d). d > 0) timeouts,
     cl_JWT = applyDefaults jc, cl_Resolver = None \<rparr>"

definition timeoutFor :: "client \<Rightarrow> string \<Rightarrow> int option" where
  "timeoutFor c endpoint =
     (case map_of (cl_Timeouts c) endpoint of
        Some d \<Rightarrow> if d > 0 then Some d
                  else (case map_of (cl_Timeouts c) ''default'' of Some e \<Rightarrow> if e > 0 then Some e else None | None \<Rightarrow> None)
      | None \<Rightarrow> (case map_of (cl_Timeouts c) ''default'' of Some e \<Rightarrow> if e > 0 then Some e else None | None \<Rightarrow> None))"

section \<open>One authenticated call\<close>

definition std_headers :: "account \<Rightarrow> bool \<Rightarrow> (string \<times> string) list" where
  "std_headers acc isJSON =
     (if isJSON then [(''Content-Type'', ''application/json'')] else []) @
     [(''Accept'', ''*/*''), (''Accept-Language'', ''en-US,en;q=0.9''),
      (''Origin'', ''https://higgsfield.ai''), (''Referer'', ''https://higgsfield.ai/''),
      (''Sec-Ch-Ua'', [CHR 0x22] @ ''Chromium'' @ [CHR 0x22] @ '';v='' @ [CHR 0x22] @ ''145'' @ [CHR 0x22] @ '', '' @
         [CHR 0x22] @ ''Not_A Brand'' @ [CHR 0x22] @ '';v='' @ [CHR 0x22] @ ''99'' @ [CHR 0x22]),
      (''Sec-Ch-Ua-Mobile'', ''?0''), (''Sec-Ch-Ua-Platform'', [CHR 0x22] @ ''macOS'' @ [CHR 0x22]),
      (''Sec-Fetch-Dest'', ''empty''), (''Sec-Fetch-Mode'', ''cors''), (''Sec-Fetch-Site'', ''same-site'')] @
     (if a_UserAgent acc \<noteq> '''' then [(''User-Agent'', a_UserAgent acc)] else []) @
     (if a_DataDomeClientID acc \<noteq> '''' \<and> a_DataDomeClientID acc \<noteq> ''.keep''
      then [(''X-Datadome-Clientid'', a_DataDomeClientID acc)] else [])"

definition cookie_header :: "env \<Rightarrow> account \<Rightarrow> http_request \<Rightarrow> http_request" where
  "cookie_header v acc r =
     (if a_CookiesJSON acc = '''' then r
      else case buildCookieHeader v (a_CookiesJSON acc) of
        Inl e \<Rightarrow> r | Inr h \<Rightarrow> if h = '''' then r else set_header ''Cookie'' h r)"

definition setStdHeaders :: "env \<Rightarrow> account \<Rightarrow> string \<Rightarrow> bool \<Rightarrow> http_request \<Rightarrow> http_request" where
  "setStdHeaders v acc tok isJSON r =
     cookie_header v acc (set_header ''Authorization'' (''Bearer '' @ tok) (set_headers (std_headers acc isJSON) r))"

text \<open>What every method builds: an address under the base URL, a body, the headers.\<close>

definition api_request ::
  "env \<Rightarrow> client \<Rightarrow> account \<Rightarrow> string \<Rightarrow> string \<Rightarrow> string \<Rightarrow> bool \<Rightarrow> string \<Rightarrow> (gerror, http_request) result" where
  "api_request v c acc meth path body isJSON tok =
     map_sum id (setStdHeaders v acc tok isJSON) (NewRequest v meth (cl_BaseURL c @ path) body)"

definition statusCodeString :: "int \<Rightarrow> string" where
  "statusCodeString code =
     (case map_of [(200, ''200''), (201, ''201''), (400, ''400''), (401, ''401''), (403, ''403''),
                   (404, ''404''), (429, ''429''), (500, ''500''), (502, ''502''), (503, ''503'')] code of
        Some s \<Rightarrow> s | None \<Rightarrow> itoa code)"

text \<open>The client of the account's own proxy when the resolver gives one.\<close>

definition egress_for :: "client \<Rightarrow> account \<Rightarrow> egress" where
  "egress_for c acc = (case cl_Resolver c of
     None \<Rightarrow> Shared
   | Some resolve \<Rightarrow> (case resolve acc of
       Inl e \<Rightarrow> Shared | Inr own \<Rightarrow> if own then Bound (a_ID acc) else Shared))"

text \<open>One attempt: a token, a request, an answer.  The two attempts of a call differ in
  what a failure to get the token is called.\<close>

definition attempt ::
  "env \<Rightarrow> client \<Rightarrow> int option \<Rightarrow> string \<Rightarrow> account \<Rightarrow> (string \<Rightarrow> (gerror, http_request) result)
     \<Rightarrow> token_cache \<times> history \<Rightarrow> (gerror, http_response) result \<times> token_cache \<times> history" where
  "attempt v c dl label acc build st =
     (case GetToken v (cl_JWT c) dl (Some acc) st of
        (Inl e, st1) \<Rightarrow> (Err (Wrap label e), st1)
      | (Inr t, cache, h) \<Rightarrow>
         (case build (tk_JWT t) of
            Inl e \<Rightarrow> (Err e, cache, h)
          | Inr r \<Rightarrow> (case send v (egress_for c acc) dl r h of (res, h1) \<Rightarrow> (res, cache, h1))))"

definition status_label :: "(gerror, http_response) result \<Rightarrow> string" where
  "status_label res = (case res of Inl e \<Rightarrow> ''network_error'' | Inr r \<Rightarrow> statusCodeString (hr_Status r))"

definition doWithRetry ::
  "env \<Rightarrow> client \<Rightarrow> string \<Rightarrow> account \<Rightarrow> (string \<Rightarrow> (gerror, http_request) result) \<Rightarrow> client_state
     \<Rightarrow> (gerror, http_response) result \<times> client_state" where
  "doWithRetry v c endpoint acc build s =
     (let dl = map_option (\<lambda>d. ev_Now v (cs_History s) + d) (timeoutFor c endpoint);
          finish = (\<lambda>(res, cache, h). (res, \<lparr> cs_Tokens = cache, cs_History = h,
                     cs_Observed = cs_Observed s @ [(endpoint, status_label res)] \<rparr>))
      in case attempt v c dl ''mint jwt'' acc build (cs_Tokens s, cs_History s) of
           (Inl e, st1) \<Rightarrow> finish (Err e, st1)
         | (Inr resp, st1) \<Rightarrow>
            (if hr_Status resp \<noteq> 401 then finish (Ok resp, st1)
             else finish (attempt v c dl ''remint jwt after 401'' acc build (Invalidate (a_ID acc) st1))))"

section \<open>Creating a job\<close>

record create_response =
  cre_JobSetID :: string
  cre_JobID :: string
  cre_Cost :: int
  cre_HTTPStatus :: int

definition parseCreateCost :: "string \<Rightarrow> (gerror, int) result" where
  "parseCreateCost n =
     (if n = '''' then Ok 0
      else case lit_int n of Some i \<Rightarrow> Ok i
      | None \<Rightarrow> (case lit_f64 n of
          None \<Rightarrow> Err (Plain (''parse create response cost '' @ n))
        | Some f \<Rightarrow> if f < 0 \<or> of_int \<lfloor>f\<rfloor> \<noteq> f
                    then Err (Plain (''parse create response cost '' @ n @ '': expected whole number''))
                    else Ok (f64_to_int64 f)))"

definition dec_job_id :: "json \<Rightarrow> string option" where
  "dec_job_id j = dec_struct (dec_field ''id'' dec_string '''') '''' j ''''"

definition dec_job_set :: "json \<Rightarrow> (string \<times> string \<times> string list) option" where
  "dec_job_set j = dec_struct (\<lambda>obj. do {
     i \<leftarrow> dec_field ''id'' dec_string '''' obj;
     cost \<leftarrow> dec_field ''cost'' dec_number '''' obj;
     jobs \<leftarrow> dec_field ''jobs'' (dec_list dec_job_id) [] obj;
     Some (i, cost, jobs) }) ('''', '''', []) j ('''', '''', [])"

definition dec_create :: "(string \<times> string \<times> string list) list decoder" where
  "dec_create = dec_struct (\<lambda>obj. do {
     _ \<leftarrow> dec_field ''id'' dec_string '''' obj;
     dec_field ''job_sets'' (dec_list dec_job_set) [] obj }) []"

definition parseCreateResponse :: "string \<Rightarrow> int \<Rightarrow> (gerror, create_response) result" where
  "parseCreateResponse raw httpStatus = (case unmarshal dec_create [] raw of
     Inl e \<Rightarrow> Err (Wrap ''parse create response'' e)
   | Inr sets \<Rightarrow> (case sets of
       (i, cost, job # _) # _ \<Rightarrow>
         (case parseCreateCost cost of Inl e \<Rightarrow> Err e
          | Inr n \<Rightarrow> Ok \<lparr> cre_JobSetID = i, cre_JobID = job, cre_Cost = n, cre_HTTPStatus = httpStatus \<rparr>)
     | _ \<Rightarrow> Err (Plain ''create response missing job_sets[0].jobs[0]'')))"

definition max_snip :: nat where "max_snip = 240"

definition snip240 :: "http_response \<Rightarrow> string" where "snip240 r = snip max_snip (hr_Body r)"

definition create_answer :: "http_response \<Rightarrow> (gerror, create_response) result" where
  "create_answer r =
     (let st = hr_Status r; note = (\<lambda>s. Err (Noted (Sent s) (snip240 r)))
      in if st = 200 then parseCreateResponse (hr_Body r) st
         else if st = 401 then note ErrUpstreamUnauthorized
         else if st = 403 then note ErrUpstreamForbidden
         else if st = 429 then note ErrUpstreamRateLimit
         else if st = 422 then note ErrUpstreamBadBody
         else if st \<ge> 500 then Err (Noted (Sent ErrUpstreamServerError) (itoa st @ '' '' @ snip240 r))
         else Err (Plain (''upstream unexpected status '' @ itoa st @ '': '' @ snip240 r)))"

definition CreateUpstreamJob ::
  "env \<Rightarrow> client \<Rightarrow> account \<Rightarrow> string \<Rightarrow> object \<Rightarrow> client_state \<Rightarrow> (gerror, create_response) result \<times> client_state" where
  "CreateUpstreamJob v c acc endpoint body s =
     (case doWithRetry v c ''create_job'' acc (api_request v c acc ''POST'' endpoint (marshal (JObj body)) True) s of
        (Inl e, s1) \<Rightarrow> (Err (Wrap ''upstream'' e), s1)
      | (Inr r, s1) \<Rightarrow> (create_answer r, s1))"

section \<open>Reading a job\<close>

record status_response =
  sr_ID :: string
  sr_Status :: string
  sr_IPCheckFinished :: "bool option"
  sr_IPDetected :: "bool option"
  sr_JobSetType :: string

definition zero_status :: status_response where
  "zero_status = \<lparr> sr_ID = '''', sr_Status = '''', sr_IPCheckFinished = None, sr_IPDetected = None, sr_JobSetType = '''' \<rparr>"

definition dec_status :: "status_response decoder" where
  "dec_status = dec_struct (\<lambda>obj. do {
     i \<leftarrow> dec_field ''id'' dec_string '''' obj;
     st \<leftarrow> dec_field ''status'' dec_string '''' obj;
     fin \<leftarrow> dec_field ''ip_check_finished'' (dec_ptr dec_bool False) None obj;
     det \<leftarrow> dec_field ''ip_detected'' (dec_ptr dec_bool False) None obj;
     jst \<leftarrow> dec_field ''job_set_type'' dec_string '''' obj;
     Some \<lparr> sr_ID = i, sr_Status = st, sr_IPCheckFinished = fin, sr_IPDetected = det, sr_JobSetType = jst \<rparr> }) zero_status"

record fetch_response =
  fre_ID :: string
  fre_Status :: string
  fre_Meta :: object
  fre_Results :: object
  fre_ResultURL :: string
  fre_Refunded :: bool
  fre_Raw :: string

definition zero_fetch :: fetch_response where
  "zero_fetch = \<lparr> fre_ID = '''', fre_Status = '''', fre_Meta = [], fre_Results = [],
     fre_ResultURL = '''', fre_Refunded = False, fre_Raw = '''' \<rparr>"

definition dec_fetch :: "fetch_response decoder" where
  "dec_fetch = dec_struct (\<lambda>obj. do {
     i \<leftarrow> dec_field ''id'' dec_string '''' obj;
     st \<leftarrow> dec_field ''status'' dec_string '''' obj;
     meta \<leftarrow> dec_field ''meta'' (dec_map dec_any JNull) [] obj;
     res \<leftarrow> dec_field ''results'' (dec_map dec_any JNull) [] obj;
     Some (zero_fetch\<lparr> fre_ID := i, fre_Status := st, fre_Meta := meta, fre_Results := res \<rparr>) }) zero_fetch"

text \<open>A call whose only good status is 200; the texts name what was asked.\<close>

definition need_200 :: "string \<Rightarrow> http_response \<Rightarrow> gerror option" where
  "need_200 what r =
     (if hr_Status r = 401 then Some (Noted (Sent ErrUpstreamUnauthorized) (snip240 r))
      else if hr_Status r \<noteq> 200 then Some (Plain (what @ itoa (hr_Status r) @ '': '' @ snip240 r))
      else None)"

definition decode_200 :: "string \<Rightarrow> 'a decoder \<Rightarrow> 'a \<Rightarrow> http_response \<Rightarrow> (gerror, 'a) result" where
  "decode_200 what dec zero r = (case need_200 what r of
     Some e \<Rightarrow> Err e | None \<Rightarrow> unmarshal dec zero (hr_Body r))"

text \<open>A GET of the given path, as every read method makes it.\<close>

definition api_get :: "env \<Rightarrow> client \<Rightarrow> string \<Rightarrow> account \<Rightarrow> string \<Rightarrow> client_state
    \<Rightarrow> (gerror, http_response) result \<times> client_state" where
  "api_get v c endpoint acc path s = doWithRetry v c endpoint acc (api_request v c acc ''GET'' path '''' False) s"

definition FetchStatus ::
  "env \<Rightarrow> client \<Rightarrow> account \<Rightarrow> string \<Rightarrow> client_state \<Rightarrow> (gerror, status_response) result \<times> client_state" where
  "FetchStatus v c acc jid s =
     (case api_get v c ''fetch_status'' acc (''/jobs/'' @ jid @ ''/status'') s of
        (Inl e, s1) \<Rightarrow> (Err e, s1)
      | (Inr r, s1) \<Rightarrow> (decode_200 ''status '' dec_status zero_status r, s1))"

text \<open>The result address and the refund flag come from the free-form parts of the row.\<close>

definition result_url :: "object \<Rightarrow> string" where
  "result_url results = (case obj_get results ''raw'' of
     Some (JObj raw) \<Rightarrow> (case obj_get raw ''url'' of Some (JStr u) \<Rightarrow> u | _ \<Rightarrow> '''')
   | _ \<Rightarrow> '''')"

definition is_refunded :: "object \<Rightarrow> bool" where
  "is_refunded meta = (case obj_get meta ''is_refunded'' of Some (JBool b) \<Rightarrow> b | _ \<Rightarrow> False)"

definition FetchJob ::
  "env \<Rightarrow> client \<Rightarrow> account \<Rightarrow> string \<Rightarrow> client_state \<Rightarrow> (gerror, fetch_response) result \<times> client_state" where
  "FetchJob v c acc jid s =
     (case api_get v c ''fetch_job'' acc (''/jobs/'' @ jid) s of
        (Inl e, s1) \<Rightarrow> (Err e, s1)
      | (Inr r, s1) \<Rightarrow>
         (map_sum id (\<lambda>f. f\<lparr> fre_Raw := hr_Body r, fre_ResultURL := result_url (fre_Results f),
              fre_Refunded := is_refunded (fre_Meta f) \<rparr>)
            (decode_200 (''fetch job '' @ jid @ '': HTTP '') dec_fetch zero_fetch r), s1))"

section \<open>Waiting for the end of a job\<close>

definition isTerminalUpstream :: "string \<Rightarrow> bool" where
  "isTerminalUpstream status \<longleftrightarrow> status \<in> set [''completed'', ''failed'', ''nsfw'', ''terminated'']"

text \<open>The loop with fuel; \<open>None\<close> is a run that needs more.  \<open>seen\<close> lists the status
  changes reported to the caller, with the time left.\<close>

fun poll_loop ::
  "nat \<Rightarrow> env \<Rightarrow> client \<Rightarrow> account \<Rightarrow> string \<Rightarrow> int \<Rightarrow> int \<Rightarrow> string \<Rightarrow> (string \<times> int) list \<Rightarrow> client_state
     \<Rightarrow> ((gerror, fetch_response) result \<times> (string \<times> int) list \<times> client_state) option" where
  "poll_loop 0 v c acc jid interval deadline prev seen s = None"
| "poll_loop (Suc n) v c acc jid interval deadline prev seen s =
     (case ev_Done v (cs_History s) of
        Some e \<Rightarrow> Some (Err e, seen, s)
      | None \<Rightarrow>
         (if ev_Now v (cs_History s) > deadline then Some (Err (Sent ErrUpstreamTimeout), seen, s)
          else (case FetchStatus v c acc jid s of
             (Inl e, s1) \<Rightarrow>
               poll_loop n v c acc jid interval deadline prev seen
                 (s1\<lparr> cs_History := cs_History s1 @ [SleepEv interval] \<rparr>)
           | (Inr sr, s1) \<Rightarrow>
              (let seen1 = (if sr_Status sr \<noteq> prev
                            then seen @ [(sr_Status sr, deadline - ev_Now v (cs_History s1))] else seen)
               in if isTerminalUpstream (sr_Status sr)
                  then (case FetchJob v c acc jid s1 of (res, s2) \<Rightarrow> Some (res, seen1, s2))
                  else poll_loop n v c acc jid interval deadline (sr_Status sr) seen1
                         (s1\<lparr> cs_History := cs_History s1 @ [SleepEv interval] \<rparr>)))))"

definition poll_interval :: "int \<Rightarrow> int" where
  "poll_interval interval = (if interval = 0 then 4 * nanos else interval)"

definition poll_deadline :: "int \<Rightarrow> int" where
  "poll_deadline dl = (if dl = 0 then 300 * nanos else dl)"

definition PollUntilTerminal ::
  "nat \<Rightarrow> env \<Rightarrow> client \<Rightarrow> account \<Rightarrow> string \<Rightarrow> int \<Rightarrow> int \<Rightarrow> client_state
     \<Rightarrow> ((gerror, fetch_response) result \<times> (string \<times> int) list \<times> client_state) option" where
  "PollUntilTerminal fuel v c acc jid deadline interval s =
     poll_loop fuel v c acc jid (poll_interval interval) (ev_Now v (cs_History s) + poll_deadline deadline) '''' [] s"


section \<open>Lemmas on one call\<close>

lemma statusCodeString_itoa: "statusCodeString code = itoa code"
proof (cases "code \<in> set [200, 201, 400, 401, 403, 404, 429, 500, 502, 503]")
  case True
  have "\<forall>n \<in> set [200, 201, 400, 401, 403, 404, 429, 500, 502, 503]. statusCodeString n = itoa n"
    by code_simp
  then show ?thesis using True by blast
qed (simp add: statusCodeString_def)

lemma GetToken_history:
  "GetToken v jc dl a (cache, h) = (res, cache1, h1) \<Longrightarrow> \<exists>es. h1 = h @ es"
  by (auto simp: GetToken_def split: option.splits if_splits prod.splits sum.splits dest!: mint_history)

lemma attempt_history:
  "attempt v c dl l acc build (cache, h) = (res, cache1, h1) \<Longrightarrow> \<exists>es. h1 = h @ es"
  by (fastforce simp: attempt_def send_def Let_def split: prod.splits sum.splits dest!: GetToken_history)

lemma doWithRetry_history:
  assumes "doWithRetry v c ep acc build s = (res, s1)"
  shows "\<exists>es. cs_History s1 = cs_History s @ es"
proof -
  let ?dl = "map_option (\<lambda>d. ev_Now v (cs_History s) + d) (timeoutFor c ep)"
  obtain r1 cache1 h1 where a1: "attempt v c ?dl ''mint jwt'' acc build (cs_Tokens s, cs_History s) = (r1, cache1, h1)"
    by (rule prod_cases3)
  obtain es where e1: "h1 = cs_History s @ es" using attempt_history [OF a1] by blast
  obtain r2 cache2 h2 where a2: "attempt v c ?dl ''remint jwt after 401'' acc build
      (Invalidate (a_ID acc) (cache1, h1)) = (r2, cache2, h2)" by (rule prod_cases3)
  have "\<exists>es. h2 = h1 @ es" using attempt_history a2 by (simp add: Invalidate_def)
  then show ?thesis using assms a1 a2 e1
    by (auto simp: doWithRetry_def Let_def split: sum.splits if_splits)
qed

lemma api_get_history:
  "api_get v c ep acc path s = (res, s1) \<Longrightarrow> \<exists>es. cs_History s1 = cs_History s @ es"
  unfolding api_get_def by (rule doWithRetry_history)

lemma FetchStatus_history:
  "FetchStatus v c acc jid s = (res, s1) \<Longrightarrow> \<exists>es. cs_History s1 = cs_History s @ es"
  by (auto simp: FetchStatus_def split: prod.splits sum.splits dest: api_get_history)

text \<open>What an attempt puts on the wire: at most one mint, then at most the request.  After the
  token was dropped the mint is not spared, and the request carries its token.\<close>

definition minted :: "env \<Rightarrow> client \<Rightarrow> int option \<Rightarrow> account \<Rightarrow> history \<Rightarrow> bool" where
  "minted v c dl acc m \<longleftrightarrow> m = [] \<or> (\<exists>mr. mint_request v (cl_JWT c) acc = Ok mr \<and> m = [SendEv Shared dl mr])"

lemma GetToken_trace:
  "GetToken v jc dl (Some acc) (cache, h) = (res, cache1, h1) \<Longrightarrow>
     h1 = h \<or> (\<exists>mr. mint_request v jc acc = Ok mr \<and> h1 = h @ [SendEv Shared dl mr])"
  by (auto simp: GetToken_def split: if_splits prod.splits sum.splits dest!: mint_history)

lemma attempt_trace:
  assumes "attempt v c dl l acc build (cache, h) = (res, cache1, h1)"
  shows "\<exists>m. minted v c dl acc m \<and>
    (h1 = h @ m \<and> (\<exists>e. res = Err e) \<or>
     (\<exists>r. h1 = h @ m @ [SendEv (egress_for c acc) dl r] \<and> res = ev_Answer v h1))"
proof -
  obtain t cache2 h2 where g: "GetToken v (cl_JWT c) dl (Some acc) (cache, h) = (t, cache2, h2)" by (rule prod_cases3)
  then obtain m where m: "minted v c dl acc m" "h2 = h @ m"
    using GetToken_trace [OF g] by (auto simp: minted_def)
  have "h1 = h2 \<and> (\<exists>e. res = Err e) \<or> (\<exists>r. h1 = h2 @ [SendEv (egress_for c acc) dl r] \<and> res = ev_Answer v h1)"
    using assms g by (auto simp: attempt_def send_def Let_def split: sum.splits)
  then show ?thesis using m by (intro exI [of _ m]) auto
qed

lemma attempt_after_invalidate:
  assumes "attempt v c dl l acc build (Invalidate (a_ID acc) (cache, h)) = (res, cache1, h1)"
  shows "(\<exists>m e. minted v c dl acc m \<and> h1 = h @ m \<and> res = Err e) \<or>
    (\<exists>mr answer t r2. mint_request v (cl_JWT c) acc = Ok mr \<and>
      ev_Answer v (h @ [SendEv Shared dl mr]) = Ok answer \<and> token_of_answer answer = Ok t \<and>
      build (tk_JWT t) = Ok r2 \<and> h1 = h @ [SendEv Shared dl mr, SendEv (egress_for c acc) dl r2] \<and>
      res = ev_Answer v h1 \<and> cache1 = cache(a_ID acc := t))"
proof -
  obtain t h2 where m: "mint v (cl_JWT c) dl acc h = (t, h2)" by (cases "mint v (cl_JWT c) dl acc h")
  have tr: "minted v c dl acc [] \<and> h2 = h \<or> (\<exists>m. minted v c dl acc m \<and> h2 = h @ m)"
    using mint_history [OF m] by (auto simp: minted_def)
  show ?thesis
  proof (cases t)
    case (Inl e)
    then show ?thesis using assms m tr
      by (auto simp: attempt_def Invalidate_def GetToken_def)
  next
    case (Inr tok)
    then obtain mr answer where k: "mint_request v (cl_JWT c) acc = Ok mr" "h2 = h @ [SendEv Shared dl mr]"
      "ev_Answer v h2 = Ok answer" "token_of_answer answer = Ok tok" using m mint_Ok by blast
    have "minted v c dl acc [SendEv Shared dl mr]" using k(1) by (auto simp: minted_def)
    then show ?thesis using assms m Inr k
      by (auto simp: attempt_def Invalidate_def GetToken_def send_def Let_def split: sum.splits)
  qed
qed

text \<open>C35. One retry, and only after a refusal of the token.  Whatever a call meets, its trace is
  one of these: a mint at most and no request, the answer then being an error; after that mint
  one request, whose answer, be it an error of the transport or any status but 401, is
  the call's; or one request that was answered 401, a mint, and, when that gave a token, one
  more request with that token, whose answer is the call's.  There is never a third request, and one
  latency is observed, labelled with the outcome.\<close>

theorem doWithRetry_once:
  assumes "doWithRetry v c ep acc build s = (res, s1)"
    "dl = map_option (\<lambda>d. ev_Now v (cs_History s) + d) (timeoutFor c ep)"
  shows "cs_Observed s1 = cs_Observed s @ [(ep, case res of Inl e \<Rightarrow> ''network_error'' | Inr r \<Rightarrow> itoa (hr_Status r))] \<and>
    (\<exists>m es. minted v c dl acc m \<and> cs_History s1 = cs_History s @ m @ es \<and>
      (es = [] \<and> (\<exists>e. res = Err e) \<or>
       (\<exists>r. es = [SendEv (egress_for c acc) dl r] \<and> res = ev_Answer v (cs_History s1) \<and>
          (\<forall>a. res = Ok a \<longrightarrow> hr_Status a \<noteq> 401)) \<or>
       (\<exists>r a. ev_Answer v (cs_History s @ m @ [SendEv (egress_for c acc) dl r]) = Ok a \<and> hr_Status a = 401 \<and>
          ((\<exists>m2 e. minted v c dl acc m2 \<and> es = SendEv (egress_for c acc) dl r # m2 \<and> res = Err e) \<or>
           (\<exists>mr answer t r2. mint_request v (cl_JWT c) acc = Ok mr \<and>
              ev_Answer v (cs_History s @ m @ [SendEv (egress_for c acc) dl r, SendEv Shared dl mr]) = Ok answer \<and>
              token_of_answer answer = Ok t \<and> build (tk_JWT t) = Ok r2 \<and>
              es = [SendEv (egress_for c acc) dl r, SendEv Shared dl mr, SendEv (egress_for c acc) dl r2] \<and>
              res = ev_Answer v (cs_History s1) \<and> cs_Tokens s1 (a_ID acc) = t)))))"
proof -
  obtain res1 cache1 h1 where a1: "attempt v c dl ''mint jwt'' acc build (cs_Tokens s, cs_History s) = (res1, cache1, h1)"
    by (rule prod_cases3)
  obtain m where m: "minted v c dl acc m"
    and t1: "h1 = cs_History s @ m \<and> (\<exists>e. res1 = Err e) \<or>
      (\<exists>r. h1 = cs_History s @ m @ [SendEv (egress_for c acc) dl r] \<and> res1 = ev_Answer v h1)"
    using attempt_trace [OF a1] by blast
  note d = assms(1) [unfolded doWithRetry_def assms(2) [symmetric] a1 Let_def]
  have label: "status_label x = (case x of Inl e \<Rightarrow> ''network_error'' | Inr r \<Rightarrow> itoa (hr_Status r))" for x
    by (simp add: status_label_def statusCodeString_itoa split: sum.split)
  show ?thesis
  proof (cases "\<exists>a. res1 = Ok a \<and> hr_Status a = 401")
    case False
    then have s1: "res = res1" "cs_History s1 = h1" "cs_Observed s1 = cs_Observed s @ [(ep, status_label res)]"
      using d by (auto split: sum.splits)
    from t1 show ?thesis
    proof (elim disjE conjE exE)
      fix e assume "h1 = cs_History s @ m" "res1 = Err e"
      then show ?thesis using m s1 label by (intro conjI exI [of _ m] exI [of _ "[]"]) simp_all
    next
      fix r assume "h1 = cs_History s @ m @ [SendEv (egress_for c acc) dl r]" "res1 = ev_Answer v h1"
      then show ?thesis using m s1 label False
        by (intro conjI exI [of _ m] exI [of _ "[SendEv (egress_for c acc) dl r]"]) auto
    qed
  next
    case True
    then obtain a r where a: "res1 = Ok a" "hr_Status a = 401"
      and h1: "h1 = cs_History s @ m @ [SendEv (egress_for c acc) dl r]" "ev_Answer v h1 = Ok a"
      using t1 by auto
    obtain res2 cache2 h2 where a2: "attempt v c dl ''remint jwt after 401'' acc build (Invalidate (a_ID acc) (cache1, h1)) = (res2, cache2, h2)"
      by (rule prod_cases3)
    have s1: "res = res2" "cs_History s1 = h2" "cs_Tokens s1 = cache2" "cs_Observed s1 = cs_Observed s @ [(ep, status_label res)]"
      using d a a2 by auto
    from attempt_after_invalidate [OF a2] show ?thesis
    proof (elim disjE conjE exE)
      fix m2 e assume k: "minted v c dl acc m2" "h2 = h1 @ m2" "res2 = Err e"
      then show ?thesis using m s1 label a h1
        by (intro conjI exI [of _ m] exI [of _ "SendEv (egress_for c acc) dl r # m2"] disjI2) (auto simp: h1)
    next
      fix mr answer t r2
      assume k: "mint_request v (cl_JWT c) acc = Ok mr" "ev_Answer v (h1 @ [SendEv Shared dl mr]) = Ok answer"
        "token_of_answer answer = Ok t" "build (tk_JWT t) = Ok r2"
        "h2 = h1 @ [SendEv Shared dl mr, SendEv (egress_for c acc) dl r2]" "res2 = ev_Answer v h2" "cache2 = cache1(a_ID acc := t)"
      have "ev_Answer v (cs_History s @ m @ [SendEv (egress_for c acc) dl r, SendEv Shared dl mr]) = Ok answer"
        using k(2) h1(1) by simp
      then show ?thesis using m s1 label a h1 k
        by (intro conjI exI [of _ m] disjI2
            exI [of _ "[SendEv (egress_for c acc) dl r, SendEv Shared dl mr, SendEv (egress_for c acc) dl r2]"]) auto
    qed
  qed
qed

section \<open>The wait ends\<close>

lemma poll_loop_ends:
  assumes clock: "\<And>h es. ev_Now v h \<le> ev_Now v (h @ es)"
    and sleep: "\<And>h d. ev_Now v h + d \<le> ev_Now v (h @ [SleepEv d])"
    and pos: "0 < interval"
    and fuel: "deadline - ev_Now v (cs_History s) < int n * interval"
  shows "\<exists>res seen1 s1. poll_loop (Suc n) v c acc jid interval deadline prev seen s = Some (res, seen1, s1) \<and>
    (case res of
       Ok f \<Rightarrow> \<exists>sa sr sb. FetchStatus v c acc jid sa = (Ok sr, sb) \<and> isTerminalUpstream (sr_Status sr) \<and>
                 FetchJob v c acc jid sb = (Ok f, s1)
     | Err e \<Rightarrow> ev_Done v (cs_History s1) = Some e \<or>
                 e = Sent ErrUpstreamTimeout \<and> deadline < ev_Now v (cs_History s1) \<or>
                 (\<exists>sb. FetchJob v c acc jid sb = (Err e, s1)))"
  using fuel
proof (induction n arbitrary: s prev seen)
  case 0
  then show ?case by (auto split: option.split)
next
  case (Suc n)
  show ?case
  proof (cases "ev_Done v (cs_History s) \<noteq> None \<or> ev_Now v (cs_History s) > deadline")
    case True
    then show ?thesis by (auto split: option.split)
  next
    case False
    then have go: "ev_Done v (cs_History s) = None" "\<not> ev_Now v (cs_History s) > deadline" by auto
    obtain res s1 where f: "FetchStatus v c acc jid s = (res, s1)" by (cases "FetchStatus v c acc jid s")
    obtain es where "cs_History s1 = cs_History s @ es" using FetchStatus_history [OF f] by blast
    then have "ev_Now v (cs_History s) + interval \<le> ev_Now v (cs_History s1 @ [SleepEv interval])"
      using clock [of "cs_History s" es] sleep [of "cs_History s1" interval] by simp
    then have less: "deadline - ev_Now v (cs_History (s1\<lparr> cs_History := cs_History s1 @ [SleepEv interval] \<rparr>))
        < int n * interval"
      using Suc.prems by (simp add: algebra_simps)
    show ?thesis
    proof (cases res)
      case (Inl e)
      show ?thesis using Suc.IH [OF less, of prev seen]
        unfolding poll_loop.simps(2) [of "Suc n"] by (simp only: go f Inl if_False option.case prod.case sum.case)
    next
      case (Inr sr)
      show ?thesis
      proof (cases "isTerminalUpstream (sr_Status sr)")
        case True
        obtain r2 s2 where "FetchJob v c acc jid s1 = (r2, s2)" by (cases "FetchJob v c acc jid s1")
        then show ?thesis unfolding poll_loop.simps(2) [of "Suc n"]
          using True f Inr go by (cases r2) (auto simp: Let_def)
      next
        case False
        show ?thesis
          using Suc.IH [OF less, of "sr_Status sr" "if sr_Status sr \<noteq> prev
             then seen @ [(sr_Status sr, deadline - ev_Now v (cs_History s1))] else seen"]
          unfolding poll_loop.simps(2) [of "Suc n"]
          by (simp only: go f Inr False if_False option.case prod.case sum.case Let_def)
      qed
    qed
  qed
qed

lemma poll_fuel:
  fixes dl iv :: int
  assumes "0 < iv" "nat (dl div iv) + 1 \<le> n"
  shows "dl < int n * iv"
proof -
  have "dl mod iv < iv" using assms(1) by simp
  then have "dl < dl div iv * iv + iv" using div_mult_mod_eq [of dl iv] by linarith
  also have "\<dots> = (dl div iv + 1) * iv" by (simp add: algebra_simps)
  also have "\<dots> \<le> int n * iv" using assms by (intro mult_right_mono) linarith+
  finally show ?thesis .
qed

text \<open>C36. The wait for a job ends.  With a clock that does not go back and a sleep that
  takes the time it is given, the loop returns after at most the deadline divided by
  the interval, plus two, rounds, whatever the upstream answers; and then it has the
  job's row, read after a terminal status was seen, or the context's error, or the
  timeout error with the deadline past, or the error of reading the row.\<close>

theorem PollUntilTerminal_ends:
  assumes clock: "\<And>h es. ev_Now v h \<le> ev_Now v (h @ es)"
    and sleep: "\<And>h d. ev_Now v h + d \<le> ev_Now v (h @ [SleepEv d])"
    and interval: "0 \<le> interval"
    and fuel: "nat (poll_deadline deadline div poll_interval interval) + 2 \<le> n"
  shows "\<exists>res seen s1. PollUntilTerminal n v c acc jid deadline interval s = Some (res, seen, s1) \<and>
    (case res of
       Ok f \<Rightarrow> \<exists>sa sr sb. FetchStatus v c acc jid sa = (Ok sr, sb) \<and> isTerminalUpstream (sr_Status sr) \<and>
                 FetchJob v c acc jid sb = (Ok f, s1)
     | Err e \<Rightarrow> ev_Done v (cs_History s1) = Some e \<or>
                 e = Sent ErrUpstreamTimeout \<and>
                   ev_Now v (cs_History s) + poll_deadline deadline < ev_Now v (cs_History s1) \<or>
                 (\<exists>sb. FetchJob v c acc jid sb = (Err e, s1)))"
proof -
  have pos: "0 < poll_interval interval" using interval by (simp add: poll_interval_def nanos_def)
  obtain m where n: "n = Suc m" using fuel by (cases n) auto
  have "poll_deadline deadline < int m * poll_interval interval"
    using poll_fuel [OF pos, of "poll_deadline deadline" m] fuel n by simp
  then have "ev_Now v (cs_History s) + poll_deadline deadline - ev_Now v (cs_History s) < int m * poll_interval interval"
    by simp
  from poll_loop_ends [OF clock sleep pos this, of c acc jid "''''" "[]"] show ?thesis
    unfolding PollUntilTerminal_def n .
qed

end
