(* ===== verification/Instants.thy ===== *)
theory Instants
  imports Calendar Json
begin

text \<open>
  Reading an RFC 3339 time, as \<open>time.Parse\<close> does with the layout \<open>RFC3339Nano\<close>: an hour
  of one or two digits, a fraction of any length cut to nanoseconds after a point or
  a comma, and \<open>Z\<close> or an offset.  The zero time is \<open>None\<close>.
\<close>

definition fixed_digits :: "nat \<Rightarrow> string \<Rightarrow> (int \<times> string) option" where
  "fixed_digits n s =
     (if length s \<ge> n \<and> list_all is_digit (take n s) then Some (digits_int (take n s), drop n s) else None)"

definition lenient_hour :: "string \<Rightarrow> (int \<times> string) option" where
  "lenient_hour s = (case fixed_digits 2 s of Some x \<Rightarrow> Some x | None \<Rightarrow> fixed_digits 1 s)"

definition literal :: "string \<Rightarrow> string \<Rightarrow> string option" where "literal p s = strip p s"

definition in_range :: "int \<Rightarrow> int \<Rightarrow> (int \<times> string) option \<Rightarrow> (int \<times> string) option" where
  "in_range lo hi r = (case r of Some (n, s) \<Rightarrow> if lo \<le> n \<and> n \<le> hi then Some (n, s) else None | None \<Rightarrow> None)"

definition leap_year :: "int \<Rightarrow> bool" where
  "leap_year y \<longleftrightarrow> y mod 4 = 0 \<and> (y mod 100 \<noteq> 0 \<or> y mod 400 = 0)"

definition days_in :: "int \<Rightarrow> int \<Rightarrow> int" where
  "days_in m y = (if m = 2 then (if leap_year y then 29 else 28)
     else if m \<in> {4, 6, 9, 11} then 30 else 31)"

text \<open>The fraction of a second in nanoseconds: nine digits count.\<close>

definition fraction :: "string \<Rightarrow> int \<times> string" where
  "fraction s = (case s of c # r \<Rightarrow>
      (let ds = takeWhile is_digit r in
       if (c = CHR ''.'' \<or> c = CHR '','') \<and> ds \<noteq> []
       then (digits_int (take 9 (ds @ replicate 9 (CHR ''0''))), dropWhile is_digit r) else (0, s))
    | [] \<Rightarrow> (0, s))"

definition zone_offset :: "string \<Rightarrow> int option" where
  "zone_offset s =
     (if s = ''Z'' then Some 0
      else case s of [] \<Rightarrow> None
      | sg # r \<Rightarrow> do {
          (h, r1) \<leftarrow> in_range 0 24 (fixed_digits 2 r);
          r2 \<leftarrow> literal '':'' r1;
          (m, r3) \<leftarrow> in_range 0 60 (fixed_digits 2 r2);
          if r3 \<noteq> [] then None
          else if sg = CHR ''+'' then Some (h * 3600 + m * 60)
          else if sg = CHR ''-'' then Some (- (h * 3600 + m * 60)) else None })"

definition zero_instant :: int where "zero_instant = - 62135596800 * nanos"

definition parse_rfc3339 :: "string \<Rightarrow> int option" where
  "parse_rfc3339 s = do {
     (y, s1) \<leftarrow> fixed_digits 4 s; s2 \<leftarrow> literal ''-'' s1;
     (mo, s3) \<leftarrow> in_range 1 12 (fixed_digits 2 s2); s4 \<leftarrow> literal ''-'' s3;
     (d, s5) \<leftarrow> in_range 1 (days_in mo y) (fixed_digits 2 s4); s6 \<leftarrow> literal ''T'' s5;
     (h, s7) \<leftarrow> in_range 0 23 (lenient_hour s6); s8 \<leftarrow> literal '':'' s7;
     (mi, s9) \<leftarrow> in_range 0 59 (fixed_digits 2 s8); s10 \<leftarrow> literal '':'' s9;
     (sec, s11) \<leftarrow> in_range 0 59 (fixed_digits 2 s10);
     (let (ns, s12) = fraction s11 in do {
        off \<leftarrow> zone_offset s12;
        Some ((days_from_civil y mo d * 86400 + h * 3600 + mi * 60 + sec - off) * nanos + ns) }) }"

text \<open>\<open>parseUnlimTime\<close> of the upstream client: no time for an empty, null or malformed text.\<close>

definition parseUnlimTime :: "string \<Rightarrow> gotime" where
  "parseUnlimTime s =
     (if s = '''' \<or> s = ''null'' then None
      else case parse_rfc3339 s of None \<Rightarrow> None
      | Some t \<Rightarrow> if t = zero_instant then None else Some t)"

lemma parse_rfc3339_examples:
  "parseUnlimTime ''1970-01-01T00:00:00Z'' = Some 0"
  "parseUnlimTime ''1970-01-01T08:00:00.5+08:00'' = Some 500000000"
  "parseUnlimTime ''2026-02-29T00:00:00Z'' = None"
  "parseUnlimTime ''0001-01-01T00:00:00Z'' = None"
  by code_simp+

end
