(* ===== verification/ClientData.thy ===== *)
theory ClientData
  imports Client Instants
begin

text \<open>
  The other calls of \<open>core/upstream/client.go\<close>: balances and entitlements, free
  generations, unlimited activations, gifts, notices, invoices, promotions, the
  credit ledger and the three-step upload of an image.  A Go map or slice that may be
  nil is a list, empty for nil.
\<close>

section \<open>Shapes of answers\<close>

text \<open>A status that means the surface is absent gives the default before the check of
  the status.\<close>

definition decode_or :: "int list \<Rightarrow> 'b \<Rightarrow> string \<Rightarrow> 'a decoder \<Rightarrow> 'a \<Rightarrow> ('a \<Rightarrow> 'b) \<Rightarrow> http_response \<Rightarrow> (gerror, 'b) result" where
  "decode_or absent none what dec zero f r =
     (if hr_Status r \<in> set absent then Ok none else map_sum id f (decode_200 what dec zero r))"

text \<open>The same when an empty body of a good answer also means absent.\<close>

definition decode_or_empty :: "int list \<Rightarrow> 'b \<Rightarrow> string \<Rightarrow> 'a decoder \<Rightarrow> 'a \<Rightarrow> ('a \<Rightarrow> 'b) \<Rightarrow> http_response \<Rightarrow> (gerror, 'b) result" where
  "decode_or_empty absent none what dec zero f r =
     (if hr_Status r \<in> set absent then Ok none
      else case need_200 what r of
        Some e \<Rightarrow> Err e
      | None \<Rightarrow> if hr_Body r = '''' then Ok none else map_sum id f (unmarshal dec zero (hr_Body r)))"

definition on_answer :: "(http_response \<Rightarrow> (gerror, 'b) result) \<Rightarrow> (gerror, http_response) result \<times> client_state
    \<Rightarrow> (gerror, 'b) result \<times> client_state" where
  "on_answer f out = (case out of (Inl e, s1) \<Rightarrow> (Err e, s1) | (Inr r, s1) \<Rightarrow> (f r, s1))"

section \<open>Balance and entitlements\<close>

record wallet =
  wa_WorkspaceID :: string
  wa_SubscriptionBalance :: int
  wa_CreditsBalance :: int
  wa_TotalCredits :: int
  wa_OnDemandCredits :: rat

definition zero_wallet :: wallet where
  "zero_wallet = \<lparr> wa_WorkspaceID = '''', wa_SubscriptionBalance = 0, wa_CreditsBalance = 0,
     wa_TotalCredits = 0, wa_OnDemandCredits = 0 \<rparr>"

definition dec_wallet :: "wallet decoder" where
  "dec_wallet = dec_struct (\<lambda>obj. do {
     w \<leftarrow> dec_field ''workspace_id'' dec_string '''' obj;
     sb \<leftarrow> dec_field ''subscription_balance'' dec_int 0 obj;
     cb \<leftarrow> dec_field ''credits_balance'' dec_int 0 obj;
     tc \<leftarrow> dec_field ''total_credits'' dec_int 0 obj;
     od \<leftarrow> dec_field ''on_demand_credits'' dec_f64 0 obj;
     Some \<lparr> wa_WorkspaceID = w, wa_SubscriptionBalance = sb, wa_CreditsBalance = cb,
        wa_TotalCredits = tc, wa_OnDemandCredits = od \<rparr> }) zero_wallet"

definition FetchWallet :: "env \<Rightarrow> client \<Rightarrow> account \<Rightarrow> client_state \<Rightarrow> (gerror, wallet) result \<times> client_state" where
  "FetchWallet v c acc s = on_answer (decode_200 ''wallet: HTTP '' dec_wallet zero_wallet)
     (api_get v c ''fetch_wallet'' acc ''/workspaces/wallet'' s)"

record user_snapshot =
  us_ID :: string
  us_Email :: string
  us_PlanType :: string
  us_SubscriptionCredits :: rat
  us_PackageCredits :: rat
  us_DailyCredits :: rat
  us_TotalPlanCredits :: rat
  us_BillingPeriod :: string
  us_PlanEndsAt :: string
  us_HasUnlim :: bool
  us_HasFlexUnlim :: bool
  us_IsProVeo3Available :: bool
  us_Cohort :: string
  us_WorkspaceID :: string
  us_FreeQuota :: free_quota
  us_BlockedAt :: string
  us_SuspendedAt :: string
  us_IsPaused :: bool
  us_IsPauseScheduled :: bool

definition dec_quota :: "object \<Rightarrow> free_quota option" where
  "dec_quota obj = do {
     a \<leftarrow> dec_field ''face_swap_credits'' dec_f64 0 obj;
     b \<leftarrow> dec_field ''soul_credits'' dec_f64 0 obj;
     c \<leftarrow> dec_field ''character_swap_credits'' dec_f64 0 obj;
     d \<leftarrow> dec_field ''qwen_camera_control_credits'' dec_f64 0 obj;
     e \<leftarrow> dec_field ''wan2_5_video_credits'' dec_f64 0 obj;
     f \<leftarrow> dec_field ''text2keyframes_credits'' dec_f64 0 obj;
     g \<leftarrow> dec_field ''veo3_fast_generations_count'' dec_f64 0 obj;
     Some \<lparr> fq_FaceSwapCredits = a, fq_SoulCredits = b, fq_CharacterSwapCredits = c,
        fq_QwenCameraControlCredits = d, fq_Wan25VideoCredits = e, fq_Text2KeyframesCredits = f,
        fq_Veo3FastGenerationsCount = g \<rparr> }"

definition no_quota :: free_quota where
  "no_quota = \<lparr> fq_FaceSwapCredits = 0, fq_SoulCredits = 0, fq_CharacterSwapCredits = 0,
     fq_QwenCameraControlCredits = 0, fq_Wan25VideoCredits = 0, fq_Text2KeyframesCredits = 0,
     fq_Veo3FastGenerationsCount = 0 \<rparr>"

definition zero_user :: user_snapshot where
  "zero_user = \<lparr> us_ID = '''', us_Email = '''', us_PlanType = '''', us_SubscriptionCredits = 0,
     us_PackageCredits = 0, us_DailyCredits = 0, us_TotalPlanCredits = 0, us_BillingPeriod = '''',
     us_PlanEndsAt = '''', us_HasUnlim = False, us_HasFlexUnlim = False, us_IsProVeo3Available = False,
     us_Cohort = '''', us_WorkspaceID = '''', us_FreeQuota = no_quota, us_BlockedAt = '''',
     us_SuspendedAt = '''', us_IsPaused = False, us_IsPauseScheduled = False \<rparr>"

definition dec_user :: "user_snapshot decoder" where
  "dec_user = dec_struct (\<lambda>obj. do {
     i \<leftarrow> dec_field ''id'' dec_string '''' obj;
     em \<leftarrow> dec_field ''email'' dec_string '''' obj;
     pt \<leftarrow> dec_field ''plan_type'' dec_string '''' obj;
     sc \<leftarrow> dec_field ''subscription_credits'' dec_f64 0 obj;
     pc \<leftarrow> dec_field ''package_credits'' dec_f64 0 obj;
     dc \<leftarrow> dec_field ''daily_credits'' dec_f64 0 obj;
     tc \<leftarrow> dec_field ''total_plan_credits'' dec_f64 0 obj;
     bp \<leftarrow> dec_field ''billing_period'' dec_string '''' obj;
     pe \<leftarrow> dec_field ''plan_ends_at'' dec_string '''' obj;
     hu \<leftarrow> dec_field ''has_unlim'' dec_bool False obj;
     hf \<leftarrow> dec_field ''has_flex_unlim'' dec_bool False obj;
     vo \<leftarrow> dec_field ''is_pro_plan_veo3_available'' dec_bool False obj;
     co \<leftarrow> dec_field ''cohort'' dec_string '''' obj;
     ws \<leftarrow> dec_field ''workspace_id'' dec_string '''' obj;
     fq \<leftarrow> dec_quota obj;
     bl \<leftarrow> dec_field ''blocked_at'' dec_string '''' obj;
     su \<leftarrow> dec_field ''suspended_at'' dec_string '''' obj;
     ip \<leftarrow> dec_field ''is_paused'' dec_bool False obj;
     ps \<leftarrow> dec_field ''is_pause_scheduled'' dec_bool False obj;
     Some \<lparr> us_ID = i, us_Email = em, us_PlanType = pt, us_SubscriptionCredits = sc,
        us_PackageCredits = pc, us_DailyCredits = dc, us_TotalPlanCredits = tc, us_BillingPeriod = bp,
        us_PlanEndsAt = pe, us_HasUnlim = hu, us_HasFlexUnlim = hf, us_IsProVeo3Available = vo,
        us_Cohort = co, us_WorkspaceID = ws, us_FreeQuota = fq, us_BlockedAt = bl,
        us_SuspendedAt = su, us_IsPaused = ip, us_IsPauseScheduled = ps \<rparr> }) zero_user"

definition FetchUser :: "env \<Rightarrow> client \<Rightarrow> account \<Rightarrow> client_state \<Rightarrow> (gerror, user_snapshot) result \<times> client_state" where
  "FetchUser v c acc s = on_answer (decode_200 ''user: HTTP '' dec_user zero_user)
     (api_get v c ''fetch_user'' acc ''/user'' s)"

section \<open>Free generations and unlimited activations\<close>

definition dec_counter :: "json \<Rightarrow> (string \<times> rat) option" where
  "dec_counter j = dec_struct (\<lambda>obj. do {
     jst \<leftarrow> dec_field ''job_set_type'' dec_string '''' obj;
     n \<leftarrow> dec_field ''counter'' dec_f64 0 obj;
     Some (jst, n) }) ('''', 0) j ('''', 0)"

definition dec_items :: "(json \<Rightarrow> 'a option) \<Rightarrow> 'a list decoder" where
  "dec_items dec = dec_struct (dec_field ''items'' (dec_list dec) []) []"

definition FetchFreeGensV2 ::
  "env \<Rightarrow> client \<Rightarrow> account \<Rightarrow> client_state \<Rightarrow> (gerror, (string \<times> rat) list) result \<times> client_state" where
  "FetchFreeGensV2 v c acc s = on_answer
     (decode_or [404] [] ''free-gens/v2: HTTP '' (dec_items dec_counter) []
        (\<lambda>items. map_from (filter (\<lambda>(jst, n). jst \<noteq> '''') items)))
     (api_get v c ''fetch_free_gens_v2'' acc ''/user/free-gens/v2'' s)"

record unlim_raw =
  ur_ID :: string
  ur_BundleType :: string
  ur_Models :: "(string \<times> string list) list"
  ur_ExpiresAt :: string
  ur_StartedAt :: string
  ur_ActivatedAt :: string
  ur_IsClaimed :: bool

definition dec_plain_string :: "json \<Rightarrow> string option" where "dec_plain_string j = dec_string j ''''"

definition dec_unlim_model :: "json \<Rightarrow> (string \<times> string list) option" where
  "dec_unlim_model j = dec_struct (\<lambda>obj. do {
     jst \<leftarrow> dec_field ''job_set_type'' dec_string '''' obj;
     _ \<leftarrow> dec_field ''generation_type'' dec_string '''' obj;
     rs \<leftarrow> dec_field ''resolutions'' (dec_list dec_plain_string) [] obj;
     _ \<leftarrow> dec_field ''max_duration'' (dec_ptr dec_int 0) None obj;
     Some (jst, rs) }) ('''', []) j ('''', [])"

definition zero_unlim :: unlim_raw where
  "zero_unlim = \<lparr> ur_ID = '''', ur_BundleType = '''', ur_Models = [], ur_ExpiresAt = '''', ur_StartedAt = '''',
     ur_ActivatedAt = '''', ur_IsClaimed = False \<rparr>"

definition dec_unlim :: "json \<Rightarrow> unlim_raw option" where
  "dec_unlim j = dec_struct (\<lambda>obj. do {
     i \<leftarrow> dec_field ''id'' dec_string '''' obj;
     b \<leftarrow> dec_field ''bundle_type'' dec_string '''' obj;
     ms \<leftarrow> dec_field ''models'' (dec_list dec_unlim_model) [] obj;
     ex \<leftarrow> dec_field ''expires_at'' dec_string '''' obj;
     st \<leftarrow> dec_field ''started_at'' dec_string '''' obj;
     ac \<leftarrow> dec_field ''activated_at'' dec_string '''' obj;
     cl \<leftarrow> dec_field ''is_claimed'' dec_bool False obj;
     Some \<lparr> ur_ID = i, ur_BundleType = b, ur_Models = ms, ur_ExpiresAt = ex, ur_StartedAt = st,
        ur_ActivatedAt = ac, ur_IsClaimed = cl \<rparr> }) zero_unlim j zero_unlim"

definition dec_activations :: "unlim_raw list decoder" where
  "dec_activations = dec_struct (dec_field ''activations'' (dec_list dec_unlim) []) []"

text \<open>One row per endpoint a bundle unlocks; several rows of one bundle are told apart by a
  suffix of the bundle name.\<close>

definition flatten_unlim :: "unlim_raw \<Rightarrow> unlim_activation list" where
  "flatten_unlim a =
     map (\<lambda>(jst, rs). \<lparr> ua_ID = ur_ID a,
            ua_BundleType = (if length (ur_Models a) > 1 then ur_BundleType a @ ''@'' @ jst else ur_BundleType a),
            ua_JobSetType = jst, ua_Resolutions = rs, ua_ExpiresAt = parseUnlimTime (ur_ExpiresAt a),
            ua_ActivatedAt = (case parseUnlimTime (ur_ActivatedAt a) of
               None \<Rightarrow> parseUnlimTime (ur_StartedAt a) | Some t \<Rightarrow> Some t),
            ua_IsClaimed = ur_IsClaimed a \<rparr>) (ur_Models a)"

definition FetchUnlimActivations ::
  "env \<Rightarrow> client \<Rightarrow> account \<Rightarrow> client_state \<Rightarrow> (gerror, unlim_activation list) result \<times> client_state" where
  "FetchUnlimActivations v c acc s = on_answer
     (decode_or [] [] ''unlim-activations: HTTP '' dec_activations [] (\<lambda>as. concat (map flatten_unlim as)))
     (api_get v c ''fetch_unlim_activations'' acc ''/workspaces/unlim-activations'' s)"

section \<open>Uploading an image\<close>

definition is_2xx :: "http_response \<Rightarrow> bool" where
  "is_2xx r \<longleftrightarrow> 200 \<le> hr_Status r \<and> hr_Status r < 300"

definition http_failure :: "string \<Rightarrow> http_response \<Rightarrow> gerror" where
  "http_failure what r = Plain (what @ '': HTTP '' @ itoa (hr_Status r) @ '': '' @ snip240 r)"

text \<open>The reservation: an identifier and the address to put the bytes to.\<close>

definition dec_reserved :: "(string \<times> string) decoder" where
  "dec_reserved = dec_struct (\<lambda>obj. do {
     i \<leftarrow> dec_field ''id'' dec_string '''' obj;
     _ \<leftarrow> dec_field ''url'' dec_string '''' obj;
     u \<leftarrow> dec_field ''upload_url'' dec_string '''' obj;
     Some (i, u) }) ('''', '''')"

definition reserved_of :: "http_response \<Rightarrow> (gerror, string \<times> string) result" where
  "reserved_of r =
     (if \<not> is_2xx r then Err (http_failure ''media_reserve_failed'' r)
      else case unmarshal dec_reserved ('''', '''') (hr_Body r) of
        Inl e \<Rightarrow> Err (Wrap ''media_reserve_failed: parse'' e)
      | Inr (i, u) \<Rightarrow> if i = '''' \<or> u = '''' then Err (Plain ''media_reserve_failed: missing id / upload_url'')
                     else Ok (i, u))"

definition reserve_media ::
  "env \<Rightarrow> client \<Rightarrow> account \<Rightarrow> string \<Rightarrow> client_state \<Rightarrow> (gerror, string \<times> string) result \<times> client_state" where
  "reserve_media v c acc contentType s =
     (case doWithRetry v c ''media_reserve'' acc
             (api_request v c acc ''POST'' ''/media'' (marshal (JObj [(''content_type'', JStr contentType)])) True) s of
        (Inl e, s1) \<Rightarrow> (Err (Wrap ''media_reserve_failed'' e), s1)
      | (Inr r, s1) \<Rightarrow> (reserved_of r, s1))"

text \<open>The bytes go to the presigned address without the account's headers.\<close>

definition put_media ::
  "env \<Rightarrow> string \<Rightarrow> string \<Rightarrow> string \<Rightarrow> client_state \<Rightarrow> (gerror, unit) result \<times> client_state" where
  "put_media v url contentType raw s =
     (case NewRequest v ''PUT'' url raw of
        Inl e \<Rightarrow> (Err (Wrap ''media_upload_failed: build'' e), s)
      | Inr rq \<Rightarrow>
         (case send v Shared None (set_header ''Content-Type'' contentType rq) (cs_History s) of
            (Inl e, h) \<Rightarrow> (Err (Wrap ''media_upload_failed'' e), s\<lparr> cs_History := h \<rparr>)
          | (Inr r, h) \<Rightarrow> (if is_2xx r then Ok () else Err (http_failure ''media_upload_failed'' r), s\<lparr> cs_History := h \<rparr>)))"

definition commit_media ::
  "env \<Rightarrow> client \<Rightarrow> account \<Rightarrow> string \<Rightarrow> client_state \<Rightarrow> (gerror, unit) result \<times> client_state" where
  "commit_media v c acc mid s =
     (case doWithRetry v c ''media_commit'' acc
             (api_request v c acc ''POST'' (''/media/'' @ mid @ ''/upload'') ''{}'' True) s of
        (Inl e, s1) \<Rightarrow> (Err (Wrap ''media_commit_failed'' e), s1)
      | (Inr r, s1) \<Rightarrow> (if is_2xx r then Ok () else Err (http_failure ''media_commit_failed'' r), s1))"

definition UploadImage ::
  "env \<Rightarrow> client \<Rightarrow> account \<Rightarrow> string \<Rightarrow> (gerror, string) result \<Rightarrow> client_state
     \<Rightarrow> (gerror, string) result \<times> client_state" where
  "UploadImage v c acc contentType body s = (case body of
     Inl e \<Rightarrow> (Err (Wrap ''read image bytes'' e), s)
   | Inr raw \<Rightarrow>
      (case reserve_media v c acc contentType s of
         (Inl e, s1) \<Rightarrow> (Err e, s1)
       | (Inr (mid, url), s1) \<Rightarrow>
          (case put_media v url contentType raw s1 of
             (Inl e, s2) \<Rightarrow> (Err e, s2)
           | (Inr _, s2) \<Rightarrow>
              (case commit_media v c acc mid s2 of
                 (Inl e, s3) \<Rightarrow> (Err e, s3) | (Inr _, s3) \<Rightarrow> (Ok mid, s3)))))"

section \<open>Gifts, claims, notices, invoices\<close>

record gift =
  gf_ID :: string
  gf_Plan :: string
  gf_Duration :: string
  gf_Claimed :: bool
  gf_Status :: string

definition zero_gift :: gift where
  "zero_gift = \<lparr> gf_ID = '''', gf_Plan = '''', gf_Duration = '''', gf_Claimed = False, gf_Status = '''' \<rparr>"

definition dec_gift :: "json \<Rightarrow> gift option" where
  "dec_gift j = dec_struct (\<lambda>obj. do {
     i \<leftarrow> dec_field ''id'' dec_string '''' obj;
     p \<leftarrow> dec_field ''plan'' dec_string '''' obj;
     d \<leftarrow> dec_field ''duration'' dec_string '''' obj;
     cl \<leftarrow> dec_field ''claimed'' dec_bool False obj;
     st \<leftarrow> dec_field ''status'' dec_string '''' obj;
     Some \<lparr> gf_ID = i, gf_Plan = p, gf_Duration = d, gf_Claimed = cl, gf_Status = st \<rparr> }) zero_gift j zero_gift"

definition dec_gifts :: "gift list decoder" where
  "dec_gifts = dec_struct (\<lambda>obj. do {
     items \<leftarrow> dec_field ''items'' (dec_list dec_gift) [] obj;
     _ \<leftarrow> dec_field ''total'' dec_int 0 obj;
     Some items }) []"

definition FetchGifts :: "env \<Rightarrow> client \<Rightarrow> account \<Rightarrow> client_state \<Rightarrow> (gerror, gift list) result \<times> client_state" where
  "FetchGifts v c acc s = on_answer (decode_200 ''gifts: HTTP '' dec_gifts [])
     (api_get v c ''fetch_gifts'' acc ''/gifts?size=20&type=inbound&activated=false'' s)"

definition gift_answer :: "string \<Rightarrow> http_response \<Rightarrow> (gerror, unit) result" where
  "gift_answer gid r =
     (if is_2xx r then Ok ()
      else if hr_Status r = 400 then Err (Sent ErrGiftAlreadyClaimed)
      else if hr_Status r = 409 then Err (Sent ErrGiftActiveSubscription)
      else if hr_Status r = 401 then Err (Noted (Sent ErrUpstreamUnauthorized) (snip240 r))
      else Err (http_failure (''claim gift '' @ gid) r))"

definition ClaimGift :: "env \<Rightarrow> client \<Rightarrow> account \<Rightarrow> string \<Rightarrow> client_state \<Rightarrow> (gerror, unit) result \<times> client_state" where
  "ClaimGift v c acc gid s =
     (if gid = '''' then (Err (Plain ''claim gift: empty gift id''), s)
      else on_answer (gift_answer gid)
        (doWithRetry v c ''claim_gift'' acc (api_request v c acc ''POST'' (''/gifts/'' @ gid @ ''/claim'') '''' False) s))"

definition claim_answer :: "string \<Rightarrow> http_response \<Rightarrow> (gerror, unit) result" where
  "claim_answer aid r =
     (if hr_Status r = 401 then Err (Noted (Sent ErrUpstreamUnauthorized) (snip240 r))
      else if \<not> is_2xx r then Err (http_failure (''claim unlim '' @ aid) r) else Ok ())"

definition ClaimUnlimActivation ::
  "env \<Rightarrow> client \<Rightarrow> account \<Rightarrow> string \<Rightarrow> string \<Rightarrow> client_state \<Rightarrow> (gerror, unit) result \<times> client_state" where
  "ClaimUnlimActivation v c acc aid jst s =
     (if aid = '''' \<or> jst = '''' then (Err (Plain ''claim unlim: empty activation id or job_set_type''), s)
      else on_answer (claim_answer aid)
        (doWithRetry v c ''claim_unlim'' acc
           (api_request v c acc ''POST'' (''/workspaces/unlim-activations/'' @ aid)
              (marshal (JObj [(''job_set_type'', JStr jst)])) True) s))"

definition dec_notice :: "string decoder" where
  "dec_notice = dec_struct (dec_field ''status'' dec_string '''') ''''"

definition FetchWorkspaceNotice :: "env \<Rightarrow> client \<Rightarrow> account \<Rightarrow> client_state \<Rightarrow> (gerror, string) result \<times> client_state" where
  "FetchWorkspaceNotice v c acc s = on_answer (decode_or_empty [404] '''' ''notice: HTTP '' dec_notice '''' id)
     (api_get v c ''fetch_notice'' acc ''/workspaces/notice'' s)"

definition NormalizeNoticeStatus :: "string \<Rightarrow> string" where
  "NormalizeNoticeStatus raw =
     (case map_of [(''add_card_grace_notice'', ''grace''), (''enforcement-notice'', ''enforcement''),
        (''access-lose-notice'', ''access_lose''), (''card-decline-credit-offer'', ''card_declined''),
        (''add_backup_card_notice'', ''backup_card'')] raw of Some t \<Rightarrow> t | None \<Rightarrow> '''')"

record pending_invoice =
  pin_ID :: string
  pin_Status :: string
  pin_Amount :: string
  pin_Currency :: string

definition zero_invoice :: pending_invoice where
  "zero_invoice = \<lparr> pin_ID = '''', pin_Status = '''', pin_Amount = '''', pin_Currency = '''' \<rparr>"

definition dec_invoice :: "json \<Rightarrow> pending_invoice option" where
  "dec_invoice j = dec_struct (\<lambda>obj. do {
     i \<leftarrow> dec_field ''id'' dec_string '''' obj;
     st \<leftarrow> dec_field ''status'' dec_string '''' obj;
     am \<leftarrow> dec_field ''amount'' dec_string '''' obj;
     cu \<leftarrow> dec_field ''currency'' dec_string '''' obj;
     Some \<lparr> pin_ID = i, pin_Status = st, pin_Amount = am, pin_Currency = cu \<rparr> }) zero_invoice j zero_invoice"

definition dec_invoices :: "pending_invoice list decoder" where
  "dec_invoices = dec_struct (\<lambda>obj. do {
     items \<leftarrow> dec_field ''items'' (dec_list dec_invoice) [] obj;
     _ \<leftarrow> dec_field ''cursor'' (dec_ptr dec_string '''') None obj;
     Some items }) []"

definition FetchPendingInvoices ::
  "env \<Rightarrow> client \<Rightarrow> account \<Rightarrow> client_state \<Rightarrow> (gerror, pending_invoice list) result \<times> client_state" where
  "FetchPendingInvoices v c acc s = on_answer (decode_or [404] [] ''pending-invoices: HTTP '' dec_invoices [] id)
     (api_get v c ''fetch_pending_invoices'' acc ''/workspaces/pending-invoices'' s)"

definition topup_answer :: "http_response \<Rightarrow> (gerror, unit) result" where
  "topup_answer r =
     (if is_2xx r \<or> hr_Status r = 404 then Ok ()
      else if hr_Status r = 401 then Err (Noted (Sent ErrUpstreamUnauthorized) (snip240 r))
      else Err (http_failure ''retry auto-top-up'' r))"

definition RetryAutoTopUp :: "env \<Rightarrow> client \<Rightarrow> account \<Rightarrow> client_state \<Rightarrow> (gerror, unit) result \<times> client_state" where
  "RetryAutoTopUp v c acc s = on_answer topup_answer
     (doWithRetry v c ''retry_auto_top_up'' acc (api_request v c acc ''POST'' ''/v2/auto-top-ups/retry-payment'' '''' False) s)"

section \<open>Promotions and the ledger\<close>

record personal_promo =
  ppr_ID :: string
  ppr_CampaignName :: string
  ppr_PromoCode :: string
  ppr_Discount :: rat
  ppr_ExpiredAt :: gotime
  ppr_IsViewed :: bool

definition dec_promo :: "personal_promo option decoder" where
  "dec_promo = dec_struct (\<lambda>obj. do {
     i \<leftarrow> dec_field ''id'' dec_string '''' obj;
     cn \<leftarrow> dec_field ''campaign_name'' dec_string '''' obj;
     pc \<leftarrow> dec_field ''promoCode'' dec_string '''' obj;
     off \<leftarrow> dec_field ''max_display_percent_off'' dec_f64 0 obj;
     ex \<leftarrow> dec_field ''expired_at'' dec_string '''' obj;
     vw \<leftarrow> dec_field ''details'' (dec_struct (dec_field ''is_viewed'' dec_bool False) False) False obj;
     Some (if i = '''' then None else Some \<lparr> ppr_ID = i, ppr_CampaignName = cn, ppr_PromoCode = pc,
        ppr_Discount = off, ppr_ExpiredAt = parseUnlimTime ex, ppr_IsViewed = vw \<rparr>) }) None"

definition FetchPersonalPromo ::
  "env \<Rightarrow> client \<Rightarrow> account \<Rightarrow> client_state \<Rightarrow> (gerror, personal_promo option) result \<times> client_state" where
  "FetchPersonalPromo v c acc s = on_answer (decode_or [404] None ''personal-promo: HTTP '' dec_promo None id)
     (api_get v c ''fetch_personal_promo'' acc ''/user/personal-promo'' s)"

record cashback_challenge =
  cbc_Status :: string
  cbc_CreditsSpent :: rat
  cbc_CreditsCashback :: rat
  cbc_ChallengeEndsAt :: gotime

definition dec_cashback :: "cashback_challenge option decoder" where
  "dec_cashback = dec_struct (\<lambda>obj. do {
     st \<leftarrow> dec_field ''status'' dec_string '''' obj;
     sp \<leftarrow> dec_field ''credits_spent'' dec_f64 0 obj;
     ca \<leftarrow> dec_field ''credits_cashback'' dec_f64 0 obj;
     en \<leftarrow> dec_field ''challenge_ends_at'' dec_string '''' obj;
     Some (if st = '''' then None else Some \<lparr> cbc_Status = st, cbc_CreditsSpent = sp, cbc_CreditsCashback = ca,
        cbc_ChallengeEndsAt = parseUnlimTime en \<rparr>) }) None"

definition FetchCashbackChallenge ::
  "env \<Rightarrow> client \<Rightarrow> account \<Rightarrow> client_state \<Rightarrow> (gerror, cashback_challenge option) result \<times> client_state" where
  "FetchCashbackChallenge v c acc s = on_answer
     (decode_or_empty [404] None ''cashback-challenge: HTTP '' dec_cashback None id)
     (api_get v c ''fetch_cashback_challenge'' acc ''/cashback-challenge'' s)"

record two_day_modal =
  tdm_FinalPrice :: int
  tdm_OriginalPrice :: int
  tdm_Currency :: string
  tdm_Features :: "string list"

record two_day_offer =
  tdo_Status :: string
  tdo_ExpiresAt :: gotime
  tdo_ModalData :: "two_day_modal option"
  tdo_AllowedJobSetTypes :: "string list"

definition zero_modal :: two_day_modal where
  "zero_modal = \<lparr> tdm_FinalPrice = 0, tdm_OriginalPrice = 0, tdm_Currency = '''', tdm_Features = [] \<rparr>"

definition dec_modal :: "two_day_modal decoder" where
  "dec_modal = dec_struct (\<lambda>obj. do {
     fp \<leftarrow> dec_field ''final_price'' dec_int 0 obj;
     op \<leftarrow> dec_field ''original_price'' dec_int 0 obj;
     cu \<leftarrow> dec_field ''currency'' dec_string '''' obj;
     fs \<leftarrow> dec_field ''features'' (dec_list dec_plain_string) [] obj;
     Some \<lparr> tdm_FinalPrice = fp, tdm_OriginalPrice = op, tdm_Currency = cu, tdm_Features = fs \<rparr> }) zero_modal"

text \<open>An allowed type is decoded in full and kept by its name, which is all that is read of it.\<close>

definition dec_allowed :: "json \<Rightarrow> string option" where
  "dec_allowed j = dec_struct (\<lambda>obj. do {
     jst \<leftarrow> dec_field ''job_set_type'' dec_string '''' obj;
     _ \<leftarrow> dec_field ''resolution'' dec_string '''' obj;
     _ \<leftarrow> dec_field ''resolutions'' (dec_list dec_plain_string) [] obj;
     _ \<leftarrow> dec_field ''max_duration'' dec_int 0 obj;
     Some jst }) '''' j ''''"

definition dec_offer :: "two_day_offer option decoder" where
  "dec_offer = dec_struct (\<lambda>obj. do {
     st \<leftarrow> dec_field ''status'' dec_string '''' obj;
     ex \<leftarrow> dec_field ''expires_at'' dec_string '''' obj;
     mo \<leftarrow> dec_field ''modalData'' (dec_ptr dec_modal zero_modal) None obj;
     al \<leftarrow> dec_field ''allowed_job_set_types'' (dec_list dec_allowed) [] obj;
     Some (if st = '''' then None else Some \<lparr> tdo_Status = st, tdo_ExpiresAt = parseUnlimTime ex,
        tdo_ModalData = mo, tdo_AllowedJobSetTypes = al \<rparr>) }) None"

definition FetchTwoDayOffer ::
  "env \<Rightarrow> client \<Rightarrow> account \<Rightarrow> client_state \<Rightarrow> (gerror, two_day_offer option) result \<times> client_state" where
  "FetchTwoDayOffer v c acc s = on_answer
     (decode_or_empty [404, 204] None ''two-day-offer: HTTP '' dec_offer None id)
     (api_get v c ''fetch_two_day_offer'' acc ''/two-day-offer'' s)"

record ledger_statistics =
  cls_TotalCreditsSpent :: int
  cls_TotalCreditsRefunded :: int
  cls_JobsCreated :: int
  cls_Currency :: string

definition zero_ledger :: ledger_statistics where
  "zero_ledger = \<lparr> cls_TotalCreditsSpent = 0, cls_TotalCreditsRefunded = 0, cls_JobsCreated = 0, cls_Currency = '''' \<rparr>"

definition dec_ledger :: "ledger_statistics decoder" where
  "dec_ledger = dec_struct (\<lambda>obj. do {
     sp \<leftarrow> dec_field ''total_credits_spent'' dec_int 0 obj;
     rf \<leftarrow> dec_field ''total_credits_refunded'' dec_int 0 obj;
     jc \<leftarrow> dec_field ''jobs_created'' dec_int 0 obj;
     cu \<leftarrow> dec_field ''currency'' dec_string '''' obj;
     Some \<lparr> cls_TotalCreditsSpent = sp, cls_TotalCreditsRefunded = rf, cls_JobsCreated = jc,
        cls_Currency = cu \<rparr> }) zero_ledger"

definition FetchCreditLedgerStatistics ::
  "env \<Rightarrow> client \<Rightarrow> account \<Rightarrow> string \<Rightarrow> string \<Rightarrow> client_state \<Rightarrow> (gerror, ledger_statistics) result \<times> client_state" where
  "FetchCreditLedgerStatistics v c acc start until s = on_answer
     (decode_or_empty [] zero_ledger ''credit_ledger_statistics: HTTP '' dec_ledger zero_ledger id)
     (api_get v c ''fetch_credit_ledger_statistics'' acc
        (''/workspaces/credit-ledger/statistics?start_date='' @ start @ ''&end_date='' @ until) s)"

section \<open>An upload that succeeds has gone through its three steps\<close>

lemma reserve_media_Ok:
  assumes "reserve_media v c acc ct s = (Ok (mid, url), s1)"
  shows "mid \<noteq> '''' \<and> url \<noteq> ''''"
  using assms by (auto simp: reserve_media_def reserved_of_def split: prod.splits sum.splits if_splits)

text \<open>A media identifier is answered only when the slot was reserved, the bytes were put
  to the presigned address the reservation gave, unauthenticated, and accepted, and
  the reservation was committed after that; a failure names its step.\<close>

theorem UploadImage_steps:
  assumes "UploadImage v c acc contentType body s = (res, s3)"
  shows "case res of
     Ok mid \<Rightarrow> \<exists>raw url s1 rq r s2. body = Ok raw \<and> mid \<noteq> '''' \<and>
        reserve_media v c acc contentType s = (Ok (mid, url), s1) \<and>
        NewRequest v ''PUT'' url raw = Ok rq \<and>
        ev_Answer v (cs_History s1 @ [SendEv Shared None (set_header ''Content-Type'' contentType rq)]) = Ok r \<and>
        is_2xx r \<and>
        s2 = s1\<lparr> cs_History := cs_History s1 @ [SendEv Shared None (set_header ''Content-Type'' contentType rq)] \<rparr> \<and>
        commit_media v c acc mid s2 = (Ok (), s3)
   | Err e \<Rightarrow> (\<exists>e1. body = Err e1 \<and> e = Wrap ''read image bytes'' e1 \<and> s3 = s) \<or>
        (\<exists>p \<in> set [''media_reserve_failed'', ''media_upload_failed'', ''media_commit_failed''].
           has_prefix (err_text e) p)"
proof (cases body)
  case (Inl e1)
  then show ?thesis using assms by (auto simp: UploadImage_def)
next
  case (Inr raw)
  obtain r1 s1 where r1: "reserve_media v c acc contentType s = (r1, s1)" by force
  show ?thesis
  proof (cases r1)
    case (Inl e)
    then have "res = Err e" using assms Inr r1 by (simp add: UploadImage_def)
    moreover have "has_prefix (err_text e) ''media_reserve_failed''"
      using r1 Inl by (auto simp: reserve_media_def reserved_of_def http_failure_def has_prefix_def
          split: prod.splits sum.splits if_splits)
    ultimately show ?thesis by simp
  next
    case ok: (Inr p)
    obtain mid url where p: "p = (mid, url)" by (cases p)
    obtain r2 s2 where r2: "put_media v url contentType raw s1 = (r2, s2)" by force
    show ?thesis
    proof (cases r2)
      case (Inl e)
      then have "res = Err e" using assms Inr r1 ok p r2 by (simp add: UploadImage_def)
      moreover have "has_prefix (err_text e) ''media_upload_failed''"
        using r2 Inl by (auto simp: put_media_def http_failure_def has_prefix_def
            split: prod.splits sum.splits if_splits)
      ultimately show ?thesis by simp
    next
      case put: (Inr u)
      obtain r3 s3' where r3: "commit_media v c acc mid s2 = (r3, s3')" by force
      show ?thesis
      proof (cases r3)
        case (Inl e)
        then have "res = Err e" using assms Inr r1 ok p r2 put r3 by (simp add: UploadImage_def)
        moreover have "has_prefix (err_text e) ''media_commit_failed''"
          using r3 Inl by (auto simp: commit_media_def http_failure_def has_prefix_def
              split: prod.splits sum.splits if_splits)
        ultimately show ?thesis by simp
      next
        case fin: (Inr u')
        then have res: "res = Ok mid" "s3 = s3'" using assms Inr r1 ok p r2 put r3 by (simp_all add: UploadImage_def)
        have "\<exists>rq r. NewRequest v ''PUT'' url raw = Ok rq \<and>
            ev_Answer v (cs_History s1 @ [SendEv Shared None (set_header ''Content-Type'' contentType rq)]) = Ok r \<and>
            is_2xx r \<and>
            s2 = s1\<lparr> cs_History := cs_History s1 @ [SendEv Shared None (set_header ''Content-Type'' contentType rq)] \<rparr>"
          using r2 put by (auto simp: put_media_def send_def Let_def split: sum.splits if_splits)
        then show ?thesis using res Inr r1 ok p r3 fin reserve_media_Ok [of v c acc contentType s mid url s1]
          by simp blast
      qed
    qed
  qed
qed

end
