(* ===== verification/ClientProps.thy ===== *)
theory ClientProps
  imports ClientData AccountStore
begin

text \<open>
  Instances of the upstream client: a network that refuses the cached token once,
  grants a new one and then answers, and a clock that counts the sleeps.
\<close>

definition demo_answer :: "history \<Rightarrow> (gerror, http_response) result" where
  "demo_answer h = (case h of
     [_] \<Rightarrow> Ok \<lparr> hr_Status = 401, hr_Body = '''' \<rparr>
   | [_, _] \<Rightarrow> Ok \<lparr> hr_Status = 200, hr_Body = ''{'' @ quote ''jwt'' @ '':'' @ quote ''h.e30.s'' @ ''}'' \<rparr>
   | _ \<Rightarrow> Ok \<lparr> hr_Status = 200, hr_Body = ''{}'' \<rparr>)"

definition slept :: "history \<Rightarrow> int" where
  "slept h = (\<Sum>e\<leftarrow>h. case e of SleepEv d \<Rightarrow> max 0 d | _ \<Rightarrow> 0)"

definition demo_env :: env where
  "demo_env = \<lparr> ev_Answer = demo_answer, ev_Now = slept, ev_Done = (\<lambda>_. None), ev_URLError = (\<lambda>_. None),
     ev_Order = id \<rparr>"

definition demo_client :: client where
  "demo_client = New \<lparr> jc_SlackSeconds = 0, jc_APIVersion = '''', jc_JSVersion = '''' \<rparr> '''' []"

definition session_account :: account where
  "session_account = (demo_account ''u1'')\<lparr> a_SessionID := ''sess'', a_CookiesJSON := ''{}'' \<rparr>"

definition cached_token :: token where
  "cached_token = \<lparr> tk_JWT = ''old'', tk_Claims = zero_claims\<lparr> cm_Exp := 60 \<rparr> \<rparr>"

definition warm_state :: client_state where
  "warm_state = \<lparr> cs_Tokens = (\<lambda>_. cached_token), cs_History = [], cs_Observed = [] \<rparr>"

definition fresh_token :: token where "fresh_token = \<lparr> tk_JWT = ''h.e30.s'', tk_Claims = zero_claims \<rparr>"

lemma demo_fresh: "still_fresh (cl_JWT demo_client) 0 cached_token"
  by code_simp

lemma demo_token: "token_of_answer \<lparr> hr_Status = 200, hr_Body = ''{'' @ quote ''jwt'' @ '':'' @ quote ''h.e30.s'' @ ''}'' \<rparr> = Ok fresh_token"
  by code_simp

lemma demo_cookies: "buildCookieHeader demo_env ''{}'' = Ok ''''"
  unfolding buildCookieHeader_def demo_env_def by code_simp


lemma demo_env_sel [simp]:
  "ev_Answer demo_env = demo_answer" "ev_Now demo_env = slept" "ev_Done demo_env h = None"
  "NewRequest demo_env m u b = Ok \<lparr> hq_Method = m, hq_URL = u, hq_Headers = [], hq_Body = b \<rparr>"
  by (simp_all add: demo_env_def NewRequest_def)

definition get_job :: "string \<Rightarrow> (gerror, http_request) result" where
  "get_job = api_request demo_env demo_client session_account ''GET'' ''/jobs/j1'' '''' False"

lemma get_job_Ok: "\<exists>r. get_job tok = Ok r"
  by (simp add: get_job_def api_request_def)

lemma demo_mint_request: "\<exists>mr. mint_request demo_env (cl_JWT demo_client) session_account = Ok mr"
  by (simp add: mint_request_def session_account_def demo_account_def demo_cookies)

lemma demo_timeout [simp]: "timeoutFor demo_client ep = None"
  by (simp add: timeoutFor_def demo_client_def New_def)

theorem doWithRetry_once_witness:
  "\<exists>r s1. doWithRetry demo_env demo_client ''fetch_job'' session_account get_job warm_state = (Ok r, s1) \<and>
     hr_Status r = 200 \<and> length (cs_History s1) = 3 \<and> cs_Tokens s1 ''u1'' = fresh_token \<and>
     cs_Observed s1 = [(''fetch_job'', ''200'')]"
proof -
  obtain r1 where r1: "get_job ''old'' = Ok r1" using get_job_Ok by blast
  obtain r2 where r2: "get_job ''h.e30.s'' = Ok r2" using get_job_Ok by blast
  obtain mr where mr: "mint_request demo_env (cl_JWT demo_client) session_account = Ok mr"
    using demo_mint_request by blast
  have old: "tk_JWT cached_token = ''old''" by (simp add: cached_token_def)
  let ?h1 = "[SendEv Shared None r1]"
  have eg: "egress_for demo_client session_account = Shared"
    by (simp add: egress_for_def demo_client_def New_def)
  have id: "a_ID session_account = ''u1''" by (simp add: session_account_def demo_account_def)
  have first: "attempt demo_env demo_client None ''mint jwt'' session_account get_job (\<lambda>_. cached_token, []) =
      (Ok \<lparr> hr_Status = 401, hr_Body = '''' \<rparr>, \<lambda>_. cached_token, ?h1)"
    using demo_fresh r1 by (simp add: attempt_def GetToken_def slept_def send_def eg demo_answer_def old)
  have tok: "tk_JWT fresh_token = ''h.e30.s''" by (simp add: fresh_token_def)
  let ?h3 = "?h1 @ [SendEv Shared None mr, SendEv Shared None r2]"
  have second: "attempt demo_env demo_client None ''remint jwt after 401'' session_account get_job
      (Invalidate ''u1'' (\<lambda>_. cached_token, ?h1)) =
      (Ok \<lparr> hr_Status = 200, hr_Body = ''{}'' \<rparr>, (\<lambda>_. cached_token)(''u1'' := fresh_token), ?h3)"
    using mr r2 demo_token
    by (simp add: attempt_def GetToken_def Invalidate_def mint_def send_def eg id demo_answer_def tok)
  have run: "doWithRetry demo_env demo_client ''fetch_job'' session_account get_job warm_state =
      (Ok \<lparr> hr_Status = 200, hr_Body = ''{}'' \<rparr>, \<lparr> cs_Tokens = (\<lambda>_. cached_token)(''u1'' := fresh_token),
         cs_History = ?h3, cs_Observed = [(''fetch_job'', ''200'')] \<rparr>)"
    using first second id
    by (simp add: doWithRetry_def warm_state_def status_label_def statusCodeString_def)
  from doWithRetry_once [OF run refl] run show ?thesis by (simp add: warm_state_def)
qed

theorem PollUntilTerminal_ends_witness:
  "\<exists>res seen s1. PollUntilTerminal 77 demo_env demo_client session_account ''j1'' 0 0 warm_state = Some (res, seen, s1)"
proof -
  have s: "slept h \<ge> 0" for h by (induction h) (auto simp: slept_def split: net_event.split)
  have clock: "ev_Now demo_env h \<le> ev_Now demo_env (h @ es)" for h es
    using s [of es] by (simp add: slept_def)
  have sleep: "ev_Now demo_env h + d \<le> ev_Now demo_env (h @ [SleepEv d])" for h d
    by (simp add: slept_def)
  have fuel: "nat (poll_deadline 0 div poll_interval 0) + 2 \<le> 77"
    by (simp add: poll_deadline_def poll_interval_def nanos_def)
  from PollUntilTerminal_ends [OF clock sleep order.refl fuel, of demo_client session_account "''j1''" warm_state]
  show ?thesis by blast
qed

section \<open>An upload that goes through\<close>

definition media_body :: string where
  "media_body = ''{'' @ quote ''id'' @ '':'' @ quote ''m1'' @ '','' @ quote ''upload_url'' @ '':'' @ quote ''http://s3'' @ ''}''"

definition upload_env :: env where
  "upload_env = demo_env\<lparr> ev_Answer := (\<lambda>_. Ok \<lparr> hr_Status = 200, hr_Body = media_body \<rparr>), ev_Now := (\<lambda>_. 0) \<rparr>"

lemma media_reserved: "reserved_of \<lparr> hr_Status = 200, hr_Body = media_body \<rparr> = Ok (''m1'', ''http://s3'')"
  by code_simp

lemma upload_call:
  "\<exists>s1. doWithRetry upload_env demo_client ep session_account (api_request upload_env demo_client session_account m path body js)
      (warm_state\<lparr> cs_History := h, cs_Observed := os \<rparr>) =
    (Ok \<lparr> hr_Status = 200, hr_Body = media_body \<rparr>, s1) \<and> (\<exists>h1 os1. s1 = warm_state\<lparr> cs_History := h1, cs_Observed := os1 \<rparr>)"
  using demo_fresh
  by (simp add: doWithRetry_def attempt_def GetToken_def api_request_def send_def upload_env_def demo_env_def
      NewRequest_def warm_state_def Let_def)

theorem UploadImage_steps_witness:
  "\<exists>s3. UploadImage upload_env demo_client session_account ''image/png'' (Ok ''png'') warm_state = (Ok ''m1'', s3)"
proof -
  let ?body = "marshal (JObj [(''content_type'', JStr ''image/png'')])"
  have warm: "warm_state\<lparr> cs_History := [], cs_Observed := [] \<rparr> = warm_state" by (simp add: warm_state_def)
  obtain h1 os1 where "doWithRetry upload_env demo_client ''media_reserve'' session_account
      (api_request upload_env demo_client session_account ''POST'' ''/media'' ?body True) warm_state =
      (Ok \<lparr> hr_Status = 200, hr_Body = media_body \<rparr>, warm_state\<lparr> cs_History := h1, cs_Observed := os1 \<rparr>)"
    using upload_call [where h = "[]" and os = "[]"] unfolding warm by blast
  then have r: "reserve_media upload_env demo_client session_account ''image/png'' warm_state =
      (Ok (''m1'', ''http://s3''), warm_state\<lparr> cs_History := h1, cs_Observed := os1 \<rparr>)"
    using media_reserved by (simp add: reserve_media_def)
  let ?s1 = "warm_state\<lparr> cs_History := h1, cs_Observed := os1 \<rparr>"
  obtain h2 where p: "put_media upload_env ''http://s3'' ''image/png'' ''png'' ?s1 =
      (Ok (), warm_state\<lparr> cs_History := h2, cs_Observed := os1 \<rparr>)"
    by (simp add: put_media_def send_def upload_env_def demo_env_def NewRequest_def is_2xx_def Let_def warm_state_def)
  obtain s3 where "doWithRetry upload_env demo_client ''media_commit'' session_account
      (api_request upload_env demo_client session_account ''POST'' (''/media/'' @ ''m1'' @ ''/upload'') ''{}'' True)
      (warm_state\<lparr> cs_History := h2, cs_Observed := os1 \<rparr>) = (Ok \<lparr> hr_Status = 200, hr_Body = media_body \<rparr>, s3)"
    using upload_call [where h = h2 and os = os1] by blast
  then have c: "commit_media upload_env demo_client session_account ''m1''
      (warm_state\<lparr> cs_History := h2, cs_Observed := os1 \<rparr>) = (Ok (), s3)"
    by (simp add: commit_media_def is_2xx_def)
  have "UploadImage upload_env demo_client session_account ''image/png'' (Ok ''png'') warm_state = (Ok ''m1'', s3)"
    by (simp add: UploadImage_def r p c)
  from this UploadImage_steps [OF this] show ?thesis by blast
qed

end
