(* ===== verification/CostCatalog.thy ===== *)
theory CostCatalog
  imports Client
begin

text \<open>
  The price catalogue of \<open>core/upstream/client.go\<close>: \<open>GET /job-sets/costs\<close>, the priced rules
  it is normalised into (\<open>normalizeCostNode\<close>) and the affordability floor of each model
  (\<open>reduceJobSetCost\<close>), two independent walks over the same free-form tree.
\<close>

record cost_rule =
  mcr_ID :: string
  mcr_SnapshotID :: string
  mcr_JST :: string
  mcr_ModelAlias :: string
  mcr_Unit :: string
  mcr_Component :: string
  mcr_CreditsHundredths :: int
  mcr_OriginalCreditsHundredths :: int
  mcr_Resolution :: string
  mcr_DurationSeconds :: int
  mcr_Mode :: string
  mcr_Audio :: string
  mcr_DimensionsJSON :: string
  mcr_ObservedAt :: gotime

section \<open>Values in the tree\<close>

definition as_float :: "json option \<Rightarrow> rat option" where
  "as_float v = (case v of Some (JNum s) \<Rightarrow> Some (f64s (lit_val s)) | _ \<Rightarrow> None)"

fun object_of :: "json \<Rightarrow> object option" where
  "object_of (JObj m) = Some m"
| "object_of _ = None"

definition as_object :: "json option \<Rightarrow> object option" where
  "as_object v = Option.bind v object_of"

text \<open>The objects in a list: \<open>node["resolutions"].([]any)\<close>, each element that is a map.\<close>

definition child_objects :: "json option \<Rightarrow> object list" where
  "child_objects v = (case v of
     Some (JArr vs) \<Rightarrow> List.map_filter object_of vs
   | _ \<Rightarrow> [])"

text \<open>\<open>int64(math.Round(x))\<close>: half away from zero; out of range is the least \<open>int64\<close>.\<close>

definition go_round :: "rat \<Rightarrow> int" where
  "go_round x = (if x < 0 then - \<lfloor>1 / 2 - x\<rfloor> else \<lfloor>x + 1 / 2\<rfloor>)"

definition int64_of :: "int \<Rightarrow> int" where
  "int64_of i = (if int64_range i then i else - (2 ^ 63))"

definition hundredths :: "rat \<Rightarrow> int" where
  "hundredths credits = int64_of (go_round (f64s (credits * 100)))"

definition trunc_rat :: "rat \<Rightarrow> int" where
  "trunc_rat x = (if x < 0 then - \<lfloor>- x\<rfloor> else \<lfloor>x\<rfloor>)"

section \<open>Rules\<close>

definition priced_keys :: "string list" where
  "priced_keys = [''cost_per_second'', ''original_cost_per_second'', ''credits'', ''base_credits'', ''audio'', ''resolutions'']"

text \<open>The dimensions a node gives its rules and its children.\<close>

definition node_dimensions :: "object \<Rightarrow> object \<Rightarrow> object" where
  "node_dimensions node inherited =
     fold (\<lambda>(k, v). obj_put k v) (filter (\<lambda>(k, v). k \<notin> set priced_keys) node) inherited"

definition stringDimension :: "object \<Rightarrow> string \<Rightarrow> string" where
  "stringDimension dims key = (case obj_get dims key of Some (JStr s) \<Rightarrow> s | _ \<Rightarrow> '''')"

fun intDimension :: "object \<Rightarrow> string list \<Rightarrow> int" where
  "intDimension dims [] = 0"
| "intDimension dims (key # keys) = (case obj_get dims key of
     Some (JNum s) \<Rightarrow> int64_of (trunc_rat (f64s (lit_val s)))
   | Some (JStr s) \<Rightarrow> (case atoi s of Some i \<Rightarrow> i | None \<Rightarrow> intDimension dims keys)
   | _ \<Rightarrow> intDimension dims keys)"

definition cost_rule_of :: "string \<Rightarrow> object \<Rightarrow> string \<Rightarrow> string \<Rightarrow> string \<Rightarrow> rat \<Rightarrow> rat \<Rightarrow> cost_rule list" where
  "cost_rule_of jst dimensions unit part audio credits original =
     (if credits \<le> 0 then []
      else let dims = (if audio \<noteq> '''' then obj_put ''audio'' (JStr audio) dimensions else dimensions) in
        [\<lparr> mcr_ID = '''', mcr_SnapshotID = '''', mcr_JST = jst, mcr_ModelAlias = '''', mcr_Unit = unit, mcr_Component = part,
           mcr_CreditsHundredths = hundredths credits, mcr_OriginalCreditsHundredths = hundredths original,
           mcr_Resolution = stringDimension dims ''resolution'',
           mcr_DurationSeconds = intDimension dims [''duration'', ''duration_seconds'', ''seconds''],
           mcr_Mode = stringDimension dims ''mode'', mcr_Audio = audio,
           mcr_DimensionsJSON = marshal (JObj dims), mcr_ObservedAt = None \<rparr>])"

definition node_rules :: "string \<Rightarrow> object \<Rightarrow> object \<Rightarrow> cost_rule list" where
  "node_rules jst node dims =
     (let add = cost_rule_of jst dims;
          field = (\<lambda>key. as_float (obj_get node key))
      in (case field ''cost_per_second'' of None \<Rightarrow> []
          | Some x \<Rightarrow> add ''per_second'' ''cost_per_second'' '''' x
              (case field ''original_cost_per_second'' of Some y \<Rightarrow> y | None \<Rightarrow> 0)) @
         (case field ''credits'' of None \<Rightarrow> [] | Some x \<Rightarrow> add ''per_request'' ''credits'' '''' x 0) @
         (case field ''base_credits'' of None \<Rightarrow> [] | Some x \<Rightarrow> add ''per_request'' ''base_credits'' '''' x 0) @
         (case as_object (obj_get node ''audio'') of None \<Rightarrow> []
          | Some audio \<Rightarrow> concat (map (\<lambda>state. case as_float (obj_get audio state) of None \<Rightarrow> []
                | Some x \<Rightarrow> add ''upstream_unspecified'' ''audio_state'' state x 0) [''off'', ''on''])))"

lemma size_map_of: "map_of m k = Some j \<Longrightarrow> size j < size (JObj m)"
proof (induction m)
  case (Cons p m)
  then show ?case by (cases p) (auto split: if_splits)
qed simp

lemma size_child:
  assumes "m \<in> set (child_objects (obj_get node k))" shows "size (JObj m) < size (JObj node)"
proof -
  obtain vs where vs0: "obj_get node k = Some (JArr vs)" "m \<in> set (List.map_filter object_of vs)"
    using assms by (cases "obj_get node k") (auto simp: child_objects_def split: json.split_asm)
  then obtain j where j: "j \<in> set vs" "object_of j = Some m" by (auto simp: map_filter_def)
  have "j = JObj m" using j(2) by (cases j) simp_all
  with j(1) have "JObj m \<in> set vs" by blast
  note vs = vs0(1) this
  from vs(2) have "size (JObj m) < size (JArr vs)" by (simp add: less_Suc_eq_le size_list_estimation')
  also have "\<dots> < size (JObj node)" using vs(1) by (auto simp: obj_get_def dest: size_map_of)
  finally show ?thesis .
qed

function normalizeCostNode :: "string \<Rightarrow> object \<Rightarrow> object \<Rightarrow> cost_rule list" where
  "normalizeCostNode jst node inherited =
     (let dims = node_dimensions node inherited in
      node_rules jst node dims @
      concat (map (\<lambda>child. normalizeCostNode jst child dims) (child_objects (obj_get node ''resolutions''))))"
  by pat_completeness auto
termination
  by (relation "measure (\<lambda>(jst, node, inherited). size (JObj node))") (auto dest: size_child)

declare normalizeCostNode.simps [simp del]

text \<open>An item that is not an object is skipped; \<open>null\<close> is an empty one.\<close>

definition cost_nodes :: "json list \<Rightarrow> object list" where
  "cost_nodes items = List.map_filter (\<lambda>item. dec_map dec_any JNull item []) items"

definition normalizeJobSetCostRules :: "string \<Rightarrow> json list \<Rightarrow> cost_rule list" where
  "normalizeJobSetCostRules jst items = concat (map (\<lambda>node. normalizeCostNode jst node []) (cost_nodes items))"

section \<open>The floor\<close>

text \<open>The prices the second walk considers, in its order.\<close>

function walk_prices :: "object \<Rightarrow> rat list" where
  "walk_prices m =
     List.map_filter (\<lambda>key. as_float (obj_get m key)) [''cost_per_second'', ''credits'', ''base_credits''] @
     (case as_object (obj_get m ''audio'') of None \<Rightarrow> []
      | Some audio \<Rightarrow> List.map_filter (\<lambda>key. as_float (obj_get audio key)) [''on'', ''off'']) @
     concat (map walk_prices (child_objects (obj_get m ''resolutions'')))"
  by pat_completeness auto
termination
  by (relation "measure (\<lambda>node. size (JObj node))") (auto dest: size_child)

declare walk_prices.simps [simp del]

text \<open>\<open>best\<close> starts at infinity.\<close>

definition consider_price :: "rat \<Rightarrow> rat option \<Rightarrow> rat option" where
  "consider_price x best =
     (if x > 0 \<and> (case best of None \<Rightarrow> True | Some b \<Rightarrow> x < b) then Some x else best)"

definition reduceJobSetCost :: "json list \<Rightarrow> int option" where
  "reduceJobSetCost items =
     map_option hundredths (fold consider_price (concat (map walk_prices (cost_nodes items))) None)"

section \<open>The catalogue\<close>

record cost_catalog =
  jcc_RawJSON :: string
  jcc_MinCosts :: "(string \<times> int) list"
  jcc_Rules :: "cost_rule list"

definition dec_cost_entry :: "json \<Rightarrow> (string \<times> json list) option" where
  "dec_cost_entry j = dec_struct (\<lambda>obj. do {
     jst \<leftarrow> dec_field ''job_set_type'' dec_string '''' obj;
     cost \<leftarrow> dec_field ''cost'' (dec_list Some) [] obj;
     Some (jst, cost) }) ('''', []) j ('''', [])"

definition dec_costs :: "(string \<times> json list) list decoder" where
  "dec_costs = dec_struct (dec_field ''data'' (dec_list dec_cost_entry) []) []"

definition catalog_of :: "string \<Rightarrow> (string \<times> json list) list \<Rightarrow> cost_catalog option" where
  "catalog_of raw entries =
     (let named = filter (\<lambda>(jst, cost). jst \<noteq> '''') entries;
          floors = List.map_filter (\<lambda>(jst, cost). map_option (Pair jst) (reduceJobSetCost cost)) named
      in if entries = [] \<or> floors = [] then None
         else Some \<lparr> jcc_RawJSON = raw, jcc_MinCosts = map_from floors,
                jcc_Rules = concat (map (\<lambda>(jst, cost). normalizeJobSetCostRules jst cost) named) \<rparr>)"

definition FetchJobSetCostCatalog ::
  "env \<Rightarrow> client \<Rightarrow> account \<Rightarrow> client_state \<Rightarrow> (gerror, cost_catalog option) result \<times> client_state" where
  "FetchJobSetCostCatalog v c acc s =
     (case api_get v c ''fetch_job_set_costs'' acc ''/job-sets/costs'' s of
        (Inl e, s1) \<Rightarrow> (Err e, s1)
      | (Inr r, s1) \<Rightarrow>
         (map_sum id (catalog_of (hr_Body r)) (decode_200 ''job-sets/costs: HTTP '' dec_costs [] r), s1))"

definition FetchJobSetCosts ::
  "env \<Rightarrow> client \<Rightarrow> account \<Rightarrow> client_state \<Rightarrow> (gerror, (string \<times> int) list) result \<times> client_state" where
  "FetchJobSetCosts v c acc s = (case FetchJobSetCostCatalog v c acc s of
     (res, s1) \<Rightarrow> (map_sum id (\<lambda>cat. case cat of None \<Rightarrow> [] | Some k \<Rightarrow> jcc_MinCosts k) res, s1))"

section \<open>The two walks agree\<close>

lemma go_round_mono: "0 \<le> x \<Longrightarrow> x \<le> y \<Longrightarrow> go_round x \<le> go_round y"
  by (simp add: go_round_def floor_mono)

lemma hundredths_mono:
  assumes "0 \<le> x" "x \<le> y" "0 \<le> hundredths y"
  shows "hundredths x \<le> hundredths y"
proof -
  have f: "f64s (x * 100) = f64 (x * 100)" "f64s (y * 100) = f64 (y * 100)" using assms(1,2) by (simp_all add: f64s_def)
  have "f64 (x * 100) \<le> f64 (y * 100)" using assms(2) by (intro f64_mono) simp
  then have le: "go_round (f64s (x * 100)) \<le> go_round (f64s (y * 100))"
    unfolding f by (intro go_round_mono f64_nonneg)
  have "0 \<le> f64 (x * 100)" by (rule f64_nonneg)
  then have "0 \<le> go_round (f64s (x * 100))" unfolding f by (simp add: go_round_def)
  moreover have "hundredths y = go_round (f64s (y * 100))"
    using assms(3) by (auto simp: hundredths_def int64_of_def split: if_splits)
  ultimately show ?thesis using le assms(3)
    by (auto simp: hundredths_def int64_of_def int64_range_def split: if_splits)
qed

text \<open>The best price so far is the least positive one.\<close>

lemma fold_consider:
  "fold consider_price xs best =
     (let pos = set_option best \<union> {x \<in> set xs. 0 < x} in if pos = {} then None else Some (Min pos))"
proof (induction xs arbitrary: best)
  case Nil
  then show ?case by (cases best) (simp_all add: Let_def)
next
  case (Cons x xs)
  let ?pos = "set_option best \<union> {y \<in> set (x # xs). 0 < y}"
  let ?rest = "{y \<in> set xs. 0 < y}"
  show ?case
  proof (cases "0 < x")
    case False
    then have "consider_price x best = best" by (simp add: consider_price_def)
    moreover have "?pos = set_option best \<union> ?rest" using False by auto
    ultimately show ?thesis using Cons.IH [of best] by simp
  next
    case True
    have c: "consider_price x best = Some (case best of None \<Rightarrow> x | Some b \<Rightarrow> min x b)"
      using True by (auto simp: consider_price_def split: option.split)
    show ?thesis
    proof (cases best)
      case None
      have "?pos = {x} \<union> ?rest" using True None by auto
      then show ?thesis using Cons.IH [of "Some x"] c None by (simp add: Let_def)
    next
      case (Some b)
      have "?pos = insert b (insert x ?rest)" using True Some by auto
      moreover have "Min (insert b (insert x R)) = Min (insert (min x b) R)" if "finite R" for R
        using that by (cases "R = {}") (auto simp: min_def)
      ultimately have "Min ?pos = Min (insert (min x b) ?rest)" by simp
      then show ?thesis using Cons.IH [of "Some (min x b)"] c Some \<open>?pos = _\<close> by (simp add: Let_def)
    qed
  qed
qed

definition own_prices :: "object \<Rightarrow> rat list" where
  "own_prices m =
     List.map_filter (\<lambda>key. as_float (obj_get m key)) [''cost_per_second'', ''credits'', ''base_credits''] @
     (case as_object (obj_get m ''audio'') of None \<Rightarrow> []
      | Some audio \<Rightarrow> List.map_filter (\<lambda>key. as_float (obj_get audio key)) [''on'', ''off''])"

lemma walk_prices_own:
  "walk_prices m = own_prices m @ concat (map walk_prices (child_objects (obj_get m ''resolutions'')))"
  by (subst walk_prices.simps) (simp add: own_prices_def)

definition rule_prices :: "rat list \<Rightarrow> int set" where
  "rule_prices xs = hundredths ` {x \<in> set xs. 0 < x}"

lemma rule_prices_append [simp]: "rule_prices (xs @ ys) = rule_prices xs \<union> rule_prices ys"
  by (auto simp: rule_prices_def)

lemma rule_prices_concat [simp]: "rule_prices (concat xss) = (\<Union>xs \<in> set xss. rule_prices xs)"
  by (induction xss) (auto simp: rule_prices_def)

lemma rule_prices_Nil [simp]: "rule_prices [] = {}"
  by (simp add: rule_prices_def)

lemma rule_prices_Cons [simp]: "rule_prices (x # xs) = (if 0 < x then {hundredths x} else {}) \<union> rule_prices xs"
  by (auto simp: rule_prices_def)

lemma cost_rule_of_credits [simp]:
  "mcr_CreditsHundredths ` set (cost_rule_of jst dims unit part audio x y) = (if 0 < x then {hundredths x} else {})"
  by (simp add: cost_rule_of_def Let_def)

lemma field_rules_credits:
  "mcr_CreditsHundredths ` set (case v of None \<Rightarrow> [] | Some x \<Rightarrow> cost_rule_of jst dims unit part audio x y) =
   rule_prices (case v of None \<Rightarrow> [] | Some x \<Rightarrow> [x])"
  by (cases v) simp_all

lemma node_rules_credits: "mcr_CreditsHundredths ` set (node_rules jst node dims) = rule_prices (own_prices node)"
proof -
  let ?orig = "case as_float (obj_get node ''original_cost_per_second'') of Some y \<Rightarrow> y | None \<Rightarrow> 0"
  let ?f = "\<lambda>u p a y v. case v of None \<Rightarrow> [] | Some x \<Rightarrow> cost_rule_of jst dims u p a x y"
  let ?l = "\<lambda>v :: rat option. case v of None \<Rightarrow> [] | Some x \<Rightarrow> [x]"
  let ?n = "\<lambda>k. as_float (obj_get node k)"
  have rules: "node_rules jst node dims =
      ?f ''per_second'' ''cost_per_second'' '''' ?orig (?n ''cost_per_second'') @
      ?f ''per_request'' ''credits'' '''' 0 (?n ''credits'') @
      ?f ''per_request'' ''base_credits'' '''' 0 (?n ''base_credits'') @
      (case as_object (obj_get node ''audio'') of None \<Rightarrow> []
       | Some m \<Rightarrow> ?f ''upstream_unspecified'' ''audio_state'' ''off'' 0 (as_float (obj_get m ''off'')) @
                   ?f ''upstream_unspecified'' ''audio_state'' ''on'' 0 (as_float (obj_get m ''on'')))"
    by (simp add: node_rules_def Let_def cong: option.case_cong)
  have prices: "own_prices node = ?l (?n ''cost_per_second'') @ ?l (?n ''credits'') @ ?l (?n ''base_credits'') @
      (case as_object (obj_get node ''audio'') of None \<Rightarrow> []
       | Some m \<Rightarrow> ?l (as_float (obj_get m ''on'')) @ ?l (as_float (obj_get m ''off'')))"
    by (simp add: own_prices_def List.map_filter_simps split: option.split)
  have f: "mcr_CreditsHundredths ` set (?f u p a y w) = rule_prices (?l w)" for u p a y w
    by (rule field_rules_credits)
  show ?thesis
  proof (cases "as_object (obj_get node ''audio'')")
    case None
    then have "node_rules jst node dims = ?f ''per_second'' ''cost_per_second'' '''' ?orig (?n ''cost_per_second'') @
        ?f ''per_request'' ''credits'' '''' 0 (?n ''credits'') @
        ?f ''per_request'' ''base_credits'' '''' 0 (?n ''base_credits'')"
      "own_prices node = ?l (?n ''cost_per_second'') @ ?l (?n ''credits'') @ ?l (?n ''base_credits'')"
      using rules prices by simp_all
    then show ?thesis by (simp only: set_append image_Un f rule_prices_append)
  next
    case (Some m)
    have r: "node_rules jst node dims = ?f ''per_second'' ''cost_per_second'' '''' ?orig (?n ''cost_per_second'') @
        ?f ''per_request'' ''credits'' '''' 0 (?n ''credits'') @
        ?f ''per_request'' ''base_credits'' '''' 0 (?n ''base_credits'') @
        ?f ''upstream_unspecified'' ''audio_state'' ''off'' 0 (as_float (obj_get m ''off'')) @
        ?f ''upstream_unspecified'' ''audio_state'' ''on'' 0 (as_float (obj_get m ''on''))"
      using rules Some by simp
    have p: "own_prices node = ?l (?n ''cost_per_second'') @ ?l (?n ''credits'') @ ?l (?n ''base_credits'') @
        ?l (as_float (obj_get m ''on'')) @ ?l (as_float (obj_get m ''off''))"
      using prices Some by simp
    have ac: "A \<union> (B \<union> (C \<union> (D \<union> E))) = A \<union> (B \<union> (C \<union> (E \<union> D)))" for A B C D E :: "int set"
      by blast
    show ?thesis unfolding r p set_append image_Un f rule_prices_append by (rule ac)
  qed
qed

lemma normalizeCostNode_credits:
  "mcr_CreditsHundredths ` set (normalizeCostNode jst node inh) = rule_prices (walk_prices node)"
proof (induction jst node inh rule: normalizeCostNode.induct)
  case (1 jst node inh)
  have "mcr_CreditsHundredths ` set (normalizeCostNode jst node inh) =
      rule_prices (own_prices node) \<union> (\<Union>child \<in> set (child_objects (obj_get node ''resolutions'')).
        mcr_CreditsHundredths ` set (normalizeCostNode jst child (node_dimensions node inh)))"
    by (subst normalizeCostNode.simps) (simp add: Let_def image_Un node_rules_credits image_UN)
  also have "\<dots> = rule_prices (walk_prices node)"
    using "1.IH" [OF refl] by (subst walk_prices_own) simp
  finally show ?case .
qed

lemma rules_credits:
  "mcr_CreditsHundredths ` set (normalizeJobSetCostRules jst items) =
   rule_prices (concat (map walk_prices (cost_nodes items)))"
  by (simp add: normalizeJobSetCostRules_def image_UN normalizeCostNode_credits)

text \<open>The affordability floor of a model, computed by a walk of its own, is the least
  price among the model's rules, and a model has a floor exactly when it has a rule,
  as long as no price overflows.\<close>

theorem floor_is_cheapest_rule:
  assumes "\<forall>r \<in> set (normalizeJobSetCostRules jst items). 0 \<le> mcr_CreditsHundredths r"
  shows "reduceJobSetCost items = (if normalizeJobSetCostRules jst items = [] then None
     else Some (Min (mcr_CreditsHundredths ` set (normalizeJobSetCostRules jst items))))"
proof -
  let ?xs = "concat (map walk_prices (cost_nodes items))"
  let ?pos = "{x \<in> set ?xs. 0 < x}"
  have rules: "mcr_CreditsHundredths ` set (normalizeJobSetCostRules jst items) = hundredths ` ?pos"
    using rules_credits by (simp add: rule_prices_def)
  have fold: "fold consider_price ?xs None = (if ?pos = {} then None else Some (Min ?pos))"
    using fold_consider [of ?xs None] by (simp add: Let_def)
  show ?thesis
  proof (cases "?pos = {}")
    case True
    then have "normalizeJobSetCostRules jst items = []" using rules unfolding True image_empty image_is_empty set_empty by blast
    then show ?thesis unfolding reduceJobSetCost_def fold using True by simp
  next
    case False
    have fin: "finite ?pos" by simp
    have m: "Min ?pos \<in> ?pos" using Min_in [OF fin False] .
    have "hundredths (Min ?pos) \<le> hundredths x" if "x \<in> ?pos" for x
    proof (rule hundredths_mono)
      show "0 \<le> Min ?pos" using m by simp
      show "Min ?pos \<le> x" using fin that by (rule Min_le)
      have "hundredths x \<in> mcr_CreditsHundredths ` set (normalizeJobSetCostRules jst items)"
        unfolding rules using that by blast
      then show "0 \<le> hundredths x" using assms by auto
    qed
    then have "Min (hundredths ` ?pos) = hundredths (Min ?pos)"
      using fin m by (intro Min_eqI) auto
    moreover have "normalizeJobSetCostRules jst items \<noteq> []"
      using rules False unfolding image_is_empty [symmetric, of _ hundredths] by force
    ultimately show ?thesis unfolding reduceJobSetCost_def fold rules using False by simp
  qed
qed

section \<open>An instance\<close>

lemma f64s_int: "0 \<le> n \<Longrightarrow> n < 2 ^ 53 \<Longrightarrow> f64s (of_int n) = of_int n"
  using int64_to_f64_exact [of n] by (simp add: f64s_def int64_to_f64_def)

definition demo_cost :: object where "demo_cost = [(''credits'', JNum ''2'')]"

lemma demo_cost_price: "as_float (obj_get demo_cost ''credits'') = Some 2"
proof -
  have "lit_val ''2'' = 2" by code_simp
  then show ?thesis using f64s_int [of 2] by (simp add: as_float_def obj_get_def demo_cost_def)
qed

lemma demo_cost_node: "cost_nodes [JObj demo_cost] = [demo_cost]"
proof -
  have "lit_val ''2'' = 2" by code_simp
  then have "lit_f64 ''2'' = Some 2" using f64s_int [of 2] by (simp add: lit_f64_def Let_def)
  then show ?thesis
    by (simp add: cost_nodes_def dec_map_def dec_any_def demo_cost_def map_from_def obj_put_def
        List.map_filter_simps)
qed

lemma demo_cost_walk: "walk_prices demo_cost = [2]"
proof -
  have none: "obj_get demo_cost k = None" if "k \<noteq> ''credits''" for k
    using that by (simp add: obj_get_def demo_cost_def)
  show ?thesis
    by (subst walk_prices.simps)
       (simp add: List.map_filter_simps none demo_cost_price as_float_def [of None] as_object_def child_objects_def)
qed

lemma hundredths_2: "hundredths 2 = 200"
  using f64s_int [of 200] by (simp add: hundredths_def go_round_def int64_of_def int64_range_def floor_eq_iff)

lemma demo_cost_floor: "reduceJobSetCost [JObj demo_cost] = Some 200"
  by (simp add: reduceJobSetCost_def demo_cost_node demo_cost_walk consider_price_def hundredths_2)

theorem floor_is_cheapest_rule_witness:
  "reduceJobSetCost [JObj demo_cost] =
     Some (Min (mcr_CreditsHundredths ` set (normalizeJobSetCostRules ''m'' [JObj demo_cost]))) \<and>
   normalizeJobSetCostRules ''m'' [JObj demo_cost] \<noteq> []"
proof -
  have "walk_prices demo_cost = [2]" by (rule demo_cost_walk)
  then have rules: "mcr_CreditsHundredths ` set (normalizeJobSetCostRules ''m'' [JObj demo_cost]) = {hundredths 2}"
    by (simp add: rules_credits demo_cost_node)
  have h: "hundredths 2 = 200" by (rule hundredths_2)
  have ok: "\<forall>r \<in> set (normalizeJobSetCostRules ''m'' [JObj demo_cost]). 0 \<le> mcr_CreditsHundredths r"
  proof
    fix r assume "r \<in> set (normalizeJobSetCostRules ''m'' [JObj demo_cost])"
    then have "mcr_CreditsHundredths r \<in> {hundredths 2}" unfolding rules [symmetric] by (rule imageI)
    then show "0 \<le> mcr_CreditsHundredths r" using h by simp
  qed
  moreover have "normalizeJobSetCostRules ''m'' [JObj demo_cost] \<noteq> []" using rules by force
  ultimately show ?thesis using floor_is_cheapest_rule [OF ok] by simp
qed

end
