(* ===== verification/Pipeline.thy ===== *)
theory Pipeline
  imports ClientProps ProxyProps
begin

text \<open>
  Where the upstream client meets the pipeline: what an upstream status becomes as an
  error of the client, as the error type of the job row and as evidence for the
  failover controller.
\<close>

text \<open>A refused creation is read the same way by everyone.  For the statuses the
  client knows, the error it answers carries the status to the job's error type and to
  the controller, whose classes of the error and of the bare status agree.\<close>

theorem create_error_classes:
  assumes "hr_Status r \<in> set [401, 403, 422, 429] \<or> 500 \<le> hr_Status r"
  shows "\<exists>e. create_answer r = Err e \<and>
    classifyCreateErr e =
      (if hr_Status r = 403 then ErrGate else if hr_Status r = 422 then ErrBody
       else if hr_Status r = 429 then ErrRateLimit else ErrUpstream) \<and>
    Classify (Some e) = ClassifyStatus (hr_Status r) (hr_Body r) \<and>
    statusFromErr (Some e) = (if hr_Status r < 500 then hr_Status r else 500)"
proof -
  consider "hr_Status r = 401" | "hr_Status r = 403" | "hr_Status r = 422" | "hr_Status r = 429"
    | "500 \<le> hr_Status r" using assms by auto
  then show ?thesis
    by cases (simp_all add: create_answer_def Let_def classifyCreateErr_def Classify_def ClassifyStatus_def
        statusFromErr_def)
qed

theorem create_error_classes_witness:
  "\<exists>e. create_answer \<lparr> hr_Status = 429, hr_Body = '''' \<rparr> = Err e \<and> Classify (Some e) = ClassThrottle"
proof -
  have "hr_Status \<lparr> hr_Status = 429, hr_Body = '''' \<rparr> \<in> set [401, 403, 422, 429] \<or>
      500 \<le> hr_Status \<lparr> hr_Status = 429, hr_Body = '''' \<rparr>" by simp
  from create_error_classes [OF this] show ?thesis by (auto simp: ClassifyStatus_def)
qed

text \<open>A rate limit met while polling is another matter: the status call answers it as an
  error without a class, so the controller never counts it as a throttle.\<close>

lemma poll_rate_limit_not_throttle:
  assumes "hr_Status r = 429"
  shows "\<exists>e. decode_200 ''status '' dec_status zero_status r = Err e \<and> Classify (Some e) \<noteq> ClassThrottle \<and>
    ClassifyStatus 429 (hr_Body r) = ClassThrottle"
  using assms by (simp add: decode_200_def need_200_def Classify_def ClassifyStatus_def)

end
