(* ===== verification/RateLimit.thy ===== *)
theory RateLimit
  imports Float64 KeyStore
begin

text \<open>
  \<open>api/middleware/ratelimit.go\<close>: a token bucket per API key, in \<open>float64\<close>.  One call of
  \<open>allow\<close> is one step, under the mutex.  Durations are in nanoseconds.
\<close>

record bucket =
  bk_tokens :: rat
  bk_last :: int
  bk_lastSeen :: int

type_synonym buckets = "(string \<times> bucket) list"

definition default_rps :: rat where "default_rps = 5"
definition default_burst :: int where "default_burst = 10"
definition idle_eviction :: int where "idle_eviction = 3600 * nanos"

definition effectiveParams :: "rat \<Rightarrow> int \<Rightarrow> rat \<times> int" where
  "effectiveParams rps burst =
     (if rps \<le> 0 then default_rps else rps, if burst \<le> 0 then default_burst else burst)"

text \<open>\<open>Duration.Seconds\<close>.\<close>

definition seconds :: "int \<Rightarrow> rat" where
  "seconds d = f64 (int64_to_f64 (d div nanos) + f64 (int64_to_f64 (d mod nanos) / 1000000000))"

definition refill :: "rat \<Rightarrow> int \<Rightarrow> int \<Rightarrow> bucket \<Rightarrow> bucket" where
  "refill rps burst now b =
     (let elapsed = seconds (now - bk_last b);
          b1 = (if now > bk_last b
                then b\<lparr> bk_tokens := min (f64 (bk_tokens b + f64 (elapsed * rps))) (int64_to_f64 burst),
                        bk_last := now \<rparr>
                else b)
      in b1\<lparr> bk_lastSeen := now \<rparr>)"

definition fresh_bucket :: "int \<Rightarrow> int \<Rightarrow> bucket" where
  "fresh_bucket burst now = \<lparr> bk_tokens = int64_to_f64 burst, bk_last = now, bk_lastSeen = now \<rparr>"

definition evict :: "string \<Rightarrow> int \<Rightarrow> buckets \<Rightarrow> buckets" where
  "evict kid now bs = filter (\<lambda>(i, b). i = kid \<or> \<not> (now - bk_lastSeen b > idle_eviction)) bs"

definition take_token :: "bucket \<Rightarrow> bool \<times> bucket" where
  "take_token b = (if bk_tokens b \<ge> 1 then (True, b\<lparr> bk_tokens := f64 (bk_tokens b - 1) \<rparr>) else (False, b))"

text \<open>One key's request, given its bucket if it has one.\<close>

definition bucket_step :: "rat \<Rightarrow> int \<Rightarrow> int \<Rightarrow> bucket option \<Rightarrow> bool \<times> bucket" where
  "bucket_step rps burst now bo =
     take_token (case bo of None \<Rightarrow> fresh_bucket burst now | Some b \<Rightarrow> refill rps burst now b)"

definition put_bucket :: "string \<Rightarrow> bucket \<Rightarrow> buckets \<Rightarrow> buckets" where
  "put_bucket kid b bs = (kid, b) # filter (\<lambda>(i, _). i \<noteq> kid) bs"

definition allow :: "string \<Rightarrow> rat \<Rightarrow> int \<Rightarrow> int \<Rightarrow> buckets \<Rightarrow> bool \<times> buckets" where
  "allow kid rps burst now bs =
     (let bs1 = evict kid now bs in
      case bucket_step rps burst now (map_of bs1 kid) of (ok, b) \<Rightarrow> (ok, put_bucket kid b bs1))"

text \<open>The middleware: a request without a key passes; a refused one is answered 429 with
  \<open>Retry-After: 1\<close>.\<close>

datatype rate_outcome = RatePass | RateLimited

definition RateLimitMiddleware :: "rat \<Rightarrow> int \<Rightarrow> int \<Rightarrow> apikey option \<Rightarrow> buckets \<Rightarrow> rate_outcome \<times> buckets" where
  "RateLimitMiddleware rps0 burst0 now kopt bs =
     (case effectiveParams rps0 burst0 of (rps, burst) \<Rightarrow>
      case kopt of
        None \<Rightarrow> (RatePass, bs)
      | Some k \<Rightarrow> if k_ID k = '''' then (RatePass, bs)
          else (case allow (k_ID k) rps burst now bs of
             (ok, bs1) \<Rightarrow> (if ok then RatePass else RateLimited, bs1)))"

section \<open>Arithmetic of a bucket\<close>

lemma int64_to_f64_burst: "0 \<le> burst \<Longrightarrow> burst < 2 ^ 53 \<Longrightarrow> int64_to_f64 burst = of_int burst"
  by (rule int64_to_f64_exact)

lemma seconds_ge:
  assumes "n * nanos \<le> d" "0 \<le> n" "n < 2 ^ 53" shows "of_int n \<le> seconds d"
proof -
  have "n \<le> d div nanos" using assms(1) by (simp add: nanos_def)
  then have "(of_int n :: rat) \<le> of_int (d div nanos)" by simp
  then have "of_int n \<le> int64_to_f64 (d div nanos)"
    unfolding int64_to_f64_def using assms by (intro f64_ge_int) auto
  then have "of_int n \<le> int64_to_f64 (d div nanos) + f64 (int64_to_f64 (d mod nanos) / 1000000000)"
    using f64_nonneg by (simp add: add_increasing2)
  then show ?thesis unfolding seconds_def using assms by (intro f64_ge_int) auto
qed

text \<open>A value of the format keeps its exactness when one is taken from it.\<close>

lemma f64_is_multiple:
  assumes "0 < x" shows "\<exists>m. f64 x = of_int m * 2 powi (exponent2 x - 52)"
  using assms by (auto simp: f64_def Let_def)

lemma f64_exact_on_grid:
  assumes x: "0 < x" "x = of_int m * 2 powi k" and k: "exponent2 x - 52 \<le> k"
  shows "f64 x = x"
proof -
  define e where "e = exponent2 x - 52"
  define j where "j = m * 2 ^ nat (k - e)"
  have "(2::rat) powi k = 2 powi (k - e) * 2 powi e" by (simp add: power_int_add [symmetric])
  also have "(2::rat) powi (k - e) = of_int (2 ^ nat (k - e))" using k by (simp add: power_int_def e_def)
  finally have x2: "x = of_int j * 2 powi e" using x(2) by (simp add: j_def)
  then have "x / 2 powi e = of_int j" by simp
  then have r: "round_half_even (x / 2 powi e) = j" by (simp add: round_half_even_def Let_def)
  have "f64 x = of_int (round_half_even (x / 2 powi e)) * 2 powi e" using x(1) by (simp add: f64_def Let_def e_def)
  also have "\<dots> = x" unfolding r by (rule x2 [symmetric])
  finally show ?thesis .
qed

lemma f64_minus_one:
  assumes fx: "f64 y = y" and y: "1 \<le> y" "y < 2 ^ 53"
  shows "f64 (y - 1) = y - 1"
proof (cases "y = 1")
  case False
  have pos: "0 < y - 1" "0 < y" using y False by auto
  obtain m where m: "y = of_int m * 2 powi (exponent2 y - 52)" using f64_is_multiple [OF pos(2)] fx by metis
  have "exponent2 y < 53"
  proof -
    have "(2::rat) powi (exponent2 y) < 2 powi 53" using exponent2_bounds(1) [OF pos(2)] y(2) by simp
    then show ?thesis using power_int_increasing [of 53 "exponent2 y" "2::rat"] by fastforce
  qed
  then have one: "(1::rat) = of_int (2 ^ nat (52 - exponent2 y)) * 2 powi (exponent2 y - 52)"
    by (simp add: power_int_def power_one_over field_simps)
  have g: "y - 1 = of_int (m - 2 ^ nat (52 - exponent2 y)) * 2 powi (exponent2 y - 52)"
    by (subst one, subst m) (simp add: left_diff_distrib)
  have "exponent2 (y - 1) \<le> exponent2 y" using pos by (intro exponent2_mono) auto
  then have "exponent2 (y - 1) - 52 \<le> exponent2 y - 52" by simp
  then show ?thesis by (rule f64_exact_on_grid [OF pos(1) g])
qed (simp add: f64_def)

lemma f64_idem:
  assumes "0 < x" shows "f64 (f64 x) = f64 x"
proof (cases "f64 x = 0")
  case False
  have pos: "0 < f64 x" using False f64_nonneg [of x] by simp
  obtain m where m: "f64 x = of_int m * 2 powi (exponent2 x - 52)" using f64_is_multiple [OF assms] by blast
  consider "f64 x < 2 powi (exponent2 x + 1)" | "f64 x = 2 powi (exponent2 x + 1)"
    using f64_between(2) [OF assms] by fastforce
  then show ?thesis
  proof cases
    case 1
    have "2 powi (exponent2 (f64 x)) < (2::rat) powi (exponent2 x + 1)"
      using exponent2_bounds(1) [OF pos] 1 by linarith
    then have "exponent2 (f64 x) \<le> exponent2 x"
      using power_int_increasing [of "exponent2 x + 1" "exponent2 (f64 x)" "2::rat"] by fastforce
    then have "exponent2 (f64 x) - 52 \<le> exponent2 x - 52" by simp
    then show ?thesis by (rule f64_exact_on_grid [OF pos m])
  next
    case 2
    have "2 powi (exponent2 (f64 x)) \<le> (2::rat) powi (exponent2 x + 1)"
      using exponent2_bounds(1) [OF pos] 2 by linarith
    then have "exponent2 (f64 x) \<le> exponent2 x + 1"
      using power_int_increasing [of "exponent2 x + 2" "exponent2 (f64 x)" "2::rat"]
        power_int_strict_increasing [of "exponent2 x + 1" "exponent2 x + 2" "2::rat"] by fastforce
    then have le: "exponent2 (f64 x) - 52 \<le> exponent2 x + 1" by simp
    have "f64 x = of_int 1 * 2 powi (exponent2 x + 1)" using 2 by simp
    then show ?thesis using le by (rule f64_exact_on_grid [OF pos])
  qed
qed (simp add: f64_def)

lemma f64_idem_all: "f64 (f64 x) = f64 x"
  using f64_idem [of x] by (cases "0 < x") (simp_all add: f64_def)

section \<open>Buckets over a run\<close>

definition bucket_ok :: "int \<Rightarrow> int \<Rightarrow> bucket \<Rightarrow> bool" where
  "bucket_ok burst now b \<longleftrightarrow> 0 \<le> bk_tokens b \<and> bk_tokens b \<le> of_int burst \<and> f64 (bk_tokens b) = bk_tokens b \<and>
     bk_last b = bk_lastSeen b \<and> bk_lastSeen b \<le> now"

definition buckets_ok :: "int \<Rightarrow> int \<Rightarrow> buckets \<Rightarrow> bool" where
  "buckets_ok burst now bs \<longleftrightarrow> distinct (map fst bs) \<and> (\<forall>(i, b) \<in> set bs. bucket_ok burst now b)"

lemma map_of_filter_distinct:
  "distinct (map fst bs) \<Longrightarrow> map_of (filter (\<lambda>(i, b). P i b) bs) i =
    (case map_of bs i of Some b \<Rightarrow> if P i b then Some b else None | None \<Rightarrow> None)"
proof (induction bs)
  case (Cons p bs)
  obtain j b where p: "p = (j, b)" by (cases p)
  have "map_of (filter (\<lambda>(i, b). P i b) bs) j = None" if "j \<notin> fst ` set bs" for j
    using that by (induction bs) auto
  then show ?case using Cons p by (auto split: option.split)
qed simp

lemma map_of_evict:
  "distinct (map fst bs) \<Longrightarrow> map_of (evict kid now bs) i =
    (case map_of bs i of Some b \<Rightarrow> if i = kid \<or> \<not> (now - bk_lastSeen b > idle_eviction) then Some b else None
     | None \<Rightarrow> None)"
  unfolding evict_def by (rule map_of_filter_distinct)

lemma map_of_put_bucket: "map_of (put_bucket kid b bs) i = (if i = kid then Some b else map_of bs i)"
proof (cases "i = kid")
  case False
  have "map_of (filter (\<lambda>(i, _). i \<noteq> kid) bs) i = map_of bs i" using False by (induction bs) auto
  then show ?thesis using False by (simp add: put_bucket_def)
qed (simp add: put_bucket_def)

lemma put_bucket_distinct: "distinct (map fst bs) \<Longrightarrow> distinct (map fst (put_bucket kid b bs))"
  by (auto simp: put_bucket_def distinct_map_filter intro: inj_on_filter_key_eq)

lemma refill_ok:
  assumes "0 \<le> burst" "burst < 2 ^ 53" "bucket_ok burst now0 b" "now0 \<le> now"
  shows "bucket_ok burst now (refill rps burst now b)" "bk_lastSeen (refill rps burst now b) = now"
    "bk_lastSeen b = now \<Longrightarrow> bk_tokens (refill rps burst now b) = bk_tokens b"
proof -
  have i: "f64 (of_int burst) = of_int burst" "int64_to_f64 burst = of_int burst"
    using int64_to_f64_exact [OF assms(1,2)] by (simp_all add: int64_to_f64_def)
  show "bucket_ok burst now (refill rps burst now b)" using assms i f64_nonneg
    by (auto simp: bucket_ok_def refill_def Let_def f64_idem_all min_def)
  show "bk_lastSeen (refill rps burst now b) = now" by (simp add: refill_def Let_def)
  show "bk_lastSeen b = now \<Longrightarrow> bk_tokens (refill rps burst now b) = bk_tokens b"
    using assms(3) by (auto simp: refill_def Let_def bucket_ok_def)
qed

lemma fresh_ok: "0 \<le> burst \<Longrightarrow> burst < 2 ^ 53 \<Longrightarrow> bucket_ok burst now (fresh_bucket burst now)"
  using int64_to_f64_exact [of burst] by (simp add: bucket_ok_def fresh_bucket_def int64_to_f64_def)

lemma take_token_ok:
  assumes "bucket_ok burst now b" "burst < 2 ^ 53" "take_token b = (ok, b1)"
  shows "bucket_ok burst now b1" "bk_lastSeen b1 = bk_lastSeen b"
    "ok \<Longrightarrow> bk_tokens b1 = bk_tokens b - 1 \<and> 1 \<le> bk_tokens b" "\<not> ok \<Longrightarrow> b1 = b"
proof -
  have "(of_int burst :: rat) < of_int (2 ^ 53)" using assms(2) of_int_less_iff by blast
  then have "bk_tokens b < 2 ^ 53" using assms(1) by (simp add: bucket_ok_def)
  then have m: "1 \<le> bk_tokens b \<Longrightarrow> f64 (bk_tokens b - 1) = bk_tokens b - 1"
    using assms(1) by (intro f64_minus_one) (simp_all add: bucket_ok_def)
  show "bucket_ok burst now b1" using assms m by (auto simp: bucket_ok_def take_token_def split: if_splits)
  show "bk_lastSeen b1 = bk_lastSeen b" "ok \<Longrightarrow> bk_tokens b1 = bk_tokens b - 1 \<and> 1 \<le> bk_tokens b" "\<not> ok \<Longrightarrow> b1 = b"
    using assms(3) m by (auto simp: take_token_def split: if_splits)
qed

lemma key_step_ok:
  assumes "0 \<le> burst" "burst < 2 ^ 53" "now0 \<le> now" "\<And>b. bo = Some b \<Longrightarrow> bucket_ok burst now0 b"
    "bucket_step rps burst now bo = (ok, b1)"
  shows "bucket_ok burst now b1" "bk_lastSeen b1 = now"
proof -
  let ?b = "case bo of None \<Rightarrow> fresh_bucket burst now | Some b \<Rightarrow> refill rps burst now b"
  have b: "bucket_ok burst now ?b" "bk_lastSeen ?b = now"
    using assms fresh_ok refill_ok by (auto simp: fresh_bucket_def split: option.split)
  have t: "take_token ?b = (ok, b1)" using assms(5) by (simp add: bucket_step_def)
  show "bucket_ok burst now b1" "bk_lastSeen b1 = now"
    using take_token_ok(1,2) [OF b(1) assms(2) t] b(2) by simp_all
qed

lemma evict_ok: "buckets_ok burst now bs \<Longrightarrow> buckets_ok burst now (evict kid u bs)"
  by (auto simp: buckets_ok_def evict_def distinct_map_filter)

lemma allow_ok:
  assumes "0 \<le> burst" "burst < 2 ^ 53" "now0 \<le> now" "buckets_ok burst now0 bs"
    "allow kid rps burst now bs = (ok, bs1)"
  shows "buckets_ok burst now bs1"
proof -
  let ?e = "evict kid now bs"
  obtain b where k: "bucket_step rps burst now (map_of ?e kid) = (ok, b)" and bs1: "bs1 = put_bucket kid b ?e"
    using assms(5) by (auto simp: allow_def Let_def split: prod.splits)
  have e: "buckets_ok burst now0 ?e" using evict_ok [OF assms(4)] .
  then have "bucket_ok burst now b"
    by (intro key_step_ok(1) [OF assms(1-3) _ k]) (auto simp: buckets_ok_def dest: map_of_SomeD)
  moreover have "bucket_ok burst now x" if "bucket_ok burst now0 x" for x
    using that assms(3) by (simp add: bucket_ok_def)
  ultimately show ?thesis using e put_bucket_distinct
    by (auto simp: bs1 buckets_ok_def put_bucket_def distinct_map_filter)
qed

text \<open>Requests in order, each of a key at an instant, and whether each was admitted.\<close>

fun run_requests ::
  "(string \<Rightarrow> int \<Rightarrow> buckets \<Rightarrow> bool \<times> buckets) \<Rightarrow> (string \<times> int) list \<Rightarrow> buckets \<Rightarrow> bool list" where
  "run_requests f [] bs = []"
| "run_requests f ((kid, now) # rest) bs =
     (case f kid now bs of (ok, bs1) \<Rightarrow> ok # run_requests f rest bs1)"

definition limiter :: "rat \<Rightarrow> int \<Rightarrow> string \<Rightarrow> int \<Rightarrow> buckets \<Rightarrow> bool \<times> buckets" where
  "limiter rps burst kid now bs = allow kid rps burst now bs"

text \<open>The reference: buckets are kept for ever.\<close>

definition keep_all :: "rat \<Rightarrow> int \<Rightarrow> string \<Rightarrow> int \<Rightarrow> buckets \<Rightarrow> bool \<times> buckets" where
  "keep_all rps burst kid now bs =
     (case bucket_step rps burst now (map_of bs kid) of (ok, b) \<Rightarrow> (ok, put_bucket kid b bs))"

lemma full_refill:
  assumes b: "bucket_ok burst now0 b" and idle: "now - bk_lastSeen b > idle_eviction"
    and p: "0 \<le> burst" "burst < 2 ^ 53" "of_int burst \<le> 3600 * rps"
  shows "refill rps burst now b = fresh_bucket burst now"
proof -
  have r: "0 \<le> rps" using p(1,3) by (simp add: zero_le_mult_iff order_trans [of 0 "of_int burst"])
  have l: "bk_last b = bk_lastSeen b" using b by (simp add: bucket_ok_def)
  have "(of_int 3600 :: rat) \<le> seconds (now - bk_last b)"
    using idle by (intro seconds_ge) (simp_all add: idle_eviction_def l)
  then have "3600 * rps \<le> seconds (now - bk_last b) * rps" using r by (intro mult_right_mono) simp_all
  then have "of_int burst \<le> f64 (seconds (now - bk_last b) * rps)" using p by (intro f64_ge_int) auto
  then have "of_int burst \<le> bk_tokens b + f64 (seconds (now - bk_last b) * rps)"
    using b by (simp add: bucket_ok_def)
  then have "of_int burst \<le> f64 (bk_tokens b + f64 (seconds (now - bk_last b) * rps))"
    using p by (intro f64_ge_int) auto
  moreover have "now > bk_last b" using idle by (simp add: l idle_eviction_def nanos_def)
  ultimately show ?thesis
    using int64_to_f64_exact [OF p(1,2)] by (simp add: refill_def fresh_bucket_def Let_def min_def)
qed

text \<open>What the lazy eviction leaves of the reference's buckets.\<close>

definition evicted_view :: "int \<Rightarrow> buckets \<Rightarrow> buckets \<Rightarrow> bool" where
  "evicted_view now bs ref \<longleftrightarrow>
     (\<forall>i. map_of bs i = map_of ref i \<or>
          map_of bs i = None \<and> (\<exists>b. map_of ref i = Some b \<and> now - bk_lastSeen b > idle_eviction))"

lemma view_step:
  assumes p: "0 \<le> burst" "burst < 2 ^ 53" "of_int burst \<le> 3600 * rps"
    and inv: "buckets_ok burst now0 bs" "buckets_ok burst now0 ref" "evicted_view now0 bs ref" "now0 \<le> now"
    and a: "allow kid rps burst now bs = (ok, bs1)" and r: "keep_all rps burst kid now ref = (ok', ref1)"
  shows "ok = ok' \<and> evicted_view now bs1 ref1 \<and> buckets_ok burst now ref1"
proof -
  let ?e = "evict kid now bs"
  have d: "distinct (map fst bs)" using inv(1) by (simp add: buckets_ok_def)
  have e: "map_of ?e kid = map_of bs kid" by (simp add: map_of_evict [OF d] split: option.split)
  have same: "bucket_step rps burst now (map_of bs kid) = bucket_step rps burst now (map_of ref kid)"
  proof (cases "map_of bs kid = map_of ref kid")
    case False
    then obtain b where b: "map_of bs kid = None" "map_of ref kid = Some b" "now0 - bk_lastSeen b > idle_eviction"
      using inv(3) by (auto simp: evicted_view_def)
    then have "bucket_ok burst now0 b" using inv(2) by (auto simp: buckets_ok_def dest: map_of_SomeD)
    then have "refill rps burst now b = fresh_bucket burst now"
      using b(3) inv(4) by (intro full_refill [OF _ _ p]) auto
    then show ?thesis using b by (simp add: bucket_step_def)
  qed simp
  obtain b where k: "bucket_step rps burst now (map_of ref kid) = (ok', b)" "ref1 = put_bucket kid b ref"
    using r by (auto simp: keep_all_def split: prod.splits)
  then have ok: "ok = ok'" "bs1 = put_bucket kid b ?e"
    using a same e by (auto simp: allow_def Let_def)
  have "map_of bs1 i = map_of ref1 i \<or>
      map_of bs1 i = None \<and> (\<exists>b. map_of ref1 i = Some b \<and> now - bk_lastSeen b > idle_eviction)" for i
  proof (cases "i = kid")
    case False
    have v: "map_of bs i = map_of ref i \<or>
        map_of bs i = None \<and> (\<exists>b. map_of ref i = Some b \<and> now0 - bk_lastSeen b > idle_eviction)"
      using inv(3) by (simp add: evicted_view_def)
    show ?thesis using v inv(4) False unfolding ok(2) k(2) map_of_put_bucket map_of_evict [OF d]
      by (auto split: option.split)
  qed (simp add: ok k map_of_put_bucket)
  moreover have "buckets_ok burst now ref1"
  proof -
    have "bucket_ok burst now b"
      using inv(2) by (intro key_step_ok(1) [OF p(1,2) inv(4) _ k(1)]) (auto simp: buckets_ok_def dest: map_of_SomeD)
    moreover have "bucket_ok burst now x" if "bucket_ok burst now0 x" for x
      using that inv(4) by (simp add: bucket_ok_def)
    ultimately show ?thesis using inv(2) put_bucket_distinct
      by (auto simp: k(2) buckets_ok_def put_bucket_def distinct_map_filter)
  qed
  ultimately show ?thesis using ok(1) by (simp add: evicted_view_def)
qed

lemma runs_agree:
  assumes p: "0 \<le> burst" "burst < 2 ^ 53" "of_int burst \<le> 3600 * rps"
  shows "sorted (map snd reqs) \<Longrightarrow> \<forall>(i, t) \<in> set reqs. now0 \<le> t \<Longrightarrow> buckets_ok burst now0 bs \<Longrightarrow>
    buckets_ok burst now0 ref \<Longrightarrow> evicted_view now0 bs ref \<Longrightarrow>
    run_requests (limiter rps burst) reqs bs = run_requests (keep_all rps burst) reqs ref"
proof (induction reqs arbitrary: now0 bs ref)
  case (Cons q reqs)
  obtain kid now where q: "q = (kid, now)" by (cases q)
  obtain ok bs1 where a: "allow kid rps burst now bs = (ok, bs1)" by (cases "allow kid rps burst now bs")
  obtain ok' ref1 where r: "keep_all rps burst kid now ref = (ok', ref1)" by (cases "keep_all rps burst kid now ref")
  have le: "now0 \<le> now" using Cons.prems(2) q by simp
  have s: "ok = ok'" "evicted_view now bs1 ref1" "buckets_ok burst now ref1"
    using view_step [OF p Cons.prems(3-5) le a r] by simp_all
  have "sorted (map snd reqs)" "\<forall>(i, t) \<in> set reqs. now \<le> t" using Cons.prems(1) q by auto
  then have "run_requests (limiter rps burst) reqs bs1 = run_requests (keep_all rps burst) reqs ref1"
    using Cons.IH allow_ok [OF p(1,2) le Cons.prems(3) a] s by blast
  moreover have "limiter rps burst kid now bs = (ok, bs1)" unfolding limiter_def by (rule a)
  ultimately show ?case using r s by (simp add: q)
qed simp

text \<open>C37. With a burst of at most an hour's refill, as the defaults are, dropping a bucket that
  was idle for an hour cannot be observed: the limiter admits exactly the requests it would
  admit if it never forgot a key, however the requests of the keys interleave.  (A slower
  limit is outside: there a forgotten key finds its burst again before it is refilled.)\<close>

theorem eviction_unobservable:
  assumes "sorted (map snd reqs)" "0 \<le> burst" "burst < 2 ^ 53" "of_int burst \<le> 3600 * rps"
  shows "run_requests (limiter rps burst) reqs [] = run_requests (keep_all rps burst) reqs []"
proof (cases reqs)
  case (Cons q rest)
  have "\<forall>(i, t) \<in> set reqs. snd q \<le> t" using assms(1) Cons by auto
  then show ?thesis
    using runs_agree [OF assms(2-4) assms(1), of "snd q" "[]" "[]"] by (simp add: buckets_ok_def evicted_view_def)
qed simp

definition admitted_at :: "string \<Rightarrow> int \<Rightarrow> (string \<times> int) list \<Rightarrow> bool list \<Rightarrow> nat" where
  "admitted_at kid t reqs oks = length (filter (\<lambda>(r, ok). r = (kid, t) \<and> ok) (zip reqs oks))"

definition allowance :: "int \<Rightarrow> string \<Rightarrow> int \<Rightarrow> buckets \<Rightarrow> int" where
  "allowance burst kid t bs = (case map_of bs kid of
     Some b \<Rightarrow> if bk_lastSeen b = t then \<lfloor>bk_tokens b\<rfloor> else burst | None \<Rightarrow> burst)"

lemma allowance_nonneg:
  "0 \<le> burst \<Longrightarrow> buckets_ok burst now bs \<Longrightarrow> 0 \<le> allowance burst kid t bs"
  by (auto simp: allowance_def buckets_ok_def bucket_ok_def split: option.split dest!: map_of_SomeD)

lemma admitted_later: "\<forall>(i, u) \<in> set reqs. t < u \<Longrightarrow> admitted_at kid t reqs oks = 0"
  by (auto simp: admitted_at_def filter_empty_conv dest!: set_zip_leftD)

lemma allowance_step:
  assumes p: "0 \<le> burst" "burst < 2 ^ 53" and inv: "buckets_ok burst now0 bs" "now0 \<le> u" "u \<le> t"
    and a: "allow k rps burst u bs = (ok, bs1)"
  shows "allowance burst kid t bs1 + (if k = kid \<and> u = t \<and> ok then 1 else 0) \<le> allowance burst kid t bs"
proof -
  have d: "distinct (map fst bs)" using inv(1) by (simp add: buckets_ok_def)
  let ?e = "evict k u bs"
  have e: "map_of ?e k = map_of bs k" by (simp add: map_of_evict [OF d] split: option.split)
  obtain b where ks: "bucket_step rps burst u (map_of bs k) = (ok, b)" and bs1: "bs1 = put_bucket k b ?e"
    using a by (auto simp: allow_def Let_def e split: prod.splits)
  have old: "bucket_ok burst now0 x" if "map_of bs i = Some x" for i x
    using that inv(1) by (auto simp: buckets_ok_def dest: map_of_SomeD)
  show ?thesis
  proof (cases "k = kid")
    case False
    show ?thesis
    proof (cases "map_of bs kid")
      case None
      then show ?thesis using False by (simp add: allowance_def bs1 map_of_put_bucket map_of_evict [OF d])
    next
      case (Some x)
      have "bk_lastSeen x \<noteq> t" if "u - bk_lastSeen x > idle_eviction"
        using that inv(3) by (auto simp: idle_eviction_def nanos_def)
      then show ?thesis using False Some
        by (auto simp: allowance_def bs1 map_of_put_bucket map_of_evict [OF d])
    qed
  next
    case True
    let ?r = "case map_of bs k of None \<Rightarrow> fresh_bucket burst u | Some b \<Rightarrow> refill rps burst u b"
    have r: "bucket_ok burst u ?r" "bk_lastSeen ?r = u"
      using old refill_ok(1,2) [OF p _ inv(2)] fresh_ok [OF p] by (auto simp: fresh_bucket_def split: option.split)
    have t: "take_token ?r = (ok, b)" using ks by (simp add: bucket_step_def)
    have seen: "bk_lastSeen b = u" using take_token_ok(2) [OF r(1) p(2) t] r(2) by simp
    show ?thesis
    proof (cases "u = t")
      case False
      then have "allowance burst kid t bs = burst"
        using old [of kid] inv by (auto simp: allowance_def bucket_ok_def split: option.split)
      then show ?thesis using False True seen by (simp add: allowance_def bs1 map_of_put_bucket)
    next
      case now: True
      have "\<lfloor>bk_tokens ?r\<rfloor> \<le> allowance burst kid t bs"
      proof (cases "map_of bs kid")
        case None
        then show ?thesis using True int64_to_f64_exact [OF p] by (simp add: allowance_def fresh_bucket_def)
      next
        case (Some x)
        show ?thesis
        proof (cases "bk_lastSeen x = t")
          case True
          then show ?thesis using \<open>k = kid\<close> Some now refill_ok(3) [OF p old [OF Some] inv(2)]
            by (simp add: allowance_def)
        next
          case False
          have "\<lfloor>bk_tokens ?r\<rfloor> \<le> burst" using r(1) floor_mono [of "bk_tokens ?r" "of_int burst"]
            by (simp add: bucket_ok_def)
          then show ?thesis using Some False by (simp add: allowance_def)
        qed
      qed
      moreover have "\<lfloor>bk_tokens b\<rfloor> + (if ok then 1 else 0) \<le> \<lfloor>bk_tokens ?r\<rfloor>"
        using take_token_ok(3,4) [OF r(1) p(2) t] by (cases ok) simp_all
      ultimately show ?thesis using True now seen by (simp add: allowance_def bs1 map_of_put_bucket)
    qed
  qed
qed

lemma admitted_within_allowance:
  assumes p: "0 \<le> burst" "burst < 2 ^ 53"
  shows "sorted (map snd reqs) \<Longrightarrow> \<forall>(i, u) \<in> set reqs. now0 \<le> u \<Longrightarrow> buckets_ok burst now0 bs \<Longrightarrow>
    int (admitted_at kid t reqs (run_requests (limiter rps burst) reqs bs)) \<le> allowance burst kid t bs"
proof (induction reqs arbitrary: now0 bs)
  case Nil
  then show ?case using allowance_nonneg [OF p(1)] by (simp add: admitted_at_def)
next
  case (Cons q reqs)
  obtain k u where q: "q = (k, u)" by (cases q)
  obtain ok bs1 where a: "allow k rps burst u bs = (ok, bs1)" by (cases "allow k rps burst u bs")
  have le: "now0 \<le> u" using Cons.prems(2) q by simp
  have later: "sorted (map snd reqs)" "\<forall>(i, w) \<in> set reqs. u \<le> w" using Cons.prems(1) q by auto
  have ih: "int (admitted_at kid t reqs (run_requests (limiter rps burst) reqs bs1)) \<le> allowance burst kid t bs1"
    using Cons.IH [OF later] allow_ok [OF p le Cons.prems(3) a] by blast
  have la: "limiter rps burst k u bs = (ok, bs1)" unfolding limiter_def by (rule a)
  have head: "admitted_at kid t (q # reqs) (run_requests (limiter rps burst) (q # reqs) bs) =
      (if k = kid \<and> u = t \<and> ok then 1 else 0) + admitted_at kid t reqs (run_requests (limiter rps burst) reqs bs1)"
    using la by (simp add: q admitted_at_def)
  show ?case
  proof (cases "u \<le> t")
    case True
    have "allowance burst kid t bs1 + (if k = kid \<and> u = t \<and> ok then 1 else 0) \<le> allowance burst kid t bs"
      by (rule allowance_step [OF p Cons.prems(3) le True a])
    then show ?thesis using ih unfolding head by (cases "k = kid \<and> u = t \<and> ok") auto
  next
    case False
    then have "\<forall>(i, w) \<in> set reqs. t < w" using later(2) by auto
    then show ?thesis using False admitted_later allowance_nonneg [OF p(1) Cons.prems(3)] by (simp add: head)
  qed
qed

text \<open>The burst bounds an instant: however requests of all keys arrive, in time order, at
  most \<open>burst\<close> requests of one key are admitted at one instant, the rounding of
  \<open>float64\<close> included.\<close>

theorem burst_at_an_instant:
  assumes "sorted (map snd reqs)" "0 \<le> burst" "burst < 2 ^ 53"
  shows "int (admitted_at kid t reqs (run_requests (limiter rps burst) reqs [])) \<le> burst"
proof (cases reqs)
  case (Cons q rest)
  have "\<forall>(i, u) \<in> set reqs. snd q \<le> u" using assms(1) Cons by auto
  then show ?thesis using admitted_within_allowance [OF assms(2,3) assms(1), of "snd q" "[]" kid t rps]
    by (simp add: buckets_ok_def allowance_def)
qed (use assms in \<open>simp add: admitted_at_def\<close>)

definition demo_requests :: "(string \<times> int) list" where
  "demo_requests = [(''k'', 0), (''k'', 0), (''j'', 0), (''k'', 0)]"

text \<open>The key \<open>k\<close> spends its burst, is forgotten when \<open>j\<close> comes after more than an hour, and comes back.\<close>

definition idle_requests :: "(string \<times> int) list" where
  "idle_requests = [(''k'', 0), (''k'', 0), (''j'', 4000 * nanos), (''k'', 4000 * nanos)]"

lemma idle_forgotten: "map_of (snd (allow ''j'' 5 2 (4000 * nanos) (snd (allow ''k'' 5 2 0 [])))) ''k'' = None"
  by (simp add: allow_def evict_def bucket_step_def take_token_def put_bucket_def fresh_bucket_def idle_eviction_def
      nanos_def Let_def split: prod.split)

theorem eviction_unobservable_witness:
  "run_requests (limiter 5 2) idle_requests [] = run_requests (keep_all 5 2) idle_requests [] \<and>
   map_of (snd (allow ''j'' 5 2 (4000 * nanos) (snd (allow ''k'' 5 2 0 [])))) ''k'' = None"
  using eviction_unobservable [of idle_requests 2 5] idle_forgotten by (simp add: idle_requests_def nanos_def)

theorem burst_at_an_instant_witness:
  "int (admitted_at ''k'' 0 demo_requests (run_requests (limiter 5 2) demo_requests [])) \<le> 2"
  by (rule burst_at_an_instant) (simp_all add: demo_requests_def)

end
