(* ===== verification/Webhook.thy ===== *)
theory Webhook
  imports Http Instants
begin

text \<open>
  \<open>core/webhook/webhook.go\<close>: the delivery of a job's end to the caller's address.  Each
  accepted \<open>Fire\<close> is a goroutine; the dispatcher is the set of them with the counters,
  the slots and the wait group they share, and runs as a step relation in which any
  goroutine may take the next step.  The keyed hash is a parameter, and so is the
  offset of the location a time carries.
\<close>

section \<open>Configuration and payload\<close>

record webhook_config =
  wc_SigningKey :: string
  wc_Timeout :: int
  wc_MaxRetry :: int
  wc_InitialBackoff :: int
  wc_Concurrency :: int

text \<open>A channel of negative capacity panics.\<close>

definition webhook_defaults :: "webhook_config \<Rightarrow> webhook_config" where
  "webhook_defaults c = \<lparr> wc_SigningKey = wc_SigningKey c,
     wc_Timeout = (if wc_Timeout c = 0 then 10 * nanos else wc_Timeout c),
     wc_MaxRetry = (if wc_MaxRetry c = 0 then 4 else wc_MaxRetry c),
     wc_InitialBackoff = (if wc_InitialBackoff c = 0 then nanos else wc_InitialBackoff c),
     wc_Concurrency = (if wc_Concurrency c = 0 then 16 else wc_Concurrency c) \<rparr>"

record payload =
  pl_Event :: string
  pl_JobID :: string
  pl_APIKeyID :: string
  pl_Model :: string
  pl_Status :: job_status
  pl_ResultURL :: string
  pl_Refunded :: bool
  pl_Cost :: int
  pl_LatencyMS :: int
  pl_FinishedAt :: gotime
  pl_CreatedAt :: gotime
  pl_Error :: string

definition payloadFromJob :: "job \<Rightarrow> payload" where
  "payloadFromJob j = \<lparr>
     pl_Event = (case j_Status j of JobFailed \<Rightarrow> ''job.failed'' | JobTimeout \<Rightarrow> ''job.timeout''
       | JobRefunded \<Rightarrow> ''job.refunded'' | _ \<Rightarrow> ''job.completed''),
     pl_JobID = j_ID j, pl_APIKeyID = j_APIKeyID j, pl_Model = j_ModelAlias j, pl_Status = j_Status j,
     pl_ResultURL = j_ResultURL j, pl_Refunded = j_Refunded j, pl_Cost = j_UpstreamCost j,
     pl_LatencyMS = j_LatencyMS j, pl_FinishedAt = j_FinishedAt j, pl_CreatedAt = j_RequestTS j,
     pl_Error = j_ErrorDetail j \<rparr>"

text \<open>\<open>time.Time.MarshalJSON\<close>: nanoseconds without trailing zeros, and an error for years
  that RFC 3339 cannot write.\<close>

definition fmt_fraction :: "int \<Rightarrow> string" where
  "fmt_fraction ns = (let ds = strip_zeros (pad 9 ns) in if ds = '''' then '''' else CHR ''.'' # ds)"

definition fmt_offset :: "int \<Rightarrow> string" where
  "fmt_offset off = (if off = 0 then ''Z''
     else (if off < 0 then ''-'' else ''+'') @ pad 2 (\<bar>off\<bar> div 3600) @ '':'' @ pad 2 (\<bar>off\<bar> div 60 mod 60))"

definition marshal_time :: "int \<Rightarrow> gotime \<Rightarrow> string option" where
  "marshal_time off t =
     (let u = (case t of None \<Rightarrow> zero_instant | Some i \<Rightarrow> i); l = u + off * nanos; d = l mod day_ns
      in case civil (day_of l) of (y, m, dd) \<Rightarrow>
        if y < 0 \<or> 9999 < y \<or> 86400 \<le> \<bar>off\<bar> then None
        else Some ([CHR 0x22] @ pad 4 y @ ''-'' @ pad 2 m @ ''-'' @ pad 2 dd @ ''T'' @
          pad 2 (d div (3600 * nanos)) @ '':'' @ pad 2 (d div (60 * nanos) mod 60) @ '':'' @
          pad 2 (d div nanos mod 60) @ fmt_fraction (d mod nanos) @ fmt_offset off @ [CHR 0x22]))"

text \<open>A struct is written in the order of its fields, empty \<open>omitempty\<close> fields left out.\<close>

definition marshal_fields :: "(string \<times> bool \<times> string) list \<Rightarrow> string" where
  "marshal_fields fs = ''{'' @ commas (map (\<lambda>(k, _, t). quote k @ '':'' @ t) (filter (\<lambda>(_, keep, _). keep) fs)) @ ''}''"

definition marshal_payload :: "int \<Rightarrow> int \<Rightarrow> payload \<Rightarrow> string option" where
  "marshal_payload offF offC p =
     (case (marshal_time offF (pl_FinishedAt p), marshal_time offC (pl_CreatedAt p)) of
        (Some fin, Some cre) \<Rightarrow> Some (marshal_fields [
          (''event'', True, quote (pl_Event p)), (''job_id'', True, quote (pl_JobID p)),
          (''api_key_id'', pl_APIKeyID p \<noteq> '''', quote (pl_APIKeyID p)),
          (''model'', True, quote (pl_Model p)), (''status'', True, quote (job_status_text (pl_Status p))),
          (''result_url'', pl_ResultURL p \<noteq> '''', quote (pl_ResultURL p)),
          (''refunded'', pl_Refunded p, ''true''), (''cost'', pl_Cost p \<noteq> 0, itoa (pl_Cost p)),
          (''latency_ms'', pl_LatencyMS p \<noteq> 0, itoa (pl_LatencyMS p)),
          (''finished_at'', True, fin), (''created_at'', True, cre),
          (''error'', pl_Error p \<noteq> '''', quote (pl_Error p))])
      | _ \<Rightarrow> None)"

section \<open>One attempt and a sequential delivery\<close>

definition hexdump :: "string \<Rightarrow> string" where
  "hexdump s = concat (map (\<lambda>c. [hex_char (byte c div 16), hex_char (byte c)]) s)"

definition sign :: "(string \<Rightarrow> string \<Rightarrow> string) \<Rightarrow> string \<Rightarrow> string \<Rightarrow> string" where
  "sign hmac body key = hexdump (hmac key body)"

definition post_request ::
  "env \<Rightarrow> (string \<Rightarrow> string \<Rightarrow> string) \<Rightarrow> webhook_config \<Rightarrow> string \<Rightarrow> string \<Rightarrow> (gerror, http_request) result" where
  "post_request v hmac c url body = map_sum id (\<lambda>rq.
      set_headers ([(''Content-Type'', ''application/json''), (''User-Agent'', ''higgsgo-webhook/1'')] @
        (if wc_SigningKey c = '''' then []
         else [(''X-Higgsgo-Signature'', ''sha256='' @ sign hmac body (wc_SigningKey c))])) rq)
      (NewRequest v ''POST'' url body)"

text \<open>What \<open>postOnce\<close> answers, given what the network answers to its request.\<close>

definition postOnce ::
  "env \<Rightarrow> (string \<Rightarrow> string \<Rightarrow> string) \<Rightarrow> webhook_config \<Rightarrow> string \<Rightarrow> string
     \<Rightarrow> (http_request \<Rightarrow> (gerror, http_response) result) \<Rightarrow> (gerror, unit) result" where
  "postOnce v hmac c url body answer = (case post_request v hmac c url body of
     Inl e \<Rightarrow> Err e
   | Inr rq \<Rightarrow> (case answer rq of
       Inl e \<Rightarrow> Err e
     | Inr r \<Rightarrow> if 200 \<le> hr_Status r \<and> hr_Status r < 300 then Ok ()
               else Err (Plain (''webhook HTTP '' @ itoa (hr_Status r)))))"

text \<open>The loop of \<open>deliver\<close>: \<open>post n\<close> is what attempt \<open>n\<close> answers and \<open>abort n\<close> whether the
  shutdown cuts the wait after it.  The waits it went through are answered too.\<close>

function deliver_loop :: "int \<Rightarrow> (int \<Rightarrow> (gerror, unit) result) \<Rightarrow> (int \<Rightarrow> bool) \<Rightarrow> int \<Rightarrow> int \<Rightarrow> bool \<times> int list" where
  "deliver_loop maxRetry post abort n backoff =
     (if maxRetry < n then (False, [])
      else if is_ok (post n) then (True, [])
      else if n = maxRetry then (False, [])
      else if abort n then (False, [])
      else case deliver_loop maxRetry post abort (n + 1) (wrap64 (backoff * 5)) of
        (ok, ws) \<Rightarrow> (ok, backoff # ws))"
  by pat_completeness auto
termination by (relation "measure (\<lambda>(m, _, _, n, _). nat (m + 1 - n))") auto

declare deliver_loop.simps [simp del]

definition deliver ::
  "webhook_config \<Rightarrow> string option \<Rightarrow> (int \<Rightarrow> (gerror, unit) result) \<Rightarrow> (int \<Rightarrow> bool) \<Rightarrow> bool \<times> int list" where
  "deliver c body post abort = (case body of
     None \<Rightarrow> (False, [])
   | Some _ \<Rightarrow> deliver_loop (wc_MaxRetry c) post abort 1 (wc_InitialBackoff c))"

section \<open>The dispatcher as a step relation\<close>

text \<open>Where a goroutine of \<open>Fire\<close> is: past the check of \<open>accepting\<close>, counted, in the
  gauge, spawned and waiting for a slot, at an attempt with the wait that would
  follow it, in that wait, back from \<open>deliver\<close>, and then through the tally and the
  deferred calls in their order: the slot, the gauge, the wait group.\<close>

datatype phase =
    Checked | Counted | Gauged | Queued | Trying int int | Waiting int int
  | Returned bool | Tallied bool | Unslotted bool | Ungauged bool | Finished bool

record delivery =
  dl_URL :: string
  dl_Body :: "string option"
  dl_Answers :: "(gerror, unit) result list"
  dl_Phase :: phase

record dispatcher =
  ds_Enqueued :: int
  ds_Delivered :: int
  ds_Failed :: int
  ds_Dropped :: int
  ds_InFlight :: int
  ds_Slots :: int
  ds_WG :: int
  ds_Accepting :: bool
  ds_Closed :: bool
  ds_Tasks :: "delivery list"

definition New_dispatcher :: dispatcher where
  "New_dispatcher = \<lparr> ds_Enqueued = 0, ds_Delivered = 0, ds_Failed = 0, ds_Dropped = 0, ds_InFlight = 0,
     ds_Slots = 0, ds_WG = 0, ds_Accepting = True, ds_Closed = False, ds_Tasks = [] \<rparr>"

definition phase_of :: "dispatcher \<Rightarrow> nat \<Rightarrow> phase" where "phase_of d i = dl_Phase (ds_Tasks d ! i)"

definition go :: "nat \<Rightarrow> phase \<Rightarrow> dispatcher \<Rightarrow> dispatcher" where
  "go i ph d = d\<lparr> ds_Tasks := (ds_Tasks d)[i := (ds_Tasks d ! i)\<lparr> dl_Phase := ph \<rparr>] \<rparr>"

definition answered :: "nat \<Rightarrow> (gerror, unit) result \<Rightarrow> dispatcher \<Rightarrow> dispatcher" where
  "answered i r d = d\<lparr> ds_Tasks := (ds_Tasks d)[i := (ds_Tasks d ! i)\<lparr>
     dl_Answers := dl_Answers (ds_Tasks d ! i) @ [r] \<rparr>] \<rparr>"

text \<open>The entry of \<open>deliver\<close>, and the part of its loop after an attempt.\<close>

definition enter_deliver :: "webhook_config \<Rightarrow> string option \<Rightarrow> phase" where
  "enter_deliver c body =
     (if body = None \<or> wc_MaxRetry c < 1 then Returned False else Trying 1 (wc_InitialBackoff c))"

definition after_attempt :: "webhook_config \<Rightarrow> int \<Rightarrow> int \<Rightarrow> (gerror, unit) result \<Rightarrow> phase" where
  "after_attempt c n backoff r =
     (if is_ok r then Returned True else if n = wc_MaxRetry c then Returned False else Waiting n backoff)"

text \<open>What attempts at an address may answer: only the error, when no request can be built.\<close>

definition possible_answer ::
  "env \<Rightarrow> (string \<Rightarrow> string \<Rightarrow> string) \<Rightarrow> webhook_config \<Rightarrow> delivery \<Rightarrow> (gerror, unit) result \<Rightarrow> bool" where
  "possible_answer v hmac c dl r \<longleftrightarrow> (\<exists>body answer. dl_Body dl = Some body \<and>
     r = postOnce v hmac c (dl_URL dl) body answer)"

inductive dstep ::
  "env \<Rightarrow> (string \<Rightarrow> string \<Rightarrow> string) \<Rightarrow> webhook_config \<Rightarrow> dispatcher \<Rightarrow> dispatcher \<Rightarrow> bool"
  for v hmac c where
  FireDropped: "(url :: string) \<noteq> '''' \<Longrightarrow> \<not> ds_Accepting d \<Longrightarrow> dstep v hmac c d (d\<lparr> ds_Dropped := ds_Dropped d + 1 \<rparr>)"
| FireChecked: "url \<noteq> '''' \<Longrightarrow> ds_Accepting d \<Longrightarrow>
    dstep v hmac c d (d\<lparr> ds_Tasks := ds_Tasks d @
      [\<lparr> dl_URL = url, dl_Body = marshal_payload offF offC (payloadFromJob j), dl_Answers = [], dl_Phase = Checked \<rparr>] \<rparr>)"
| FireCounted: "i < length (ds_Tasks d) \<Longrightarrow> phase_of d i = Checked \<Longrightarrow>
    dstep v hmac c d ((go i Counted d)\<lparr> ds_Enqueued := ds_Enqueued d + 1 \<rparr>)"
| FireGauged: "i < length (ds_Tasks d) \<Longrightarrow> phase_of d i = Counted \<Longrightarrow>
    dstep v hmac c d ((go i Gauged d)\<lparr> ds_InFlight := ds_InFlight d + 1 \<rparr>)"
| FireSpawned: "i < length (ds_Tasks d) \<Longrightarrow> phase_of d i = Gauged \<Longrightarrow>
    dstep v hmac c d ((go i Queued d)\<lparr> ds_WG := ds_WG d + 1 \<rparr>)"
| Acquire: "i < length (ds_Tasks d) \<Longrightarrow> phase_of d i = Queued \<Longrightarrow> ds_Slots d < wc_Concurrency c \<Longrightarrow>
    dstep v hmac c d ((go i (enter_deliver c (dl_Body (ds_Tasks d ! i))) d)\<lparr> ds_Slots := ds_Slots d + 1 \<rparr>)"
| Attempt: "i < length (ds_Tasks d) \<Longrightarrow> phase_of d i = Trying n b \<Longrightarrow> possible_answer v hmac c (ds_Tasks d ! i) r \<Longrightarrow>
    dstep v hmac c d (go i (after_attempt c n b r) (answered i r d))"
| Wake: "i < length (ds_Tasks d) \<Longrightarrow> phase_of d i = Waiting n b \<Longrightarrow>
    dstep v hmac c d (go i (Trying (n + 1) (wrap64 (b * 5))) d)"
| Abort: "i < length (ds_Tasks d) \<Longrightarrow> phase_of d i = Waiting n b \<Longrightarrow> ds_Closed d \<Longrightarrow>
    dstep v hmac c d (go i (Returned False) d)"
| TallyDelivered: "i < length (ds_Tasks d) \<Longrightarrow> phase_of d i = Returned True \<Longrightarrow>
    dstep v hmac c d ((go i (Tallied True) d)\<lparr> ds_Delivered := ds_Delivered d + 1 \<rparr>)"
| TallyFailed: "i < length (ds_Tasks d) \<Longrightarrow> phase_of d i = Returned False \<Longrightarrow>
    dstep v hmac c d ((go i (Tallied False) d)\<lparr> ds_Failed := ds_Failed d + 1 \<rparr>)"
| Release: "i < length (ds_Tasks d) \<Longrightarrow> phase_of d i = Tallied ok \<Longrightarrow>
    dstep v hmac c d ((go i (Unslotted ok) d)\<lparr> ds_Slots := ds_Slots d - 1 \<rparr>)"
| Ungauge: "i < length (ds_Tasks d) \<Longrightarrow> phase_of d i = Unslotted ok \<Longrightarrow>
    dstep v hmac c d ((go i (Ungauged ok) d)\<lparr> ds_InFlight := ds_InFlight d - 1 \<rparr>)"
| Leave: "i < length (ds_Tasks d) \<Longrightarrow> phase_of d i = Ungauged ok \<Longrightarrow>
    dstep v hmac c d ((go i (Finished ok) d)\<lparr> ds_WG := ds_WG d - 1 \<rparr>)"
| CloseBegins: "dstep v hmac c d (d\<lparr> ds_Accepting := False \<rparr>)"
| CloseExpires: "\<not> ds_Accepting d \<Longrightarrow> \<not> ds_Closed d \<Longrightarrow>
    dstep v hmac c d (d\<lparr> ds_Closed := True \<rparr>)"

text \<open>\<open>Close\<close> returns when the wait group is empty.  \<open>close(d.closed)\<close> of a second \<open>Close\<close>
  that expires panics, so the step is taken once.\<close>

definition drained :: "dispatcher \<Rightarrow> bool" where
  "drained d \<longleftrightarrow> \<not> ds_Accepting d \<and> ds_WG d = 0"

abbreviation reachable ::
  "env \<Rightarrow> (string \<Rightarrow> string \<Rightarrow> string) \<Rightarrow> webhook_config \<Rightarrow> dispatcher \<Rightarrow> bool" where
  "reachable v hmac c d \<equiv> (dstep v hmac c)\<^sup>*\<^sup>* New_dispatcher d"

section \<open>The counters\<close>

fun past_count :: "phase \<Rightarrow> bool" where
  "past_count Checked = False" | "past_count _ = True"

fun in_gauge :: "phase \<Rightarrow> bool" where
  "in_gauge Checked = False" | "in_gauge Counted = False" | "in_gauge (Ungauged _) = False"
| "in_gauge (Finished _) = False" | "in_gauge _ = True"

fun holds_slot :: "phase \<Rightarrow> bool" where
  "holds_slot (Trying _ _) = True" | "holds_slot (Waiting _ _) = True" | "holds_slot (Returned _) = True"
| "holds_slot (Tallied _) = True" | "holds_slot _ = False"

fun waited_for :: "phase \<Rightarrow> bool" where
  "waited_for Checked = False" | "waited_for Counted = False" | "waited_for Gauged = False"
| "waited_for (Finished _) = False" | "waited_for _ = True"

text \<open>The outcome once \<open>deliver\<close> is back, and once it is in the statistics.\<close>

fun outcome :: "phase \<Rightarrow> bool option" where
  "outcome (Returned b) = Some b" | "outcome (Tallied b) = Some b" | "outcome (Unslotted b) = Some b"
| "outcome (Ungauged b) = Some b" | "outcome (Finished b) = Some b" | "outcome _ = None"

fun tallied :: "bool \<Rightarrow> phase \<Rightarrow> bool" where
  "tallied b (Returned _) = False" | "tallied b ph = (outcome ph = Some b)"

definition number :: "(phase \<Rightarrow> bool) \<Rightarrow> dispatcher \<Rightarrow> int" where
  "number P d = (\<Sum>dl\<leftarrow>ds_Tasks d. of_bool (P (dl_Phase dl)))"

lemma go_simps [simp]:
  "ds_Enqueued (go i ph d) = ds_Enqueued d" "ds_Delivered (go i ph d) = ds_Delivered d"
  "ds_Failed (go i ph d) = ds_Failed d" "ds_Dropped (go i ph d) = ds_Dropped d"
  "ds_InFlight (go i ph d) = ds_InFlight d" "ds_Slots (go i ph d) = ds_Slots d"
  "ds_WG (go i ph d) = ds_WG d" "ds_Accepting (go i ph d) = ds_Accepting d"
  "ds_Closed (go i ph d) = ds_Closed d" "length (ds_Tasks (go i ph d)) = length (ds_Tasks d)"
  by (simp_all add: go_def)

lemma answered_simps [simp]:
  "ds_Enqueued (answered i r d) = ds_Enqueued d" "ds_Delivered (answered i r d) = ds_Delivered d"
  "ds_Failed (answered i r d) = ds_Failed d" "ds_Dropped (answered i r d) = ds_Dropped d"
  "ds_InFlight (answered i r d) = ds_InFlight d" "ds_Slots (answered i r d) = ds_Slots d"
  "ds_WG (answered i r d) = ds_WG d" "ds_Accepting (answered i r d) = ds_Accepting d"
  "ds_Closed (answered i r d) = ds_Closed d" "length (ds_Tasks (answered i r d)) = length (ds_Tasks d)"
  by (simp_all add: answered_def)

lemma sum_list_swap: "i < length xs \<Longrightarrow> (\<Sum>x\<leftarrow>xs[i := y]. f x) = (\<Sum>x\<leftarrow>xs. f x) + f y - (f (xs ! i) :: int)"
  by (induction xs arbitrary: i) (auto split: nat.split)

lemma number_simps [simp]:
  "i < length (ds_Tasks d) \<Longrightarrow> number P (go i ph d) = number P d + of_bool (P ph) - of_bool (P (phase_of d i))"
  "i < length (ds_Tasks d) \<Longrightarrow> number P (answered i r d) = number P d"
  "i < length (ds_Tasks d) \<Longrightarrow> phase_of (answered i r d) i = phase_of d i"
  "number P (ds_Enqueued_update f d) = number P d" "number P (ds_Delivered_update f d) = number P d"
  "number P (ds_Failed_update f d) = number P d" "number P (ds_Dropped_update f d) = number P d"
  "number P (ds_InFlight_update f d) = number P d" "number P (ds_Slots_update f d) = number P d"
  "number P (ds_WG_update f d) = number P d" "number P (ds_Accepting_update g d) = number P d"
  "number P (ds_Closed_update g d) = number P d"
  "number P (d\<lparr> ds_Tasks := ds_Tasks d @ [t] \<rparr>) = number P d + of_bool (P (dl_Phase t))"
  by (simp_all add: number_def go_def answered_def phase_of_def sum_list_swap)

definition counters_ok :: "webhook_config \<Rightarrow> dispatcher \<Rightarrow> bool" where
  "counters_ok c d \<longleftrightarrow>
     ds_Enqueued d = number past_count d \<and> ds_Delivered d = number (tallied True) d \<and>
     ds_Failed d = number (tallied False) d \<and> ds_InFlight d = number in_gauge d \<and>
     ds_Slots d = number holds_slot d \<and> ds_WG d = number waited_for d \<and>
     ds_Slots d \<le> wc_Concurrency c"

lemma enter_deliver_cases:
  "enter_deliver c b = Returned False \<or> enter_deliver c b = Trying 1 (wc_InitialBackoff c)"
  by (simp add: enter_deliver_def)

lemma after_attempt_cases:
  "after_attempt c n b r = Returned True \<or> after_attempt c n b r = Returned False \<or> after_attempt c n b r = Waiting n b"
  by (simp add: after_attempt_def)

lemma counters_step: "dstep v hmac c d d' \<Longrightarrow> counters_ok c d \<Longrightarrow> counters_ok c d'"
proof (induction rule: dstep.induct)
  case (Acquire i d)
  then show ?case using enter_deliver_cases [of c "dl_Body (ds_Tasks d ! i)"] by (auto simp: counters_ok_def)
next
  case (Attempt i d n b r)
  then show ?case using after_attempt_cases [of c n b r] by (auto simp: counters_ok_def)
qed (auto simp: counters_ok_def)

lemma counters_reachable: "reachable v hmac c d \<Longrightarrow> 0 \<le> wc_Concurrency c \<Longrightarrow> counters_ok c d"
proof (induction rule: rtranclp_induct)
  case base
  then show ?case by (simp add: counters_ok_def New_dispatcher_def number_def)
next
  case (step d d')
  then show ?case using counters_step by blast
qed

lemma number_balance:
  "number past_count d + number (\<lambda>ph. in_gauge ph \<and> (tallied True ph \<or> tallied False ph)) d =
   number (tallied True) d + number (tallied False) d + number in_gauge d + number (\<lambda>ph. ph = Counted) d"
proof -
  have "of_bool (past_count ph) + of_bool (in_gauge ph \<and> (tallied True ph \<or> tallied False ph)) =
    of_bool (tallied True ph) + of_bool (tallied False ph) + of_bool (in_gauge ph) + (of_bool (ph = Counted) :: int)" for ph
    by (cases ph) auto
  then have "(\<Sum>dl\<leftarrow>ds. of_bool (past_count (dl_Phase dl)) +
        of_bool (in_gauge (dl_Phase dl) \<and> (tallied True (dl_Phase dl) \<or> tallied False (dl_Phase dl)))) =
      (\<Sum>dl\<leftarrow>ds. of_bool (tallied True (dl_Phase dl)) + of_bool (tallied False (dl_Phase dl)) +
        of_bool (in_gauge (dl_Phase dl)) + (of_bool (dl_Phase dl = Counted) :: int))" for ds :: "delivery list"
    by presburger
  then show ?thesis by (simp add: number_def sum_list_addf)
qed

lemma number_nonneg: "0 \<le> number P d"
  unfolding number_def by (rule sum_list_nonneg) auto

lemma number_zero: "number P d = 0 \<longleftrightarrow> (\<forall>dl \<in> set (ds_Tasks d). \<not> P (dl_Phase dl))"
proof -
  have "(\<Sum>dl\<leftarrow>ds. of_bool (P (dl_Phase dl))) = (0 :: int) \<longleftrightarrow> (\<forall>dl \<in> set ds. \<not> P (dl_Phase dl))" for ds :: "delivery list"
    by (subst sum_list_nonneg_eq_0_iff) auto
  then show ?thesis by (simp add: number_def)
qed

text \<open>C10. In every reachable state the slots in use are within the concurrency; the accepted
  deliveries are the delivered, the failed and those in flight, up to the two windows
  in which a goroutine is between its counters; and when \<open>Close\<close> can return, no
  delivery that entered the wait group is left unfinished.\<close>

theorem dispatcher_accounts:
  assumes "reachable v hmac c d" "0 \<le> wc_Concurrency c"
  shows "0 \<le> ds_Slots d \<and> ds_Slots d \<le> wc_Concurrency c \<and>
    ds_Enqueued d + number (\<lambda>ph. in_gauge ph \<and> (tallied True ph \<or> tallied False ph)) d =
      ds_Delivered d + ds_Failed d + ds_InFlight d + number (\<lambda>ph. ph = Counted) d \<and>
    (drained d \<longrightarrow> ds_Slots d = 0 \<and> (\<forall>dl \<in> set (ds_Tasks d). \<not> waited_for (dl_Phase dl)))"
proof -
  have ok: "counters_ok c d" using counters_reachable [OF assms] .
  have "holds_slot ph \<Longrightarrow> waited_for ph" for ph by (cases ph) auto
  then have "number waited_for d = 0 \<Longrightarrow> number holds_slot d = 0" by (auto simp: number_zero)
  then show ?thesis using ok number_balance [of d] number_nonneg [of holds_slot d] number_zero [of waited_for d]
    by (auto simp: counters_ok_def drained_def)
qed

section \<open>The contract of a delivery\<close>

text \<open>What the dispatcher promises, without goroutines, slots or counters: an accepted
  delivery collects answers, at most \<open>MaxRetry\<close> of them and none after a good one, and
  gets one outcome, which stays.  It fails only when no attempt was accepted and the
  attempts are used up, the payload cannot be written, or a shutdown expired after at
  least one attempt.\<close>

record promise =
  pm_Body :: "string option"
  pm_Answers :: "(gerror, unit) result list"
  pm_Outcome :: "bool option"

record contract =
  ct_Promises :: "promise list"
  ct_Accepting :: bool
  ct_Expired :: bool

definition refused :: "(gerror, unit) result list \<Rightarrow> bool" where
  "refused rs \<longleftrightarrow> (\<forall>r \<in> set rs. \<not> is_ok r)"

definition may_fail :: "webhook_config \<Rightarrow> bool \<Rightarrow> string option \<Rightarrow> (gerror, unit) result list \<Rightarrow> bool" where
  "may_fail c expired body rs \<longleftrightarrow> refused rs \<and> int (length rs) \<le> max 0 (wc_MaxRetry c) \<and>
     (int (length rs) = wc_MaxRetry c \<or> rs = [] \<and> (body = None \<or> wc_MaxRetry c < 1) \<or> rs \<noteq> [] \<and> expired)"

inductive contract_step :: "webhook_config \<Rightarrow> contract \<Rightarrow> contract \<Rightarrow> bool" for c where
  Accept: "ct_Accepting a \<Longrightarrow> contract_step c a (a\<lparr> ct_Promises := ct_Promises a @
      [\<lparr> pm_Body = b, pm_Answers = [], pm_Outcome = None \<rparr>] \<rparr>)"
| Answer: "i < length (ct_Promises a) \<Longrightarrow> ct_Promises a ! i = \<lparr> pm_Body = Some b, pm_Answers = rs, pm_Outcome = None \<rparr> \<Longrightarrow>
    refused rs \<Longrightarrow> int (length rs) < wc_MaxRetry c \<Longrightarrow> \<not> is_ok r \<Longrightarrow>
    contract_step c a (a\<lparr> ct_Promises := (ct_Promises a)[i := \<lparr> pm_Body = Some b, pm_Answers = rs @ [r], pm_Outcome = None \<rparr>] \<rparr>)"
| Refuse: "i < length (ct_Promises a) \<Longrightarrow> ct_Promises a ! i = \<lparr> pm_Body = Some b, pm_Answers = rs, pm_Outcome = None \<rparr> \<Longrightarrow>
    refused rs \<Longrightarrow> int (length rs) + 1 = wc_MaxRetry c \<Longrightarrow> \<not> is_ok r \<Longrightarrow>
    contract_step c a (a\<lparr> ct_Promises := (ct_Promises a)[i := \<lparr> pm_Body = Some b, pm_Answers = rs @ [r], pm_Outcome = Some False \<rparr>] \<rparr>)"
| Succeed: "i < length (ct_Promises a) \<Longrightarrow> ct_Promises a ! i = \<lparr> pm_Body = Some b, pm_Answers = rs, pm_Outcome = None \<rparr> \<Longrightarrow>
    refused rs \<Longrightarrow> int (length rs) < wc_MaxRetry c \<Longrightarrow> is_ok r \<Longrightarrow>
    contract_step c a (a\<lparr> ct_Promises := (ct_Promises a)[i := \<lparr> pm_Body = Some b, pm_Answers = rs @ [r], pm_Outcome = Some True \<rparr>] \<rparr>)"
| Fail: "i < length (ct_Promises a) \<Longrightarrow> ct_Promises a ! i = \<lparr> pm_Body = b, pm_Answers = rs, pm_Outcome = None \<rparr> \<Longrightarrow>
    may_fail c (ct_Expired a) b rs \<Longrightarrow>
    contract_step c a (a\<lparr> ct_Promises := (ct_Promises a)[i := \<lparr> pm_Body = b, pm_Answers = rs, pm_Outcome = Some False \<rparr>] \<rparr>)"
| Stop: "contract_step c a (a\<lparr> ct_Accepting := False \<rparr>)"
| Expire: "\<not> ct_Accepting a \<Longrightarrow> contract_step c a (a\<lparr> ct_Expired := True \<rparr>)"

definition promise_of :: "delivery \<Rightarrow> promise" where
  "promise_of dl = \<lparr> pm_Body = dl_Body dl, pm_Answers = dl_Answers dl, pm_Outcome = outcome (dl_Phase dl) \<rparr>"

definition contract_of :: "dispatcher \<Rightarrow> contract" where
  "contract_of d = \<lparr> ct_Promises = map promise_of (ds_Tasks d), ct_Accepting = ds_Accepting d,
     ct_Expired = ds_Closed d \<rparr>"

text \<open>What a goroutine's place says about the answers it has seen.\<close>

fun place_ok :: "webhook_config \<Rightarrow> bool \<Rightarrow> delivery \<Rightarrow> bool" where
  "place_ok c expired dl = (let rs = dl_Answers dl; k = int (length rs) in
     case dl_Phase dl of
       Trying n b \<Rightarrow> n = k + 1 \<and> n \<le> wc_MaxRetry c \<and> refused rs \<and> dl_Body dl \<noteq> None
     | Waiting n b \<Rightarrow> n = k \<and> rs \<noteq> [] \<and> n < wc_MaxRetry c \<and> refused rs \<and> dl_Body dl \<noteq> None
     | ph \<Rightarrow> (case outcome ph of
         None \<Rightarrow> rs = []
       | Some True \<Rightarrow> \<exists>rs1 r. rs = rs1 @ [r] \<and> refused rs1 \<and> is_ok r \<and> k \<le> wc_MaxRetry c \<and> dl_Body dl \<noteq> None
       | Some False \<Rightarrow> may_fail c expired (dl_Body dl) rs))"

declare place_ok.simps [simp del]

definition places_ok :: "webhook_config \<Rightarrow> dispatcher \<Rightarrow> bool" where
  "places_ok c d \<longleftrightarrow> (\<forall>dl \<in> set (ds_Tasks d). place_ok c (ds_Closed d) dl)"

lemma place_ok_moved:
  assumes "place_ok c e dl" "outcome ph = outcome (dl_Phase dl)" "\<forall>n b. ph \<noteq> Trying n b \<and> ph \<noteq> Waiting n b"
    "\<forall>n b. dl_Phase dl \<noteq> Trying n b \<and> dl_Phase dl \<noteq> Waiting n b"
  shows "place_ok c e (dl\<lparr> dl_Phase := ph \<rparr>)"
  using assms by (cases ph; cases "dl_Phase dl") (auto simp: place_ok.simps Let_def split: bool.splits)

lemma place_ok_expires: "place_ok c e dl \<Longrightarrow> place_ok c True dl"
  by (auto simp: place_ok.simps Let_def may_fail_def split: phase.splits bool.splits option.splits)

lemma place_ok_entered:
  "place_ok c e dl \<Longrightarrow> dl_Phase dl = Queued \<Longrightarrow> place_ok c e (dl\<lparr> dl_Phase := enter_deliver c (dl_Body dl) \<rparr>)"
  by (auto simp: place_ok.simps Let_def enter_deliver_def may_fail_def refused_def)

lemma place_ok_attempted:
  assumes "place_ok c e dl" "dl_Phase dl = Trying n b"
  shows "place_ok c e (dl\<lparr> dl_Answers := dl_Answers dl @ [r], dl_Phase := after_attempt c n b r \<rparr>)"
  using assms by (auto simp: place_ok.simps Let_def after_attempt_def may_fail_def refused_def)

lemma place_ok_woken:
  "place_ok c e dl \<Longrightarrow> dl_Phase dl = Waiting n b \<Longrightarrow> place_ok c e (dl\<lparr> dl_Phase := Trying (n + 1) b1 \<rparr>)"
  by (auto simp: place_ok.simps Let_def)

lemma place_ok_aborted:
  "place_ok c True dl \<Longrightarrow> dl_Phase dl = Waiting n b \<Longrightarrow> place_ok c True (dl\<lparr> dl_Phase := Returned False \<rparr>)"
  by (auto simp: place_ok.simps Let_def may_fail_def)

lemma places_go:
  "places_ok c d \<Longrightarrow> place_ok c (ds_Closed d) ((ds_Tasks d ! i)\<lparr> dl_Phase := ph \<rparr>) \<Longrightarrow> places_ok c (go i ph d)"
  using set_update_subset_insert by (fastforce simp: places_ok_def go_def)

lemma places_counters [simp]:
  "places_ok c (ds_Enqueued_update f d) = places_ok c d" "places_ok c (ds_Delivered_update f d) = places_ok c d"
  "places_ok c (ds_Failed_update f d) = places_ok c d" "places_ok c (ds_Dropped_update f d) = places_ok c d"
  "places_ok c (ds_InFlight_update f d) = places_ok c d" "places_ok c (ds_Slots_update f d) = places_ok c d"
  "places_ok c (ds_WG_update f d) = places_ok c d" "places_ok c (ds_Accepting_update g d) = places_ok c d"
  by (simp_all add: places_ok_def)

lemma places_step: "dstep v hmac c d d' \<Longrightarrow> places_ok c d \<Longrightarrow> places_ok c d'"
proof (induction rule: dstep.induct)
  case (FireChecked url d offF offC j)
  then show ?case by (auto simp: places_ok_def place_ok.simps)
next
  case (Acquire i d)
  then have "place_ok c (ds_Closed d) (ds_Tasks d ! i)" by (simp add: places_ok_def)
  then show ?case using Acquire place_ok_entered places_go by (simp add: phase_of_def)
next
  case (Attempt i d n b r)
  then have "place_ok c (ds_Closed d) (ds_Tasks d ! i)" by (simp add: places_ok_def)
  then have "place_ok c (ds_Closed d) ((ds_Tasks d ! i)\<lparr> dl_Answers := dl_Answers (ds_Tasks d ! i) @ [r],
      dl_Phase := after_attempt c n b r \<rparr>)" using Attempt place_ok_attempted by (simp add: phase_of_def)
  then show ?case using Attempt set_update_subset_insert
    by (fastforce simp: places_ok_def go_def answered_def)
next
  case (Wake i d n b)
  then have "place_ok c (ds_Closed d) (ds_Tasks d ! i)" by (simp add: places_ok_def)
  then show ?case using Wake place_ok_woken places_go by (simp add: phase_of_def)
next
  case (Abort i d n b)
  then have "place_ok c (ds_Closed d) (ds_Tasks d ! i)" by (simp add: places_ok_def)
  then show ?case using Abort place_ok_aborted places_go by (simp add: phase_of_def)
next
  case (CloseExpires d)
  then show ?case using place_ok_expires by (auto simp: places_ok_def)
qed (simp; intro places_go; (assumption | (rule place_ok_moved; simp add: places_ok_def phase_of_def)))+

lemma places_reachable: "reachable v hmac c d \<Longrightarrow> places_ok c d"
proof (induction rule: rtranclp_induct)
  case base
  then show ?case by (simp add: places_ok_def New_dispatcher_def)
next
  case (step d d')
  then show ?case using places_step by blast
qed

section \<open>The dispatcher keeps its contract\<close>

lemma contract_counters [simp]:
  "contract_of (ds_Enqueued_update f d) = contract_of d" "contract_of (ds_Delivered_update f d) = contract_of d"
  "contract_of (ds_Failed_update f d) = contract_of d" "contract_of (ds_Dropped_update f d) = contract_of d"
  "contract_of (ds_InFlight_update f d) = contract_of d" "contract_of (ds_Slots_update f d) = contract_of d"
  "contract_of (ds_WG_update f d) = contract_of d"
  by (simp_all add: contract_of_def)

lemma contract_go_same:
  "i < length (ds_Tasks d) \<Longrightarrow> outcome ph = outcome (phase_of d i) \<Longrightarrow> contract_of (go i ph d) = contract_of d"
  by (simp add: contract_of_def go_def map_update promise_of_def phase_of_def)
     (metis (no_types, lifting) length_map list_update_id nth_map promise_of_def)

lemma contract_go:
  "i < length (ds_Tasks d) \<Longrightarrow> contract_of (go i ph (answered i r d)) = (contract_of d)\<lparr> ct_Promises :=
     (ct_Promises (contract_of d))[i := \<lparr> pm_Body = dl_Body (ds_Tasks d ! i),
        pm_Answers = dl_Answers (ds_Tasks d ! i) @ [r], pm_Outcome = outcome ph \<rparr>] \<rparr>"
  "i < length (ds_Tasks d) \<Longrightarrow> contract_of (go i ph d) = (contract_of d)\<lparr> ct_Promises :=
     (ct_Promises (contract_of d))[i := \<lparr> pm_Body = dl_Body (ds_Tasks d ! i),
        pm_Answers = dl_Answers (ds_Tasks d ! i), pm_Outcome = outcome ph \<rparr>] \<rparr>"
  by (simp_all add: contract_of_def go_def answered_def map_update promise_of_def)

lemma nth_promise: "i < length (ds_Tasks d) \<Longrightarrow> ct_Promises (contract_of d) ! i = promise_of (ds_Tasks d ! i)"
  by (simp add: contract_of_def)

lemma length_promises [simp]: "length (ct_Promises (contract_of d)) = length (ds_Tasks d)"
  by (simp add: contract_of_def)

lemma flags_of_contract [simp]:
  "ct_Accepting (contract_of d) = ds_Accepting d" "ct_Expired (contract_of d) = ds_Closed d"
  by (simp_all add: contract_of_def)

lemma attempt_refines:
  assumes "i < length (ds_Tasks d)" "phase_of d i = Trying n b" "places_ok c d"
  shows "contract_step c (contract_of d) (contract_of (go i (after_attempt c n b r) (answered i r d)))"
proof -
  let ?dl = "ds_Tasks d ! i"
  have "place_ok c (ds_Closed d) ?dl" using assms by (simp add: places_ok_def)
  then obtain body where p: "dl_Body ?dl = Some body" "refused (dl_Answers ?dl)"
      "n = int (length (dl_Answers ?dl)) + 1" "n \<le> wc_MaxRetry c"
    using assms(2) by (auto simp: place_ok.simps Let_def phase_of_def)
  have at: "ct_Promises (contract_of d) ! i = \<lparr> pm_Body = Some body, pm_Answers = dl_Answers ?dl, pm_Outcome = None \<rparr>"
    using assms(1,2) p by (simp add: nth_promise promise_of_def phase_of_def)
  have i: "i < length (ct_Promises (contract_of d))" using assms(1) by simp
  consider (ok) "is_ok r" | (last) "\<not> is_ok r" "n = wc_MaxRetry c" | (more) "\<not> is_ok r" "n < wc_MaxRetry c"
    using p(4) by linarith
  then show ?thesis
  proof cases
    case ok
    then show ?thesis using contract_step.Succeed [OF i at p(2), of c r] assms(1) p
      by (simp add: contract_go(1) after_attempt_def)
  next
    case last
    then show ?thesis using contract_step.Refuse [OF i at p(2), of c r] assms(1) p
      by (simp add: contract_go(1) after_attempt_def)
  next
    case more
    then show ?thesis using contract_step.Answer [OF i at p(2), of c r] assms(1) p
      by (simp add: contract_go(1) after_attempt_def)
  qed
qed

lemma failing_refines:
  assumes "i < length (ds_Tasks d)" "outcome (phase_of d i) = None"
    "may_fail c (ds_Closed d) (dl_Body (ds_Tasks d ! i)) (dl_Answers (ds_Tasks d ! i))"
  shows "contract_step c (contract_of d) (contract_of (go i (Returned False) d))"
proof -
  have "ct_Promises (contract_of d) ! i = \<lparr> pm_Body = dl_Body (ds_Tasks d ! i),
      pm_Answers = dl_Answers (ds_Tasks d ! i), pm_Outcome = None \<rparr>"
    using assms by (simp add: nth_promise promise_of_def phase_of_def)
  from contract_step.Fail [OF _ this, of c] assms show ?thesis by (simp add: contract_go(2))
qed

lemma step_refines:
  "dstep v hmac c d d' \<Longrightarrow> places_ok c d \<Longrightarrow> (contract_step c)\<^sup>=\<^sup>= (contract_of d) (contract_of d')"
proof (induction rule: dstep.induct)
  case (FireChecked url d offF offC j)
  then show ?case using contract_step.Accept [of "contract_of d" c "marshal_payload offF offC (payloadFromJob j)"]
    by (simp add: contract_of_def promise_of_def)
next
  case (Acquire i d)
  let ?dl = "ds_Tasks d ! i"
  have ok: "place_ok c (ds_Closed d) ?dl" using Acquire by (simp add: places_ok_def)
  show ?case
  proof (cases "enter_deliver c (dl_Body ?dl) = Returned False")
    case True
    have "may_fail c (ds_Closed d) (dl_Body ?dl) (dl_Answers ?dl)"
      using ok Acquire.hyps(2) True
      by (auto simp: place_ok.simps may_fail_def refused_def phase_of_def enter_deliver_def split: if_splits)
    then show ?thesis using True failing_refines [of i d c] Acquire by simp
  next
    case False
    then show ?thesis using Acquire contract_go_same [of i d] enter_deliver_cases [of c "dl_Body ?dl"] by auto
  qed
next
  case (Attempt i d n b r)
  then show ?case using attempt_refines by simp
next
  case (Abort i d n b)
  then have "place_ok c (ds_Closed d) (ds_Tasks d ! i)" by (simp add: places_ok_def)
  then have "may_fail c (ds_Closed d) (dl_Body (ds_Tasks d ! i)) (dl_Answers (ds_Tasks d ! i))"
    using Abort by (simp add: place_ok.simps Let_def may_fail_def phase_of_def)
  then show ?case using failing_refines [of i d c] Abort by simp
next
  case (CloseBegins d)
  then show ?case using contract_step.Stop [of c "contract_of d"] by (simp add: contract_of_def)
next
  case (CloseExpires d)
  then show ?case using contract_step.Expire [of "contract_of d" c] by (simp add: contract_of_def)
qed (simp_all add: contract_go_same)

text \<open>C9. The dispatcher, with its goroutines, slots, counters and shutdown, refines the
  contract: every run of it is, step by step, a run of the contract or no step of it.\<close>

theorem dispatcher_refines:
  assumes "reachable v hmac c d"
  shows "(contract_step c)\<^sup>*\<^sup>* \<lparr> ct_Promises = [], ct_Accepting = True, ct_Expired = False \<rparr> (contract_of d)"
  using assms
proof (induction rule: rtranclp_induct)
  case base
  then show ?case by (simp add: contract_of_def New_dispatcher_def)
next
  case (step d d')
  then have "(contract_step c)\<^sup>=\<^sup>= (contract_of d) (contract_of d')"
    using step_refines [OF step.hyps(2) places_reachable [OF step.hyps(1)]] by simp
  then show ?case using step.IH by (elim sup2E) (auto intro: rtranclp.rtrancl_into_rtrancl)
qed

section \<open>Outcomes are those of the sequential delivery\<close>

text \<open>The loop, whose refused attempts before \<open>k\<close> were not cut short, decides at \<open>k\<close>.\<close>

lemma deliver_loop_decides:
  assumes "\<forall>m. n \<le> m \<and> m < k \<longrightarrow> \<not> is_ok (post m) \<and> \<not> abort m" "n \<le> k" "k \<le> maxRetry"
    "is_ok (post k) \<or> k = maxRetry \<or> abort k"
  shows "fst (deliver_loop maxRetry post abort n b) = is_ok (post k)"
  using assms
proof (induction maxRetry post abort n b rule: deliver_loop.induct)
  case (1 maxRetry post abort n b)
  show ?case
  proof (cases "n = k")
    case True
    then show ?thesis using "1.prems" by (subst deliver_loop.simps) auto
  next
    case False
    then have n: "n < k" using "1.prems"(2) by simp
    then have no: "\<not> maxRetry < n" "\<not> is_ok (post n)" "n \<noteq> maxRetry" "\<not> abort n" using "1.prems"(1,3) by auto
    have "fst (deliver_loop maxRetry post abort (n + 1) (wrap64 (b * 5))) = is_ok (post k)"
      using "1.prems" n by (intro "1.IH" no) auto
    then show ?thesis using no by (subst deliver_loop.simps) (simp add: case_prod_beta)
  qed
qed

lemma deliver_loop_spent: "maxRetry < n \<Longrightarrow> deliver_loop maxRetry post abort n b = (False, [])"
  by (subst deliver_loop.simps) simp

text \<open>C11. A delivery whose outcome is decided has the outcome of the sequential \<open>deliver\<close> on the
  answers it met, cut where the shutdown cut it, whatever ran beside it.\<close>

theorem outcome_is_deliver:
  assumes "reachable v hmac c d" "dl \<in> set (ds_Tasks d)" "outcome (dl_Phase dl) = Some ok"
  shows "ok = fst (deliver c (dl_Body dl) (\<lambda>n. dl_Answers dl ! nat (n - 1)) (\<lambda>n. n = int (length (dl_Answers dl)))) \<and>
    int (length (dl_Answers dl)) \<le> max 0 (wc_MaxRetry c)"
proof -
  have p: "place_ok c (ds_Closed d) dl" using places_reachable [OF assms(1)] assms(2) by (simp add: places_ok_def)
  let ?rs = "dl_Answers dl" let ?k = "int (length ?rs)"
  show ?thesis
  proof (cases ok)
    case True
    then obtain rs1 r where rs: "?rs = rs1 @ [r]" "refused rs1" "is_ok r" "?k \<le> wc_MaxRetry c" "dl_Body dl \<noteq> None"
      using p assms(3) by (auto simp: place_ok.simps Let_def split: phase.splits)
    have "\<not> is_ok (?rs ! nat (m - 1))" if "1 \<le> m" "m < ?k" for m
      using that rs by (auto simp: refused_def nth_append)
    then have "fst (deliver_loop (wc_MaxRetry c) (\<lambda>n. ?rs ! nat (n - 1)) (\<lambda>n. n = ?k) 1 (wc_InitialBackoff c)) =
        is_ok (?rs ! nat (?k - 1))"
      using rs by (intro deliver_loop_decides) auto
    then show ?thesis using True rs by (auto simp: deliver_def)
  next
    case False
    then have f: "may_fail c (ds_Closed d) (dl_Body dl) ?rs"
      using p assms(3) by (auto simp: place_ok.simps Let_def split: phase.splits)
    show ?thesis
    proof (cases "?rs = []")
      case True
      then have "dl_Body dl = None \<or> wc_MaxRetry c < 1" using f by (auto simp: may_fail_def)
      then show ?thesis using True False by (auto simp: deliver_def deliver_loop_spent split: option.splits)
    next
      case ne: False
      then have k: "1 \<le> ?k" by (cases ?rs) auto
      have no: "\<not> is_ok (?rs ! nat (m - 1))" if "1 \<le> m" "m \<le> ?k" for m
        using that f k by (simp add: may_fail_def refused_def)
      have le: "?k \<le> wc_MaxRetry c" using f k by (auto simp: may_fail_def)
      have "fst (deliver_loop (wc_MaxRetry c) (\<lambda>n. ?rs ! nat (n - 1)) (\<lambda>n. n = ?k) 1 (wc_InitialBackoff c)) =
          is_ok (?rs ! nat (?k - 1))"
        using no k le by (intro deliver_loop_decides) auto
      then show ?thesis using False no [of ?k] k le by (simp add: deliver_def split: option.split)
    qed
  qed
qed

section \<open>Draining\<close>

text \<open>How far a goroutine is from its end; the attempts left weigh two each.\<close>

fun distance :: "nat \<Rightarrow> phase \<Rightarrow> nat" where
  "distance m Checked = 2 * m + 9" | "distance m Counted = 2 * m + 8" | "distance m Gauged = 2 * m + 7"
| "distance m Queued = 2 * m + 6"
| "distance m (Trying n b) = 2 * nat (int m - n) + 5" | "distance m (Waiting n b) = 2 * nat (int m - n) + 4"
| "distance m (Returned ok) = 4" | "distance m (Tallied ok) = 3" | "distance m (Unslotted ok) = 2"
| "distance m (Ungauged ok) = 1" | "distance m (Finished ok) = 0"

definition work :: "webhook_config \<Rightarrow> dispatcher \<Rightarrow> nat" where
  "work c d = (\<Sum>dl\<leftarrow>ds_Tasks d. distance (nat (wc_MaxRetry c)) (dl_Phase dl))"

lemma sum_list_less:
  "i < length xs \<Longrightarrow> f y < f (xs ! i) \<Longrightarrow> (\<Sum>x\<leftarrow>xs[i := y]. f x) < (\<Sum>x\<leftarrow>xs. f x :: nat)"
proof (induction xs arbitrary: i)
  case (Cons x xs)
  then show ?case by (cases i) auto
qed simp

lemma work_go:
  "i < length (ds_Tasks d) \<Longrightarrow> distance (nat (wc_MaxRetry c)) ph < distance (nat (wc_MaxRetry c)) (phase_of d i) \<Longrightarrow>
    work c (go i ph d) < work c d"
  by (simp add: work_def go_def phase_of_def sum_list_less)

lemma work_same [simp]:
  "work c (ds_Enqueued_update f d) = work c d" "work c (ds_Delivered_update f d) = work c d"
  "work c (ds_Failed_update f d) = work c d" "work c (ds_Dropped_update f d) = work c d"
  "work c (ds_InFlight_update f d) = work c d" "work c (ds_Slots_update f d) = work c d"
  "work c (ds_WG_update f d) = work c d" "work c (ds_Accepting_update g d) = work c d"
  "work c (ds_Closed_update g d) = work c d"
  by (simp_all add: work_def)

lemma work_answered [simp]: "i < length (ds_Tasks d) \<Longrightarrow> work c (answered i r d) = work c d"
proof -
  assume i: "i < length (ds_Tasks d)"
  have "map dl_Phase (ds_Tasks (answered i r d)) = map dl_Phase (ds_Tasks d)"
    using i by (simp add: answered_def map_update list_update_same_conv)
  then show ?thesis unfolding work_def by (metis (no_types, lifting) map_map comp_def map_eq_conv)
qed

lemma one_left: "n < m \<Longrightarrow> nat (m - n) = Suc (nat (m - (n + 1)))"
  by simp

text \<open>A step that is no \<open>Fire\<close> and no \<open>Close\<close> brings its goroutine closer to its end.\<close>

lemma step_works:
  "dstep v hmac c d d' \<Longrightarrow> places_ok c d \<Longrightarrow>
    work c d' < work c d \<or> ds_Tasks d' = ds_Tasks d \<or> ds_Accepting d \<and> length (ds_Tasks d') = Suc (length (ds_Tasks d))"
proof (induction rule: dstep.induct)
  case (Acquire i d)
  have "distance (nat (wc_MaxRetry c)) (enter_deliver c (dl_Body (ds_Tasks d ! i))) < distance (nat (wc_MaxRetry c)) Queued"
    using nat_mono [of "wc_MaxRetry c - 1" "wc_MaxRetry c"] by (simp add: enter_deliver_def)
  then show ?case using Acquire work_go [of i d c] by simp
next
  case (Attempt i d n b r)
  have "place_ok c (ds_Closed d) (ds_Tasks d ! i)" using Attempt by (simp add: places_ok_def)
  then have "distance (nat (wc_MaxRetry c)) (after_attempt c n b r) < distance (nat (wc_MaxRetry c)) (Trying n b)"
    using Attempt by (simp add: after_attempt_def place_ok.simps phase_of_def Let_def)
  then show ?case using Attempt work_go [of i "answered i r d" c] by simp
next
  case (Wake i d n b)
  have "place_ok c (ds_Closed d) (ds_Tasks d ! i)" using Wake by (simp add: places_ok_def)
  then have "distance (nat (wc_MaxRetry c)) (Trying (n + 1) (wrap64 (b * 5))) < distance (nat (wc_MaxRetry c)) (Waiting n b)"
    using Wake one_left [of n "wc_MaxRetry c"] by (auto simp: place_ok.simps phase_of_def Let_def)
  then show ?case using Wake work_go [of i d c] by simp
next
  case (Abort i d n b)
  have "place_ok c (ds_Closed d) (ds_Tasks d ! i)" using Abort by (simp add: places_ok_def)
  then have "distance (nat (wc_MaxRetry c)) (Returned False) < distance (nat (wc_MaxRetry c)) (Waiting n b)"
    using Abort by (simp add: place_ok.simps phase_of_def Let_def)
  then show ?case using Abort work_go [of i d c] by simp
qed (simp_all add: work_go)

lemma answer_possible: "dl_Body dl = Some body \<Longrightarrow> \<exists>r. possible_answer v hmac c dl r"
  by (auto simp: possible_answer_def)

lemma phase_of_simps [simp]:
  "i < length (ds_Tasks d) \<Longrightarrow> phase_of (go i ph d) i = ph"
  "phase_of (ds_Enqueued_update f d) i = phase_of d i" "phase_of (ds_Delivered_update f d) i = phase_of d i"
  "phase_of (ds_Failed_update f d) i = phase_of d i" "phase_of (ds_InFlight_update f d) i = phase_of d i"
  "phase_of (ds_Slots_update f d) i = phase_of d i" "phase_of (ds_WG_update f d) i = phase_of d i"
  by (simp_all add: phase_of_def go_def)

lemma moved:
  assumes "dstep v hmac c d d'" "phase_of d' i \<noteq> phase_of d i" "length (ds_Tasks d') = length (ds_Tasks d)" "places_ok c d"
  shows "\<exists>d'. dstep v hmac c d d' \<and> work c d' < work c d"
proof -
  have "ds_Tasks d' \<noteq> ds_Tasks d" using assms(2) by (auto simp: phase_of_def)
  then show ?thesis using step_works [OF assms(1,4)] assms(1,3) by auto
qed

text \<open>Every goroutine but one that waits for a slot can take a step.\<close>

lemma moves:
  assumes ok: "places_ok c d" and i: "i < length (ds_Tasks d)"
    and ph: "phase_of d i \<noteq> Queued" "\<forall>ok. phase_of d i \<noteq> Finished ok"
  shows "\<exists>d'. dstep v hmac c d d' \<and> work c d' < work c d"
proof (cases "phase_of d i")
  case Checked
  from moved [OF dstep.FireCounted [OF i this], of i] show ?thesis using Checked i ok by simp
next
  case Counted
  from moved [OF dstep.FireGauged [OF i this], of i] show ?thesis using Counted i ok by simp
next
  case Gauged
  from moved [OF dstep.FireSpawned [OF i this], of i] show ?thesis using Gauged i ok by simp
next
  case (Trying n b)
  have "place_ok c (ds_Closed d) (ds_Tasks d ! i)" using ok i by (simp add: places_ok_def)
  then obtain r where "possible_answer v hmac c (ds_Tasks d ! i) r"
    using Trying answer_possible by (force simp: place_ok.simps Let_def phase_of_def)
  from moved [OF dstep.Attempt [OF i Trying this], of i] show ?thesis
    using Trying i ok after_attempt_cases [of c n b r] by auto
next
  case (Waiting n b)
  from moved [OF dstep.Wake [OF i this], of i] show ?thesis using Waiting i ok by simp
next
  case (Returned b)
  have "dstep v hmac c d (if b then (go i (Tallied True) d)\<lparr> ds_Delivered := ds_Delivered d + 1 \<rparr>
      else (go i (Tallied False) d)\<lparr> ds_Failed := ds_Failed d + 1 \<rparr>)"
    using dstep.TallyDelivered [OF i] dstep.TallyFailed [OF i] Returned by (cases b) auto
  from moved [OF this, of i] show ?thesis using Returned i ok by (cases b) auto
next
  case (Tallied b)
  from moved [OF dstep.Release [OF i this], of i] show ?thesis using Tallied i ok by simp
next
  case (Unslotted b)
  from moved [OF dstep.Ungauge [OF i this], of i] show ?thesis using Unslotted i ok by simp
next
  case (Ungauged b)
  from moved [OF dstep.Leave [OF i this], of i] show ?thesis using Ungauged i ok by simp
qed (use ph in simp_all)

text \<open>A waiting goroutine gets a slot, or a holder of one can move.\<close>

lemma unfinished_moves:
  assumes "reachable v hmac c d" "1 \<le> wc_Concurrency c" "dl \<in> set (ds_Tasks d)" "\<forall>ok. dl_Phase dl \<noteq> Finished ok"
  shows "\<exists>d'. dstep v hmac c d d' \<and> work c d' < work c d"
proof -
  have ok: "places_ok c d" and cnt: "counters_ok c d"
    using places_reachable counters_reachable assms(1,2) by auto
  obtain i where i: "i < length (ds_Tasks d)" "ds_Tasks d ! i = dl" using assms(3) by (auto simp: in_set_conv_nth)
  show ?thesis
  proof (cases "dl_Phase dl = Queued")
    case False
    then show ?thesis using moves [OF ok i(1)] i assms(4) by (simp add: phase_of_def)
  next
    case q: True
    show ?thesis
    proof (cases "ds_Slots d < wc_Concurrency c")
      case True
      from moved [OF dstep.Acquire [OF i(1) _ this], of i] show ?thesis
        using q i ok enter_deliver_cases [of c "dl_Body dl"] by (auto simp: phase_of_def go_def)
    next
      case False
      then have "number holds_slot d \<noteq> 0" using cnt assms(2) by (simp add: counters_ok_def)
      then obtain j where j: "j < length (ds_Tasks d)" "holds_slot (phase_of d j)"
        by (auto simp: number_zero in_set_conv_nth phase_of_def)
      then have "phase_of d j \<noteq> Queued" "\<forall>ok. phase_of d j \<noteq> Finished ok" by auto
      then show ?thesis using moves [OF ok j(1)] by simp
    qed
  qed
qed

text \<open>C12. Once \<open>Close\<close> has begun, the dispatcher drains: every step of a goroutine makes the
  work left smaller, nothing makes it larger, and while a delivery is unfinished some
  goroutine can step, so that every fair run ends with all of them finished; and at
  least one such run exists.\<close>

theorem dispatcher_drains:
  assumes "reachable v hmac c d" "\<not> ds_Accepting d" "1 \<le> wc_Concurrency c"
  shows "(\<forall>d'. dstep v hmac c d d' \<longrightarrow> work c d' < work c d \<or> ds_Tasks d' = ds_Tasks d) \<and>
    ((\<exists>dl \<in> set (ds_Tasks d). \<forall>ok. dl_Phase dl \<noteq> Finished ok) \<longrightarrow> (\<exists>d'. dstep v hmac c d d' \<and> work c d' < work c d)) \<and>
    (\<exists>d'. (dstep v hmac c)\<^sup>*\<^sup>* d d' \<and> (\<forall>dl \<in> set (ds_Tasks d'). \<exists>ok. dl_Phase dl = Finished ok))"
proof -
  have ex: "\<exists>d'. (dstep v hmac c)\<^sup>*\<^sup>* d d' \<and> (\<forall>dl \<in> set (ds_Tasks d'). \<exists>ok. dl_Phase dl = Finished ok)"
    using assms(1)
  proof (induction "work c d" arbitrary: d rule: less_induct)
    case less
    show ?case
    proof (cases "\<exists>dl \<in> set (ds_Tasks d). \<forall>ok. dl_Phase dl \<noteq> Finished ok")
      case True
      then obtain d1 where d1: "dstep v hmac c d d1" "work c d1 < work c d"
        using unfinished_moves [OF less.prems assms(3)] by blast
      then have "reachable v hmac c d1" using less.prems by auto
      from less.hyps [OF d1(2) this] show ?thesis using d1(1) by (meson converse_rtranclp_into_rtranclp)
    qed auto
  qed
  then show ?thesis
    using step_works [OF _ places_reachable [OF assms(1)]] unfinished_moves [OF assms(1,3)] assms(2) by blast
qed

section \<open>A run\<close>

definition hook_env :: env where
  "hook_env = \<lparr> ev_Answer = (\<lambda>_. Ok \<lparr> hr_Status = 200, hr_Body = '''' \<rparr>), ev_Now = (\<lambda>_. 0), ev_Done = (\<lambda>_. None),
     ev_URLError = (\<lambda>_. None), ev_Order = (\<lambda>m. m) \<rparr>"

definition hook_config :: webhook_config where
  "hook_config = webhook_defaults \<lparr> wc_SigningKey = '''', wc_Timeout = 0, wc_MaxRetry = 2, wc_InitialBackoff = 0,
     wc_Concurrency = 1 \<rparr>"

definition hook_job :: job where
  "hook_job = \<lparr> j_ID = ''j'', j_APIKeyID = '''', j_CPAPartnerID = '''', j_GroupID = '''', j_AccountID = ''a'',
     j_ModelAlias = ''m'', j_JST = '''', j_Endpoint = '''', j_RequestBodyJSON = '''', j_RequestTS = Some 0,
     j_UpstreamJobID = ''u'', j_UpstreamCost = 5, j_ResultURL = '''', j_Status = JobCompleted, j_ErrorType = ErrNone,
     j_ErrorDetail = '''', j_FinishedAt = Some 1500000000, j_LatencyMS = 0, j_PollCount = 0,
     j_ActualCreditsHundredths = 0, j_ChargedCreditsHundredths = 0, j_Refunded = False, j_PreBalanceH = 0,
     j_CallbackURL = ''http://x'' \<rparr>"

lemmas itoa_num = itoa_nat.simps [of "numeral k" for k] itoa_nat.simps [of 0] itoa_nat.simps [of "Suc 0"]

lemma epoch_values:
  "civil (day_of 1500000000) = (1970, 1, 1)" "civil (day_of 0) = (1970, 1, 1)" "day_ns = 86400000000000" "nanos = 1000000000"
  by code_simp+

lemma fraction_examples: "fmt_fraction 500000000 = ''.5''" "fmt_fraction 0 = ''''"
  by (simp_all add: fmt_fraction_def pad_def itoa_def digit_char_def strip_zeros_def Let_def itoa_num)

lemma marshal_time_examples:
  "marshal_time 0 (Some 1500000000) = Some ([CHR 0x22] @ ''1970-01-01T00:00:01.5Z'' @ [CHR 0x22])"
  "marshal_time 0 (Some 0) = Some ([CHR 0x22] @ ''1970-01-01T00:00:00Z'' @ [CHR 0x22])"
  by (simp_all add: marshal_time_def epoch_values fraction_examples fmt_offset_def pad_def itoa_def digit_char_def itoa_num)

definition hook_body :: string where
  "hook_body = the (marshal_payload 0 0 (payloadFromJob hook_job))"

lemma hook_body: "marshal_payload 0 0 (payloadFromJob hook_job) = Some hook_body"
proof -
  have t: "pl_FinishedAt (payloadFromJob hook_job) = Some 1500000000" "pl_CreatedAt (payloadFromJob hook_job) = Some 0"
    by (simp_all add: payloadFromJob_def hook_job_def)
  have "\<exists>b. marshal_payload 0 0 (payloadFromJob hook_job) = Some b"
    unfolding marshal_payload_def t marshal_time_examples prod.case option.case by (rule exI) (rule refl)
  then show ?thesis unfolding hook_body_def by (metis option.sel)
qed

text \<open>One delivery: an attempt that meets a 500, a wait, and an attempt that meets a 200.\<close>

definition hook_state :: "int list \<Rightarrow> bool \<Rightarrow> (gerror, unit) result list \<Rightarrow> phase \<Rightarrow> dispatcher" where
  "hook_state ns open1 rs ph = \<lparr> ds_Enqueued = ns ! 0, ds_Delivered = ns ! 1, ds_Failed = 0, ds_Dropped = 0,
     ds_InFlight = ns ! 2, ds_Slots = ns ! 3, ds_WG = ns ! 4, ds_Accepting = open1, ds_Closed = False,
     ds_Tasks = [\<lparr> dl_URL = ''http://x'', dl_Body = Some hook_body, dl_Answers = rs, dl_Phase = ph \<rparr>] \<rparr>"

definition hook_refusal :: "(gerror, unit) result" where "hook_refusal = Err (Plain ''webhook HTTP 500'')"

lemma hook_answers:
  "possible_answer hook_env hmac hook_config \<lparr> dl_URL = u, dl_Body = Some b, dl_Answers = rs, dl_Phase = ph \<rparr> hook_refusal"
  "possible_answer hook_env hmac hook_config \<lparr> dl_URL = u, dl_Body = Some b, dl_Answers = rs, dl_Phase = ph \<rparr> (Ok ())"
  unfolding possible_answer_def
  by (rule exI [of _ b], rule exI [of _ "\<lambda>_. Ok \<lparr> hr_Status = 500, hr_Body = '''' \<rparr>"],
      simp add: postOnce_def post_request_def hook_env_def NewRequest_def hook_refusal_def, code_simp)
     (rule exI [of _ b], rule exI [of _ "\<lambda>_. Ok \<lparr> hr_Status = 200, hr_Body = '''' \<rparr>"],
      simp add: postOnce_def post_request_def hook_env_def NewRequest_def hook_refusal_def)

lemma hook_run:
  "reachable hook_env hmac hook_config (hook_state [1, 1, 1, 1, 1] True [hook_refusal, Ok ()] (Tallied True))"
proof -
  let ?s = "dstep hook_env hmac hook_config"
  note defs = go_def answered_def hook_state_def phase_of_def enter_deliver_def after_attempt_def hook_config_def
    webhook_defaults_def hook_refusal_def
  have s1: "?s New_dispatcher (hook_state [0, 0, 0, 0, 0] True [] Checked)"
    using dstep.FireChecked [of "''http://x''" New_dispatcher hook_env hmac hook_config 0 0 hook_job]
    by (simp add: New_dispatcher_def hook_body hook_state_def)
  have s2: "?s (hook_state [0, 0, 0, 0, 0] True [] Checked) (hook_state [1, 0, 0, 0, 0] True [] Counted)"
    using dstep.FireCounted [of 0 "hook_state [0, 0, 0, 0, 0] True [] Checked" hook_env hmac hook_config] by (simp add: defs)
  have s3: "?s (hook_state [1, 0, 0, 0, 0] True [] Counted) (hook_state [1, 0, 1, 0, 0] True [] Gauged)"
    using dstep.FireGauged [of 0 "hook_state [1, 0, 0, 0, 0] True [] Counted" hook_env hmac hook_config] by (simp add: defs)
  have s4: "?s (hook_state [1, 0, 1, 0, 0] True [] Gauged) (hook_state [1, 0, 1, 0, 1] True [] Queued)"
    using dstep.FireSpawned [of 0 "hook_state [1, 0, 1, 0, 0] True [] Gauged" hook_env hmac hook_config] by (simp add: defs)
  have s5: "?s (hook_state [1, 0, 1, 0, 1] True [] Queued) (hook_state [1, 0, 1, 1, 1] True [] (Trying 1 nanos))"
    using dstep.Acquire [of 0 "hook_state [1, 0, 1, 0, 1] True [] Queued" hook_config hook_env hmac] by (simp add: defs)
  have s6: "?s (hook_state [1, 0, 1, 1, 1] True [] (Trying 1 nanos)) (hook_state [1, 0, 1, 1, 1] True [hook_refusal] (Waiting 1 nanos))"
    using dstep.Attempt [of 0 "hook_state [1, 0, 1, 1, 1] True [] (Trying 1 nanos)" 1 nanos hook_env hmac hook_config hook_refusal]
      hook_answers(1) by (simp add: defs)
  have s7: "?s (hook_state [1, 0, 1, 1, 1] True [hook_refusal] (Waiting 1 nanos)) (hook_state [1, 0, 1, 1, 1] True [hook_refusal] (Trying 2 (wrap64 (nanos * 5))))"
    using dstep.Wake [of 0 "hook_state [1, 0, 1, 1, 1] True [hook_refusal] (Waiting 1 nanos)" 1 nanos hook_env hmac hook_config]
    by (simp add: defs)
  have s8: "?s (hook_state [1, 0, 1, 1, 1] True [hook_refusal] (Trying 2 (wrap64 (nanos * 5)))) (hook_state [1, 0, 1, 1, 1] True [hook_refusal, Ok ()] (Returned True))"
    using dstep.Attempt [of 0 "hook_state [1, 0, 1, 1, 1] True [hook_refusal] (Trying 2 (wrap64 (nanos * 5)))" 2 "wrap64 (nanos * 5)" hook_env hmac hook_config "Ok ()"]
      hook_answers(2) by (simp add: defs)
  have s9: "?s (hook_state [1, 0, 1, 1, 1] True [hook_refusal, Ok ()] (Returned True)) (hook_state [1, 1, 1, 1, 1] True [hook_refusal, Ok ()] (Tallied True))"
    using dstep.TallyDelivered [of 0 "hook_state [1, 0, 1, 1, 1] True [hook_refusal, Ok ()] (Returned True)" hook_env hmac hook_config]
    by (simp add: defs)
  note first = converse_rtranclp_into_rtranclp [where r = ?s]
  show ?thesis
    by (rule first [OF s1], rule first [OF s2], rule first [OF s3], rule first [OF s4], rule first [OF s5],
        rule first [OF s6], rule first [OF s7], rule first [OF s8], rule r_into_rtranclp [where r = ?s, OF s9])
qed

text \<open>The state after the run, shut down and drained of what it has left.\<close>

theorem dispatcher_accounts_witness:
  "0 \<le> ds_Slots (hook_state [1, 1, 1, 1, 1] True [hook_refusal, Ok ()] (Tallied True)) \<and>
   ds_Slots (hook_state [1, 1, 1, 1, 1] True [hook_refusal, Ok ()] (Tallied True)) \<le> wc_Concurrency hook_config"
  using dispatcher_accounts [OF hook_run] by (simp add: hook_config_def webhook_defaults_def)

theorem dispatcher_refines_witness:
  "(contract_step hook_config)\<^sup>*\<^sup>* \<lparr> ct_Promises = [], ct_Accepting = True, ct_Expired = False \<rparr>
     \<lparr> ct_Promises = [\<lparr> pm_Body = Some hook_body, pm_Answers = [hook_refusal, Ok ()], pm_Outcome = Some True \<rparr>],
       ct_Accepting = True, ct_Expired = False \<rparr>"
  using dispatcher_refines [OF hook_run] by (simp add: contract_of_def hook_state_def promise_of_def)

theorem outcome_is_deliver_witness:
  "fst (deliver hook_config (Some hook_body) (\<lambda>n. [hook_refusal, Ok ()] ! nat (n - 1)) (\<lambda>n. n = 2))"
  using outcome_is_deliver [OF hook_run, of "\<lparr> dl_URL = ''http://x'', dl_Body = Some hook_body,
      dl_Answers = [hook_refusal, Ok ()], dl_Phase = Tallied True \<rparr>" True]
  by (simp add: hook_state_def)

theorem dispatcher_drains_witness:
  "\<exists>d. (dstep hook_env (\<lambda>k b. '''') hook_config)\<^sup>*\<^sup>*
      ((hook_state [1, 1, 1, 1, 1] True [hook_refusal, Ok ()] (Tallied True))\<lparr> ds_Accepting := False \<rparr>) d \<and>
    (\<forall>dl \<in> set (ds_Tasks d). \<exists>ok. dl_Phase dl = Finished ok)"
proof -
  let ?d = "(hook_state [1, 1, 1, 1, 1] True [hook_refusal, Ok ()] (Tallied True))\<lparr> ds_Accepting := False \<rparr>"
  have "reachable hook_env (\<lambda>k b. '''') hook_config ?d"
    using rtranclp.rtrancl_into_rtrancl [where r = "dstep hook_env (\<lambda>k b. '''') hook_config", OF hook_run dstep.CloseBegins] .
  from dispatcher_drains [OF this] show ?thesis by (simp add: hook_config_def webhook_defaults_def)
qed

end
