(* ===== verification/Access.thy ===== *)
theory Access
  imports Bearer RateLimit Jwt
begin

text \<open>
  Who gets through to the handlers: \<open>api/middleware/apikey.go\<close>, \<open>playground.go\<close> and
  \<open>cors.go\<close>, and the order in which \<open>api/server.go\<close> chains them with the rate limit on
  each group of routes.  A middleware answers the request itself or passes a context
  on; \<open>''''\<close> is an absent header.
\<close>

section \<open>Contexts and verdicts\<close>

text \<open>What the middlewares put into a request's context.\<close>

record call_ctx =
  cc_Key :: "apikey option"
  cc_Admin :: bool

definition fresh_ctx :: call_ctx where "fresh_ctx = \<lparr> cc_Key = None, cc_Admin = False \<rparr>"

text \<open>An answer of the middleware itself: status, error type, message.\<close>

datatype verdict = Admit call_ctx | Refuse int string string

text \<open>The bearer token of a header.\<close>

definition bearer_token :: "string \<Rightarrow> string option" where
  "bearer_token raw = (let token = trimPrefix raw ''Bearer '' in if token = raw then None else Some token)"

definition malformed_text :: string where
  "malformed_text = ''Authorization header must start with '' @ [CHR 0x27] @ ''Bearer '' @ [CHR 0x27]"

section \<open>API keys\<close>

definition status_refusal :: "key_status \<Rightarrow> (string \<times> string) option" where
  "status_refusal st = (case st of
     KeyActive \<Rightarrow> None
   | KeyPaused \<Rightarrow> Some (''api_key_paused'', ''this API key is paused'')
   | KeyRevoked \<Rightarrow> Some (''api_key_revoked'', ''this API key has been revoked'')
   | KeyOther _ \<Rightarrow> Some (''api_key_disabled'', ''this API key is not in an active state''))"

definition key_lookup :: "gerror option \<Rightarrow> keys \<Rightarrow> string \<Rightarrow> call_ctx \<Rightarrow> verdict" where
  "key_lookup fail rows h ctx = (case GetByHash fail h rows of
     Inl e \<Rightarrow> if errorsIs e ErrAPIKeyNotFound then Refuse 401 ''invalid_api_key'' ''unknown key''
             else Refuse 500 ''auth_error'' (err_text e)
   | Inr k \<Rightarrow> (case status_refusal (k_Status k) of
       Some (kind, msg) \<Rightarrow> Refuse 401 kind msg
     | None \<Rightarrow> if \<not> HasBudget k 0 then Refuse 402 ''quota_exhausted'' ''monthly quota exhausted for this API key''
               else Admit (ctx\<lparr> cc_Key := Some k \<rparr>)))"

definition APIKeyAuth ::
  "(string \<Rightarrow> string) \<Rightarrow> gerror option \<Rightarrow> keys \<Rightarrow> bool \<Rightarrow> string \<Rightarrow> call_ctx \<Rightarrow> verdict" where
  "APIKeyAuth Hash fail rows optional raw ctx =
     (if raw = '''' then
        (if optional then Admit ctx else Refuse 401 ''missing_api_key'' ''Authorization: Bearer sk-hg-... required'')
      else case bearer_token raw of
        None \<Rightarrow> if optional then Admit ctx
                else Refuse 401 ''malformed_authorization'' malformed_text
      | Some token \<Rightarrow> (case ParseKey Hash token of
          Inl e \<Rightarrow> if optional then Admit ctx else Refuse 401 ''invalid_api_key'' (err_text e)
        | Inr h \<Rightarrow> key_lookup fail rows h ctx))"

section \<open>The playground\<close>

text \<open>The accepter and the store may be absent.\<close>

definition PlaygroundAuth ::
  "(string \<Rightarrow> string) \<Rightarrow> (string \<Rightarrow> bool) option \<Rightarrow> gerror option \<Rightarrow> keys option \<Rightarrow> string \<Rightarrow> call_ctx \<Rightarrow> verdict" where
  "PlaygroundAuth Hash adminBearer fail store raw ctx =
     (if raw = '''' then Refuse 401 ''missing_api_key'' ''Authorization: Bearer <admin-bearer|sk-hg-...> required''
      else case bearer_token raw of
        None \<Rightarrow> Refuse 401 ''malformed_authorization'' malformed_text
      | Some token \<Rightarrow>
          if (case adminBearer of None \<Rightarrow> False | Some acc \<Rightarrow> acc token) then Admit (ctx\<lparr> cc_Admin := True \<rparr>)
          else (case ParseKey Hash token of
            Inl e \<Rightarrow> Refuse 401 ''invalid_api_key'' (err_text e)
          | Inr h \<Rightarrow> (case store of
              None \<Rightarrow> Refuse 500 ''auth_error'' ''api key store not configured''
            | Some rows \<Rightarrow> key_lookup fail rows h ctx)))"

definition playground_disabled :: verdict where
  "playground_disabled = Refuse 403 ''playground_disabled'' ''api key is not permitted to use the playground''"

definition PlaygroundGate :: "call_ctx \<Rightarrow> verdict" where
  "PlaygroundGate ctx =
     (if cc_Admin ctx then Admit ctx
      else case cc_Key ctx of
        None \<Rightarrow> playground_disabled
      | Some k \<Rightarrow>
          (let scope = (if k_PlaygroundScope k = ScopeEmpty then ScopeNone else k_PlaygroundScope k)
           in if scope = ScopeNone then playground_disabled else Admit ctx))"

section \<open>CORS\<close>

record cors_config =
  co_AllowedOrigins :: "string list"
  co_AllowedMethods :: "string list"
  co_AllowedHeaders :: "string list"
  co_MaxAge :: int

type_synonym headers = "(string \<times> string) list"

definition originAllowed :: "cors_config \<Rightarrow> string \<Rightarrow> bool" where
  "originAllowed c origin \<longleftrightarrow> (\<exists>a \<in> set (co_AllowedOrigins c). a = ''*'' \<or> a = origin)"

definition cors_methods :: "cors_config \<Rightarrow> string list" where
  "cors_methods c = (if co_AllowedMethods c \<noteq> [] then co_AllowedMethods c
     else [''GET'', ''POST'', ''PUT'', ''PATCH'', ''DELETE'', ''OPTIONS''])"

definition cors_headers :: "cors_config \<Rightarrow> string list" where
  "cors_headers c = (if co_AllowedHeaders c \<noteq> [] then co_AllowedHeaders c else [''Authorization'', ''Content-Type''])"

definition cors_maxAge :: "cors_config \<Rightarrow> string" where
  "cors_maxAge c = itoa (if co_MaxAge c \<le> 0 then 300 else co_MaxAge c)"

text \<open>The response's own headers are ASCII.\<close>

definition is_space :: "char \<Rightarrow> bool" where
  "is_space ch \<longleftrightarrow> byte ch \<in> {9, 10, 11, 12, 13, 32}"

definition TrimSpace :: "string \<Rightarrow> string" where
  "TrimSpace s = rev (dropWhile is_space (rev (dropWhile is_space s)))"

definition addVary :: "string \<Rightarrow> headers \<Rightarrow> headers" where
  "addVary val hs = (case obj_get hs ''Vary'' of
     None \<Rightarrow> obj_put ''Vary'' val hs
   | Some existing \<Rightarrow>
       if existing = '''' then obj_put ''Vary'' val hs
       else if \<exists>part \<in> set (split_on (CHR '','') existing). TrimSpace part = val then hs
       else obj_put ''Vary'' (existing @ '', '' @ val) hs)"

text \<open>A preflight is answered 204 by the middleware; anything else goes on with the headers
  set so far.\<close>

datatype cors_outcome = Onward headers | Preflight headers

definition CORS_Middleware :: "cors_config \<Rightarrow> string \<Rightarrow> string \<Rightarrow> headers \<Rightarrow> cors_outcome" where
  "CORS_Middleware c meth origin hs =
     (if co_AllowedOrigins c = [] then Onward hs
      else if origin = '''' then Onward hs
      else if \<not> originAllowed c origin then Onward hs
      else (let hs1 = obj_put ''Access-Control-Allow-Credentials'' ''true''
                        (obj_put ''Access-Control-Allow-Origin'' origin (addVary ''Origin'' hs))
            in if meth = ''OPTIONS''
               then Preflight (obj_put ''Access-Control-Max-Age'' (cors_maxAge c)
                      (obj_put ''Access-Control-Allow-Headers'' (join_with '', '' (cors_headers c))
                        (obj_put ''Access-Control-Allow-Methods'' (join_with '', '' (cors_methods c)) hs1)))
               else Onward hs1))"

section \<open>The chains of the routers\<close>

definition then_verdict :: "verdict \<Rightarrow> (call_ctx \<Rightarrow> verdict \<times> buckets) \<Rightarrow> buckets \<Rightarrow> verdict \<times> buckets" where
  "then_verdict v f bs = (case v of Refuse s k m \<Rightarrow> (Refuse s k m, bs) | Admit ctx \<Rightarrow> f ctx)"

definition limited :: "rat \<Rightarrow> int \<Rightarrow> int \<Rightarrow> buckets \<Rightarrow> call_ctx \<Rightarrow> verdict \<times> buckets" where
  "limited rps burst now bs ctx = (case RateLimitMiddleware rps burst now (cc_Key ctx) bs of
     (RatePass, bs1) \<Rightarrow> (Admit ctx, bs1)
   | (RateLimited, bs1) \<Rightarrow> (Refuse 429 ''rate_limited'' ''too many requests for this API key; retry shortly'', bs1))"

text \<open>\<open>/v1\<close> (but the catalogue and the playground) and \<open>/api\<close>: without a key store the
  authentication is not mounted.\<close>

definition v1_chain ::
  "(string \<Rightarrow> string) \<Rightarrow> gerror option \<Rightarrow> keys option \<Rightarrow> rat \<Rightarrow> int \<Rightarrow> int \<Rightarrow> string \<Rightarrow> buckets \<Rightarrow> verdict \<times> buckets" where
  "v1_chain Hash fail store rps burst now raw bs =
     then_verdict (case store of None \<Rightarrow> Admit fresh_ctx | Some rows \<Rightarrow> APIKeyAuth Hash fail rows False raw fresh_ctx)
       (limited rps burst now bs) bs"

definition catalogue_chain :: "(string \<Rightarrow> string) \<Rightarrow> gerror option \<Rightarrow> keys \<Rightarrow> string \<Rightarrow> verdict" where
  "catalogue_chain Hash fail rows raw = APIKeyAuth Hash fail rows True raw fresh_ctx"

definition playground_chain ::
  "(string \<Rightarrow> string) \<Rightarrow> (string \<Rightarrow> bool) option \<Rightarrow> gerror option \<Rightarrow> keys option \<Rightarrow> rat \<Rightarrow> int \<Rightarrow> int \<Rightarrow> string
     \<Rightarrow> buckets \<Rightarrow> verdict \<times> buckets" where
  "playground_chain Hash adminBearer fail store rps burst now raw bs =
     then_verdict (PlaygroundAuth Hash adminBearer fail store raw fresh_ctx)
       (\<lambda>ctx. case limited rps burst now bs ctx of (v, bs1) \<Rightarrow> then_verdict v (\<lambda>ctx1. (PlaygroundGate ctx1, bs1)) bs1) bs"

section \<open>Who is admitted\<close>

lemma bearer_token_Some: "bearer_token raw = Some t \<longleftrightarrow> raw = ''Bearer '' @ t"
proof
  assume "bearer_token raw = Some t"
  then have p: "take (length ''Bearer '') raw = ''Bearer ''" "t = drop (length ''Bearer '') raw"
    by (auto simp: bearer_token_def trimPrefix_def has_prefix_def Let_def split: if_splits)
  then show "raw = ''Bearer '' @ t" using append_take_drop_id [of "length ''Bearer ''" raw] by metis
next
  assume "raw = ''Bearer '' @ t"
  then show "bearer_token raw = Some t" by (simp add: bearer_token_def trimPrefix_def has_prefix_def)
qed

lemma key_lookup_Admit:
  "key_lookup fail rows h ctx = Admit ctx1 \<longleftrightarrow> fail = None \<and>
     (\<exists>r. find_row kr_key_hash h rows = Some r \<and> kr_status r = KeyActive \<and> HasBudget (key_of_row r) 0 \<and>
        ctx1 = ctx\<lparr> cc_Key := Some (key_of_row r) \<rparr>)"
  by (auto simp: key_lookup_def GetByHash_def scanAPIKey_def status_refusal_def key_of_row_def
      split: option.splits key_status.splits if_splits)

lemma APIKeyAuth_Admit:
  "APIKeyAuth Hash fail rows False raw ctx = Admit ctx1 \<longleftrightarrow>
     (\<exists>t h. raw = ''Bearer '' @ t \<and> ParseKey Hash t = Ok h \<and> key_lookup fail rows h ctx = Admit ctx1)"
proof -
  have none: "bearer_token '''' = None" by (simp add: bearer_token_def trimPrefix_def has_prefix_def)
  have "APIKeyAuth Hash fail rows False raw ctx = Admit ctx1 \<longleftrightarrow>
      (\<exists>t h. bearer_token raw = Some t \<and> ParseKey Hash t = Ok h \<and> key_lookup fail rows h ctx = Admit ctx1)"
    using none by (auto simp: APIKeyAuth_def split: option.splits sum.splits)
  then show ?thesis unfolding bearer_token_Some .
qed

lemma limited_Admit:
  "limited rps burst now bs ctx = (Admit ctx1, bs1) \<longleftrightarrow>
     ctx1 = ctx \<and> RateLimitMiddleware rps burst now (cc_Key ctx) bs = (RatePass, bs1)"
  by (auto simp: limited_def split: prod.splits rate_outcome.splits)

lemma then_verdict_Admit:
  "then_verdict v f bs = (Admit ctx, bs1) \<longleftrightarrow> (\<exists>ctx0. v = Admit ctx0 \<and> f ctx0 = (Admit ctx, bs1))"
  by (auto simp: then_verdict_def split: verdict.splits)

text \<open>C13. A request gets to the handlers of \<open>/v1\<close> exactly when its header is the word Bearer, a
  blank and a well-formed key whose hash is that of a row that is active and within
  its budget, the store answers, and the key's bucket holds a token; the handler then
  sees that row's key and never the admin mark.\<close>

theorem v1_admits_exactly:
  "v1_chain Hash fail (Some rows) rps burst now raw bs = (Admit ctx, bs1) \<longleftrightarrow>
     fail = None \<and> (\<exists>t h r. raw = ''Bearer '' @ t \<and> ParseKey Hash t = Ok h \<and>
       find_row kr_key_hash h rows = Some r \<and> kr_status r = KeyActive \<and> HasBudget (key_of_row r) 0 \<and>
       RateLimitMiddleware rps burst now (Some (key_of_row r)) bs = (RatePass, bs1) \<and>
       ctx = \<lparr> cc_Key = Some (key_of_row r), cc_Admin = False \<rparr>)"
proof -
  have "v1_chain Hash fail (Some rows) rps burst now raw bs = (Admit ctx, bs1) \<longleftrightarrow>
      (\<exists>t h. raw = ''Bearer '' @ t \<and> ParseKey Hash t = Ok h \<and> key_lookup fail rows h fresh_ctx = Admit ctx) \<and>
      RateLimitMiddleware rps burst now (cc_Key ctx) bs = (RatePass, bs1)"
    by (auto simp: v1_chain_def then_verdict_Admit limited_Admit APIKeyAuth_Admit)
  then show ?thesis by (auto simp: key_lookup_Admit fresh_ctx_def)
qed

section \<open>Revocation reaches every surface\<close>

lemma distinct_ids_step: "key_step rows rows' \<Longrightarrow> distinct (map kr_id rows) \<Longrightarrow> distinct (map kr_id rows')"
  by (elim key_stepE)
     (auto simp: key_op_defs Let_def map_key_sql_update insert_key_row_def split: option.split sum.split prod.split)

definition locked_out :: "string \<Rightarrow> verdict \<Rightarrow> bool" where
  "locked_out kid v \<longleftrightarrow> (case v of Admit ctx \<Rightarrow> (case cc_Key ctx of Some k \<Rightarrow> k_ID k \<noteq> kid | None \<Rightarrow> True) | _ \<Rightarrow> True)"

lemma locked_out_simps [simp]:
  "locked_out kid (Refuse st kind msg)"
  "cc_Key ctx = None \<Longrightarrow> locked_out kid (Admit ctx)"
  by (simp_all add: locked_out_def)

lemma fresh_ctx_simps [simp]: "cc_Key fresh_ctx = None" "cc_Admin fresh_ctx = False"
  by (simp_all add: fresh_ctx_def)

lemma revoked_not_active:
  assumes "revoked_in kid rows" "distinct (map kr_id rows)" "find_row kr_key_hash h rows = Some r" "kr_status r = KeyActive"
  shows "kr_id r \<noteq> kid"
proof
  assume eq: "kr_id r = kid"
  obtain r1 where r1: "find_row kr_id kid rows = Some r1" "kr_status r1 = KeyRevoked"
    using assms(1) by (auto simp: revoked_in_def)
  have "r \<in> set rows" using assms(3) by (auto dest: find_row_SomeD)
  then have "r1 = r" using r1(1) assms(2) eq find_row_SomeD [OF r1(1)] by (auto simp: distinct_map inj_on_def)
  then show False using r1(2) assms(4) by simp
qed

lemma key_lookup_locked:
  assumes "revoked_in kid rows" "distinct (map kr_id rows)" "cc_Key ctx = None"
  shows "locked_out kid (key_lookup fail rows h ctx)"
proof (cases "key_lookup fail rows h ctx")
  case (Admit ctx1)
  then obtain r where r: "find_row kr_key_hash h rows = Some r" "kr_status r = KeyActive"
      "ctx1 = ctx\<lparr> cc_Key := Some (key_of_row r) \<rparr>" by (auto simp: key_lookup_Admit)
  then have "kr_id r \<noteq> kid" using revoked_not_active [OF assms(1,2)] by blast
  then show ?thesis by (simp add: Admit r(3) locked_out_def key_of_row_def)
qed (simp add: locked_out_def)

lemma locked_out_limited:
  "locked_out kid (Admit ctx) \<Longrightarrow> locked_out kid (fst (limited rps burst now bs ctx))"
  by (auto simp: limited_def locked_out_def split: prod.splits rate_outcome.splits)

lemma locked_out_gate: "locked_out kid (Admit ctx) \<Longrightarrow> locked_out kid (PlaygroundGate ctx)"
  by (auto simp: PlaygroundGate_def locked_out_def playground_disabled_def Let_def split: option.splits)

lemma locked_out_then:
  assumes "locked_out kid v" "\<And>ctx. v = Admit ctx \<Longrightarrow> locked_out kid (Admit ctx) \<Longrightarrow> locked_out kid (fst (f ctx))"
  shows "locked_out kid (fst (then_verdict v f bs))"
  using assms by (cases v) (simp_all add: then_verdict_def)

lemma APIKeyAuth_locked:
  assumes "revoked_in kid rows" "distinct (map kr_id rows)"
  shows "locked_out kid (APIKeyAuth Hash fail rows optional raw fresh_ctx)"
  using key_lookup_locked [OF assms, of fresh_ctx]
  by (auto simp: APIKeyAuth_def split: option.splits sum.splits)

lemma PlaygroundAuth_locked:
  assumes "revoked_in kid rows" "distinct (map kr_id rows)"
  shows "locked_out kid (PlaygroundAuth Hash adm fail (Some rows) raw fresh_ctx)"
  using key_lookup_locked [OF assms, of fresh_ctx]
  by (auto simp: PlaygroundAuth_def split: option.splits sum.splits)

text \<open>C14. Once a key is revoked no surface ever serves it again: whatever operations the key
  store goes through afterwards, no request to \<open>/v1\<close>, the catalogue or the playground
  is handed on with that key, whatever its header.\<close>

theorem revoked_key_locked_out:
  assumes "distinct (map kr_id rows)" "revoked_in kid rows" "key_step\<^sup>*\<^sup>* rows rows'"
  shows "locked_out kid (fst (v1_chain Hash fail (Some rows') rps burst now raw bs)) \<and>
    locked_out kid (catalogue_chain Hash fail rows' raw) \<and>
    locked_out kid (fst (playground_chain Hash adm fail (Some rows') rps burst now raw bs))"
proof -
  have "distinct (map kr_id rows') \<and> revoked_in kid rows'"
    using assms(3,1,2) by (induction rule: rtranclp_induct) (auto dest: distinct_ids_step intro: revoked_step)
  then have d: "distinct (map kr_id rows')" and r: "revoked_in kid rows'" by auto
  have "locked_out kid (fst (v1_chain Hash fail (Some rows') rps burst now raw bs))"
    unfolding v1_chain_def option.case
    by (rule locked_out_then) (simp_all add: APIKeyAuth_locked [OF r d] locked_out_limited)
  moreover have "locked_out kid (fst (playground_chain Hash adm fail (Some rows') rps burst now raw bs))"
    unfolding playground_chain_def
  proof (rule locked_out_then [OF PlaygroundAuth_locked [OF r d]])
    fix ctx assume c: "locked_out kid (Admit ctx)"
    obtain v bs1 where l: "limited rps burst now bs ctx = (v, bs1)" by force
    have "locked_out kid v" using locked_out_limited [OF c, of rps burst now bs] l by simp
    from locked_out_then [OF this, of "\<lambda>ctx1. (PlaygroundGate ctx1, bs1)" bs1]
    show "locked_out kid (fst (case limited rps burst now bs ctx of (v, bs1) \<Rightarrow>
        then_verdict v (\<lambda>ctx1. (PlaygroundGate ctx1, bs1)) bs1))" by (simp add: l locked_out_gate)
  qed
  ultimately show ?thesis using APIKeyAuth_locked [OF r d] by (simp add: catalogue_chain_def)
qed

theorem revoked_key_locked_out_witness:
  "locked_out ''k'' (fst (v1_chain id None (Some (snd (ResumeKey None None 7 ''k'' demo_keys))) 5 10 0 ''Bearer k'' []))"
proof -
  have "distinct (map kr_id demo_keys)" "revoked_in ''k'' demo_keys"
    by (simp_all add: demo_keys_def RevokeKey_def key_update_checked_def sql_update_def revoked_in_def
        find_row_Cons insert_key_row_def demo_key_def)
  moreover have "key_step\<^sup>*\<^sup>* demo_keys (snd (ResumeKey None None 7 ''k'' demo_keys))"
    by (intro r_into_rtranclp ks_resume)
  ultimately show ?thesis using revoked_key_locked_out by blast
qed

section \<open>A minted key works, and only until it is rotated\<close>

lemma generated_parses: "length buf = 20 \<Longrightarrow> GenerateKey Hash (Ok buf) kind = Ok (plain, h) \<Longrightarrow> ParseKey Hash plain = Ok h"
  using Generate_then_Parse [of buf Hash kind] by auto

lemma created_rows:
  assumes "CreateKey fail now k rows = (Ok (), rows1)"
  shows "rows1 = rows @ [insert_key_row now k] \<and> (\<forall>r \<in> set rows. kr_id r \<noteq> k_ID k \<and> kr_key_hash r \<noteq> k_KeyHash k)"
  using assms by (auto simp: CreateKey_def Let_def split: option.splits if_splits)

lemma bearer_token_bearer [simp]: "bearer_token (CHR ''B'' # CHR ''e'' # CHR ''a'' # CHR ''r'' # CHR ''e'' # CHR ''r'' # CHR '' '' # t) = Some t"
  using bearer_token_Some [of "''Bearer '' @ t" t] by simp

lemma APIKeyAuth_bearer:
  "ParseKey Hash t = Ok h \<Longrightarrow> APIKeyAuth Hash fail rows optional (''Bearer '' @ t) ctx = key_lookup fail rows h ctx"
  by (simp add: APIKeyAuth_def)

lemma default_kind_idem: "defaultKind (defaultKind x) = defaultKind x"
  by (cases x) simp_all

text \<open>C15. The secret handed out when a key is created authenticates as that key, whichever kind
  it is of; after a rotation it is an unknown key and the new secret authenticates as
  the same key, provided the two hashes differ.\<close>

theorem minted_key_admitted:
  assumes "length buf = 20" "length buf2 = 20" "GenerateKey Hash (Ok buf) (k_Kind k) = Ok (plain, h)"
    "CreateKey None now (k\<lparr> k_KeyHash := h \<rparr>) rows = (Ok (), rows1)"
    "RotateKey None None Hash (Ok buf2) later (k_ID k) rows1 = (Ok plain2, rows2)"
    "Hash plain2 \<noteq> h" "k_Status k \<in> {KeyActive, KeyNoStatus}" "HasBudget k 0"
  shows "(\<exists>k1. APIKeyAuth Hash None rows1 optional (''Bearer '' @ plain) ctx = Admit (ctx\<lparr> cc_Key := Some k1 \<rparr>) \<and>
      k_ID k1 = k_ID k) \<and>
    APIKeyAuth Hash None rows2 optional (''Bearer '' @ plain) ctx = Refuse 401 ''invalid_api_key'' ''unknown key'' \<and>
    (\<exists>k2. APIKeyAuth Hash None rows2 optional (''Bearer '' @ plain2) ctx = Admit (ctx\<lparr> cc_Key := Some k2 \<rparr>) \<and>
      k_ID k2 = k_ID k)"
proof -
  let ?row = "insert_key_row now (k\<lparr> k_KeyHash := h \<rparr>)"
  have rows1: "rows1 = rows @ [?row]" and fresh: "\<forall>r \<in> set rows. kr_id r \<noteq> k_ID k" "\<forall>r \<in> set rows. kr_key_hash r \<noteq> h"
    using created_rows [OF assms(4)] by auto
  have p1: "ParseKey Hash plain = Ok h" using generated_parses assms(1,3) by blast
  have none: "find_row kr_key_hash h rows = None" "find_row kr_id (k_ID k) rows = None"
    using fresh by (auto simp: find_row_None_iff keys_of_def)
  have row: "kr_id ?row = k_ID k" "kr_key_hash ?row = h" by (simp_all add: insert_key_row_def)
  have find1: "find_row kr_key_hash h rows1 = Some ?row" "find_row kr_id (k_ID k) rows1 = Some ?row"
    using none row by (simp_all add: rows1 find_row_append find_row_Cons)
  obtain h2 where g2: "GenerateKey Hash (Ok buf2) (defaultKind (k_Kind k)) = Ok (plain2, h2)"
    and new2: "\<forall>r \<in> set rows1. kr_key_hash r = h2 \<longrightarrow> kr_id r = k_ID k"
    and rows2: "rows2 = sql_update (\<lambda>r. kr_id r = k_ID k)
        (\<lambda>r. r\<lparr> kr_key_hash := h2, kr_key_last4 := Last4 plain2, kr_updated_at := fmtTime (Some later) \<rparr>) rows1"
    using assms(5) find1(2)
    by (auto simp: RotateKey_def GetKey_def scanAPIKey_def key_of_row_def insert_key_row_def default_kind_idem
        split: sum.splits if_splits prod.splits)
  let ?row2 = "?row\<lparr> kr_key_hash := h2, kr_key_last4 := Last4 plain2, kr_updated_at := fmtTime (Some later) \<rparr>"
  have rows2': "rows2 = rows @ [?row2]"
    using fresh row(1) by (auto simp: rows2 rows1 sql_update_def intro!: map_idI)
  have p2: "ParseKey Hash plain2 = Ok h2" using generated_parses assms(2) g2 by blast
  have "h2 = Hash plain2" using g2 by (auto simp: GenerateKey_def Let_def)
  then have ne: "h2 \<noteq> h" using assms(6) by simp
  have none2: "find_row kr_key_hash h2 rows = None"
    using new2 fresh by (auto simp: find_row_None_iff keys_of_def rows1)
  have find2: "find_row kr_key_hash h rows2 = None" "find_row kr_key_hash h2 rows2 = Some ?row2"
    using none(1) none2 ne by (simp_all add: rows2' find_row_append find_row_Cons find_row_Nil)
  have act: "kr_status ?row = KeyActive" "HasBudget (key_of_row ?row) 0" "HasBudget (key_of_row ?row2) 0"
    using assms(7,8) by (auto simp: insert_key_row_def defaultStatus_def key_of_row_def HasBudget_def)
  have "key_lookup None rows1 h ctx = Admit (ctx\<lparr> cc_Key := Some (key_of_row ?row) \<rparr>)"
    using find1(1) act by (simp add: key_lookup_Admit)
  moreover have "key_lookup None rows2 h2 ctx = Admit (ctx\<lparr> cc_Key := Some (key_of_row ?row2) \<rparr>)"
    using find2(2) act by (simp add: key_lookup_Admit)
  moreover have "key_lookup None rows2 h ctx = Refuse 401 ''invalid_api_key'' ''unknown key''"
    using find2(1) by (simp add: key_lookup_def GetByHash_def scanAPIKey_def)
  moreover have "k_ID (key_of_row ?row) = k_ID k" "k_ID (key_of_row ?row2) = k_ID k"
    using row by (simp_all add: key_of_row_def)
  ultimately show ?thesis using APIKeyAuth_bearer [OF p1] APIKeyAuth_bearer [OF p2] by metis
qed

definition minted_plain :: "nat \<Rightarrow> string" where
  "minted_plain b = ProjectPrefix @ hexEncode (replicate 20 b)"

theorem minted_key_admitted_witness:
  "\<exists>rows1 rows2. CreateKey None 7 ((demo_key ''k'')\<lparr> k_KeyHash := minted_plain 1 \<rparr>) [] = (Ok (), rows1) \<and>
    RotateKey None None id (Ok (replicate 20 2)) 8 ''k'' rows1 = (Ok (minted_plain 2), rows2) \<and>
    APIKeyAuth id None rows2 False (''Bearer '' @ minted_plain 1) fresh_ctx = Refuse 401 ''invalid_api_key'' ''unknown key''"
proof -
  let ?k = "demo_key ''k''"
  let ?row = "insert_key_row 7 (?k\<lparr> k_KeyHash := minted_plain 1 \<rparr>)"
  have g: "GenerateKey id (Ok (replicate 20 1)) (k_Kind ?k) = Ok (minted_plain 1, minted_plain 1)"
    by (simp add: GenerateKey_def demo_key_def minted_plain_def Let_def)
  have c: "CreateKey None 7 (?k\<lparr> k_KeyHash := minted_plain 1 \<rparr>) [] = (Ok (), [?row])"
    by (simp add: CreateKey_def)
  have ne: "minted_plain 2 \<noteq> minted_plain 1"
  proof -
    have "hexEncode (replicate (Suc n) 2) \<noteq> hexEncode (replicate (Suc n) 1)" for n
      by (simp add: KeyStore.hex_digit_def hex_digits_def)
    from this [of 19] show ?thesis by (simp add: minted_plain_def)
  qed
  have "\<exists>rows2. RotateKey None None id (Ok (replicate 20 2)) 8 ''k'' [?row] = (Ok (minted_plain 2), rows2)"
    by (simp add: RotateKey_def GetKey_def scanAPIKey_def find_row_Cons insert_key_row_def demo_key_def key_of_row_def
        GenerateKey_def minted_plain_def rows_affected_def Let_def)
  then obtain rows2 where r: "RotateKey None None id (Ok (replicate 20 2)) 8 (k_ID ?k) [?row] = (Ok (minted_plain 2), rows2)"
    by (auto simp: demo_key_def)
  have "k_Status ?k \<in> {KeyActive, KeyNoStatus}" "HasBudget ?k 0" by (simp_all add: demo_key_def HasBudget_def)
  from minted_key_admitted [OF _ _ g c r _ this, of False fresh_ctx] ne c r show ?thesis
    by (auto simp: demo_key_def)
qed

end
