(* ===== verification/Refresher.thy ===== *)
theory Refresher
  imports CostCatalog ClientProps World
begin

text \<open>
  Three of the background loops, as the pass each tick runs: \<open>core/refresher/refresher.go\<close>
  brings the accounts' balances and entitlements up to date, \<open>core/claimer/claimer.go\<close>
  claims gifts and activations, \<open>core/monthreset/monthreset.go\<close> clears the monthly
  counters.  The accounts of a pass are refreshed by concurrent goroutines in the code
  and one after the other here: each works on its own account's rows.  Log lines are
  left out.
\<close>

section \<open>Entitlements\<close>

definition plan_of_string :: "string \<Rightarrow> plan" where
  "plan_of_string s = (case map_of [('''', PlanEmpty), (''free'', PlanFree), (''starter'', PlanStarter), (''basic'', PlanBasic),
     (''pro'', PlanPro), (''plus'', PlanPlus), (''ultimate'', PlanUltimate), (''team'', PlanTeam),
     (''ultra'', PlanUltra), (''scale'', PlanScale), (''creator'', PlanCreator), (''enterprise'', PlanEnt)] s of
     Some p \<Rightarrow> p | None \<Rightarrow> PlanOther s)"

definition parsePlanEndsAt :: "string \<Rightarrow> gotime" where
  "parsePlanEndsAt s =
     (if s = '''' then None
      else case parse_rfc3339 s of None \<Rightarrow> None | Some t \<Rightarrow> if t = zero_instant then None else Some t)"

definition freeGensV2Field :: "string \<Rightarrow> string option" where
  "freeGensV2Field jst = map_of [
     (''text2image_soul_v2'', ''soul_credits''), (''text2image_soul'', ''soul_credits''),
     (''soul_cinematic'', ''soul_credits''), (''soul_location'', ''soul_credits''),
     (''soul_location_edit'', ''soul_credits''), (''soul_cast_edit'', ''soul_credits''),
     (''soul_cinema_studio'', ''soul_credits''),
     (''qwen_camera_control'', ''qwen_camera_control_credits''),
     (''wan2_5_video'', ''wan2_5_video_credits''), (''wan2_5_speak'', ''wan2_5_video_credits'')] jst"

text \<open>The counters that go to one column, and the largest of them; the order of the walk
  over the Go map does not matter to it.\<close>

fun max_counter :: "string \<Rightarrow> (string \<times> rat) list \<Rightarrow> rat option" where
  "max_counter field [] = None"
| "max_counter field ((jst, counter) # rest) =
     (if freeGensV2Field jst = Some field
      then (case max_counter field rest of None \<Rightarrow> Some counter | Some m \<Rightarrow> Some (max counter m))
      else max_counter field rest)"

definition overlay :: "string \<Rightarrow> (string \<times> rat) list \<Rightarrow> rat \<Rightarrow> rat" where
  "overlay field v2 old = (case max_counter field v2 of None \<Rightarrow> old | Some m \<Rightarrow> m)"

definition reconcileFreeGensV2 :: "(string \<times> rat) list \<Rightarrow> free_quota \<Rightarrow> free_quota" where
  "reconcileFreeGensV2 v2 q = q\<lparr>
     fq_SoulCredits := overlay ''soul_credits'' v2 (fq_SoulCredits q),
     fq_QwenCameraControlCredits := overlay ''qwen_camera_control_credits'' v2 (fq_QwenCameraControlCredits q),
     fq_Wan25VideoCredits := overlay ''wan2_5_video_credits'' v2 (fq_Wan25VideoCredits q) \<rparr>"

definition entitlements_of :: "user_snapshot \<Rightarrow> entitlement_update" where
  "entitlements_of u = \<lparr>
     eu_PlanType = plan_of_string (us_PlanType u), eu_HasUnlim = us_HasUnlim u,
     eu_HasFlexUnlim = us_HasFlexUnlim u, eu_IsProVeo3Available = us_IsProVeo3Available u,
     eu_Cohort = us_Cohort u, eu_TotalPlanCredits = hundredths (us_TotalPlanCredits u),
     eu_PlanEndsAt = parsePlanEndsAt (us_PlanEndsAt u) \<rparr>"

definition status_of_user :: "user_snapshot \<Rightarrow> upstream_status_update" where
  "status_of_user u = upstream_status_update.make (user_snapshot.us_BlockedAt u) (user_snapshot.us_SuspendedAt u)
     (user_snapshot.us_IsPaused u \<or> us_IsPauseScheduled u)"

section \<open>Refreshing one account\<close>

datatype refresh_write = RwBalance | RwEntitlements | RwFreeQuota | RwStatus | RwGrace

record refresher =
  rf_Env :: env
  rf_Client :: client
  rf_Failover :: "controller option option"
  rf_FreeGensV2Enabled :: bool

record refresh_faults =
  rx_Write :: "refresh_write \<Rightarrow> gerror option"
  rx_Replace :: "replace_step \<Rightarrow> gerror option"
  rx_Failover :: failover_faults

definition no_refresh_faults :: refresh_faults where
  "no_refresh_faults = \<lparr> rx_Write = (\<lambda>_. None), rx_Replace = (\<lambda>_. None), rx_Failover = (\<lambda>_. None) \<rparr>"

type_synonym sys = "db \<times> client_state"

definition clock :: "refresher \<Rightarrow> client_state \<Rightarrow> int" where
  "clock r s = ev_Now (rf_Env r) (cs_History s)"

text \<open>A failed fetch is handed to the failover controller, when one is wired.\<close>

definition report :: "refresher \<Rightarrow> refresh_faults \<Rightarrow> account \<Rightarrow> gerror \<Rightarrow> client_state \<Rightarrow> db \<Rightarrow> db" where
  "report r flt acc e s d = (case rf_Failover r of
     None \<Rightarrow> d
   | Some c \<Rightarrow> on_failover (RecordError (rx_Failover flt) c (clock r s) (a_ID acc) (Some e) (err_text e)) d)"

definition refresh_balance :: "refresher \<Rightarrow> refresh_faults \<Rightarrow> account \<Rightarrow> sys \<Rightarrow> sys" where
  "refresh_balance r flt acc ds = (case ds of (d, s) \<Rightarrow>
     case FetchWallet (rf_Env r) (rf_Client r) acc s of
       (Inl e, s1) \<Rightarrow> (report r flt acc e s1 d, s1)
     | (Inr w, s1) \<Rightarrow> (d\<lparr> db_accounts := snd (UpdateBalance (rx_Write flt RwBalance) (clock r s1) (a_ID acc)
         (wa_SubscriptionBalance w) (wa_CreditsBalance w) (wa_TotalCredits w) (db_accounts d)) \<rparr>, s1))"

definition refresh_quota :: "refresher \<Rightarrow> refresh_faults \<Rightarrow> account \<Rightarrow> user_snapshot \<Rightarrow> sys \<Rightarrow> sys" where
  "refresh_quota r flt acc u ds = (case ds of (d, s) \<Rightarrow>
     case (if rf_FreeGensV2Enabled r
           then (case FetchFreeGensV2 (rf_Env r) (rf_Client r) acc s of
              (Inl e, s1) \<Rightarrow> (us_FreeQuota u, s1)
            | (Inr v2, s1) \<Rightarrow> (reconcileFreeGensV2 v2 (us_FreeQuota u), s1))
           else (us_FreeQuota u, s)) of
       (q, s1) \<Rightarrow> (d\<lparr> db_accounts := snd (UpdateFreeQuota (rx_Write flt RwFreeQuota) (a_ID acc) q (db_accounts d)) \<rparr>, s1))"

definition refresh_unlims :: "refresher \<Rightarrow> refresh_faults \<Rightarrow> account \<Rightarrow> sys \<Rightarrow> sys" where
  "refresh_unlims r flt acc ds = (case ds of (d, s) \<Rightarrow>
     case FetchUnlimActivations (rf_Env r) (rf_Client r) acc s of
       (Inl e, s1) \<Rightarrow> (d, s1)
     | (Inr acts, s1) \<Rightarrow> (d\<lparr> db_unlims := snd (ReplaceUnlimActivations (rx_Replace flt) (clock r s1) (a_ID acc) acts
         (db_accounts d) (db_unlims d)) \<rparr>, s1))"

definition refresh_status :: "refresh_faults \<Rightarrow> account \<Rightarrow> user_snapshot \<Rightarrow> sys \<Rightarrow> sys" where
  "refresh_status flt acc u ds = (case ds of (d, s) \<Rightarrow>
     (d\<lparr> db_accounts := snd (UpdateUpstreamStatus (rx_Write flt RwStatus) (a_ID acc) (status_of_user u) (db_accounts d)) \<rparr>, s))"

definition refresh_grace :: "refresher \<Rightarrow> refresh_faults \<Rightarrow> account \<Rightarrow> sys \<Rightarrow> sys" where
  "refresh_grace r flt acc ds = (case ds of (d, s) \<Rightarrow>
     case FetchWorkspaceNotice (rf_Env r) (rf_Client r) acc s of
       (Inl e, s1) \<Rightarrow> (d, s1)
     | (Inr raw, s1) \<Rightarrow> (d\<lparr> db_accounts := snd (UpdateGraceStatus (rx_Write flt RwGrace) (a_ID acc)
         (NormalizeNoticeStatus raw) (db_accounts d)) \<rparr>, s1))"

definition refreshOne :: "refresher \<Rightarrow> refresh_faults \<Rightarrow> account \<Rightarrow> sys \<Rightarrow> sys" where
  "refreshOne r flt acc ds0 = (case refresh_balance r flt acc ds0 of (d, s) \<Rightarrow>
     case FetchUser (rf_Env r) (rf_Client r) acc s of
       (Inl e, s1) \<Rightarrow> (report r flt acc e s1 d, s1)
     | (Inr u, s1) \<Rightarrow>
        (case UpdateEntitlements (rx_Write flt RwEntitlements) (a_ID acc) (entitlements_of u) (db_accounts d) of
           (Inl e, rows) \<Rightarrow> (d\<lparr> db_accounts := rows \<rparr>, s1)
         | (Inr _, rows) \<Rightarrow>
             refresh_grace r flt acc (refresh_status flt acc u (refresh_unlims r flt acc
               (refresh_quota r flt acc u (d\<lparr> db_accounts := rows \<rparr>, s1))))))"

definition active_filter :: account_filter where
  "active_filter = \<lparr> af_Status = StatusActive, af_PlanType = PlanEmpty, af_GroupID = '''', af_MinBalance = 0,
     af_HasUnlim = None, af_Since = None \<rparr>"

text \<open>A tick: every account that was active when the list was read.\<close>

definition refresh_tick :: "refresher \<Rightarrow> gerror option \<Rightarrow> (string \<Rightarrow> refresh_faults) \<Rightarrow> sys \<Rightarrow> sys" where
  "refresh_tick r failList flt ds = (case ListAccounts failList active_filter (db_accounts (fst ds)) of
     Inl e \<Rightarrow> ds
   | Inr accs \<Rightarrow> fold (\<lambda>acc. refreshOne r (flt (a_ID acc)) acc) accs ds)"

section \<open>Claiming\<close>

fun claim_gift_list :: "env \<Rightarrow> client \<Rightarrow> account \<Rightarrow> gift list \<Rightarrow> client_state \<Rightarrow> client_state" where
  "claim_gift_list v c acc [] s = s"
| "claim_gift_list v c acc (g # gs) s =
     (if gf_Claimed g \<or> gf_ID g = '''' then claim_gift_list v c acc gs s
      else claim_gift_list v c acc gs (snd (ClaimGift v c acc (gf_ID g) s)))"

definition claimGifts :: "env \<Rightarrow> client \<Rightarrow> account \<Rightarrow> client_state \<Rightarrow> client_state" where
  "claimGifts v c acc s = (case FetchGifts v c acc s of
     (Inl e, s1) \<Rightarrow> s1 | (Inr gifts, s1) \<Rightarrow> claim_gift_list v c acc gifts s1)"

text \<open>The activations to claim: unclaimed, each identifier once, with its first type.\<close>

fun to_claim :: "string list \<Rightarrow> unlim_activation list \<Rightarrow> (string \<times> string) list" where
  "to_claim seen [] = []"
| "to_claim seen (a # as) =
     (if ua_IsClaimed a \<or> ua_ID a = '''' \<or> ua_JobSetType a = '''' then to_claim seen as
      else if ua_ID a \<in> set seen then to_claim seen as
      else (ua_ID a, ua_JobSetType a) # to_claim (ua_ID a # seen) as)"

definition claimUnlimActivations :: "env \<Rightarrow> client \<Rightarrow> account \<Rightarrow> client_state \<Rightarrow> client_state" where
  "claimUnlimActivations v c acc s = (case FetchUnlimActivations v c acc s of
     (Inl e, s1) \<Rightarrow> s1
   | (Inr acts, s1) \<Rightarrow> fold (\<lambda>(aid, jst) st. snd (ClaimUnlimActivation v c acc aid jst st)) (to_claim [] acts) s1)"

definition claimOne :: "env \<Rightarrow> client \<Rightarrow> account \<Rightarrow> client_state \<Rightarrow> client_state" where
  "claimOne v c acc s = claimUnlimActivations v c acc (claimGifts v c acc s)"

definition claim_pass :: "env \<Rightarrow> client \<Rightarrow> gerror option \<Rightarrow> accounts \<Rightarrow> client_state \<Rightarrow> client_state" where
  "claim_pass v c failList rows s = (case ListAccounts failList active_filter rows of
     Inl e \<Rightarrow> s | Inr accs \<Rightarrow> fold (claimOne v c) accs s)"

section \<open>The monthly reset\<close>

definition calendarGrace :: int where "calendarGrace = 300 * nanos"

definition monthOf :: "int \<Rightarrow> int \<times> int" where
  "monthOf t = (case civil (day_of t) of (y, m, d) \<Rightarrow> (y, m))"

definition nextMonthBoundary :: "int \<Rightarrow> int" where
  "nextMonthBoundary t = (case civil (day_of t) of (y, m, d) \<Rightarrow>
     (if m = 12 then days_from_civil (y + 1) 1 1 else days_from_civil y (m + 1) 1) * day_ns)"

text \<open>How long the calendar loop sleeps before its next reset.\<close>

definition calendar_wait :: "int \<Rightarrow> int" where
  "calendar_wait now = max 0 (nextMonthBoundary now + calendarGrace - now)"

definition resetAll :: "gerror option \<Rightarrow> (string \<Rightarrow> gerror option) \<Rightarrow> int \<Rightarrow> keys \<Rightarrow> keys" where
  "resetAll failList fail now rows = (case ListKeys failList rows of
     Inl e \<Rightarrow> rows
   | Inr ks \<Rightarrow> fold (\<lambda>k rs. snd (ResetMonthlyUsage (fail (k_ID k)) now (k_ID k) rs)) ks rows)"

text \<open>One wake of the polling loop: a reset when the month is not the last one handled.\<close>

definition polling_wake ::
  "gerror option \<Rightarrow> (string \<Rightarrow> gerror option) \<Rightarrow> int \<Rightarrow> (int \<times> int) \<times> keys \<Rightarrow> (int \<times> int) \<times> keys" where
  "polling_wake failList fail now st = (case st of (handled, rows) \<Rightarrow>
     if monthOf now = handled then (handled, rows) else (monthOf now, resetAll failList fail now rows))"

section \<open>A refresh stays within its account\<close>

definition only_touches :: "string \<Rightarrow> accounts \<Rightarrow> accounts \<Rightarrow> bool" where
  "only_touches acct rows rows' \<longleftrightarrow> list_all2 (\<lambda>r r'. r' = r \<or>
     ar_id r = acct \<and> ar_id r' = acct \<and> ar_in_flight_jobs r' = ar_in_flight_jobs r) rows rows'"

named_theorems touch

lemma touches_refl [touch]: "only_touches acct rows rows"
  by (simp add: only_touches_def list_all2_refl)

lemma touches_trans: "only_touches acct a b \<Longrightarrow> only_touches acct b c \<Longrightarrow> only_touches acct a c"
  unfolding only_touches_def by (rule list_all2_trans, rotate_tac 2) auto

lemma touches_update:
  "(\<And>r. ar_id (f r) = ar_id r) \<Longrightarrow> (\<And>r. ar_in_flight_jobs (f r) = ar_in_flight_jobs r) \<Longrightarrow>
   only_touches acct rows (sql_update (\<lambda>r. ar_id r = acct) f rows)"
  by (induction rows) (auto simp: only_touches_def sql_update_def)

lemma touches_update_more:
  "(\<And>r. ar_id (f r) = ar_id r) \<Longrightarrow> (\<And>r. ar_in_flight_jobs (f r) = ar_in_flight_jobs r) \<Longrightarrow>
   only_touches acct rows (sql_update (\<lambda>r. ar_id r = acct \<and> Q r) f rows)"
  by (induction rows) (auto simp: only_touches_def sql_update_def)

lemma touches_checked:
  assumes "\<And>r. ar_id (f r) = ar_id r" "\<And>r. ar_in_flight_jobs (f r) = ar_in_flight_jobs r"
  shows "only_touches acct rows (snd (update_checked fail acct f rows))"
  using update_checked_cases [of fail acct f rows "fst (update_checked fail acct f rows)"
      "snd (update_checked fail acct f rows)"] touches_update [of f, OF assms] touches_refl by fastforce

lemma touches_writes [touch]:
  "only_touches acct rows (snd (MarkStatus fail now acct st reason rows))"
  "only_touches acct rows (snd (MarkThrottled fail now acct til reason rows))"
  "only_touches acct rows (snd (ResetFailStreak fail acct rows))"
  "only_touches acct rows (snd (IncrFailStreak fail now acct rows))"
  "only_touches acct rows (snd (UpdateBalance fail now acct a b c rows))"
  "only_touches acct rows (snd (UpdateEntitlements fail acct e rows))"
  "only_touches acct rows (snd (UpdateFreeQuota fail acct q rows))"
  "only_touches acct rows (snd (UpdateUpstreamStatus fail acct u rows))"
  "only_touches acct rows (snd (UpdateGraceStatus fail acct g rows))"
  by (cases st; simp add: MarkStatus_def MarkThrottled_def ResetFailStreak_def touches_checked)
     (auto simp: MarkThrottled_def ResetFailStreak_def IncrFailStreak_def UpdateBalance_def UpdateEntitlements_def
       UpdateFreeQuota_def UpdateUpstreamStatus_def UpdateGraceStatus_def Let_def
       intro!: touches_checked touches_update touches_refl split: option.split)

lemma touches_disable [touch]:
  "only_touches acct (fs_accounts st) (fs_accounts (disable_account flt c now acct reason st))"
proof -
  let ?st = "add_event (flt FoDisableInsert) c now acct EventFailure reason 0 st"
  obtain res rows where m: "MarkStatus (flt FoMarkStatus) now acct StatusDisabled reason (fs_accounts ?st) = (res, rows)"
    by (cases "MarkStatus (flt FoMarkStatus) now acct StatusDisabled reason (fs_accounts ?st)")
  have "only_touches acct (fs_accounts ?st) rows"
    using touches_writes(1) [of acct "fs_accounts ?st" "flt FoMarkStatus" now StatusDisabled reason] m by simp
  then show ?thesis using m by (cases res) (simp_all add: disable_account_def Let_def touches_refl)
qed

lemma touches_RecordFailure [touch]:
  "only_touches acct (fs_accounts st) (fs_accounts (RecordFailure flt copt now acct http st))"
proof (cases copt)
  case None
  then show ?thesis by (simp add: RecordFailure_def touches_refl)
next
  case (Some c)
  obtain res rows where i: "IncrFailStreak (flt FoIncr) now acct (fs_accounts st) = (res, rows)"
    by (cases "IncrFailStreak (flt FoIncr) now acct (fs_accounts st)")
  have v: "only_touches acct (fs_accounts st) rows"
    using touches_writes(4) [of acct "fs_accounts st" "flt FoIncr" now] i by simp
  have "only_touches acct rows (fs_accounts (disable_account flt c now acct reason st1))" if "fs_accounts st1 = rows" for reason st1
    using touches_disable [of acct st1 flt c now reason] that by simp
  then show ?thesis
    using i v touches_trans [OF v] by (cases res) (auto simp: RecordFailure_def Some Let_def touches_refl)
qed

lemma touches_RecordThrottle [touch]:
  "only_touches acct (fs_accounts st) (fs_accounts (RecordThrottle flt copt now acct body st))"
proof (cases copt)
  case None
  then show ?thesis by (simp add: RecordThrottle_def touches_refl)
next
  case (Some c)
  let ?cfg = "resolve_config (flt FoOverride) copt acct (fs_overrides st)"
  let ?til = "Some (now + wrap64 (rc_CooldownSec ?cfg * nanos))"
  obtain res rows where i: "MarkThrottled (flt FoMarkThrottled) now acct ?til ReasonThrottle (fs_accounts st) = (res, rows)"
    by (cases "MarkThrottled (flt FoMarkThrottled) now acct ?til ReasonThrottle (fs_accounts st)")
  have v: "only_touches acct (fs_accounts st) rows"
    using touches_writes(2) [of acct "fs_accounts st" "flt FoMarkThrottled" now ?til ReasonThrottle] i by simp
  have "only_touches acct rows (fs_accounts (disable_account flt c now acct reason st1))" if "fs_accounts st1 = rows" for reason st1
    using touches_disable [of acct st1 flt c now reason] that by simp
  then show ?thesis
    using i v touches_trans [OF v] unfolding Some
    by (cases res) (auto simp: RecordThrottle_def Let_def touches_refl split: sum.split)
qed

lemma touches_RecordError [touch]:
  "only_touches acct (fs_accounts st) (fs_accounts (RecordError flt copt now acct eopt body st))"
  by (simp add: RecordError_def touch split: classification.split)

definition within_account :: "string \<Rightarrow> db \<Rightarrow> db \<Rightarrow> bool" where
  "within_account acct d d' \<longleftrightarrow> only_touches acct (db_accounts d) (db_accounts d') \<and>
     filter (\<lambda>u. ur_account_id u \<noteq> acct) (db_unlims d') = filter (\<lambda>u. ur_account_id u \<noteq> acct) (db_unlims d) \<and>
     db_members d' = db_members d \<and> db_groups d' = db_groups d \<and> db_bindings d' = db_bindings d \<and>
     db_keys d' = db_keys d \<and> db_jobs d' = db_jobs d \<and> db_usages d' = db_usages d \<and>
     db_settings d' = db_settings d \<and> db_fired d' = db_fired d \<and> db_observed d' = db_observed d"

lemma within_refl: "within_account acct d d"
  by (simp add: within_account_def touches_refl)

lemma within_trans: "within_account acct a b \<Longrightarrow> within_account acct b c \<Longrightarrow> within_account acct a c"
  by (auto simp: within_account_def intro: touches_trans)

lemma within_accounts:
  "only_touches acct (db_accounts d) rows \<Longrightarrow> within_account acct d (d\<lparr> db_accounts := rows \<rparr>)"
  by (simp add: within_account_def)

lemma on_failover_frame_more [simp]:
  "db_bindings (on_failover f d) = db_bindings d" "db_observed (on_failover f d) = db_observed d"
  by (simp_all add: on_failover_def Let_def)

lemma within_report: "within_account (a_ID acc) d (report r flt acc e s d)"
  using touches_RecordError [of "a_ID acc" "fstate_of d"]
  by (auto simp: report_def within_account_def touches_refl split: option.split)

lemma insert_activations_others:
  "insert_activations fail now acct rows acts us = Ok us' \<Longrightarrow>
   filter (\<lambda>u. ur_account_id u \<noteq> acct) us' = filter (\<lambda>u. ur_account_id u \<noteq> acct) us"
  by (induction acts arbitrary: us) (auto simp: Let_def unlim_row_of_def split: option.splits if_splits)

lemma within_replace:
  "within_account acct d (d\<lparr> db_unlims := snd (ReplaceUnlimActivations flt now acct acts rows (db_unlims d)) \<rparr>)"
proof -
  have del: "filter (\<lambda>u. ur_account_id u \<noteq> acct) (sql_delete (\<lambda>u. ur_account_id u = acct) us) =
      filter (\<lambda>u. ur_account_id u \<noteq> acct) us" for us
    by (induction us) (auto simp: sql_delete_def)
  show ?thesis
    by (auto simp: within_account_def touches_refl ReplaceUnlimActivations_def del
        dest!: insert_activations_others split: option.split sum.split)
qed

lemma within_steps:
  "within_account (a_ID acc) (fst ds) (fst (refresh_balance r flt acc ds))"
  "within_account (a_ID acc) (fst ds) (fst (refresh_quota r flt acc u ds))"
  "within_account (a_ID acc) (fst ds) (fst (refresh_unlims r flt acc ds))"
  "within_account (a_ID acc) (fst ds) (fst (refresh_status flt acc u ds))"
  "within_account (a_ID acc) (fst ds) (fst (refresh_grace r flt acc ds))"
  by (auto simp: refresh_balance_def refresh_quota_def refresh_unlims_def refresh_status_def refresh_grace_def
      within_report touch within_refl within_replace intro!: within_accounts split: prod.split sum.split)

text \<open>Refreshing an account, whatever the upstream answers and whichever writes fail, changes
  no row of another account, no slot count of any account, and no table but the
  accounts, the activations of the same account and what failover records.\<close>

theorem refresh_isolated: "within_account (a_ID acc) (fst ds) (fst (refreshOne r flt acc ds))"
proof -
  obtain d s where b: "refresh_balance r flt acc ds = (d, s)" by force
  have b1: "within_account (a_ID acc) (fst ds) d" using within_steps(1) [of acc ds r flt] b by simp
  obtain res s1 where u: "FetchUser (rf_Env r) (rf_Client r) acc s = (res, s1)" by force
  show ?thesis
  proof (cases res)
    case (Inl e)
    then show ?thesis using b u within_trans [OF b1 within_report] by (simp add: refreshOne_def)
  next
    case (Inr us)
    obtain eres rows where e: "UpdateEntitlements (rx_Write flt RwEntitlements) (a_ID acc) (entitlements_of us) (db_accounts d) = (eres, rows)"
      by force
    have "only_touches (a_ID acc) (db_accounts d) rows"
      using touches_writes(6) [of "a_ID acc" "db_accounts d" "rx_Write flt RwEntitlements" "entitlements_of us"] e by simp
    then have e1: "within_account (a_ID acc) (fst ds) (d\<lparr> db_accounts := rows \<rparr>)"
      using within_trans [OF b1] within_accounts by blast
    show ?thesis
    proof (cases eres)
      case (Inl x)
      then show ?thesis using b u e e1 Inr by (simp add: refreshOne_def)
    next
      case ok: (Inr x)
      let ?ds1 = "refresh_quota r flt acc us (d\<lparr> db_accounts := rows \<rparr>, s1)"
      let ?ds2 = "refresh_unlims r flt acc ?ds1" let ?ds3 = "refresh_status flt acc us ?ds2"
      have "within_account (a_ID acc) (fst ds) (fst ?ds1)"
        using within_trans [OF e1] within_steps(2) [of acc "(d\<lparr> db_accounts := rows \<rparr>, s1)" r flt us] by simp
      then have "within_account (a_ID acc) (fst ds) (fst ?ds2)" using within_trans within_steps(3) by blast
      then have "within_account (a_ID acc) (fst ds) (fst ?ds3)" using within_trans within_steps(4) by blast
      then have "within_account (a_ID acc) (fst ds) (fst (refresh_grace r flt acc ?ds3))"
        using within_trans within_steps(5) by blast
      then show ?thesis using b u e Inr ok by (simp add: refreshOne_def)
    qed
  qed
qed

section \<open>What a refresh that meets no failure leaves behind\<close>

definition refreshed_row :: "int \<Rightarrow> wallet \<Rightarrow> user_snapshot \<Rightarrow> (string \<times> rat) list \<Rightarrow> string \<Rightarrow> account_row \<Rightarrow> account_row" where
  "refreshed_row now w u v2 notice row = row\<lparr>
     ar_subscription_balance := wa_SubscriptionBalance w, ar_credits_balance := wa_CreditsBalance w,
     ar_last_balance_at := fmtTime (Some now),
     ar_plan_type := plan_of_string (us_PlanType u), ar_has_unlim := boolToInt (us_HasUnlim u),
     ar_has_flex_unlim := boolToInt (us_HasFlexUnlim u), ar_is_pro_veo3_available := boolToInt (us_IsProVeo3Available u),
     ar_cohort := Some (us_Cohort u), ar_total_plan_credits := hundredths (us_TotalPlanCredits u),
     ar_plan_ends_at := fmtTime (parsePlanEndsAt (us_PlanEndsAt u)),
     ar_free_quota := reconcileFreeGensV2 v2 (us_FreeQuota u),
     ar_blocked_at := user_snapshot.us_BlockedAt u, ar_suspended_at := user_snapshot.us_SuspendedAt u,
     ar_is_paused := boolToInt (user_snapshot.us_IsPaused u \<or> us_IsPauseScheduled u),
     ar_grace_status := NormalizeNoticeStatus notice \<rparr>"

lemma find_row_checked:
  "find_row ar_id acct rows = Some row \<Longrightarrow> (\<And>r. ar_id (f r) = ar_id r) \<Longrightarrow>
   find_row ar_id acct (snd (update_checked None acct f rows)) = Some (f row) \<and>
   fst (update_checked None acct f rows) = Ok ()"
  by (simp add: update_checked_ok find_row_ar_same [where f = f])

text \<open>C27. A refresh whose five reads succeed and whose writes succeed leaves in the account's row
  exactly what the wallet, the user, the free-generation counters and the notice said;
  the total of the plan is the one of the user, the one of the wallet written before it
  being lost.\<close>

theorem refresh_spec:
  assumes "FetchWallet (rf_Env r) (rf_Client r) acc s = (Ok w, s1)"
    "FetchUser (rf_Env r) (rf_Client r) acc s1 = (Ok u, s2)" "rf_FreeGensV2Enabled r"
    "FetchFreeGensV2 (rf_Env r) (rf_Client r) acc s2 = (Ok v2, s3)"
    "FetchUnlimActivations (rf_Env r) (rf_Client r) acc s3 = (Ok acts, s4)"
    "FetchWorkspaceNotice (rf_Env r) (rf_Client r) acc s4 = (Ok notice, s5)"
    "rx_Write flt = (\<lambda>_. None)" "find_row ar_id (a_ID acc) (db_accounts d) = Some row"
  shows "find_row ar_id (a_ID acc) (db_accounts (fst (refreshOne r flt acc (d, s)))) =
      Some (refreshed_row (clock r s1) w u v2 notice row) \<and>
    snd (refreshOne r flt acc (d, s)) = s5"
proof -
  let ?id = "a_ID acc"
  let ?bal = "\<lambda>r0. r0\<lparr> ar_subscription_balance := wa_SubscriptionBalance w, ar_credits_balance := wa_CreditsBalance w,
     ar_total_plan_credits := wa_TotalCredits w, ar_last_balance_at := fmtTime (Some (clock r s1)) \<rparr>"
  define rows1 where "rows1 = sql_update (\<lambda>r0. ar_id r0 = ?id) ?bal (db_accounts d)"
  have f1: "find_row ar_id ?id rows1 = Some (?bal row)"
    using assms(8) by (simp add: rows1_def find_row_ar_same [where f = ?bal])
  have b: "refresh_balance r flt acc (d, s) = (d\<lparr> db_accounts := rows1 \<rparr>, s1)"
    using assms(1,7) by (simp add: refresh_balance_def UpdateBalance_def rows1_def)
  obtain rows2 where e: "UpdateEntitlements None ?id (entitlements_of u) rows1 = (Ok (), rows2)"
    and f2: "find_row ar_id ?id rows2 = Some ((?bal row)\<lparr> ar_plan_type := plan_of_string (us_PlanType u),
      ar_has_unlim := boolToInt (us_HasUnlim u), ar_has_flex_unlim := boolToInt (us_HasFlexUnlim u),
      ar_is_pro_veo3_available := boolToInt (us_IsProVeo3Available u), ar_cohort := Some (us_Cohort u),
      ar_total_plan_credits := hundredths (us_TotalPlanCredits u),
      ar_plan_ends_at := fmtTime (parsePlanEndsAt (us_PlanEndsAt u)) \<rparr>)" (is "_ = Some ?r2")
    using f1 by (simp add: UpdateEntitlements_def update_checked_ok entitlements_of_def find_row_ar_same)
  define rows3 where "rows3 = snd (UpdateFreeQuota None ?id (reconcileFreeGensV2 v2 (us_FreeQuota u)) rows2)"
  have f3: "find_row ar_id ?id rows3 = Some (?r2\<lparr> ar_free_quota := reconcileFreeGensV2 v2 (us_FreeQuota u) \<rparr>)" (is "_ = Some ?r3")
    using f2 by (simp add: rows3_def UpdateFreeQuota_def update_checked_ok find_row_ar_same)
  define rows4 where "rows4 = snd (UpdateUpstreamStatus None ?id (status_of_user u) rows3)"
  have f4: "find_row ar_id ?id rows4 = Some (?r3\<lparr> ar_blocked_at := user_snapshot.us_BlockedAt u,
      ar_suspended_at := user_snapshot.us_SuspendedAt u,
      ar_is_paused := boolToInt (user_snapshot.us_IsPaused u \<or> us_IsPauseScheduled u) \<rparr>)" (is "_ = Some ?r4")
    using f3 by (simp add: rows4_def UpdateUpstreamStatus_def status_of_user_def upstream_status_update.defs find_row_ar_same)
  define rows5 where "rows5 = snd (UpdateGraceStatus None ?id (NormalizeNoticeStatus notice) rows4)"
  have f5: "find_row ar_id ?id rows5 = Some (?r4\<lparr> ar_grace_status := NormalizeNoticeStatus notice \<rparr>)"
    using f4 by (simp add: rows5_def UpdateGraceStatus_def find_row_ar_same)
  let ?d3 = "d\<lparr> db_accounts := rows3 \<rparr>"
  obtain ul where q: "refresh_unlims r flt acc (refresh_quota r flt acc u (d\<lparr> db_accounts := rows2 \<rparr>, s2)) =
      (?d3\<lparr> db_unlims := ul \<rparr>, s4)"
    using assms(3-5,7) by (simp add: refresh_quota_def refresh_unlims_def rows3_def)
  have "refreshOne r flt acc (d, s) = (?d3\<lparr> db_unlims := ul, db_accounts := rows5 \<rparr>, s5)"
    using assms(2,6,7) b e q
    by (simp add: refreshOne_def refresh_status_def refresh_grace_def rows4_def rows5_def)
  then show ?thesis using f5 by (simp add: refreshed_row_def)
qed

section \<open>A quiet upstream\<close>

definition quiet_env :: env where
  "quiet_env = demo_env\<lparr> ev_Answer := (\<lambda>_. Ok \<lparr> hr_Status = 200, hr_Body = ''{}'' \<rparr>), ev_Now := (\<lambda>_. 0) \<rparr>"

definition quiet_refresher :: refresher where
  "quiet_refresher = \<lparr> rf_Env = quiet_env, rf_Client = demo_client, rf_Failover = None, rf_FreeGensV2Enabled = True \<rparr>"

definition warm :: "history \<Rightarrow> (string \<times> string) list \<Rightarrow> client_state" where
  "warm h os = warm_state\<lparr> cs_History := h, cs_Observed := os \<rparr>"

lemma quiet_get:
  "\<exists>h1 os1. api_get quiet_env demo_client ep session_account path (warm h os) =
     (Ok \<lparr> hr_Status = 200, hr_Body = ''{}'' \<rparr>, warm h1 os1)"
  using demo_fresh
  by (simp add: api_get_def doWithRetry_def attempt_def GetToken_def api_request_def send_def quiet_env_def demo_env_def
      NewRequest_def warm_state_def warm_def Let_def)

lemma quiet_body: "parse_json ''{}'' = Some (JObj [])"
  by code_simp

lemma quiet_decodes:
  "unmarshal dec_wallet zero_wallet ''{}'' = Ok zero_wallet"
  "unmarshal dec_user zero_user ''{}'' = Ok zero_user"
  "unmarshal (dec_items dec_counter) [] ''{}'' = Ok []"
  "unmarshal dec_activations [] ''{}'' = Ok []"
  "unmarshal dec_notice '''' ''{}'' = Ok ''''"
  by (simp_all add: unmarshal_def quiet_body dec_wallet_def dec_user_def dec_items_def dec_activations_def dec_notice_def
      dec_struct_def dec_field_def dec_quota_def zero_wallet_def zero_user_def no_quota_def)

lemma quiet_fetches:
  "\<exists>h1 os1. FetchWallet quiet_env demo_client session_account (warm h os) = (Ok zero_wallet, warm h1 os1)"
  "\<exists>h1 os1. FetchUser quiet_env demo_client session_account (warm h os) = (Ok zero_user, warm h1 os1)"
  "\<exists>h1 os1. FetchFreeGensV2 quiet_env demo_client session_account (warm h os) = (Ok [], warm h1 os1)"
  "\<exists>h1 os1. FetchUnlimActivations quiet_env demo_client session_account (warm h os) = (Ok [], warm h1 os1)"
  "\<exists>h1 os1. FetchWorkspaceNotice quiet_env demo_client session_account (warm h os) = (Ok '''', warm h1 os1)"
  using quiet_get [of "''fetch_wallet''" "''/workspaces/wallet''" h os] quiet_get [of "''fetch_user''" "''/user''" h os]
    quiet_get [of "''fetch_free_gens_v2''" "''/user/free-gens/v2''" h os]
    quiet_get [of "''fetch_unlim_activations''" "''/workspaces/unlim-activations''" h os]
    quiet_get [of "''fetch_notice''" "''/workspaces/notice''" h os]
  by (auto simp: FetchWallet_def FetchUser_def FetchFreeGensV2_def FetchUnlimActivations_def FetchWorkspaceNotice_def
      on_answer_def decode_or_def decode_or_empty_def decode_200_def need_200_def quiet_decodes map_from_def) blast+

theorem refresh_spec_witness:
  "\<exists>row1. find_row ar_id ''u1'' (db_accounts (fst (refreshOne quiet_refresher no_refresh_faults session_account
      (empty_db\<lparr> db_accounts := [insert_account_row session_account] \<rparr>, warm [] [])))) = Some row1 \<and>
    ar_last_balance_at row1 = SqlAt 0 \<and> ar_grace_status row1 = ''''"
proof -
  obtain h1 o1 where a: "FetchWallet quiet_env demo_client session_account (warm [] []) = (Ok zero_wallet, warm h1 o1)"
    using quiet_fetches(1) by blast
  obtain h2 o2 where b: "FetchUser quiet_env demo_client session_account (warm h1 o1) = (Ok zero_user, warm h2 o2)"
    using quiet_fetches(2) by blast
  obtain h3 o3 where c: "FetchFreeGensV2 quiet_env demo_client session_account (warm h2 o2) = (Ok [], warm h3 o3)"
    using quiet_fetches(3) by blast
  obtain h4 o4 where e: "FetchUnlimActivations quiet_env demo_client session_account (warm h3 o3) = (Ok [], warm h4 o4)"
    using quiet_fetches(4) by blast
  obtain h5 o5 where g: "FetchWorkspaceNotice quiet_env demo_client session_account (warm h4 o4) = (Ok '''', warm h5 o5)"
    using quiet_fetches(5) by blast
  let ?d = "empty_db\<lparr> db_accounts := [insert_account_row session_account] \<rparr>"
  have id: "a_ID session_account = ''u1''" by (simp add: session_account_def demo_account_def)
  have row: "find_row ar_id ''u1'' (db_accounts ?d) = Some (insert_account_row session_account)"
    by (simp add: find_row_Cons insert_account_row_def id)
  have sel: "rf_Env quiet_refresher = quiet_env" "rf_Client quiet_refresher = demo_client"
    "rf_FreeGensV2Enabled quiet_refresher" "rx_Write no_refresh_faults = (\<lambda>_. None)"
    "clock quiet_refresher (warm h1 o1) = 0"
    by (simp_all add: quiet_refresher_def no_refresh_faults_def clock_def quiet_env_def)
  have "NormalizeNoticeStatus '''' = ''''" by (simp add: NormalizeNoticeStatus_def)
  then show ?thesis
    using refresh_spec [of quiet_refresher session_account "warm [] []" _ _ _ _ _ _ _ _ _ _ no_refresh_faults ?d,
      unfolded sel id, OF a b _ c e g _ row]
    by (simp add: sel refreshed_row_def fmtTime_def nanos_def)
qed

section \<open>Claims and resets\<close>

text \<open>What a pass claims: every unclaimed activation, once.\<close>

lemma to_claim_spec:
  "distinct (map fst (to_claim seen acts)) \<and> fst ` set (to_claim seen acts) =
     {ua_ID a | a. a \<in> set acts \<and> \<not> ua_IsClaimed a \<and> ua_ID a \<noteq> '''' \<and> ua_JobSetType a \<noteq> ''''} - set seen"
proof (induction acts arbitrary: seen)
  case (Cons a acts)
  show ?case
  proof (cases "ua_IsClaimed a \<or> ua_ID a = '''' \<or> ua_JobSetType a = '''' \<or> ua_ID a \<in> set seen")
    case True
    then show ?thesis using Cons [of seen] by auto
  next
    case False
    then show ?thesis using Cons [of "ua_ID a # seen"] by auto
  qed
qed simp

definition reset_row :: "int \<Rightarrow> key_row \<Rightarrow> key_row" where
  "reset_row now r = r\<lparr> kr_monthly_used := 0, kr_updated_at := fmtTime (Some now) \<rparr>"

lemma reset_row_id [simp]: "kr_id (reset_row now r) = kr_id r"
  by (simp add: reset_row_def)

lemma reset_one:
  "snd (ResetMonthlyUsage fail now kid rows) = map (\<lambda>r. if fail = None \<and> kr_id r = kid then reset_row now r else r) rows"
  by (auto simp: ResetMonthlyUsage_def key_update_checked_def sql_update_def reset_row_def split: option.split)

lemma reset_fold:
  "fold (\<lambda>k. map (\<lambda>r. if fail (k_ID k) = None \<and> kr_id r = k_ID k then reset_row now r else r)) ks rows =
     map (\<lambda>r. if kr_id r \<in> k_ID ` set ks \<and> fail (kr_id r) = None then reset_row now r else r) rows"
proof (induction ks arbitrary: rows)
  case (Cons k ks)
  have idem: "reset_row now (reset_row now r) = reset_row now r" for r by (simp add: reset_row_def)
  show ?case unfolding fold_simps Cons.IH by (auto simp: idem)
qed simp

text \<open>The monthly reset, when the keys can be listed, zeroes the counter of every key whose
  own write succeeds, revoked and paused ones included, and touches nothing else; such
  a key is then within any budget that is not negative.\<close>

theorem resetAll_exact:
  "resetAll None fail now rows =
     map (\<lambda>r. if fail (kr_id r) = None then r\<lparr> kr_monthly_used := 0, kr_updated_at := fmtTime (Some now) \<rparr> else r) rows \<and>
   (\<forall>r \<in> set (resetAll None fail now rows). fail (kr_id r) = None \<longrightarrow> 0 \<le> kr_monthly_quota r \<longrightarrow> HasBudget (key_of_row r) 0) \<and>
   resetAll (Some e) fail now rows = rows"
proof -
  have "k_ID ` set (map key_of_row (sort_desc kr_created_at rows)) = kr_id ` set rows"
    by (simp add: image_image key_of_row_def)
  then have "resetAll None fail now rows = map (\<lambda>r. if fail (kr_id r) = None then reset_row now r else r) rows"
    by (simp add: resetAll_def ListKeys_def reset_one reset_fold)
  moreover have "HasBudget (key_of_row (reset_row now r)) 0" if "0 \<le> kr_monthly_quota r" for r
    using that by (simp add: HasBudget_def key_of_row_def reset_row_def wrap64_def)
  ultimately show ?thesis by (auto simp: resetAll_def ListKeys_def reset_row_def)
qed

theorem resetAll_exact_witness:
  "map kr_monthly_used (resetAll None (\<lambda>_. None) 7 [(insert_key_row 0 (demo_key ''k''))\<lparr> kr_monthly_used := 9 \<rparr>]) = [0]"
  using resetAll_exact [of "\<lambda>_. None" 7 "[(insert_key_row 0 (demo_key ''k''))\<lparr> kr_monthly_used := 9 \<rparr>]"] by simp

end
