(* ===== verification/Alerts.thy ===== *)
theory Alerts
  imports Refresher PickLock UsageStore
begin

text \<open>
  The two operator alarms over the account pool: \<open>core/replenish/replenish.go\<close> (depletion
  signals, each muted for a day once fired) and \<open>core/invoicewatch/invoicewatch.go\<close>
  (retries of a failed automatic top-up, within a budget).  A notification is what is
  handed to the notifier; whether the notifier delivers it only decides a log line.  A
  pass reads the clock once where the code reads it at each use, and treats the accounts
  one after the other.
\<close>

section \<open>Mute maps\<close>

text \<open>What the alarms promise of their mute map, whatever it prunes: a granted key is
  recorded, a refusal changes nothing, a recent grant blocks its key and is not
  forgotten, and a key never granted is granted.\<close>

type_synonym muted = "string \<Rightarrow> int option"

locale alert_gate =
  fixes reserve :: "int \<Rightarrow> string \<Rightarrow> muted \<Rightarrow> bool \<times> muted" and window :: int
  assumes window_pos: "0 < window"
    and granted: "reserve now k m = (True, m1) \<Longrightarrow> m1 k = Some now"
    and refused: "reserve now k m = (False, m1) \<Longrightarrow> m1 = m"
    and blocked: "m k = Some t \<Longrightarrow> now - t < window \<Longrightarrow> \<not> fst (reserve now k m)"
    and kept: "m j = Some t \<Longrightarrow> now - t < window \<Longrightarrow> j \<noteq> k \<Longrightarrow> snd (reserve now k m) j = Some t"
    and fresh: "m k = None \<Longrightarrow> fst (reserve now k m)"
    and invents: "snd (reserve now k m) j = Some t \<Longrightarrow> m j = Some t \<or> j = k \<and> t = now"

text \<open>The requests of a run that are granted, in their order.\<close>

fun gate_run ::
  "(int \<Rightarrow> string \<Rightarrow> muted \<Rightarrow> bool \<times> muted) \<Rightarrow> (int \<times> string) list \<Rightarrow> muted \<Rightarrow> (int \<times> string) list" where
  "gate_run reserve [] m = []"
| "gate_run reserve ((now, k) # reqs) m = (case reserve now k m of
     (True, m1) \<Rightarrow> (now, k) # gate_run reserve reqs m1
   | (False, m1) \<Rightarrow> gate_run reserve reqs m1)"

text \<open>Two entries of one key are at least a window apart.\<close>

fun spaced :: "int \<Rightarrow> (int \<times> string) list \<Rightarrow> bool" where
  "spaced w [] = True"
| "spaced w ((t, k) # es) = (list_all (\<lambda>(u, j). j = k \<longrightarrow> t + w \<le> u) es \<and> spaced w es)"

fun gate_end ::
  "(int \<Rightarrow> string \<Rightarrow> muted \<Rightarrow> bool \<times> muted) \<Rightarrow> (int \<times> string) list \<Rightarrow> muted \<Rightarrow> muted" where
  "gate_end reserve [] m = m"
| "gate_end reserve ((now, k) # reqs) m = gate_end reserve reqs (snd (reserve now k m))"

lemma gate_run_append:
  "gate_run reserve (xs @ ys) m = gate_run reserve xs m @ gate_run reserve ys (gate_end reserve xs m)"
  by (induction xs arbitrary: m) (auto split: prod.split bool.split)

lemma gate_run_sub: "set (gate_run reserve reqs m) \<subseteq> set reqs"
proof (induction reqs arbitrary: m)
  case (Cons r reqs)
  obtain u j where r: "r = (u, j)" by (cases r)
  obtain b m1 where res: "reserve u j m = (b, m1)" by force
  show ?case using Cons.IH [of m1] by (cases b) (auto simp: r res)
qed simp

lemma gate_end_append: "gate_end reserve (xs @ ys) m = gate_end reserve ys (gate_end reserve xs m)"
  by (induction xs arbitrary: m) auto

context alert_gate begin

lemma run_blocked:
  assumes "sorted (map fst reqs)" "m k = Some t" "(u, k) \<in> set (gate_run reserve reqs m)"
    "\<forall>r \<in> set reqs. t \<le> fst r"
  shows "t + window \<le> u"
  using assms
proof (induction reqs arbitrary: m)
  case (Cons r reqs)
  obtain now j where r: "r = (now, j)" by (cases r)
  obtain b m1 where res: "reserve now j m = (b, m1)" by force
  show ?case
  proof (cases "now - t < window")
    case True
    have keep: "m1 k = Some t" and notk: "b \<longrightarrow> j \<noteq> k"
    proof -
      show "b \<longrightarrow> j \<noteq> k" using blocked [of m k t now] Cons.prems(2) True res by auto
      show "m1 k = Some t"
      proof (cases b)
        case True
        then have "k \<noteq> j" using \<open>b \<longrightarrow> j \<noteq> k\<close> by auto
        then show ?thesis using kept [of m k t now j] Cons.prems(2) \<open>now - t < window\<close> res by simp
      next
        case False then show ?thesis using refused res Cons.prems(2) by auto
      qed
    qed
    have "(u, k) \<in> set (gate_run reserve reqs m1)"
      using Cons.prems(3) notk by (cases b) (auto simp: r res)
    then show ?thesis using Cons.IH [of m1] keep Cons.prems by (auto simp: r)
  next
    case False
    have "now \<le> u"
    proof -
      have "(u, k) \<in> set (gate_run reserve reqs m1) \<Longrightarrow> u \<in> fst ` set reqs"
        using gate_run_sub [of reserve reqs m1] by force
      then have "u = now \<or> u \<in> fst ` set reqs" using Cons.prems(3) res
        by (cases b) (auto simp: r)
      then show ?thesis using Cons.prems(1) by (auto simp: r)
    qed
    then show ?thesis using False by simp
  qed
qed simp

lemma run_spaced:
  "sorted (map fst reqs) \<Longrightarrow> spaced window (gate_run reserve reqs m)"
proof (induction reqs arbitrary: m)
  case (Cons r reqs)
  obtain now j where r: "r = (now, j)" by (cases r)
  obtain b m1 where res: "reserve now j m = (b, m1)" by force
  show ?case
  proof (cases b)
    case True
    then have m1: "m1 j = Some now" using granted res by simp
    have "now + window \<le> u" if "(u, j) \<in> set (gate_run reserve reqs m1)" for u
      using run_blocked [of reqs m1 j now u] m1 that Cons.prems by (auto simp: r)
    then show ?thesis using Cons True by (auto simp: r res list_all_iff)
  next
    case False then show ?thesis using Cons by (simp add: r res)
  qed
qed simp

end

text \<open>A gate that opens again once the window is over.\<close>

locale rearming_gate = alert_gate +
  assumes rearms: "m k = Some t \<Longrightarrow> window \<le> now - t \<Longrightarrow> fst (reserve now k m)"

context rearming_gate begin

text \<open>No alert is lost: a request that is refused has a grant of its key less than a window
  before it.\<close>

lemma run_covered:
  assumes "(now, k) \<in> set reqs"
  shows "\<exists>t. ((t, k) \<in> set (gate_run reserve reqs m) \<or> m k = Some t) \<and> now - t < window"
  using assms
proof (induction reqs arbitrary: m)
  case (Cons r reqs)
  obtain u j where r: "r = (u, j)" by (cases r)
  obtain b m1 where res: "reserve u j m = (b, m1)" by force
  show ?case
  proof (cases "r = (now, k)")
    case True
    show ?thesis
    proof (cases b)
      case True
      then show ?thesis using \<open>r = (now, k)\<close> res window_pos by (auto simp: r intro!: exI [of _ now])
    next
      case False
      then have "\<not> fst (reserve now k m)" using res r True by simp
      moreover from this obtain t where t: "m k = Some t" using fresh [of m k now] by (cases "m k") auto
      ultimately have "now - t < window" using rearms [of m k t now] by linarith
      then show ?thesis using t by blast
    qed
  next
    case False
    then obtain t where t: "(t, k) \<in> set (gate_run reserve reqs m1) \<or> m1 k = Some t" "now - t < window"
      using Cons.IH [of m1] Cons.prems by auto
    have "m1 k = Some t \<Longrightarrow> m k = Some t \<or> (b \<and> k = j \<and> t = u)"
      using invents [of u j m k t] refused [of u j m m1] res by (cases b) auto
    then show ?thesis using t by (auto simp: r res split: bool.split intro!: exI [of _ t])
  qed
qed simp

end

section \<open>The depletion signals\<close>

definition dedupWindow :: int where "dedupWindow = 24 * 3600 * nanos"

record thresholds =
  th_CreditFloor :: int
  th_CreditExhaustionPct :: rat
  th_PlanEndingDays :: int
  th_PlanEndingThreshold :: int
  th_MinUnlimPoolSize :: int
  th_WatchedJobSetTypes :: "string list"

text \<open>The mute map and what was handed to the notifier, with the instant and the key.\<close>

record alert_state =
  al_Muted :: muted
  al_Sent :: "(int \<times> string \<times> notification) list"

definition reserve_signal :: "int \<Rightarrow> string \<Rightarrow> muted \<Rightarrow> bool \<times> muted" where
  "reserve_signal now k m = (case m k of
     Some t \<Rightarrow> if now - t < dedupWindow then (False, m) else (True, m(k \<mapsto> now))
   | None \<Rightarrow> (True, m(k \<mapsto> now)))"

definition fire :: "int \<Rightarrow> string \<Rightarrow> notification \<Rightarrow> alert_state \<Rightarrow> alert_state" where
  "fire now k n st = (case reserve_signal now k (al_Muted st) of
     (False, m) \<Rightarrow> st
   | (True, m) \<Rightarrow> st\<lparr> al_Muted := m, al_Sent := al_Sent st @ [(now, k, n)] \<rparr>)"

text \<open>A number with two decimals, \<open>FormatFloat(f, 'f', 2, 64)\<close> of a value that is not
  negative.\<close>

definition ftoa2 :: "rat \<Rightarrow> string" where
  "ftoa2 x = (let q = round_half_even (x * 100) in itoa (q div 100) @ ''.'' @ pad 2 (q mod 100))"

definition usable_credit :: "account \<Rightarrow> int" where
  "usable_credit a = wrap64 (a_CreditsBalance a + a_SubscriptionBalance a sdiv 100)"

definition exhausted_count :: "thresholds \<Rightarrow> account list \<Rightarrow> nat" where
  "exhausted_count c accs = length (filter (\<lambda>a. usable_credit a < th_CreditFloor c) accs)"

definition exhaustion_ratio :: "thresholds \<Rightarrow> account list \<Rightarrow> rat" where
  "exhaustion_ratio c accs = f64 (of_nat (exhausted_count c accs) / of_nat (length accs))"

definition checkCreditExhaustion :: "int \<Rightarrow> thresholds \<Rightarrow> account list \<Rightarrow> alert_state \<Rightarrow> alert_state" where
  "checkCreditExhaustion now c accs st =
     (if accs = [] \<or> th_CreditExhaustionPct c \<le> 0 then st
      else if th_CreditExhaustionPct c < exhaustion_ratio c accs
      then fire now ''S2:credit_exhaustion'' \<lparr> no_Level = LevelWarn,
             no_Title = ''Account pool credit running low'',
             no_Body = ''A large share of active accounts are near-empty; top up or add accounts.'',
             no_Tags = [(''exhausted'', itoa (int (exhausted_count c accs))), (''active'', itoa (int (length accs))),
                        (''ratio'', ftoa2 (exhaustion_ratio c accs))] \<rparr> st
      else st)"

definition ending_count :: "int \<Rightarrow> thresholds \<Rightarrow> account list \<Rightarrow> nat" where
  "ending_count now c accs =
     (let cutoff = now + wrap64 (th_PlanEndingDays c * (24 * 3600 * nanos)) in
      length (filter (\<lambda>a. case a_PlanEndsAt a of None \<Rightarrow> False | Some t \<Rightarrow> t < cutoff) accs))"

definition checkPlansEnding :: "int \<Rightarrow> thresholds \<Rightarrow> account list \<Rightarrow> alert_state \<Rightarrow> alert_state" where
  "checkPlansEnding now c accs st =
     (if th_PlanEndingDays c \<le> 0 then st
      else if th_PlanEndingThreshold c < int (ending_count now c accs)
      then fire now ''S5:plans_ending'' \<lparr> no_Level = LevelWarn, no_Title = ''Subscriptions expiring soon'',
             no_Body = ''Multiple accounts have plans ending within the alert window; renew or replace.'',
             no_Tags = [(''count'', itoa (int (ending_count now c accs))), (''days'', itoa (th_PlanEndingDays c))] \<rparr> st
      else st)"

definition flagged :: "account \<Rightarrow> bool" where
  "flagged a \<longleftrightarrow> a_BlockedAt a \<noteq> '''' \<or> a_SuspendedAt a \<noteq> '''' \<or> a_IsPaused a"

definition checkGraceAccounts :: "int \<Rightarrow> account list \<Rightarrow> alert_state \<Rightarrow> alert_state" where
  "checkGraceAccounts now accs st =
     (let grace = length (filter (\<lambda>a. a_GraceStatus a \<noteq> '''') accs);
          bad = length (filter flagged accs);
          st1 = (if 0 < grace then fire now ''S3:grace'' \<lparr> no_Level = LevelWarn,
                   no_Title = ''Accounts in payment-risk grace'',
                   no_Body = ''Active accounts carry a payment-risk notice (grace / enforcement / card declined); fix billing before access is lost.'',
                   no_Tags = [(''count'', itoa (int grace))] \<rparr> st else st)
      in if 0 < bad then fire now ''S3:blocked'' \<lparr> no_Level = LevelError,
                   no_Title = ''Accounts blocked / suspended / paused'',
                   no_Body = ''Active-pool accounts are flagged blocked/suspended/paused upstream and cannot serve; pull or replace them.'',
                   no_Tags = [(''count'', itoa (int bad))] \<rparr> st1 else st1)"

fun unlim_signals :: "int \<Rightarrow> thresholds \<Rightarrow> (string \<Rightarrow> nat option) \<Rightarrow> string list \<Rightarrow> alert_state \<Rightarrow> alert_state" where
  "unlim_signals now c counts [] st = st"
| "unlim_signals now c counts (jst # jsts) st =
     (let n = (case counts jst of None \<Rightarrow> 0 | Some k \<Rightarrow> int k) in
      unlim_signals now c counts jsts
        (if n < th_MinUnlimPoolSize c
         then fire now (''S1:'' @ jst) \<lparr> no_Level = LevelWarn, no_Title = ''Unlim pool draining'',
                no_Body = ''Active unlim accounts for a watched model fell below the floor; claim/buy more bundles.'',
                no_Tags = [(''job_set_type'', jst), (''pool'', itoa n), (''floor'', itoa (th_MinUnlimPoolSize c))] \<rparr> st
         else st))"

definition checkUnlimPools ::
  "gerror option \<Rightarrow> int \<Rightarrow> thresholds \<Rightarrow> unlims \<Rightarrow> accounts \<Rightarrow> alert_state \<Rightarrow> alert_state" where
  "checkUnlimPools fail now c us rows st =
     (if th_WatchedJobSetTypes c = [] \<or> th_MinUnlimPoolSize c \<le> 0 then st
      else case CountActiveUnlimByJST fail now us rows of
        Inl e \<Rightarrow> st | Inr counts \<Rightarrow> unlim_signals now c counts (th_WatchedJobSetTypes c) st)"

text \<open>One pass.  The gift signal (S4) is an empty stub in the code.\<close>

definition replenish_once ::
  "gerror option \<Rightarrow> gerror option \<Rightarrow> int \<Rightarrow> thresholds \<Rightarrow> unlims \<Rightarrow> accounts \<Rightarrow> alert_state \<Rightarrow> alert_state" where
  "replenish_once failList failCount now c us rows st =
     checkUnlimPools failCount now c us rows
       (case ListAccounts failList active_filter rows of
          Inl e \<Rightarrow> st
        | Inr accs \<Rightarrow> checkGraceAccounts now accs (checkPlansEnding now c accs (checkCreditExhaustion now c accs st)))"

section \<open>A pass asks the gate for its due signals\<close>

definition due_signals ::
  "gerror option \<Rightarrow> gerror option \<Rightarrow> int \<Rightarrow> thresholds \<Rightarrow> unlims \<Rightarrow> accounts \<Rightarrow> string list" where
  "due_signals failList failCount now c us rows =
     (case ListAccounts failList active_filter rows of
        Inl e \<Rightarrow> []
      | Inr accs \<Rightarrow>
          (if accs \<noteq> [] \<and> 0 < th_CreditExhaustionPct c \<and> th_CreditExhaustionPct c < exhaustion_ratio c accs
           then [''S2:credit_exhaustion''] else []) @
          (if 0 < th_PlanEndingDays c \<and> th_PlanEndingThreshold c < int (ending_count now c accs)
           then [''S5:plans_ending''] else []) @
          (if \<exists>a \<in> set accs. a_GraceStatus a \<noteq> '''' then [''S3:grace''] else []) @
          (if \<exists>a \<in> set accs. flagged a then [''S3:blocked''] else [])) @
     (if 0 < th_MinUnlimPoolSize c
      then (case CountActiveUnlimByJST failCount now us rows of
          Inl e \<Rightarrow> []
        | Inr counts \<Rightarrow> map (\<lambda>jst. ''S1:'' @ jst)
            (filter (\<lambda>jst. (case counts jst of None \<Rightarrow> 0 | Some k \<Rightarrow> int k) < th_MinUnlimPoolSize c)
               (th_WatchedJobSetTypes c)))
      else [])"

definition entry_key :: "int \<times> string \<times> notification \<Rightarrow> int \<times> string" where
  "entry_key e = (fst e, fst (snd e))"

definition emits :: "(int \<times> string) list \<Rightarrow> alert_state \<Rightarrow> alert_state \<Rightarrow> bool" where
  "emits reqs st st1 \<longleftrightarrow>
     map entry_key (al_Sent st1) = map entry_key (al_Sent st) @ gate_run reserve_signal reqs (al_Muted st) \<and>
     al_Muted st1 = gate_end reserve_signal reqs (al_Muted st)"

lemma emits_nil [simp, intro]: "emits [] st st"
  by (simp add: emits_def)

lemma emits_trans: "emits xs st st1 \<Longrightarrow> emits ys st1 st2 \<Longrightarrow> emits (xs @ ys) st st2"
  by (simp add: emits_def gate_run_append gate_end_append)

lemma emits_fire: "emits [(now, k)] st (fire now k n st)"
proof -
  obtain b m where r: "reserve_signal now k (al_Muted st) = (b, m)" by force
  have "\<not> b \<Longrightarrow> m = al_Muted st" using r by (auto simp: reserve_signal_def split: option.splits if_splits)
  then show ?thesis by (cases b) (auto simp: emits_def fire_def r entry_key_def)
qed

lemma emits_if: "emits (map (Pair now) (if b then [k] else [])) st (if b then fire now k n st else st)"
  by (simp add: emits_fire)

lemma emits_unlims:
  "emits (map (\<lambda>jst. (now, ''S1:'' @ jst))
       (filter (\<lambda>jst. (case counts jst of None \<Rightarrow> 0 | Some k \<Rightarrow> int k) < th_MinUnlimPoolSize c) jsts))
     st (unlim_signals now c counts jsts st)"
proof (induction jsts arbitrary: st)
  case (Cons jst jsts)
  let ?due = "(case counts jst of None \<Rightarrow> 0 | Some k \<Rightarrow> int k) < th_MinUnlimPoolSize c"
  show ?case
  proof (cases ?due)
    case True
    show ?thesis using emits_trans [OF emits_fire Cons.IH] True by (simp add: Let_def)
  next
    case False
    then show ?thesis using Cons.IH by (simp add: Let_def)
  qed
qed simp

lemma emits_pool: "emits (map (Pair now)
     (if 0 < th_MinUnlimPoolSize c
      then (case CountActiveUnlimByJST failCount now us rows of
          Inl e \<Rightarrow> []
        | Inr counts \<Rightarrow> map (\<lambda>jst. ''S1:'' @ jst)
            (filter (\<lambda>jst. (case counts jst of None \<Rightarrow> 0 | Some k \<Rightarrow> int k) < th_MinUnlimPoolSize c)
               (th_WatchedJobSetTypes c)))
      else [])) st (checkUnlimPools failCount now c us rows st)"
  using emits_unlims [of now _ c "th_WatchedJobSetTypes c" st]
  by (auto simp: checkUnlimPools_def comp_def split: sum.split)

lemma emits_grace: "emits (map (Pair now)
     ((if \<exists>a \<in> set accs. a_GraceStatus a \<noteq> '''' then [''S3:grace''] else []) @
      (if \<exists>a \<in> set accs. flagged a then [''S3:blocked''] else []))) st (checkGraceAccounts now accs st)"
proof -
  have ex: "(0 < length (filter P accs)) = (\<exists>a \<in> set accs. P a)" for P :: "account \<Rightarrow> bool"
    by (induction accs) auto
  show ?thesis unfolding checkGraceAccounts_def Let_def ex map_append
    by (rule emits_trans [OF emits_if emits_if])
qed

lemma emits_once:
  "emits (map (Pair now) (due_signals failList failCount now c us rows)) st
     (replenish_once failList failCount now c us rows st)"
proof (cases "ListAccounts failList active_filter rows")
  case (Inl e)
  then show ?thesis unfolding due_signals_def replenish_once_def using emits_pool by simp
next
  case (Inr accs)
  have s2: "emits (map (Pair now) (if accs \<noteq> [] \<and> 0 < th_CreditExhaustionPct c \<and>
      th_CreditExhaustionPct c < exhaustion_ratio c accs then [''S2:credit_exhaustion''] else []))
      st (checkCreditExhaustion now c accs st)" for st
    by (simp add: checkCreditExhaustion_def emits_fire)
  have s5: "emits (map (Pair now) (if 0 < th_PlanEndingDays c \<and>
      th_PlanEndingThreshold c < int (ending_count now c accs) then [''S5:plans_ending''] else []))
      st (checkPlansEnding now c accs st)" for st
    by (simp add: checkPlansEnding_def emits_fire)
  show ?thesis unfolding due_signals_def replenish_once_def Inr sum.case map_append append.assoc
    using emits_trans [OF emits_trans [OF emits_trans [OF s2 s5] emits_grace] emits_pool]
    by (simp only: map_append append.assoc)
qed

text \<open>A run of passes, each over the tables as they are then.\<close>

record scan =
  sc_FailList :: "gerror option"
  sc_FailCount :: "gerror option"
  sc_Now :: int
  sc_Unlims :: unlims
  sc_Accounts :: accounts

definition scan_due :: "thresholds \<Rightarrow> scan \<Rightarrow> string list" where
  "scan_due c p = due_signals (sc_FailList p) (sc_FailCount p) (sc_Now p) c (sc_Unlims p) (sc_Accounts p)"

definition replenish_run :: "thresholds \<Rightarrow> scan list \<Rightarrow> alert_state \<Rightarrow> alert_state" where
  "replenish_run c ps st =
     fold (\<lambda>p. replenish_once (sc_FailList p) (sc_FailCount p) (sc_Now p) c (sc_Unlims p) (sc_Accounts p)) ps st"

definition no_alerts :: alert_state where
  "no_alerts = \<lparr> al_Muted = Map.empty, al_Sent = [] \<rparr>"

definition scan_reqs :: "thresholds \<Rightarrow> scan list \<Rightarrow> (int \<times> string) list" where
  "scan_reqs c ps = concat (map (\<lambda>p. map (Pair (sc_Now p)) (scan_due c p)) ps)"

lemma emits_run: "emits (scan_reqs c ps) st (replenish_run c ps st)"
proof (induction ps arbitrary: st)
  case (Cons p ps)
  show ?case using emits_trans [OF emits_once Cons.IH]
    by (simp add: scan_reqs_def replenish_run_def scan_due_def)
qed (simp add: scan_reqs_def replenish_run_def)

lemma scan_reqs_sorted: "sorted (map sc_Now ps) \<Longrightarrow> sorted (map fst (scan_reqs c ps))"
proof (induction ps)
  case (Cons p ps)
  have "sorted (map fst (map (Pair (sc_Now p)) xs))" for xs :: "string list" by (induction xs) auto
  then show ?case using Cons by (auto simp: scan_reqs_def sorted_append)
qed (simp add: scan_reqs_def)

lemma reserve_signal_cases:
  "reserve_signal now k m =
     (if \<exists>t. m k = Some t \<and> now - t < dedupWindow then (False, m) else (True, m(k \<mapsto> now)))"
  by (auto simp: reserve_signal_def split: option.split)

interpretation pool_gate: rearming_gate reserve_signal dedupWindow
  by unfold_locales (auto simp: reserve_signal_cases dedupWindow_def nanos_def split: if_splits)

text \<open>C31. Over any run of passes of a process, with a clock that does not run back, two alarms of
  one signal are at least a day apart, every alarm was due in the pass that sent it, and
  no due signal goes unheard: at the pass that finds it due there is an alarm of it
  less than a day old.\<close>

theorem pool_alarms:
  assumes "sorted (map sc_Now ps)"
  shows "spaced dedupWindow (map entry_key (al_Sent (replenish_run c ps no_alerts))) \<and>
    (\<forall>e \<in> set (al_Sent (replenish_run c ps no_alerts)). \<exists>p \<in> set ps. fst e = sc_Now p \<and> fst (snd e) \<in> set (scan_due c p)) \<and>
    (\<forall>p \<in> set ps. \<forall>k \<in> set (scan_due c p). \<exists>t. (t, k) \<in> entry_key ` set (al_Sent (replenish_run c ps no_alerts)) \<and>
       sc_Now p - t < dedupWindow)"
proof -
  let ?st = "replenish_run c ps no_alerts" and ?reqs = "scan_reqs c ps"
  have e: "map entry_key (al_Sent ?st) = gate_run reserve_signal ?reqs Map.empty"
    using emits_run [of c ps no_alerts] by (simp add: emits_def no_alerts_def)
  have s: "entry_key ` set (al_Sent ?st) = set (gate_run reserve_signal ?reqs Map.empty)"
    unfolding e [symmetric] by simp
  have a: "spaced dedupWindow (map entry_key (al_Sent ?st))"
    unfolding e by (rule pool_gate.run_spaced [OF scan_reqs_sorted [OF assms]])
  have b: "\<forall>e \<in> set (al_Sent ?st). \<exists>p \<in> set ps. fst e = sc_Now p \<and> fst (snd e) \<in> set (scan_due c p)"
  proof
    fix x assume "x \<in> set (al_Sent ?st)"
    then have "entry_key x \<in> set ?reqs" using s gate_run_sub by blast
    then show "\<exists>p \<in> set ps. fst x = sc_Now p \<and> fst (snd x) \<in> set (scan_due c p)"
      by (auto simp: scan_reqs_def entry_key_def)
  qed
  have d: "\<forall>p \<in> set ps. \<forall>k \<in> set (scan_due c p). \<exists>t. (t, k) \<in> entry_key ` set (al_Sent ?st) \<and>
       sc_Now p - t < dedupWindow"
  proof (intro ballI)
    fix p k assume "p \<in> set ps" "k \<in> set (scan_due c p)"
    then have "(sc_Now p, k) \<in> set ?reqs" by (auto simp: scan_reqs_def)
    from pool_gate.run_covered [OF this, of Map.empty] show "\<exists>t. (t, k) \<in> entry_key ` set (al_Sent ?st) \<and>
       sc_Now p - t < dedupWindow" by (auto simp: s)
  qed
  show ?thesis using a b d by blast
qed

definition demo_thresholds :: thresholds where
  "demo_thresholds = \<lparr> th_CreditFloor = 10, th_CreditExhaustionPct = 0, th_PlanEndingDays = 0,
     th_PlanEndingThreshold = 0, th_MinUnlimPoolSize = 0, th_WatchedJobSetTypes = [] \<rparr>"

definition grace_scan :: "int \<Rightarrow> scan" where
  "grace_scan now = \<lparr> sc_FailList = None, sc_FailCount = None, sc_Now = now, sc_Unlims = [],
     sc_Accounts = [(insert_account_row session_account)\<lparr> ar_grace_status := ''grace'' \<rparr>] \<rparr>"

lemma grace_scan_due:
  "scan_due demo_thresholds (grace_scan 0) = [''S3:grace'']" "scan_due demo_thresholds (grace_scan 60) = [''S3:grace'']"
  by code_simp+

theorem pool_alarms_witness:
  "\<exists>t. (t, ''S3:grace'') \<in> entry_key ` set (al_Sent (replenish_run demo_thresholds [grace_scan 0, grace_scan 60] no_alerts)) \<and>
     60 - t < dedupWindow"
  using pool_alarms [of "[grace_scan 0, grace_scan 60]" demo_thresholds]
  by (simp add: grace_scan_due) (simp add: grace_scan_def)

section \<open>Retries of a failed top-up\<close>

definition maxRetriesPerWindow :: nat where "maxRetriesPerWindow = 3"

definition retryWindow :: int where "retryWindow = 24 * 3600 * nanos"

record retry_state =
  rt_count :: nat
  rt_windowStart :: int
  rt_alerted :: bool

type_synonym retry_states = "string \<Rightarrow> retry_state option"

definition current_window :: "int \<Rightarrow> string \<Rightarrow> retry_states \<Rightarrow> retry_state" where
  "current_window now acct sts = (case sts acct of
     None \<Rightarrow> \<lparr> rt_count = 0, rt_windowStart = now, rt_alerted = False \<rparr>
   | Some st \<Rightarrow> if retryWindow \<le> now - rt_windowStart st
                then \<lparr> rt_count = 0, rt_windowStart = now, rt_alerted = False \<rparr> else st)"

definition reserveRetry :: "int \<Rightarrow> string \<Rightarrow> retry_states \<Rightarrow> bool \<times> retry_states" where
  "reserveRetry now acct sts =
     (let st = current_window now acct sts in
      if maxRetriesPerWindow \<le> rt_count st then (False, sts(acct \<mapsto> st))
      else (True, sts(acct \<mapsto> st\<lparr> rt_count := rt_count st + 1 \<rparr>)))"

record invoice_watch =
  iw_States :: retry_states
  iw_Sent :: "notification list"

definition alertExhausted :: "int \<Rightarrow> account \<Rightarrow> nat \<Rightarrow> invoice_watch \<Rightarrow> invoice_watch" where
  "alertExhausted now acc pending w =
     (let st = (case iw_States w (a_ID acc) of
                  Some st \<Rightarrow> st
                | None \<Rightarrow> \<lparr> rt_count = maxRetriesPerWindow, rt_windowStart = now, rt_alerted = False \<rparr>)
      in if rt_alerted st then w
         else w\<lparr> iw_States := (iw_States w)(a_ID acc \<mapsto> st\<lparr> rt_alerted := True \<rparr>),
                 iw_Sent := iw_Sent w @ [\<lparr> no_Level = LevelWarn, no_Title = ''Auto-top-up retries exhausted'',
                   no_Body = ''An active account still has pending invoices after the maximum auto-top-up retries in 24h; fix billing (card declined / outstanding balance) before access is lost.'',
                   no_Tags = [(''account_id'', a_ID acc), (''email'', a_Email acc),
                     (''pending_invoices'', itoa (int pending)), (''retries'', itoa (int maxRetriesPerWindow))] \<rparr>] \<rparr>)"

definition env_now :: "env \<Rightarrow> client_state \<Rightarrow> int" where
  "env_now v s = ev_Now v (cs_History s)"

definition watch_invoices :: "env \<Rightarrow> client \<Rightarrow> account \<Rightarrow> invoice_watch \<times> client_state \<Rightarrow> invoice_watch \<times> client_state" where
  "watch_invoices v c acc ws = (case ws of (w, s) \<Rightarrow>
     case FetchPendingInvoices v c acc s of
       (Inl e, s1) \<Rightarrow> (w, s1)
     | (Inr invoices, s1) \<Rightarrow>
         (if invoices = [] then (w, s1)
          else case reserveRetry (env_now v s1) (a_ID acc) (iw_States w) of
            (True, sts) \<Rightarrow> (w\<lparr> iw_States := sts \<rparr>, snd (RetryAutoTopUp v c acc s1))
          | (False, sts) \<Rightarrow> (alertExhausted (env_now v s1) acc (length invoices) (w\<lparr> iw_States := sts \<rparr>), s1)))"

definition invoice_once ::
  "env \<Rightarrow> client \<Rightarrow> gerror option \<Rightarrow> accounts \<Rightarrow> invoice_watch \<times> client_state \<Rightarrow> invoice_watch \<times> client_state" where
  "invoice_once v c failList rows ws = (case ListAccounts failList active_filter rows of
     Inl e \<Rightarrow> ws | Inr accs \<Rightarrow> fold (watch_invoices v c) accs ws)"

subsection \<open>What the budget allows\<close>

text \<open>The retries granted over a run of requests.\<close>

fun retry_run :: "(int \<times> string) list \<Rightarrow> retry_states \<Rightarrow> (int \<times> string) list" where
  "retry_run [] sts = []"
| "retry_run ((now, acct) # reqs) sts = (case reserveRetry now acct sts of
     (True, sts1) \<Rightarrow> (now, acct) # retry_run reqs sts1
   | (False, sts1) \<Rightarrow> retry_run reqs sts1)"

definition in_day :: "int \<Rightarrow> string \<Rightarrow> (int \<times> string) list \<Rightarrow> nat" where
  "in_day t acct es = length (filter (\<lambda>(u, a). a = acct \<and> t \<le> u \<and> u < t + retryWindow) es)"

text \<open>How many more grants the day starting at \<open>t\<close> can hold from \<open>now\<close> on.\<close>

definition allowance :: "int \<Rightarrow> int \<Rightarrow> retry_state option \<Rightarrow> nat" where
  "allowance t now so = (case so of
     None \<Rightarrow> 5
   | Some st \<Rightarrow> if t \<le> rt_windowStart st then 3 - rt_count st
                else if t \<le> now then (3 - rt_count st) + 3 else 5)"

lemma retry_run_sub: "set (retry_run reqs sts) \<subseteq> set reqs"
proof (induction reqs arbitrary: sts)
  case (Cons r reqs)
  obtain u j where r: "r = (u, j)" by (cases r)
  obtain b m1 where res: "reserveRetry u j sts = (b, m1)" by force
  show ?case using Cons.IH [of m1] by (cases b) (auto simp: r res)
qed simp

lemma none_late: "\<forall>r \<in> set reqs. t + retryWindow \<le> fst r \<Longrightarrow> in_day t acct (retry_run reqs sts) = 0"
  using retry_run_sub [of reqs sts] by (fastforce simp: in_day_def filter_empty_conv)

lemma in_day_bound:
  assumes "sorted (map fst reqs)" "\<forall>st. sts acct = Some st \<longrightarrow> 1 \<le> rt_count st \<and> rt_count st \<le> 3"
    "\<forall>r \<in> set reqs. now0 \<le> fst r"
  shows "in_day t acct (retry_run reqs sts) \<le> allowance t now0 (sts acct)"
  using assms
proof (induction reqs arbitrary: sts now0)
  case (Cons r reqs)
  obtain now j where r: "r = (now, j)" by (cases r)
  obtain b sts1 where res: "reserveRetry now j sts = (b, sts1)" by force
  have srt: "sorted (map fst reqs)" and later: "\<forall>q \<in> set reqs. now \<le> fst q" using Cons.prems(1) by (auto simp: r)
  show ?case
  proof (cases "j = acct")
    case False
    then have "sts1 acct = sts acct" using res by (auto simp: reserveRetry_def Let_def split: if_splits)
    moreover have "allowance t now (sts acct) \<le> allowance t now0 (sts acct)"
      using Cons.prems(2,3) by (auto simp: allowance_def r split: option.split)
    ultimately show ?thesis using Cons.IH [of sts1 now] srt later Cons.prems(2) False
      by (cases b) (auto simp: r res in_day_def)
  next
    case True
    let ?cur = "current_window now acct sts"
    have cur3: "rt_count ?cur \<le> 3" using Cons.prems(2) by (auto simp: current_window_def split: option.split)
    have b: "b \<longleftrightarrow> rt_count ?cur < 3" and s1: "sts1 acct = Some (if b then ?cur\<lparr> rt_count := rt_count ?cur + 1 \<rparr> else ?cur)"
      using res True by (auto simp: reserveRetry_def maxRetriesPerWindow_def Let_def split: if_splits)
    have wf1: "\<forall>st. sts1 acct = Some st \<longrightarrow> 1 \<le> rt_count st \<and> rt_count st \<le> 3" using b s1 cur3 by auto
    have IH: "in_day t acct (retry_run reqs sts1) \<le> allowance t now (sts1 acct)" using Cons.IH [of sts1 now] srt wf1 later by blast
    let ?new = "if b \<and> t \<le> now \<and> now < t + retryWindow then 1 else 0 :: nat"
    have run: "in_day t acct (retry_run (r # reqs) sts) = ?new + in_day t acct (retry_run reqs sts1)"
      using True res by (cases b) (auto simp: r in_day_def)
    show ?thesis
    proof (cases "t + retryWindow \<le> now")
      case True
      then have "in_day t acct (retry_run reqs sts1) = 0" using later by (intro none_late) auto
      then show ?thesis using True run by simp
    next
      case False
      have n0: "now0 \<le> now" using Cons.prems(3) by (simp add: r)
      have "?new + allowance t now (sts1 acct) \<le> allowance t now0 (sts acct)"
      proof (cases "sts acct")
        case None
        then show ?thesis using b s1 by (auto simp: current_window_def allowance_def)
      next
        case (Some st)
        have st: "1 \<le> rt_count st" "rt_count st \<le> 3" using Some Cons.prems(2) by auto
        show ?thesis
        proof (cases "retryWindow \<le> now - rt_windowStart st")
          case True
          then have "\<not> t \<le> rt_windowStart st" using False by simp
          then show ?thesis using b s1 Some True st n0 by (auto simp: current_window_def allowance_def)
        next
          case nw: False
          then show ?thesis using b s1 Some st n0 by (auto simp: current_window_def allowance_def)
        qed
      qed
      then show ?thesis using IH run by linarith
    qed
  qed
qed (simp add: in_day_def)

text \<open>The watcher's checks: at the day's last moments of one window and at the start of the
  next, two and three retries.\<close>

definition burst_reqs :: "(int \<times> string) list" where
  "burst_reqs = [(0, ''u1''), (86000 * nanos, ''u1''), (86100 * nanos, ''u1''),
     (86400 * nanos, ''u1''), (86500 * nanos, ''u1''), (86600 * nanos, ''u1''), (86700 * nanos, ''u1'')]"

lemma burst_granted: "in_day (86000 * nanos) ''u1'' (retry_run burst_reqs Map.empty) = 5"
  by (simp add: burst_reqs_def in_day_def reserveRetry_def current_window_def maxRetriesPerWindow_def
      retryWindow_def nanos_def Let_def)

text \<open>C32. However often the watcher finds pending invoices, any 24 hours hold at most five
  retries of one account; the window starts at a first retry and does not slide, so five,
  not the documented three, do fit.\<close>

theorem retry_budget:
  assumes "sorted (map fst reqs)"
  shows "in_day t acct (retry_run reqs Map.empty) \<le> 5 \<and>
    (\<exists>reqs1 t1. sorted (map fst reqs1) \<and> in_day t1 acct (retry_run reqs1 Map.empty) = 5)"
proof -
  have "in_day t acct (retry_run reqs Map.empty) \<le> 5"
  proof (cases reqs)
    case (Cons r rs)
    then have "\<forall>q \<in> set reqs. fst r \<le> fst q" using assms by auto
    then have "in_day t acct (retry_run reqs Map.empty) \<le> allowance t (fst r) None"
      using in_day_bound [OF assms, of Map.empty acct "fst r" t] by simp
    then show ?thesis by (simp add: allowance_def)
  qed (simp add: in_day_def)
  moreover let ?b = "map (\<lambda>(t, k). (t, acct)) burst_reqs"
  have "sorted (map fst ?b)" by (simp add: burst_reqs_def nanos_def)
  moreover have "in_day (86000 * nanos) acct (retry_run ?b Map.empty) = 5"
    by (simp add: burst_reqs_def in_day_def reserveRetry_def current_window_def maxRetriesPerWindow_def
      retryWindow_def nanos_def Let_def)
  ultimately show ?thesis by blast
qed

theorem retry_budget_witness:
  "in_day (86000 * nanos) ''u1'' (retry_run burst_reqs Map.empty) \<le> 5 \<and> in_day (86000 * nanos) ''u1'' (retry_run burst_reqs Map.empty) = 5"
  using retry_budget [of burst_reqs "86000 * nanos" "''u1''"] burst_granted by (simp add: burst_reqs_def nanos_def)

text \<open>A watch that finds no invoice, or cannot read them, changes nothing; one whose budget is
  spent sends no retry, and raises the alarm once for the window.\<close>

lemma watch_invoices_cases:
  assumes "FetchPendingInvoices v c acc s = (res, s1)"
  shows "res = Inl e \<Longrightarrow> watch_invoices v c acc (w, s) = (w, s1)"
    "res = Inr [] \<Longrightarrow> watch_invoices v c acc (w, s) = (w, s1)"
    "res = Inr (i # is) \<Longrightarrow> \<not> fst (reserveRetry (env_now v s1) (a_ID acc) (iw_States w)) \<Longrightarrow>
       snd (watch_invoices v c acc (w, s)) = s1"
    "res = Inr (i # is) \<Longrightarrow> fst (reserveRetry (env_now v s1) (a_ID acc) (iw_States w)) \<Longrightarrow>
       iw_Sent (fst (watch_invoices v c acc (w, s))) = iw_Sent w"
  using assms by (auto simp: watch_invoices_def split: prod.split bool.split)

lemma alert_once: "alertExhausted now2 acc p2 (alertExhausted now acc p w) = alertExhausted now acc p w"
  by (auto simp: alertExhausted_def Let_def split: option.split)

end
