(* ===== verification/Reconcile.thy ===== *)
theory Reconcile
  imports Alerts
begin

text \<open>
  The two watchers that compare an account with what the upstream says of it:
  \<open>core/creditrecon/creditrecon.go\<close> (the month's spend in the upstream ledger against the
  sum of the local charges) and \<open>core/promowatch/promowatch.go\<close> (promotions, cashback
  challenges and two-day offers about to lapse).  Both only send notifications, through
  a mute map of their own.  Times in the tags are written in UTC.
\<close>

section \<open>Numbers and instants as text\<close>

definition format_rfc3339 :: "int \<Rightarrow> string" where
  "format_rfc3339 t = (let s = t mod day_ns div nanos in
     format_day t @ ''T'' @ pad 2 (s div 3600) @ '':'' @ pad 2 (s div 60 mod 60) @ '':'' @ pad 2 (s mod 60) @ ''Z'')"

text \<open>\<open>FormatFloat(f, 'f', -1, 64)\<close>: the shortest decimal that reads back as the same number,
  without an exponent.\<close>

definition decimal_text :: "int \<times> int \<Rightarrow> string" where
  "decimal_text ce = (case ce of (c, e) \<Rightarrow>
     if 0 \<le> e then itoa (c * 10 ^ nat e)
     else itoa (c div 10 ^ nat (- e)) @ ''.'' @ pad (nat (- e)) (c mod 10 ^ nat (- e)))"

definition ftoa :: "rat \<Rightarrow> string" where
  "ftoa x = (if x = 0 then ''0'' else if x < 0 then ''-'' @ decimal_text (shortest (- x)) else decimal_text (shortest x))"

section \<open>The ledger against the local charges\<close>

definition defaultAbsoluteFloorCredits :: int where "defaultAbsoluteFloorCredits = 100"
definition defaultRelativePct :: rat where "defaultRelativePct = f64 (5 / 100)"
definition staleAlert :: int where "staleAlert = 60 * 24 * 3600 * nanos"

record reconciler =
  rk_Env :: env
  rk_Client :: client
  rk_AbsoluteFloorCredits :: int
  rk_RelativePct :: rat

record recon_state =
  rn_Muted :: muted
  rn_Sent :: "notification list"

definition thresholdH :: "reconciler \<Rightarrow> int \<Rightarrow> int" where
  "thresholdH r upstreamH =
     (let floorH = wrap64 (rk_AbsoluteFloorCredits r * 100) in
      if upstreamH \<le> 0 then floorH
      else let relH = f64_to_int64 (f64 (int64_to_f64 upstreamH * rk_RelativePct r)) in
        if floorH < relH then relH else floorH)"

definition targetWindow :: "int \<Rightarrow> int \<times> int" where
  "targetWindow now = (case civil (day_of (now - 24 * 3600 * nanos)) of (y, m, d) \<Rightarrow>
     (days_from_civil y m 1 * day_ns,
      (if m = 12 then days_from_civil (y + 1) 1 1 else days_from_civil y (m + 1) 1) * day_ns))"

definition prune :: "int \<Rightarrow> int \<Rightarrow> muted \<Rightarrow> muted" where
  "prune age now m = (\<lambda>j. case m j of None \<Rightarrow> None | Some t \<Rightarrow> if age \<le> now - t then None else Some t)"

definition reserve_ledger :: "int \<Rightarrow> string \<Rightarrow> muted \<Rightarrow> bool \<times> muted" where
  "reserve_ledger now k m =
     (if m k \<noteq> None then (False, m) else (True, (prune staleAlert now m)(k \<mapsto> now)))"

definition ledger_mismatch :: "account \<Rightarrow> int \<times> int \<Rightarrow> ledger_statistics \<Rightarrow> int \<Rightarrow> int \<Rightarrow> notification" where
  "ledger_mismatch acc window stats localH threshold = (case window of (start, until) \<Rightarrow>
     let upH = wrap64 (cls_TotalCreditsSpent stats * 100) in
     \<lparr> no_Level = LevelWarn, no_Title = ''Credit ledger reconciliation mismatch'',
       no_Body = ''An active account's locally-recorded credit spend diverged from the upstream credit ledger for the target month beyond the configured threshold; investigate metering / refund flow.'',
       no_Tags = [(''account_id'', a_ID acc), (''email'', a_Email acc), (''month'', format_month start),
         (''window_start'', format_day start), (''window_end'', format_day (until - 24 * 3600 * nanos)),
         (''upstream_credits'', itoa (cls_TotalCreditsSpent stats)), (''local_credits'', itoa (localH sdiv 100)),
         (''upstream_h'', itoa upH), (''local_h'', itoa localH), (''diff_h'', itoa (wrap64 (upH - localH))),
         (''threshold_h'', itoa threshold), (''jobs_upstream'', itoa (cls_JobsCreated stats))] \<rparr>)"

definition beyond :: "reconciler \<Rightarrow> int \<Rightarrow> int \<Rightarrow> bool" where
  "beyond r upH localH \<longleftrightarrow>
     (let diffH = wrap64 (upH - localH); absDiffH = (if diffH < 0 then wrap64 (- diffH) else diffH)
      in \<not> absDiffH \<le> thresholdH r upH)"

definition reconOne ::
  "reconciler \<Rightarrow> gerror option \<Rightarrow> usages \<Rightarrow> int \<times> int \<Rightarrow> account \<Rightarrow> recon_state \<times> client_state \<Rightarrow> recon_state \<times> client_state" where
  "reconOne r failSum us window acc ws = (case ws of (w, s) \<Rightarrow> case window of (start, until) \<Rightarrow>
     case FetchCreditLedgerStatistics (rk_Env r) (rk_Client r) acc (format_day start)
            (format_day (until - 24 * 3600 * nanos)) s of
       (Inl e, s1) \<Rightarrow> (w, s1)
     | (Inr stats, s1) \<Rightarrow>
        (case SumChargedCreditsHForAccount failSum (a_ID acc) (Some start) (Some until) us of
           Inl e \<Rightarrow> (w, s1)
         | Inr localH \<Rightarrow>
            (let upH = wrap64 (cls_TotalCreditsSpent stats * 100) in
             if \<not> beyond r upH localH then (w, s1)
             else case reserve_ledger (env_now (rk_Env r) s1) (a_ID acc @ ''|'' @ format_month start) (rn_Muted w) of
               (False, m) \<Rightarrow> (w, s1)
             | (True, m) \<Rightarrow> (w\<lparr> rn_Muted := m,
                 rn_Sent := rn_Sent w @ [ledger_mismatch acc window stats localH (thresholdH r upH)] \<rparr>, s1))))"

definition recon_once ::
  "reconciler \<Rightarrow> gerror option \<Rightarrow> (string \<Rightarrow> gerror option) \<Rightarrow> accounts \<Rightarrow> usages
     \<Rightarrow> recon_state \<times> client_state \<Rightarrow> recon_state \<times> client_state" where
  "recon_once r failList failSum rows us ws =
     (let window = targetWindow (env_now (rk_Env r) (snd ws)) in
      case ListAccounts failList active_filter rows of
        Inl e \<Rightarrow> ws
      | Inr accs \<Rightarrow> fold (\<lambda>acc. reconOne r (failSum (a_ID acc)) us window acc) accs ws)"

text \<open>The alarm of an account repeats only after sixty days; within a month it never does.\<close>

interpretation ledger_gate: alert_gate reserve_ledger staleAlert
  by unfold_locales
     (auto simp: reserve_ledger_def prune_def staleAlert_def nanos_def split: if_splits option.splits)

section \<open>Promotions about to lapse\<close>

definition nearExpiry :: int where "nearExpiry = 24 * 3600 * nanos"
definition mutedWindow :: int where "mutedWindow = 24 * 3600 * nanos"
definition deepDiscountPct :: int where "deepDiscountPct = 40"

record promo_state =
  pm_Muted :: muted
  pm_Sent :: "notification list"

definition withinNearExpiry :: "int \<Rightarrow> int \<Rightarrow> bool" where
  "withinNearExpiry now deadline \<longleftrightarrow> now < deadline \<and> deadline - now \<le> nearExpiry"

definition reserve_promo :: "int \<Rightarrow> string \<Rightarrow> muted \<Rightarrow> bool \<times> muted" where
  "reserve_promo now k m =
     (if (case m k of None \<Rightarrow> False | Some t \<Rightarrow> now - t < mutedWindow) then (False, m)
      else (True, (prune mutedWindow now m)(k \<mapsto> now)))"

definition promo_alert :: "int \<Rightarrow> string \<Rightarrow> notification \<Rightarrow> promo_state \<Rightarrow> promo_state" where
  "promo_alert now k n w = (case reserve_promo now k (pm_Muted w) of
     (False, m) \<Rightarrow> w | (True, m) \<Rightarrow> w\<lparr> pm_Muted := m, pm_Sent := pm_Sent w @ [n] \<rparr>)"

definition personal_promo_note :: "account \<Rightarrow> personal_promo \<Rightarrow> int \<Rightarrow> notification" where
  "personal_promo_note acc p deadline = \<lparr> no_Level = LevelWarn, no_Title = ''Personal promo expiring soon'',
     no_Body = ''An active account has an unviewed personal promo expiring within 24h; claim/use it before it lapses.'',
     no_Tags = [(''account_id'', a_ID acc), (''email'', a_Email acc), (''promo_id'', ppr_ID p),
       (''promo_code'', ppr_PromoCode p), (''campaign'', ppr_CampaignName p), (''expires_at'', format_rfc3339 deadline)] \<rparr>"

definition checkPersonalPromo ::
  "env \<Rightarrow> client \<Rightarrow> account \<Rightarrow> promo_state \<times> client_state \<Rightarrow> promo_state \<times> client_state" where
  "checkPersonalPromo v c acc ws = (case ws of (w, s) \<Rightarrow> case FetchPersonalPromo v c acc s of
     (Inl e, s1) \<Rightarrow> (w, s1)
   | (Inr None, s1) \<Rightarrow> (w, s1)
   | (Inr (Some p), s1) \<Rightarrow>
       (if ppr_IsViewed p then (w, s1)
        else case ppr_ExpiredAt p of
          None \<Rightarrow> (w, s1)
        | Some deadline \<Rightarrow>
            (if \<not> withinNearExpiry (env_now v s1) deadline then (w, s1)
             else (promo_alert (env_now v s1) (''promo:'' @ a_ID acc @ '':'' @ ppr_ID p)
                     (personal_promo_note acc p deadline) w, s1))))"

definition cashback_note :: "account \<Rightarrow> cashback_challenge \<Rightarrow> int \<Rightarrow> notification" where
  "cashback_note acc cb deadline = \<lparr> no_Level = LevelWarn, no_Title = ''Cashback challenge ending soon'',
     no_Body = ''An active account has a cashback challenge in progress ending within 24h; complete it before it closes.'',
     no_Tags = [(''account_id'', a_ID acc), (''email'', a_Email acc), (''credits_spent'', ftoa (cbc_CreditsSpent cb)),
       (''credits_cashback'', ftoa (cbc_CreditsCashback cb)), (''ends_at'', format_rfc3339 deadline)] \<rparr>"

definition checkCashbackChallenge ::
  "env \<Rightarrow> client \<Rightarrow> account \<Rightarrow> promo_state \<times> client_state \<Rightarrow> promo_state \<times> client_state" where
  "checkCashbackChallenge v c acc ws = (case ws of (w, s) \<Rightarrow> case FetchCashbackChallenge v c acc s of
     (Inl e, s1) \<Rightarrow> (w, s1)
   | (Inr None, s1) \<Rightarrow> (w, s1)
   | (Inr (Some cb), s1) \<Rightarrow>
       (if cbc_Status cb \<noteq> ''progress'' then (w, s1)
        else case cbc_ChallengeEndsAt cb of
          None \<Rightarrow> (w, s1)
        | Some deadline \<Rightarrow>
            (if \<not> withinNearExpiry (env_now v s1) deadline then (w, s1)
             else (promo_alert (env_now v s1) (''cashback:'' @ a_ID acc @ '':'' @ format_rfc3339 deadline)
                     (cashback_note acc cb deadline) w, s1))))"

definition twoDayOfferDiscountPct :: "two_day_modal option \<Rightarrow> int" where
  "twoDayOfferDiscountPct mo = (case mo of
     None \<Rightarrow> 0
   | Some m \<Rightarrow>
       (if tdm_OriginalPrice m \<le> 0 then 0
        else let off = wrap64 (tdm_OriginalPrice m - tdm_FinalPrice m) in
          if off \<le> 0 then 0 else wrap64 (off * 100) sdiv tdm_OriginalPrice m))"

definition formatAllowedJSTs :: "string list \<Rightarrow> nat \<Rightarrow> string" where
  "formatAllowedJSTs jsts n = join_with '','' (filter (\<lambda>j. j \<noteq> '''') (take n jsts))"

definition formatPrice :: "int \<Rightarrow> string \<Rightarrow> string" where
  "formatPrice cents currency =
     (let cur = (if currency = '''' then ''USD'' else currency);
          frac = \<bar>cents smod 100\<bar>;
          amt = itoa (cents sdiv 100) @ ''.'' @ pad 2 frac
      in if cur = ''USD'' then ''$'' @ amt else amt @ '' '' @ cur)"

text \<open>The arrow of the text, as its bytes in UTF-8.\<close>

definition arrow :: string where "arrow = [CHR 0xE2, CHR 0x86, CHR 0x92]"

definition two_day_note :: "account \<Rightarrow> two_day_offer \<Rightarrow> two_day_modal \<Rightarrow> notification" where
  "two_day_note acc offer m =
     (let pct = itoa (twoDayOfferDiscountPct (Some m)); models = formatAllowedJSTs (tdo_AllowedJobSetTypes offer) 5 in
      \<lparr> no_Level = LevelWarn, no_Title = ''Two-day offer available ('' @ pct @ ''% off)'',
        no_Body = ''An active account has a two-day offer with '' @ pct @ ''% off ('' @
          formatPrice (tdm_OriginalPrice m) (tdm_Currency m) @ '' '' @ arrow @ '' '' @
          formatPrice (tdm_FinalPrice m) (tdm_Currency m) @
          ''); review whether to purchase manually '' @ [CHR 0xE2, CHR 0x80, CHR 0x94] @ '' this is an alert only.'',
        no_Tags = [(''account_id'', a_ID acc), (''email'', a_Email acc), (''status'', tdo_Status offer),
          (''discount_pct'', pct), (''final_price'', itoa (tdm_FinalPrice m)),
          (''original_price'', itoa (tdm_OriginalPrice m)), (''currency'', tdm_Currency m),
          (''allowed_count'', itoa (int (length (tdo_AllowedJobSetTypes offer))))] @
          (case tdo_ExpiresAt offer of None \<Rightarrow> [] | Some t \<Rightarrow> [(''expires_at'', format_rfc3339 t)]) @
          (if models = '''' then [] else [(''allowed_models'', models)]) \<rparr>)"

definition offer_worth :: "two_day_offer \<Rightarrow> bool" where
  "offer_worth offer \<longleftrightarrow> deepDiscountPct < twoDayOfferDiscountPct (tdo_ModalData offer) \<or> tdo_AllowedJobSetTypes offer \<noteq> []"

definition checkTwoDayOffer ::
  "env \<Rightarrow> client \<Rightarrow> account \<Rightarrow> promo_state \<times> client_state \<Rightarrow> promo_state \<times> client_state" where
  "checkTwoDayOffer v c acc ws = (case ws of (w, s) \<Rightarrow> case FetchTwoDayOffer v c acc s of
     (Inl e, s1) \<Rightarrow> (w, s1)
   | (Inr None, s1) \<Rightarrow> (w, s1)
   | (Inr (Some offer), s1) \<Rightarrow>
       (if tdo_Status offer = '''' \<or> tdo_Status offer = ''hide'' then (w, s1)
        else case tdo_ModalData offer of
          None \<Rightarrow> (w, s1)
        | Some m \<Rightarrow>
            (if \<not> offer_worth offer then (w, s1)
             else (promo_alert (env_now v s1) (''twodayoffer:'' @ a_ID acc) (two_day_note acc offer m) w, s1))))"

definition watch_promos ::
  "env \<Rightarrow> client \<Rightarrow> account \<Rightarrow> promo_state \<times> client_state \<Rightarrow> promo_state \<times> client_state" where
  "watch_promos v c acc ws = checkTwoDayOffer v c acc (checkCashbackChallenge v c acc (checkPersonalPromo v c acc ws))"

definition promo_once ::
  "env \<Rightarrow> client \<Rightarrow> gerror option \<Rightarrow> accounts \<Rightarrow> promo_state \<times> client_state \<Rightarrow> promo_state \<times> client_state" where
  "promo_once v c failList rows ws = (case ListAccounts failList active_filter rows of
     Inl e \<Rightarrow> ws | Inr accs \<Rightarrow> fold (watch_promos v c) accs ws)"

interpretation promo_gate: rearming_gate reserve_promo mutedWindow
  by unfold_locales
     (auto simp: reserve_promo_def prune_def mutedWindow_def nanos_def split: if_splits option.splits)

section \<open>When the reconciler alarms\<close>

lemma discount_tiers:
  "map (\<lambda>(o0, f). twoDayOfferDiscountPct (Some (zero_modal\<lparr> tdm_OriginalPrice := o0, tdm_FinalPrice := f \<rparr>)))
     [(900, 500), (4900, 2900), (8900, 4900)] = [44, 40, 44]"
  by code_simp

lemma discount_range:
  assumes "0 \<le> tdm_FinalPrice m" "tdm_FinalPrice m < 2 ^ 56" "tdm_OriginalPrice m < 2 ^ 56"
  shows "0 \<le> twoDayOfferDiscountPct (Some m) \<and> twoDayOfferDiscountPct (Some m) \<le> 100"
proof -
  let ?o = "tdm_OriginalPrice m" and ?d = "tdm_OriginalPrice m - tdm_FinalPrice m"
  have r: "wrap64 ?d = ?d \<and> wrap64 (?d * 100) = ?d * 100" if "0 < ?o" using assms that
    by (intro conjI wrap64_id) (auto simp: int64_range_def)
  have q: "?d * 100 sdiv ?o = ?d * 100 div ?o \<and> 0 \<le> ?d * 100 div ?o \<and> ?d * 100 div ?o \<le> 100" if d: "0 < ?d"
  proof -
    have "?d * 100 div ?o \<le> ?o * 100 div ?o" using d assms(1) by (intro zdiv_mono1) auto
    moreover have "?o * 100 div ?o = 100" using d assms(1) by simp
    ultimately show ?thesis using d assms(1)
      by (simp only:) (auto simp: signed_divide_int_def sgn_if pos_imp_zdiv_nonneg_iff)
  qed
  show ?thesis
  proof (cases "0 < ?o \<and> 0 < ?d")
    case True
    then show ?thesis using r q unfolding twoDayOfferDiscountPct_def Let_def option.case by (smt (verit))
  next
    case False
    then show ?thesis using r unfolding twoDayOfferDiscountPct_def Let_def option.case by (smt (verit))
  qed
qed

text \<open>When both sides can be read and the amounts are of a plausible size, an account is
  reported exactly when the upstream's spend of the month and the sum of its charges of
  the month differ by more than the tolerance (the floor, or the fraction of the
  upstream's side when that is more) and the month was not reported yet; nothing else
  of the reconciler changes.\<close>

theorem recon_alarm_exact:
  fixes r :: reconciler and us :: usages
  assumes stats: "FetchCreditLedgerStatistics (rk_Env r) (rk_Client r) acc (format_day start)
      (format_day (until - 24 * 3600 * nanos)) s = (Ok stats, s1)"
    and size: "\<bar>cls_TotalCreditsSpent stats\<bar> < 2 ^ 50" "\<bar>charged\<bar> < 2 ^ 60"
      "0 \<le> rk_AbsoluteFloorCredits r" "rk_AbsoluteFloorCredits r < 2 ^ 50"
    and sum: "charged = sum_list (map uw_charged_credits_h (filter (\<lambda>u. uw_account u = a_ID acc \<and>
      sql_le (fmtTime (Some start)) (uw_ts u) \<and> sql_lt (uw_ts u) (fmtTime (Some until))) us))"
    and up: "upH = 100 * cls_TotalCreditsSpent stats"
    and tol: "tolerance = (if upH \<le> 0 then 100 * rk_AbsoluteFloorCredits r
      else max (100 * rk_AbsoluteFloorCredits r) (f64_to_int64 (f64 (int64_to_f64 upH * rk_RelativePct r))))"
  shows "(let key = a_ID acc @ ''|'' @ format_month start; w1 = fst (reconOne r None us (start, until) acc (w, s)) in
    (if tolerance < \<bar>upH - charged\<bar> \<and> rn_Muted w key = None
     then rn_Sent w1 = rn_Sent w @ [ledger_mismatch acc (start, until) stats charged tolerance] \<and>
          rn_Muted w1 key = Some (env_now (rk_Env r) s1)
     else w1 = w))"
proof -
  have upw: "wrap64 (cls_TotalCreditsSpent stats * 100) = upH" using size(1) up by (simp add: wrap64_small)
  have flo: "wrap64 (rk_AbsoluteFloorCredits r * 100) = 100 * rk_AbsoluteFloorCredits r"
    using size(3,4) by (simp add: wrap64_small)
  have diff: "wrap64 (upH - charged) = upH - charged" "wrap64 (charged - upH) = charged - upH"
    using size(1,2) up by (auto intro!: wrap64_small)
  have thr: "thresholdH r upH = tolerance" by (simp add: thresholdH_def flo tol Let_def max_def)
  have bey: "beyond r upH charged \<longleftrightarrow> tolerance < \<bar>upH - charged\<bar>"
    unfolding beyond_def Let_def thr by (simp add: diff not_le abs_if)
  have "SumChargedCreditsHForAccount None (a_ID acc) (Some start) (Some until) us = Ok charged"
    by (simp add: SumChargedCreditsHForAccount_def sum)
  then have "reconOne r None us (start, until) acc (w, s) =
      (if \<not> beyond r upH charged then (w, s1)
       else case reserve_ledger (env_now (rk_Env r) s1) (a_ID acc @ ''|'' @ format_month start) (rn_Muted w) of
         (False, m) \<Rightarrow> (w, s1)
       | (True, m) \<Rightarrow> (w\<lparr> rn_Muted := m,
           rn_Sent := rn_Sent w @ [ledger_mismatch acc (start, until) stats charged (thresholdH r upH)] \<rparr>, s1))"
    unfolding reconOne_def prod.case stats sum.case upw Let_def by (simp only: sum.case)
  then show ?thesis by (simp add: bey thr reserve_ledger_def Let_def)
qed

definition demo_reconciler :: reconciler where
  "demo_reconciler = \<lparr> rk_Env = quiet_env, rk_Client = demo_client, rk_AbsoluteFloorCredits = 100, rk_RelativePct = 0 \<rparr>"

definition demo_charge :: usage_row where
  "demo_charge = (demo_event ''j1'' 20000)\<lparr> uw_account := ''u1'', uw_ts := SqlAt 0 \<rparr>"

lemma quiet_ledger: "\<exists>h1 os1. FetchCreditLedgerStatistics quiet_env demo_client session_account start until (warm h os) =
    (Ok zero_ledger, warm h1 os1)"
proof -
  have dec: "unmarshal dec_ledger zero_ledger ''{}'' = Ok zero_ledger"
    by (simp add: unmarshal_def quiet_body dec_ledger_def dec_struct_def dec_field_def zero_ledger_def)
  obtain h1 os1 where api: "api_get quiet_env demo_client ''fetch_credit_ledger_statistics'' session_account
      (''/workspaces/credit-ledger/statistics?start_date='' @ start @ ''&end_date='' @ until) (warm h os) =
      (Ok \<lparr> hr_Status = 200, hr_Body = ''{}'' \<rparr>, warm h1 os1)"
    using quiet_get by blast
  show ?thesis
    unfolding FetchCreditLedgerStatistics_def api
    by (auto simp: on_answer_def decode_or_empty_def decode_200_def need_200_def map_from_def dec)
qed

theorem recon_alarm_exact_witness:
  "length (rn_Sent (fst (reconOne demo_reconciler None [demo_charge] (0, nanos) session_account
     (\<lparr> rn_Muted = Map.empty, rn_Sent = [] \<rparr>, warm [] [])))) = 1"
proof -
  obtain h1 os1 where f: "FetchCreditLedgerStatistics quiet_env demo_client session_account (format_day 0)
      (format_day (nanos - 24 * 3600 * nanos)) (warm [] []) = (Ok zero_ledger, warm h1 os1)"
    using quiet_ledger by blast
  have row: "filter (\<lambda>u. uw_account u = ''u1'' \<and> sql_le (fmtTime (Some 0)) (uw_ts u) \<and>
      sql_lt (uw_ts u) (fmtTime (Some nanos))) [demo_charge] = [demo_charge]"
    by (simp add: demo_charge_def fmtTime_def nanos_def)
  have "uw_charged_credits_h demo_charge = 20000" by (simp add: demo_charge_def demo_event_def insert_usage_row_def)
  then have sum: "20000 = sum_list (map uw_charged_credits_h (filter (\<lambda>u. uw_account u = a_ID session_account \<and>
      sql_le (fmtTime (Some 0)) (uw_ts u) \<and> sql_lt (uw_ts u) (fmtTime (Some nanos))) [demo_charge]))"
    using row by (simp add: session_account_def demo_account_def)
  have reach: "rk_Env demo_reconciler = quiet_env" "rk_Client demo_reconciler = demo_client"
    and knobs: "rk_AbsoluteFloorCredits demo_reconciler = 100"
    by (simp_all add: demo_reconciler_def)
  note exact = recon_alarm_exact [where r = demo_reconciler and us = "[demo_charge]" and w = "\<lparr> rn_Muted = Map.empty, rn_Sent = [] \<rparr>"
      and tolerance = 10000 and upH = 0, OF f [folded reach] _ _ _ _ sum]
  show ?thesis
    using exact by (simp add: Let_def knobs zero_ledger_def)
qed

text \<open>The window is the whole month of the instant one day before, also in the middle of a month:
  on 22 July the upstream is asked for the days up to 31 July.\<close>

lemma mid_month_window:
  "targetWindow (days_from_civil 2026 7 22 * day_ns) = (days_from_civil 2026 7 1 * day_ns, days_from_civil 2026 8 1 * day_ns)"
  by code_simp

end
