(* ===== verification/PricingStore.thy ===== *)
theory PricingStore
  imports CostCatalog AccountStore
begin

text \<open>
  The pricing tables of \<open>adapters/storage/sqlite/pricing_store.go\<close> and
  \<open>purchase_batches.go\<close>: upstream price snapshots with their rules, plan rates, official
  prices, the operator's price decisions and purchase batches; and the unit cost that
  \<open>core/pricingfloor/calculator.go\<close> derives from the batches.  A row is the domain record
  with its times cut to seconds, which is what the text columns keep; rows are read back
  unchanged.
\<close>

section \<open>Tables\<close>

record pricing_snapshot =
  psn_ID :: string
  psn_Source :: string
  psn_SourceURL :: string
  psn_PayloadJSON :: string
  psn_PayloadSHA256 :: string
  psn_FetchedAt :: gotime
  psn_EffectiveAt :: gotime

record plan_rate =
  pcr_ID :: string
  pcr_PlanType :: string
  pcr_PlanName :: string
  pcr_BillingPeriod :: string
  pcr_Currency :: string
  pcr_AmountMicros :: int
  pcr_Credits :: int
  pcr_UnitCostMicros :: int
  pcr_SourceURL :: string
  pcr_ObservedAt :: gotime

record official_price =
  opo_ID :: string
  opo_ModelAlias :: string
  opo_Provider :: string
  opo_SourceURL :: string
  opo_Currency :: string
  opo_Unit :: string
  opo_PriceMicros :: int
  opo_Resolution :: string
  opo_DurationSeconds :: int
  opo_Mode :: string
  opo_Audio :: string
  opo_DimensionsJSON :: string
  opo_ObservedAt :: gotime
  opo_Region :: string
  opo_Estimated :: bool

record price_decision =
  mpd_ID :: string
  mpd_ModelAlias :: string
  mpd_Currency :: string
  mpd_Unit :: string
  mpd_PriceMicros :: int
  mpd_Resolution :: string
  mpd_DurationSeconds :: int
  mpd_Mode :: string
  mpd_Audio :: string
  mpd_DimensionsJSON :: string
  mpd_Rationale :: string
  mpd_DecidedAt :: gotime

record purchase_batch =
  pb_ID :: string
  pb_PurchasedAt :: gotime
  pb_SourceChannel :: string
  pb_SourceSeller :: string
  pb_PlanType :: string
  pb_AccountsCount :: int
  pb_CreditsPerAccountHundredths :: int
  pb_TotalPaidMicros :: int
  pb_PaidCurrency :: string
  pb_PaidAmountOriginalMicros :: int
  pb_ExchangeRateUsed :: rat
  pb_PricingClass :: string
  pb_PromotionType :: string
  pb_Active :: bool
  pb_LinkedAccountEmail :: string
  pb_Rationale :: string
  pb_CreatedAt :: gotime
  pb_UpdatedAt :: gotime

record pricing_db =
  pd_snapshots :: "pricing_snapshot list"
  pd_rules :: "cost_rule list"
  pd_rates :: "plan_rate list"
  pd_official :: "official_price list"
  pd_decisions :: "price_decision list"
  pd_batches :: "purchase_batch list"

section \<open>Snapshots\<close>

datatype pricing_step = PsBegin | PsSnapshot | PsRule nat | PsCommit

definition snapshot_row :: "pricing_snapshot \<Rightarrow> pricing_snapshot" where
  "snapshot_row p = p\<lparr> psn_FetchedAt := toSecond (psn_FetchedAt p), psn_EffectiveAt := toSecond (psn_EffectiveAt p) \<rparr>"

definition rule_row :: "cost_rule \<Rightarrow> cost_rule" where
  "rule_row r = r\<lparr> mcr_ObservedAt := toSecond (mcr_ObservedAt r) \<rparr>"

text \<open>The loop over the rules: a rule that is incomplete, of another snapshot or that the
  table refuses ends the transaction.\<close>

fun save_rules ::
  "(pricing_step \<Rightarrow> gerror option) \<Rightarrow> string \<Rightarrow> nat \<Rightarrow> cost_rule list \<Rightarrow> cost_rule list \<Rightarrow> (gerror, cost_rule list) result" where
  "save_rules fail sid i [] rows = Ok rows"
| "save_rules fail sid i (r0 # rs) rows =
     (if mcr_ID r0 = '''' \<or> mcr_JST r0 = '''' \<or> mcr_Unit r0 = '''' \<or> mcr_CreditsHundredths r0 \<le> 0
      then Err (Plain (''insert pricing rule '' @ itoa (int i) @ '': id, jst, unit, and positive credits are required''))
      else let r = (if mcr_SnapshotID r0 = '''' then r0\<lparr> mcr_SnapshotID := sid \<rparr> else r0) in
        if mcr_SnapshotID r \<noteq> sid then Err (Plain (''insert pricing rule '' @ mcr_ID r @ '': snapshot mismatch''))
        else case fail (PsRule i) of
          Some e \<Rightarrow> Err (Wrap (''insert pricing rule '' @ mcr_ID r) e)
        | None \<Rightarrow>
            (if mcr_ID r \<in> mcr_ID ` set rows
             then Err (Wrap (''insert pricing rule '' @ mcr_ID r) (Plain ''UNIQUE constraint failed: model_cost_rules.id''))
             else save_rules fail sid (i + 1) rs (rows @ [rule_row r])))"

definition SaveSnapshot ::
  "(pricing_step \<Rightarrow> gerror option) \<Rightarrow> pricing_snapshot option \<Rightarrow> cost_rule list \<Rightarrow> pricing_db
     \<Rightarrow> (gerror, unit) result \<times> pricing_db" where
  "SaveSnapshot fail snapshot rules d =
     (case snapshot of
        None \<Rightarrow> (Err (Plain ''save pricing snapshot: id, source, and payload are required''), d)
      | Some p \<Rightarrow>
         (if psn_ID p = '''' \<or> psn_Source p = '''' \<or> psn_PayloadJSON p = ''''
          then (Err (Plain ''save pricing snapshot: id, source, and payload are required''), d)
          else case fail PsBegin of
            Some e \<Rightarrow> (Err (Wrap ''begin pricing snapshot'' e), d)
          | None \<Rightarrow>
             (case fail PsSnapshot of
                Some e \<Rightarrow> (Err (Wrap ''insert pricing snapshot'' e), d)
              | None \<Rightarrow>
                 (if psn_ID p \<in> psn_ID ` set (pd_snapshots d)
                  then (Err (Wrap ''insert pricing snapshot'' (Plain ''UNIQUE constraint failed: pricing_snapshots.id'')), d)
                  else case save_rules fail (psn_ID p) 0 rules (pd_rules d) of
                    Inl e \<Rightarrow> (Err e, d)
                  | Inr rows \<Rightarrow>
                     (case fail PsCommit of
                        Some e \<Rightarrow> (Err (Wrap ''commit pricing snapshot'' e), d)
                      | None \<Rightarrow> (Ok (), d\<lparr> pd_snapshots := pd_snapshots d @ [snapshot_row p], pd_rules := rows \<rparr>))))))"

definition newest_first :: "pricing_snapshot list \<Rightarrow> pricing_snapshot list" where
  "newest_first rows = sort_desc (\<lambda>p. fmtTime (psn_FetchedAt p)) (sort_desc psn_ID rows)"

definition LatestSnapshot :: "gerror option \<Rightarrow> string \<Rightarrow> pricing_db \<Rightarrow> (gerror, pricing_snapshot option) result" where
  "LatestSnapshot fail source d = (case fail of
     Some e \<Rightarrow> Err e
   | None \<Rightarrow> (case newest_first (filter (\<lambda>p. psn_Source p = source) (pd_snapshots d)) of
        [] \<Rightarrow> Ok None | p # _ \<Rightarrow> Ok (Some p)))"

definition order_rules :: "cost_rule list \<Rightarrow> cost_rule list" where
  "order_rules rs = sort_key mcr_JST (sort_key mcr_Resolution (sort_key mcr_DurationSeconds
     (sort_key mcr_Mode (sort_key mcr_Audio (sort_key mcr_ID rs)))))"

definition ListLatestRules :: "gerror option \<Rightarrow> string \<Rightarrow> pricing_db \<Rightarrow> (gerror, cost_rule list) result" where
  "ListLatestRules fail source d = (case fail of
     Some e \<Rightarrow> Err e
   | None \<Rightarrow> (case newest_first (filter (\<lambda>p. psn_Source p = source) (pd_snapshots d)) of
        [] \<Rightarrow> Ok []
      | p # _ \<Rightarrow> Ok (order_rules (filter (\<lambda>r. mcr_SnapshotID r = psn_ID p) (pd_rules d)))))"

section \<open>Plan rates, official prices, decisions\<close>

text \<open>The subquery is evaluated for each row: the newest monthly rate of the row's plan.\<close>

definition newest_rate :: "string \<Rightarrow> plan_rate list \<Rightarrow> string option" where
  "newest_rate plan rows =
     (case sort_desc (\<lambda>r. fmtTime (pcr_ObservedAt r)) (sort_desc pcr_ID
        (filter (\<lambda>r. pcr_PlanType r = plan \<and> pcr_BillingPeriod r = ''monthly'') rows)) of
      [] \<Rightarrow> None | r # _ \<Rightarrow> Some (pcr_ID r))"

definition ListPlanCreditRates :: "gerror option \<Rightarrow> pricing_db \<Rightarrow> (gerror, plan_rate list) result" where
  "ListPlanCreditRates fail d = (case fail of
     Some e \<Rightarrow> Err e
   | None \<Rightarrow> Ok (sort_key pcr_UnitCostMicros (sort_key pcr_PlanType
       (filter (\<lambda>r. newest_rate (pcr_PlanType r) (pd_rates d) = Some (pcr_ID r)) (pd_rates d)))))"

definition order_official :: "official_price list \<Rightarrow> official_price list" where
  "order_official ps = sort_key opo_Region (sort_key opo_Resolution (sort_key opo_DurationSeconds (sort_key opo_Mode
     (sort_key opo_Audio (sort_desc (\<lambda>p. fmtTime (opo_ObservedAt p)) (sort_desc opo_ID ps))))))"

definition ListOfficialPrices :: "gerror option \<Rightarrow> string \<Rightarrow> pricing_db \<Rightarrow> (gerror, official_price list) result" where
  "ListOfficialPrices fail malias d = (case fail of
     Some e \<Rightarrow> Err e | None \<Rightarrow> Ok (order_official (filter (\<lambda>p. opo_ModelAlias p = malias) (pd_official d))))"

definition ListAllOfficialPrices :: "gerror option \<Rightarrow> pricing_db \<Rightarrow> (gerror, official_price list) result" where
  "ListAllOfficialPrices fail d = (case fail of
     Some e \<Rightarrow> Err e | None \<Rightarrow> Ok (sort_key opo_ModelAlias (order_official (pd_official d))))"

definition newest_decisions :: "price_decision list \<Rightarrow> price_decision list" where
  "newest_decisions ds = sort_desc (\<lambda>p. fmtTime (mpd_DecidedAt p)) (sort_desc mpd_ID ds)"

definition same_variant :: "price_decision \<Rightarrow> price_decision \<Rightarrow> bool" where
  "same_variant p q \<longleftrightarrow> mpd_ModelAlias p = mpd_ModelAlias q \<and> mpd_Resolution p = mpd_Resolution q \<and>
     mpd_DurationSeconds p = mpd_DurationSeconds q \<and> mpd_Mode p = mpd_Mode q \<and> mpd_Audio p = mpd_Audio q \<and>
     mpd_Unit p = mpd_Unit q"

text \<open>\<open>ROW_NUMBER() ... = 1\<close>: the row leads its partition.\<close>

definition leads :: "price_decision list \<Rightarrow> price_decision \<Rightarrow> bool" where
  "leads ds p = (case newest_decisions (filter (same_variant p) ds) of [] \<Rightarrow> False | q # _ \<Rightarrow> mpd_ID q = mpd_ID p)"

definition ListLatestPriceDecisions :: "gerror option \<Rightarrow> pricing_db \<Rightarrow> (gerror, price_decision list) result" where
  "ListLatestPriceDecisions fail d = (case fail of
     Some e \<Rightarrow> Err e
   | None \<Rightarrow> Ok (sort_key mpd_ModelAlias (sort_key mpd_Resolution (sort_key mpd_DurationSeconds (sort_key mpd_Mode
       (sort_key mpd_Audio (filter (leads (pd_decisions d)) (pd_decisions d))))))))"

definition ListPriceDecisions :: "gerror option \<Rightarrow> string \<Rightarrow> pricing_db \<Rightarrow> (gerror, price_decision list) result" where
  "ListPriceDecisions fail malias d = (case fail of
     Some e \<Rightarrow> Err e
   | None \<Rightarrow> Ok (sort_key mpd_Resolution (sort_key mpd_DurationSeconds (sort_key mpd_Mode (sort_key mpd_Audio
       (newest_decisions (filter (\<lambda>p. mpd_ModelAlias p = malias) (pd_decisions d))))))))"

definition RecordPriceDecision ::
  "gerror option \<Rightarrow> string \<Rightarrow> int \<Rightarrow> price_decision \<Rightarrow> pricing_db \<Rightarrow> (gerror, price_decision) result \<times> pricing_db" where
  "RecordPriceDecision fail fresh now p d =
     (if mpd_ModelAlias p = '''' then (Err (Plain ''record price decision: model_alias required''), d)
      else if mpd_Unit p = '''' then (Err (Plain ''record price decision: unit required''), d)
      else if mpd_PriceMicros p < 0
      then (Err (Plain ''record price decision: price_micros must be non-negative''), d)
      else
        let q = p\<lparr> mpd_Currency := (if mpd_Currency p = '''' then ''USD'' else mpd_Currency p),
                   mpd_DimensionsJSON := (if mpd_DimensionsJSON p = '''' then ''{}'' else mpd_DimensionsJSON p),
                   mpd_ID := (if mpd_ID p = '''' then fresh else mpd_ID p),
                   mpd_DecidedAt := (if mpd_DecidedAt p = None then Some now else mpd_DecidedAt p) \<rparr>
        in case fail of
             Some e \<Rightarrow> (Err (Wrap ''insert price decision'' e), d)
           | None \<Rightarrow>
              (if mpd_ID q \<in> mpd_ID ` set (pd_decisions d)
               then (Err (Wrap ''insert price decision'' (Plain ''UNIQUE constraint failed: model_price_decisions.id'')), d)
               else (Ok q, d\<lparr> pd_decisions := pd_decisions d @ [q\<lparr> mpd_DecidedAt := toSecond (mpd_DecidedAt q) \<rparr>] \<rparr>)))"

section \<open>Purchase batches\<close>

definition ListPurchaseBatches :: "gerror option \<Rightarrow> pricing_db \<Rightarrow> (gerror, purchase_batch list) result" where
  "ListPurchaseBatches fail d = (case fail of
     Some e \<Rightarrow> Err e
   | None \<Rightarrow> Ok (sort_desc (\<lambda>b. fmtTime (pb_PurchasedAt b)) (sort_desc pb_ID (pd_batches d))))"

definition GetPurchaseBatch :: "gerror option \<Rightarrow> string \<Rightarrow> pricing_db \<Rightarrow> (gerror, purchase_batch option) result" where
  "GetPurchaseBatch fail bid d = (case fail of
     Some e \<Rightarrow> Err e | None \<Rightarrow> Ok (find_row pb_ID bid (pd_batches d)))"

definition batch_row :: "purchase_batch \<Rightarrow> purchase_batch" where
  "batch_row b = b\<lparr> pb_PurchasedAt := toSecond (pb_PurchasedAt b), pb_CreatedAt := toSecond (pb_CreatedAt b),
     pb_UpdatedAt := toSecond (pb_UpdatedAt b) \<rparr>"

definition UpsertPurchaseBatch ::
  "gerror option \<Rightarrow> int \<Rightarrow> purchase_batch option \<Rightarrow> pricing_db \<Rightarrow> (gerror, unit) result \<times> pricing_db" where
  "UpsertPurchaseBatch fail now batch d = (case batch of
     None \<Rightarrow> (Err (Plain ''purchase batch id is required''), d)
   | Some b0 \<Rightarrow>
      (if pb_ID b0 = '''' then (Err (Plain ''purchase batch id is required''), d)
       else let b = b0\<lparr> pb_UpdatedAt := Some now,
                        pb_CreatedAt := (if pb_CreatedAt b0 = None then Some now else pb_CreatedAt b0),
                        pb_PromotionType := (if pb_PromotionType b0 = '''' then ''none'' else pb_PromotionType b0) \<rparr>
       in case fail of
            Some e \<Rightarrow> (Err e, d)
          | None \<Rightarrow> (Ok (), d\<lparr> pd_batches :=
              (if pb_ID b \<in> keys_of pb_ID (pd_batches d)
               then sql_update (\<lambda>r. pb_ID r = pb_ID b) (\<lambda>r. (batch_row b)\<lparr> pb_CreatedAt := pb_CreatedAt r \<rparr>) (pd_batches d)
               else pd_batches d @ [batch_row b]) \<rparr>)))"

definition DeletePurchaseBatch :: "gerror option \<Rightarrow> string \<Rightarrow> pricing_db \<Rightarrow> (gerror, unit) result \<times> pricing_db" where
  "DeletePurchaseBatch fail bid d = (case fail of
     Some e \<Rightarrow> (Err e, d) | None \<Rightarrow> (Ok (), d\<lparr> pd_batches := sql_delete (\<lambda>b. pb_ID b = bid) (pd_batches d) \<rparr>))"

section \<open>The unit cost\<close>

record unit_cost =
  uc_UnitCostMicros :: int
  uc_TotalPaidMicros :: int
  uc_TotalCredits :: int
  uc_EligibleBatches :: nat
  uc_FallbackApplied :: bool

definition eligible_batch :: "purchase_batch \<Rightarrow> bool" where
  "eligible_batch b \<longleftrightarrow> pb_Active b \<and> pb_PricingClass b = ''normal'' \<and>
     (pb_PromotionType b = '''' \<or> pb_PromotionType b = ''none'') \<and>
     0 < pb_CreditsPerAccountHundredths b \<and> 0 < pb_TotalPaidMicros b \<and> 0 < pb_AccountsCount b"

definition add_batch :: "purchase_batch \<Rightarrow> int \<times> int \<times> nat \<Rightarrow> int \<times> int \<times> nat" where
  "add_batch b acc = (case acc of (paid, credits, n) \<Rightarrow>
     if eligible_batch b
     then (wrap64 (paid + pb_TotalPaidMicros b),
           wrap64 (credits + wrap64 (pb_CreditsPerAccountHundredths b * pb_AccountsCount b)), n + 1)
     else (paid, credits, n))"

definition EffectiveUnitCost :: "purchase_batch list \<Rightarrow> int \<Rightarrow> unit_cost" where
  "EffectiveUnitCost batches fallback =
     (let none = \<lparr> uc_UnitCostMicros = fallback, uc_TotalPaidMicros = 0, uc_TotalCredits = 0,
                   uc_EligibleBatches = 0, uc_FallbackApplied = True \<rparr>
      in case fold add_batch batches (0, 0, 0) of (paid, creditsH, n) \<Rightarrow>
           if creditsH = 0 then none
           else let credits = creditsH sdiv 100 in
             if credits = 0 then none
             else \<lparr> uc_UnitCostMicros = paid sdiv credits, uc_TotalPaidMicros = paid, uc_TotalCredits = credits,
                    uc_EligibleBatches = n, uc_FallbackApplied = False \<rparr>)"

section \<open>The unit cost is the average\<close>

definition batch_credits :: "purchase_batch \<Rightarrow> int" where
  "batch_credits b = pb_CreditsPerAccountHundredths b * pb_AccountsCount b"

definition paid_sum :: "purchase_batch list \<Rightarrow> int" where
  "paid_sum bs = sum_list (map pb_TotalPaidMicros (filter eligible_batch bs))"

definition credit_sum :: "purchase_batch list \<Rightarrow> int" where
  "credit_sum bs = sum_list (map batch_credits (filter eligible_batch bs))"

lemma eligible_sums_nonneg: "0 \<le> paid_sum bs" "0 \<le> credit_sum bs"
  by (auto simp: paid_sum_def credit_sum_def batch_credits_def eligible_batch_def intro!: sum_list_nonneg mult_nonneg_nonneg)

lemma fold_add_batch:
  assumes "0 \<le> p" "0 \<le> c" "p + paid_sum bs < 2 ^ 62" "c + credit_sum bs < 2 ^ 62"
  shows "fold add_batch bs (p, c, n) = (p + paid_sum bs, c + credit_sum bs, n + length (filter eligible_batch bs))"
  using assms
proof (induction bs arbitrary: p c n)
  case (Cons b bs)
  have nn: "0 \<le> paid_sum bs" "0 \<le> credit_sum bs" by (rule eligible_sums_nonneg)+
  show ?case
  proof (cases "eligible_batch b")
    case True
    then have pos: "0 < pb_TotalPaidMicros b" "0 < batch_credits b"
      by (auto simp: eligible_batch_def batch_credits_def)
    have sums: "paid_sum (b # bs) = pb_TotalPaidMicros b + paid_sum bs" "credit_sum (b # bs) = batch_credits b + credit_sum bs"
      using True by (simp_all add: paid_sum_def credit_sum_def)
    have w: "wrap64 (p + pb_TotalPaidMicros b) = p + pb_TotalPaidMicros b" "wrap64 (batch_credits b) = batch_credits b"
      "wrap64 (c + batch_credits b) = c + batch_credits b"
      using Cons.prems pos nn by (simp_all add: sums wrap64_small)
    have "add_batch b (p, c, n) = (p + pb_TotalPaidMicros b, c + batch_credits b, n + 1)"
      using True w by (simp add: add_batch_def batch_credits_def)
    then show ?thesis using Cons.IH [of "p + pb_TotalPaidMicros b" "c + batch_credits b" "n + 1"] Cons.prems pos True
      by (simp add: sums)
  next
    case False
    then show ?thesis using Cons.IH [of p c n] Cons.prems by (simp add: add_batch_def paid_sum_def credit_sum_def)
  qed
qed (simp add: paid_sum_def credit_sum_def)

lemma sdiv_nonneg: "0 \<le> a \<Longrightarrow> 0 < b \<Longrightarrow> a sdiv b = a div b" for a b :: int
  by (cases "a = 0") (simp_all add: signed_divide_int_def sgn_if)

text \<open>C34. The unit cost is what was paid for the eligible batches divided by the whole credits they
  hold, rounded down, and the fallback exactly when those hold less than one credit.  When
  the batches hold whole credits that is within one micro below the exact average; a
  fraction of a credit is cut off before the division, so the result then never falls a
  micro below the average but may exceed it, for a small total by far more than the one micro
  the comment promises.\<close>

theorem unit_cost_bounds:
  assumes "paid_sum bs < 2 ^ 62" "credit_sum bs < 2 ^ 62"
  shows "(uc_FallbackApplied (EffectiveUnitCost bs fb) \<longleftrightarrow> credit_sum bs < 100) \<and>
    (credit_sum bs < 100 \<longrightarrow> uc_UnitCostMicros (EffectiveUnitCost bs fb) = fb) \<and>
    (100 \<le> credit_sum bs \<longrightarrow>
       (let u = uc_UnitCostMicros (EffectiveUnitCost bs fb) in
        u = paid_sum bs div (credit_sum bs div 100) \<and> 0 \<le> u \<and> 100 * paid_sum bs < (u + 1) * credit_sum bs \<and> u * (credit_sum bs div 100) \<le> paid_sum bs \<and>
        (credit_sum bs mod 100 = 0 \<longrightarrow> u * credit_sum bs \<le> 100 * paid_sum bs)))"
proof -
  let ?P = "paid_sum bs" and ?C = "credit_sum bs" and ?U = "EffectiveUnitCost bs fb"
  have nn: "0 \<le> ?P" "0 \<le> ?C" by (rule eligible_sums_nonneg)+
  have fold: "fold add_batch bs (0, 0, 0) = (?P, ?C, length (filter eligible_batch bs))"
    using fold_add_batch [of 0 0 bs 0] assms by simp
  have q: "?C sdiv 100 = ?C div 100" using nn by (simp add: sdiv_nonneg)
  show ?thesis
  proof (cases "?C < 100")
    case True
    then have "?C div 100 = 0" using nn by simp
    then show ?thesis using True by (simp add: EffectiveUnitCost_def fold q Let_def)
  next
    case False
    then have k: "0 < ?C div 100" using zdiv_mono1 [of 100 ?C 100] by simp
    have u: "uc_UnitCostMicros ?U = ?P div (?C div 100)" "\<not> uc_FallbackApplied ?U"
      using False k nn by (auto simp: EffectiveUnitCost_def fold q Let_def sdiv_nonneg)
    let ?u = "?P div (?C div 100)"
    have u0: "0 \<le> ?u" using nn k by (simp add: pos_imp_zdiv_nonneg_iff)
    have low: "?u * (?C div 100) \<le> ?P"
      using div_mult_mod_eq [of ?P "?C div 100"] pos_mod_sign [OF k, of ?P] by linarith
    have "?P < (?u + 1) * (?C div 100)"
      using div_mult_mod_eq [of ?P "?C div 100"] pos_mod_bound [OF k, of ?P]
        distrib_right [of ?u 1 "?C div 100"] by linarith
    moreover have "(?u + 1) * (100 * (?C div 100)) \<le> (?u + 1) * ?C"
      using u0 nn mult_div_mod_eq [of 100 ?C] pos_mod_sign [of 100 ?C] by (intro mult_left_mono) auto
    ultimately have high: "100 * ?P < (?u + 1) * ?C" by (simp add: algebra_simps)
    have "?u * ?C \<le> 100 * ?P" if "?C mod 100 = 0"
    proof -
      have whole: "100 * (?C div 100) = ?C" using that mult_div_mod_eq [of 100 ?C] by simp
      have "?u * (100 * (?C div 100)) \<le> 100 * ?P"
        using low mult.left_commute [of ?u 100 "?C div 100"] by linarith
      then show ?thesis by (simp only: whole)
    qed
    then show ?thesis using u u0 low high False by (simp add: Let_def)
  qed
qed

definition demo_batch :: "int \<Rightarrow> int \<Rightarrow> purchase_batch" where
  "demo_batch credits paid = \<lparr> pb_ID = ''b'', pb_PurchasedAt = Some 0, pb_SourceChannel = ''tg'', pb_SourceSeller = '''',
     pb_PlanType = ''starter'', pb_AccountsCount = 1, pb_CreditsPerAccountHundredths = credits, pb_TotalPaidMicros = paid,
     pb_PaidCurrency = ''USD'', pb_PaidAmountOriginalMicros = paid, pb_ExchangeRateUsed = 1, pb_PricingClass = ''normal'',
     pb_PromotionType = ''none'', pb_Active = True, pb_LinkedAccountEmail = '''', pb_Rationale = '''',
     pb_CreatedAt = Some 0, pb_UpdatedAt = Some 0 \<rparr>"

lemma demo_batch_sums: "paid_sum [demo_batch c p] = p \<and> credit_sum [demo_batch c p] = c" if "0 < c" "0 < p"
  using that by (simp add: paid_sum_def credit_sum_def eligible_batch_def batch_credits_def demo_batch_def)

theorem unit_cost_bounds_witness:
  "\<not> uc_FallbackApplied (EffectiveUnitCost [demo_batch 20000 5500000] 7) \<and>
   uc_UnitCostMicros (EffectiveUnitCost [demo_batch 20000 5500000] 7) = 27500"
  using unit_cost_bounds [of "[demo_batch 20000 5500000]" 7] demo_batch_sums [of 20000 5500000] by (simp add: Let_def)

text \<open>1.99 credits for a dollar: one dollar a credit instead of fifty cents.\<close>

lemma small_total_doubles: "uc_UnitCostMicros (EffectiveUnitCost [demo_batch 199 1000000] 0) = 1000000"
  by code_simp

end
