(* ===== verification/CatalogRef.thy ===== *)
theory CatalogRef
  imports Access Json ClientData
begin

text \<open>
  The references of a body template to the values a parameter may take
  (\<open>adapters/modelregistry/jsonstatic/registry_catalogref.go\<close>): inline literals, or a
  catalogue file with an optional path into it.  Text is cut on bytes, as in the code.
\<close>

section \<open>Cutting text\<close>

definition equal_fold :: "string \<Rightarrow> string \<Rightarrow> bool" where
  "equal_fold s t \<longleftrightarrow> map lower_char s = map lower_char t"

definition trimPrefixFold :: "string \<Rightarrow> string \<Rightarrow> string option" where
  "trimPrefixFold s p =
     (if length s < length p then None
      else if equal_fold (take (length p) s) p then Some (drop (length p) s) else None)"

text \<open>What precedes and what follows the first occurrence of a separator.\<close>

fun cut_at :: "string \<Rightarrow> string \<Rightarrow> (string \<times> string) option" where
  "cut_at sep [] = (if sep = [] then Some ([], []) else None)"
| "cut_at sep (c # s) =
     (if take (length sep) (c # s) = sep then Some ([], drop (length sep) (c # s))
      else map_option (\<lambda>(a, b). (c # a, b)) (cut_at sep s))"

definition before_any :: "char list \<Rightarrow> string \<Rightarrow> string" where
  "before_any cs s = takeWhile (\<lambda>c. c \<notin> set cs) s"

definition has_suffix :: "string \<Rightarrow> string \<Rightarrow> bool" where
  "has_suffix suf s \<longleftrightarrow> length suf \<le> length s \<and> drop (length s - length suf) s = suf"

definition trim_chars :: "char list \<Rightarrow> string \<Rightarrow> string" where
  "trim_chars cs s = (let f = dropWhile (\<lambda>c. c \<in> set cs) in rev (f (rev (f s))))"

text \<open>U+2192 in UTF-8, and the ASCII form.\<close>

definition splitArrow :: "string \<Rightarrow> (string \<times> string) option" where
  "splitArrow s = (case cut_at [CHR 0xE2, CHR 0x86, CHR 0x92] s of
     Some p \<Rightarrow> Some p | None \<Rightarrow> cut_at ''->'' s)"

definition stripAnnotation :: "string \<Rightarrow> string" where
  "stripAnnotation s = TrimSpace (before_any [CHR '' '', CHR 0x09, CHR ''('' ] (TrimSpace s))"

definition splitLiteralValues :: "string \<Rightarrow> string list" where
  "splitLiteralValues rest =
     filter (\<lambda>v. v \<noteq> '''') (map (\<lambda>p. trim_chars [CHR 0x22, CHR 0x27] (TrimSpace p))
       (split_on (CHR ''|'') (before_any [CHR ''('' ] rest)))"

definition quoted_by :: "char \<Rightarrow> string \<Rightarrow> string option" where
  "quoted_by q s = (case cut_at [q] s of None \<Rightarrow> None | Some (a, b) \<Rightarrow> map_option fst (cut_at [q] b))"

definition extractQuoted :: "string \<Rightarrow> string" where
  "extractQuoted s0 =
     (let s = TrimSpace s0 in
      case quoted_by (CHR 0x22) s of Some v \<Rightarrow> v
      | None \<Rightarrow> (case quoted_by (CHR 0x27) s of Some v \<Rightarrow> v
         | None \<Rightarrow> TrimSpace (before_any [CHR '' '', CHR 0x09, CHR ''('' ] s)))"

section \<open>References\<close>

datatype catalog_ref = RefUnknown | RefCatalog string string | RefLiteral "string list"

definition normalizeCatalogRef :: "string \<Rightarrow> catalog_ref" where
  "normalizeCatalogRef raw =
     (let s = TrimSpace raw in
      if s = '''' then RefUnknown
      else case trimPrefixFold s ''literal enum:'' of
        Some rest \<Rightarrow> (let vals = splitLiteralValues rest in if vals = [] then RefUnknown else RefLiteral vals)
      | None \<Rightarrow>
         (case trimPrefixFold s ''literal'' of
            Some rest \<Rightarrow> (let v = extractQuoted rest in if v = '''' then RefUnknown else RefLiteral [v])
          | None \<Rightarrow>
             (if \<not> has_prefix s ''catalogs/'' then RefUnknown
              else case splitArrow s of
                Some (lhs, rhs) \<Rightarrow>
                  (let p = stripAnnotation lhs in
                   if \<not> has_suffix ''.json'' p then RefUnknown else RefCatalog p (TrimSpace rhs))
              | None \<Rightarrow>
                  (let p = stripAnnotation s in
                   if \<not> has_suffix ''.json'' p then RefUnknown else RefCatalog p ''''))))"

section \<open>Walking a catalogue\<close>

definition expandItems :: "json list \<Rightarrow> json list" where
  "expandItems nodes = concat (map (\<lambda>n. case n of
     JObj m \<Rightarrow> (case obj_get m ''items'' of Some (JArr arr) \<Rightarrow> arr | _ \<Rightarrow> [])
   | JArr vs \<Rightarrow> vs
   | _ \<Rightarrow> []) nodes)"

definition child_of :: "string \<Rightarrow> json \<Rightarrow> json list" where
  "child_of seg e = (case e of JObj m \<Rightarrow> (case obj_get m seg of Some c \<Rightarrow> [c] | None \<Rightarrow> []) | _ \<Rightarrow> [])"

definition walk_segment :: "string \<Rightarrow> json list \<Rightarrow> json list" where
  "walk_segment seg nodes =
     (if seg = '''' then nodes
      else if seg = ''item'' then expandItems nodes
      else concat (map (\<lambda>n. case n of JArr vs \<Rightarrow> concat (map (child_of seg) vs) | _ \<Rightarrow> child_of seg n) nodes))"

text \<open>A leading \<open>item\<close> descends as any other does.\<close>

definition extractFromCatalogTree :: "string \<Rightarrow> string \<Rightarrow> string list" where
  "extractFromCatalogTree tree path0 =
     (let path = TrimSpace path0 in
      if tree = '''' \<or> path = '''' then []
      else case unmarshal dec_any JNull tree of
        Inl e \<Rightarrow> []
      | Inr doc \<Rightarrow>
          List.map_filter (\<lambda>n. case n of JStr s \<Rightarrow> if s = '''' then None else Some s | _ \<Rightarrow> None)
            (fold walk_segment (split_on (CHR ''.'') path) [doc]))"

section \<open>The identifiers of a catalogue\<close>

definition pickCatalogID :: "object \<Rightarrow> string" where
  "pickCatalogID item =
     (case List.map_filter (\<lambda>k. case obj_get item k of Some (JStr s) \<Rightarrow> if s = '''' then None else Some s | _ \<Rightarrow> None)
        [''id'', ''job_id'', ''preset_id''] of [] \<Rightarrow> '''' | s # _ \<Rightarrow> s)"

definition dec_any_map :: "json \<Rightarrow> object option" where
  "dec_any_map j = dec_map dec_any JNull j []"

definition parseCatalogIDs :: "string \<Rightarrow> string list" where
  "parseCatalogIDs body =
     (let pick = (\<lambda>items. filter (\<lambda>i. i \<noteq> '''') (map pickCatalogID items));
          wrapped = (case unmarshal (dec_struct (dec_field ''items'' (dec_list dec_any_map) []) []) [] body of
                       Inl e \<Rightarrow> [] | Inr items \<Rightarrow> pick items)
      in if wrapped \<noteq> [] then wrapped
         else case unmarshal (dec_list dec_any_map) [] body of Inl e \<Rightarrow> [] | Inr items \<Rightarrow> pick items)"

section \<open>Shapes met in the data\<close>

lemma ref_examples:
  "normalizeCatalogRef ''catalogs/foo.json (annotation)'' = RefCatalog ''catalogs/foo.json'' ''''"
  "normalizeCatalogRef ''catalogs/foo.json -> item.camera.id'' = RefCatalog ''catalogs/foo.json'' ''item.camera.id''"
  "normalizeCatalogRef ''Literal enum: a|b||c (note)'' = RefLiteral [''a'', ''b'', ''c'']"
  "normalizeCatalogRef ''literal skin-enhancer (x)'' = RefLiteral [''skin-enhancer'']"
  "normalizeCatalogRef ''spa-only-presets.json'' = RefUnknown"
  by code_simp+

lemma walk_example:
  "fold walk_segment (split_on (CHR ''.'') ''item.camera.id'')
     [JObj [(''items'', JArr [JObj [(''camera'', JObj [(''id'', JStr ''a'')])], JObj [(''camera'', JNull)]])]] = [JStr ''a'']"
  by code_simp

text \<open>A reference that names a catalogue names a file directly in the catalogue directory's
  namespace, and a literal never offers an empty value.\<close>

lemma normalize_catalog_path:
  assumes "normalizeCatalogRef raw = RefCatalog p e"
  shows "has_suffix ''.json'' p"
  using assms
  by (auto simp: normalizeCatalogRef_def Let_def split: if_split_asm option.split_asm prod.split_asm)

lemma normalize_literal_nonempty:
  assumes "normalizeCatalogRef raw = RefLiteral vs"
  shows "vs \<noteq> [] \<and> '''' \<notin> set vs"
  using assms
  by (auto simp: normalizeCatalogRef_def Let_def splitLiteralValues_def split: if_split_asm option.split_asm prod.split_asm)

end
