(* ===== verification/JsonPrint.thy ===== *)
theory JsonPrint
  imports Json "HOL-Library.Multiset"
begin

text \<open>
  What \<open>marshal\<close> writes, \<open>parse_json\<close> reads back: the same document with the keys of every
  object sorted and the last of equal keys kept, for documents whose text is ASCII and
  that hold no numbers.  The playground handler rewrites a request's body this way.
\<close>

section \<open>Objects\<close>

lemma map_from_mem: "x \<in> set (map_from es) \<Longrightarrow> x \<in> set es"
proof -
  have "x \<in> set (fold (\<lambda>(k, v). obj_put k v) es m) \<Longrightarrow> x \<in> set es \<or> x \<in> set m" for m
    by (induction es arbitrary: m) (force simp: obj_put_def split: prod.split_asm)+
  from this [of "[]"] show "x \<in> set (map_from es) \<Longrightarrow> ?thesis" by (simp add: map_from_def)
qed

lemma obj_put_distinct: "distinct (map fst m) \<Longrightarrow> distinct (map fst (obj_put k v m))"
  by (auto simp: obj_put_def distinct_map_filter)

lemma map_from_distinct: "distinct (map fst (map_from es))"
proof -
  have "distinct (map fst (fold (\<lambda>(k, v). obj_put k v) es m))" if "distinct (map fst m)" for m :: "(string \<times> 'a) list"
    using that by (induction es arbitrary: m) (auto simp: obj_put_distinct split: prod.split)
  then show ?thesis by (simp add: map_from_def)
qed

lemma obj_put_map: "obj_put k (f v) (map (\<lambda>(k, v). (k, f v)) m) = map (\<lambda>(k, v). (k, f v)) (obj_put k v m)"
  by (simp add: obj_put_def filter_map comp_def case_prod_beta)

lemma map_from_map: "map_from (map (\<lambda>(k, v). (k, f v)) es) = map (\<lambda>(k, v). (k, f v)) (map_from es)"
proof -
  have "fold (\<lambda>(k, v). obj_put k v) (map (\<lambda>(k, v). (k, f v)) es) (map (\<lambda>(k, v). (k, f v)) m) =
      map (\<lambda>(k, v). (k, f v)) (fold (\<lambda>(k, v). obj_put k v) es m)" for m
  proof (induction es arbitrary: m)
    case (Cons e es)
    then show ?case by (cases e) (simp add: obj_put_map)
  qed simp
  from this [of "[]"] show ?thesis by (simp add: map_from_def)
qed

lemma sort_key_map: "sort_key fst (map (\<lambda>(k, v). (k, f v)) es) = map (\<lambda>(k, v). (k, f v)) (sort_key fst es)"
proof -
  have ins: "insort_key fst (k, f v) (map (\<lambda>(k, v). (k, f v)) xs) = map (\<lambda>(k, v). (k, f v)) (insort_key fst (k, v) xs)" for k v xs
    by (induction xs) auto
  show ?thesis by (induction es) (auto simp: ins)
qed

text \<open>The members of an object as they are written.\<close>

definition members_of :: "(string \<times> 'v) list \<Rightarrow> (string \<times> 'v) list" where
  "members_of o1 = sort_key fst (map_from o1)"

lemma members_of_map: "members_of (map (\<lambda>(k, v). (k, f v)) o1) = map (\<lambda>(k, v). (k, f v)) (members_of o1)"
  by (simp add: members_of_def map_from_map sort_key_map)

lemma members_of_mem: "x \<in> set (members_of o1) \<Longrightarrow> x \<in> set o1"
  by (simp add: members_of_def map_from_mem)

lemma map_from_nil [simp]: "map_from es = [] \<longleftrightarrow> es = []"
proof -
  have keep: "m \<noteq> [] \<Longrightarrow> fold (\<lambda>(k, v). obj_put k v) es m \<noteq> []" for es m
    by (induction es arbitrary: m) (simp_all add: obj_put_def case_prod_beta)
  show ?thesis
  proof (cases es)
    case (Cons e r)
    have "fold (\<lambda>(k, v). obj_put k v) r (obj_put (fst e) (snd e) []) \<noteq> []" by (rule keep) (simp add: obj_put_def)
    then show ?thesis by (simp add: Cons map_from_def case_prod_beta)
  qed (simp add: map_from_def)
qed

lemma members_of_nil [simp]: "members_of o1 = [] \<longleftrightarrow> o1 = []"
  by (metis members_of_def length_0_conv length_sort map_from_nil)

lemma members_of_empty [simp]: "members_of [] = []" by simp

fun canon :: "json \<Rightarrow> json" where
  "canon (JArr js) = JArr (map canon js)"
| "canon (JObj o1) = JObj (members_of (map (\<lambda>(k, v). (k, canon v)) o1))"
| "canon j = j"

lemma marshal_object:
  "marshal (JObj o1) = ''{'' @ commas (map (\<lambda>(k, v). quote k @ '':'' @ marshal v) (members_of o1)) @ ''}''"
proof -
  have "sort_key fst (map_from (map (\<lambda>(k, v). (k, marshal v)) o1)) = map (\<lambda>(k, v). (k, marshal v)) (members_of o1)"
    by (simp add: members_of_map [unfolded members_of_def] members_of_def)
  then show ?thesis by (simp add: comp_def case_prod_unfold)
qed

lemma canon_object: "canon (JObj o1) = JObj (map (\<lambda>(k, v). (k, canon v)) (members_of o1))"
  by (simp add: members_of_map)

section \<open>Strings\<close>

definition ascii :: "string \<Rightarrow> bool" where "ascii s \<longleftrightarrow> list_all (\<lambda>c. byte c < 128) s"

lemma byte_char [simp]: "char_of (byte c) = c" by (simp add: byte_def)

lemma rune_ascii: "byte c < 128 \<Longrightarrow> rune_width (c # r) = 1"
  by (simp add: rune_width_def Let_def)

lemma escape_ascii: "ascii s \<Longrightarrow> escape 0 s = concat (map escape_char s)"
  by (induction s) (simp_all add: ascii_def rune_ascii)

lemma sanitize_ascii: "ascii s \<Longrightarrow> sanitize 0 s = s"
  by (induction s) (simp_all add: ascii_def rune_ascii)

text \<open>The forms an escaped character takes.\<close>

definition is_control :: "char \<Rightarrow> bool" where
  "is_control c \<longleftrightarrow> byte c < 32 \<or> byte c = 38 \<or> byte c = 60 \<or> byte c = 62"

lemma all_below: "list_all P [0 ..< n] \<Longrightarrow> k < n \<Longrightarrow> P k"
  by (simp add: list_all_iff)

lemma hex_char_ok: "k < 16 \<Longrightarrow> hex_digit (hex_char k) = Some k"
proof -
  have "list_all (\<lambda>k. hex_digit (hex_char k) = Some k) [0 ..< 16]" by code_simp
  from all_below [OF this] show "k < 16 \<Longrightarrow> ?thesis" .
qed

lemma control_chars:
  "byte c = 8 \<Longrightarrow> c = CHR 0x08" "byte c = 12 \<Longrightarrow> c = CHR 0x0C" "byte c = 10 \<Longrightarrow> c = CHR 0x0A"
  "byte c = 13 \<Longrightarrow> c = CHR 0x0D" "byte c = 9 \<Longrightarrow> c = CHR 0x09"
proof -
  have eq: "byte c = byte d \<Longrightarrow> c = d" for d by (metis byte_char)
  show "byte c = 8 \<Longrightarrow> c = CHR 0x08" "byte c = 12 \<Longrightarrow> c = CHR 0x0C" "byte c = 10 \<Longrightarrow> c = CHR 0x0A"
    "byte c = 13 \<Longrightarrow> c = CHR 0x0D" "byte c = 9 \<Longrightarrow> c = CHR 0x09"
    by (rule eq, simp add: byte_def)+
qed

lemma letter_bytes:
  "byte (CHR 0x22) = 34" "byte (CHR 0x5C) = 92" "byte (CHR ''b'') = 98" "byte (CHR ''f'') = 102"
  "byte (CHR ''n'') = 110" "byte (CHR ''r'') = 114" "byte (CHR ''t'') = 116"
  by (simp_all add: byte_def)

lemma escape_cases:
  obtains (plain) "escape_char c = [c]" "c \<noteq> CHR 0x22" "c \<noteq> CHR 0x5C" "32 \<le> byte c"
  | (short) e where "escape_char c = [CHR 0x5C, e]" "e \<noteq> CHR ''u''" "32 \<le> byte e" "byte e < 128" "simple_escape e = Some c"
  | (long) "escape_char c = CHR 0x5C # ''u00'' @ [hex_char (byte c div 16), hex_char (byte c)]" "byte c < 64"
proof -
  have "(escape_char c = [c] \<and> c \<noteq> CHR 0x22 \<and> c \<noteq> CHR 0x5C \<and> 32 \<le> byte c) \<or>
      (\<exists>e. escape_char c = [CHR 0x5C, e] \<and> e \<noteq> CHR ''u'' \<and> 32 \<le> byte e \<and> byte e < 128 \<and> simple_escape e = Some c) \<or>
      (escape_char c = CHR 0x5C # ''u00'' @ [hex_char (byte c div 16), hex_char (byte c)] \<and> byte c < 64)"
    by (auto simp: escape_char_def Let_def simple_escape_def letter_bytes dest: control_chars)
  then show ?thesis using plain short long by blast
qed

lemma hex_char_plain: "hex_char k \<noteq> CHR 0x22 \<and> hex_char k \<noteq> CHR 0x5C \<and> 32 \<le> byte (hex_char k) \<and> byte (hex_char k) < 128"
proof -
  have "list_all (\<lambda>k. let c = hex_char k in c \<noteq> CHR 0x22 \<and> c \<noteq> CHR 0x5C \<and> 32 \<le> byte c \<and> byte c < 128) [0 ..< 16]" by code_simp
  from all_below [OF this] have "k mod 16 < 16 \<Longrightarrow>
      (let c = hex_char (k mod 16) in c \<noteq> CHR 0x22 \<and> c \<noteq> CHR 0x5C \<and> 32 \<le> byte c \<and> byte c < 128)" .
  moreover have "hex_char (k mod 16) = hex_char k" by (simp add: hex_char_def)
  ultimately show ?thesis by (simp add: Let_def)
qed

lemma scan_escaped:
  assumes "scan_string t = Some (raw, r)"
  shows "scan_string (escape_char c @ t) = Some (escape_char c @ raw, r)"
proof (cases c rule: escape_cases)
  case plain
  then show ?thesis using assms by simp
next
  case (short e)
  then show ?thesis using assms by (simp add: byte_def)
next
  case long
  have z: "byte (CHR ''0'') = 48" by (simp add: byte_def)
  show ?thesis using assms hex_char_plain [of "byte c div 16"] hex_char_plain [of "byte c"]
    by (simp add: long(1) letter_bytes z)
qed

lemma unescape_escaped: "unescape (escape_char c @ t) = map_option (Cons c) (unescape t)"
proof (cases c rule: escape_cases)
  case plain
  then show ?thesis by simp
next
  case (short e)
  then show ?thesis by simp
next
  case long
  have z: "hex_digit (CHR ''0'') = Some 0" by (simp add: hex_digit_def byte_def)
  have h: "hex_digit (hex_char (byte c div 16)) = Some (byte c div 16)" "hex_digit (hex_char (byte c)) = Some (byte c mod 16)"
    using hex_char_ok [of "byte c div 16"] hex_char_ok [of "byte c mod 16"] long(2) by (auto simp: hex_char_def)
  have "getu4 (CHR 0x5C # CHR ''u'' # CHR ''0'' # CHR ''0'' # hex_char (byte c div 16) # hex_char (byte c) # t) = Some (byte c)"
    by (simp add: getu4_def z h)
  moreover have "(@) [c] = (#) c" by (rule ext) simp
  ultimately show ?thesis using long(2) by (simp add: long(1) utf8_encode_def)
qed

lemma parse_quoted:
  assumes "ascii s"
  shows "parse_string (escape 0 s @ CHR 0x22 # r) = Some (s, r)"
proof -
  have a: "list_all (\<lambda>c. byte c < 128) s" using assms by (simp add: ascii_def)
  have scan: "scan_string (concat (map escape_char s) @ CHR 0x22 # r) = Some (concat (map escape_char s), r)"
    using a by (induction s) (simp_all add: scan_escaped)
  have un: "unescape (concat (map escape_char s)) = Some s"
    using a by (induction s) (simp_all add: unescape_escaped)
  have "list_all (\<lambda>c. byte c < 128) (escape_char c)" if "byte c < 128" for c
    using that
  proof (cases c rule: escape_cases)
    case plain
    then show ?thesis using that by simp
  next
    case (short e)
    then show ?thesis by (simp add: letter_bytes)
  next
    case long
    then show ?thesis using hex_char_plain [of "byte c div 16"] hex_char_plain [of "byte c"] by (simp add: long(1) letter_bytes) (simp add: byte_def)
  qed
  then have "ascii (concat (map escape_char s))" using a unfolding ascii_def by (induction s) auto
  then show ?thesis using scan un by (simp add: parse_string_def escape_ascii [OF assms] sanitize_ascii)
qed

section \<open>Documents\<close>

text \<open>Documents without numbers whose text is ASCII, nested at most to the parser's limit.\<close>

fun plain_json :: "json \<Rightarrow> bool" where
  "plain_json (JNum s) = False"
| "plain_json (JStr s) = ascii s"
| "plain_json (JArr js) = list_all plain_json js"
| "plain_json (JObj o1) = list_all (\<lambda>(k, v). ascii k \<and> plain_json v) o1"
| "plain_json _ = True"

fun fits :: "nat \<Rightarrow> json \<Rightarrow> bool" where
  "fits d (JArr js) = (d < 10000 \<and> list_all (fits (Suc d)) js)"
| "fits d (JObj o1) = (d < 10000 \<and> list_all (\<lambda>(k, v). fits (Suc d) v) o1)"
| "fits d _ = True"

lemma quote_head: "quote s = CHR 0x22 # escape 0 s @ [CHR 0x22]" by (simp add: quote_def)

lemma marshal_head:
  "plain_json j \<Longrightarrow> \<exists>c r. marshal j = c # r \<and> \<not> is_ws c \<and> c \<noteq> CHR '']'' \<and> c \<noteq> CHR ''}''"
  by (cases j rule: plain_json.cases) (simp_all add: quote_def is_ws_def)

lemma expect_here: "\<not> is_ws c \<Longrightarrow> expect c (c # r) = Some r"
  by (simp add: expect_def skip_ws_def)

lemma expect_other: "\<not> is_ws c \<Longrightarrow> c \<noteq> x \<Longrightarrow> expect x (c # r) = None"
  by (simp add: expect_def skip_ws_def)

definition reads :: "json \<Rightarrow> bool" where
  "reads j \<longleftrightarrow> (\<forall>n d r. fits d j \<longrightarrow> 2 * length (marshal j @ r) < n \<longrightarrow> parse_value n d (marshal j @ r) = Some (canon j, r))"

lemma reads_elems:
  assumes "list_all (\<lambda>v. plain_json v \<and> reads v \<and> fits d v) vs" "vs \<noteq> []"
    "2 * length (commas (map marshal vs) @ '']'' @ r) + 1 < n"
  shows "parse_elems n d (commas (map marshal vs) @ '']'' @ r) = Some (map canon vs, r)"
  using assms
proof (induction vs arbitrary: n)
  case (Cons v vs)
  obtain m where n: "n = Suc m" using Cons.prems(3) by (cases n) auto
  have ws: "\<not> is_ws (CHR '']'')" "\<not> is_ws (CHR '','')" by (simp_all add: is_ws_def)
  show ?case
  proof (cases vs)
    case Nil
    then have "parse_value m d (marshal v @ '']'' @ r) = Some (canon v, '']'' @ r)"
      using Cons.prems n by (simp add: reads_def)
    then show ?thesis using ws by (simp add: Nil n expect_here expect_other)
  next
    case (Cons w ws')
    let ?rest = "commas (map marshal vs) @ '']'' @ r"
    have split: "commas (map marshal (v # vs)) @ '']'' @ r = marshal v @ '','' @ ?rest" by (simp add: Cons)
    have "parse_value m d (marshal v @ '','' @ ?rest) = Some (canon v, '','' @ ?rest)"
      using Cons.prems n split by (simp add: reads_def)
    moreover have "parse_elems m d ?rest = Some (map canon vs, r)"
      using Cons.prems n split Cons by (intro Cons.IH) simp_all
    ultimately show ?thesis unfolding split n using ws by (simp add: expect_here)
  qed
qed simp

definition member_text :: "string \<times> json \<Rightarrow> string" where
  "member_text kv = quote (fst kv) @ '':'' @ marshal (snd kv)"

lemma reads_members:
  assumes "list_all (\<lambda>(k, v). ascii k \<and> plain_json v \<and> reads v \<and> fits d v) ms" "ms \<noteq> []"
    "2 * length (commas (map member_text ms) @ ''}'' @ r) + 1 < n"
  shows "parse_members n d (commas (map member_text ms) @ ''}'' @ r) = Some (map (\<lambda>(k, v). (k, canon v)) ms, r)"
  using assms
proof (induction ms arbitrary: n)
  case (Cons kv ms)
  obtain k v where kv: "kv = (k, v)" by (cases kv)
  obtain m where n: "n = Suc m" using Cons.prems(3) by (cases n) auto
  have ws: "\<not> is_ws (CHR ''}'')" "\<not> is_ws (CHR '','')" "\<not> is_ws (CHR '':'')" "\<not> is_ws (CHR 0x22)" by (simp_all add: is_ws_def)
  have key: "Option.bind (expect (CHR 0x22) (quote k @ t)) parse_string = Some (k, t)" for t
    using Cons.prems(1) ws by (simp add: kv quote_def expect_here parse_quoted)
  show ?case
  proof (cases ms)
    case Nil
    then have "parse_value m d (marshal v @ ''}'' @ r) = Some (canon v, ''}'' @ r)"
      using Cons.prems n by (simp add: kv reads_def member_text_def)
    then show ?thesis using ws by (simp add: Nil n kv member_text_def key expect_here expect_other)
  next
    case (Cons w ms')
    let ?rest = "commas (map member_text ms) @ ''}'' @ r"
    have split: "commas (map member_text (kv # ms)) @ ''}'' @ r = quote k @ '':'' @ marshal v @ '','' @ ?rest"
      by (simp add: Cons kv member_text_def)
    have "parse_value m d (marshal v @ '','' @ ?rest) = Some (canon v, '','' @ ?rest)"
      using Cons.prems n split by (simp add: kv reads_def)
    moreover have "parse_members m d ?rest = Some (map (\<lambda>(k, v). (k, canon v)) ms, r)"
      using Cons.prems n split Cons by (intro Cons.IH) simp_all
    ultimately show ?thesis unfolding split n using ws by (simp add: kv key expect_here)
  qed
qed simp

lemma reads_step:
  assumes "\<And>m d r. fits d j \<Longrightarrow> value_step d (parse_members m (Suc d)) (parse_elems m (Suc d)) (marshal j @ r) = Some (canon j, r)"
  shows "reads j"
  unfolding reads_def
proof (intro allI impI)
  fix n d r assume f: "fits d j" and l: "2 * length (marshal j @ r) < n"
  then obtain m where "n = Suc m" by (cases n) auto
  then show "parse_value n d (marshal j @ r) = Some (canon j, r)" using assms [OF f] by simp
qed

lemma reads_null: "reads JNull"
  by (rule reads_step) (simp add: value_step_def skip_ws_def is_ws_def strip_def)

lemma reads_bool: "reads (JBool b)"
  by (cases b; rule reads_step) (simp_all add: value_step_def skip_ws_def is_ws_def strip_def)

lemma marshal_reads: "plain_json j \<Longrightarrow> reads j"
proof (induction j rule: plain_json.induct)
  case (2 s)
  have ws: "\<not> is_ws (CHR 0x22)" by (simp add: is_ws_def)
  show ?case unfolding reads_def
  proof (intro allI impI)
    fix n d r assume "2 * length (marshal (JStr s) @ r) < n"
    then obtain m where "n = Suc m" by (cases n) auto
    then show "parse_value n d (marshal (JStr s) @ r) = Some (canon (JStr s), r)"
      using 2 ws by (simp add: quote_def value_step_def skip_ws_def parse_quoted)
  qed
next
  case (3 js)
  show ?case unfolding reads_def
  proof (intro allI impI)
    fix n d r assume f: "fits d (JArr js)" and l: "2 * length (marshal (JArr js) @ r) < n"
    then obtain m where n: "n = Suc m" by (cases n) auto
    have ws: "\<not> is_ws (CHR ''['')" "\<not> is_ws (CHR '']'')" by (simp_all add: is_ws_def)
    show "parse_value n d (marshal (JArr js) @ r) = Some (canon (JArr js), r)"
    proof (cases js)
      case Nil
      then show ?thesis using f ws by (simp add: n value_step_def skip_ws_def expect_here)
    next
      case (Cons v vs)
      obtain c t where h: "marshal v = c # t" "\<not> is_ws c" "c \<noteq> CHR '']''"
        using marshal_head [of v] 3 Cons by auto
      have "\<exists>u. commas (map marshal js) = c # u" using h Cons by (cases vs) auto
      then have e: "expect (CHR '']'') (commas (map marshal js) @ '']'' @ r) = None"
        using h by (auto simp: expect_other)
      have "parse_elems m (Suc d) (commas (map marshal js) @ '']'' @ r) = Some (map canon js, r)"
        using 3 f l n Cons by (intro reads_elems) (auto simp: list_all_iff)
      then show ?thesis using f ws e by (simp add: n value_step_def skip_ws_def)
    qed
  qed
next
  case (4 o1)
  show ?case unfolding reads_def
  proof (intro allI impI)
    fix n d r assume f: "fits d (JObj o1)" and l: "2 * length (marshal (JObj o1) @ r) < n"
    then obtain m where n: "n = Suc m" by (cases n) auto
    have ws: "\<not> is_ws (CHR ''{'')" "\<not> is_ws (CHR ''}'')" "\<not> is_ws (CHR 0x22)" by (simp_all add: is_ws_def)
    let ?ms = "members_of o1"
    have whole: "marshal (JObj o1) @ r = CHR ''{'' # commas (map member_text ?ms) @ ''}'' @ r"
      by (simp only: marshal_object) (simp add: member_text_def [abs_def] case_prod_unfold)
    have sub: "list_all (\<lambda>(k, v). ascii k \<and> plain_json v \<and> reads v \<and> fits (Suc d) v) ?ms"
      using 4 f by (fastforce simp: list_all_iff dest: members_of_mem)
    show "parse_value n d (marshal (JObj o1) @ r) = Some (canon (JObj o1), r)"
    proof (cases "?ms")
      case Nil
      then show ?thesis unfolding whole using f ws by (simp add: n value_step_def skip_ws_def expect_here canon_object)
    next
      case (Cons kv ms)
      have "\<exists>u. commas (map member_text ?ms) = CHR 0x22 # u"
        by (cases ms) (auto simp: Cons member_text_def quote_def)
      then have e: "expect (CHR ''}'') (commas (map member_text ?ms) @ ''}'' @ r) = None"
        using ws by (auto simp: expect_other)
      have "parse_members m (Suc d) (commas (map member_text ?ms) @ ''}'' @ r) = Some (map (\<lambda>(k, v). (k, canon v)) ?ms, r)"
        using sub l n Cons whole by (intro reads_members) simp_all
      then show ?thesis unfolding whole using f ws e by (simp add: n value_step_def skip_ws_def members_of_map)
    qed
  qed
qed (simp_all add: reads_null reads_bool)

lemma print_parse:
  assumes "plain_json j" "fits 0 j"
  shows "parse_json (marshal j) = Some (canon j)"
proof -
  have "\<forall>n r. 2 * length (marshal j @ r) < n \<longrightarrow> parse_value n 0 (marshal j @ r) = Some (canon j, r)"
    using marshal_reads [OF assms(1)] assms(2) unfolding reads_def by blast
  then have "parse_value (2 * length (marshal j @ []) + 1) 0 (marshal j @ []) = Some (canon j, [])" by (metis less_add_one)
  then have "parse_value (2 * length (marshal j) + 1) 0 (marshal j) = Some (canon j, [])" by (simp only: append_Nil2)
  then show ?thesis by (simp add: parse_json_def skip_ws_def)
qed

lemma map_from_rev: "distinct (map fst es) \<Longrightarrow> map_from es = rev es"
proof -
  have "fold (\<lambda>(k, v). obj_put k v) es m = rev es @ m" if "distinct (map fst (rev es @ m))" for m
    using that
  proof (induction es arbitrary: m)
    case (Cons e es)
    have "fst e \<notin> fst ` set m" using Cons.prems by simp
    then have "filter (\<lambda>p. fst p \<noteq> fst e) m = m" by (intro filter_True ballI) (metis imageI)
    then have "obj_put (fst e) (snd e) m = e # m" by (simp add: obj_put_def)
    then show ?case using Cons by (simp add: case_prod_unfold)
  qed simp
  from this [of "[]"] show "distinct (map fst es) \<Longrightarrow> ?thesis" by (simp add: map_from_def rev_map [symmetric])
qed

lemma members_of_idem: "members_of (members_of o1) = members_of o1"
proof -
  have d: "distinct (map fst (members_of o1))" unfolding members_of_def
    using map_from_distinct [of o1] by (simp add: distinct_map)
  have "members_of (members_of o1) = sort_key fst (rev (members_of o1))"
    by (simp add: members_of_def [of "members_of o1"] map_from_rev [OF d])
  also have "\<dots> = members_of o1"
    using d by (intro sort_key_inj_key_eq) (simp_all add: members_of_def distinct_map)
  finally show ?thesis .
qed

lemma marshal_canon: "marshal (canon j) = marshal j"
proof (induction j rule: canon.induct)
  case (1 js)
  then show ?case by (simp cong: map_cong)
next
  case (2 o1)
  have inner: "marshal (snd x) = marshal (canon (snd x))" if "x \<in> set (members_of o1)" for x
    using 2 [of x "fst x" "snd x"] members_of_mem [OF that] by simp
  have "marshal (canon (JObj o1)) = ''{'' @ commas (map (\<lambda>(k, v). quote k @ '':'' @ marshal v)
      (members_of (map (\<lambda>(k, v). (k, canon v)) (members_of o1)))) @ ''}''"
    by (simp only: canon_object marshal_object)
  also have "members_of (map (\<lambda>(k, v). (k, canon v)) (members_of o1)) = map (\<lambda>(k, v). (k, canon v)) (members_of o1)"
    by (simp only: members_of_map members_of_idem)
  also have "map (\<lambda>(k, v). quote k @ '':'' @ marshal v) (map (\<lambda>(k, v). (k, canon v)) (members_of o1)) =
      map (\<lambda>(k, v). quote k @ '':'' @ marshal v) (members_of o1)"
    using inner by (auto simp: case_prod_unfold)
  finally show ?case by (simp only: marshal_object)
qed simp_all

text \<open>Encoding and decoding agree: a document without numbers whose text is ASCII and
  that nests at most 10000 deep is read back from what is written for it, with the members of
  every object in the order of their keys and the last of equal keys kept; and writing
  what was read gives the same text again.\<close>

theorem json_print_parse:
  assumes "plain_json j" "fits 0 j"
  shows "parse_json (marshal j) = Some (canon j) \<and> marshal (canon j) = marshal j"
  using print_parse [OF assms] marshal_canon by simp

theorem json_print_parse_witness:
  "parse_json (marshal (JObj [(''model'', JStr ''a''), (''Model'', JStr ''b''), (''model'', JNull)])) =
     Some (JObj [(''Model'', JStr ''b''), (''model'', JNull)])"
  using json_print_parse [of "JObj [(''model'', JStr ''a''), (''Model'', JStr ''b''), (''model'', JNull)]"]
  by (simp add: ascii_def byte_def members_of_def map_from_def obj_put_def)

end
