(* ===== verification/Registry.thy ===== *)
theory Registry
  imports CatalogRef Refresher Proxy JsonPrint
begin

text \<open>
  The model registry: \<open>adapters/modelregistry/jsonstatic/registry.go\<close> and
  \<open>registry_catalogref.go\<close>, the operator's overrides of
  \<open>adapters/storage/sqlite/model_override_store.go\<close>, and the fields of
  \<open>domain/model_spec.go\<close> that routing reads (\<open>model_spec\<close> of RequestBody) with those it
  does not (\<open>catalog_spec\<close>).  The directory tree is a parameter: what reading a file or
  listing a directory answers.  A Go map is an association list; where the code walks
  one in no fixed order the list's order is used.  Trimming knows the ASCII blanks only.
\<close>

section \<open>Specifications\<close>

datatype alias_strategy = AliasNone | AliasTransparent | AliasTryNativeFallback

record catalog_spec = model_spec +
  cs_StarterLocked :: bool
  cs_TierSource :: string
  cs_MinCreditsHundredths :: int
  cs_RequiredParams :: "string list"
  cs_Enums :: "(string \<times> string list) list"
  cs_AliasOf :: string
  cs_AliasStrategy :: alias_strategy
  cs_Unstable :: bool
  cs_Deprecated :: bool
  cs_ExtraAliases :: "string list"
  cs_Note :: string
  cs_Tags :: "string list"
  cs_MaxResolution :: string
  cs_MaxDurationSec :: int
  cs_UnlimBundleTypes :: "string list"

definition deriveMinPlan :: "catalog_spec \<Rightarrow> plan" where
  "deriveMinPlan m =
     (if sp_RequiresUltra m then PlanUltra
      else if sp_RequiresUnlim m then PlanPro
      else if sp_RequiresPaid m \<or> cs_StarterLocked m then PlanPro
      else PlanFree)"

definition deriveTags :: "catalog_spec \<Rightarrow> string list" where
  "deriveTags m =
     (if cs_StarterLocked m then [''starter_locked''] else []) @
     (if sp_RequiresUnlim m then [''unlim_endpoint''] else []) @
     (if 0 < cs_MinCreditsHundredths m \<or> cs_TierSource m = ''credits_shortfall'' then [''credit_gated''] else []) @
     (if cs_Unstable m then [''unstable''] else []) @
     (if cs_Deprecated m then [''deprecated''] else [])"

definition refresh_gate :: "catalog_spec \<Rightarrow> catalog_spec" where
  "refresh_gate c = c\<lparr> sp_MinPlan := deriveMinPlan c, cs_Tags := deriveTags c \<rparr>"

section \<open>Operator overrides\<close>

record model_override =
  mo_Alias :: string
  mo_StarterLocked :: "bool option"
  mo_RequiresPaid :: "bool option"
  mo_RequiresUltra :: "bool option"
  mo_RequiresUnlim :: "bool option"
  mo_MinCreditsHundredths :: "int option"
  mo_ExtraAliases :: "string list"
  mo_Note :: string
  mo_UpdatedAt :: gotime

record override_row =
  or_alias :: string
  or_starter_locked :: "int option"
  or_requires_paid :: "int option"
  or_requires_ultra :: "int option"
  or_requires_unlim :: "int option"
  or_min_credits_hundredths :: "int option"
  or_extra_aliases_json :: "string option"
  or_note :: string
  or_updated_at :: sqltime

definition nullableBoolPtr :: "bool option \<Rightarrow> int option" where
  "nullableBoolPtr b = map_option (\<lambda>x. if x then 1 else 0) b"

definition marshalExtraAliases :: "string list \<Rightarrow> string option" where
  "marshalExtraAliases as = (if as = [] then None else Some (marshal (JArr (map JStr as))))"

definition unmarshalExtraAliases :: "string \<Rightarrow> string list" where
  "unmarshalExtraAliases raw =
     (if raw = '''' then [] else case unmarshal (dec_list dec_plain_string) [] raw of Inl e \<Rightarrow> [] | Inr as \<Rightarrow> as)"

definition scanOverride :: "override_row \<Rightarrow> model_override" where
  "scanOverride r = \<lparr> mo_Alias = or_alias r,
     mo_StarterLocked = map_option (\<lambda>i. i \<noteq> 0) (or_starter_locked r),
     mo_RequiresPaid = map_option (\<lambda>i. i \<noteq> 0) (or_requires_paid r),
     mo_RequiresUltra = map_option (\<lambda>i. i \<noteq> 0) (or_requires_ultra r),
     mo_RequiresUnlim = map_option (\<lambda>i. i \<noteq> 0) (or_requires_unlim r),
     mo_MinCreditsHundredths = or_min_credits_hundredths r,
     mo_ExtraAliases = unmarshalExtraAliases (case or_extra_aliases_json r of None \<Rightarrow> '''' | Some s \<Rightarrow> s),
     mo_Note = or_note r,
     mo_UpdatedAt = parseTime (or_updated_at r) \<rparr>"

definition GetOverride :: "gerror option \<Rightarrow> string \<Rightarrow> override_row list \<Rightarrow> (gerror, model_override option) result" where
  "GetOverride fail malias rows = (case fail of
     Some e \<Rightarrow> Err e | None \<Rightarrow> Ok (map_option scanOverride (find_row or_alias malias rows)))"

definition override_row_of :: "int \<Rightarrow> model_override \<Rightarrow> override_row" where
  "override_row_of now m = \<lparr> or_alias = mo_Alias m,
     or_starter_locked = nullableBoolPtr (mo_StarterLocked m),
     or_requires_paid = nullableBoolPtr (mo_RequiresPaid m),
     or_requires_ultra = nullableBoolPtr (mo_RequiresUltra m),
     or_requires_unlim = nullableBoolPtr (mo_RequiresUnlim m),
     or_min_credits_hundredths = mo_MinCreditsHundredths m,
     or_extra_aliases_json = marshalExtraAliases (mo_ExtraAliases m),
     or_note = mo_Note m,
     or_updated_at = fmtTime (Some now) \<rparr>"

definition UpsertOverride ::
  "gerror option \<Rightarrow> int \<Rightarrow> model_override option \<Rightarrow> override_row list \<Rightarrow> (gerror, unit) result \<times> override_row list" where
  "UpsertOverride fail now mo rows = (case mo of
     None \<Rightarrow> (Err (Plain ''model overrides: alias required''), rows)
   | Some m \<Rightarrow>
      (if mo_Alias m = '''' then (Err (Plain ''model overrides: alias required''), rows)
       else case fail of
         Some e \<Rightarrow> (Err (Wrap (''upsert model_overrides '' @ mo_Alias m) e), rows)
       | None \<Rightarrow> (Ok (), if mo_Alias m \<in> keys_of or_alias rows
             then sql_update (\<lambda>r. or_alias r = mo_Alias m) (\<lambda>_. override_row_of now m) rows
             else rows @ [override_row_of now m])))"

definition DeleteOverride ::
  "gerror option \<Rightarrow> string \<Rightarrow> override_row list \<Rightarrow> (gerror, unit) result \<times> override_row list" where
  "DeleteOverride fail malias rows = (case fail of
     Some e \<Rightarrow> (Err (Wrap (''delete model_overrides '' @ malias) e), rows)
   | None \<Rightarrow> (Ok (), sql_delete (\<lambda>r. or_alias r = malias) rows))"

definition ListOverrides :: "gerror option \<Rightarrow> override_row list \<Rightarrow> (gerror, model_override list) result" where
  "ListOverrides fail rows = (case fail of
     Some e \<Rightarrow> Err (Wrap ''list model_overrides'' e)
   | None \<Rightarrow> Ok (map scanOverride (sort_desc or_updated_at (sort_key or_alias rows))))"

definition applyOverride :: "catalog_spec \<Rightarrow> model_override \<Rightarrow> catalog_spec" where
  "applyOverride m v = m\<lparr>
     cs_StarterLocked := (case mo_StarterLocked v of None \<Rightarrow> cs_StarterLocked m | Some b \<Rightarrow> b),
     sp_RequiresPaid := (case mo_RequiresPaid v of None \<Rightarrow> sp_RequiresPaid m | Some b \<Rightarrow> b),
     sp_RequiresUltra := (case mo_RequiresUltra v of None \<Rightarrow> sp_RequiresUltra m | Some b \<Rightarrow> b),
     sp_RequiresUnlim := (case mo_RequiresUnlim v of None \<Rightarrow> sp_RequiresUnlim m | Some b \<Rightarrow> b),
     cs_MinCreditsHundredths := (case mo_MinCreditsHundredths v of None \<Rightarrow> cs_MinCreditsHundredths m | Some c \<Rightarrow> c),
     cs_ExtraAliases := (if mo_ExtraAliases v = [] then cs_ExtraAliases m else mo_ExtraAliases v),
     cs_Note := (if mo_Note v = '''' then cs_Note m else mo_Note v) \<rparr>"

section \<open>The registry\<close>

record alias_entry =
  ae_BaseAlias :: string
  ae_Strategy :: alias_strategy
  ae_StarterLocked :: bool
  ae_RequiresPaid :: bool
  ae_RequiresUltra :: bool
  ae_RequiresUnlim :: bool
  ae_TierSource :: string
  ae_MinCreditsHundredths :: int

record registry =
  rg_byAlias :: "(string \<times> catalog_spec) list"
  rg_aliases :: "(string \<times> alias_entry) list"
  rg_locked :: "string list"
  rg_overrides :: "(string \<times> model_override) list"
  rg_dynamicCosts :: "(string \<times> int) list"

definition SetDynamicCosts :: "(string \<times> int) list \<Rightarrow> registry \<Rightarrow> registry" where
  "SetDynamicCosts costs r = r\<lparr> rg_dynamicCosts := map_from costs \<rparr>"

definition applyDynamicCost :: "registry \<Rightarrow> catalog_spec \<Rightarrow> catalog_spec" where
  "applyDynamicCost r c =
     (if rg_dynamicCosts r = [] \<or> sp_JST c = '''' then c
      else case obj_get (rg_dynamicCosts r) (sp_JST c) of
        Some h \<Rightarrow> if 0 < h then c\<lparr> sp_EstCostHundredths := h \<rparr> else c
      | None \<Rightarrow> c)"

definition alias_view :: "string \<Rightarrow> alias_entry \<Rightarrow> catalog_spec \<Rightarrow> catalog_spec" where
  "alias_view base a spec =
     (let c = spec\<lparr> cs_AliasOf := base, cs_AliasStrategy := AliasTransparent \<rparr> in
      if ae_TierSource a = '''' then c
      else refresh_gate (c\<lparr> cs_StarterLocked := ae_StarterLocked a, sp_RequiresPaid := ae_RequiresPaid a,
             sp_RequiresUltra := ae_RequiresUltra a, sp_RequiresUnlim := ae_RequiresUnlim a,
             cs_TierSource := ae_TierSource a, cs_MinCreditsHundredths := ae_MinCreditsHundredths a \<rparr>))"

definition overlay_override :: "registry \<Rightarrow> string \<Rightarrow> catalog_spec \<Rightarrow> catalog_spec" where
  "overlay_override r malias c = (case obj_get (rg_overrides r) malias of
     None \<Rightarrow> c | Some v \<Rightarrow> refresh_gate (applyOverride c v))"

definition resolve_own :: "registry \<Rightarrow> string \<Rightarrow> (gerror, catalog_spec) result" where
  "resolve_own r malias = (case obj_get (rg_byAlias r) malias of
     None \<Rightarrow> Err (Noted (Sent ErrModelNotFound) (CHR 0x22 # malias @ [CHR 0x22]))
   | Some spec \<Rightarrow>
      (case obj_get (rg_overrides r) malias of
         Some v \<Rightarrow> Ok (applyDynamicCost r (refresh_gate (applyOverride spec v)))
       | None \<Rightarrow>
          (case obj_get (rg_dynamicCosts r) (sp_JST spec) of
             Some h \<Rightarrow> Ok (if 0 < h then spec\<lparr> sp_EstCostHundredths := h \<rparr> else spec)
           | None \<Rightarrow> Ok spec)))"

definition ResolveModel :: "registry \<Rightarrow> string \<Rightarrow> (gerror, catalog_spec) result" where
  "ResolveModel r malias = (case obj_get (rg_aliases r) malias of
     None \<Rightarrow> resolve_own r malias
   | Some a \<Rightarrow>
      (if ae_Strategy a \<noteq> AliasTransparent then resolve_own r malias
       else case obj_get (rg_byAlias r) (ae_BaseAlias a) of
         None \<Rightarrow> resolve_own r malias
       | Some spec \<Rightarrow> Ok (applyDynamicCost r (overlay_override r malias (alias_view (ae_BaseAlias a) a spec)))))"

record model_filter =
  mf_Output :: string
  mf_IncludeUnstable :: bool
  mf_IncludeDeprecated :: bool

definition model_passes :: "model_filter \<Rightarrow> catalog_spec \<Rightarrow> bool" where
  "model_passes f spec \<longleftrightarrow> (mf_Output f = '''' \<or> sp_Output spec = mf_Output f) \<and>
     (mf_IncludeUnstable f \<or> \<not> cs_Unstable spec) \<and> (mf_IncludeDeprecated f \<or> \<not> cs_Deprecated spec)"

definition ListModels :: "registry \<Rightarrow> model_filter \<Rightarrow> catalog_spec list" where
  "ListModels r f = map (\<lambda>(malias, spec). applyDynamicCost r (overlay_override r malias spec))
     (filter (\<lambda>(malias, spec). model_passes f spec) (rg_byAlias r))"

definition ResolveAlias :: "registry \<Rightarrow> string \<Rightarrow> (string \<times> bool)" where
  "ResolveAlias r malias = (case obj_get (rg_aliases r) malias of
     None \<Rightarrow> ('''', False) | Some a \<Rightarrow> (ae_BaseAlias a, True))"

definition StarterLocked :: "registry \<Rightarrow> string \<Rightarrow> bool" where
  "StarterLocked r jst \<longleftrightarrow> jst \<in> set (rg_locked r)"

section \<open>Files\<close>

datatype file_read = NoFile gerror | ReadError gerror | Bytes string

datatype dir_read = NoDir gerror | DirError gerror | Entries "(string \<times> bool) list"

record file_tree =
  ft_Read :: "string \<Rightarrow> file_read"
  ft_Dir :: "string \<Rightarrow> dir_read"

definition q :: "string \<Rightarrow> string" where "q s = CHR 0x22 # s @ [CHR 0x22]"

definition json_file :: "string \<times> bool \<Rightarrow> bool" where
  "json_file e \<longleftrightarrow> \<not> snd e \<and> has_suffix ''.json'' (fst e) \<and> \<not> has_prefix (fst e) ''.''"

record extra_spec =
  ex_MaxResolution :: string
  ex_MaxDurationSec :: int
  ex_MinPlan :: string
  ex_UnlimJobSetType :: string
  ex_UnlimBundleTypes :: "string list"
  ex_FreeQuotaField :: string
  ex_EndpointStatus :: string

definition zero_extra :: extra_spec where
  "zero_extra = \<lparr> ex_MaxResolution = '''', ex_MaxDurationSec = 0, ex_MinPlan = '''', ex_UnlimJobSetType = '''',
     ex_UnlimBundleTypes = [], ex_FreeQuotaField = '''', ex_EndpointStatus = '''' \<rparr>"

definition dec_extra :: "extra_spec decoder" where
  "dec_extra = dec_struct (\<lambda>obj. do {
     mr \<leftarrow> dec_field ''max_resolution'' dec_string '''' obj;
     md \<leftarrow> dec_field ''max_duration_sec'' dec_int 0 obj;
     mp \<leftarrow> dec_field ''min_plan'' dec_string '''' obj;
     uj \<leftarrow> dec_field ''unlim_job_set_type'' dec_string '''' obj;
     ub \<leftarrow> dec_field ''unlim_bundle_types'' (dec_list dec_plain_string) [] obj;
     fq \<leftarrow> dec_field ''free_quota_field'' dec_string '''' obj;
     es \<leftarrow> dec_field ''endpoint_status'' dec_string '''' obj;
     Some \<lparr> ex_MaxResolution = mr, ex_MaxDurationSec = md, ex_MinPlan = mp, ex_UnlimJobSetType = uj,
        ex_UnlimBundleTypes = ub, ex_FreeQuotaField = fq, ex_EndpointStatus = es \<rparr> }) zero_extra"

definition loadExtras :: "file_tree \<Rightarrow> string \<Rightarrow> (gerror, (string \<times> extra_spec) list) result" where
  "loadExtras t path =
     (if path = '''' then Ok []
      else case ft_Read t path of
        NoFile e \<Rightarrow> Ok []
      | ReadError e \<Rightarrow> Err (Wrap (''read '' @ q path) e)
      | Bytes body \<Rightarrow>
         (if body = '''' then Ok []
          else case unmarshal (dec_struct (dec_field ''aliases'' (dec_map dec_extra zero_extra) []) []) [] body of
            Inl e \<Rightarrow> Err (Wrap (''parse '' @ q path) e)
          | Inr m \<Rightarrow> Ok m))"

record body_template =
  bt_exampleBodyJSON :: string
  bt_catalogRefs :: "(string \<times> string) list"

text \<open>\<open>json.Compact\<close>: the blanks outside strings are dropped.\<close>

fun compact :: "bool \<Rightarrow> string \<Rightarrow> string" where
  "compact b [] = []"
| "compact False (c # r) = (if is_ws c then compact False r else c # compact (c = CHR 0x22) r)"
| "compact True (c # r) =
     (if c = CHR 0x5C then (case r of [] \<Rightarrow> [c] | e # r1 \<Rightarrow> c # e # compact True r1)
      else c # compact (c \<noteq> CHR 0x22) r)"

text \<open>The raw text of the members of a document that is an object (\<open>json.RawMessage\<close>).\<close>

fun raw_members :: "nat \<Rightarrow> string \<Rightarrow> (string \<times> string) list option" where
  "raw_members 0 s = None"
| "raw_members (Suc n) s =
     (case Option.bind (expect (CHR 0x22) s) parse_string of None \<Rightarrow> None
      | Some (k, r1) \<Rightarrow> (case expect (CHR '':'') r1 of None \<Rightarrow> None
      | Some r2 \<Rightarrow> (let t = skip_ws r2 in case parse_value (2 * length t + 1) 1 t of None \<Rightarrow> None
      | Some (v, r3) \<Rightarrow> (let raw = take (length t - length r3) t in case expect (CHR '','') r3 of
          Some r4 \<Rightarrow> map_option (Cons (k, raw)) (raw_members n r4)
        | None \<Rightarrow> map_option (\<lambda>_. [(k, raw)]) (expect (CHR ''}'') r3)))))"

definition raw_field :: "string \<Rightarrow> string \<Rightarrow> string" where
  "raw_field name body = (case Option.bind (expect (CHR ''{'') body) (\<lambda>r. raw_members (length r) r) of
     None \<Rightarrow> ''''
   | Some ms \<Rightarrow> fold (\<lambda>(k, raw) old. if fold_name k = fold_name name then raw else old) ms '''')"

definition dec_template :: "(string \<times> (string \<times> string) list) decoder" where
  "dec_template = dec_struct (\<lambda>obj. do {
     al \<leftarrow> dec_field ''alias'' dec_string '''' obj;
     cr \<leftarrow> dec_field ''catalogRefs'' (dec_map dec_string '''') [] obj;
     Some (al, cr) }) ('''', [])"

fun load_templates :: "file_tree \<Rightarrow> string \<Rightarrow> (string \<times> bool) list \<Rightarrow> (string \<times> body_template) list
    \<Rightarrow> (gerror, (string \<times> body_template) list) result" where
  "load_templates t dir [] out = Ok out"
| "load_templates t dir (e # es) out =
     (if \<not> json_file e then load_templates t dir es out
      else case ft_Read t (dir @ ''/'' @ fst e) of
        NoFile err \<Rightarrow> Err (Wrap (''read body template '' @ q (fst e)) err)
      | ReadError err \<Rightarrow> Err (Wrap (''read body template '' @ q (fst e)) err)
      | Bytes body \<Rightarrow>
         (case unmarshal dec_template ('''', []) body of
            Inl err \<Rightarrow> Err (Wrap (''parse body template '' @ q (fst e)) err)
          | Inr (al, refs) \<Rightarrow>
             load_templates t dir es
               (if al = '''' then out
                else obj_put al \<lparr> bt_exampleBodyJSON = compact False (raw_field ''exampleBody'' body),
                                  bt_catalogRefs = refs \<rparr> out)))"

definition loadBodyTemplates :: "file_tree \<Rightarrow> string \<Rightarrow> (gerror, (string \<times> body_template) list) result" where
  "loadBodyTemplates t dir =
     (if dir = '''' then Ok []
      else case ft_Dir t dir of
        NoDir e \<Rightarrow> Ok []
      | DirError e \<Rightarrow> Err (Wrap (''read body-templates dir '' @ q dir) e)
      | Entries es \<Rightarrow> load_templates t dir es [])"

record catalogs =
  ct_ids :: "(string \<times> string list) list"
  ct_trees :: "(string \<times> string) list"

definition no_catalogs :: catalogs where "no_catalogs = \<lparr> ct_ids = [], ct_trees = [] \<rparr>"

fun load_catalogs :: "file_tree \<Rightarrow> string \<Rightarrow> (string \<times> bool) list \<Rightarrow> catalogs \<Rightarrow> (gerror, catalogs) result" where
  "load_catalogs t dir [] out = Ok out"
| "load_catalogs t dir (e # es) out =
     (if \<not> json_file e then load_catalogs t dir es out
      else case ft_Read t (dir @ ''/'' @ fst e) of
        NoFile err \<Rightarrow> Err (Wrap (''read catalog '' @ q (fst e)) err)
      | ReadError err \<Rightarrow> Err (Wrap (''read catalog '' @ q (fst e)) err)
      | Bytes body \<Rightarrow>
         (if parse_json body = None then Err (Plain (''catalog '' @ q (fst e) @ '' is not valid JSON''))
          else let key = ''catalogs/'' @ fst e; flat = parseCatalogIDs body in
            load_catalogs t dir es \<lparr> ct_ids = (if flat = [] then ct_ids out else obj_put key flat (ct_ids out)),
               ct_trees = obj_put key body (ct_trees out) \<rparr>))"

definition loadCatalogs :: "file_tree \<Rightarrow> string \<Rightarrow> (gerror, catalogs) result" where
  "loadCatalogs t dir =
     (if dir = '''' then Ok no_catalogs
      else case ft_Dir t dir of
        NoDir e \<Rightarrow> Ok no_catalogs
      | DirError e \<Rightarrow> Err (Wrap (''read catalogs dir '' @ q dir) e)
      | Entries es \<Rightarrow> load_catalogs t dir es no_catalogs)"

section \<open>Loading\<close>

record raw_model =
  rm_Alias :: string
  rm_JST :: string
  rm_Endpoint :: string
  rm_Version :: string
  rm_Output :: string
  rm_CostCreditsH :: "int option"
  rm_RequiredParams :: "string list"
  rm_AppSlug :: string
  rm_MediaRole :: string
  rm_Classification :: string
  rm_StarterLocked :: bool
  rm_RequiresPaid :: bool
  rm_RequiresUltra :: bool
  rm_RequiresUnlim :: bool
  rm_TierSource :: string
  rm_MinCreditsHundredths :: int

definition zero_model :: raw_model where
  "zero_model = \<lparr> rm_Alias = '''', rm_JST = '''', rm_Endpoint = '''', rm_Version = '''', rm_Output = '''',
     rm_CostCreditsH = None, rm_RequiredParams = [], rm_AppSlug = '''', rm_MediaRole = '''', rm_Classification = '''',
     rm_StarterLocked = False, rm_RequiresPaid = False, rm_RequiresUltra = False, rm_RequiresUnlim = False,
     rm_TierSource = '''', rm_MinCreditsHundredths = 0 \<rparr>"

text \<open>The fields that are decoded but never read are decoded for their type errors.\<close>

definition dec_model :: "raw_model decoder" where
  "dec_model = dec_struct (\<lambda>obj. do {
     al \<leftarrow> dec_field ''alias'' dec_string '''' obj;
     js \<leftarrow> dec_field ''jst'' dec_string '''' obj;
     en \<leftarrow> dec_field ''endpoint'' dec_string '''' obj;
     ve \<leftarrow> dec_field ''version'' dec_string '''' obj;
     ou \<leftarrow> dec_field ''output'' dec_string '''' obj;
     co \<leftarrow> dec_field ''cost_credits_h'' (dec_ptr dec_int 0) None obj;
     rp \<leftarrow> dec_field ''required_params'' (dec_list dec_plain_string) [] obj;
     _ \<leftarrow> dec_field ''needs_image'' dec_bool False obj;
     _ \<leftarrow> dec_field ''needs_video'' dec_bool False obj;
     _ \<leftarrow> dec_field ''needs_audio'' dec_bool False obj;
     _ \<leftarrow> dec_field ''needs_medias'' dec_bool False obj;
     sl \<leftarrow> dec_field ''app_slug'' dec_string '''' obj;
     _ \<leftarrow> dec_field ''supports_unlim'' dec_bool False obj;
     _ \<leftarrow> dec_field ''unlim_jst'' dec_string '''' obj;
     mr \<leftarrow> dec_field ''media_role'' dec_string '''' obj;
     cl \<leftarrow> dec_field ''classification'' dec_string '''' obj;
     lo \<leftarrow> dec_field ''starter_locked'' dec_bool False obj;
     pa \<leftarrow> dec_field ''requires_paid'' dec_bool False obj;
     ul \<leftarrow> dec_field ''requires_ultra'' dec_bool False obj;
     un \<leftarrow> dec_field ''requires_unlim'' dec_bool False obj;
     ts \<leftarrow> dec_field ''tier_source'' dec_string '''' obj;
     mc \<leftarrow> dec_field ''min_credits_hundredths'' dec_int 0 obj;
     Some \<lparr> rm_Alias = al, rm_JST = js, rm_Endpoint = en, rm_Version = ve, rm_Output = ou, rm_CostCreditsH = co,
        rm_RequiredParams = rp, rm_AppSlug = sl, rm_MediaRole = mr, rm_Classification = cl, rm_StarterLocked = lo,
        rm_RequiresPaid = pa, rm_RequiresUltra = ul, rm_RequiresUnlim = un, rm_TierSource = ts,
        rm_MinCreditsHundredths = mc \<rparr> }) zero_model"

definition zero_alias :: alias_entry where
  "zero_alias = \<lparr> ae_BaseAlias = '''', ae_Strategy = AliasTransparent, ae_StarterLocked = False, ae_RequiresPaid = False,
     ae_RequiresUltra = False, ae_RequiresUnlim = False, ae_TierSource = '''', ae_MinCreditsHundredths = 0 \<rparr>"

definition dec_alias :: "(string \<times> alias_entry) decoder" where
  "dec_alias = dec_struct (\<lambda>obj. do {
     al \<leftarrow> dec_field ''alias'' dec_string '''' obj;
     ba \<leftarrow> dec_field ''base_alias'' dec_string '''' obj;
     _ \<leftarrow> dec_field ''base_jst'' dec_string '''' obj;
     st \<leftarrow> dec_field ''strategy'' dec_string '''' obj;
     lo \<leftarrow> dec_field ''starter_locked'' dec_bool False obj;
     pa \<leftarrow> dec_field ''requires_paid'' dec_bool False obj;
     ul \<leftarrow> dec_field ''requires_ultra'' dec_bool False obj;
     un \<leftarrow> dec_field ''requires_unlim'' dec_bool False obj;
     ts \<leftarrow> dec_field ''tier_source'' dec_string '''' obj;
     mc \<leftarrow> dec_field ''min_credits_hundredths'' dec_int 0 obj;
     Some (al, \<lparr> ae_BaseAlias = ba,
        ae_Strategy = (if st = ''try_native_fallback'' then AliasTryNativeFallback else AliasTransparent),
        ae_StarterLocked = lo, ae_RequiresPaid = pa, ae_RequiresUltra = ul, ae_RequiresUnlim = un,
        ae_TierSource = ts, ae_MinCreditsHundredths = mc \<rparr>) }) ('''', zero_alias)"

definition dec_registry :: "(raw_model list \<times> (string \<times> alias_entry) list) decoder" where
  "dec_registry = dec_struct (\<lambda>obj. do {
     ms \<leftarrow> dec_field ''models'' (dec_list (\<lambda>j. dec_model j zero_model)) [] obj;
     as \<leftarrow> dec_field ''aliases'' (dec_list (\<lambda>j. dec_alias j ('''', zero_alias))) [] obj;
     Some (ms, as) }) ([], [])"

definition base_spec :: "raw_model \<Rightarrow> catalog_spec" where
  "base_spec m = refresh_gate \<lparr> sp_Alias = rm_Alias m, sp_JST = rm_JST m, sp_Endpoint = rm_Endpoint m,
     sp_Version = rm_Version m, sp_Output = rm_Output m, sp_RequiresPaid = rm_RequiresPaid m,
     sp_RequiresUltra = rm_RequiresUltra m, sp_RequiresUnlim = rm_RequiresUnlim m,
     sp_EstCostHundredths = (case rm_CostCreditsH m of None \<Rightarrow> 0 | Some c \<Rightarrow> c),
     sp_MediaRole = rm_MediaRole m, sp_ExampleBodyJSON = '''', sp_ApplicationSlug = rm_AppSlug m,
     sp_MinPlan = PlanEmpty, sp_UnlimJobSetType = '''', sp_FreeQuotaField = '''',
     cs_StarterLocked = rm_StarterLocked m, cs_TierSource = rm_TierSource m,
     cs_MinCreditsHundredths = rm_MinCreditsHundredths m, cs_RequiredParams = rm_RequiredParams m, cs_Enums = [],
     cs_AliasOf = '''', cs_AliasStrategy = AliasNone, cs_Unstable = has_prefix (rm_Classification m) ''B'',
     cs_Deprecated = False, cs_ExtraAliases = [], cs_Note = '''', cs_Tags = [], cs_MaxResolution = '''',
     cs_MaxDurationSec = 0, cs_UnlimBundleTypes = [] \<rparr>"

definition with_extra :: "extra_spec option \<Rightarrow> catalog_spec \<Rightarrow> catalog_spec" where
  "with_extra eo c = (case eo of None \<Rightarrow> c | Some e \<Rightarrow>
     let c1 = c\<lparr> cs_MaxResolution := ex_MaxResolution e, cs_MaxDurationSec := ex_MaxDurationSec e,
                 sp_UnlimJobSetType := ex_UnlimJobSetType e, cs_UnlimBundleTypes := ex_UnlimBundleTypes e,
                 sp_FreeQuotaField := ex_FreeQuotaField e,
                 sp_MinPlan := (let p = plan_of_string (ex_MinPlan e) in
                   if TierRank (sp_MinPlan c) < TierRank p then p else sp_MinPlan c) \<rparr>
     in c1\<lparr> cs_Tags := deriveTags c1 \<rparr>)"

definition enum_of :: "catalogs \<Rightarrow> string \<Rightarrow> string list" where
  "enum_of cats ref = (case normalizeCatalogRef ref of
     RefUnknown \<Rightarrow> []
   | RefLiteral vals \<Rightarrow> vals
   | RefCatalog path extractor \<Rightarrow>
       (let deep = (if extractor = '''' then []
                    else case obj_get (ct_trees cats) path of None \<Rightarrow> []
                      | Some tree \<Rightarrow> extractFromCatalogTree tree extractor)
        in if deep \<noteq> [] then deep
           else case obj_get (ct_ids cats) path of None \<Rightarrow> [] | Some ids \<Rightarrow> ids))"

definition with_template :: "catalogs \<Rightarrow> body_template option \<Rightarrow> catalog_spec \<Rightarrow> catalog_spec" where
  "with_template cats bo c = (case bo of None \<Rightarrow> c | Some t \<Rightarrow>
     c\<lparr> sp_ExampleBodyJSON := (if bt_exampleBodyJSON t = '''' then sp_ExampleBodyJSON c else bt_exampleBodyJSON t),
        cs_Enums := filter (\<lambda>(p, vals). vals \<noteq> []) (map (\<lambda>(p, ref). (p, enum_of cats ref)) (bt_catalogRefs t)) \<rparr>)"

definition build_spec ::
  "(string \<times> extra_spec) list \<Rightarrow> (string \<times> body_template) list \<Rightarrow> catalogs \<Rightarrow> raw_model \<Rightarrow> catalog_spec" where
  "build_spec extras templates cats m =
     with_template cats (obj_get templates (rm_Alias m)) (with_extra (obj_get extras (rm_Alias m)) (base_spec m))"

definition dead :: "(string \<times> extra_spec) list \<Rightarrow> raw_model \<Rightarrow> bool" where
  "dead extras m = (case obj_get extras (rm_Alias m) of None \<Rightarrow> False | Some e \<Rightarrow> ex_EndpointStatus e = ''dead'')"

record registry_config =
  rc_Path :: string
  rc_StarterLockedPath :: string
  rc_ExtraSpecsPath :: string
  rc_BodyTemplatesDir :: string
  rc_CatalogsDir :: string

text \<open>What a reload reads, before anything of the registry is replaced.\<close>

definition read_catalog :: "file_tree \<Rightarrow> registry_config \<Rightarrow>
    (gerror, raw_model list \<times> (string \<times> alias_entry) list \<times> (string \<times> extra_spec) list \<times>
       (string \<times> body_template) list \<times> catalogs) result" where
  "read_catalog t cfg = (case ft_Read t (rc_Path cfg) of
     NoFile e \<Rightarrow> Err (Wrap (''read model registry '' @ q (rc_Path cfg)) e)
   | ReadError e \<Rightarrow> Err (Wrap (''read model registry '' @ q (rc_Path cfg)) e)
   | Bytes body \<Rightarrow>
      (case unmarshal dec_registry ([], []) body of
         Inl e \<Rightarrow> Err (Wrap ''parse model registry'' e)
       | Inr (models, als) \<Rightarrow>
          (case loadExtras t (rc_ExtraSpecsPath cfg) of
             Inl e \<Rightarrow> Err (Wrap ''load model extras'' e)
           | Inr extras \<Rightarrow>
              (case loadBodyTemplates t (rc_BodyTemplatesDir cfg) of
                 Inl e \<Rightarrow> Err (Wrap ''load body templates'' e)
               | Inr templates \<Rightarrow>
                  (case loadCatalogs t (rc_CatalogsDir cfg) of
                     Inl e \<Rightarrow> Err (Wrap ''load catalogs'' e)
                   | Inr cats \<Rightarrow> Ok (models, als, extras, templates, cats))))))"

text \<open>\<open>Reload\<close>: the catalogue is swapped in, then the overrides are read from their store
  (\<open>None\<close> when there is none).\<close>

definition Reload ::
  "file_tree \<Rightarrow> registry_config \<Rightarrow> (gerror option \<times> override_row list) option \<Rightarrow> registry \<Rightarrow> (gerror, unit) result \<times> registry" where
  "Reload t cfg provider r = (case read_catalog t cfg of
     Inl e \<Rightarrow> (Err e, r)
   | Inr (models, als, extras, templates, cats) \<Rightarrow>
      (let live = filter (\<lambda>m. \<not> dead extras m) models;
           r1 = r\<lparr> rg_byAlias := map_from (map (\<lambda>m. (rm_Alias m, build_spec extras templates cats m)) live),
                   rg_aliases := map_from als,
                   rg_locked := map rm_JST (filter (\<lambda>m. rm_StarterLocked m \<and> rm_JST m \<noteq> '''') live) @ rg_locked r \<rparr>
       in case provider of
            None \<Rightarrow> (Ok (), r1\<lparr> rg_overrides := [] \<rparr>)
          | Some (fail, rows) \<Rightarrow>
             (case ListOverrides fail rows of
                Inl e \<Rightarrow> (Err (Wrap ''load model overrides'' e), r1)
              | Inr vs \<Rightarrow> (Ok (), r1\<lparr> rg_overrides := map_from (map (\<lambda>v. (mo_Alias v, v)) vs) \<rparr>))))"

definition empty_registry :: registry where
  "empty_registry = \<lparr> rg_byAlias = [], rg_aliases = [], rg_locked = [], rg_overrides = [], rg_dynamicCosts = [] \<rparr>"

definition NewRegistry :: "file_tree \<Rightarrow> registry_config \<Rightarrow> (gerror, registry) result" where
  "NewRegistry t cfg = (case Reload t cfg None empty_registry of
     (Inl e, r) \<Rightarrow> Err e
   | (Inr _, r) \<Rightarrow>
      (if rc_StarterLockedPath cfg = '''' then Ok r
       else case ft_Read t (rc_StarterLockedPath cfg) of
         NoFile e \<Rightarrow> Err (Wrap ''read starter-locked list'' e)
       | ReadError e \<Rightarrow> Err (Wrap ''read starter-locked list'' e)
       | Bytes body \<Rightarrow>
          (case unmarshal (dec_list dec_plain_string) [] body of
             Inl e \<Rightarrow> Err (Wrap ''parse starter-locked list'' e)
           | Inr jsts \<Rightarrow> Ok (r\<lparr> rg_locked := jsts @ rg_locked r \<rparr>))))"

section \<open>Listing and resolving agree\<close>

lemma Reload_distinct:
  "Reload t cfg provider r = (Ok (), r1) \<Longrightarrow> distinct (map fst (rg_byAlias r1))"
  by (auto simp: Reload_def Let_def map_from_distinct split: sum.split_asm option.split_asm prod.split_asm)

text \<open>In a registry whose models have distinct aliases, which every reload leaves
  (\<open>Reload_distinct\<close>), the listing shows every model exactly as a request for it resolves it, operator override and live price included, whatever the filter, as long as no
  alias shadows a model.\<close>

theorem list_agrees_resolve:
  assumes "distinct (map fst (rg_byAlias r))" "obj_get (rg_dynamicCosts r) '''' = None"
    "\<forall>a \<in> fst ` set (rg_byAlias r). obj_get (rg_aliases r) a = None"
  shows "map Ok (ListModels r f) =
    map (\<lambda>(a, spec). ResolveModel r a) (filter (\<lambda>(a, spec). model_passes f spec) (rg_byAlias r))"
proof -
  have own: "ResolveModel r a = Ok (applyDynamicCost r (overlay_override r a spec))" if m: "(a, spec) \<in> set (rg_byAlias r)" for a spec
  proof -
    have "obj_get (rg_byAlias r) a = Some spec"
      using m assms(1) by (simp add: obj_get_def)
    moreover have "obj_get (rg_aliases r) a = None" using m assms(3) by force
    moreover have "rg_dynamicCosts r = [] \<Longrightarrow> obj_get (rg_dynamicCosts r) j = None" for j by (simp add: obj_get_def)
    ultimately show ?thesis using assms(2)
      by (auto simp: ResolveModel_def resolve_own_def overlay_override_def applyDynamicCost_def split: option.split)
  qed
  show ?thesis
    by (auto simp: ListModels_def own split: prod.split intro!: map_cong [OF refl])
qed

definition demo_model :: raw_model where
  "demo_model = zero_model\<lparr> rm_Alias := ''m'', rm_JST := ''j'', rm_StarterLocked := True, rm_CostCreditsH := Some 500 \<rparr>"

definition demo_override :: model_override where
  "demo_override = \<lparr> mo_Alias = ''m'', mo_StarterLocked = Some False, mo_RequiresPaid = Some False, mo_RequiresUltra = None,
     mo_RequiresUnlim = None, mo_MinCreditsHundredths = None, mo_ExtraAliases = [], mo_Note = ''open it'', mo_UpdatedAt = None \<rparr>"

definition demo_registry :: registry where
  "demo_registry = \<lparr> rg_byAlias = [(''m'', build_spec [(''m'', zero_extra\<lparr> ex_MinPlan := ''plus'' \<rparr>)] [] no_catalogs demo_model)],
     rg_aliases = [], rg_locked = [''j''], rg_overrides = [(''m'', demo_override)], rg_dynamicCosts = [(''j'', 300)] \<rparr>"

lemma build_spec_fields [simp]:
  "sp_JST (build_spec extras templates cats m) = rm_JST m"
  "sp_RequiresPaid (build_spec extras templates cats m) = rm_RequiresPaid m"
  "sp_RequiresUltra (build_spec extras templates cats m) = rm_RequiresUltra m"
  "sp_RequiresUnlim (build_spec extras templates cats m) = rm_RequiresUnlim m"
  "cs_StarterLocked (build_spec extras templates cats m) = rm_StarterLocked m"
  by (simp_all add: build_spec_def with_template_def with_extra_def base_spec_def refresh_gate_def Let_def split: option.split)

lemma demo_registry_fields [simp]:
  "rg_aliases demo_registry = []" "rg_locked demo_registry = [''j'']" "rg_dynamicCosts demo_registry = [(''j'', 300)]"
  "rg_overrides demo_registry = [(''m'', demo_override)]"
  "rg_byAlias demo_registry = [(''m'', build_spec [(''m'', zero_extra\<lparr> ex_MinPlan := ''plus'' \<rparr>)] [] no_catalogs demo_model)]"
  by (simp_all add: demo_registry_def)

lemma demo_model_resolves: "\<exists>c. ResolveModel demo_registry ''m'' = Ok c \<and> sp_JST c = ''j'' \<and> sp_EstCostHundredths c = 300 \<and>
    sp_MinPlan c = PlanFree \<and> \<not> cs_StarterLocked c \<and> \<not> sp_RequiresPaid c"
proof -
  define spec where "spec = build_spec [(''m'', zero_extra\<lparr> ex_MinPlan := ''plus'' \<rparr>)] [] no_catalogs demo_model"
  have f: "sp_JST spec = ''j''" "\<not> sp_RequiresUltra spec" "\<not> sp_RequiresUnlim spec"
    by (simp_all add: spec_def demo_model_def zero_model_def)
  have "ResolveModel demo_registry ''m'' = Ok (applyDynamicCost demo_registry (refresh_gate (applyOverride spec demo_override)))"
    by (simp add: ResolveModel_def resolve_own_def obj_get_def spec_def)
  then show ?thesis using f
    by (simp add: applyDynamicCost_def obj_get_def refresh_gate_def applyOverride_def demo_override_def deriveMinPlan_def)
qed

theorem list_agrees_resolve_witness:
  "map Ok (ListModels demo_registry \<lparr> mf_Output = '''', mf_IncludeUnstable = True, mf_IncludeDeprecated = True \<rparr>) =
     [ResolveModel demo_registry ''m'']"
  using list_agrees_resolve [of demo_registry "\<lparr> mf_Output = '''', mf_IncludeUnstable = True, mf_IncludeDeprecated = True \<rparr>"]
  by (simp add: obj_get_def model_passes_def)

section \<open>The starter lock cannot be lifted\<close>

lemma Reload_keeps_locked: "StarterLocked r jst \<Longrightarrow> StarterLocked (snd (Reload t cfg provider r)) jst"
  by (auto simp: Reload_def StarterLocked_def Let_def split: sum.split option.split prod.split)

definition registry_run :: "(file_tree \<times> registry_config \<times> (gerror option \<times> override_row list) option) list \<Rightarrow> registry \<Rightarrow> registry" where
  "registry_run rs r = fold (\<lambda>(t, cfg, provider) r. snd (Reload t cfg provider r)) rs r"

text \<open>C30. Once a registry has locked a job set type for starter accounts, every later request for
  it asks for a paid account: no reload, of whatever files, and no operator override,
  lifts the lock, although the override's own flags are what the model is shown with.\<close>

theorem starter_lock_sticks:
  assumes "StarterLocked r jst" "ResolveModel (registry_run rs r) a = Ok c" "sp_JST c = jst"
  shows "pp_RequiresPaid (pick_params_for (sv\<lparr> sv_StarterLocked := StarterLocked (registry_run rs r) \<rparr>)
    (model_spec.truncate c) gp gid lb)"
proof -
  have "StarterLocked (registry_run rs r) jst"
    using assms(1) unfolding registry_run_def
    by (induction rs arbitrary: r) (auto simp: Reload_keeps_locked split: prod.split)
  then show ?thesis using assms(3) by (simp add: pick_params_for_def model_spec.truncate_def)
qed

theorem starter_lock_sticks_witness:
  "\<exists>c. ResolveModel demo_registry ''m'' = Ok c \<and> \<not> cs_StarterLocked c \<and> \<not> sp_RequiresPaid c \<and>
     (\<forall>sv gp gid lb. pp_RequiresPaid (pick_params_for (sv\<lparr> sv_StarterLocked := StarterLocked demo_registry \<rparr>)
        (model_spec.truncate c) gp gid lb))"
proof -
  have "StarterLocked demo_registry ''j''" by (simp add: StarterLocked_def)
  moreover obtain c where c: "ResolveModel demo_registry ''m'' = Ok c" "sp_JST c = ''j''" "\<not> cs_StarterLocked c" "\<not> sp_RequiresPaid c"
    using demo_model_resolves by blast
  ultimately show ?thesis
    using starter_lock_sticks [of demo_registry "''j''" "[]" "''m''" c] by (simp add: registry_run_def)
qed

section \<open>The plan floor and the overrides\<close>

lemma applyDynamicCost_plan [simp]: "sp_MinPlan (applyDynamicCost r c) = sp_MinPlan c"
  by (simp add: applyDynamicCost_def split: option.split)

lemma deriveMinPlan_refresh [simp]: "deriveMinPlan (refresh_gate c) = deriveMinPlan c"
  by (simp add: deriveMinPlan_def refresh_gate_def)

lemma deriveMinPlan_dynamic [simp]: "deriveMinPlan (applyDynamicCost r c) = deriveMinPlan c"
  by (simp add: deriveMinPlan_def applyDynamicCost_def split: option.split)

lemma base_spec_plan: "sp_MinPlan (base_spec m) = deriveMinPlan (base_spec m)"
  by (simp add: base_spec_def refresh_gate_def deriveMinPlan_def)

lemma build_spec_floor:
  assumes "obj_get extras (rm_Alias m) = Some e"
  shows "TierRank (plan_of_string (ex_MinPlan e)) \<le> TierRank (sp_MinPlan (build_spec extras templates cats m))"
proof -
  have "sp_MinPlan (with_template cats bo c) = sp_MinPlan c" for bo c
    by (simp add: with_template_def split: option.split)
  moreover have "TierRank (plan_of_string (ex_MinPlan e)) \<le> TierRank (sp_MinPlan (with_extra (Some e) c))" for c
    by (simp add: with_extra_def Let_def)
  ultimately show ?thesis by (simp add: build_spec_def assms)
qed

text \<open>A model without an override is served with at least the plan its own entry and its extra
  entry ask for; an override of whatever kind, a mere note included, puts the plan of the
  flags in its place, and what the extra entry asked for is lost.\<close>

theorem override_drops_extra_floor:
  assumes "obj_get (rg_aliases r) a = None" "obj_get (rg_byAlias r) a = Some (build_spec extras templates cats m)"
    "obj_get extras (rm_Alias m) = Some e" "ResolveModel r a = Ok c"
  shows "(case obj_get (rg_overrides r) a of
     None \<Rightarrow> TierRank (plan_of_string (ex_MinPlan e)) \<le> TierRank (sp_MinPlan c)
   | Some v \<Rightarrow> sp_MinPlan c = deriveMinPlan (applyOverride (build_spec extras templates cats m) v) \<and>
       TierRank (sp_MinPlan c) \<in> {0, 3, 5})"
proof (cases "obj_get (rg_overrides r) a")
  case None
  then have "sp_MinPlan c = sp_MinPlan (build_spec extras templates cats m)" using assms
    by (auto simp: ResolveModel_def resolve_own_def split: option.split_asm if_split_asm)
  then show ?thesis using None build_spec_floor [OF assms(3)] by simp
next
  case (Some v)
  then have "sp_MinPlan c = deriveMinPlan (applyOverride (build_spec extras templates cats m) v)" using assms
    by (auto simp: ResolveModel_def resolve_own_def refresh_gate_def)
  then show ?thesis using Some by (auto simp: deriveMinPlan_def)
qed

theorem override_drops_extra_floor_witness:
  "\<exists>c. ResolveModel demo_registry ''m'' = Ok c \<and> TierRank (sp_MinPlan c) < TierRank (plan_of_string ''plus'')"
proof -
  obtain c where c: "ResolveModel demo_registry ''m'' = Ok c" using demo_model_resolves by blast
  have "sp_MinPlan c = deriveMinPlan (applyOverride (build_spec [(''m'', zero_extra\<lparr> ex_MinPlan := ''plus'' \<rparr>)] [] no_catalogs demo_model) demo_override)"
    using override_drops_extra_floor [of demo_registry "''m''" "[(''m'', zero_extra\<lparr> ex_MinPlan := ''plus'' \<rparr>)]" "[]" no_catalogs
        demo_model "zero_extra\<lparr> ex_MinPlan := ''plus'' \<rparr>" c] c
    by (simp add: obj_get_def demo_model_def)
  then have "sp_MinPlan c = PlanFree"
    by (simp add: deriveMinPlan_def applyOverride_def demo_override_def demo_model_def zero_model_def)
  then show ?thesis using c by (simp add: plan_of_string_def)
qed

section \<open>Well-formed registries\<close>

definition spec_ok :: "string \<Rightarrow> catalog_spec \<Rightarrow> bool" where
  "spec_ok a c \<longleftrightarrow> sp_Alias c = a \<and> cs_Tags c = deriveTags c \<and> TierRank (deriveMinPlan c) \<le> TierRank (sp_MinPlan c) \<and>
     (\<forall>vals \<in> snd ` set (cs_Enums c). vals \<noteq> []) \<and> cs_AliasOf c = ''''"

definition registry_ok :: "registry \<Rightarrow> bool" where
  "registry_ok r \<longleftrightarrow> distinct (map fst (rg_byAlias r)) \<and> distinct (map fst (rg_aliases r)) \<and>
     distinct (map fst (rg_overrides r)) \<and> distinct (map fst (rg_dynamicCosts r)) \<and>
     (\<forall>(a, c) \<in> set (rg_byAlias r). spec_ok a c) \<and> (\<forall>(a, v) \<in> set (rg_overrides r). mo_Alias v = a)"

datatype registry_op =
    OpReload file_tree registry_config "(gerror option \<times> override_row list) option"
  | OpDynamicCosts "(string \<times> int) list"

fun registry_step :: "registry_op \<Rightarrow> registry \<Rightarrow> registry" where
  "registry_step (OpReload t cfg provider) r = snd (Reload t cfg provider r)"
| "registry_step (OpDynamicCosts costs) r = SetDynamicCosts costs r"

lemma base_spec_ok: "spec_ok (rm_Alias m) (base_spec m)"
  by (simp add: spec_ok_def base_spec_def refresh_gate_def deriveMinPlan_def deriveTags_def)

lemma with_extra_ok:
  assumes "spec_ok a c"
  shows "spec_ok a (with_extra eo c)"
proof -
  have "deriveMinPlan (with_extra eo c) = deriveMinPlan c"
    by (cases eo) (simp_all add: with_extra_def Let_def deriveMinPlan_def)
  moreover have "TierRank (sp_MinPlan c) \<le> TierRank (sp_MinPlan (with_extra eo c))"
    by (cases eo) (simp_all add: with_extra_def Let_def)
  ultimately have "TierRank (deriveMinPlan (with_extra eo c)) \<le> TierRank (sp_MinPlan (with_extra eo c))"
    using assms by (simp add: spec_ok_def)
  then show ?thesis using assms
    by (cases eo) (simp_all add: spec_ok_def with_extra_def Let_def deriveTags_def)
qed

lemma with_template_ok: "spec_ok a c \<Longrightarrow> spec_ok a (with_template cats bo c)"
proof -
  have "deriveMinPlan (with_template cats bo c) = deriveMinPlan c" "deriveTags (with_template cats bo c) = deriveTags c"
    by (cases bo; simp add: with_template_def deriveMinPlan_def deriveTags_def)+
  then show "spec_ok a c \<Longrightarrow> ?thesis"
    by (cases bo) (auto simp: spec_ok_def with_template_def)
qed

lemma build_spec_ok: "spec_ok (rm_Alias m) (build_spec extras templates cats m)"
  unfolding build_spec_def by (intro with_template_ok with_extra_ok base_spec_ok)

lemma loaded_ok:
  "\<forall>(a, c) \<in> set (map_from (map (\<lambda>m. (rm_Alias m, build_spec extras templates cats m)) live)). spec_ok a c"
  by (auto dest!: map_from_mem simp: build_spec_ok)

lemma overrides_ok: "\<forall>(a, v) \<in> set (map_from (map (\<lambda>v. (mo_Alias v, v)) vs)). mo_Alias v = a"
  by (auto dest!: map_from_mem)

lemma registry_ok_swap:
  assumes "registry_ok r" "\<forall>(a, c) \<in> set (map_from specs). spec_ok a c"
    "distinct (map fst vs)" "\<forall>(a, v) \<in> set vs. mo_Alias v = a"
  shows "registry_ok (r\<lparr> rg_byAlias := map_from specs, rg_aliases := map_from als, rg_locked := ls, rg_overrides := vs \<rparr>)"
  using assms by (simp add: registry_ok_def map_from_distinct)

lemma Reload_ok:
  assumes "registry_ok r"
  shows "registry_ok (snd (Reload t cfg provider r))"
proof (cases "read_catalog t cfg")
  case (Inl e)
  then show ?thesis using assms by (simp add: Reload_def)
next
  case (Inr x)
  obtain models als extras templates cats where x: "x = (models, als, extras, templates, cats)" by (cases x)
  let ?live = "filter (\<lambda>m. \<not> dead extras m) models"
  have vs: "distinct (map fst (rg_overrides r))" "\<forall>(a, v) \<in> set (rg_overrides r). mo_Alias v = a"
    using assms by (simp_all add: registry_ok_def)
  have "\<exists>vs. snd (Reload t cfg provider r) =
      r\<lparr> rg_byAlias := map_from (map (\<lambda>m. (rm_Alias m, build_spec extras templates cats m)) ?live), rg_aliases := map_from als,
         rg_locked := map rm_JST (filter (\<lambda>m. rm_StarterLocked m \<and> rm_JST m \<noteq> '''') ?live) @ rg_locked r, rg_overrides := vs \<rparr>
      \<and> distinct (map fst vs) \<and> (\<forall>(a, v) \<in> set vs. mo_Alias v = a)"
  proof (cases provider)
    case None
    then show ?thesis by (intro exI [of _ "[]"]) (simp add: Reload_def Inr x Let_def)
  next
    case (Some pr)
    obtain fail rows where pr: "pr = (fail, rows)" by (cases pr)
    show ?thesis
    proof (cases "ListOverrides fail rows")
      case l: (Inl e)
      show ?thesis
        by (rule exI [of _ "rg_overrides r"]) (use vs in \<open>simp add: Reload_def Inr x Let_def Some pr l\<close>)
    next
      case l: (Inr us)
      show ?thesis
        by (rule exI [of _ "map_from (map (\<lambda>v. (mo_Alias v, v)) us)"])
           (simp only: Reload_def Inr x Let_def Some pr l sum.case option.case prod.case snd_conv map_from_distinct, simp add: overrides_ok)
    qed
  qed
  then show ?thesis by (elim exE conjE) (simp only: registry_ok_swap [OF assms loaded_ok])
qed

lemma registry_step_ok: "registry_ok r \<Longrightarrow> registry_ok (registry_step op r)"
  by (cases op) (simp_all add: Reload_ok, simp add: registry_ok_def SetDynamicCosts_def map_from_distinct)

lemma deriveTags_refresh: "deriveTags (refresh_gate c) = deriveTags c"
  by (simp add: refresh_gate_def deriveTags_def)

lemma tags_refresh [simp]: "cs_Tags (refresh_gate c) = deriveTags (refresh_gate c)"
  unfolding deriveTags_refresh by (simp add: refresh_gate_def)

lemma deriveTags_priced [simp]: "deriveTags (c\<lparr> sp_EstCostHundredths := h \<rparr>) = deriveTags c"
  by (simp add: deriveTags_def)

lemma tags_dynamic: "cs_Tags (applyDynamicCost r c) = deriveTags (applyDynamicCost r c) \<longleftrightarrow> cs_Tags c = deriveTags c"
proof -
  have "cs_Tags (applyDynamicCost r c) = cs_Tags c" "deriveTags (applyDynamicCost r c) = deriveTags c"
    by (simp_all add: applyDynamicCost_def split: option.split)
  then show ?thesis by simp
qed

text \<open>C29. Whatever files a registry is loaded from, and however often it is reloaded or given new
  prices, it stays well-formed: every name has one entry, every model is filed under its own alias
  with the tags of its flags, at least the plan they ask for and no empty choice list, every
  override under its own alias; and a model that resolves carries the tags of the flags it is
  shown with, alias tier and operator override included.\<close>

theorem registry_well_formed:
  "let r = fold registry_step ops empty_registry in
   registry_ok r \<and> (case ResolveModel r a of
     Inl e \<Rightarrow> obj_get (rg_byAlias r) a = None | Inr c \<Rightarrow> cs_Tags c = deriveTags c)"
proof -
  have ok: "registry_ok r \<Longrightarrow> registry_ok (fold registry_step ops r)" for r
    by (induction ops arbitrary: r) (simp_all add: registry_step_ok)
  define r where "r = fold registry_step ops empty_registry"
  have r: "registry_ok r" unfolding r_def by (rule ok) (simp add: registry_ok_def empty_registry_def)
  have known: "cs_Tags c = deriveTags c" if "obj_get (rg_byAlias r) a = Some c" for a c
  proof -
    have "(a, c) \<in> set (rg_byAlias r)" using that by (simp add: obj_get_def map_of_SomeD)
    then show ?thesis using r by (auto simp: registry_ok_def spec_ok_def)
  qed
  have own: "case resolve_own r a of Inl e \<Rightarrow> obj_get (rg_byAlias r) a = None | Inr c \<Rightarrow> cs_Tags c = deriveTags c"
    using known by (auto simp: resolve_own_def tags_dynamic split: option.split)
  have base: "cs_Tags (alias_view b e c) = deriveTags (alias_view b e c)" if "cs_Tags c = deriveTags c" for b e c
    using that by (simp add: alias_view_def Let_def) (simp add: deriveTags_def)
  have "cs_Tags (overlay_override r a c) = deriveTags (overlay_override r a c)" if "cs_Tags c = deriveTags c" for c
    using that by (simp add: overlay_override_def split: option.split)
  then have "case ResolveModel r a of Inl e \<Rightarrow> obj_get (rg_byAlias r) a = None | Inr c \<Rightarrow> cs_Tags c = deriveTags c"
    using own known base by (auto simp: ResolveModel_def tags_dynamic split: option.split)
  then show ?thesis using r unfolding r_def Let_def by (rule conjI [rotated])
qed

end
