(* ===== verification/CostSync.thy ===== *)
theory CostSync
  imports PricingStore Registry
begin

text \<open>
  The price synchronisation of \<open>core/costsync/costsync.go\<close>: one pass fetches the upstream
  price catalogue, stores it as a snapshot with its rules and pushes the floors into the
  registry.  The composition ties three parts together: the walk that computes the floors
  (CostCatalog), the store (PricingStore) and the registry that serves them.
\<close>

section \<open>A pass\<close>

text \<open>What a pass works on: the pricing tables, when the store is wired, and the registry.\<close>

record sync_state =
  sy_Pricing :: "pricing_db option"
  sy_Registry :: registry

definition sync_source :: string where "sync_source = ''higgs_job_set_costs''"

definition stamp_rules :: "string \<Rightarrow> (nat \<Rightarrow> string) \<Rightarrow> int \<Rightarrow> cost_rule list \<Rightarrow> cost_rule list" where
  "stamp_rules sid ruleID now rs =
     map (\<lambda>(i, r). r\<lparr> mcr_ID := ruleID i, mcr_SnapshotID := sid, mcr_ObservedAt := Some now \<rparr>) (enumerate 0 rs)"

definition store_catalog ::
  "(pricing_step \<Rightarrow> gerror option) \<Rightarrow> (string \<Rightarrow> string) \<Rightarrow> string \<Rightarrow> (nat \<Rightarrow> string) \<Rightarrow> int \<Rightarrow> cost_catalog \<Rightarrow> pricing_db
     \<Rightarrow> (gerror, unit) result \<times> pricing_db" where
  "store_catalog fail digest sid ruleID now cat d =
     SaveSnapshot fail (Some \<lparr> psn_ID = sid, psn_Source = sync_source, psn_SourceURL = ''/job-sets/costs'',
       psn_PayloadJSON = jcc_RawJSON cat, psn_PayloadSHA256 = digest (jcc_RawJSON cat), psn_FetchedAt = Some now,
       psn_EffectiveAt = None \<rparr>) (stamp_rules sid ruleID now (jcc_Rules cat)) d"

definition costsync_once ::
  "env \<Rightarrow> client \<Rightarrow> gerror option \<Rightarrow> (pricing_step \<Rightarrow> gerror option) \<Rightarrow> (string \<Rightarrow> string) \<Rightarrow> string \<Rightarrow> (nat \<Rightarrow> string)
     \<Rightarrow> accounts \<Rightarrow> sync_state \<times> client_state \<Rightarrow> sync_state \<times> client_state" where
  "costsync_once v c failList fail digest sid ruleID rows ws = (case ws of (w, s) \<Rightarrow>
     case ListAccounts failList active_filter rows of
       Inl e \<Rightarrow> (w, s)
     | Inr [] \<Rightarrow> (w, s)
     | Inr (acc # _) \<Rightarrow>
        (case FetchJobSetCostCatalog v c acc s of
           (Inl e, s1) \<Rightarrow> (w, s1)
         | (Inr None, s1) \<Rightarrow> (w, s1)
         | (Inr (Some cat), s1) \<Rightarrow>
            (if jcc_MinCosts cat = [] then (w, s1)
             else case sy_Pricing w of
               None \<Rightarrow> (w\<lparr> sy_Registry := SetDynamicCosts (jcc_MinCosts cat) (sy_Registry w) \<rparr>, s1)
             | Some d \<Rightarrow>
                (case store_catalog fail digest sid ruleID (ev_Now v (cs_History s1)) cat d of
                   (Inl e, d1) \<Rightarrow> (w\<lparr> sy_Pricing := Some d1 \<rparr>, s1)
                 | (Inr _, d1) \<Rightarrow>
                    (w\<lparr> sy_Pricing := Some d1,
                       sy_Registry := SetDynamicCosts (jcc_MinCosts cat) (sy_Registry w) \<rparr>, s1)))))"

section \<open>Saving a snapshot\<close>

lemma SaveSnapshot_Err: "SaveSnapshot fail snap rules d = (Inl e, d1) \<Longrightarrow> d1 = d"
  by (auto simp: SaveSnapshot_def split: option.split_asm if_split_asm sum.split_asm)

lemma save_rules_Ok:
  assumes "save_rules fail sid i rs rows = Ok rows1" "\<forall>r \<in> set rs. mcr_SnapshotID r = sid" "sid \<noteq> ''''"
  shows "rows1 = rows @ map rule_row rs \<and> (\<forall>r \<in> set rs. 0 < mcr_CreditsHundredths r)"
  using assms
proof (induction rs arbitrary: i rows)
  case (Cons r rs)
  have sid: "mcr_SnapshotID r = sid" using Cons.prems(2) by simp
  have rest: "save_rules fail sid (i + 1) rs (rows @ [rule_row r]) = Ok rows1" and pos: "0 < mcr_CreditsHundredths r"
    using Cons.prems(1,3) sid by (auto simp: Let_def split: if_split_asm option.split_asm)
  show ?case using Cons.IH [OF rest] Cons.prems(2,3) pos by auto
qed simp

lemma SaveSnapshot_Ok:
  assumes "SaveSnapshot fail (Some p) rules d = (Ok (), d1)" "\<forall>r \<in> set rules. mcr_SnapshotID r = psn_ID p"
  shows "pd_snapshots d1 = pd_snapshots d @ [snapshot_row p]" "pd_rules d1 = pd_rules d @ map rule_row rules"
    "\<forall>r \<in> set rules. 0 < mcr_CreditsHundredths r" "psn_ID p \<notin> psn_ID ` set (pd_snapshots d)"
proof -
  obtain rows where r: "save_rules fail (psn_ID p) 0 rules (pd_rules d) = Ok rows"
    "d1 = d\<lparr> pd_snapshots := pd_snapshots d @ [snapshot_row p], pd_rules := rows \<rparr>"
    "psn_ID p \<notin> psn_ID ` set (pd_snapshots d)" "psn_ID p \<noteq> ''''"
    using assms(1) by (auto simp: SaveSnapshot_def split: option.split_asm if_split_asm sum.split_asm)
  from save_rules_Ok [OF r(1) assms(2) r(4)] r(2,3)
  show "pd_snapshots d1 = pd_snapshots d @ [snapshot_row p]" "pd_rules d1 = pd_rules d @ map rule_row rules"
    "\<forall>r \<in> set rules. 0 < mcr_CreditsHundredths r" "psn_ID p \<notin> psn_ID ` set (pd_snapshots d)" by auto
qed

section \<open>The newest snapshot\<close>

lemma hd_insert_desc: "insert_desc k x ys \<noteq> [] \<and> hd (insert_desc k x ys) = (if ys = [] \<or> k (hd ys) \<le> k x then x else hd ys)"
  by (cases ys) auto

lemma sort_desc_empty [simp]: "sort_desc k xs = [] \<longleftrightarrow> xs = []"
  by (cases xs) (use hd_insert_desc [of k] in \<open>auto simp: sort_desc_def\<close>)

lemma newest_of_sorted:
  assumes "p \<in> set ys" "sorted_wrt (\<lambda>a b. psn_ID b \<le> psn_ID a) ys"
    "\<forall>x \<in> set ys. x = p \<or> f x < f p \<or> f x = f p \<and> psn_ID x < psn_ID p"
  shows "hd (sort_desc f ys) = p"
  using assms
proof (induction ys)
  case (Cons y ys)
  have unfold: "sort_desc f (y # ys) = insert_desc f y (sort_desc f ys)" by (simp add: sort_desc_def)
  show ?case
  proof (cases "y = p")
    case True
    have "f (hd (sort_desc f ys)) \<le> f p" if "ys \<noteq> []"
    proof -
      have "hd (sort_desc f ys) \<in> set ys" using that hd_in_set [of "sort_desc f ys"] by simp
      then show ?thesis using Cons.prems(3) by fastforce
    qed
    then show ?thesis using hd_insert_desc [of f y "sort_desc f ys"] unfold True by auto
  next
    case False
    then have p: "p \<in> set ys" using Cons.prems(1) by simp
    then have h: "hd (sort_desc f ys) = p" using Cons.IH Cons.prems(2,3) by simp
    have "psn_ID p \<le> psn_ID y" using Cons.prems(2) p by simp
    then have "f y < f p" using Cons.prems(3) False by force
    then have "\<not> f p \<le> f y" by simp
    then show ?thesis using hd_insert_desc [of f y "sort_desc f ys"] unfold h p by auto
  qed
qed simp

lemma newest_hd:
  assumes "p \<in> set rows" "\<forall>x \<in> set rows. x = p \<or> fmtTime (psn_FetchedAt x) < fmtTime (psn_FetchedAt p) \<or>
      fmtTime (psn_FetchedAt x) = fmtTime (psn_FetchedAt p) \<and> psn_ID x < psn_ID p"
  shows "\<exists>rest. newest_first rows = p # rest"
proof -
  let ?n = "newest_first rows"
  have "hd ?n = p" unfolding newest_first_def
    using assms by (intro newest_of_sorted sort_desc_sorted) simp_all
  moreover have "?n \<noteq> []" using assms(1) by (auto simp: newest_first_def)
  ultimately show ?thesis by (metis list.collapse)
qed

section \<open>The floors of a catalogue are its cheapest rules\<close>

definition cheapest :: "cost_rule list \<Rightarrow> string \<Rightarrow> int option" where
  "cheapest rs jst = (let cs = map mcr_CreditsHundredths (filter (\<lambda>r. mcr_JST r = jst) rs)
     in if cs = [] then None else Some (Min (set cs)))"

lemma obj_get_map_from: "obj_get (map_from es) k = map_of (rev es) k"
proof -
  have "obj_get (fold (\<lambda>(k, v). obj_put k v) es m) k = (case map_of (rev es) k of None \<Rightarrow> obj_get m k | Some v \<Rightarrow> Some v)" for m
    by (induction es arbitrary: m) (auto simp: map_add_def split: option.split)
  then show ?thesis by (simp add: map_from_def obj_get_def split: option.split)
qed

lemma map_from_idem: "obj_get (map_from (map_from es)) k = obj_get (map_from es) k"
proof -
  have "map_of (rev (map_from es)) = map_of (map_from es)"
    using map_from_distinct [of es] by (simp add: map_of_inject_set distinct_rev rev_map [symmetric])
  then show ?thesis unfolding obj_get_map_from [of "map_from es"] by (simp add: obj_get_def)
qed

lemma node_rules_jst: "r \<in> set (node_rules jst node dims) \<Longrightarrow> mcr_JST r = jst"
  by (auto simp: node_rules_def cost_rule_of_def Let_def split: option.split_asm if_split_asm)

lemma normalize_jst: "r \<in> set (normalizeJobSetCostRules jst items) \<Longrightarrow> mcr_JST r = jst"
proof -
  have "\<forall>r \<in> set (normalizeCostNode jst node inh). mcr_JST r = jst" for node inh
  proof (induction jst node inh rule: normalizeCostNode.induct)
    case (1 jst node inh)
    show ?case
      by (subst normalizeCostNode.simps) (use "1.IH" [OF refl] in \<open>auto simp: Let_def dest: node_rules_jst\<close>)
  qed
  then show "r \<in> set (normalizeJobSetCostRules jst items) \<Longrightarrow> mcr_JST r = jst"
    by (auto simp: normalizeJobSetCostRules_def)
qed

lemma reduce_cheapest:
  assumes "\<forall>r \<in> set (normalizeJobSetCostRules jst items). 0 \<le> mcr_CreditsHundredths r"
  shows "reduceJobSetCost items = cheapest (normalizeJobSetCostRules jst items) jst"
proof -
  have "filter (\<lambda>r. mcr_JST r = jst) (normalizeJobSetCostRules jst items) = normalizeJobSetCostRules jst items"
    using normalize_jst by (simp add: filter_id_conv)
  then show ?thesis by (simp add: cheapest_def Let_def floor_is_cheapest_rule [OF assms])
qed

lemma cheapest_append: "cheapest (xs @ ys) jst = (case (cheapest xs jst, cheapest ys jst) of
    (None, b) \<Rightarrow> b | (a, None) \<Rightarrow> a | (Some a, Some b) \<Rightarrow> Some (min a b))"
proof -
  have "(if as @ bs = [] then None else Some (Min (set (as @ bs)))) =
      (case (if as = [] then None else Some (Min (set as)), if bs = [] then None else Some (Min (set bs))) of
         (None, b) \<Rightarrow> b | (a, None) \<Rightarrow> a | (Some a, Some b) \<Rightarrow> Some (min a b))" for as bs :: "int list"
    by (simp add: Min_Un)
  from this [of "map mcr_CreditsHundredths (filter (\<lambda>r. mcr_JST r = jst) xs)"
      "map mcr_CreditsHundredths (filter (\<lambda>r. mcr_JST r = jst) ys)"]
  show ?thesis unfolding cheapest_def Let_def filter_append map_append .
qed

lemma cheapest_none: "\<forall>r \<in> set rs. mcr_JST r \<noteq> jst \<Longrightarrow> cheapest rs jst = None"
  by (auto simp: cheapest_def Let_def filter_empty_conv)

lemma filtered_keys: "fst ` set (List.map_filter (\<lambda>(jst, cost). map_option (Pair jst) (f cost)) es) \<subseteq> fst ` set es"
  by (force simp: map_filter_def)

lemma filtered_distinct:
  "distinct (map fst es) \<Longrightarrow> distinct (map fst (List.map_filter (\<lambda>(jst, cost). map_option (Pair jst) (f cost)) es))"
proof (induction es)
  case (Cons e es)
  obtain j c where e: "e = (j, c)" by (cases e)
  have "j \<notin> fst ` set (List.map_filter (\<lambda>(jst, cost). map_option (Pair jst) (f cost)) es)"
    using Cons.prems filtered_keys [of f es] by (auto simp: e)
  then show ?case using Cons by (cases "f c") (simp_all add: e List.map_filter_simps)
qed (simp add: List.map_filter_simps)

lemma floors_cheapest:
  assumes "distinct (map fst entries)"
    "\<forall>r \<in> set (concat (map (\<lambda>(jst, cost). normalizeJobSetCostRules jst cost) entries)). 0 \<le> mcr_CreditsHundredths r"
  shows "map_of (List.map_filter (\<lambda>(jst, cost). map_option (Pair jst) (reduceJobSetCost cost)) entries) jst =
    cheapest (concat (map (\<lambda>(jst, cost). normalizeJobSetCostRules jst cost) entries)) jst"
  using assms
proof (induction entries)
  case Nil
  show ?case by (simp add: List.map_filter_simps cheapest_def)
next
  case (Cons e es)
  obtain j cost where e: "e = (j, cost)" by (cases e)
  let ?rest = "concat (map (\<lambda>(jst, cost). normalizeJobSetCostRules jst cost) es)"
  have IH: "map_of (List.map_filter (\<lambda>(jst, cost). map_option (Pair jst) (reduceJobSetCost cost)) es) jst = cheapest ?rest jst"
    using Cons by simp
  have red: "reduceJobSetCost cost = cheapest (normalizeJobSetCostRules j cost) j"
    using Cons.prems(2) by (intro reduce_cheapest) (auto simp: e)
  have named: "mcr_JST r \<in> fst ` set es" if r: "r \<in> set ?rest" for r
  proof -
    obtain p where p: "p \<in> set es" "r \<in> set (normalizeJobSetCostRules (fst p) (snd p))"
      using r by (auto simp: case_prod_beta)
    then show ?thesis using normalize_jst by (metis imageI)
  qed
  have other: "cheapest ?rest j = None"
    using Cons.prems(1) named by (intro cheapest_none) (auto simp: e)
  have mine: "jst \<noteq> j \<Longrightarrow> cheapest (normalizeJobSetCostRules j cost) jst = None"
    by (intro cheapest_none) (auto dest: normalize_jst)
  have step: "map_of (List.map_filter (\<lambda>(jst, cost). map_option (Pair jst) (reduceJobSetCost cost)) ((j, cost) # es)) jst
      = (if jst = j \<and> cheapest (normalizeJobSetCostRules j cost) j \<noteq> None then cheapest (normalizeJobSetCostRules j cost) j
         else cheapest ?rest jst)"
    using IH by (cases "reduceJobSetCost cost") (auto simp: List.map_filter_simps red [symmetric])
  show ?case
  proof (cases "jst = j")
    case True
    then show ?thesis using step other
      by (cases "cheapest (normalizeJobSetCostRules j cost) j") (simp_all add: e cheapest_append)
  next
    case False
    then show ?thesis using step mine
      by (simp add: e cheapest_append split: option.split)
  qed
qed

definition consistent_catalog :: "cost_catalog \<Rightarrow> bool" where
  "consistent_catalog cat \<longleftrightarrow> (\<forall>r \<in> set (jcc_Rules cat). 0 \<le> mcr_CreditsHundredths r) \<longrightarrow>
     (\<forall>jst. obj_get (jcc_MinCosts cat) jst = cheapest (jcc_Rules cat) jst) \<and> distinct (map fst (jcc_MinCosts cat))"

text \<open>The catalogue made of an answer that names no job set type twice is consistent.\<close>

definition names_once :: "(string \<times> json list) list \<Rightarrow> bool" where
  "names_once entries \<longleftrightarrow> distinct (filter (\<lambda>jst. jst \<noteq> '''') (map fst entries))"

lemma catalog_of_consistent:
  assumes "catalog_of raw entries = Some cat" "names_once entries"
  shows "consistent_catalog cat"
proof -
  let ?named = "filter (\<lambda>(jst, cost). jst \<noteq> '''') entries"
  let ?floors = "List.map_filter (\<lambda>(jst, cost). map_option (Pair jst) (reduceJobSetCost cost)) ?named"
  have c: "jcc_MinCosts cat = map_from ?floors"
    "jcc_Rules cat = concat (map (\<lambda>(jst, cost). normalizeJobSetCostRules jst cost) ?named)"
    using assms(1) by (auto simp: catalog_of_def Let_def split: if_split_asm)
  have d: "distinct (map fst ?named)" using assms(2) by (simp add: names_once_def filter_map comp_def case_prod_beta')
  have "distinct (map fst ?floors)" using filtered_distinct [OF d] .
  then have "map_of (rev ?floors) = map_of ?floors"
    by (subst map_of_inject_set) (simp_all add: rev_map [symmetric])
  then have "obj_get (map_from ?floors) jst = map_of ?floors jst" for jst
    by (simp only: obj_get_map_from)
  then show ?thesis unfolding consistent_catalog_def c using floors_cheapest [OF d] map_from_distinct by auto
qed

section \<open>The overlay follows the store\<close>

definition latest_rules :: "sync_state \<Rightarrow> cost_rule list" where
  "latest_rules w = (case sy_Pricing w of
     None \<Rightarrow> []
   | Some d \<Rightarrow> (case ListLatestRules None sync_source d of Inl e \<Rightarrow> [] | Inr rs \<Rightarrow> rs))"

text \<open>The prices the registry overlays are the cheapest rules of the newest stored snapshot,
  and no stored rule is without its snapshot.\<close>

definition in_sync :: "sync_state \<Rightarrow> bool" where
  "in_sync w \<longleftrightarrow> (case sy_Pricing w of None \<Rightarrow> False | Some d \<Rightarrow>
     mcr_SnapshotID ` set (pd_rules d) \<subseteq> psn_ID ` set (pd_snapshots d)) \<and>
     (\<forall>jst. obj_get (rg_dynamicCosts (sy_Registry w)) jst = cheapest (latest_rules w) jst)"

lemma cheapest_cong:
  assumes "map (\<lambda>r. (mcr_JST r, mcr_CreditsHundredths r)) xs = map (\<lambda>r. (mcr_JST r, mcr_CreditsHundredths r)) ys"
  shows "cheapest xs jst = cheapest ys jst"
proof -
  have "map mcr_CreditsHundredths (filter (\<lambda>r. mcr_JST r = jst) rs) =
      map snd (filter (\<lambda>p. fst p = jst) (map (\<lambda>r. (mcr_JST r, mcr_CreditsHundredths r)) rs))" for rs
    by (induction rs) auto
  note named = this
  have "map mcr_CreditsHundredths (filter (\<lambda>r. mcr_JST r = jst) xs) =
      map mcr_CreditsHundredths (filter (\<lambda>r. mcr_JST r = jst) ys)"
    unfolding named assms ..
  then show ?thesis by (simp only: cheapest_def)
qed

lemma cheapest_order: "cheapest (order_rules rs) jst = cheapest rs jst"
  by (simp add: cheapest_def order_rules_def filter_empty_conv Let_def)

lemma stamp_rules_prices:
  "map (\<lambda>r. (mcr_JST r, mcr_CreditsHundredths r)) (map rule_row (stamp_rules sid ruleID now rs)) =
     map (\<lambda>r. (mcr_JST r, mcr_CreditsHundredths r)) rs"
proof -
  have "map (\<lambda>r. (mcr_JST r, mcr_CreditsHundredths r)) (map rule_row (map (\<lambda>(i, r). r\<lparr> mcr_ID := ruleID i,
      mcr_SnapshotID := sid, mcr_ObservedAt := Some now \<rparr>) (enumerate n rs))) =
      map (\<lambda>r. (mcr_JST r, mcr_CreditsHundredths r)) rs" for n
    by (induction rs arbitrary: n) (simp_all add: rule_row_def)
  then show ?thesis by (simp add: stamp_rules_def)
qed

lemma stamp_rules_id: "r \<in> set (stamp_rules sid ruleID now rs) \<Longrightarrow> mcr_SnapshotID r = sid"
  by (auto simp: stamp_rules_def)

lemma stamped_positive: "\<forall>r \<in> set (stamp_rules sid ruleID now rs). 0 < mcr_CreditsHundredths r \<Longrightarrow>
    \<forall>r \<in> set rs. 0 < mcr_CreditsHundredths r"
proof -
  have "mcr_CreditsHundredths ` set (stamp_rules sid ruleID now rs) = mcr_CreditsHundredths ` set rs"
    using arg_cong [OF stamp_rules_prices [of sid ruleID now rs], of "\<lambda>ps. snd ` set ps"]
    by (simp add: image_image rule_row_def)
  then show "\<forall>r \<in> set (stamp_rules sid ruleID now rs). 0 < mcr_CreditsHundredths r \<Longrightarrow> ?thesis"
    by (metis imageE imageI)
qed

text \<open>After a stored snapshot the newest rules are its own.\<close>

lemma store_catalog_latest:
  assumes st: "store_catalog fail digest sid ruleID now cat d = (Ok (), d1)"
    and ids: "mcr_SnapshotID ` set (pd_rules d) \<subseteq> psn_ID ` set (pd_snapshots d)"
    and older: "\<forall>p \<in> set (pd_snapshots d). fmtTime (psn_FetchedAt p) < fmtTime (Some now)"
  shows "ListLatestRules None sync_source d1 = Ok (order_rules (map rule_row (stamp_rules sid ruleID now (jcc_Rules cat))))"
    "mcr_SnapshotID ` set (pd_rules d1) \<subseteq> psn_ID ` set (pd_snapshots d1)"
    "\<forall>r \<in> set (jcc_Rules cat). 0 < mcr_CreditsHundredths r"
proof -
  let ?snap = "\<lparr> psn_ID = sid, psn_Source = sync_source, psn_SourceURL = ''/job-sets/costs'',
       psn_PayloadJSON = jcc_RawJSON cat, psn_PayloadSHA256 = digest (jcc_RawJSON cat), psn_FetchedAt = Some now,
       psn_EffectiveAt = None \<rparr>"
  let ?stamped = "stamp_rules sid ruleID now (jcc_Rules cat)"
  have save: "SaveSnapshot fail (Some ?snap) ?stamped d = (Ok (), d1)" using st by (simp add: store_catalog_def)
  have of_sid: "\<forall>r \<in> set ?stamped. mcr_SnapshotID r = psn_ID ?snap" using stamp_rules_id by simp
  note s = SaveSnapshot_Ok [OF save of_sid]
  show "\<forall>r \<in> set (jcc_Rules cat). 0 < mcr_CreditsHundredths r" using stamped_positive s(3) .
  show "mcr_SnapshotID ` set (pd_rules d1) \<subseteq> psn_ID ` set (pd_snapshots d1)"
    using ids s(1,2) of_sid by (auto simp: snapshot_row_def rule_row_def)
  let ?row = "snapshot_row ?snap"
  obtain rest where new: "newest_first (filter (\<lambda>p. psn_Source p = sync_source) (pd_snapshots d1)) = ?row # rest"
    using newest_hd [of ?row "filter (\<lambda>p. psn_Source p = sync_source) (pd_snapshots d1)"] older s(1)
    by (auto simp: snapshot_row_def)
  have "mcr_SnapshotID r \<noteq> sid" if "r \<in> set (pd_rules d)" for r
    using that ids s(4) by auto
  then have "filter (\<lambda>r. mcr_SnapshotID r = sid) (pd_rules d1) = map rule_row ?stamped"
    using s(2) of_sid by (auto simp: filter_empty_conv filter_id_conv rule_row_def)
  then show "ListLatestRules None sync_source d1 = Ok (order_rules (map rule_row ?stamped))"
    by (simp add: ListLatestRules_def new) (simp add: snapshot_row_def)
qed

text \<open>Whatever way a name is resolved, the overlay has the last word on the price.\<close>

lemma applyDynamicCost_price:
  assumes "obj_get (rg_dynamicCosts r) (sp_JST c) = Some h" "sp_JST c \<noteq> ''''" "0 < h"
  shows "sp_EstCostHundredths (applyDynamicCost r c) = h"
  using assms by (auto simp: applyDynamicCost_def obj_get_def)

lemma applyDynamicCost_jst [simp]: "sp_JST (applyDynamicCost r c) = sp_JST c"
  by (simp add: applyDynamicCost_def split: option.split)

lemma resolve_price:
  assumes "ResolveModel r malias = Ok spec" "sp_JST spec \<noteq> ''''"
    "obj_get (rg_dynamicCosts r) (sp_JST spec) = Some h" "0 < h"
  shows "sp_EstCostHundredths spec = h"
proof -
  have own: "resolve_own r malias = Ok spec \<Longrightarrow> ?thesis"
    using assms(2-4) applyDynamicCost_price
    by (auto simp: resolve_own_def split: option.split_asm if_split_asm)
  show ?thesis using assms own applyDynamicCost_price
    by (auto simp: ResolveModel_def split: option.split_asm if_split_asm)
qed

text \<open>A pass either changes nothing or stores the answer and overlays it.\<close>

lemma costsync_cases:
  assumes "sy_Pricing w = Some d"
  shows "fst (costsync_once v c failList fail digest sid ruleID rows (w, s)) = w \<or>
    (\<exists>acc more cat s1 d1. ListAccounts failList active_filter rows = Ok (acc # more) \<and>
       FetchJobSetCostCatalog v c acc s = (Ok (Some cat), s1) \<and>
       store_catalog fail digest sid ruleID (ev_Now v (cs_History s1)) cat d = (Ok (), d1) \<and>
       fst (costsync_once v c failList fail digest sid ruleID rows (w, s)) =
         w\<lparr> sy_Pricing := Some d1, sy_Registry := SetDynamicCosts (jcc_MinCosts cat) (sy_Registry w) \<rparr>)"
proof (cases "ListAccounts failList active_filter rows")
  case (Inl e)
  then show ?thesis by (simp add: costsync_once_def)
next
  case listed: (Inr accs)
  show ?thesis
  proof (cases accs)
    case Nil
    then show ?thesis using listed by (simp add: costsync_once_def)
  next
    case (Cons acc more)
    obtain res s1 where f: "FetchJobSetCostCatalog v c acc s = (res, s1)" by fastforce
    consider "\<nexists>cat. res = Ok (Some cat)" | cat where "res = Ok (Some cat)" by auto
    then show ?thesis
    proof cases
      case 1
      then show ?thesis using listed Cons f by (simp add: costsync_once_def split: sum.split option.split)
    next
      case (2 cat)
      obtain a d1 where st: "store_catalog fail digest sid ruleID (ev_Now v (cs_History s1)) cat d = (a, d1)" by fastforce
      have kept: "a = Err e \<Longrightarrow> w\<lparr> sy_Pricing := Some d1 \<rparr> = w" for e
        using st SaveSnapshot_Err assms by (fastforce simp: store_catalog_def)
      have run: "fst (costsync_once v c failList fail digest sid ruleID rows (w, s)) =
          (if jcc_MinCosts cat = [] then w
           else case a of Inl e \<Rightarrow> w\<lparr> sy_Pricing := Some d1 \<rparr>
             | Inr _ \<Rightarrow> w\<lparr> sy_Pricing := Some d1, sy_Registry := SetDynamicCosts (jcc_MinCosts cat) (sy_Registry w) \<rparr>)"
        using listed Cons f 2 st assms by (simp add: costsync_once_def split: sum.split)
      show ?thesis
      proof (cases a)
        case (Inl e)
        then show ?thesis using run kept by simp
      next
        case (Inr u)
        then have ok: "a = Ok ()" by simp
        show ?thesis
        proof (cases "jcc_MinCosts cat = []")
          case True
          then have "fst (costsync_once v c failList fail digest sid ruleID rows (w, s)) = w" using run by simp
          then show ?thesis by (rule disjI1)
        next
          case False
          then have "fst (costsync_once v c failList fail digest sid ruleID rows (w, s)) =
              w\<lparr> sy_Pricing := Some d1, sy_Registry := SetDynamicCosts (jcc_MinCosts cat) (sy_Registry w) \<rparr>"
            using run ok by simp
          with listed [unfolded Cons] f [unfolded 2] st [unfolded ok] show ?thesis by (intro disjI2 exI conjI)
        qed
      qed
    qed
  qed
qed

lemma fetched_catalog:
  assumes "FetchJobSetCostCatalog v c acc s = (Ok (Some cat), s1)"
  shows "\<exists>r entries. api_get v c ''fetch_job_set_costs'' acc ''/job-sets/costs'' s = (Ok r, s1) \<and>
    unmarshal dec_costs [] (hr_Body r) = Ok entries \<and> catalog_of (hr_Body r) entries = Some cat"
proof -
  obtain r where r: "api_get v c ''fetch_job_set_costs'' acc ''/job-sets/costs'' s = (Ok r, s1)"
    "map_sum id (catalog_of (hr_Body r)) (unmarshal dec_costs [] (hr_Body r)) = Ok (Some cat)"
    using assms by (auto simp: FetchJobSetCostCatalog_def decode_200_def split: prod.split_asm sum.split_asm option.split_asm)
  then show ?thesis by (cases "unmarshal dec_costs [] (hr_Body r)") auto
qed

text \<open>C28. A pass of the price synchronisation keeps the prices the registry serves equal to
  what is stored: when the overlay agreed with the cheapest rules of the newest stored
  snapshot, it still does after the pass, whichever of its steps failed, as long as the
  clock is past every stored snapshot and the list the upstream answers with names no job type
  twice; every model whose job type has a rule then resolves at that rule's price.  The
  price the pass overlays is computed by a walk of its own over the answer, beside the one
  that makes the rules.\<close>

theorem sync_serves_cheapest_rule:
  assumes before: "in_sync w" "sy_Pricing w = Some d"
    and older: "\<forall>p \<in> set (pd_snapshots d). \<forall>h. fmtTime (psn_FetchedAt p) < fmtTime (Some (ev_Now v h))"
    and answers: "\<forall>acc more r s1 entries. ListAccounts failList active_filter rows = Ok (acc # more) \<and>
      api_get v c ''fetch_job_set_costs'' acc ''/job-sets/costs'' s = (Ok r, s1) \<and>
      unmarshal dec_costs [] (hr_Body r) = Ok entries \<longrightarrow> names_once entries"
  shows "let w1 = fst (costsync_once v c failList fail digest sid ruleID rows (w, s)) in
    in_sync w1 \<and>
    (\<forall>malias spec h. ResolveModel (sy_Registry w1) malias = Ok spec \<and> sp_JST spec \<noteq> '''' \<and>
       cheapest (latest_rules w1) (sp_JST spec) = Some h \<and> 0 < h \<longrightarrow> sp_EstCostHundredths spec = h)"
proof -
  let ?w1 = "fst (costsync_once v c failList fail digest sid ruleID rows (w, s))"
  have stored: "in_sync (w\<lparr> sy_Pricing := Some d1, sy_Registry := SetDynamicCosts (jcc_MinCosts cat) (sy_Registry w) \<rparr>)"
    if st: "store_catalog fail digest sid ruleID (ev_Now v h) cat d = (Ok (), d1)" and cat: "consistent_catalog cat"
    for cat h d1
  proof -
    have ids: "mcr_SnapshotID ` set (pd_rules d) \<subseteq> psn_ID ` set (pd_snapshots d)"
      using before by (simp add: in_sync_def)
    have past: "\<forall>p \<in> set (pd_snapshots d). fmtTime (psn_FetchedAt p) < fmtTime (Some (ev_Now v h))" using older by blast
    note l = store_catalog_latest [OF st ids past]
    have "\<forall>r \<in> set (jcc_Rules cat). 0 \<le> mcr_CreditsHundredths r" using l(3) by (meson order_less_imp_le)
    then have floors: "obj_get (jcc_MinCosts cat) jst = cheapest (jcc_Rules cat) jst" "distinct (map fst (jcc_MinCosts cat))" for jst
      using cat by (simp_all add: consistent_catalog_def)
    have same: "map_of (rev (jcc_MinCosts cat)) = map_of (jcc_MinCosts cat)"
      using floors(2) by (subst map_of_inject_set) (simp_all add: rev_map [symmetric])
    have overlay: "obj_get (map_from (jcc_MinCosts cat)) jst = cheapest (jcc_Rules cat) jst" for jst
      using floors(1) [of jst] by (simp only: obj_get_map_from same) (simp add: obj_get_def)
    show ?thesis
      by (simp add: in_sync_def latest_rules_def l SetDynamicCosts_def overlay cheapest_order
          cheapest_cong [OF stamp_rules_prices])
  qed
  have "in_sync ?w1"
    using costsync_cases [OF before(2), of v c failList fail digest sid ruleID rows s]
  proof
    assume "\<exists>acc more cat s1 d1. ListAccounts failList active_filter rows = Ok (acc # more) \<and>
       FetchJobSetCostCatalog v c acc s = (Ok (Some cat), s1) \<and>
       store_catalog fail digest sid ruleID (ev_Now v (cs_History s1)) cat d = (Ok (), d1) \<and>
       ?w1 = w\<lparr> sy_Pricing := Some d1, sy_Registry := SetDynamicCosts (jcc_MinCosts cat) (sy_Registry w) \<rparr>"
    then obtain acc more cat s1 d1 where k: "ListAccounts failList active_filter rows = Ok (acc # more)"
      "FetchJobSetCostCatalog v c acc s = (Ok (Some cat), s1)"
      "store_catalog fail digest sid ruleID (ev_Now v (cs_History s1)) cat d = (Ok (), d1)"
      "?w1 = w\<lparr> sy_Pricing := Some d1, sy_Registry := SetDynamicCosts (jcc_MinCosts cat) (sy_Registry w) \<rparr>" by blast
    from fetched_catalog [OF k(2)] k(1) answers have "consistent_catalog cat" using catalog_of_consistent by blast
    then show ?thesis using stored k(3,4) by simp
  qed (use before in simp)
  then show ?thesis using resolve_price by (auto simp: Let_def in_sync_def)
qed


section \<open>An instance\<close>

text \<open>An upstream that lists one job type at two credits.\<close>

definition priced_body :: string where
  "priced_body = ''{'' @ quote ''data'' @ '':[{'' @ quote ''job_set_type'' @ '':'' @ quote ''m'' @ '','' @
     quote ''cost'' @ '':[{'' @ quote ''credits'' @ '':2}]}]}''"

lemma priced_body: "parse_json priced_body =
    Some (JObj [(''data'', JArr [JObj [(''job_set_type'', JStr ''m''), (''cost'', JArr [JObj demo_cost])]])])"
  by code_simp

lemma cost_names:
  "fold_name ''data'' = ''DATA''" "fold_name ''job_set_type'' = ''JOB_SET_TYPE''" "fold_name ''cost'' = ''COST''"
  by (simp_all add: upper_char_def byte_def char_of_def bit_0 Let_def)

lemma priced_entries: "unmarshal dec_costs [] priced_body = Ok [(''m'', [JObj demo_cost])]"
  by (simp add: unmarshal_def priced_body dec_costs_def dec_cost_entry_def dec_struct_def dec_field_def dec_list_def
      dec_string_def cost_names del: fold_name.simps)

definition priced_env :: env where
  "priced_env = demo_env\<lparr> ev_Answer := (\<lambda>_. Ok \<lparr> hr_Status = 200, hr_Body = priced_body \<rparr>), ev_Now := (\<lambda>_. 0) \<rparr>"

lemma priced_costs: "\<exists>s1. api_get priced_env demo_client ''fetch_job_set_costs'' (stored_new session_account) ''/job-sets/costs''
    (warm h os) = (Ok \<lparr> hr_Status = 200, hr_Body = priced_body \<rparr>, s1)"
  using demo_fresh
  by (simp add: api_get_def doWithRetry_def attempt_def GetToken_def api_request_def send_def priced_env_def demo_env_def
      NewRequest_def warm_state_def warm_def Let_def)

lemma priced_rules: "\<exists>r. normalizeJobSetCostRules ''m'' [JObj demo_cost] = [r] \<and> mcr_JST r = ''m'' \<and> mcr_Unit r = ''per_request'' \<and>
    mcr_CreditsHundredths r = 200 \<and> mcr_SnapshotID r = ''''"
proof -
  have none: "obj_get demo_cost k = None" if "k \<noteq> ''credits''" for k
    using that by (simp add: obj_get_def demo_cost_def)
  have "normalizeCostNode ''m'' demo_cost [] =
      cost_rule_of ''m'' (node_dimensions demo_cost []) ''per_request'' ''credits'' '''' 2 0"
    by (subst normalizeCostNode.simps)
      (simp add: node_rules_def none demo_cost_price as_float_def [of None] as_object_def child_objects_def Let_def)
  then show ?thesis
    by (simp add: normalizeJobSetCostRules_def demo_cost_node cost_rule_of_def hundredths_2 Let_def)
qed

definition idle_sync :: sync_state where
  "idle_sync = \<lparr> sy_Pricing = Some \<lparr> pd_snapshots = [], pd_rules = [], pd_rates = [], pd_official = [],
     pd_decisions = [], pd_batches = [] \<rparr>, sy_Registry = empty_registry \<rparr>"

lemma listed_session: "ListAccounts None active_filter [insert_account_row session_account] = Ok [stored_new session_account]"
  by (simp add: ListAccounts_def sort_desc_def list_account_where_def active_filter_def scan_insert)
     (simp add: insert_account_row_def session_account_def demo_account_def)

lemma priced_pass:
  "obj_get (rg_dynamicCosts (sy_Registry (fst (costsync_once priced_env demo_client None (\<lambda>_. None) id ''s1'' (\<lambda>i. ''r'')
     [insert_account_row session_account] (idle_sync, warm [] []))))) ''m'' = Some 200"
proof -
  obtain r where r: "normalizeJobSetCostRules ''m'' [JObj demo_cost] = [r]" "mcr_JST r = ''m''" "mcr_Unit r = ''per_request''"
    "mcr_CreditsHundredths r = 200" "mcr_SnapshotID r = ''''" using priced_rules by blast
  let ?cat = "\<lparr> jcc_RawJSON = priced_body, jcc_MinCosts = [(''m'', 200)], jcc_Rules = [r] \<rparr>"
  have raw: "priced_body \<noteq> ''''" by (simp add: priced_body_def)
  have cat: "catalog_of priced_body [(''m'', [JObj demo_cost])] = Some ?cat"
    by (simp add: catalog_of_def demo_cost_floor r(1) List.map_filter_simps map_from_def obj_put_def)
  obtain s1 where api: "api_get priced_env demo_client ''fetch_job_set_costs'' (stored_new session_account) ''/job-sets/costs''
      (warm [] []) = (Ok \<lparr> hr_Status = 200, hr_Body = priced_body \<rparr>, s1)" using priced_costs by blast
  have fetch: "FetchJobSetCostCatalog priced_env demo_client (stored_new session_account) (warm [] []) = (Ok (Some ?cat), s1)"
    unfolding FetchJobSetCostCatalog_def api by (simp add: decode_200_def need_200_def priced_entries cat)
  have "\<exists>d1. store_catalog (\<lambda>_. None) id ''s1'' (\<lambda>i. ''r'') now ?cat \<lparr> pd_snapshots = [], pd_rules = [], pd_rates = [],
      pd_official = [], pd_decisions = [], pd_batches = [] \<rparr> = (Ok (), d1)" for now
    using raw r by (simp add: store_catalog_def SaveSnapshot_def sync_source_def stamp_rules_def)
  then obtain d1 where "store_catalog (\<lambda>_. None) id ''s1'' (\<lambda>i. ''r'') (ev_Now priced_env (cs_History s1)) ?cat
      \<lparr> pd_snapshots = [], pd_rules = [], pd_rates = [], pd_official = [], pd_decisions = [], pd_batches = [] \<rparr> = (Ok (), d1)"
    by blast
  then show ?thesis
    by (simp add: costsync_once_def listed_session fetch idle_sync_def SetDynamicCosts_def map_from_def obj_put_def obj_get_def)
qed

theorem sync_serves_cheapest_rule_witness:
  "let w1 = fst (costsync_once priced_env demo_client None (\<lambda>_. None) id ''s1'' (\<lambda>i. ''r'')
     [insert_account_row session_account] (idle_sync, warm [] []))
   in obj_get (rg_dynamicCosts (sy_Registry w1)) ''m'' = Some 200 \<and> cheapest (latest_rules w1) ''m'' = Some 200"
proof -
  let ?w1 = "fst (costsync_once priced_env demo_client None (\<lambda>_. None) id ''s1'' (\<lambda>i. ''r'')
     [insert_account_row session_account] (idle_sync, warm [] []))"
  have p: "sy_Pricing idle_sync = Some \<lparr> pd_snapshots = [], pd_rules = [], pd_rates = [], pd_official = [],
      pd_decisions = [], pd_batches = [] \<rparr>" by (simp add: idle_sync_def)
  have i: "in_sync idle_sync"
    by (simp add: in_sync_def idle_sync_def latest_rules_def ListLatestRules_def newest_first_def sort_desc_def
        cheapest_def empty_registry_def obj_get_def)
  have n: "names_once [(''m'', [JObj demo_cost])]" by (simp add: names_once_def)
  obtain s1 where api: "api_get priced_env demo_client ''fetch_job_set_costs'' (stored_new session_account) ''/job-sets/costs''
      (warm [] []) = (Ok \<lparr> hr_Status = 200, hr_Body = priced_body \<rparr>, s1)" using priced_costs by blast
  have a: "\<forall>acc more r s1 entries. ListAccounts None active_filter [insert_account_row session_account] = Ok (acc # more) \<and>
      api_get priced_env demo_client ''fetch_job_set_costs'' acc ''/job-sets/costs'' (warm [] []) = (Ok r, s1) \<and>
      unmarshal dec_costs [] (hr_Body r) = Ok entries \<longrightarrow> names_once entries"
    using n by (auto simp: listed_session api priced_entries)
  have "in_sync ?w1"
    using sync_serves_cheapest_rule [OF i p _ a, of "\<lambda>_. None" id "''s1''" "\<lambda>i. ''r''"] by (simp add: Let_def)
  then show ?thesis using priced_pass by (simp add: Let_def in_sync_def)
qed

end
