(* ===== verification/Api.thy ===== *)
theory Api
  imports Access Registry Proxy PricingStore
begin

text \<open>
  The reading half of the \<open>/v1\<close> surface, \<open>internal/api/v1\<close>: the wiring of the handlers
  (\<open>handler.go\<close>), the catalogue, the resolution of a key's groups, the jobs
  (\<open>jobs.go\<close>) and the price rules (\<open>pricing.go\<close>).  A handler maps a request to its reply: a
  status and the value its body encodes, an object listed in the order of the code.
  What a store call answers instead of its data is a parameter.
\<close>

section \<open>Requests, replies, wiring\<close>

datatype reply = Reply int json | Panicked

datatype api_call = AcJobGet | AcJobsList | AcGroups | AcKeyGet | AcAccounts | AcSnapshot | AcRules

type_synonym api_faults = "api_call \<Rightarrow> gerror option"

definition no_api_faults :: api_faults where "no_api_faults = (\<lambda>_. None)"

text \<open>A request behind the middlewares: what reading its body gives, its query, the
  parameter of its path and its context.\<close>

record http_in =
  hi_Body :: "(gerror, string) result"
  hi_Query :: "(string \<times> string) list"
  hi_Param :: string
  hi_Ctx :: call_ctx

record api =
  ap_Service :: service
  ap_Registry :: registry
  ap_Jobs :: bool
  ap_Groups :: bool
  ap_APIKeys :: bool
  ap_Accounts :: bool
  ap_Pricing :: "pricing_db option"
  ap_SoraUploader :: "(string \<Rightarrow> string \<Rightarrow> (gerror, string) result) option"

text \<open>The proxy behind the handlers resolves its models in the same registry.\<close>

definition service_of :: "api \<Rightarrow> service" where
  "service_of a = (ap_Service a)\<lparr>
     sv_Resolve := (\<lambda>m. map_sum id model_spec.truncate (ResolveModel (ap_Registry a) m)),
     sv_StarterLocked := StarterLocked (ap_Registry a) \<rparr>"

definition query_get :: "(string \<times> string) list \<Rightarrow> string \<Rightarrow> string" where
  "query_get qs k = (case map_of qs k of None \<Rightarrow> '''' | Some v \<Rightarrow> v)"

text \<open>Bodies are read up to a mebibyte; the rest is dropped.\<close>

definition readAll :: "http_in \<Rightarrow> (gerror, string) result" where
  "readAll hi = map_sum id (take (2 ^ 20)) (hi_Body hi)"

definition write_error :: "int \<Rightarrow> string \<Rightarrow> string \<Rightarrow> reply" where
  "write_error status kind message =
     Reply status (JObj [(''error'', JObj [(''type'', JStr kind), (''message'', JStr message)])])"

section \<open>Values in replies\<close>

definition jnum :: "int \<Rightarrow> json" where "jnum n = JNum (itoa n)"

definition jstrs :: "string list \<Rightarrow> json" where "jstrs xs = JArr (map JStr xs)"

definition hundredths :: "int \<Rightarrow> json" where
  "hundredths h = JNum (fmt_f64 (f64 (int64_to_f64 h / 100)))"

definition unix_of :: "gotime \<Rightarrow> int" where
  "unix_of t = (case t of None \<Rightarrow> zero_instant div nanos | Some ns \<Rightarrow> ns div nanos)"

fun plan_text :: "plan \<Rightarrow> string" where
  "plan_text PlanFree = ''free''"
| "plan_text PlanStarter = ''starter''"
| "plan_text PlanBasic = ''basic''"
| "plan_text PlanPro = ''pro''"
| "plan_text PlanPlus = ''plus''"
| "plan_text PlanUltimate = ''ultimate''"
| "plan_text PlanTeam = ''team''"
| "plan_text PlanUltra = ''ultra''"
| "plan_text PlanScale = ''scale''"
| "plan_text PlanCreator = ''creator''"
| "plan_text PlanEnt = ''enterprise''"
| "plan_text (PlanOther s) = s"

fun error_type_text :: "error_type \<Rightarrow> string" where
  "error_type_text ErrNone = ''''"
| "error_type_text ErrBody = ''body_error''"
| "error_type_text ErrGate = ''gate''"
| "error_type_text ErrRateLimit = ''rate_limit''"
| "error_type_text ErrUpstream = ''upstream_fail''"
| "error_type_text ErrTimeout = ''poll_timeout''"
| "error_type_text ErrNetwork = ''network''"
| "error_type_text ErrIPCheck = ''ip_check''"
| "error_type_text ErrUnknown = ''unknown''"
| "error_type_text (ErrOther s) = s"

fun scope_text :: "playground_scope \<Rightarrow> string" where
  "scope_text ScopeNone = ''none''"
| "scope_text ScopeCheap = ''cheap''"
| "scope_text ScopeFull = ''full''"
| "scope_text (ScopeOther s) = s"

text \<open>A decoding into \<open>map[string]any\<close> whose error is dropped: a number out of range is a
  null, and anything but an object leaves the map nil.\<close>

fun lossy :: "json \<Rightarrow> json" where
  "lossy (JNum s) = (if lit_f64 s = None then JNull else JNum s)"
| "lossy (JArr js) = JArr (map lossy js)"
| "lossy (JObj o1) = JObj (map_from (map (\<lambda>(k, v). (k, lossy v)) o1))"
| "lossy j = j"

definition extra_map :: "string \<Rightarrow> object option" where
  "extra_map raw = (case map_option lossy (parse_json raw) of Some (JObj o1) \<Rightarrow> Some o1 | _ \<Rightarrow> None)"

section \<open>The catalogue\<close>

definition parseOptionalBool :: "string \<Rightarrow> string \<Rightarrow> (reply, bool option) result" where
  "parseOptionalBool raw name =
     (if raw = '''' then Ok None
      else if toLower raw \<in> {''true'', ''1''} then Ok (Some True)
      else if toLower raw \<in> {''false'', ''0''} then Ok (Some False)
      else Err (write_error 400 ''invalid_query'' (name @ '' must be true or false'')))"

definition defaultModelsListLimit :: int where "defaultModelsListLimit = 100"
definition maxModelsListLimit :: int where "maxModelsListLimit = 500"

text \<open>A limit: absent or zero is the default, above the maximum is the maximum.\<close>

definition parse_limit :: "int \<Rightarrow> int \<Rightarrow> string \<Rightarrow> (reply, int) result" where
  "parse_limit dflt cap raw =
     (if raw = '''' then Ok dflt
      else case atoi raw of
        None \<Rightarrow> Err (write_error 400 ''invalid_query'' ''limit must be a non-negative integer'')
      | Some v \<Rightarrow>
          if v < 0 then Err (write_error 400 ''invalid_query'' ''limit must be a non-negative integer'')
          else let v1 = (if v = 0 then dflt else v) in Ok (if v1 > cap then cap else v1))"

definition parse_offset :: "string \<Rightarrow> (reply, int) result" where
  "parse_offset raw =
     (if raw = '''' then Ok 0
      else case atoi raw of
        None \<Rightarrow> Err (write_error 400 ''invalid_query'' ''offset must be a non-negative integer'')
      | Some v \<Rightarrow>
          if v < 0 then Err (write_error 400 ''invalid_query'' ''offset must be a non-negative integer'') else Ok v)"

definition parseModelsPaging :: "(string \<times> string) list \<Rightarrow> (reply, int \<times> int) result" where
  "parseModelsPaging qs =
     (case parse_limit defaultModelsListLimit maxModelsListLimit (query_get qs ''limit'') of
        Inl r \<Rightarrow> Err r
      | Inr limit \<Rightarrow> (case parse_offset (query_get qs ''offset'') of Inl r \<Rightarrow> Err r | Inr off \<Rightarrow> Ok (limit, off)))"

definition model_filter_of :: "(string \<times> string) list \<Rightarrow> model_filter" where
  "model_filter_of qs = \<lparr> mf_Output = query_get qs ''output'',
     mf_IncludeUnstable = (query_get qs ''include_unstable'' = ''1''),
     mf_IncludeDeprecated = (query_get qs ''include_deprecated'' = ''1'') \<rparr>"

definition keep_model :: "bool option \<Rightarrow> bool option \<Rightarrow> string \<Rightarrow> catalog_spec \<Rightarrow> bool" where
  "keep_model paid unlim sub m \<longleftrightarrow>
     (case paid of None \<Rightarrow> True | Some b \<Rightarrow> sp_RequiresPaid m = b) \<and>
     (case unlim of None \<Rightarrow> True | Some b \<Rightarrow> sp_RequiresUnlim m = b) \<and>
     (sub = '''' \<or> contains (toLower (sp_Alias m)) sub)"

text \<open>A slice whose bounds are clamped to the list.\<close>

definition page_slice :: "int \<Rightarrow> int \<Rightarrow> 'a list \<Rightarrow> 'a list" where
  "page_slice limit off xs =
     (let total = int (length xs); start = (if off > total then total else off);
          stop = (if start + limit > total then total else start + limit)
      in take (nat (stop - start)) (drop (nat start) xs))"

definition modelView :: "catalog_spec \<Rightarrow> object" where
  "modelView m =
     [(''id'', JStr (sp_Alias m)), (''object'', JStr ''model''), (''output'', JStr (sp_Output m)),
      (''jst'', JStr (sp_JST m)), (''endpoint'', JStr (sp_Endpoint m)), (''version'', JStr (sp_Version m)),
      (''media_role'', JStr (sp_MediaRole m)), (''app_slug'', JStr (sp_ApplicationSlug m)),
      (''example_body_json'', JStr (sp_ExampleBodyJSON m)),
      (''enums'', JObj (map (\<lambda>(k, vs). (k, jstrs vs)) (cs_Enums m))),
      (''est_cost'', hundredths (sp_EstCostHundredths m)), (''required_params'', jstrs (cs_RequiredParams m)),
      (''unstable'', JBool (cs_Unstable m)), (''requires_paid'', JBool (sp_RequiresPaid m)),
      (''requires_unlim'', JBool (sp_RequiresUnlim m)), (''requires_ultra'', JBool (sp_RequiresUltra m)),
      (''starter_locked'', JBool (cs_StarterLocked m)), (''tier_source'', JStr (cs_TierSource m)),
      (''min_credits_hundredths'', jnum (cs_MinCreditsHundredths m)),
      (''extra_aliases'', jstrs (cs_ExtraAliases m)), (''note'', JStr (cs_Note m)),
      (''min_plan'', JStr (plan_text (sp_MinPlan m))), (''tags'', jstrs (cs_Tags m)),
      (''max_resolution'', JStr (cs_MaxResolution m)), (''max_duration_sec'', jnum (cs_MaxDurationSec m)),
      (''unlim_job_set_type'', JStr (sp_UnlimJobSetType m)),
      (''unlim_bundle_types'', jstrs (cs_UnlimBundleTypes m)), (''free_quota_field'', JStr (sp_FreeQuotaField m))]"

text \<open>The registry is a map that is walked anew, and in a new order, by every request:
  \<open>walk\<close> is that order.\<close>

definition HandleModelsList :: "api \<Rightarrow> (catalog_spec list \<Rightarrow> catalog_spec list) \<Rightarrow> http_in \<Rightarrow> reply" where
  "HandleModelsList a walk hi =
     (let qs = hi_Query hi in
      case parseOptionalBool (query_get qs ''requires_paid'') ''requires_paid'' of Inl r \<Rightarrow> r | Inr paid \<Rightarrow>
      (case parseOptionalBool (query_get qs ''requires_unlim'') ''requires_unlim'' of Inl r \<Rightarrow> r | Inr unlim \<Rightarrow>
      (case parseModelsPaging qs of Inl r \<Rightarrow> r | Inr (limit, off) \<Rightarrow>
        (let sub = toLower (TrimSpace (query_get qs ''q''));
             filtered = filter (keep_model paid unlim sub) (walk (ListModels (ap_Registry a) (model_filter_of qs)))
         in Reply 200 (JObj [(''object'', JStr ''list''),
              (''data'', JArr (map (JObj \<circ> modelView) (page_slice limit off filtered))),
              (''limit'', jnum limit), (''offset'', jnum off),
              (''total_before_pagination'', jnum (int (length filtered)))])))))"

text \<open>The body is the specification itself.\<close>

definition HandleModelDetail :: "api \<Rightarrow> http_in \<Rightarrow> (reply, catalog_spec) result" where
  "HandleModelDetail a hi = (case ResolveModel (ap_Registry a) (hi_Param hi) of
     Inl e \<Rightarrow> Err (write_error 404 ''model_not_found'' (err_text e)) | Inr c \<Rightarrow> Ok c)"


section \<open>The groups of a request\<close>

text \<open>The candidate groups: the requested one, the key's own, or the bound ones by name;
  a store that does not answer means no group.\<close>

definition resolveGroup :: "api \<Rightarrow> api_faults \<Rightarrow> apikey option \<Rightarrow> string \<Rightarrow> db \<Rightarrow> string list" where
  "resolveGroup a f key requested d =
     (if requested \<noteq> '''' then [requested]
      else case key of
        None \<Rightarrow> ['''']
      | Some k \<Rightarrow>
          if k_GroupID k \<noteq> '''' then [k_GroupID k]
          else if \<not> ap_Groups a \<or> k_ID k = '''' then ['''']
          else (case ListGroupsForAPIKey (f AcGroups) (k_ID k) (db_groups d) (db_bindings d) of
            Inl e \<Rightarrow> ['''']
          | Inr bound \<Rightarrow> (case bound of
              [] \<Rightarrow> ['''']
            | [g] \<Rightarrow> [g_ID g]
            | _ \<Rightarrow> map g_ID (sort_key g_Name bound))))"

section \<open>Jobs\<close>

definition containsAny :: "string \<Rightarrow> string list \<Rightarrow> bool" where
  "containsAny s needles \<longleftrightarrow> list_ex (contains s) needles"

definition objectForOutputFromJob :: "job \<Rightarrow> string" where
  "objectForOutputFromJob j =
     (if containsAny (j_JST j) [''video'', ''seedance'', ''kling'', ''veo3'', ''wan'', ''cinematic'', ''sora'',
           ''gemini_omni'', ''grok_video'', ''marketing'', ''hf_fnf'', ''happy_horse'', ''infinite_talk'']
      then ''video''
      else if containsAny (j_JST j) [''speech'', ''audio'', ''sonilo'', ''mirelo'', ''text2speech''] then ''audio''
      else ''image'')"

definition jobView :: "job \<Rightarrow> object" where
  "jobView j =
     [(''id'', JStr (j_ID j)), (''object'', JStr (objectForOutputFromJob j)), (''model'', JStr (j_ModelAlias j)),
      (''status'', JStr (job_status_text (j_Status j))), (''created_at'', jnum (unix_of (j_RequestTS j))),
      (''upstream_job_id'', JStr (j_UpstreamJobID j)), (''cost'', jnum (j_UpstreamCost j)),
      (''result_url'', JStr (j_ResultURL j)), (''refunded'', JBool (j_Refunded j)),
      (''latency_ms'', jnum (j_LatencyMS j))] @
     (if j_FinishedAt j \<noteq> None then [(''finished_at'', jnum (unix_of (j_FinishedAt j)))] else []) @
     (if error_type_text (j_ErrorType j) \<noteq> ''''
      then [(''error'', JObj [(''type'', JStr (error_type_text (j_ErrorType j))), (''message'', JStr (j_ErrorDetail j))])]
      else []) @
     (if j_CallbackURL j \<noteq> '''' then [(''callback_url'', JStr (j_CallbackURL j))] else [])"

definition job_with_data :: "job \<Rightarrow> json" where
  "job_with_data j = JObj (jobView j @
     (if j_ResultURL j \<noteq> '''' then [(''data'', JArr [JObj [(''url'', JStr (j_ResultURL j))]])] else []))"

definition jobs_unavailable :: reply where
  "jobs_unavailable = write_error 503 ''jobs_store_unavailable'' ''job persistence is not configured on this deployment''"

definition HandleJobFetch :: "api \<Rightarrow> api_faults \<Rightarrow> http_in \<Rightarrow> db \<Rightarrow> reply" where
  "HandleJobFetch a f hi d =
     (if hi_Param hi = '''' then write_error 400 ''invalid_id'' ''job id is required''
      else if \<not> ap_Jobs a then jobs_unavailable
      else case GetJob (f AcJobGet) (hi_Param hi) (db_jobs d) of
        Inl e \<Rightarrow> if errorsIs e ErrJobNotFound then write_error 404 ''job_not_found'' (err_text e)
                else write_error 500 ''internal'' (err_text e)
      | Inr j \<Rightarrow>
          if (case cc_Key (hi_Ctx hi) of None \<Rightarrow> False | Some k \<Rightarrow> j_APIKeyID j \<noteq> '''' \<and> j_APIKeyID j \<noteq> k_ID k)
          then write_error 404 ''job_not_found'' ''job not found''
          else Reply 200 (job_with_data j))"

definition gotime_of :: "int \<Rightarrow> gotime" where
  "gotime_of t = (if t = zero_instant then None else Some t)"

definition parseJobsTimeParam :: "string \<Rightarrow> (gerror, gotime) result" where
  "parseJobsTimeParam raw = (case parse_rfc3339 raw of
     Some t \<Rightarrow> Ok (gotime_of t)
   | None \<Rightarrow> (case atoi raw of
       Some secs \<Rightarrow> Ok (gotime_of (secs * nanos))
     | None \<Rightarrow> Err (Plain ''expected RFC3339 or unix seconds'')))"

definition parse_bound :: "string \<Rightarrow> string \<Rightarrow> (reply, gotime) result" where
  "parse_bound name raw =
     (if raw = '''' then Ok None
      else case parseJobsTimeParam raw of
        Inl e \<Rightarrow> Err (write_error 400 ''invalid_query'' (name @ '': '' @ err_text e)) | Inr t \<Rightarrow> Ok t)"

definition defaultJobsListLimit :: int where "defaultJobsListLimit = 100"
definition maxJobsListLimit :: int where "maxJobsListLimit = 500"

definition parseJobsListQuery :: "(string \<times> string) list \<Rightarrow> (reply, job_filter) result" where
  "parseJobsListQuery qs =
     (case parse_bound ''since'' (query_get qs ''since'') of Inl r \<Rightarrow> Err r | Inr since \<Rightarrow>
     (case parse_bound ''until'' (query_get qs ''until'') of Inl r \<Rightarrow> Err r | Inr until \<Rightarrow>
     (case parse_limit defaultJobsListLimit maxJobsListLimit (query_get qs ''limit'') of Inl r \<Rightarrow> Err r | Inr limit \<Rightarrow>
     (case parse_offset (query_get qs ''offset'') of Inl r \<Rightarrow> Err r | Inr off \<Rightarrow>
        Ok \<lparr> jf_Status = job_status_of_string (query_get qs ''status''), jf_Since = since, jf_Until = until,
             jf_AccountID = '''', jf_APIKeyID = '''', jf_GroupID = '''', jf_ModelAlias = '''',
             jf_Limit = limit, jf_Offset = off \<rparr>))))"

definition HandleJobsList :: "api \<Rightarrow> api_faults \<Rightarrow> http_in \<Rightarrow> db \<Rightarrow> reply" where
  "HandleJobsList a f hi d =
     (if \<not> ap_Jobs a then jobs_unavailable
      else case cc_Key (hi_Ctx hi) of
        None \<Rightarrow> write_error 401 ''missing_api_key'' ''api key is required to list jobs''
      | Some k \<Rightarrow>
         (case parseJobsListQuery (hi_Query hi) of
            Inl r \<Rightarrow> r
          | Inr flt \<Rightarrow>
             (case ListByAPIKey (f AcJobsList) (k_ID k) flt (db_jobs d) of
                Inl e \<Rightarrow> write_error 500 ''internal'' (err_text e)
              | Inr rows \<Rightarrow> Reply 200 (JObj [(''data'', JArr (map job_with_data rows)),
                   (''limit'', jnum (jf_Limit flt)), (''offset'', jnum (jf_Offset flt))]))))"

section \<open>The price rules\<close>

definition higgsPricingSource :: string where "higgsPricingSource = ''higgs_job_set_costs''"

definition pricing_aliases :: "registry \<Rightarrow> string \<Rightarrow> string list option" where
  "pricing_aliases r jst =
     (let specs = filter (\<lambda>c. sp_JST c \<noteq> '''' \<and> sp_JST c = jst)
            (ListModels r \<lparr> mf_Output = '''', mf_IncludeUnstable = True, mf_IncludeDeprecated = True \<rparr>)
      in if specs = [] then None
         else Some (remdups_adj (sort (concat (map (\<lambda>c. sp_Alias c # cs_ExtraAliases c) specs)))))"

definition price_item :: "registry \<Rightarrow> cost_rule \<Rightarrow> json" where
  "price_item r rule = JObj
     [(''jst'', JStr (mcr_JST rule)),
      (''model_aliases'', case pricing_aliases r (mcr_JST rule) of None \<Rightarrow> JNull | Some xs \<Rightarrow> jstrs xs),
      (''unit'', JStr (mcr_Unit rule)), (''component'', JStr (mcr_Component rule)),
      (''credits'', hundredths (mcr_CreditsHundredths rule)),
      (''credits_hundredths'', jnum (mcr_CreditsHundredths rule)),
      (''original_credits'', hundredths (mcr_OriginalCreditsHundredths rule)),
      (''original_credits_hundredths'', jnum (mcr_OriginalCreditsHundredths rule)),
      (''resolution'', JStr (mcr_Resolution rule)), (''duration_seconds'', jnum (mcr_DurationSeconds rule)),
      (''mode'', JStr (mcr_Mode rule)), (''audio'', JStr (mcr_Audio rule)),
      (''dimensions'', case extra_map (mcr_DimensionsJSON rule) of None \<Rightarrow> JNull | Some m \<Rightarrow> JObj m)]"

definition price_wanted :: "registry \<Rightarrow> string \<Rightarrow> cost_rule \<Rightarrow> bool" where
  "price_wanted r flt rule \<longleftrightarrow> flt = '''' \<or> flt = mcr_JST rule \<or>
     (case pricing_aliases r (mcr_JST rule) of None \<Rightarrow> False | Some xs \<Rightarrow> flt \<in> set xs)"

definition HandlePricingCatalog :: "api \<Rightarrow> api_faults \<Rightarrow> http_in \<Rightarrow> reply" where
  "HandlePricingCatalog a f hi = (case ap_Pricing a of
     None \<Rightarrow> write_error 503 ''pricing_store_unavailable'' ''pricing persistence is not configured''
   | Some p \<Rightarrow> (case LatestSnapshot (f AcSnapshot) higgsPricingSource p of
       Inl e \<Rightarrow> write_error 500 ''pricing_read_failed'' (err_text e)
     | Inr None \<Rightarrow> write_error 503 ''pricing_not_ready'' ''no upstream pricing snapshot has been collected yet''
     | Inr (Some s) \<Rightarrow> (case ListLatestRules (f AcRules) higgsPricingSource p of
         Inl e \<Rightarrow> write_error 500 ''pricing_read_failed'' (err_text e)
       | Inr rules \<Rightarrow>
          (let flt = TrimSpace (query_get (hi_Query hi) ''model'') in
           Reply 200 (JObj [(''object'', JStr ''pricing.catalog''), (''source'', JStr (psn_Source s)),
             (''source_url'', JStr (psn_SourceURL s)), (''snapshot_id'', JStr (psn_ID s)),
             (''payload_sha256'', JStr (psn_PayloadSHA256 s)), (''fetched_at'', jnum (unix_of (psn_FetchedAt s))),
             (''pricing_scope'', JStr ''upstream_credits_only''),
             (''data'', JArr (map (price_item (ap_Registry a)) (filter (price_wanted (ap_Registry a) flt) rules)))])))))"

end
