(* ===== verification/Generation.thy ===== *)
theory Generation
  imports Api JsonPrint
begin

text \<open>
  The writing half of the \<open>/v1\<close> surface: \<open>videos.go\<close>, \<open>images.go\<close> and the playground
  (\<open>playground.go\<close>).  Each handler turns a request into the generation request of the proxy
  (its \<open>intake\<close>) and the answer of the proxy into a reply.  What one run of the proxy meets is a
  parameter, as in the theory of the proxy.
\<close>

section \<open>Running the proxy\<close>

record gen_run =
  gr_faults :: proxy_faults
  gr_random :: "string \<Rightarrow> int"
  gr_now :: int
  gr_end :: int
  gr_uid :: string
  gr_cfid :: string
  gr_created :: "(gerror, created_job) result"
  gr_final :: "(gerror, fetched_job) result"
  gr_meanwhile :: "db \<Rightarrow> db"

definition serve :: "api \<Rightarrow> gen_run \<Rightarrow> gen_request \<Rightarrow> db \<Rightarrow> (gerror, gen_response) result \<times> db" where
  "serve a run req d = Generate (service_of a) (gr_faults run) (gr_random run) (gr_now run) (gr_end run)
     (gr_uid run) (gr_cfid run) req (gr_created run) (gr_final run) (gr_meanwhile run) d"

text \<open>The response as it is encoded: empty members are left out.\<close>

definition nonempty :: "string \<Rightarrow> string \<Rightarrow> object" where
  "nonempty k s = (if s = '''' then [] else [(k, JStr s)])"

definition response_json :: "gen_response \<Rightarrow> json" where
  "response_json r = JObj
     ([(''id'', JStr (resp_ID r)), (''object'', JStr (resp_Object r)), (''model'', JStr (resp_Model r)),
       (''status'', JStr (resp_Status r)), (''created_at'', jnum (resp_CreatedAt r))] @
      nonempty ''result_url'' (resp_ResultURL r) @ nonempty ''upstream_job_id'' (resp_UpstreamID r) @
      (if resp_Cost r = 0 then [] else [(''cost'', jnum (resp_Cost r))]) @
      (if resp_Data r = [] then [] else [(''data'', JArr (map (\<lambda>u. JObj [(''url'', JStr u)]) (resp_Data r)))]) @
      nonempty ''poll_url'' (resp_PollURL r) @
      (case resp_ErrorType r of None \<Rightarrow> []
       | Some t \<Rightarrow> [(''error'', JObj [(''type'', JStr t), (''message'', JStr ''upstream generation failed'')])]))"

text \<open>The first class an error belongs to decides its status and its name.\<close>

definition generation_error :: "gerror \<Rightarrow> int \<times> string" where
  "generation_error e =
     (if errorsIs e ErrModelNotFound then (404, ''model_not_found'')
      else if errorsIs e ErrNoEligibleAccount then (503, ''no_account_available'')
      else if errorsIs e ErrGroupConcurrencyMax then (429, ''pool_saturated'')
      else if errorsIs e ErrModelBlocked then (403, ''model_blocked'')
      else if errorsIs e ErrModelNotAllowed then (403, ''model_not_allowed'')
      else if errorsIs e ErrGroupQuotaExhausted then (402, ''group_budget_exhausted'')
      else if errorsIs e ErrAPIKeyQuotaExceed then (402, ''quota_exhausted'')
      else if errorsIs e ErrUpstreamForbidden then (402, ''plan_gate'')
      else if errorsIs e ErrUpstreamRateLimit then (429, ''rate_limit'')
      else if errorsIs e ErrUpstreamBadBody then (400, ''body_error'')
      else if errorsIs e ErrUpstreamTimeout then (504, ''upstream_timeout'')
      else if errorsIs e ErrUpstreamUnauthorized then (401, ''upstream_auth'')
      else if errorsIs e ErrUpstreamServerError then (502, ''upstream_5xx'')
      else (500, ''internal''))"

definition writeGenerationError :: "gerror \<Rightarrow> reply" where
  "writeGenerationError e = (case generation_error e of (status, kind) \<Rightarrow> write_error status kind (err_text e))"

definition answer :: "(gerror, gen_response) result \<times> db \<Rightarrow> reply \<times> db" where
  "answer out = (case out of
     (Inl e, d) \<Rightarrow> (writeGenerationError e, d)
   | (Inr r, d) \<Rightarrow> (Reply 200 (response_json r), d))"

section \<open>What the requests share\<close>

definition put_all :: "object \<Rightarrow> object \<Rightarrow> object" where
  "put_all es m = fold (\<lambda>(k, v). obj_put k v) es m"

text \<open>The members of the body that the handler does not know.\<close>

definition unknown_members :: "string list \<Rightarrow> string \<Rightarrow> object" where
  "unknown_members known raw = (case extra_map raw of
     None \<Rightarrow> [] | Some m \<Rightarrow> filter (\<lambda>(k, v). k \<notin> set known) m)"

definition names_async :: "string \<Rightarrow> bool" where
  "names_async raw \<longleftrightarrow> (case extra_map raw of None \<Rightarrow> False | Some m \<Rightarrow> obj_get m ''async'' \<noteq> None)"

text \<open>Key, quota and groups of the caller.\<close>

definition request_for ::
  "api \<Rightarrow> api_faults \<Rightarrow> call_ctx \<Rightarrow> db \<Rightarrow> string \<Rightarrow> object \<Rightarrow> bool \<Rightarrow> bool \<Rightarrow> string \<Rightarrow> string \<Rightarrow> media_input option \<Rightarrow> gen_request" where
  "request_for a f ctx d model params async asyncSet callback gid media =
     (let groups = resolveGroup a f (cc_Key ctx) gid d in
      \<lparr> rq_Model = model, rq_UserParams = params, rq_Media = media, rq_Async = async, rq_SyncRequested = asyncSet,
        rq_GroupID = hd groups, rq_GroupCandidates = groups,
        rq_APIKeyID = (case cc_Key ctx of None \<Rightarrow> '''' | Some k \<Rightarrow> k_ID k), rq_CPAPartnerID = '''',
        rq_APIKeyMonthlyQuota = (case cc_Key ctx of None \<Rightarrow> 0 | Some k \<Rightarrow> k_MonthlyQuota k),
        rq_APIKeyMonthlyUsed = (case cc_Key ctx of None \<Rightarrow> 0 | Some k \<Rightarrow> k_MonthlyUsed k),
        rq_CallbackURL = callback \<rparr>)"

section \<open>Videos\<close>

record video_request =
  vr_Model :: string
  vr_Prompt :: string
  vr_ImageURL :: string
  vr_MediaID :: string
  vr_Async :: bool
  vr_CallbackURL :: string
  vr_GroupID :: string

definition zero_video :: video_request where
  "zero_video = \<lparr> vr_Model = '''', vr_Prompt = '''', vr_ImageURL = '''', vr_MediaID = '''', vr_Async = False,
     vr_CallbackURL = '''', vr_GroupID = '''' \<rparr>"

definition dec_video :: "video_request decoder" where
  "dec_video = dec_struct (\<lambda>o1. do {
     m \<leftarrow> dec_field ''model'' dec_string '''' o1; p \<leftarrow> dec_field ''prompt'' dec_string '''' o1;
     u \<leftarrow> dec_field ''image_url'' dec_string '''' o1; i \<leftarrow> dec_field ''media_id'' dec_string '''' o1;
     s \<leftarrow> dec_field ''async'' dec_bool False o1; c \<leftarrow> dec_field ''callback_url'' dec_string '''' o1;
     g \<leftarrow> dec_field ''group_id'' dec_string '''' o1;
     Some \<lparr> vr_Model = m, vr_Prompt = p, vr_ImageURL = u, vr_MediaID = i, vr_Async = s, vr_CallbackURL = c,
            vr_GroupID = g \<rparr> }) zero_video"

definition video_keys :: "string list" where
  "video_keys = [''model'', ''prompt'', ''image_url'', ''media_id'', ''async'', ''callback_url'', ''group_id'']"

definition prompt_param :: "string \<Rightarrow> object" where "prompt_param p = nonempty ''prompt'' p"

definition video_intake :: "api \<Rightarrow> api_faults \<Rightarrow> http_in \<Rightarrow> db \<Rightarrow> (reply, gen_request) result" where
  "video_intake a f hi d = (case readAll hi of
     Inl e \<Rightarrow> Err (write_error 400 ''invalid_body'' (err_text e))
   | Inr raw \<Rightarrow> (case unmarshal dec_video zero_video raw of
       Inl e \<Rightarrow> Err (write_error 400 ''invalid_body'' (err_text e))
     | Inr vr \<Rightarrow>
         if vr_Model vr = '''' then Err (write_error 400 ''invalid_body'' ''model is required'')
         else Ok (request_for a f (hi_Ctx hi) d (vr_Model vr)
                    (put_all (unknown_members video_keys raw) (prompt_param (vr_Prompt vr)))
                    (vr_Async vr) (names_async raw) (vr_CallbackURL vr) (vr_GroupID vr)
                    (if vr_MediaID vr \<noteq> ''''
                     then Some \<lparr> mi_PreUploadedID = vr_MediaID vr, mi_Type = ''image'', mi_URL = vr_ImageURL vr \<rparr>
                     else None))))"

definition HandleVideoGeneration :: "api \<Rightarrow> api_faults \<Rightarrow> gen_run \<Rightarrow> http_in \<Rightarrow> db \<Rightarrow> reply \<times> db" where
  "HandleVideoGeneration a f run hi d = (case video_intake a f hi d of
     Inl r \<Rightarrow> (r, d) | Inr req \<Rightarrow> answer (serve a run req d))"

section \<open>Images\<close>

record image_request =
  ir_Model :: string
  ir_Prompt :: string
  ir_N :: int
  ir_Size :: string
  ir_Quality :: string
  ir_ImageID :: string
  ir_Async :: bool
  ir_CallbackURL :: string
  ir_GroupID :: string

definition zero_image :: image_request where
  "zero_image = \<lparr> ir_Model = '''', ir_Prompt = '''', ir_N = 0, ir_Size = '''', ir_Quality = '''', ir_ImageID = '''',
     ir_Async = False, ir_CallbackURL = '''', ir_GroupID = '''' \<rparr>"

definition dec_image :: "image_request decoder" where
  "dec_image = dec_struct (\<lambda>o1. do {
     m \<leftarrow> dec_field ''model'' dec_string '''' o1; p \<leftarrow> dec_field ''prompt'' dec_string '''' o1;
     n \<leftarrow> dec_field ''n'' dec_int 0 o1; z \<leftarrow> dec_field ''size'' dec_string '''' o1;
     qu \<leftarrow> dec_field ''quality'' dec_string '''' o1; i \<leftarrow> dec_field ''media_id'' dec_string '''' o1;
     s \<leftarrow> dec_field ''async'' dec_bool False o1; c \<leftarrow> dec_field ''callback_url'' dec_string '''' o1;
     g \<leftarrow> dec_field ''group_id'' dec_string '''' o1;
     Some \<lparr> ir_Model = m, ir_Prompt = p, ir_N = n, ir_Size = z, ir_Quality = qu, ir_ImageID = i, ir_Async = s,
            ir_CallbackURL = c, ir_GroupID = g \<rparr> }) zero_image"

definition image_keys :: "string list" where
  "image_keys = [''model'', ''prompt'', ''n'', ''size'', ''quality'', ''media_id'', ''async'', ''callback_url'', ''group_id'']"

text \<open>\<open>fmt.Sscanf\<close> with a \<open>%d\<close>: ASCII blanks, a sign, digits up to an int64.\<close>

definition is_blank :: "char \<Rightarrow> bool" where "is_blank c \<longleftrightarrow> byte c \<in> {9, 11, 12, 13, 32}"

definition scan_int :: "string \<Rightarrow> (int \<times> string) option" where
  "scan_int s =
     (let t = dropWhile is_blank s;
          (sg, u) = (case t of c # r \<Rightarrow> if c \<in> {CHR ''-'', CHR ''+''} then ([c], r) else ([], t) | [] \<Rightarrow> ([], []))
      in case atoi (sg @ takeWhile is_digit u) of None \<Rightarrow> None | Some n \<Rightarrow> Some (n, dropWhile is_digit u))"

definition parseSize :: "string \<Rightarrow> (int \<times> int) option" where
  "parseSize s = (case scan_int s of
     Some (w, c # r) \<Rightarrow>
       if c \<noteq> CHR ''x'' then None
       else (case scan_int r of Some (h, _) \<Rightarrow> if w \<le> 0 \<or> h \<le> 0 then None else Some (w, h) | None \<Rightarrow> None)
   | _ \<Rightarrow> None)"

definition image_params :: "image_request \<Rightarrow> string \<Rightarrow> object" where
  "image_params ir raw = put_all (unknown_members image_keys raw)
     (put_all (case parseSize (ir_Size ir) of
                 Some (w, h) \<Rightarrow> [(''width'', jnum w), (''height'', jnum h)] | None \<Rightarrow> [])
        ((if ir_N ir > 0 then [(''batch_size'', jnum (ir_N ir))] else []) @ prompt_param (ir_Prompt ir)))"

definition image_intake :: "api \<Rightarrow> api_faults \<Rightarrow> http_in \<Rightarrow> db \<Rightarrow> (reply, gen_request) result" where
  "image_intake a f hi d = (case readAll hi of
     Inl e \<Rightarrow> Err (write_error 400 ''invalid_body'' (err_text e))
   | Inr raw \<Rightarrow> (case unmarshal dec_image zero_image raw of
       Inl e \<Rightarrow> Err (write_error 400 ''invalid_body'' (err_text e))
     | Inr ir \<Rightarrow>
         if ir_Model ir = '''' then Err (write_error 400 ''invalid_body'' ''model is required'')
         else Ok (request_for a f (hi_Ctx hi) d (ir_Model ir) (image_params ir raw)
                    (ir_Async ir) (names_async raw) (ir_CallbackURL ir) (ir_GroupID ir)
                    (if ir_ImageID ir \<noteq> ''''
                     then Some \<lparr> mi_PreUploadedID = ir_ImageID ir, mi_Type = ''image'', mi_URL = '''' \<rparr>
                     else None))))"

definition HandleImageGeneration :: "api \<Rightarrow> api_faults \<Rightarrow> gen_run \<Rightarrow> http_in \<Rightarrow> db \<Rightarrow> reply \<times> db" where
  "HandleImageGeneration a f run hi d = (case image_intake a f hi d of
     Inl r \<Rightarrow> (r, d) | Inr req \<Rightarrow> answer (serve a run req d))"


section \<open>The playground\<close>

definition resolvePlaygroundScope :: "call_ctx \<Rightarrow> playground_scope option" where
  "resolvePlaygroundScope ctx =
     (if cc_Admin ctx then Some ScopeFull
      else case cc_Key ctx of
        None \<Rightarrow> None
      | Some k \<Rightarrow> Some (if k_PlaygroundScope k \<in> {ScopeCheap, ScopeFull} then k_PlaygroundScope k else ScopeNone))"

definition not_permitted :: reply where
  "not_permitted = write_error 403 ''playground_disabled'' ''api key is not permitted to use the playground''"

definition playground_view :: "playground_scope \<Rightarrow> catalog_spec \<Rightarrow> json" where
  "playground_view scope m =
     (let ok = AllowsModel scope (sp_EstCostHundredths m)
      in JObj (modelView m @ [(''allowed'', JBool ok)] @
           (if \<not> ok \<and> scope = ScopeCheap then [(''blocked_reason'', JStr ''cost_too_high'')] else [])))"

definition HandlePlaygroundModels :: "api \<Rightarrow> (catalog_spec list \<Rightarrow> catalog_spec list) \<Rightarrow> http_in \<Rightarrow> reply" where
  "HandlePlaygroundModels a walk hi = (case resolvePlaygroundScope (hi_Ctx hi) of
     None \<Rightarrow> not_permitted
   | Some scope \<Rightarrow>
      (let data = map (playground_view scope) (walk (ListModels (ap_Registry a) (model_filter_of (hi_Query hi))))
       in Reply 200 (JObj [(''object'', JStr ''list''), (''data'', JArr data), (''scope'', JStr (scope_text scope)),
            (''total'', jnum (int (length data)))])))"

text \<open>The scope a call runs under, and for an administrator who names a key, that key.\<close>

definition resolveExecutionIdentity ::
  "api \<Rightarrow> api_faults \<Rightarrow> call_ctx \<Rightarrow> string \<Rightarrow> keys \<Rightarrow> (reply, playground_scope \<times> apikey option) result" where
  "resolveExecutionIdentity a f ctx asID ks =
     (let named = TrimSpace asID in
      if cc_Admin ctx then
        (if named = '''' then Ok (ScopeFull, None)
         else if \<not> ap_APIKeys a
         then Err (write_error 500 ''as_api_key_unavailable'' ''server is not configured to resolve as_api_key_id'')
         else case GetKey (f AcKeyGet) named ks of
           Inl e \<Rightarrow> Err (write_error 400 ''invalid_as_api_key'' ''as_api_key_id does not match a known API key'')
         | Inr k \<Rightarrow>
             if k_Status k \<noteq> KeyActive
             then Err (write_error 400 ''invalid_as_api_key'' ''as_api_key_id is not an active API key'')
             else if k_PlaygroundScope k \<noteq> ScopeCheap \<and> k_PlaygroundScope k \<noteq> ScopeFull
             then Err (write_error 403 ''playground_disabled'' ''the selected api key is not permitted to use the playground'')
             else Ok (k_PlaygroundScope k, Some k))
      else case resolvePlaygroundScope ctx of
        None \<Rightarrow> Err not_permitted
      | Some scope \<Rightarrow> Ok (scope, None))"

definition hasUnlimAccountAvailable :: "api \<Rightarrow> api_faults \<Rightarrow> db \<Rightarrow> bool" where
  "hasUnlimAccountAvailable a f d \<longleftrightarrow> ap_Accounts a \<and>
     (case ListAccounts (f AcAccounts) \<lparr> af_Status = StatusActive, af_PlanType = PlanEmpty, af_GroupID = '''',
             af_MinBalance = 0, af_HasUnlim = Some True, af_Since = None \<rparr> (db_accounts d) of
        Inl e \<Rightarrow> False | Inr rows \<Rightarrow> rows \<noteq> [])"

text \<open>The two members the playground itself reads; an empty body has neither.\<close>

definition dec_peek :: "(string \<times> string) decoder" where
  "dec_peek = dec_struct (\<lambda>o1. do {
     m \<leftarrow> dec_field ''model'' dec_string '''' o1; k \<leftarrow> dec_field ''as_api_key_id'' dec_string '''' o1;
     Some (m, k) }) ('''', '''')"

definition peek :: "string \<Rightarrow> (gerror, string \<times> string) result" where
  "peek raw = (if raw = '''' then Ok ('''', '''') else unmarshal dec_peek ('''', '''') raw)"

definition scope_refusal :: reply where
  "scope_refusal = write_error 403 ''blocked_by_scope'' ''api key playground_scope does not permit this model''"

text \<open>Identity, model and scope: what the estimate and the execution check alike.\<close>

definition playground_gate ::
  "api \<Rightarrow> api_faults \<Rightarrow> call_ctx \<Rightarrow> string \<Rightarrow> string \<Rightarrow> keys \<Rightarrow> (reply, catalog_spec \<times> apikey option) result" where
  "playground_gate a f ctx model asID ks = (case resolveExecutionIdentity a f ctx asID ks of
     Inl r \<Rightarrow> Err r
   | Inr (scope, asKey) \<Rightarrow>
       if TrimSpace model = '''' then Err (write_error 400 ''invalid_body'' ''model is required'')
       else (case ResolveModel (ap_Registry a) model of
         Inl e \<Rightarrow> Err (write_error 404 ''model_not_found'' (err_text e))
       | Inr spec \<Rightarrow>
           if \<not> AllowsModel scope (sp_EstCostHundredths spec)
           then Err scope_refusal
           else Ok (spec, asKey)))"

text \<open>The estimate also decodes a \<open>params\<close> member that it does not use.\<close>

definition dec_estimate :: "(string \<times> string) decoder" where
  "dec_estimate = dec_struct (\<lambda>o1. do {
     m \<leftarrow> dec_field ''model'' dec_string '''' o1; p \<leftarrow> dec_field ''params'' (dec_map dec_any JNull) [] o1;
     k \<leftarrow> dec_field ''as_api_key_id'' dec_string '''' o1; Some (m, k) }) ('''', '''')"

definition HandlePlaygroundEstimate :: "api \<Rightarrow> api_faults \<Rightarrow> http_in \<Rightarrow> db \<Rightarrow> reply" where
  "HandlePlaygroundEstimate a f hi d = (case readAll hi of
     Inl e \<Rightarrow> write_error 400 ''invalid_body'' (err_text e)
   | Inr raw \<Rightarrow>
     (case (if raw = '''' then Ok ('''', '''') else unmarshal dec_estimate ('''', '''') raw) of
        Inl e \<Rightarrow> write_error 400 ''invalid_body'' (err_text e)
      | Inr (model, asID) \<Rightarrow> (case playground_gate a f (hi_Ctx hi) model asID (db_keys d) of
          Inl r \<Rightarrow> r
        | Inr (spec, asKey) \<Rightarrow> Reply 200 (JObj [(''model_alias'', JStr (sp_Alias spec)),
            (''output'', JStr (sp_Output spec)), (''cost_credits_h'', jnum (sp_EstCostHundredths spec)),
            (''cost_credits'', hundredths (sp_EstCostHundredths spec)), (''needs_paid'', JBool (sp_RequiresPaid spec)),
            (''needs_ultra'', JBool (sp_RequiresUltra spec)),
            (''will_charge'', JBool (\<not> (sp_RequiresUnlim spec \<and> hasUnlimAccountAvailable a f d)))]))))"

text \<open>A body without an \<open>async\<close> member gets one.  \<open>None\<close> is the write to the nil map that a
  \<open>null\<close> body leads to.\<close>

definition normalisePlaygroundBody :: "string \<Rightarrow> string option" where
  "normalisePlaygroundBody raw =
     (if raw = '''' then Some raw
      else case parse_json raw of
        Some (JObj o1) \<Rightarrow>
          (case dec_map dec_any JNull (JObj o1) [] of
             None \<Rightarrow> Some raw
           | Some m \<Rightarrow> if obj_get m ''async'' \<noteq> None then Some raw
                      else Some (marshal (JObj (obj_put ''async'' (JBool False) m))))
      | Some JNull \<Rightarrow> None
      | _ \<Rightarrow> Some raw)"

definition forwarded :: "http_in \<Rightarrow> apikey option \<Rightarrow> string \<Rightarrow> http_in" where
  "forwarded hi asKey body = hi\<lparr> hi_Body := Ok body,
     hi_Ctx := (case asKey of None \<Rightarrow> hi_Ctx hi | Some k \<Rightarrow> (hi_Ctx hi)\<lparr> cc_Key := Some k \<rparr>) \<rparr>"

definition HandlePlaygroundExecute :: "api \<Rightarrow> api_faults \<Rightarrow> gen_run \<Rightarrow> http_in \<Rightarrow> db \<Rightarrow> reply \<times> db" where
  "HandlePlaygroundExecute a f run hi d = (case readAll hi of
     Inl e \<Rightarrow> (write_error 400 ''invalid_body'' (err_text e), d)
   | Inr raw \<Rightarrow> (case peek raw of
       Inl e \<Rightarrow> (write_error 400 ''invalid_body'' (err_text e), d)
     | Inr (model, asID) \<Rightarrow> (case playground_gate a f (hi_Ctx hi) model asID (db_keys d) of
         Inl r \<Rightarrow> (r, d)
       | Inr (spec, asKey) \<Rightarrow> (case normalisePlaygroundBody raw of
           None \<Rightarrow> (Panicked, d)
         | Some body \<Rightarrow>
             if sp_Output spec = ''image'' then HandleImageGeneration a f run (forwarded hi asKey body) d
             else HandleVideoGeneration a f run (forwarded hi asKey body) d))))"

end
