(* ===== verification/Sora.thy ===== *)
theory Sora
  imports Generation
begin

text \<open>
  The OpenAI-shaped video surface, \<open>internal/api/v1/videos_openai.go\<close>: \<open>POST /v1/videos\<close> from a
  JSON or a multipart body, \<open>GET /v1/videos/{id}\<close> and its content, and the uploader of
  reference images (\<open>cmd/higgsgo/sora_uploader.go\<close>).  What \<open>ParseMultipartForm\<close> gives, what the
  uploader answers and what the CDN sends are parameters.
\<close>

section \<open>Reading a request\<close>

record sora_request =
  sr_Model :: string
  sr_Prompt :: string
  sr_Seconds :: int
  sr_Width :: int
  sr_Height :: int
  sr_ImageURL :: string
  sr_MediaID :: string
  sr_GroupID :: string
  sr_Async :: bool
  sr_AsyncSet :: bool
  sr_CallbackURL :: string
  sr_Extra :: object

definition zero_sora :: sora_request where
  "zero_sora = \<lparr> sr_Model = '''', sr_Prompt = '''', sr_Seconds = 0, sr_Width = 0, sr_Height = 0, sr_ImageURL = '''',
     sr_MediaID = '''', sr_GroupID = '''', sr_Async = False, sr_AsyncSet = False, sr_CallbackURL = '''', sr_Extra = [] \<rparr>"

text \<open>A parsed request with the image to upload: its content type and its bytes.\<close>

type_synonym sora_parsed = "sora_request \<times> string \<times> string"

definition and_then :: "('e, 'a) result \<Rightarrow> ('a \<Rightarrow> ('e, 'b) result) \<Rightarrow> ('e, 'b) result" where
  "and_then r f = (case r of Inl e \<Rightarrow> Err e | Inr x \<Rightarrow> f x)"

definition isHTTPURL :: "string \<Rightarrow> bool" where
  "isHTTPURL s \<longleftrightarrow> has_prefix s ''http://'' \<or> has_prefix s ''https://''"

definition decodeDataURI :: "string \<Rightarrow> (gerror, string \<times> string) result" where
  "decodeDataURI s =
     (if \<not> has_prefix s ''data:'' then Err (Plain ''not a data URI'')
      else let rest = trimPrefix s ''data:''; metadata = takeWhile (\<lambda>c. c \<noteq> CHR '','') rest in
        if length metadata = length rest then Err (Plain ''no comma in data URI'')
        else let payload = drop (length metadata + 1) rest; parts = split_on (CHR '';'') metadata;
                 contentType = (if hd parts = '''' then ''image/jpeg'' else hd parts)
             in if ''base64'' \<notin> set (tl parts) then Err (Plain ''only base64-encoded data URIs are supported'')
                else case StdDecode payload of
                  Some body \<Rightarrow> Ok (contentType, body)
                | None \<Rightarrow> (case RawURLDecode payload of
                    Some body \<Rightarrow> Ok (contentType, body)
                  | None \<Rightarrow> Err (Wrap ''base64'' (Plain ''illegal base64 data''))))"

text \<open>A JSON number or a numeric string.\<close>

definition parseIntOrStringInt :: "json \<Rightarrow> (gerror, int) result" where
  "parseIntOrStringInt v = (case dec_int v 0 of
     Some n \<Rightarrow> Ok n
   | None \<Rightarrow> (case dec_string v '''' of
       None \<Rightarrow> Err json_error
     | Some s \<Rightarrow> (case atoi s of None \<Rightarrow> Err (Plain ''strconv.Atoi'') | Some n \<Rightarrow> Ok n)))"

definition known_field :: "object \<Rightarrow> string \<Rightarrow> (json \<Rightarrow> (gerror, 'a) result) \<Rightarrow> 'a \<Rightarrow> (gerror, 'a) result" where
  "known_field o1 name dec zero = (case obj_get o1 name of
     None \<Rightarrow> Ok zero
   | Some v \<Rightarrow> (case dec v of Inl e \<Rightarrow> Err (Wrap name e) | Inr x \<Rightarrow> Ok x))"

definition decoded :: "'a decoder \<Rightarrow> 'a \<Rightarrow> json \<Rightarrow> (gerror, 'a) result" where
  "decoded dec zero v = (case dec v zero of None \<Rightarrow> Err json_error | Some x \<Rightarrow> Ok x)"

definition dec_size :: "json \<Rightarrow> (gerror, int \<times> int) result" where
  "dec_size v = and_then (decoded dec_string '''' v) (\<lambda>s. case parseSize s of
     None \<Rightarrow> Err (Plain ''expected WxH like 1280x720'') | Some wh \<Rightarrow> Ok wh)"

definition sora_keys :: "string list" where
  "sora_keys = [''extra_body'', ''model'', ''prompt'', ''seconds'', ''size'', ''input_reference'', ''group_id'', ''async'',
     ''callback_url'', ''duration'']"

definition extractSoraKnownFields :: "object \<Rightarrow> (gerror, sora_request) result" where
  "extractSoraKnownFields o1 =
     and_then (known_field o1 ''extra_body'' (decoded (dec_map dec_any JNull) []) []) (\<lambda>extra.
     and_then (known_field o1 ''model'' (decoded dec_string '''') '''') (\<lambda>m.
     and_then (known_field o1 ''prompt'' (decoded dec_string '''') '''') (\<lambda>p.
     and_then (known_field o1 ''seconds'' parseIntOrStringInt 0) (\<lambda>secs.
     and_then (known_field o1 ''size'' dec_size (0, 0)) (\<lambda>(w, h).
     and_then (known_field o1 ''input_reference'' (decoded dec_string '''') '''') (\<lambda>ref.
     and_then (known_field o1 ''group_id'' (decoded dec_string '''') '''') (\<lambda>g.
     and_then (known_field o1 ''async'' (decoded dec_bool False) False) (\<lambda>async.
     and_then (known_field o1 ''callback_url'' (decoded dec_string '''') '''') (\<lambda>cb.
       let dur = (case obj_get o1 ''duration'' of None \<Rightarrow> 0
                  | Some v \<Rightarrow> (case parseIntOrStringInt v of Inl e \<Rightarrow> 0 | Inr n \<Rightarrow> n))
       in Ok (zero_sora\<lparr> sr_Model := m, sr_Prompt := p, sr_Seconds := (if secs = 0 then dur else secs),
            sr_Width := w, sr_Height := h, sr_ImageURL := ref, sr_GroupID := g, sr_Async := async,
            sr_AsyncSet := (obj_get o1 ''async'' \<noteq> None), sr_CallbackURL := cb, sr_Extra := extra \<rparr>))))))))))"

text \<open>What is left passes through, but for values that do not decode.\<close>

definition passthrough :: "object \<Rightarrow> object" where
  "passthrough o1 = List.map_filter (\<lambda>(k, v). if k \<in> set sora_keys then None
     else map_option (Pair k) (dec_any v JNull)) o1"

definition bad_reference :: gerror where
  "bad_reference = Plain ''input_reference: must be http(s):// URL or data: URI''"

definition maxSoraJSONBody :: nat where "maxSoraJSONBody = 2 ^ 20"

definition parseSoraJSON :: "(gerror, string) result \<Rightarrow> (gerror, sora_parsed) result" where
  "parseSoraJSON body = (case body of
     Inl e \<Rightarrow> Err e
   | Inr whole \<Rightarrow>
      (if length (take (maxSoraJSONBody + 1) whole) > maxSoraJSONBody
       then Err (Plain ''request body exceeds 1048576 bytes'')
       else case parse_json whole of
         Some (JObj o0) \<Rightarrow>
           (let o1 = map_from o0 in
            case extractSoraKnownFields o1 of
              Inl e \<Rightarrow> Err e
            | Inr sr0 \<Rightarrow>
               (let sr = sr0\<lparr> sr_Extra := put_all (passthrough o1) (sr_Extra sr0) \<rparr> in
                if sr_ImageURL sr = '''' \<or> isHTTPURL (sr_ImageURL sr) then Ok (sr, '''', '''')
                else if has_prefix (sr_ImageURL sr) ''data:''
                then (case decodeDataURI (sr_ImageURL sr) of
                  Inl e \<Rightarrow> Err (Wrap ''input_reference'' e)
                | Inr (ct, raw) \<Rightarrow> Ok (sr\<lparr> sr_ImageURL := '''' \<rparr>, ct, raw))
                else Err bad_reference))
       | Some JNull \<Rightarrow> Ok (zero_sora, '''', '''')
       | _ \<Rightarrow> Err json_error))"

section \<open>Forms\<close>

text \<open>A parsed form: its values in the order the map is walked, and the first file of the
  part that counts with its declared content type.\<close>

record sora_form =
  fm_Values :: "(string \<times> string list) list"
  fm_File :: "(string \<times> (gerror, string) result) option"

definition form_reference :: "string \<Rightarrow> sora_parsed \<Rightarrow> (gerror, sora_parsed) result" where
  "form_reference v p = (case p of (sr, ct, raw) \<Rightarrow>
     if isHTTPURL v then Ok (sr\<lparr> sr_ImageURL := v \<rparr>, ct, raw)
     else if has_prefix v ''data:''
     then (case decodeDataURI v of Inl e \<Rightarrow> Err (Wrap ''input_reference'' e) | Inr (ct1, raw1) \<Rightarrow> Ok (sr, ct1, raw1))
     else Err bad_reference)"

definition form_field :: "string \<Rightarrow> string \<Rightarrow> sora_parsed \<Rightarrow> (gerror, sora_parsed) result" where
  "form_field k v p = (case p of (sr, ct, raw) \<Rightarrow>
     (let keep = (\<lambda>sr1. Ok (sr1, ct, raw)) in
      if k = ''model'' then keep (sr\<lparr> sr_Model := v \<rparr>)
      else if k = ''prompt'' then keep (sr\<lparr> sr_Prompt := v \<rparr>)
      else if k = ''seconds''
      then (case atoi v of None \<Rightarrow> Err (Wrap ''seconds'' (Plain ''strconv.Atoi'')) | Some n \<Rightarrow> keep (sr\<lparr> sr_Seconds := n \<rparr>))
      else if k = ''size''
      then (case parseSize v of None \<Rightarrow> Err (Plain ''size: expected WxH'')
            | Some (w, h) \<Rightarrow> keep (sr\<lparr> sr_Width := w, sr_Height := h \<rparr>))
      else if k = ''input_reference'' then form_reference v p
      else if k = ''extra_body''
      then (case unmarshal (dec_map dec_any JNull) [] v of Inl e \<Rightarrow> Err (Wrap ''extra_body'' e)
            | Inr m \<Rightarrow> keep (sr\<lparr> sr_Extra := put_all m (sr_Extra sr) \<rparr>))
      else if k = ''group_id'' then keep (sr\<lparr> sr_GroupID := v \<rparr>)
      else if k = ''async'' then keep (sr\<lparr> sr_AsyncSet := True, sr_Async := (v = ''true'' \<or> v = ''1'') \<rparr>)
      else if k = ''callback_url'' then keep (sr\<lparr> sr_CallbackURL := v \<rparr>)
      else keep (sr\<lparr> sr_Extra := obj_put k (JStr v) (sr_Extra sr) \<rparr>)))"

fun form_fields :: "(string \<times> string list) list \<Rightarrow> sora_parsed \<Rightarrow> (gerror, sora_parsed) result" where
  "form_fields [] p = Ok p"
| "form_fields ((k, vs) # r) p =
     (case vs of [] \<Rightarrow> form_fields r p | v # _ \<Rightarrow> and_then (form_field k v p) (form_fields r))"

definition parseSoraMultipart :: "(gerror, sora_form) result \<Rightarrow> (gerror, sora_parsed) result" where
  "parseSoraMultipart form = (case form of
     Inl e \<Rightarrow> Err e
   | Inr fm \<Rightarrow> and_then (form_fields (fm_Values fm) (zero_sora, '''', '''')) (\<lambda>(sr, ct, raw).
       case fm_File fm of
         None \<Rightarrow> Ok (sr, ct, raw)
       | Some (fct, content) \<Rightarrow> (case content of
           Inl e \<Rightarrow> Err (Wrap ''input_reference file'' e)
         | Inr bytes \<Rightarrow> Ok (sr, if fct = '''' then ''image/jpeg'' else fct, bytes))))"

definition parseSoraRequest ::
  "api \<Rightarrow> string \<Rightarrow> (gerror, sora_form) result \<Rightarrow> http_in \<Rightarrow> (gerror, sora_request) result" where
  "parseSoraRequest a ct form hi =
     and_then (if has_prefix ct ''multipart/form-data'' then parseSoraMultipart form else parseSoraJSON (hi_Body hi))
       (\<lambda>(sr, uct, raw).
          if raw = '''' then Ok sr
          else case ap_SoraUploader a of
            None \<Rightarrow> Err (Plain ''input_reference upload requires SoraUploader wiring on this deployment'')
          | Some upload \<Rightarrow> (case upload uct raw of
              Inl e \<Rightarrow> Err (Wrap ''upload input_reference'' e) | Inr mid \<Rightarrow> Ok (sr\<lparr> sr_MediaID := mid \<rparr>)))"

text \<open>The uploader the process wires: any active account signs the upload.\<close>

definition soraUpload ::
  "env \<Rightarrow> client \<Rightarrow> gerror option \<Rightarrow> accounts \<Rightarrow> string \<Rightarrow> string \<Rightarrow> client_state \<Rightarrow> (gerror, string) result \<times> client_state" where
  "soraUpload v c fail rows contentType body s =
     (case ListAccounts fail \<lparr> af_Status = StatusActive, af_PlanType = PlanEmpty, af_GroupID = '''',
             af_MinBalance = 0, af_HasUnlim = None, af_Since = None \<rparr> rows of
        Inl e \<Rightarrow> (Err (Wrap ''list active accounts'' e), s)
      | Inr [] \<Rightarrow> (Err (Plain ''no active higgsfield account available for media upload''), s)
      | Inr (acc # _) \<Rightarrow> UploadImage v c acc contentType (Ok body) s)"


section \<open>Rendering a job\<close>

definition resolutionTierFor :: "int \<Rightarrow> int \<Rightarrow> string" where
  "resolutionTierFor w h =
     (let shorter = (if h < w then h else w)
      in if shorter \<le> 480 then ''480p'' else if shorter \<le> 720 then ''720p'' else if shorter \<le> 1080 then ''1080p'' else ''4k'')"

definition soraStatus :: "string \<Rightarrow> string" where
  "soraStatus s =
     (if s \<in> {''pending'', ''queued''} then ''queued''
      else if s = ''in_progress'' then ''in_progress''
      else if s = ''completed'' then ''completed''
      else if s \<in> {''failed'', ''refunded'', ''timeout'', ''nsfw'', ''terminated'', ''cancelled''} then ''failed''
      else ''queued'')"

definition soraProgressFor :: "string \<Rightarrow> int" where
  "soraProgressFor s =
     (if soraStatus s = ''in_progress'' then 50 else if soraStatus s = ''completed'' then 100 else 0)"

definition size_text :: "int \<Rightarrow> int \<Rightarrow> string" where "size_text w h = itoa w @ ''x'' @ itoa h"

definition sora_error_member :: "string \<Rightarrow> string \<Rightarrow> string \<times> json" where
  "sora_error_member msg code = (''error'', JObj [(''message'', JStr msg), (''code'', JStr code)])"

definition soraViewFromProxyResp :: "gen_response \<Rightarrow> int \<Rightarrow> int \<Rightarrow> int \<Rightarrow> json" where
  "soraViewFromProxyResp r secs w h = JObj
     ([(''id'', JStr (resp_ID r)), (''object'', JStr ''video''), (''model'', JStr (resp_Model r)),
       (''status'', JStr (soraStatus (resp_Status r))), (''progress'', jnum (soraProgressFor (resp_Status r))),
       (''created_at'', jnum (resp_CreatedAt r))] @
      (if secs > 0 then [(''seconds'', JStr (itoa secs))] else []) @
      (if w > 0 \<and> h > 0 then [(''size'', JStr (size_text w h))] else []) @
      (if soraStatus (resp_Status r) = ''completed'' then [(''completed_at'', jnum (resp_CreatedAt r))] else []) @
      (case resp_ErrorType r of None \<Rightarrow> [] | Some t \<Rightarrow> [sora_error_member ''upstream generation failed'' t]))"

text \<open>\<open>fmt.Sprintf\<close> with \<open>%v\<close> of a decoded value; a \<open>float64\<close> is written with \<open>%g\<close>.\<close>

definition exponent_text :: "int \<Rightarrow> string" where
  "exponent_text e = (let ds = itoa \<bar>e\<bar> in
     (if e < 0 then ''e-'' else ''e+'') @ (if length ds < 2 then CHR ''0'' # ds else ds))"

definition fmt_g_pos :: "rat \<Rightarrow> string" where
  "fmt_g_pos x =
     (case shortest x of (c, e) \<Rightarrow>
       let all = int_digits c; ds = strip_zeros all; p = int (length all) + e
       in if p - 1 < - 4 \<or> 6 \<le> p - 1
          then take 1 ds @ (if length ds = 1 then [] else CHR ''.'' # drop 1 ds) @ exponent_text (p - 1)
          else if p \<le> 0 then ''0.'' @ replicate (nat (- p)) (CHR ''0'') @ ds
          else if int (length ds) \<le> p then ds @ replicate (nat p - length ds) (CHR ''0'')
          else take (nat p) ds @ ''.'' @ drop (nat p) ds)"

definition fmt_g :: "rat \<Rightarrow> string" where
  "fmt_g x = (if x = 0 then ''0'' else if x < 0 then CHR ''-'' # fmt_g_pos (- x) else fmt_g_pos x)"

fun fmt_any :: "json \<Rightarrow> string" where
  "fmt_any JNull = ''<nil>''"
| "fmt_any (JBool b) = (if b then ''true'' else ''false'')"
| "fmt_any (JNum s) = fmt_g (f64s (lit_val s))"
| "fmt_any (JStr s) = s"
| "fmt_any (JArr js) = ''['' @ join_with '' '' (map fmt_any js) @ '']''"
| "fmt_any (JObj o1) = ''map['' @ join_with '' '' (map (\<lambda>(k, t). k @ '':'' @ t)
     (sort_key fst (map_from (map (\<lambda>(k, v). (k, fmt_any v)) o1)))) @ '']''"

text \<open>The parameters of the stored body; a second object adds to the first.\<close>

definition dec_stored :: "object decoder" where
  "dec_stored = dec_struct (dec_field ''params'' (\<lambda>j old. case j of
     JNull \<Rightarrow> Some []
   | _ \<Rightarrow> map_option (\<lambda>m. put_all m old) (dec_map dec_any JNull j [])) []) []"

definition stored_params :: "string \<Rightarrow> object" where
  "stored_params body = (if body = '''' then [] else case unmarshal dec_stored [] body of Inl e \<Rightarrow> [] | Inr m \<Rightarrow> m)"

definition size_member :: "object \<Rightarrow> object" where
  "size_member m = (case (obj_get m ''width'', obj_get m ''height'') of
     (Some (JNum w), Some (JNum h)) \<Rightarrow>
       (let wv = f64s (lit_val w); hv = f64s (lit_val h)
        in if wv > 0 \<and> hv > 0 then [(''size'', JStr (size_text (f64_to_int64 wv) (f64_to_int64 hv)))] else [])
   | _ \<Rightarrow> [])"

definition soraViewFromJob :: "job \<Rightarrow> json" where
  "soraViewFromJob j =
     (let st = job_status_text (j_Status j); params = stored_params (j_RequestBodyJSON j);
          kind = error_type_text (j_ErrorType j)
      in JObj
       ([(''id'', JStr (j_ID j)), (''object'', JStr ''video''), (''model'', JStr (j_ModelAlias j)),
         (''status'', JStr (soraStatus st)), (''progress'', jnum (soraProgressFor st)),
         (''created_at'', jnum (unix_of (j_RequestTS j)))] @
        (case obj_get params ''duration'' of None \<Rightarrow> [] | Some v \<Rightarrow> [(''seconds'', JStr (fmt_any v))]) @
        size_member params @
        (if j_FinishedAt j \<noteq> None \<and> soraStatus st = ''completed''
         then [(''completed_at'', jnum (unix_of (j_FinishedAt j)))] else []) @
        (if kind \<noteq> '''' \<or> j_ErrorDetail j \<noteq> ''''
         then [sora_error_member (if j_ErrorDetail j = '''' then kind else j_ErrorDetail j) kind] else [])))"

section \<open>Handlers\<close>

definition writeSoraError :: "int \<Rightarrow> string \<Rightarrow> string \<Rightarrow> reply" where
  "writeSoraError status code message = Reply status (JObj [sora_error_member message code])"

definition sora_generate_error :: "gerror \<Rightarrow> int \<times> string" where
  "sora_generate_error e =
     (if errorsIs e ErrModelNotFound then (404, ''model_not_found'')
      else if errorsIs e ErrNoEligibleAccount then (503, ''no_capacity'')
      else if errorsIs e ErrGroupConcurrencyMax then (429, ''pool_saturated'')
      else if errorsIs e ErrModelBlocked then (403, ''model_blocked'')
      else if errorsIs e ErrModelNotAllowed then (403, ''model_not_allowed'')
      else if errorsIs e ErrGroupQuotaExhausted then (402, ''group_budget_exhausted'')
      else if errorsIs e ErrAPIKeyQuotaExceed then (402, ''quota_exhausted'')
      else if errorsIs e ErrUpstreamForbidden then (402, ''plan_gate'')
      else if errorsIs e ErrUpstreamRateLimit then (429, ''rate_limit'')
      else if errorsIs e ErrUpstreamBadBody then (400, ''body_error'')
      else if errorsIs e ErrUpstreamTimeout then (504, ''upstream_timeout'')
      else if errorsIs e ErrUpstreamUnauthorized then (401, ''upstream_auth'')
      else if errorsIs e ErrUpstreamServerError then (502, ''upstream_5xx'')
      else (500, ''internal''))"

definition writeSoraGenerateError :: "gerror \<Rightarrow> reply" where
  "writeSoraGenerateError e = (case sora_generate_error e of (status, code) \<Rightarrow> writeSoraError status code (err_text e))"

definition sora_params :: "sora_request \<Rightarrow> object" where
  "sora_params sr = put_all (sr_Extra sr)
     (prompt_param (sr_Prompt sr) @
      (if sr_Seconds sr > 0 then [(''duration'', jnum (sr_Seconds sr))] else []) @
      (if sr_Width sr > 0 \<and> sr_Height sr > 0
       then [(''width'', jnum (sr_Width sr)), (''height'', jnum (sr_Height sr)),
             (''resolution'', JStr (resolutionTierFor (sr_Width sr) (sr_Height sr)))] else []))"

definition sora_request_for :: "api \<Rightarrow> api_faults \<Rightarrow> call_ctx \<Rightarrow> db \<Rightarrow> sora_request \<Rightarrow> gen_request" where
  "sora_request_for a f ctx d sr = request_for a f ctx d (sr_Model sr) (sora_params sr) (sr_Async sr) (sr_AsyncSet sr)
     (sr_CallbackURL sr) (sr_GroupID sr)
     (if sr_MediaID sr \<noteq> '''' \<or> sr_ImageURL sr \<noteq> ''''
      then Some \<lparr> mi_PreUploadedID = sr_MediaID sr, mi_Type = ''image'', mi_URL = sr_ImageURL sr \<rparr> else None)"

definition HandleSoraVideoCreate ::
  "api \<Rightarrow> api_faults \<Rightarrow> gen_run \<Rightarrow> string \<Rightarrow> (gerror, sora_form) result \<Rightarrow> http_in \<Rightarrow> db \<Rightarrow> reply \<times> db" where
  "HandleSoraVideoCreate a f run ct form hi d = (case parseSoraRequest a ct form hi of
     Inl e \<Rightarrow> (writeSoraError 400 ''invalid_body'' (err_text e), d)
   | Inr sr \<Rightarrow>
       if sr_Model sr = '''' then (writeSoraError 400 ''invalid_body'' ''model is required'', d)
       else (case serve a run (sora_request_for a f (hi_Ctx hi) d sr) d of
         (Inl e, d1) \<Rightarrow> (writeSoraGenerateError e, d1)
       | (Inr r, d1) \<Rightarrow> (Reply 200 (soraViewFromProxyResp r (sr_Seconds sr) (sr_Width sr) (sr_Height sr)), d1)))"

definition soraCallerOwns :: "call_ctx \<Rightarrow> job \<Rightarrow> bool" where
  "soraCallerOwns ctx j \<longleftrightarrow> (case cc_Key ctx of None \<Rightarrow> False | Some k \<Rightarrow> j_APIKeyID j = '''' \<or> j_APIKeyID j = k_ID k)"

text \<open>The job the path names, for a caller who may see it.\<close>

definition sora_job :: "api \<Rightarrow> api_faults \<Rightarrow> http_in \<Rightarrow> db \<Rightarrow> (reply, job) result" where
  "sora_job a f hi d =
     (if hi_Param hi = '''' then Err (writeSoraError 400 ''invalid_id'' ''video id is required'')
      else if \<not> ap_Jobs a
      then Err (writeSoraError 503 ''jobs_store_unavailable'' ''job persistence is not configured on this deployment'')
      else case GetJob (f AcJobGet) (hi_Param hi) (db_jobs d) of
        Inl e \<Rightarrow> if errorsIs e ErrJobNotFound then Err (writeSoraError 404 ''not_found'' ''video not found'')
                else Err (writeSoraError 500 ''internal'' (err_text e))
      | Inr j \<Rightarrow> if \<not> soraCallerOwns (hi_Ctx hi) j then Err (writeSoraError 404 ''not_found'' ''video not found'') else Ok j)"

definition HandleSoraVideoGet :: "api \<Rightarrow> api_faults \<Rightarrow> http_in \<Rightarrow> db \<Rightarrow> reply" where
  "HandleSoraVideoGet a f hi d = (case sora_job a f hi d of Inl r \<Rightarrow> r | Inr j \<Rightarrow> Reply 200 (soraViewFromJob j))"

text \<open>The content: an error, or the CDN's status, six of its headers and its body.\<close>

datatype content_reply = ContentError reply | Streamed int headers string

definition content_headers :: "string list" where
  "content_headers = [''Content-Type'', ''Content-Length'', ''Last-Modified'', ''ETag'', ''Accept-Ranges'', ''Content-Range'']"

definition copied_headers :: "headers \<Rightarrow> headers" where
  "copied_headers hs = List.map_filter (\<lambda>k. case obj_get hs k of
     None \<Rightarrow> None | Some v \<Rightarrow> if v = '''' then None else Some (k, v)) content_headers"

text \<open>Only a \<open>Range\<close> header goes out with the request.\<close>

definition defaultContentProxy ::
  "(string \<Rightarrow> headers \<Rightarrow> (gerror, int \<times> headers \<times> string) result) \<Rightarrow> string \<Rightarrow> string \<Rightarrow> content_reply" where
  "defaultContentProxy fetch rng url = (case fetch url (if rng = '''' then [] else [(''Range'', rng)]) of
     Inl e \<Rightarrow> ContentError (writeSoraError 502 ''upstream_fetch_failed'' (err_text e))
   | Inr (status, hs, body) \<Rightarrow>
       if status < 200 \<or> 400 \<le> status
       then ContentError (writeSoraError 502 ''upstream_fetch_failed'' (''upstream returned HTTP '' @ itoa status))
       else Streamed status (copied_headers hs) body)"

definition HandleSoraVideoContent ::
  "api \<Rightarrow> api_faults \<Rightarrow> (string \<Rightarrow> headers \<Rightarrow> (gerror, int \<times> headers \<times> string) result) \<Rightarrow> string \<Rightarrow> http_in \<Rightarrow> db
     \<Rightarrow> content_reply" where
  "HandleSoraVideoContent a f fetch rng hi d = (case sora_job a f hi d of
     Inl r \<Rightarrow> ContentError r
   | Inr j \<Rightarrow>
       if j_Status j \<noteq> JobCompleted then ContentError (writeSoraError 409 ''not_ready'' ''video is not yet completed'')
       else if j_ResultURL j = '''' then ContentError (writeSoraError 404 ''not_found'' ''video content unavailable'')
       else defaultContentProxy fetch rng (j_ResultURL j))"

end
