(* ===== verification/ApiProps.thy ===== *)
theory ApiProps
  imports Sora ProxyProps
begin

text \<open>
  What the \<open>/v1\<close> handlers guarantee across the components: who a generation is charged to,
  which model a scope lets through, who sees a job, and what an error leaves behind.
\<close>

section \<open>Bodies the playground forwards\<close>

lemma parse_object_text:
  assumes "list_all (\<lambda>(k, v). ascii k \<and> plain_json v \<and> fits 1 v) ms" "ms \<noteq> []"
  shows "parse_json (''{'' @ commas (map member_text ms) @ ''}'') = Some (JObj (map (\<lambda>(k, v). (k, canon v)) ms))"
proof -
  let ?s = "''{'' @ commas (map member_text ms) @ ''}''"
  have ws: "\<not> is_ws (CHR ''{'')" "\<not> is_ws (CHR ''}'')" "\<not> is_ws (CHR 0x22)" by (simp_all add: is_ws_def)
  have "\<exists>u. commas (map member_text ms) = CHR 0x22 # u"
    using assms(2) by (cases ms rule: list.exhaust; cases "tl ms") (auto simp: member_text_def quote_def)
  then have e: "expect (CHR ''}'') (commas (map member_text ms) @ ''}'') = None"
    using ws by (auto simp: expect_other)
  have sub: "list_all (\<lambda>(k, v). ascii k \<and> plain_json v \<and> reads v \<and> fits (Suc 0) v) ms"
    using assms(1) by (auto simp: list_all_iff marshal_reads)
  have "parse_members (2 * length ?s) (Suc 0) (commas (map member_text ms) @ ''}'' @ []) = Some (map (\<lambda>(k, v). (k, canon v)) ms, [])"
    by (rule reads_members [OF sub assms(2)]) simp
  then have "parse_value (2 * length ?s + 1) 0 ?s = Some (JObj (map (\<lambda>(k, v). (k, canon v)) ms), [])"
    using ws e by (simp add: value_step_def skip_ws_def)
  then show ?thesis unfolding parse_json_def by (simp add: skip_ws_def)
qed

text \<open>A body with two spellings of the model member, and one with only the second's value.\<close>

definition object_text :: "(string \<times> string) list \<Rightarrow> string" where
  "object_text ms = ''{'' @ commas (map member_text (map (\<lambda>(k, s). (k, JStr s)) ms)) @ ''}''"

lemma parse_object_strings:
  assumes "list_all (\<lambda>(k, s). ascii k \<and> ascii s) ms" "ms \<noteq> []"
  shows "parse_json (object_text ms) = Some (JObj (map (\<lambda>(k, s). (k, JStr s)) ms))"
  using parse_object_text [of "map (\<lambda>(k, s). (k, JStr s)) ms"] assms
  by (simp add: object_text_def list_all_iff case_prod_unfold comp_def)

definition smuggled :: "string \<Rightarrow> string \<Rightarrow> string" where
  "smuggled dear cheap = object_text [(''model'', dear), (''Model'', cheap)]"

definition honest :: "string \<Rightarrow> string" where "honest m = object_text [(''model'', m)]"

lemma ascii_names: "ascii ''model''" "ascii ''Model''" "ascii ''async''" by (simp_all add: ascii_def byte_def)

lemma parse_smuggled:
  "ascii e \<Longrightarrow> ascii c \<Longrightarrow> parse_json (smuggled e c) = Some (JObj [(''model'', JStr e), (''Model'', JStr c)])"
  unfolding smuggled_def by (subst parse_object_strings) (simp_all add: ascii_names)

lemma parse_honest: "ascii m \<Longrightarrow> parse_json (honest m) = Some (JObj [(''model'', JStr m)])"
  unfolding honest_def by (subst parse_object_strings) (simp_all add: ascii_names)

lemma object_text_nonempty [simp]: "object_text ms \<noteq> ''''" by (simp add: object_text_def)

lemma fold_names:
  "fold_name ''model'' = ''MODEL''" "fold_name ''Model'' = ''MODEL''" "fold_name ''async'' = ''ASYNC''"
  "fold_name ''as_api_key_id'' = ''AS_API_KEY_ID''" "fold_name ''prompt'' = ''PROMPT''"
  "fold_name ''image_url'' = ''IMAGE_URL''" "fold_name ''media_id'' = ''MEDIA_ID''"
  "fold_name ''callback_url'' = ''CALLBACK_URL''" "fold_name ''group_id'' = ''GROUP_ID''"
  "fold_name ''n'' = ''N''" "fold_name ''size'' = ''SIZE''" "fold_name ''quality'' = ''QUALITY''"
  by (simp_all add: upper_char_def byte_def char_of_def bit_0 Let_def)

lemmas decode_strings = dec_struct_def dec_field_def dec_string_def dec_bool_def dec_int_def fold_names

lemma peek_smuggled:
  assumes "ascii e" "ascii c"
  shows "peek (smuggled e c) = Ok (c, '''')"
proof -
  have "dec_peek (JObj [(''model'', JStr e), (''Model'', JStr c)]) ('''', '''') = Some (c, '''')"
    unfolding dec_peek_def by (simp add: decode_strings del: fold_name.simps)
  moreover have "smuggled e c \<noteq> ''''" by (simp add: smuggled_def)
  ultimately show ?thesis by (simp add: peek_def unmarshal_def parse_smuggled [OF assms])
qed

lemma peek_honest:
  assumes "ascii m"
  shows "peek (honest m) = Ok (m, '''')"
proof -
  have "dec_peek (JObj [(''model'', JStr m)]) ('''', '''') = Some (m, '''')"
    unfolding dec_peek_def by (simp add: decode_strings del: fold_name.simps)
  moreover have "honest m \<noteq> ''''" by (simp add: honest_def)
  ultimately show ?thesis by (simp add: peek_def unmarshal_def parse_honest [OF assms])
qed

definition swapped :: "string \<Rightarrow> string \<Rightarrow> json" where
  "swapped e c = JObj [(''Model'', JStr c), (''async'', JBool False), (''model'', JStr e)]"

lemma swapped_members: "members_of [(''async'', JBool False), (''Model'', JStr c), (''model'', JStr e)] =
    [(''Model'', JStr c), (''async'', JBool False), (''model'', JStr e)]"
  by (simp add: members_of_def map_from_def obj_put_def)

lemma normalise_smuggled:
  assumes "ascii e" "ascii c"
  shows "normalisePlaygroundBody (smuggled e c) = Some (marshal (swapped e c))"
proof -
  have "marshal (JObj [(''async'', JBool False), (''Model'', JStr c), (''model'', JStr e)]) = marshal (swapped e c)"
    using marshal_canon [of "JObj [(''async'', JBool False), (''Model'', JStr c), (''model'', JStr e)]"]
    by (simp only: canon_object swapped_members swapped_def) (simp add: swapped_members)
  moreover have "smuggled e c \<noteq> ''''" by (simp add: smuggled_def)
  ultimately show ?thesis
    by (simp add: normalisePlaygroundBody_def parse_smuggled assms dec_map_def dec_any_def map_from_def
        obj_put_def obj_get_def)
qed

lemma parse_swapped:
  assumes "ascii e" "ascii c"
  shows "parse_json (marshal (swapped e c)) = Some (swapped e c)"
proof -
  have "canon (swapped e c) = swapped e c"
    by (simp add: swapped_def members_of_def map_from_def obj_put_def)
  then show ?thesis
    using print_parse [of "swapped e c"] assms by (simp add: swapped_def ascii_names)
qed

lemma escape_names: "escape 0 ''model'' = ''model''" "escape 0 ''Model'' = ''Model''" "escape 0 ''async'' = ''async''"
  by (simp_all add: escape_ascii ascii_names escape_char_def byte_def Let_def del: escape.simps)

lemma swapped_length: "length (marshal (swapped e c)) = length (smuggled e c) + 14"
  by (simp add: swapped_def smuggled_def object_text_def member_text_def marshal_object
      members_of_def map_from_def obj_put_def quote_def escape_names del: marshal.simps(6) escape.simps)

text \<open>What the handlers behind the playground make of the forwarded body.\<close>

lemma decode_swapped:
  assumes "ascii e" "ascii c"
  shows "\<exists>vr. unmarshal dec_video zero_video (marshal (swapped e c)) = Ok vr \<and> vr_Model vr = e"
    "\<exists>ir. unmarshal dec_image zero_image (marshal (swapped e c)) = Ok ir \<and> ir_Model ir = e"
proof -
  have "\<exists>vr. dec_video (swapped e c) zero_video = Some vr \<and> vr_Model vr = e"
    unfolding dec_video_def swapped_def by (simp add: decode_strings del: fold_name.simps)
  then show "\<exists>vr. unmarshal dec_video zero_video (marshal (swapped e c)) = Ok vr \<and> vr_Model vr = e"
    by (auto simp: unmarshal_def parse_swapped [OF assms])
  have "\<exists>ir. dec_image (swapped e c) zero_image = Some ir \<and> ir_Model ir = e"
    unfolding dec_image_def swapped_def by (simp add: decode_strings del: fold_name.simps)
  then show "\<exists>ir. unmarshal dec_image zero_image (marshal (swapped e c)) = Ok ir \<and> ir_Model ir = e"
    by (auto simp: unmarshal_def parse_swapped [OF assms])
qed

section \<open>The scope of a key\<close>

lemma key_identity:
  assumes "\<not> cc_Admin ctx" "cc_Key ctx = Some k" "k_PlaygroundScope k \<in> {ScopeCheap, ScopeFull}"
  shows "resolveExecutionIdentity a f ctx asID ks = Ok (k_PlaygroundScope k, None)"
  using assms by (auto simp: resolveExecutionIdentity_def resolvePlaygroundScope_def Let_def)

lemma video_intake_of:
  assumes "length raw \<le> 2 ^ 20" "hi_Body hi = Ok raw" "unmarshal dec_video zero_video raw = Ok vr" "vr_Model vr \<noteq> ''''"
  shows "\<exists>req. video_intake a f hi d = Ok req \<and> rq_Model req = vr_Model vr \<and>
    rq_APIKeyID req = (case cc_Key (hi_Ctx hi) of None \<Rightarrow> '''' | Some k \<Rightarrow> k_ID k)"
  using assms by (simp add: video_intake_def readAll_def request_for_def Let_def)

lemma image_intake_of:
  assumes "length raw \<le> 2 ^ 20" "hi_Body hi = Ok raw" "unmarshal dec_image zero_image raw = Ok ir" "ir_Model ir \<noteq> ''''"
  shows "\<exists>req. image_intake a f hi d = Ok req \<and> rq_Model req = ir_Model ir \<and>
    rq_APIKeyID req = (case cc_Key (hi_Ctx hi) of None \<Rightarrow> '''' | Some k \<Rightarrow> k_ID k)"
  using assms by (simp add: image_intake_def readAll_def request_for_def Let_def)

text \<open>C18. The playground's scope does not hold: the gate reads the last spelling of the model
  member and the handler behind it the last in the order of a re-encoded body.  A caller
  whose key is limited to cheap models, and who is refused a dear model under its name,
  runs it all the same by naming a cheap one as well.\<close>

theorem playground_scope_bypassed:
  assumes key: "\<not> cc_Admin (hi_Ctx hi)" "cc_Key (hi_Ctx hi) = Some k" "k_PlaygroundScope k = ScopeCheap"
    and names: "ascii c" "ascii e" "TrimSpace c \<noteq> ''''" "TrimSpace e \<noteq> ''''" "length (smuggled e c) + 14 \<le> 2 ^ 20"
    and cheap: "ResolveModel (ap_Registry a) c = Ok cs" "sp_EstCostHundredths cs \<le> PlaygroundCheapCapHundredths"
    and dear: "ResolveModel (ap_Registry a) e = Ok es" "sp_EstCostHundredths es > PlaygroundCheapCapHundredths"
  shows "HandlePlaygroundExecute a f run (hi\<lparr> hi_Body := Ok (honest e) \<rparr>) d = (scope_refusal, d) \<and>
    (\<exists>req. HandlePlaygroundExecute a f run (hi\<lparr> hi_Body := Ok (smuggled e c) \<rparr>) d = answer (serve a run req d) \<and>
      rq_Model req = e \<and> rq_APIKeyID req = k_ID k)"
proof -
  have len: "length (honest e) \<le> 2 ^ 20" "length (smuggled e c) \<le> 2 ^ 20" "length (marshal (swapped e c)) \<le> 2 ^ 20"
    using names(5) by (simp_all add: swapped_length) (simp add: honest_def smuggled_def object_text_def)
  have id: "resolveExecutionIdentity a f (hi_Ctx hi) asID ks = Ok (ScopeCheap, None)" for asID ks
    using key_identity [OF key(1,2)] key(3) by simp
  have "playground_gate a f (hi_Ctx hi) e '''' (db_keys d) = Err scope_refusal"
    using dear names by (simp add: playground_gate_def id)
  then have refused: "HandlePlaygroundExecute a f run (hi\<lparr> hi_Body := Ok (honest e) \<rparr>) d = (scope_refusal, d)"
    using len(1) by (simp add: HandlePlaygroundExecute_def readAll_def peek_honest [OF names(2)])
  have gate: "playground_gate a f (hi_Ctx hi) c '''' (db_keys d) = Ok (cs, None)"
    using cheap names by (simp add: playground_gate_def id)
  let ?hi = "hi\<lparr> hi_Body := Ok (marshal (swapped e c)) \<rparr>"
  have "e \<noteq> ''''" using names(4) by (auto simp: TrimSpace_def)
  then obtain v i where v: "video_intake a f ?hi d = Ok v" "rq_Model v = e" "rq_APIKeyID v = k_ID k"
    and i: "image_intake a f ?hi d = Ok i" "rq_Model i = e" "rq_APIKeyID i = k_ID k"
    using decode_swapped [OF names(2,1)] video_intake_of [OF len(3), of ?hi _ a f d]
      image_intake_of [OF len(3), of ?hi _ a f d] key(2) by fastforce
  have "HandlePlaygroundExecute a f run (hi\<lparr> hi_Body := Ok (smuggled e c) \<rparr>) d =
      (if sp_Output cs = ''image'' then HandleImageGeneration a f run ?hi d else HandleVideoGeneration a f run ?hi d)"
    using len(2) by (simp add: HandlePlaygroundExecute_def readAll_def peek_smuggled [OF names(2,1)] gate
        normalise_smuggled [OF names(2,1)] forwarded_def)
  then show ?thesis using refused v i by (auto simp: HandleImageGeneration_def HandleVideoGeneration_def)
qed


section \<open>Who a generation is charged to\<close>

text \<open>What a playground execution that gets through has passed.\<close>

lemma serve_through:
  "fst (answer out) = r \<Longrightarrow> r \<noteq> Panicked" by (auto simp: answer_def writeGenerationError_def write_error_def split: prod.splits sum.splits)

lemma intake_key:
  "video_intake a f hi d = Ok req \<Longrightarrow> rq_APIKeyID req = (case cc_Key (hi_Ctx hi) of None \<Rightarrow> '''' | Some k \<Rightarrow> k_ID k)"
  "image_intake a f hi d = Ok req \<Longrightarrow> rq_APIKeyID req = (case cc_Key (hi_Ctx hi) of None \<Rightarrow> '''' | Some k \<Rightarrow> k_ID k)"
  by (auto simp: video_intake_def image_intake_def request_for_def Let_def split: sum.splits if_splits)

lemma gate_Ok:
  assumes "playground_gate a f ctx model asID ks = Ok (spec, asKey)"
  obtains scope where "resolveExecutionIdentity a f ctx asID ks = Ok (scope, asKey)"
    "AllowsModel scope (sp_EstCostHundredths spec)" "ResolveModel (ap_Registry a) model = Ok spec"
  using assms by (auto simp: playground_gate_def TrimSpace_def split: sum.splits if_splits)

lemma refusals_not_200:
  "video_intake a f hi d = Err r \<Longrightarrow> r \<notin> range (Reply 200)"
  "image_intake a f hi d = Err r \<Longrightarrow> r \<notin> range (Reply 200)"
  "resolveExecutionIdentity a f ctx asID ks = Err r \<Longrightarrow> r \<notin> range (Reply 200)"
  by (auto simp: video_intake_def image_intake_def resolveExecutionIdentity_def not_permitted_def write_error_def Let_def
      split: sum.splits if_splits option.splits)

lemma gate_not_200: "playground_gate a f ctx model asID ks = Err r \<Longrightarrow> r \<notin> range (Reply 200)"
  using refusals_not_200(3) [of a f ctx asID ks]
  by (auto simp: playground_gate_def scope_refusal_def write_error_def split: sum.splits if_splits)

lemma execute_cases:
  assumes "HandlePlaygroundExecute a f run hi d = (rep, d1)"
  obtains (refused) "d1 = d" "rep \<notin> range (Reply 200)"
  | (served) raw model asID scope est asKey body req where
      "readAll hi = Ok raw" "peek raw = Ok (model, asID)"
      "resolveExecutionIdentity a f (hi_Ctx hi) asID (db_keys d) = Ok (scope, asKey)"
      "AllowsModel scope est"
      "rq_APIKeyID req = (case cc_Key (hi_Ctx (forwarded hi asKey body)) of None \<Rightarrow> '''' | Some k \<Rightarrow> k_ID k)"
      "answer (serve a run req d) = (rep, d1)"
proof -
  consider "d1 = d" "rep \<notin> range (Reply 200)"
    | raw model asID spec asKey body where "readAll hi = Ok raw" "peek raw = Ok (model, asID)"
      "playground_gate a f (hi_Ctx hi) model asID (db_keys d) = Ok (spec, asKey)"
      "HandleImageGeneration a f run (forwarded hi asKey body) d = (rep, d1) \<or>
       HandleVideoGeneration a f run (forwarded hi asKey body) d = (rep, d1)"
    using assms gate_not_200 [of a f "hi_Ctx hi" _ _ "db_keys d"]
    by (fastforce simp: HandlePlaygroundExecute_def write_error_def split: sum.splits prod.splits option.splits if_splits)
  then show ?thesis
  proof cases
    case 1
    then show ?thesis by (rule refused)
  next
    case (2 raw model asID spec asKey body)
    obtain scope where g: "resolveExecutionIdentity a f (hi_Ctx hi) asID (db_keys d) = Ok (scope, asKey)"
      "AllowsModel scope (sp_EstCostHundredths spec)" using gate_Ok [OF 2(3)] by metis
    have "d1 = d \<and> rep \<notin> range (Reply 200) \<or>
        (\<exists>req. rq_APIKeyID req = (case cc_Key (hi_Ctx (forwarded hi asKey body)) of None \<Rightarrow> '''' | Some k \<Rightarrow> k_ID k) \<and>
        answer (serve a run req d) = (rep, d1))"
      using 2(4) intake_key refusals_not_200(1,2)
      by (fastforce simp: HandleImageGeneration_def HandleVideoGeneration_def split: sum.splits)
    then show ?thesis using served [OF 2(1,2) g] refused by blast
  qed
qed

text \<open>A key that may be charged for a playground call.\<close>

definition chargeable :: "keys \<Rightarrow> string \<Rightarrow> bool" where
  "chargeable rows kid \<longleftrightarrow> (\<exists>r \<in> set rows. kr_id r = kid \<and> kr_status r = KeyActive \<and>
     kr_playground_scope r \<in> {ScopeCheap, ScopeFull})"

lemma stored_scope: "x \<in> {ScopeCheap, ScopeFull} \<Longrightarrow> defaultPlaygroundScope y = x \<longleftrightarrow> y = x"
  by (cases y) auto

lemma key_of_row_scope:
  "k_ID (key_of_row r) = kr_id r" "k_Status (key_of_row r) = kr_status r"
  "k_PlaygroundScope (key_of_row r) \<in> {ScopeCheap, ScopeFull} \<longleftrightarrow> kr_playground_scope r \<in> {ScopeCheap, ScopeFull}"
  by (auto simp: key_of_row_def stored_scope)

lemma named_key_chargeable:
  assumes "resolveExecutionIdentity a f ctx asID rows = Ok (scope, Some k)"
  shows "chargeable rows (k_ID k) \<and> cc_Admin ctx \<and> k_ID k = TrimSpace asID"
proof -
  obtain r where r: "find_row kr_id (TrimSpace asID) rows = Some r" "k = key_of_row r" "k_Status k = KeyActive"
      "k_PlaygroundScope k \<in> {ScopeCheap, ScopeFull}" "cc_Admin ctx"
    using assms
    by (auto simp: resolveExecutionIdentity_def GetKey_def scanAPIKey_def Let_def split: if_splits sum.splits option.splits)
  then show ?thesis using find_row_SomeD [OF r(1)] r(5) unfolding chargeable_def r(2) key_of_row_scope by blast
qed

lemma own_key_chargeable:
  assumes "resolveExecutionIdentity a f ctx asID rows = Ok (scope, None)" "AllowsModel scope est" "\<not> cc_Admin ctx"
    "cc_Key ctx = Some (key_of_row r)" "r \<in> set rows" "kr_status r = KeyActive"
  shows "chargeable rows (k_ID (key_of_row r))"
proof -
  have "k_PlaygroundScope (key_of_row r) \<in> {ScopeCheap, ScopeFull}"
    using assms(1-4) by (auto simp: resolveExecutionIdentity_def resolvePlaygroundScope_def Let_def split: if_splits)
  then show ?thesis using assms(5,6) unfolding chargeable_def key_of_row_scope by blast
qed

lemma playground_chain_Admit:
  assumes "playground_chain Hash adm fail (Some rows) rps burst now raw bs = (Admit ctx, bs1)"
  shows "(cc_Admin ctx \<and> cc_Key ctx = None) \<or>
    (\<not> cc_Admin ctx \<and> (\<exists>r \<in> set rows. cc_Key ctx = Some (key_of_row r) \<and> kr_status r = KeyActive))"
proof -
  obtain ctx0 where a: "PlaygroundAuth Hash adm fail (Some rows) raw fresh_ctx = Admit ctx0"
    and r: "(case limited rps burst now bs ctx0 of (v, bs2) \<Rightarrow> then_verdict v (\<lambda>ctx1. (PlaygroundGate ctx1, bs2)) bs2) = (Admit ctx, bs1)"
    using assms by (auto simp: playground_chain_def then_verdict_Admit)
  have gate: "PlaygroundGate c = Admit c1 \<Longrightarrow> c1 = c" for c c1
    by (auto simp: PlaygroundGate_def playground_disabled_def Let_def split: if_splits option.splits)
  obtain v bs2 where "limited rps burst now bs ctx0 = (v, bs2)" by force
  then have eq: "ctx = ctx0" using r gate by (auto simp: then_verdict_Admit limited_Admit)
  have "ctx0 = fresh_ctx\<lparr> cc_Admin := True \<rparr> \<or> (\<exists>h. key_lookup fail rows h fresh_ctx = Admit ctx0)"
    using a by (auto simp: PlaygroundAuth_def split: if_splits option.splits sum.splits)
  then show ?thesis
  proof
    assume "\<exists>h. key_lookup fail rows h fresh_ctx = Admit ctx0"
    then obtain h r where r: "find_row kr_key_hash h rows = Some r" "kr_status r = KeyActive"
        "ctx0 = fresh_ctx\<lparr> cc_Key := Some (key_of_row r) \<rparr>" by (auto simp: key_lookup_Admit)
    then show ?thesis using find_row_SomeD [OF r(1)] by (auto simp: eq)
  qed (simp add: eq)
qed

text \<open>C17. Nobody spends another's quota through the playground.  A request that passes the
  playground's middlewares is refused by its handler, which then changes nothing, or is
  handed on to the proxy with a payer that the body and the credential determine: an
  administrator's call is charged to exactly the key its body names, which is active and of
  scope cheap or full, and to none when it names none; every other call is charged to
  the caller's own key, which is one of these, whatever its body names.\<close>

theorem playground_charges:
  assumes "playground_chain Hash adm fail (Some (db_keys d)) rps burst now raw bs = (Admit (hi_Ctx hi), bs1)"
    "HandlePlaygroundExecute a f run hi d = (rep, d1)"
  shows "d1 = d \<and> rep \<notin> range (Reply 200) \<or>
    (\<exists>body model asID req. readAll hi = Ok body \<and> peek body = Ok (model, asID) \<and> answer (serve a run req d) = (rep, d1) \<and>
      (if cc_Admin (hi_Ctx hi)
       then rq_APIKeyID req = TrimSpace asID \<and> (TrimSpace asID \<noteq> '''' \<longrightarrow> chargeable (db_keys d) (TrimSpace asID))
       else chargeable (db_keys d) (rq_APIKeyID req) \<and> map_option k_ID (cc_Key (hi_Ctx hi)) = Some (rq_APIKeyID req)))"
  using assms(2)
proof (cases rule: execute_cases)
  case (served body model asID scope est asKey fwd req)
  have payer: "if cc_Admin (hi_Ctx hi)
       then rq_APIKeyID req = TrimSpace asID \<and> (TrimSpace asID \<noteq> '''' \<longrightarrow> chargeable (db_keys d) (TrimSpace asID))
       else chargeable (db_keys d) (rq_APIKeyID req) \<and> map_option k_ID (cc_Key (hi_Ctx hi)) = Some (rq_APIKeyID req)"
  proof (cases asKey)
    case (Some k)
    then have "rq_APIKeyID req = k_ID k" using served(5) by (simp add: forwarded_def)
    then show ?thesis using named_key_chargeable [of a f "hi_Ctx hi" asID "db_keys d" scope k] served(3) Some by auto
  next
    case None
    then have kid: "rq_APIKeyID req = (case cc_Key (hi_Ctx hi) of None \<Rightarrow> '''' | Some k \<Rightarrow> k_ID k)"
      using served(5) by (simp add: forwarded_def)
    have unnamed: "cc_Admin (hi_Ctx hi) \<Longrightarrow> TrimSpace asID = ''''"
      using served(3) None by (auto simp: resolveExecutionIdentity_def Let_def split: if_splits sum.splits)
    from playground_chain_Admit [OF assms(1)] show ?thesis
    proof
      assume "\<not> cc_Admin (hi_Ctx hi) \<and> (\<exists>r \<in> set (db_keys d). cc_Key (hi_Ctx hi) = Some (key_of_row r) \<and> kr_status r = KeyActive)"
      then obtain r where r: "\<not> cc_Admin (hi_Ctx hi)" "r \<in> set (db_keys d)" "cc_Key (hi_Ctx hi) = Some (key_of_row r)" "kr_status r = KeyActive"
        by blast
      then have "chargeable (db_keys d) (k_ID (key_of_row r))"
        using own_key_chargeable [of a f "hi_Ctx hi" asID "db_keys d" scope est r] served(3,4) None by blast
      then show ?thesis using kid r by auto
    qed (use kid unnamed in auto)
  qed
  then show ?thesis using served(1,2,6) by blast
qed simp


section \<open>Jobs are private to the key that pays for them\<close>

text \<open>Every row of job \<open>x\<close> belongs to the key.\<close>

definition job_of_key :: "string \<Rightarrow> string \<Rightarrow> jobs \<Rightarrow> bool" where
  "job_of_key x kid rows \<longleftrightarrow> (\<forall>r \<in> set rows. jr_id r = x \<longrightarrow> jr_api_key_id r = Some kid)"

lemma writers_keep_key [simp]:
  "jr_api_key_id (terminal_row now st m r) = jr_api_key_id r"
  "jr_api_key_id (progress_row now st m r) = jr_api_key_id r"
  by (simp_all add: terminal_row_def progress_row_def apply_meta_def)

lemma job_of_key_update:
  "job_of_key x kid rows \<Longrightarrow> (\<And>r. jr_api_key_id (f r) = jr_api_key_id r) \<Longrightarrow> (\<And>r. jr_id (f r) = jr_id r) \<Longrightarrow>
     job_of_key x kid (sql_update P f rows)"
  by (auto simp: job_of_key_def sql_update_def)

lemma job_of_key_writes:
  assumes "job_of_key x kid rows"
  shows "job_of_key x kid (snd (TryMarkTerminal fail now jid sts new m rows))"
    "job_of_key x kid (snd (UpdateStatus fail now jid st m rows))"
  using assms by (auto simp: TryMarkTerminal_def UpdateStatus_def Let_def intro!: job_of_key_update split: option.split)

lemma job_of_key_create:
  assumes "job_of_key x kid rows" "j_APIKeyID j = kid" "kid \<noteq> ''''"
  shows "job_of_key x kid (snd (CreateJob fail accts j rows))"
  using assms by (auto simp: job_of_key_def CreateJob_def insert_job_row_def nullStr_def Let_def split: option.split)

lemma job_of_key_metering:
  assumes "job_of_key x kid (db_jobs d)"
  shows "job_of_key x kid (db_jobs (snd (OnJobTerminal ropt mf now uid (Some j) acct pre m d)))"
  using metering_frame(3) [of ropt mf now uid j acct pre m d] assms job_of_key_writes(2)
  by (metis prod.collapse)

lemma pick_loop_jobs: "db_jobs (snd (pick_loop s f random now spec gids d)) = db_jobs d"
proof (induction gids arbitrary: d)
  case (Cons gid rest)
  have "db_jobs (snd (try_group s f random now spec gid d)) = db_jobs d"
    by (simp add: try_group_def Let_def split: option.split prod.split)
  then show ?case using Cons by (auto split: prod.splits sum.splits)
qed simp

lemma create_failed_key:
  "job_of_key x kid (db_jobs d) \<Longrightarrow> job_of_key x kid (db_jobs (create_failed s f ts uid cfid req spec acc token endpoint e d))"
  by (simp add: create_failed_def Let_def job_of_key_metering split: option.split)

lemma gen_create_key:
  assumes "job_of_key x (rq_APIKeyID req) (db_jobs d)" "rq_APIKeyID req \<noteq> ''''"
  shows "job_of_key x (rq_APIKeyID req) (db_jobs (snd (gen_create s f ts uid cfid req spec async acc token ans d)))"
proof -
  have row: "job_of_key x (rq_APIKeyID req) (db_jobs d1)"
    if "persist_job s f (queued_job req spec acc endpoint body cr ts) d = (ok, d1)" for endpoint body cr ok d1
  proof -
    have "j_APIKeyID (queued_job req spec acc endpoint body cr ts) = rq_APIKeyID req"
      by (simp add: queued_job_def request_job_def)
    then show ?thesis using that assms job_of_key_create [OF assms(1) _ assms(2)]
      by (auto simp: persist_job_def case_prod_beta split: if_splits)
  qed
  show ?thesis
    using assms(1) create_failed_key [OF assms(1)]
    by (auto simp: gen_create_def split: prod.split sum.split dest: row)
qed

lemma gen_begin_key:
  assumes "job_of_key x (rq_APIKeyID req) (db_jobs d)" "rq_APIKeyID req \<noteq> ''''"
  shows "job_of_key x (rq_APIKeyID req) (db_jobs (snd (gen_begin s f random now uid cfid req ans d)))"
proof -
  have pick: "job_of_key x (rq_APIKeyID req) (db_jobs d1)" if "pick_loop s f random now spec gids d = (r, d1)" for spec gids r d1
    using pick_loop_jobs [of s f random now spec gids d] that assms(1) by simp
  have "job_of_key x (rq_APIKeyID req) (db_jobs (snd (gen_create s f now uid cfid (req\<lparr> rq_GroupID := gid \<rparr>) spec async acc token ans d1)))"
    if "job_of_key x (rq_APIKeyID req) (db_jobs d1)" for gid spec async acc token d1
    using gen_create_key [of x "req\<lparr> rq_GroupID := gid \<rparr>" d1] that assms(2) by simp
  then show ?thesis
    using assms(1) by (auto simp: gen_begin_def split: sum.split option.split prod.split dest: pick)
qed

lemma gen_finish_key:
  assumes "job_of_key x kid (db_jobs d)"
  shows "job_of_key x kid (db_jobs (snd (gen_finish s f t2 uid g ans d)))"
proof -
  have cas: "job_of_key x kid (db_jobs d2)" if "job_of_key x kid (db_jobs d1)" "sync_cas s f g t2 fin d1 = (won, d2)" for fin d1 d2 won
    using job_of_key_writes(1) [OF that(1)] that
    by (auto simp: sync_cas_def case_prod_beta split: sum.splits if_splits)
  have eff: "job_of_key x kid (db_jobs (sync_effects s f g t2 uid fin d1))" if "job_of_key x kid (db_jobs d1)" for fin d1
    using that by (simp add: sync_effects_def Let_def job_of_key_metering split: option.split)
  show ?thesis
    using assms by (auto simp: gen_finish_def Let_def split: sum.split prod.split if_splits intro!: eff dest: cas [rotated])
qed

lemma serve_key:
  assumes "job_of_key x (rq_APIKeyID req) (db_jobs d)" "rq_APIKeyID req \<noteq> ''''"
    "\<And>d. job_of_key x (rq_APIKeyID req) (db_jobs d) \<Longrightarrow> job_of_key x (rq_APIKeyID req) (db_jobs (gr_meanwhile run d))"
  shows "job_of_key x (rq_APIKeyID req) (db_jobs (snd (serve a run req d)))"
proof -
  obtain out d1 where g: "gen_begin (service_of a) (gr_faults run) (gr_random run) (gr_now run) (gr_uid run) (gr_cfid run)
      req (gr_created run) d = (out, d1)" by force
  then have "job_of_key x (rq_APIKeyID req) (db_jobs d1)" using gen_begin_key [OF assms(1,2)] by (metis snd_conv)
  then show ?thesis using g gen_finish_key assms(3) by (simp add: serve_def Generate_def split: sum.split)
qed


lemma serve_key_fresh:
  assumes "rq_APIKeyID req = kid" "kid \<noteq> ''''" "\<forall>r \<in> set (db_jobs d). jr_id r \<noteq> x"
    "\<And>d. job_of_key x kid (db_jobs d) \<Longrightarrow> job_of_key x kid (db_jobs (gr_meanwhile run d))"
  shows "job_of_key x kid (db_jobs (snd (serve a run req d)))"
  using serve_key [of x req d run a] assms by (auto simp: job_of_key_def)

lemma snd_answer [simp]: "snd (answer out) = snd out"
  by (auto simp: answer_def split: prod.split sum.split)

lemma created_job_of_key:
  assumes "out \<in> {HandleVideoGeneration a f run hi d, HandleImageGeneration a f run hi d, HandleSoraVideoCreate a f run ct form hi d}"
    "cc_Key (hi_Ctx hi) = Some owner" "k_ID owner \<noteq> ''''" "\<forall>r \<in> set (db_jobs d). jr_id r \<noteq> x"
    "\<And>d. job_of_key x (k_ID owner) (db_jobs d) \<Longrightarrow> job_of_key x (k_ID owner) (db_jobs (gr_meanwhile run d))"
  shows "job_of_key x (k_ID owner) (db_jobs (snd out))"
proof -
  have none: "job_of_key x (k_ID owner) (db_jobs d)" using assms(4) by (simp add: job_of_key_def)
  have served: "job_of_key x (k_ID owner) (db_jobs (snd (serve a run req d)))" if "rq_APIKeyID req = k_ID owner" for req
    by (rule serve_key_fresh [OF that assms(3,4,5)])
  have "rq_APIKeyID (sora_request_for a f (hi_Ctx hi) d sr) = k_ID owner" for sr
    using assms(2) by (simp add: sora_request_for_def request_for_def Let_def)
  then have "job_of_key x (k_ID owner) (db_jobs (snd (HandleSoraVideoCreate a f run ct form hi d)))"
    using none served [of "sora_request_for a f (hi_Ctx hi) d sr" for sr]
    by (fastforce simp: HandleSoraVideoCreate_def case_prod_beta split: sum.split)
  moreover have "job_of_key x (k_ID owner) (db_jobs (snd (HandleVideoGeneration a f run hi d)))"
    using none served intake_key(1) [of a f hi d] assms(2) by (auto simp: HandleVideoGeneration_def split: sum.split)
  moreover have "job_of_key x (k_ID owner) (db_jobs (snd (HandleImageGeneration a f run hi d)))"
    using none served intake_key(2) [of a f hi d] assms(2) by (auto simp: HandleImageGeneration_def split: sum.split)
  ultimately show ?thesis using assms(1) by blast
qed

lemma GetJob_owner:
  assumes "job_of_key x kid rows" "GetJob fail x rows = Ok j"
  shows "j_APIKeyID j = kid"
proof -
  obtain r where r: "find_row jr_id x rows = Some r" "j = job_of_row r"
    using assms(2) by (auto simp: GetJob_def scanJob_def split: option.splits)
  then show ?thesis using assms(1) find_row_SomeD [OF r(1)]
    by (auto simp: job_of_key_def job_of_row_def nullString_def)
qed

lemma listed_rows:
  assumes "ListByAPIKey fail kid flt rows = Ok js" "j \<in> set js"
  shows "\<exists>r \<in> set rows. j = job_of_row r \<and> jr_api_key_id r = Some kid"
proof -
  have "js = [] \<or> (\<exists>ys. js = map job_of_row (page (list_limit (jf_Limit flt)) (list_offset (jf_Offset flt))
      (sort_desc jr_request_ts (filter (\<lambda>r. jr_api_key_id r = Some kid \<and> window_where flt r) rows))))"
    using assms(1) by (auto simp: ListByAPIKey_def split: if_splits option.splits)
  then show ?thesis using assms(2)
    by (auto simp: page_def dest!: in_set_takeD in_set_dropD) blast
qed

lemma list_query_refusal:
  "parseJobsListQuery qs = Err r \<Longrightarrow> \<exists>kind msg. r = write_error 400 kind msg"
  by (auto simp: parseJobsListQuery_def parse_bound_def parse_limit_def parse_offset_def Let_def
      split: sum.splits if_splits option.splits)

lemma job_view_id: "job_with_data j = JObj m \<Longrightarrow> obj_get m ''id'' = Some (JStr (j_ID j))"
  by (auto simp: job_with_data_def jobView_def obj_get_def)

text \<open>C16. Jobs are private: the job a key creates, through the native routes or the Sora route, is
  never shown to another key, whatever the rest of the process does meanwhile short of
  creating a job of the same identifier: its state, its content and the lists of jobs all
  leave it out.\<close>

theorem jobs_are_private:
  assumes "out \<in> {HandleVideoGeneration a f run hi d, HandleImageGeneration a f run hi d, HandleSoraVideoCreate a f run ct form hi d}"
    "cc_Key (hi_Ctx hi) = Some owner" "k_ID owner \<noteq> ''''" "\<forall>r \<in> set (db_jobs d). jr_id r \<noteq> x"
    "\<And>d. job_of_key x (k_ID owner) (db_jobs d) \<Longrightarrow> job_of_key x (k_ID owner) (db_jobs (gr_meanwhile run d))"
    "cc_Key (hi_Ctx hi2) = Some other" "k_ID other \<noteq> k_ID owner"
  shows "(hi_Param hi2 = x \<longrightarrow> HandleJobFetch a f2 hi2 (snd out) \<notin> range (Reply 200) \<and>
      HandleSoraVideoGet a f2 hi2 (snd out) \<notin> range (Reply 200) \<and>
      HandleSoraVideoContent a f2 fetch rng hi2 (snd out) \<in> range ContentError) \<and>
    (\<forall>reply rows m. HandleJobsList a f2 hi2 (snd out) = Reply 200 (JObj reply) \<and> obj_get reply ''data'' = Some (JArr rows) \<and>
      JObj m \<in> set rows \<longrightarrow> obj_get m ''id'' \<noteq> Some (JStr x))"
proof -
  let ?rows = "db_jobs (snd out)"
  have own: "job_of_key x (k_ID owner) ?rows" by (rule created_job_of_key [OF assms(1-5)])
  have alien: "j_APIKeyID j = k_ID owner" if "GetJob fail x ?rows = Ok j" for fail j by (rule GetJob_owner [OF own that])
  have single: "hi_Param hi2 = x \<longrightarrow> HandleJobFetch a f2 hi2 (snd out) \<notin> range (Reply 200) \<and>
      HandleSoraVideoGet a f2 hi2 (snd out) \<notin> range (Reply 200) \<and>
      HandleSoraVideoContent a f2 fetch rng hi2 (snd out) \<in> range ContentError"
  proof (intro impI conjI)
    assume p: "hi_Param hi2 = x"
    show "HandleJobFetch a f2 hi2 (snd out) \<notin> range (Reply 200)"
      using alien assms(3,6,7) p
      by (auto simp: HandleJobFetch_def jobs_unavailable_def write_error_def split: if_splits sum.splits)
    have "\<exists>r. sora_job a f2 hi2 (snd out) = Err r \<and> r \<notin> range (Reply 200)"
      using alien assms(3,6,7) p
      by (auto simp: sora_job_def soraCallerOwns_def writeSoraError_def split: sum.split)
    then show "HandleSoraVideoGet a f2 hi2 (snd out) \<notin> range (Reply 200)"
      "HandleSoraVideoContent a f2 fetch rng hi2 (snd out) \<in> range ContentError"
      by (auto simp: HandleSoraVideoGet_def HandleSoraVideoContent_def)
  qed
  have "obj_get m ''id'' \<noteq> Some (JStr x)"
    if l: "HandleJobsList a f2 hi2 (snd out) = Reply 200 (JObj reply)" "obj_get reply ''data'' = Some (JArr rows)" "JObj m \<in> set rows"
    for reply rows m
  proof -
    obtain flt js where js: "ListByAPIKey (f2 AcJobsList) (k_ID other) flt ?rows = Ok js" "rows = map job_with_data js"
      using l(1,2) assms(6)
      by (auto simp: HandleJobsList_def jobs_unavailable_def write_error_def obj_get_def
          dest: list_query_refusal split: if_splits sum.splits)
    then obtain j where j: "j \<in> set js" "job_with_data j = JObj m" using l(3) by auto
    obtain r where r: "r \<in> set ?rows" "j = job_of_row r" "jr_api_key_id r = Some (k_ID other)"
      using listed_rows [OF js(1) j(1)] by blast
    have "jr_id r \<noteq> x" using own r assms(7) by (auto simp: job_of_key_def)
    then show "obj_get m ''id'' \<noteq> Some (JStr x)" using job_view_id [OF j(2)] r(2) by (simp add: job_of_row_def)
  qed
  then show ?thesis using single by blast
qed


section \<open>Witnesses\<close>

definition priced :: "string \<Rightarrow> int \<Rightarrow> catalog_spec" where
  "priced m cost = (build_spec [] [] no_catalogs zero_model)\<lparr> sp_Alias := m, sp_EstCostHundredths := cost \<rparr>"

definition two_models :: registry where
  "two_models = \<lparr> rg_byAlias = [(''c'', priced ''c'' 100), (''e'', priced ''e'' 9900)], rg_aliases = [], rg_locked = [],
     rg_overrides = [], rg_dynamicCosts = [] \<rparr>"

definition demo_api :: api where
  "demo_api = \<lparr> ap_Service = demo_service, ap_Registry = two_models, ap_Jobs = True, ap_Groups = False, ap_APIKeys = True,
     ap_Accounts = True, ap_Pricing = None, ap_SoraUploader = None \<rparr>"

definition demo_run :: gen_run where
  "demo_run = \<lparr> gr_faults = no_proxy_faults, gr_random = (\<lambda>_. 0), gr_now = 0, gr_end = 9, gr_uid = ''u'', gr_cfid = ''f'',
     gr_created = Ok \<lparr> cr_JobID = ''x'', cr_Cost = 1 \<rparr>, gr_final = Err (Sent ErrUpstreamTimeout), gr_meanwhile = id \<rparr>"

definition demo_in :: "call_ctx \<Rightarrow> string \<Rightarrow> string \<Rightarrow> http_in" where
  "demo_in ctx body path = \<lparr> hi_Body = Ok body, hi_Query = [], hi_Param = path, hi_Ctx = ctx \<rparr>"

lemma demo_in_fields [simp]:
  "hi_Body (demo_in ctx body path) = Ok body" "hi_Param (demo_in ctx body path) = path" "hi_Ctx (demo_in ctx body path) = ctx"
  "(demo_in ctx body path)\<lparr> hi_Body := Ok other \<rparr> = demo_in ctx other path"
  by (simp_all add: demo_in_def)

definition cheap_key :: "string \<Rightarrow> apikey" where "cheap_key i = (demo_key i)\<lparr> k_PlaygroundScope := ScopeCheap \<rparr>"

lemma cheap_key_fields [simp]: "k_ID (cheap_key i) = i" "k_PlaygroundScope (cheap_key i) = ScopeCheap"
  by (simp_all add: cheap_key_def demo_key_def)

definition as_key :: "string \<Rightarrow> call_ctx" where "as_key i = \<lparr> cc_Key = Some (cheap_key i), cc_Admin = False \<rparr>"

lemma two_models_resolve:
  "ResolveModel (ap_Registry demo_api) ''c'' = Ok (priced ''c'' 100)"
  "ResolveModel (ap_Registry demo_api) ''e'' = Ok (priced ''e'' 9900)"
  by (simp_all add: demo_api_def two_models_def ResolveModel_def resolve_own_def obj_get_def)

lemma letter_ascii: "ascii ''c''" "ascii ''e''" by (simp_all add: ascii_def byte_def)

theorem playground_scope_bypassed_witness:
  "\<exists>req. HandlePlaygroundExecute demo_api no_api_faults demo_run (demo_in (as_key ''k'') (smuggled ''e'' ''c'') '''') empty_db =
     answer (serve demo_api demo_run req empty_db) \<and> rq_Model req = ''e'' \<and> rq_APIKeyID req = ''k''"
proof -
  let ?hi = "demo_in (as_key ''k'') '''' ''''"
  have trim: "TrimSpace ''c'' \<noteq> ''''" "TrimSpace ''e'' \<noteq> ''''" by (simp_all add: TrimSpace_def is_space_def byte_def)
  have "escape 0 ''e'' = ''e''" "escape 0 ''c'' = ''c''"
    by (simp_all add: escape_ascii letter_ascii escape_char_def byte_def Let_def del: escape.simps)
  then have len: "length (smuggled ''e'' ''c'') + 14 \<le> 2 ^ 20"
    by (simp add: smuggled_def object_text_def member_text_def quote_def escape_names del: escape.simps)
  show ?thesis
    using playground_scope_bypassed [of ?hi "cheap_key ''k''" "''c''" "''e''" demo_api "priced ''c'' 100" "priced ''e'' 9900"
        no_api_faults demo_run empty_db] two_models_resolve letter_ascii trim len
    by (simp add: as_key_def priced_def PlaygroundCheapCapHundredths_def)
qed

definition admin_ctx :: call_ctx where "admin_ctx = \<lparr> cc_Key = None, cc_Admin = True \<rparr>"

text \<open>An administrator who names a key.\<close>

definition named :: "string \<Rightarrow> string \<Rightarrow> string" where
  "named m i = object_text [(''model'', m), (''as_api_key_id'', i)]"

definition key_db :: db where
  "key_db = empty_db\<lparr> db_keys := [insert_key_row 0 ((cheap_key ''k'')\<lparr> k_Status := KeyActive \<rparr>)] \<rparr>"

lemma ascii_as_key: "ascii ''as_api_key_id''" "ascii ''k''" by (simp_all add: ascii_def byte_def)

lemma peek_named: "peek (named ''c'' ''k'') = Ok (''c'', ''k'')"
proof -
  have "parse_json (named ''c'' ''k'') = Some (JObj [(''model'', JStr ''c''), (''as_api_key_id'', JStr ''k'')])"
    unfolding named_def by (subst parse_object_strings) (simp_all add: ascii_names letter_ascii ascii_as_key)
  moreover have "dec_peek (JObj [(''model'', JStr ''c''), (''as_api_key_id'', JStr ''k'')]) ('''', '''') = Some (''c'', ''k'')"
    unfolding dec_peek_def by (simp add: decode_strings del: fold_name.simps)
  moreover have "named ''c'' ''k'' \<noteq> ''''" by (simp add: named_def)
  ultimately show ?thesis by (simp add: peek_def unmarshal_def)
qed

theorem playground_charges_witness:
  "case HandlePlaygroundExecute demo_api no_api_faults demo_run (demo_in admin_ctx (named ''c'' ''k'') '''') key_db of
     (rep, d1) \<Rightarrow> d1 = key_db \<and> rep \<notin> range (Reply 200) \<or>
       (\<exists>req. answer (serve demo_api demo_run req key_db) = (rep, d1) \<and> rq_APIKeyID req = ''k'')"
proof -
  let ?hi = "demo_in admin_ctx (named ''c'' ''k'') ''''"
  have "playground_chain id (Some (\<lambda>t. t = ''adm'')) None (Some (db_keys key_db)) 5 10 0 ''Bearer adm'' [] = (Admit (hi_Ctx ?hi), [])"
    by (simp add: playground_chain_def PlaygroundAuth_def then_verdict_def limited_def RateLimitMiddleware_def
        PlaygroundGate_def admin_ctx_def fresh_ctx_def split: prod.split)
  note c = playground_charges [OF this]
  have t: "TrimSpace ''k'' = ''k''" by (simp add: TrimSpace_def is_space_def byte_def)
  have "escape 0 ''as_api_key_id'' = ''as_api_key_id''" "escape 0 ''c'' = ''c''" "escape 0 ''k'' = ''k''"
    by (simp_all add: escape_ascii ascii_as_key letter_ascii escape_char_def byte_def Let_def del: escape.simps)
  then have "length (named ''c'' ''k'') \<le> 2 ^ 20"
    by (simp add: named_def object_text_def member_text_def quote_def escape_names del: escape.simps)
  then have "readAll ?hi = Ok (named ''c'' ''k'')" by (simp add: readAll_def)
  then show ?thesis using c [of demo_api no_api_faults demo_run] peek_named t
    by (fastforce simp: admin_ctx_def split: prod.split)
qed

theorem jobs_are_private_witness:
  "HandleJobFetch demo_api no_api_faults (demo_in (as_key ''b'') '''' ''x'')
     (snd (HandleVideoGeneration demo_api no_api_faults demo_run (demo_in (as_key ''a'') (honest ''c'') '''') empty_db))
     \<notin> range (Reply 200)"
  using jobs_are_private [of "HandleVideoGeneration demo_api no_api_faults demo_run (demo_in (as_key ''a'') (honest ''c'') '''') empty_db"
      demo_api no_api_faults demo_run "demo_in (as_key ''a'') (honest ''c'') ''''" empty_db "''''" "Err json_error"
      "cheap_key ''a''" "''x''" "demo_in (as_key ''b'') '''' ''x''" "cheap_key ''b''" no_api_faults]
  by (simp add: as_key_def empty_db_def demo_run_def)

end
