(* ===== verification/SoraProps.thy ===== *)
theory SoraProps
  imports ApiProps
begin

text \<open>
  The Sora surface against the native one: a body that both understand starts the same
  generation and is answered with the same status, identifier, model and time.
\<close>

section \<open>Fields of a body whose members are spelled as documented\<close>

definition shared_keys :: "string list" where
  "shared_keys = [''model'', ''prompt'', ''async'', ''callback_url'', ''group_id'']"

definition field_value :: "object \<Rightarrow> string \<Rightarrow> 'a decoder \<Rightarrow> 'a \<Rightarrow> 'a option" where
  "field_value o1 name dec zero = (case map_of o1 name of None \<Rightarrow> Some zero | Some v \<Rightarrow> dec v zero)"

lemma fold_name_inj: "inj_on fold_name (set video_keys)"
  by (simp add: inj_on_def video_keys_def fold_names del: fold_name.simps)

lemma fold_field:
  assumes "distinct (map fst o1)" "inj_on fold_name (insert name (set (map fst o1)))"
  shows "fold (\<lambda>(k, v) acc. if fold_name k = fold_name name then Option.bind acc (dec v) else acc) o1 acc =
    (case map_of o1 name of None \<Rightarrow> acc | Some v \<Rightarrow> Option.bind acc (dec v))"
  using assms
proof (induction o1 arbitrary: acc)
  case (Cons kv o1)
  obtain k v where kv: "kv = (k, v)" by (cases kv)
  have inj: "inj_on fold_name (insert name (set (map fst o1)))"
    using Cons.prems(2) by (rule inj_on_subset) (auto simp: kv)
  have same: "fold_name k = fold_name name \<longleftrightarrow> k = name"
    using Cons.prems(2) by (auto simp: kv inj_on_def)
  have "k \<notin> fst ` set o1" using Cons.prems(1) by (simp add: kv)
  then have "map_of o1 k = None" by (simp add: map_of_eq_None_iff)
  then show ?case using Cons.IH [OF _ inj] Cons.prems(1) same by (auto simp: kv)
qed simp

lemma dec_field_exact:
  assumes "distinct (map fst o1)" "set (map fst o1) \<subseteq> set video_keys" "name \<in> set video_keys"
  shows "dec_field name dec zero o1 = field_value o1 name dec zero"
proof -
  have "inj_on fold_name (insert name (set (map fst o1)))"
    using fold_name_inj by (rule inj_on_subset) (use assms(2,3) in blast)
  from fold_field [OF assms(1) this, where acc = "Some zero" and dec = dec] show ?thesis
    by (simp add: dec_field_def field_value_def split: option.split)
qed

lemma obj_get_from:
  assumes "distinct (map fst o1)"
  shows "obj_get (map_from o1) k = map_of o1 k"
proof -
  have "map_of (rev o1) = map_of o1"
    using assms by (subst map_of_inject_set) (simp_all add: rev_map [symmetric])
  then show ?thesis by (simp add: map_from_rev [OF assms] obj_get_def)
qed

lemma known_field_value:
  assumes "distinct (map fst o1)"
  shows "known_field (map_from o1) name (decoded dec zero) zero =
    (case field_value o1 name dec zero of None \<Rightarrow> Err (Wrap name json_error) | Some x \<Rightarrow> Ok x)"
  by (auto simp: known_field_def obj_get_from [OF assms] field_value_def decoded_def split: option.split)

lemma known_field_absent:
  assumes "distinct (map fst o1)" "name \<notin> set (map fst o1)"
  shows "known_field (map_from o1) name dec zero = Ok zero" "obj_get (map_from o1) name = None"
proof -
  have "map_of o1 name = None" using assms(2) by (simp add: map_of_eq_None_iff)
  then show "known_field (map_from o1) name dec zero = Ok zero" "obj_get (map_from o1) name = None"
    by (simp_all add: known_field_def obj_get_from [OF assms(1)])
qed

section \<open>The two readings\<close>

lemma keys_map_from: "fst ` set (map_from o1) \<subseteq> fst ` set o1"
  using map_from_mem by blast

lemma both_readings:
  assumes raw: "parse_json raw = Some (JObj o1)" "distinct (map fst o1)" "set (map fst o1) \<subseteq> set shared_keys"
    and len: "length raw \<le> maxSoraJSONBody"
  obtains (bad) e1 e2 where "unmarshal dec_video zero_video raw = Err e1" "parseSoraJSON (Ok raw) = Err e2"
  | (good) m p s c g where
      "unmarshal dec_video zero_video raw = Ok \<lparr> vr_Model = m, vr_Prompt = p, vr_ImageURL = '''', vr_MediaID = '''',
         vr_Async = s, vr_CallbackURL = c, vr_GroupID = g \<rparr>"
      "parseSoraJSON (Ok raw) = Ok (zero_sora\<lparr> sr_Model := m, sr_Prompt := p, sr_GroupID := g, sr_Async := s,
         sr_AsyncSet := (map_of o1 ''async'' \<noteq> None), sr_CallbackURL := c \<rparr>, '''', '''')"
proof -
  let ?F = "field_value o1"
  have keys: "set (map fst o1) \<subseteq> set video_keys" using raw(3) by (auto simp: shared_keys_def video_keys_def)
  have miss: "name \<notin> set (map fst o1)" if "name \<notin> set shared_keys" for name using that raw(3) by blast
  have native: "unmarshal dec_video zero_video raw =
      (case do { m \<leftarrow> ?F ''model'' dec_string ''''; p \<leftarrow> ?F ''prompt'' dec_string ''''; s \<leftarrow> ?F ''async'' dec_bool False;
         c \<leftarrow> ?F ''callback_url'' dec_string ''''; g \<leftarrow> ?F ''group_id'' dec_string '''';
         Some \<lparr> vr_Model = m, vr_Prompt = p, vr_ImageURL = '''', vr_MediaID = '''', vr_Async = s, vr_CallbackURL = c, vr_GroupID = g \<rparr> }
       of None \<Rightarrow> Err json_error | Some vr \<Rightarrow> Ok vr)"
  proof -
    have s: "dec_field name dec_string '''' o1 = ?F name dec_string ''''" if "name \<in> set video_keys" for name
      by (rule dec_field_exact [OF raw(2) keys that])
    have b: "dec_field ''async'' dec_bool False o1 = ?F ''async'' dec_bool False"
      by (rule dec_field_exact [OF raw(2) keys]) (simp add: video_keys_def)
    have e: "?F ''image_url'' dec_string '''' = Some ''''" "?F ''media_id'' dec_string '''' = Some ''''"
      using miss [of "''image_url''"] miss [of "''media_id''"] map_of_eq_None_iff [of o1 "''image_url''"]
        map_of_eq_None_iff [of o1 "''media_id''"]
      by (simp_all add: shared_keys_def field_value_def)
    have names: "''model'' \<in> set video_keys" "''prompt'' \<in> set video_keys" "''image_url'' \<in> set video_keys"
      "''media_id'' \<in> set video_keys" "''callback_url'' \<in> set video_keys" "''group_id'' \<in> set video_keys"
      by (simp_all add: video_keys_def)
    show ?thesis
      unfolding unmarshal_def raw(1) dec_video_def dec_struct_def json.case option.case bind.bind_lunit
        names [THEN s] b e ..
  qed
  have no_pass: "passthrough (map_from o1) = []"
  proof -
    have "k \<in> set sora_keys" if "(k, v) \<in> set (map_from o1)" for k v
    proof -
      have "set shared_keys \<subseteq> set sora_keys" by (simp add: shared_keys_def sora_keys_def)
      moreover have "k \<in> fst ` set o1" using that keys_map_from [of o1] by (metis fst_conv imageI subsetD)
      ultimately show ?thesis using raw(3) by auto
    qed
    then have "\<forall>kv \<in> set (map_from o1). fst kv \<in> set sora_keys" by auto
    then show ?thesis by (simp add: passthrough_def List.map_filter_def filter_empty_conv case_prod_beta)
  qed
  have sora: "extractSoraKnownFields (map_from o1) =
     and_then (case ?F ''model'' dec_string '''' of None \<Rightarrow> Err (Wrap ''model'' json_error) | Some x \<Rightarrow> Ok x) (\<lambda>m.
     and_then (case ?F ''prompt'' dec_string '''' of None \<Rightarrow> Err (Wrap ''prompt'' json_error) | Some x \<Rightarrow> Ok x) (\<lambda>p.
     and_then (case ?F ''group_id'' dec_string '''' of None \<Rightarrow> Err (Wrap ''group_id'' json_error) | Some x \<Rightarrow> Ok x) (\<lambda>g.
     and_then (case ?F ''async'' dec_bool False of None \<Rightarrow> Err (Wrap ''async'' json_error) | Some x \<Rightarrow> Ok x) (\<lambda>s.
     and_then (case ?F ''callback_url'' dec_string '''' of None \<Rightarrow> Err (Wrap ''callback_url'' json_error) | Some x \<Rightarrow> Ok x) (\<lambda>c.
       Ok (zero_sora\<lparr> sr_Model := m, sr_Prompt := p, sr_GroupID := g, sr_Async := s,
         sr_AsyncSet := (map_of o1 ''async'' \<noteq> None), sr_CallbackURL := c \<rparr>))))))"
  proof -
    note absent = known_field_absent [OF raw(2) miss]
    have "known_field (map_from o1) ''extra_body'' (decoded (dec_map dec_any JNull) []) [] = Ok []"
      "known_field (map_from o1) ''input_reference'' (decoded dec_string '''') '''' = Ok ''''"
      "known_field (map_from o1) ''seconds'' parseIntOrStringInt 0 = Ok 0"
      "known_field (map_from o1) ''size'' dec_size (0, 0) = Ok (0, 0)"
      "obj_get (map_from o1) ''duration'' = None"
      by (rule absent; simp add: shared_keys_def)+
    then show ?thesis
      by (simp add: extractSoraKnownFields_def known_field_value [OF raw(2)] obj_get_from [OF raw(2)] and_then_def
          zero_sora_def Let_def cong: sum.case_cong)
  qed
  show ?thesis
  proof (cases "do { m \<leftarrow> ?F ''model'' dec_string ''''; p \<leftarrow> ?F ''prompt'' dec_string ''''; s \<leftarrow> ?F ''async'' dec_bool False;
         c \<leftarrow> ?F ''callback_url'' dec_string ''''; g \<leftarrow> ?F ''group_id'' dec_string ''''; Some (m, p, s, c, g) }")
    case None
    then have "\<exists>e. extractSoraKnownFields (map_from o1) = Err e"
      unfolding sora by (auto simp: and_then_def split: option.splits Option.bind_splits)
    moreover have "unmarshal dec_video zero_video raw = Err json_error"
      using None unfolding native by (auto split: Option.bind_splits)
    ultimately show ?thesis using bad len raw(1) by (auto simp: parseSoraJSON_def Let_def)
  next
    case (Some t)
    then obtain m p s c g where v: "?F ''model'' dec_string '''' = Some m" "?F ''prompt'' dec_string '''' = Some p"
        "?F ''async'' dec_bool False = Some s" "?F ''callback_url'' dec_string '''' = Some c" "?F ''group_id'' dec_string '''' = Some g"
      by (auto split: Option.bind_splits)
    have "parseSoraJSON (Ok raw) = Ok (zero_sora\<lparr> sr_Model := m, sr_Prompt := p, sr_GroupID := g, sr_Async := s,
         sr_AsyncSet := (map_of o1 ''async'' \<noteq> None), sr_CallbackURL := c \<rparr>, '''', '''')"
      using len raw(1) by (simp add: parseSoraJSON_def sora v and_then_def no_pass put_all_def zero_sora_def Let_def)
    then show ?thesis using good v by (simp add: native)
  qed
qed


section \<open>The same generation, the same answer\<close>

definition status_of :: "reply \<Rightarrow> int option" where
  "status_of r = (case r of Reply st body \<Rightarrow> Some st | Panicked \<Rightarrow> None)"

definition reply_member :: "string \<Rightarrow> reply \<Rightarrow> json option" where
  "reply_member k r = (case r of Reply st (JObj o1) \<Rightarrow> obj_get o1 k | _ \<Rightarrow> None)"

lemma error_status_agrees: "fst (sora_generate_error e) = fst (generation_error e)"
  by (simp add: sora_generate_error_def generation_error_def)

lemma unknown_none:
  assumes "parse_json raw = Some (JObj o1)" "set (map fst o1) \<subseteq> set video_keys"
  shows "unknown_members video_keys raw = []"
proof -
  let ?es = "map (\<lambda>(k, v). (k, lossy v)) o1"
  have "fst ` set (map_from ?es) \<subseteq> fst ` set o1"
    using keys_map_from [of ?es] by (force simp: image_image case_prod_beta)
  then have "\<forall>kv \<in> set (map_from ?es). fst kv \<in> set video_keys" using assms(2) by auto
  then show ?thesis
    by (simp add: unknown_members_def extra_map_def assms(1) filter_empty_conv case_prod_beta)
qed

lemma names_async_iff:
  assumes "parse_json raw = Some (JObj o1)" "distinct (map fst o1)"
  shows "names_async raw \<longleftrightarrow> map_of o1 ''async'' \<noteq> None"
proof -
  let ?es = "map (\<lambda>(k, v). (k, lossy v)) o1"
  have d: "distinct (map fst ?es)" using assms(2) by (simp add: comp_def case_prod_beta)
  have "map_of ?es ''async'' = map_option lossy (map_of o1 ''async'')" by (simp add: map_of_map)
  then show ?thesis by (simp add: names_async_def extra_map_def assms(1) obj_get_from [OF d])
qed

text \<open>C19. The two surfaces agree: a JSON body whose members are those both document, each once, is
  refused by both or starts on both the same generation, leaving the same tables, and is
  answered with the same status, identifier, model and creation time.\<close>

theorem sora_agrees_native:
  assumes "hi_Body hi = Ok raw" "length raw \<le> maxSoraJSONBody" "parse_json raw = Some (JObj o1)"
    "distinct (map fst o1)" "set (map fst o1) \<subseteq> set shared_keys" "\<not> has_prefix ct ''multipart/form-data''"
  shows "snd (HandleSoraVideoCreate a f run ct form hi d) = snd (HandleVideoGeneration a f run hi d) \<and>
    status_of (fst (HandleSoraVideoCreate a f run ct form hi d)) = status_of (fst (HandleVideoGeneration a f run hi d)) \<and>
    (\<forall>k \<in> {''id'', ''model'', ''created_at''}. reply_member k (fst (HandleSoraVideoCreate a f run ct form hi d)) =
       reply_member k (fst (HandleVideoGeneration a f run hi d)))"
proof -
  have all: "readAll hi = Ok raw" using assms(1,2) by (simp add: readAll_def maxSoraJSONBody_def)
  have parsed: "parseSoraRequest a ct form hi = and_then (parseSoraJSON (Ok raw)) (\<lambda>(sr, uct, bytes).
      if bytes = '''' then Ok sr
      else case ap_SoraUploader a of
        None \<Rightarrow> Err (Plain ''input_reference upload requires SoraUploader wiring on this deployment'')
      | Some upload \<Rightarrow> (case upload uct bytes of
          Inl e \<Rightarrow> Err (Wrap ''upload input_reference'' e) | Inr mid \<Rightarrow> Ok (sr\<lparr> sr_MediaID := mid \<rparr>)))"
    using assms(1,6) by (simp add: parseSoraRequest_def)
  note views = status_of_def reply_member_def write_error_def writeSoraError_def sora_error_member_def obj_get_def
  from assms(3,4,5,2) show ?thesis
  proof (cases rule: both_readings)
    case (bad e1 e2)
    have "video_intake a f hi d = Err (write_error 400 ''invalid_body'' (err_text e1))"
      by (simp add: video_intake_def all bad(1))
    moreover have "parseSoraRequest a ct form hi = Err e2" by (simp add: parsed bad(2) and_then_def)
    ultimately show ?thesis by (simp add: HandleSoraVideoCreate_def HandleVideoGeneration_def views)
  next
    case (good m p s c g)
    define sr where "sr = zero_sora\<lparr> sr_Model := m, sr_Prompt := p, sr_GroupID := g, sr_Async := s,
      sr_AsyncSet := (map_of o1 ''async'' \<noteq> None), sr_CallbackURL := c \<rparr>"
    have "set (map fst o1) \<subseteq> set video_keys" using assms(5) by (auto simp: shared_keys_def video_keys_def)
    then have req: "request_for a f (hi_Ctx hi) d m (put_all (unknown_members video_keys raw) (prompt_param p)) s
        (names_async raw) c g None = sora_request_for a f (hi_Ctx hi) d sr"
      using assms(3,4) by (simp add: unknown_none names_async_iff sora_request_for_def sora_params_def put_all_def
          sr_def zero_sora_def)
    have sora: "parseSoraRequest a ct form hi = Ok sr" by (simp add: parsed good(2) and_then_def sr_def)
    have model: "sr_Model sr = m" by (simp add: sr_def)
    show ?thesis
    proof (cases "m = ''''")
      case True
      have "video_intake a f hi d = Err (write_error 400 ''invalid_body'' ''model is required'')"
        by (simp add: video_intake_def all good(1) True)
      then show ?thesis
        by (simp add: HandleSoraVideoCreate_def HandleVideoGeneration_def sora model True views)
    next
      case False
      have native: "HandleVideoGeneration a f run hi d = answer (serve a run (sora_request_for a f (hi_Ctx hi) d sr) d)"
        using False by (simp add: HandleVideoGeneration_def video_intake_def all good(1) req)
      obtain out d1 where o: "serve a run (sora_request_for a f (hi_Ctx hi) d sr) d = (out, d1)" by force
      show ?thesis
      proof (cases out)
        case (Inl e)
        then show ?thesis using error_status_agrees [of e] False
          by (simp add: HandleSoraVideoCreate_def native sora model o answer_def writeGenerationError_def
              writeSoraGenerateError_def views case_prod_beta)
      next
        case (Inr r)
        then show ?thesis using False
          by (simp add: HandleSoraVideoCreate_def native sora model o answer_def response_json_def
              soraViewFromProxyResp_def status_of_def reply_member_def obj_get_def)
      qed
    qed
  qed
qed


theorem sora_agrees_native_witness:
  "snd (HandleSoraVideoCreate demo_api no_api_faults demo_run ''application/json'' (Err json_error)
      (demo_in (as_key ''k'') (honest ''c'') '''') empty_db) =
    snd (HandleVideoGeneration demo_api no_api_faults demo_run (demo_in (as_key ''k'') (honest ''c'') '''') empty_db)"
proof -
  have "escape 0 ''c'' = ''c''" by (simp add: escape_ascii letter_ascii escape_char_def byte_def Let_def del: escape.simps)
  then have "length (honest ''c'') \<le> maxSoraJSONBody"
    by (simp add: honest_def object_text_def member_text_def quote_def escape_names maxSoraJSONBody_def del: escape.simps)
  then show ?thesis
    using sora_agrees_native [of "demo_in (as_key ''k'') (honest ''c'') ''''" "honest ''c''" "[(''model'', JStr ''c'')]" "''application/json''"
        demo_api no_api_faults demo_run "Err json_error" empty_db] parse_honest [OF letter_ascii(1)]
    by (simp add: shared_keys_def has_prefix_def)
qed

end
