(* ===== verification/Downstream.thy ===== *)
theory Downstream
  imports Generation "HOL-Library.Product_Lexorder" "HOL-Library.Monad_Syntax"
begin

text \<open>
  The price feed for resellers, \<open>internal/api/v1/downstream_pricing.go\<close>: the merge of scraped
  prices with the operator's decisions, and the compilation of a model's variants into one
  billing expression.  The maps of the merge are walked in an order Go leaves open; the two
  orders are parameters.  The second half is the language of \<open>docs/PRICING-DOWNSTREAM-CONTRACT.md\<close>:
  a parser for it, its meaning, and what the compiled text means in it.
\<close>

section \<open>Merging\<close>

record pricing_row =
  pw_ModelAlias :: string
  pw_Unit :: string
  pw_PriceMicros :: int
  pw_OfficialPriceMicros :: int
  pw_Resolution :: string
  pw_DurationSeconds :: int
  pw_Mode :: string
  pw_Audio :: string

text \<open>Alias, resolution, audio, mode, unit.\<close>

type_synonym variant = "string \<times> string \<times> string \<times> string \<times> string"

definition observation_key :: "official_price \<Rightarrow> variant" where
  "observation_key p = (opo_ModelAlias p, opo_Resolution p, opo_Audio p, opo_Mode p, opo_Unit p)"

definition decision_key :: "price_decision \<Rightarrow> variant" where
  "decision_key p = (mpd_ModelAlias p, mpd_Resolution p, mpd_Audio p, mpd_Mode p, mpd_Unit p)"

text \<open>\<open>strings.EqualFold\<close>, on ASCII names.\<close>

definition alias_wanted :: "string \<Rightarrow> string \<Rightarrow> bool" where
  "alias_wanted flt name \<longleftrightarrow> flt = '''' \<or> fold_name name = fold_name flt"

definition usable_observation :: "string \<Rightarrow> official_price \<Rightarrow> bool" where
  "usable_observation flt p \<longleftrightarrow> opo_ModelAlias p \<noteq> '''' \<and> 0 < opo_PriceMicros p \<and> \<not> opo_Estimated p \<and>
     alias_wanted flt (opo_ModelAlias p)"

definition usable_decision :: "string \<Rightarrow> price_decision \<Rightarrow> bool" where
  "usable_decision flt p \<longleftrightarrow> mpd_ModelAlias p \<noteq> '''' \<and> 0 < mpd_PriceMicros p \<and> alias_wanted flt (mpd_ModelAlias p)"

text \<open>The first observation of a variant counts, and the last decision.\<close>

definition observationByKey :: "string \<Rightarrow> official_price list \<Rightarrow> variant \<Rightarrow> official_price option" where
  "observationByKey flt ps k = find (\<lambda>p. usable_observation flt p \<and> observation_key p = k) ps"

definition overrideByKey :: "string \<Rightarrow> price_decision list \<Rightarrow> variant \<Rightarrow> price_decision option" where
  "overrideByKey flt ds k = find (\<lambda>p. usable_decision flt p \<and> decision_key p = k) (rev ds)"

definition observed_row :: "official_price \<Rightarrow> pricing_row" where
  "observed_row p = \<lparr> pw_ModelAlias = opo_ModelAlias p, pw_Unit = opo_Unit p, pw_PriceMicros = opo_PriceMicros p,
     pw_OfficialPriceMicros = opo_PriceMicros p, pw_Resolution = opo_Resolution p,
     pw_DurationSeconds = opo_DurationSeconds p, pw_Mode = opo_Mode p, pw_Audio = opo_Audio p \<rparr>"

definition override_pricing_row :: "official_price option \<Rightarrow> price_decision \<Rightarrow> pricing_row" where
  "override_pricing_row obs p = \<lparr> pw_ModelAlias = mpd_ModelAlias p, pw_Unit = mpd_Unit p, pw_PriceMicros = mpd_PriceMicros p,
     pw_OfficialPriceMicros = (case obs of None \<Rightarrow> mpd_PriceMicros p | Some ob \<Rightarrow> opo_PriceMicros ob),
     pw_Resolution = mpd_Resolution p, pw_DurationSeconds = mpd_DurationSeconds p, pw_Mode = mpd_Mode p,
     pw_Audio = mpd_Audio p \<rparr>"

text \<open>All rows of the feed in the order they are appended.\<close>

definition mergeObservationsAndOverrides ::
  "(variant list \<Rightarrow> variant list) \<Rightarrow> (variant list \<Rightarrow> variant list) \<Rightarrow> official_price list \<Rightarrow> price_decision list
     \<Rightarrow> string \<Rightarrow> pricing_row list" where
  "mergeObservationsAndOverrides walk1 walk2 ps ds flt =
     (let obs = observationByKey flt ps; ovr = overrideByKey flt ds;
          pass1 = filter (\<lambda>k. ovr k = None) (walk1 (remdups (map observation_key (filter (usable_observation flt) ps))));
          pass2 = filter (\<lambda>k. k \<notin> set pass1) (walk2 (remdups (map decision_key (filter (usable_decision flt) ds))))
      in List.map_filter (\<lambda>k. map_option observed_row (obs k)) pass1 @
         List.map_filter (\<lambda>k. map_option (override_pricing_row (obs k)) (ovr k)) pass2)"

section \<open>Compiling a model\<close>

record dsl_tier =
  dt_resolution :: string
  dt_audio :: string
  dt_mode :: string
  dt_label :: string
  dt_fixed :: int
  dt_note :: string

text \<open>The middle dot between the parts of a label or a note.\<close>

definition dot :: string where "dot = '' '' @ [char_of (194::nat), char_of (183::nat)] @ '' ''"

definition tierLabelFrom :: "string \<Rightarrow> string \<Rightarrow> string \<Rightarrow> string" where
  "tierLabelFrom resolution audio mode =
     (let parts = (if resolution \<noteq> '''' then [resolution] else []) @
            (if audio \<noteq> '''' then [''audio='' @ audio] else []) @ (if mode \<noteq> '''' then [''mode='' @ mode] else [])
      in if parts = [] then ''default'' else join_with dot parts)"

definition folded :: "pricing_row \<Rightarrow> int \<Rightarrow> int" where
  "folded r n = (if pw_Unit r = ''per_second'' \<and> pw_DurationSeconds r > 0 then wrap64 (n * pw_DurationSeconds r) else n)"

definition tier_note :: "pricing_row \<Rightarrow> string" where
  "tier_note r = join_with dot
     ([pw_Unit r] @
      (if pw_DurationSeconds r > 0 then [''duration_seconds='' @ itoa (pw_DurationSeconds r)] else []) @
      (let off = folded r (pw_OfficialPriceMicros r)
       in if off > 0 \<and> off \<noteq> folded r (pw_PriceMicros r) then [''official_micros='' @ itoa off] else []))"

definition tier_of :: "pricing_row \<Rightarrow> dsl_tier" where
  "tier_of r = \<lparr> dt_resolution = pw_Resolution r, dt_audio = pw_Audio r, dt_mode = pw_Mode r,
     dt_label = tierLabelFrom (pw_Resolution r) (pw_Audio r) (pw_Mode r), dt_fixed = folded r (pw_PriceMicros r),
     dt_note = tier_note r \<rparr>"

definition bucket :: "dsl_tier \<Rightarrow> string" where
  "bucket t = dt_resolution t @ ''|'' @ dt_audio t @ ''|'' @ dt_mode t"

text \<open>One tier per bucket, at the place of the first, with the content of the last.\<close>

definition upsert_tier :: "dsl_tier \<Rightarrow> dsl_tier list \<Rightarrow> dsl_tier list" where
  "upsert_tier t ts = (if bucket t \<in> bucket ` set ts then map (\<lambda>u. if bucket u = bucket t then t else u) ts else ts @ [t])"

definition unique_tiers :: "pricing_row list \<Rightarrow> dsl_tier list" where
  "unique_tiers rows = fold (\<lambda>r. upsert_tier (tier_of r)) rows []"

definition resolutionRank :: "string \<Rightarrow> int" where
  "resolutionRank r = (case map_of [(''4k'', 400), (''2160p'', 400), (''1440p'', 300), (''2k'', 300), (''1080p'', 200),
     (''768p'', 150), (''720p'', 100), (''512p'', 80), (''480p'', 50)] (toLower r) of None \<Rightarrow> 0 | Some n \<Rightarrow> n)"

definition audioRank :: "string \<Rightarrow> int" where
  "audioRank a = (if a = ''on'' then 3 else if a = ''voice_control'' then 2 else if a = ''off'' then 1 else 0)"

text \<open>What the comparison function compares, in its order.  \<open>sort.Slice\<close> is not stable, but two
  tiers compare equal only when an audio value is not one of the three ranked ones.\<close>

definition tier_key :: "dsl_tier \<Rightarrow> bool \<times> int \<times> string \<times> int \<times> string" where
  "tier_key t = (dt_resolution t = '''', - resolutionRank (dt_resolution t), dt_resolution t, - audioRank (dt_audio t), dt_mode t)"

definition ordered_tiers :: "pricing_row list \<Rightarrow> dsl_tier list" where
  "ordered_tiers rows = sort_key tier_key (unique_tiers rows)"

definition note_char :: "char \<Rightarrow> string" where
  "note_char c = (if c = CHR 0x5C then [CHR 0x5C, CHR 0x5C] else if c = CHR 0x22 then [CHR 0x5C, CHR 0x22] else [c])"

definition quoteNote :: "string \<Rightarrow> string" where
  "quoteNote s = CHR 0x22 # concat (map note_char s) @ [CHR 0x22]"

definition clause :: "string \<Rightarrow> string \<Rightarrow> string list" where
  "clause axis v = (if v = '''' then [] else [''has(param('' @ quoteNote axis @ ''),'' @ quoteNote v @ '')''])"

definition buildGuard :: "dsl_tier \<Rightarrow> string" where
  "buildGuard t = join_with '' && ''
     (clause ''resolution'' (dt_resolution t) @ clause ''audio'' (dt_audio t) @ clause ''mode'' (dt_mode t))"

definition call_text :: "string \<Rightarrow> int \<Rightarrow> string \<Rightarrow> string" where
  "call_text label fixed note = ''tier('' @ quoteNote label @ '', '' @ itoa fixed @ '', '' @ quoteNote note @ '')''"

definition fallbackTier :: string where "fallbackTier = call_text ''unpriced'' 0 ''no matching variant''"

definition wrap_tier :: "dsl_tier \<Rightarrow> string \<Rightarrow> string" where
  "wrap_tier t rest =
     (let call = call_text (dt_label t) (dt_fixed t) (dt_note t); guard = buildGuard t
      in if guard = '''' then call @ '' : '' @ rest else guard @ '' ? '' @ call @ '' : '' @ rest)"

definition buildBillingExpr :: "pricing_row list \<Rightarrow> string" where
  "buildBillingExpr rows = (if rows = [] then '''' else foldr wrap_tier (ordered_tiers rows) fallbackTier)"

section \<open>The feed\<close>

definition model_official :: "pricing_row list \<Rightarrow> int" where
  "model_official rows = fold (\<lambda>r best.
     if pw_OfficialPriceMicros r \<le> 0 then best
     else let off = folded r (pw_OfficialPriceMicros r) in if best = 0 \<or> off < best then off else best) rows 0"

definition feed_item :: "string \<Rightarrow> pricing_row list \<Rightarrow> json" where
  "feed_item malias rows = JObj
     ([(''model_name'', JStr malias), (''quota_type'', jnum 2), (''billing_mode'', JStr ''tiered_expr''),
       (''billing_expr'', JStr (buildBillingExpr rows))] @
      (if model_official rows = 0 then [] else [(''official_price_micros'', jnum (model_official rows))]) @
      [(''lifecycle'', JObj [(''status'', JStr ''active'')])])"

definition HandleDownstreamPricing ::
  "api \<Rightarrow> api_faults \<Rightarrow> (variant list \<Rightarrow> variant list) \<Rightarrow> (variant list \<Rightarrow> variant list) \<Rightarrow> string \<Rightarrow> http_in \<Rightarrow> reply" where
  "HandleDownstreamPricing a f walk1 walk2 generated hi = (case ap_Pricing a of
     None \<Rightarrow> write_error 503 ''pricing_store_unavailable'' ''pricing persistence is not configured''
   | Some p \<Rightarrow> (case ListAllOfficialPrices (f AcSnapshot) p of
       Inl e \<Rightarrow> write_error 500 ''pricing_read_failed'' (err_text e)
     | Inr ps \<Rightarrow> (case ListLatestPriceDecisions (f AcRules) p of
         Inl e \<Rightarrow> write_error 500 ''pricing_read_failed'' (err_text e)
       | Inr ds \<Rightarrow>
          (let rows = mergeObservationsAndOverrides walk1 walk2 ps ds (TrimSpace (query_get (hi_Query hi) ''model''));
               names = remdups_adj (sort (map pw_ModelAlias rows))
           in Reply 200 (JObj [(''success'', JBool True), (''generated_at'', JStr generated),
                (''data'', JArr (map (\<lambda>n. feed_item n (filter (\<lambda>r. pw_ModelAlias r = n) rows)) names))])))))"

section \<open>The language of the contract\<close>

text \<open>
  Section 6.2 of \<open>docs/PRICING-DOWNSTREAM-CONTRACT.md\<close> gives the grammar, section 5 the meaning:
  a guard compares a dimension of the request with a value by exact equality, an omitted
  dimension is the empty string, the first tier whose guard holds is charged.  A parsed guard
  is a disjunction of conjunctions of comparisons.
\<close>

type_synonym tier_value = "string \<times> int \<times> string"
type_synonym comparison = "string \<times> string"

datatype billing = Tier tier_value | Choose "comparison list list" tier_value billing

definition has_holds :: "(string \<Rightarrow> string) \<Rightarrow> comparison \<Rightarrow> bool" where
  "has_holds req c \<longleftrightarrow> req (fst c) = snd c"

fun charge :: "(string \<Rightarrow> string) \<Rightarrow> billing \<Rightarrow> tier_value" where
  "charge req (Tier v) = v"
| "charge req (Choose g v e) = (if list_ex (list_all (has_holds req)) g then v else charge req e)"

text \<open>The pieces of the parser: blanks, fixed words, quoted strings with the two escapes, integers.\<close>

definition skip :: "string \<Rightarrow> string" where "skip s = dropWhile (\<lambda>c. c = CHR '' '') s"

definition expect :: "string \<Rightarrow> string \<Rightarrow> string option" where
  "expect w s = (let r = skip s in if take (length w) r = w then Some (drop (length w) r) else None)"

fun unquote :: "string \<Rightarrow> (string \<times> string) option" where
  "unquote [] = None"
| "unquote (c # s) =
     (if c = CHR 0x22 then Some ([], s)
      else if c = CHR 0x5C then (case s of [] \<Rightarrow> None | d # r \<Rightarrow> map_option (apfst ((#) d)) (unquote r))
      else map_option (apfst ((#) c)) (unquote s))"

definition quoted :: "string \<Rightarrow> (string \<times> string) option" where
  "quoted s = do { s \<leftarrow> expect [CHR 0x22] s; unquote s }"

definition is_digit_char :: "char \<Rightarrow> bool" where "is_digit_char c \<longleftrightarrow> c \<in> set ''0123456789''"

definition natural :: "string \<Rightarrow> (nat \<times> string) option" where
  "natural s = (let ds = takeWhile is_digit_char s
     in if ds = [] then None else map_option (\<lambda>n. (n, dropWhile is_digit_char s)) (digits_val 0 ds))"

definition integer_text :: "string \<Rightarrow> (int \<times> string) option" where
  "integer_text s = (case expect ''-'' s of
     Some r \<Rightarrow> map_option (apfst (\<lambda>n. - int n)) (natural r)
   | None \<Rightarrow> map_option (apfst int) (natural (skip s)))"

definition tier_call :: "string \<Rightarrow> (tier_value \<times> string) option" where
  "tier_call s = do {
     s \<leftarrow> expect ''tier'' s; s \<leftarrow> expect ''('' s; (l, s) \<leftarrow> quoted s; s \<leftarrow> expect '','' s;
     (n, s) \<leftarrow> integer_text s; s \<leftarrow> expect '','' s; (t, s) \<leftarrow> quoted s; s \<leftarrow> expect '')'' s;
     Some ((l, n, t), s) }"

definition comparison_text :: "string \<Rightarrow> (comparison \<times> string) option" where
  "comparison_text s = do {
     s \<leftarrow> expect ''has'' s; s \<leftarrow> expect ''('' s; s \<leftarrow> expect ''param'' s; s \<leftarrow> expect ''('' s;
     (d, s) \<leftarrow> quoted s; s \<leftarrow> expect '')'' s; s \<leftarrow> expect '','' s; (v, s) \<leftarrow> quoted s; s \<leftarrow> expect '')'' s;
     Some ((d, v), s) }"

text \<open>The fuel is the length of the text: every step consumes a character.\<close>

fun conjunction :: "nat \<Rightarrow> string \<Rightarrow> (comparison list \<times> string) option" where
  "conjunction 0 s = None"
| "conjunction (Suc n) s = do {
     (c, s) \<leftarrow> comparison_text s;
     case expect ''&&'' s of
       None \<Rightarrow> Some ([c], s)
     | Some r \<Rightarrow> map_option (apfst ((#) c)) (conjunction n r) }"

fun disjunction :: "nat \<Rightarrow> string \<Rightarrow> (comparison list list \<times> string) option" where
  "disjunction 0 s = None"
| "disjunction (Suc n) s = do {
     (g, s) \<leftarrow> conjunction (Suc n) s;
     case expect ''||'' s of
       None \<Rightarrow> Some ([g], s)
     | Some r \<Rightarrow> map_option (apfst ((#) g)) (disjunction n r) }"

fun expression :: "nat \<Rightarrow> string \<Rightarrow> (billing \<times> string) option" where
  "expression 0 s = None"
| "expression (Suc n) s = (case tier_call s of
     Some (v, s) \<Rightarrow> Some (Tier v, s)
   | None \<Rightarrow> do {
       (g, s) \<leftarrow> disjunction (Suc n) s; s \<leftarrow> expect ''?'' s; (v, s) \<leftarrow> tier_call s; s \<leftarrow> expect '':'' s;
       (e, s) \<leftarrow> expression n s; Some (Choose g v e, s) })"

definition parse_billing :: "string \<Rightarrow> billing option" where
  "parse_billing s = (case expression (length s) s of
     Some (e, r) \<Rightarrow> if skip r = '''' then Some e else None
   | None \<Rightarrow> None)"

text \<open>What a tier stands for, and the expression the tiers of a model stand for.\<close>

definition tier_dims :: "dsl_tier \<Rightarrow> comparison list" where
  "tier_dims t = filter (\<lambda>c. snd c \<noteq> '''')
     [(''resolution'', dt_resolution t), (''audio'', dt_audio t), (''mode'', dt_mode t)]"

definition tier_value_of :: "dsl_tier \<Rightarrow> tier_value" where
  "tier_value_of t = (dt_label t, dt_fixed t, dt_note t)"

definition unpriced :: tier_value where "unpriced = (''unpriced'', 0, ''no matching variant'')"

definition billing_of :: "dsl_tier list \<Rightarrow> billing" where
  "billing_of ts = foldr (\<lambda>t. Choose [tier_dims t] (tier_value_of t)) ts (Tier unpriced)"

section \<open>The text reads back as the tiers\<close>

lemma expect_append: "w \<noteq> '''' \<Longrightarrow> hd w \<noteq> CHR '' '' \<Longrightarrow> expect w (w @ s) = Some s"
  by (cases w) (simp_all add: expect_def skip_def)

lemma expect_blank: "expect w (CHR '' '' # s) = expect w s"
  by (simp add: expect_def skip_def)

lemma unquote_note: "unquote (concat (map note_char v) @ CHR 0x22 # s) = Some (v, s)"
  by (induction v) (simp_all add: note_char_def)

lemma quoted_note: "quoted (quoteNote v @ s) = Some (v, s)"
  using expect_append [of "[CHR 0x22]" "concat (map note_char v) @ CHR 0x22 # s"] unquote_note [of v s]
  by (simp add: quoted_def quoteNote_def)

lemma quoted_note_blank: "quoted (CHR '' '' # quoteNote v @ s) = Some (v, s)"
  using quoted_note [of v s] by (simp add: quoted_def expect_blank)

lemma digit_char_digit: "is_digit_char (digit_char n)"
  using digit_cases [of "n mod 10"] by (auto simp: is_digit_char_def digit_char_def)

lemma itoa_nat_digits: "list_all is_digit_char (itoa_nat n)"
proof (induction n rule: itoa_nat.induct)
  case (1 n)
  then show ?case by (subst itoa_nat.simps) (auto simp: digit_char_digit)
qed

lemma natural_itoa_nat: "s = '''' \<or> \<not> is_digit_char (hd s) \<Longrightarrow> natural (itoa_nat n @ s) = Some (n, s)"
proof -
  assume s: "s = '''' \<or> \<not> is_digit_char (hd s)"
  have d: "\<forall>c\<in>set (itoa_nat n). is_digit_char c" using itoa_nat_digits [of n] by (simp add: list_all_iff)
  have t: "takeWhile is_digit_char s = ''''" "dropWhile is_digit_char s = s" using s by (cases s; simp)+
  have "itoa_nat n \<noteq> ''''" using itoa_nat_head [of n] by auto
  then show ?thesis
    using d t digits_val_itoa [of n] by (simp add: natural_def takeWhile_append2 dropWhile_append2)
qed

lemma integer_text_itoa:
  "s = '''' \<or> \<not> is_digit_char (hd s) \<Longrightarrow> integer_text (CHR '' '' # itoa i @ s) = Some (i, s)"
proof -
  assume s: "s = '''' \<or> \<not> is_digit_char (hd s)"
  have p: "expect ''-'' (itoa_nat n @ s) = None \<and> skip (itoa_nat n @ s) = itoa_nat n @ s" for n
    using itoa_nat_head [of n] itoa_nat_digits [of n]
    by (auto simp: expect_def skip_def is_digit_char_def)
  have m: "expect ''-'' (CHR ''-'' # r) = Some r" for r using expect_append [of "''-''" r] by simp
  show ?thesis
    using p [of "nat i"] natural_itoa_nat [OF s, of "nat i"] natural_itoa_nat [OF s, of "nat (- i)"] m
    by (simp add: integer_text_def expect_blank itoa_def skip_def)
qed


text \<open>Each word of the compiled text, followed by anything.\<close>

lemma expect_Cons:
  "expect [] s = Some (skip s)"
  "c \<noteq> CHR '' '' \<Longrightarrow> expect (c # w) (c # s) = (if take (length w) s = w then Some (drop (length w) s) else None)"
  "c \<noteq> d \<Longrightarrow> d \<noteq> CHR '' '' \<Longrightarrow> expect (c # w) (d # s) = None"
  by (simp_all add: expect_def skip_def)

lemma tier_call_text: "tier_call (call_text l n t @ s) = Some ((l, n, t), s)"
proof -
  have i: "integer_text (CHR '' '' # itoa n @ CHR '','' # r) = Some (n, CHR '','' # r)" for r
    by (rule integer_text_itoa) (simp add: is_digit_char_def)
  show ?thesis
    by (simp add: tier_call_def call_text_def expect_Cons quoted_note quoted_note_blank i)
qed

lemma tier_call_blank: "tier_call (CHR '' '' # s) = tier_call s"
  by (simp add: tier_call_def expect_blank)

definition comparison_out :: "comparison \<Rightarrow> string" where
  "comparison_out c = ''has(param('' @ quoteNote (fst c) @ ''),'' @ quoteNote (snd c) @ '')''"

lemma comparison_text_out: "comparison_text (comparison_out c @ s) = Some (c, s)"
  by (simp add: comparison_text_def comparison_out_def expect_Cons quoted_note)

lemma comparison_text_blank: "comparison_text (CHR '' '' # s) = comparison_text s"
  by (simp add: comparison_text_def expect_blank)

lemma tier_call_comparison: "tier_call (comparison_out c @ s) = None"
  by (simp add: tier_call_def comparison_out_def expect_Cons)

lemma buildGuard_dims: "buildGuard t = join_with '' && '' (map comparison_out (tier_dims t))"
  by (simp add: buildGuard_def tier_dims_def clause_def comparison_out_def)

lemma join_with_Cons: "xs \<noteq> [] \<Longrightarrow> join_with sep (x # xs) = x @ sep @ join_with sep xs"
  by (cases xs) auto

lemma conjunction_blank: "conjunction n (CHR '' '' # s) = conjunction n s"
  by (cases n) (simp_all add: comparison_text_blank)

lemma disjunction_blank: "disjunction n (CHR '' '' # s) = disjunction n s"
  using conjunction_blank [of _ s] by (cases n) (simp_all del: conjunction.simps)

lemma conjunction_out:
  "cs \<noteq> [] \<Longrightarrow> length cs \<le> n \<Longrightarrow> expect ''&&'' s = None
     \<Longrightarrow> conjunction n (join_with '' && '' (map comparison_out cs) @ s) = Some (cs, s)"
proof (induction cs arbitrary: n)
  case (Cons c cs)
  then obtain m where n: "n = Suc m" "length cs \<le> m" by (cases n) auto
  show ?case
  proof (cases "cs = []")
    case True
    then show ?thesis using n Cons.prems by (simp add: comparison_text_out)
  next
    case False
    have c: "conjunction m (join_with '' && '' (map comparison_out cs) @ s) = Some (cs, s)"
      using Cons.IH [OF False n(2) Cons.prems(3)] .
    show ?thesis using False n
      by (simp add: join_with_Cons comparison_text_out expect_blank expect_Cons conjunction_blank c)
  qed
qed simp

text \<open>A tier without a dimension has no guard, and the text goes on behind it.\<close>

lemma tier_dims_guard: "tier_dims t = [] \<longleftrightarrow> buildGuard t = ''''"
proof -
  have "comparison_out c \<noteq> ''''" for c by (simp add: comparison_out_def)
  then have "join_with '' && '' (map comparison_out cs) = '''' \<longleftrightarrow> cs = []" for cs
    by (cases cs; cases "tl cs") auto
  then show ?thesis by (simp add: buildGuard_dims)
qed

lemma disjunction_guard:
  "tier_dims t \<noteq> [] \<Longrightarrow> 3 \<le> n \<Longrightarrow> disjunction n (buildGuard t @ '' ? '' @ s) = Some ([tier_dims t], '' ? '' @ s)"
proof -
  assume t: "tier_dims t \<noteq> []" "3 \<le> n"
  then obtain m where n: "n = Suc m" by (cases n) auto
  have "length (tier_dims t) \<le> n" using t(2) le_trans [OF length_filter_le] by (simp add: tier_dims_def)
  then have "conjunction n (buildGuard t @ '' ? '' @ s) = Some (tier_dims t, '' ? '' @ s)"
    using conjunction_out [OF t(1)] by (simp add: buildGuard_dims expect_def skip_def)
  then show ?thesis using n by (simp add: expect_def skip_def del: conjunction.simps)
qed

lemma tier_call_guard: "tier_dims t \<noteq> [] \<Longrightarrow> tier_call (buildGuard t @ s) = None"
proof -
  assume "tier_dims t \<noteq> []"
  then obtain c cs where "tier_dims t = c # cs" by (cases "tier_dims t") auto
  then show ?thesis
    by (cases cs) (simp_all add: buildGuard_dims join_with_Cons tier_call_comparison)
qed

text \<open>Code in front: one dimensioned tier, then whatever the rest reads as.\<close>

lemma expression_wrap:
  assumes "tier_dims t \<noteq> []" "3 \<le> n"
  shows "expression (Suc n) (wrap_tier t s) =
    map_option (apfst (Choose [tier_dims t] (tier_value_of t))) (expression n s)"
proof -
  let ?call = "call_text (dt_label t) (dt_fixed t) (dt_note t)"
  have w: "wrap_tier t s = buildGuard t @ '' ? '' @ ?call @ '' : '' @ s"
    using assms tier_dims_guard [of t] by (simp add: wrap_tier_def Let_def)
  have b: "expression k (CHR '' '' # r) = expression k r" for k r
    using disjunction_blank [of _ r] by (cases k) (simp_all add: tier_call_blank del: disjunction.simps split: option.split)
  have d: "disjunction (Suc n) (buildGuard t @ '' ? '' @ r) = Some ([tier_dims t], '' ? '' @ r)" for r
    using disjunction_guard [OF assms(1)] assms(2) by (simp del: disjunction.simps)
  have q: "expect ''?'' ('' ? '' @ r) = Some ('' '' @ r)" "expect '':'' ('' : '' @ r) = Some ('' '' @ r)" for r
    by (simp_all add: expect_def skip_def)
  have c: "tier_call ('' '' @ ?call @ r) = Some (tier_value_of t, r)" for r
    by (simp add: tier_call_blank tier_call_text tier_value_of_def)
  show ?thesis
    using d q c b [of n s] assms
    by (simp add: w tier_call_guard del: disjunction.simps append.simps)
      (simp add: map_option_case apfst_def split: option.split)
qed

lemma wrap_tier_longer: "length s < length (wrap_tier t s)"
  by (simp add: wrap_tier_def Let_def)

lemma chain_length: "length ts + 6 \<le> length (foldr wrap_tier ts fallbackTier)"
proof (induction ts)
  case Nil
  show ?case by (simp add: fallbackTier_def call_text_def)
next
  case (Cons t ts)
  then show ?case using wrap_tier_longer [of "foldr wrap_tier ts fallbackTier" t] by simp
qed

lemma expression_chain:
  "\<forall>t\<in>set ts. tier_dims t \<noteq> [] \<Longrightarrow> length ts + 3 \<le> n
     \<Longrightarrow> expression (Suc n) (foldr wrap_tier ts s) =
       map_option (apfst (\<lambda>e. foldr (\<lambda>t. Choose [tier_dims t] (tier_value_of t)) ts e)) (expression (Suc n - length ts) s)"
proof (induction ts arbitrary: n)
  case Nil
  then show ?case by (cases "expression (Suc n) s") (auto simp del: expression.simps)
next
  case (Cons t ts)
  then obtain m where n: "n = Suc m" "length ts + 3 \<le> m" by (cases n) auto
  then have i: "expression (Suc m) (foldr wrap_tier ts s) =
      map_option (apfst (\<lambda>e. foldr (\<lambda>t. Choose [tier_dims t] (tier_value_of t)) ts e)) (expression (Suc m - length ts) s)"
    using Cons by simp
  have "tier_dims t \<noteq> []" "3 \<le> Suc m" using Cons.prems n by auto
  then show ?case using expression_wrap [of t "Suc m"] i n
    by (simp add: option.map_comp comp_def apfst_compose del: expression.simps)
qed

lemma fallback_expression: "expression (Suc n) fallbackTier = Some (Tier unpriced, '''')"
  using tier_call_text [of "''unpriced''" 0 "''no matching variant''" "''''"] by (simp add: fallbackTier_def unpriced_def)

lemma parse_chain:
  assumes "\<forall>t\<in>set ts. tier_dims t \<noteq> []"
  shows "parse_billing (foldr wrap_tier ts fallbackTier) = Some (billing_of ts)"
proof -
  let ?s = "foldr wrap_tier ts fallbackTier"
  obtain n where n: "length ?s = Suc n" "length ts + 5 \<le> n" using chain_length [of ts] by (cases "length ?s") auto
  then obtain k where k: "Suc n - length ts = Suc k" by (cases "Suc n - length ts") auto
  have "expression (length ?s) ?s = Some (billing_of ts, '''')"
    using expression_chain [OF assms, of n] n k by (simp add: fallback_expression billing_of_def del: expression.simps)
  then show ?thesis by (simp add: parse_billing_def skip_def)
qed

lemma parse_chain_open:
  assumes "\<forall>t\<in>set us. tier_dims t \<noteq> []" "tier_dims t = []"
  shows "parse_billing (foldr wrap_tier (us @ t # vs) fallbackTier) = None"
proof -
  let ?s = "foldr wrap_tier (us @ t # vs) fallbackTier"
  let ?rest = "foldr wrap_tier vs fallbackTier"
  have l: "length us + length vs + 7 \<le> length ?s" using chain_length [of "us @ t # vs"] by simp
  obtain n where n: "length ?s = Suc n" "length us + 6 \<le> n" using l by (cases "length ?s") auto
  then obtain k where k: "Suc n - length us = Suc k" by (cases "Suc n - length us") auto
  have "wrap_tier t ?rest = call_text (dt_label t) (dt_fixed t) (dt_note t) @ '' : '' @ ?rest"
    using assms(2) tier_dims_guard [of t] by (simp add: wrap_tier_def Let_def)
  then have "expression (Suc k) (wrap_tier t ?rest) = Some (Tier (tier_value_of t), '' : '' @ ?rest)"
    by (simp add: tier_call_text tier_value_of_def)
  then have "\<exists>e. expression (length ?s) ?s = Some (e, '' : '' @ ?rest)"
    using expression_chain [OF assms(1), of n "wrap_tier t ?rest"] n k by (simp del: expression.simps)
  then show ?thesis by (auto simp: parse_billing_def skip_def)
qed

section \<open>The tiers of a model\<close>

definition variant_of :: "pricing_row \<Rightarrow> string \<times> string \<times> string" where
  "variant_of r = (pw_Resolution r, pw_Audio r, pw_Mode r)"

definition tier_variant :: "dsl_tier \<Rightarrow> string \<times> string \<times> string" where
  "tier_variant t = (dt_resolution t, dt_audio t, dt_mode t)"

lemma tier_variant_of [simp]: "tier_variant (tier_of r) = variant_of r"
  by (simp add: tier_variant_def variant_of_def tier_of_def)

lemma unique_tiers_snoc: "unique_tiers (rows @ [r]) = upsert_tier (tier_of r) (unique_tiers rows)"
  by (simp add: unique_tiers_def)

lemma upsert_buckets: "bucket ` set (upsert_tier t ts) = insert (bucket t) (bucket ` set ts)"
  by (auto simp: upsert_tier_def image_iff)

lemma upsert_distinct: "distinct (map bucket ts) \<Longrightarrow> distinct (map bucket (upsert_tier t ts))"
proof -
  assume d: "distinct (map bucket ts)"
  have "map bucket (map (\<lambda>u. if bucket u = bucket t then t else u) ts) = map bucket ts" by simp
  then show ?thesis using d by (simp add: upsert_tier_def del: map_map)
qed

lemma unique_buckets: "bucket ` set (unique_tiers rows) = (\<lambda>r. bucket (tier_of r)) ` set rows"
  by (induction rows rule: rev_induct) (simp add: unique_tiers_def, simp add: unique_tiers_snoc upsert_buckets)

lemma unique_distinct: "distinct (map bucket (unique_tiers rows))"
  by (induction rows rule: rev_induct) (simp add: unique_tiers_def, simp add: unique_tiers_snoc upsert_distinct)

lemma upsert_set: "set (upsert_tier t ts) \<subseteq> insert t (set ts)"
  by (auto simp: upsert_tier_def)

lemma unique_from_rows: "set (unique_tiers rows) \<subseteq> tier_of ` set rows"
proof (induction rows rule: rev_induct)
  case (snoc r rows)
  then show ?case using upsert_set [of "tier_of r" "unique_tiers rows"] by (auto simp: unique_tiers_snoc)
qed (simp add: unique_tiers_def)

lemma set_ordered [simp]: "set (ordered_tiers rows) = set (unique_tiers rows)"
  by (simp add: ordered_tiers_def)

lemma bucket_bare: "bucket t = ''||'' \<longleftrightarrow> tier_dims t = []"
proof
  assume "bucket t = ''||''"
  then have "length (bucket t) = 2" by simp
  then show "tier_dims t = []" by (simp add: bucket_def tier_dims_def)
qed (simp add: bucket_def tier_dims_def split: if_splits)

definition bare_row :: "pricing_row \<Rightarrow> bool" where
  "bare_row r \<longleftrightarrow> pw_Resolution r = '''' \<and> pw_Audio r = '''' \<and> pw_Mode r = ''''"

lemma bare_row_dims: "bare_row r \<longleftrightarrow> tier_dims (tier_of r) = []"
  by (simp add: bare_row_def tier_dims_def tier_of_def)

lemma bare_tier_iff: "(\<exists>t\<in>set (unique_tiers rows). tier_dims t = []) \<longleftrightarrow> (\<exists>r\<in>set rows. bare_row r)"
proof -
  have "(\<exists>t\<in>set (unique_tiers rows). tier_dims t = []) \<longleftrightarrow> ''||'' \<in> bucket ` set (unique_tiers rows)"
    by (auto simp: image_iff bucket_bare eq_commute [of "''||''"])
  also have "\<dots> \<longleftrightarrow> (\<exists>r\<in>set rows. bare_row r)"
    by (auto simp: unique_buckets image_iff bare_row_dims bucket_bare eq_commute [of "''||''"])
  finally show ?thesis .
qed

text \<open>
  The text a model's rows compile to is in the grammar of the contract, and reads back as
  its tiers in their order, exactly when every row has a dimension; a row without one, the
  flat price section 4.2 speaks of, makes the text unreadable.
\<close>

theorem billing_text_reads_back:
  assumes "rows \<noteq> []"
  shows "parse_billing (buildBillingExpr rows) =
    (if \<exists>r\<in>set rows. bare_row r then None else Some (billing_of (ordered_tiers rows)))"
proof (cases "\<exists>t\<in>set (ordered_tiers rows). tier_dims t = []")
  case True
  then obtain us t vs where "ordered_tiers rows = us @ t # vs" "tier_dims t = []" "\<forall>u\<in>set us. tier_dims u \<noteq> []"
    using split_list_first_prop [OF True] by blast
  moreover have "\<exists>r\<in>set rows. bare_row r" using True bare_tier_iff [of rows] by (simp only: set_ordered)
  ultimately show ?thesis using parse_chain_open [of us t vs] assms by (simp add: buildBillingExpr_def)
next
  case False
  then show ?thesis using parse_chain [of "ordered_tiers rows"] assms bare_tier_iff [of rows]
    by (simp add: buildBillingExpr_def)
qed


section \<open>Which price a request meets\<close>

text \<open>
  The reference: the variants a request for resolution, audio and mode meets, in the order of
  preference, and the last row of the first that is priced.
\<close>

definition request :: "string \<Rightarrow> string \<Rightarrow> string \<Rightarrow> string \<Rightarrow> string" where
  "request r a m d = (if d = ''resolution'' then r else if d = ''audio'' then a else if d = ''mode'' then m else '''')"

definition preferences :: "string \<Rightarrow> string \<Rightarrow> string \<Rightarrow> (string \<times> string \<times> string) list" where
  "preferences r a m = remdups [(r, a, ''''), (r, a, m), (r, '''', ''''), (r, '''', m),
     ('''', a, ''''), ('''', a, m), ('''', '''', ''''), ('''', '''', m)]"

fun preferred :: "pricing_row list \<Rightarrow> (string \<times> string \<times> string) list \<Rightarrow> tier_value" where
  "preferred rows [] = unpriced"
| "preferred rows (k # ks) = (case find (\<lambda>r. variant_of r = k) (rev rows) of
     Some r \<Rightarrow> tier_value_of (tier_of r)
   | None \<Rightarrow> preferred rows ks)"

definition known_audio :: "string \<Rightarrow> bool" where
  "known_audio a \<longleftrightarrow> a \<in> {'''', ''on'', ''off'', ''voice_control''}"

definition clean_row :: "pricing_row \<Rightarrow> bool" where
  "clean_row r \<longleftrightarrow> \<not> bare_row r \<and> known_audio (pw_Audio r) \<and>
     CHR ''|'' \<notin> set (pw_Resolution r @ pw_Audio r @ pw_Mode r)"

lemma charge_billing_of:
  "charge req (billing_of ts) =
     (case find (\<lambda>t. list_all (has_holds req) (tier_dims t)) ts of None \<Rightarrow> unpriced | Some t \<Rightarrow> tier_value_of t)"
  by (induction ts) (auto simp: billing_of_def)

lemma dims_hold:
  "list_all (has_holds (request r a m)) (tier_dims t) \<longleftrightarrow> tier_variant t \<in> set (preferences r a m)"
  by (auto simp: tier_dims_def has_holds_def request_def tier_variant_def preferences_def)

lemma bar_inj: "CHR ''|'' \<notin> set a \<Longrightarrow> CHR ''|'' \<notin> set b \<Longrightarrow> a @ ''|'' @ x = b @ ''|'' @ y \<longleftrightarrow> a = b \<and> x = y"
proof (induction a arbitrary: b)
  case Nil
  then show ?case by (cases b) auto
next
  case (Cons c a)
  then show ?case by (cases b) auto
qed

lemma bucket_inj: "clean_row p \<Longrightarrow> clean_row r \<Longrightarrow> bucket (tier_of p) = bucket (tier_of r) \<longleftrightarrow> variant_of p = variant_of r"
  using bar_inj [of "pw_Resolution p" "pw_Resolution r"] bar_inj [of "pw_Audio p" "pw_Audio r" "pw_Mode p" "pw_Mode r"]
  by (simp add: clean_row_def bucket_def tier_of_def variant_of_def)

lemma last_in_unique:
  "\<forall>y\<in>set ys. bucket (tier_of y) \<noteq> bucket (tier_of r) \<Longrightarrow> tier_of r \<in> set (unique_tiers (xs @ r # ys))"
proof (induction ys rule: rev_induct)
  case Nil
  then show ?case by (auto simp: unique_tiers_snoc upsert_tier_def)
next
  case (snoc y ys)
  then have "tier_of r \<in> set (unique_tiers (xs @ r # ys))" "bucket (tier_of r) \<noteq> bucket (tier_of y)" by auto
  then show ?case using unique_tiers_snoc [of "xs @ r # ys" y] by (auto simp: upsert_tier_def image_iff)
qed

lemma find_only: "t \<in> set ts \<Longrightarrow> P t \<Longrightarrow> \<forall>u\<in>set ts. P u \<longrightarrow> u = t \<Longrightarrow> find P ts = Some t"
proof (induction ts)
  case (Cons a ts)
  show ?case
  proof (cases "P a")
    case True
    then have "a = t" using Cons.prems(3) by (meson list.set_intros(1))
    then show ?thesis using True by simp
  next
    case False
    then have "t \<in> set ts" using Cons.prems(1,2) by auto
    moreover have "\<forall>u\<in>set ts. P u \<longrightarrow> u = t" using Cons.prems(3) by (meson list.set_intros(2))
    ultimately have "find P ts = Some t" using Cons.IH Cons.prems(2) by blast
    then show ?thesis using False by simp
  qed
qed simp

lemma find_app: "find P (xs @ ys) = (case find P xs of None \<Rightarrow> find P ys | Some x \<Rightarrow> Some x)"
  by (induction xs) auto

lemma find_last: "P r \<Longrightarrow> \<forall>y\<in>set ys. \<not> P y \<Longrightarrow> find P (rev (xs @ r # ys)) = Some r"
proof -
  assume P: "P r" "\<forall>y\<in>set ys. \<not> P y"
  then have "find P (rev ys) = None" by (auto simp: find_None_iff)
  then show ?thesis using P(1) by (simp add: find_app)
qed

lemma unique_find:
  assumes "\<forall>r\<in>set rows. clean_row r"
  shows "find (\<lambda>t. tier_variant t = k) (ordered_tiers rows) = map_option tier_of (find (\<lambda>r. variant_of r = k) (rev rows))"
proof (cases "\<exists>r\<in>set rows. variant_of r = k")
  case True
  then obtain xs r ys where r: "rows = xs @ r # ys" "variant_of r = k" "\<forall>y\<in>set ys. variant_of y \<noteq> k"
    using split_list_last_prop [OF True] by blast
  have b: "\<forall>p\<in>set rows. bucket (tier_of p) = bucket (tier_of r) \<longleftrightarrow> variant_of p = k"
    using assms r bucket_inj [of _ r] by auto
  then have t: "tier_of r \<in> set (unique_tiers rows)" using last_in_unique [of ys r xs] r by auto
  have inj: "inj_on bucket (set (unique_tiers rows))" using unique_distinct [of rows] by (simp add: distinct_map)
  have only: "u = tier_of r" if u: "u \<in> set (unique_tiers rows)" "tier_variant u = k" for u
  proof -
    obtain p where p: "p \<in> set rows" "u = tier_of p" using u(1) unique_from_rows by blast
    then have "bucket u = bucket (tier_of r)" using b u(2) by (metis tier_variant_of)
    then show ?thesis using inj_onD [OF inj _ u(1) t] by blast
  qed
  then have "find (\<lambda>t. tier_variant t = k) (ordered_tiers rows) = Some (tier_of r)"
    using find_only [of "tier_of r" "ordered_tiers rows" "\<lambda>t. tier_variant t = k"] t r(2) only by (metis set_ordered tier_variant_of)
  then show ?thesis using find_last [of "\<lambda>r. variant_of r = k" r ys xs] r by (metis option.simps(9))
next
  case False
  then have "\<forall>t\<in>set (ordered_tiers rows). tier_variant t \<noteq> k" using unique_from_rows [of rows] by force
  then have "find (\<lambda>t. tier_variant t = k) (ordered_tiers rows) = None" by (auto simp: find_None_iff)
  moreover have "find (\<lambda>r. variant_of r = k) (rev rows) = None" using False by (auto simp: find_None_iff)
  ultimately show ?thesis by simp
qed

text \<open>The first of a sorted list that is one of several, against trying the several in turn.\<close>

lemma find_least:
  fixes rank :: "'a \<Rightarrow> 'b::linorder"
  assumes "sorted (map rank ts)" "find (\<lambda>t. f t = k) ts = Some t"
    and "\<forall>u\<in>set ts. f u \<in> K \<longrightarrow> f u \<noteq> k \<longrightarrow> rank t < rank u"
  shows "find (\<lambda>t. f t \<in> insert k K) ts = Some t"
  using assms
proof (induction ts)
  case (Cons a ts)
  show ?case
  proof (cases "f a = k")
    case False
    then have t: "find (\<lambda>t. f t = k) ts = Some t" using Cons.prems(2) by simp
    then have "t \<in> set ts" by (auto simp: find_Some_iff)
    then have "rank a \<le> rank t" using Cons.prems(1) by simp
    then have "f a \<notin> K" using Cons.prems(3) False by fastforce
    then show ?thesis using Cons t False by simp
  qed (use Cons.prems in simp)
qed simp

fun first_of :: "('a \<Rightarrow> 'k) \<Rightarrow> 'a list \<Rightarrow> 'k list \<Rightarrow> 'a option" where
  "first_of f ts [] = None"
| "first_of f ts (k # ks) = (case find (\<lambda>t. f t = k) ts of Some t \<Rightarrow> Some t | None \<Rightarrow> first_of f ts ks)"

lemma find_first_of:
  fixes rank :: "'a \<Rightarrow> 'b::linorder"
  assumes "sorted (map rank ts)"
    and "sorted_wrt (\<lambda>k k'. \<forall>t\<in>set ts. \<forall>u\<in>set ts. f t = k \<longrightarrow> f u = k' \<longrightarrow> k \<noteq> k' \<longrightarrow> rank t < rank u) ks"
  shows "find (\<lambda>t. f t \<in> set ks) ts = first_of f ts ks"
  using assms(2)
proof (induction ks)
  case Nil
  show ?case by (simp add: find_None_iff)
next
  case (Cons k ks)
  show ?case
  proof (cases "find (\<lambda>t. f t = k) ts")
    case None
    then have n: "\<forall>t\<in>set ts. f t \<noteq> k" by (auto simp: find_None_iff)
    then have "find (\<lambda>t. f t \<in> set (k # ks)) ts = find (\<lambda>t. f t \<in> set ks) ts" by (intro find_cong) auto
    then show ?thesis using Cons None by simp
  next
    case (Some t)
    then have "t \<in> set ts" "f t = k" by (auto simp: find_Some_iff)
    then have "\<forall>u\<in>set ts. f u \<in> set ks \<longrightarrow> f u \<noteq> k \<longrightarrow> rank t < rank u" using Cons.prems by auto
    then show ?thesis using find_least [OF assms(1) Some] Some by simp
  qed
qed

lemma audioRank_known: "known_audio a \<Longrightarrow> a \<noteq> '''' \<Longrightarrow> 0 < audioRank a"
  by (auto simp: known_audio_def audioRank_def)

lemma preferences_ranked:
  assumes "\<forall>t\<in>set ts. known_audio (dt_audio t)"
  shows "sorted_wrt (\<lambda>k k'. \<forall>t\<in>set ts. \<forall>u\<in>set ts. tier_variant t = k \<longrightarrow> tier_variant u = k' \<longrightarrow> k \<noteq> k'
           \<longrightarrow> tier_key t < tier_key u) (preferences r a m)"
proof -
  have "0 < audioRank a" if "t \<in> set ts" "a = dt_audio t" "a \<noteq> ''''" for t
    using assms that audioRank_known by blast
  moreover have "audioRank '''' = 0" by (simp add: audioRank_def)
  moreover have "m \<noteq> '''' \<Longrightarrow> '''' < m" by (cases m) simp_all
  ultimately show ?thesis
    by (cases "r = ''''"; cases "a = ''''"; cases "m = ''''")
      (auto simp: preferences_def tier_variant_def tier_key_def less_prod_def)
qed

lemma preferred_first_of:
  assumes "\<forall>r\<in>set rows. clean_row r"
  shows "(case first_of tier_variant (ordered_tiers rows) ks of None \<Rightarrow> unpriced | Some t \<Rightarrow> tier_value_of t) = preferred rows ks"
proof (induction ks)
  case (Cons k ks)
  then show ?case using unique_find [OF assms, of k] by (cases "find (\<lambda>r. variant_of r = k) (rev rows)") simp_all
qed simp

text \<open>
  C0. What the compiled text of a model's rows means in the language of the contract.  When the
  dimensions of all rows are clean (some dimension, an audio value the code ranks, no
  separator) it is an expression that charges every request as the reference does: same
  resolution before none, same audio before none, but a tier without a mode before the tier
  of the very mode asked for; a request that meets no tier is unpriced.  When some row has
  no dimension, which is the flat price of section 4.2, the text is no expression at all.
\<close>

theorem billing_expr_meaning:
  assumes "rows \<noteq> []"
  shows "((\<exists>r\<in>set rows. bare_row r) \<longrightarrow> parse_billing (buildBillingExpr rows) = None) \<and>
    ((\<forall>r\<in>set rows. clean_row r) \<longrightarrow> (\<exists>e. parse_billing (buildBillingExpr rows) = Some e \<and>
       (\<forall>r a m. charge (request r a m) e = preferred rows (preferences r a m))))"
proof (intro conjI impI)
  assume "\<exists>r\<in>set rows. bare_row r"
  then show "parse_billing (buildBillingExpr rows) = None" using billing_text_reads_back [OF assms] by simp
next
  assume clean: "\<forall>r\<in>set rows. clean_row r"
  then have "\<not> (\<exists>r\<in>set rows. bare_row r)" by (auto simp: clean_row_def)
  then have "parse_billing (buildBillingExpr rows) = Some (billing_of (ordered_tiers rows))"
    using billing_text_reads_back [OF assms] by simp
  moreover have "charge (request r a m) (billing_of (ordered_tiers rows)) = preferred rows (preferences r a m)" for r a m
  proof -
    have k: "\<forall>t\<in>set (ordered_tiers rows). known_audio (dt_audio t)"
      using unique_from_rows [of rows] clean by (fastforce simp: clean_row_def tier_of_def)
    have s: "sorted (map tier_key (ordered_tiers rows))" by (simp add: ordered_tiers_def)
    show ?thesis
      using find_first_of [OF s preferences_ranked [OF k, of r a m]] preferred_first_of [OF clean, of "preferences r a m"]
      by (simp add: charge_billing_of dims_hold)
  qed
  ultimately show "\<exists>e. parse_billing (buildBillingExpr rows) = Some e \<and>
      (\<forall>r a m. charge (request r a m) e = preferred rows (preferences r a m))" by blast
qed

definition image_row :: "string \<Rightarrow> int \<Rightarrow> pricing_row" where
  "image_row m n = \<lparr> pw_ModelAlias = ''img'', pw_Unit = ''per_request'', pw_PriceMicros = n, pw_OfficialPriceMicros = n,
     pw_Resolution = ''1k'', pw_DurationSeconds = 0, pw_Mode = m, pw_Audio = '''' \<rparr>"

text \<open>A request for mode \<open>high\<close> meets the plain tier; a flat price breaks the text.\<close>

theorem billing_expr_meaning_witness:
  "(\<exists>e. parse_billing (buildBillingExpr [image_row ''high'' 90, image_row '''' 10]) = Some e \<and>
     charge (request ''1k'' '''' ''high'') e = (''1k'', 10, ''per_request'') \<and>
     charge (request ''4k'' '''' ''high'') e = unpriced) \<and>
   parse_billing (buildBillingExpr [(image_row '''' 10)\<lparr> pw_Resolution := '''' \<rparr>]) = None"
proof -
  let ?rows = "[image_row ''high'' 90, image_row '''' 10]" and ?flat = "[(image_row '''' 10)\<lparr> pw_Resolution := '''' \<rparr>]"
  have c: "?rows \<noteq> []" "\<forall>r\<in>set ?rows. clean_row r"
    by (simp_all add: image_row_def clean_row_def bare_row_def known_audio_def)
  have p: "preferred ?rows (preferences ''1k'' '''' ''high'') = (''1k'', 10, ''per_request'')"
    by (simp add: preferences_def image_row_def variant_of_def tier_value_of_def tier_of_def
        tierLabelFrom_def folded_def tier_note_def)
  have u: "preferred ?rows (preferences ''4k'' '''' ''high'') = unpriced"
    by (simp add: preferences_def image_row_def variant_of_def)
  have f: "?flat \<noteq> []" "\<exists>r\<in>set ?flat. bare_row r" by (simp_all add: image_row_def bare_row_def)
  have "\<exists>e. parse_billing (buildBillingExpr ?rows) = Some e \<and>
      charge (request ''1k'' '''' ''high'') e = (''1k'', 10, ''per_request'') \<and>
      charge (request ''4k'' '''' ''high'') e = unpriced"
    using conjunct2 [OF billing_expr_meaning [OF c(1)]] c(2) p u by metis
  then show ?thesis using billing_expr_meaning [OF f(1)] f(2) by blast
qed


section \<open>The merge\<close>

definition row_variant :: "pricing_row \<Rightarrow> variant" where
  "row_variant w = (pw_ModelAlias w, pw_Resolution w, pw_Audio w, pw_Mode w, pw_Unit w)"

lemma filter_map_filter_key:
  "distinct ks \<Longrightarrow> (\<And>j w. g j = Some w \<Longrightarrow> h w = j)
     \<Longrightarrow> filter (\<lambda>w. h w = k) (List.map_filter g ks) = (if k \<in> set ks then (case g k of None \<Rightarrow> [] | Some w \<Rightarrow> [w]) else [])"
proof (induction ks)
  case (Cons j ks)
  then show ?case by (cases "g j") (auto simp: List.map_filter_simps)
qed (simp add: List.map_filter_simps)

lemma observation_listed:
  "k \<in> set (remdups (map observation_key (filter (usable_observation flt) ps))) \<longleftrightarrow> observationByKey flt ps k \<noteq> None"
  by (auto simp: observationByKey_def find_None_iff)

lemma decision_listed:
  "k \<in> set (remdups (map decision_key (filter (usable_decision flt) ds))) \<longleftrightarrow> overrideByKey flt ds k \<noteq> None"
  by (auto simp: overrideByKey_def find_None_iff)

lemma observed_row_variant: "map_option observed_row (observationByKey flt ps k) = Some w \<Longrightarrow> row_variant w = k"
  by (auto simp: observationByKey_def find_Some_iff row_variant_def observed_row_def observation_key_def)

lemma override_row_variant:
  "map_option (override_pricing_row ob) (overrideByKey flt ds k) = Some w \<Longrightarrow> row_variant w = k"
  by (auto simp: overrideByKey_def find_Some_iff row_variant_def override_pricing_row_def decision_key_def)

text \<open>
  Whatever order the two maps are walked in, a variant has at most one row in the feed:
  the operator's last usable decision if there is one, beside the official price of the first
  usable observation, else that observation.  Nothing estimated or unpriced is published.
\<close>

theorem feed_has_one_row_per_variant:
  assumes "\<And>ks. distinct ks \<Longrightarrow> distinct (walk1 ks) \<and> set (walk1 ks) = set ks"
    and "\<And>ks. distinct ks \<Longrightarrow> distinct (walk2 ks) \<and> set (walk2 ks) = set ks"
  shows "filter (\<lambda>w. row_variant w = k) (mergeObservationsAndOverrides walk1 walk2 ps ds flt) =
    (let published = find (\<lambda>p. opo_ModelAlias p \<noteq> '''' \<and> 0 < opo_PriceMicros p \<and> \<not> opo_Estimated p \<and>
           alias_wanted flt (opo_ModelAlias p) \<and> observation_key p = k) ps
     in case find (\<lambda>d. mpd_ModelAlias d \<noteq> '''' \<and> 0 < mpd_PriceMicros d \<and>
           alias_wanted flt (mpd_ModelAlias d) \<and> decision_key d = k) (rev ds) of
       Some d \<Rightarrow> [override_pricing_row published d]
     | None \<Rightarrow> (case published of Some p \<Rightarrow> [observed_row p] | None \<Rightarrow> []))"
proof -
  define ks1 where "ks1 = filter (\<lambda>k. overrideByKey flt ds k = None)
    (walk1 (remdups (map observation_key (filter (usable_observation flt) ps))))"
  define ks2 where "ks2 = filter (\<lambda>k. k \<notin> set ks1)
    (walk2 (remdups (map decision_key (filter (usable_decision flt) ds))))"
  have s1: "set (walk1 (remdups (map observation_key (filter (usable_observation flt) ps))))
      = {k. observationByKey flt ps k \<noteq> None}"
    using assms(1) observation_listed [of _ flt ps] by (metis (mono_tags) Collect_cong Collect_mem_eq distinct_remdups)
  have s2: "set (walk2 (remdups (map decision_key (filter (usable_decision flt) ds)))) = {k. overrideByKey flt ds k \<noteq> None}"
    using assms(2) decision_listed [of _ flt ds] by (metis (mono_tags) Collect_cong Collect_mem_eq distinct_remdups)
  have d: "distinct ks1" "distinct ks2" using assms by (simp_all add: ks1_def ks2_def)
  have k1: "k \<in> set ks1 \<longleftrightarrow> observationByKey flt ps k \<noteq> None \<and> overrideByKey flt ds k = None"
    and k2: "k \<in> set ks2 \<longleftrightarrow> overrideByKey flt ds k \<noteq> None"
    using s1 s2 by (auto simp: ks1_def ks2_def)
  have m: "mergeObservationsAndOverrides walk1 walk2 ps ds flt =
      List.map_filter (\<lambda>k. map_option observed_row (observationByKey flt ps k)) ks1 @
      List.map_filter (\<lambda>k. map_option (override_pricing_row (observationByKey flt ps k)) (overrideByKey flt ds k)) ks2"
    by (simp add: mergeObservationsAndOverrides_def ks1_def ks2_def Let_def)
  have fold_keys:
    "find (\<lambda>p. opo_ModelAlias p \<noteq> '''' \<and> 0 < opo_PriceMicros p \<and> \<not> opo_Estimated p \<and>
       alias_wanted flt (opo_ModelAlias p) \<and> observation_key p = k) ps = observationByKey flt ps k"
    "find (\<lambda>d. mpd_ModelAlias d \<noteq> '''' \<and> 0 < mpd_PriceMicros d \<and>
       alias_wanted flt (mpd_ModelAlias d) \<and> decision_key d = k) (rev ds) = overrideByKey flt ds k"
    by (simp_all add: observationByKey_def overrideByKey_def usable_observation_def usable_decision_def conj_ac)
  have f1: "filter (\<lambda>w. row_variant w = k) (List.map_filter (\<lambda>k. map_option observed_row (observationByKey flt ps k)) ks1)
      = (if k \<in> set ks1 then (case map_option observed_row (observationByKey flt ps k) of None \<Rightarrow> [] | Some w \<Rightarrow> [w]) else [])"
    by (rule filter_map_filter_key [OF d(1)]) (erule observed_row_variant)
  have f2: "filter (\<lambda>w. row_variant w = k) (List.map_filter
        (\<lambda>k. map_option (override_pricing_row (observationByKey flt ps k)) (overrideByKey flt ds k)) ks2)
      = (if k \<in> set ks2 then (case map_option (override_pricing_row (observationByKey flt ps k)) (overrideByKey flt ds k)
          of None \<Rightarrow> [] | Some w \<Rightarrow> [w]) else [])"
    by (rule filter_map_filter_key [OF d(2)]) (erule override_row_variant)
  show ?thesis
    unfolding m filter_append f1 f2 fold_keys Let_def
    using k1 k2 by (cases "overrideByKey flt ds k"; cases "observationByKey flt ps k") simp_all
qed

end
