(* ===== verification/Spec2Isabelle.thy ===== *)
theory Spec2Isabelle
  imports Bearer ProxyProps ClientProps CostCatalog Pipeline RateLimit Webhook Access Refresher Alerts Reconcile PricingStore Registry CostSync SoraProps Downstream
begin

text \<open>
  higgsgo is a gateway that serves an OpenAI-style API from a pool of upstream accounts.
  A request is authenticated by an API key (\<open>api/middleware\<close>), picks and locks an account
  of the pool (\<open>core/proxy\<close> over \<open>adapters/storage/sqlite\<close>), creates an upstream job
  (\<open>core/upstream\<close>), and is followed to its end by the waiting request or by the poll worker
  (\<open>core/pollworker\<close>).  The end is claimed once, billed once (\<open>core/metering\<close>) and announced
  (\<open>core/webhook\<close>).  The failover controller (\<open>core/failover\<close>) takes failing accounts out of
  the pool and the recoverer brings them back; tickers refresh balances, prices and counters
  and raise alarms.  Paths below are relative to \<open>src/internal\<close>.

  \<^bold>\<open>Conventions.\<close>  A table is a list of row records in insertion order with a key; a query is
  a filter and a stable sort of it; an operation takes the rows and returns the answer with
  the rows after it.  Whether the database fails is an argument (\<open>gerror option\<close>, or a
  function of the step that fails), so every error branch is a branch of the definition.  A
  fallible result is \<open>Inl\<close> of a Go error (sentinels, wrapping, notes and typed errors,
  \<open>Prelude.gerror\<close>) or \<open>Inr\<close>.  Go's \<open>int64\<close> is \<open>int\<close> with \<open>wrap64\<close> where an operation may leave
  the range; \<open>float64\<close> is a rational rounded to 53 bits (\<open>Float64\<close>).  A time is \<open>None\<close> for the
  zero time or nanoseconds, a text column keeps its seconds.  A Go map whose order the code
  leaves open is an association list.  A component that calls another calls that component's
  definition.

  \<^bold>\<open>Theories and the code they model.\<close>
  \<^item> \<open>Prelude\<close>, \<open>Domain\<close>, \<open>Calendar\<close>, \<open>Instants\<close>, \<open>Float64\<close>, \<open>Json\<close>: shared vocabulary; the types
    of \<open>domain\<close>; what the code uses of the standard library's calendar, time parsing, float
    arithmetic and \<open>encoding/json\<close>.
  \<^item> \<open>Interfaces\<close>: the contracts between components as locales (a counter of slots, a store with
    a compare-and-swap, a settings store, a bearer check); \<open>Alerts\<close> adds the two gates that
    alarms pass.  Each is interpreted on the model where it is provided: \<open>PickLock\<close>,
    \<open>JobStore\<close>, \<open>Settings\<close>, \<open>Bearer\<close>, \<open>Alerts\<close>, \<open>Reconcile\<close>.
  \<^item> \<open>AccountStore\<close>, \<open>PickLock\<close> (\<open>account_store.go\<close>): the accounts with every statement; the
    pick, its WHERE clause, strategies, caps and the lock.  The order of a strategy that ends in
    \<open>RANDOM()\<close> takes its random keys as a parameter.
  \<^item> \<open>JobStore\<close>, \<open>KeyStore\<close>, \<open>GroupStore\<close>, \<open>UsageStore\<close>, \<open>FailoverStore\<close>, \<open>PricingStore\<close>: the other
    tables (\<open>*_store.go\<close>, \<open>purchase_batches.go\<close>), with \<open>core/apikey\<close> and
    \<open>core/pricingfloor/calculator.go\<close>.
  \<^item> \<open>Settings\<close>, \<open>Bearer\<close>: \<open>settings_store.go\<close>, \<open>core/loadbalance\<close>, \<open>core/bearer/manager.go\<close> and the
    admin check of \<open>api/middleware/auth.go\<close>.
  \<^item> \<open>Failover\<close>, \<open>Slots\<close>: \<open>core/failover\<close> (controller, outage guard, recoverer, admin actions).
  \<^item> \<open>World\<close>, \<open>Metering\<close>, \<open>PollWorker\<close>, \<open>RequestBody\<close>, \<open>Proxy\<close>, \<open>ProxyProps\<close>: all tables in one record
    \<open>db\<close>, and the pipelines over it.  \<open>Generate\<close> is split where it waits: before the wait,
    and its end, so that a poll may come between them.
  \<^item> \<open>Http\<close>, \<open>Jwt\<close>, \<open>Client\<close>, \<open>ClientData\<close>, \<open>CostCatalog\<close>, \<open>ClientProps\<close>, \<open>Pipeline\<close>: \<open>core/jwt\<close> and
    \<open>core/upstream/client.go\<close> over an environment \<open>env\<close> that answers requests from the history.
  \<^item> \<open>RateLimit\<close>, \<open>Access\<close>: \<open>api/middleware\<close> (rate limit, API key, playground, CORS) and the
    route chains of \<open>api/server.go\<close>.
  \<^item> \<open>Webhook\<close>: the dispatcher as a step relation of its goroutines, with slots, counters and
    shutdown.
  \<^item> \<open>Refresher\<close>, \<open>Alerts\<close>, \<open>Reconcile\<close>, \<open>CostSync\<close>: the passes of the tickers \<open>core/refresher\<close>,
    \<open>claimer\<close>, \<open>monthreset\<close>, \<open>replenish\<close>, \<open>invoicewatch\<close>, \<open>creditrecon\<close>, \<open>promowatch\<close>, \<open>costsync\<close>.
  \<^item> \<open>Registry\<close>, \<open>CatalogRef\<close>: \<open>adapters/modelregistry/jsonstatic\<close> over a file tree, and
    \<open>model_override_store.go\<close>.

  \<^bold>\<open>What the groups of lemmas show.\<close>  The pool: a pick is sound (gates, caps, group, plan)
  and complete, and keeps the caps.  The end of a job: one winner, the effects of the
  winner only, billing once, ledgers that agree, whatever the order of the observers; what
  does go wrong when they overlap is stated too.  Charges at float width.  Access: exactly
  the requests with a live key get in, revoked keys never.  Rate limit: dropping idle
  buckets is not observable, bursts are bounded.  The webhook dispatcher refines a contract and
  drains.  The client: at most two sends per call, polling ends.  Failover: what each kind of
  evidence does.  Prices: what the registry serves is what is stored.  Registries are
  well-formed after any history.  Alarms: gates are spaced and nothing due goes unheard.

  \<^bold>\<open>Bounds and fuel.\<close>  The JSON parser runs on fuel \<open>2 * length + 1\<close>, shown to be enough for
  every document (\<open>Json.parse_json_fuel\<close>); polling on the number of intervals its deadline
  holds, plus two (\<open>PollUntilTerminal_ends\<close> shows that this suffices); every other recursion is
  structural or has a measure.

  \<^bold>\<open>Parameters.\<close>  The network (answers, clock, context, address checks, header order), the
  file tree, SQLite's failures and random keys, SHA-256 and HMAC, random identifiers, the
  pattern matcher of the classification rules, the zone offset of local times.

  \<^bold>\<open>Not modelled.\<close>  SQLite itself, goroutine scheduling below the steps of the webhook and
  the split of \<open>Generate\<close>, logging.  The HTTP handlers that only move fields between JSON and
  the operations above, the command line and process wiring, the configuration file, the
  registration robot and its browser, the TLS fingerprint client: they hold no state of
  their own that the operations above do not cover, or drive external programs.
\<close>

end
